(* ===== verification/Prelude.thy ===== *)
theory Prelude
  imports Main "HOL-Library.Word"
begin

text \<open>
  Shared vocabulary of the development: the parts of JavaScript that the compiler's
  TypeScript code relies on and that HOL does not have under the same name.

  \<^item> Exceptions are values: \<open>'a result\<close> is \<open>js_error + 'a\<close>, \<open>bind_r\<close> runs the
    next step only after a normal return and \<open>fold_r\<close> is a \<open>for\<close> loop whose body may
    throw.
  \<^item> A JavaScript string is a list of UTF-16 code units (\<open>js_string\<close>).
  \<^item> The bitwise operators first convert their operands with ToInt32 and yield signed
    32-bit results (\<open>to_int32\<close>, \<open>js_and\<close>, \<open>js_or\<close>, \<open>js_shl\<close>, \<open>js_shr\<close>).
  \<^item> A JavaScript \<open>Map\<close> keeps its keys in insertion order (\<open>map_set\<close>, \<open>map_get\<close>).
\<close>

unbundle bit_operations_syntax

named_theorems js_simps \<comment> \<open>equations of the JavaScript primitives\<close>
named_theorems bit_ext \<comment> \<open>bitwise characterisations, for proofs by bit extensionality\<close>

subsection \<open>Exceptions\<close>

datatype js_error =
    JSError string
  | JSRangeError
  | JSTypeError \<comment> \<open>a property of \<open>undefined\<close> or \<open>null\<close> was accessed\<close>
  | JSDiverges \<comment> \<open>a loop of the code that does not end\<close>

type_synonym 'a result = "js_error + 'a"

definition bind_r :: "'a result \<Rightarrow> ('a \<Rightarrow> 'b result) \<Rightarrow> 'b result" where
  "bind_r x f = (case x of Inl e \<Rightarrow> Inl e | Inr a \<Rightarrow> f a)"

primrec fold_r :: "('a \<Rightarrow> 's \<Rightarrow> 's result) \<Rightarrow> 'a list \<Rightarrow> 's \<Rightarrow> 's result" where
  "fold_r f [] s = Inr s"
| "fold_r f (x # xs) s = bind_r (f x s) (fold_r f xs)"

text \<open>\<open>map\<close> and \<open>some\<close> with a callback that may throw.\<close>

primrec map_r :: "('a \<Rightarrow> 'b result) \<Rightarrow> 'a list \<Rightarrow> 'b list result" where
  "map_r f [] = Inr []"
| "map_r f (x # xs) = bind_r (f x) (\<lambda>y. bind_r (map_r f xs) (\<lambda>ys. Inr (y # ys)))"

primrec some_r :: "('a \<Rightarrow> bool result) \<Rightarrow> 'a list \<Rightarrow> bool result" where
  "some_r f [] = Inr False"
| "some_r f (x # xs) = bind_r (f x) (\<lambda>b. if b then Inr True else some_r f xs)"

subsection \<open>Arrays\<close>

text \<open>The index of the first element with a property, and the JavaScript result of \<open>findIndex\<close>.\<close>

fun find_index :: "('a \<Rightarrow> bool) \<Rightarrow> 'a list \<Rightarrow> nat option" where
  "find_index P [] = None"
| "find_index P (x # xs) = (if P x then Some 0 else map_option Suc (find_index P xs))"

definition js_findIndex :: "('a \<Rightarrow> bool) \<Rightarrow> 'a list \<Rightarrow> int" where
  "js_findIndex P xs = (case find_index P xs of Some i \<Rightarrow> int i | None \<Rightarrow> -1)"

text \<open>Reading an array at a number: \<open>undefined\<close> outside of it, also at a negative index.\<close>

definition js_index :: "'a list \<Rightarrow> int \<Rightarrow> 'a option" where
  "js_index xs i = (if 0 \<le> i \<and> nat i < length xs then Some (xs ! nat i) else None)"

text \<open>Writing an array that may have holes: a write past the end extends it with holes.\<close>

definition js_array_set :: "'a option list \<Rightarrow> nat \<Rightarrow> 'a \<Rightarrow> 'a option list" where
  "js_array_set xs i v =
     (if i < length xs then xs[i := Some v] else xs @ replicate (i - length xs) None @ [Some v])"

definition js_array_get :: "'a option list \<Rightarrow> nat \<Rightarrow> 'a option" where
  "js_array_get xs i = (if i < length xs then xs ! i else None)"

subsection \<open>Strings\<close>

type_synonym js_string = "16 word list"

text \<open>An ASCII literal of the source as its code units.\<close>

definition js_lit :: "string \<Rightarrow> js_string" where
  "js_lit s = map of_char s"

text \<open>\<open>join\<close> of an array of strings.\<close>

fun js_join :: "js_string \<Rightarrow> js_string list \<Rightarrow> js_string" where
  "js_join sep [] = []"
| "js_join sep [s] = s"
| "js_join sep (s # t # ss) = s @ sep @ js_join sep (t # ss)"

text \<open>A number in a template string.\<close>

fun decimal :: "nat \<Rightarrow> string" where
  "decimal n = (if n < 10 then [char_of (48 + n)] else decimal (n div 10) @ [char_of (48 + n mod 10)])"

declare decimal.simps [simp del]

definition js_int :: "int \<Rightarrow> js_string" where
  "js_int i = js_lit ((if i < 0 then ''-'' else []) @ decimal (nat (abs i)))"

subsection \<open>32-bit operators\<close>

definition to_int32 :: "int \<Rightarrow> int" where
  "to_int32 n = signed_take_bit 31 n"

definition js_and :: "int \<Rightarrow> int \<Rightarrow> int" where
  "js_and a b = to_int32 a AND to_int32 b"

definition js_or :: "int \<Rightarrow> int \<Rightarrow> int" where
  "js_or a b = to_int32 a OR to_int32 b"

definition js_shl :: "int \<Rightarrow> nat \<Rightarrow> int" where
  "js_shl a n = to_int32 (push_bit n (to_int32 a))"

definition js_shr :: "int \<Rightarrow> nat \<Rightarrow> int" where
  "js_shr a n = drop_bit n (to_int32 a)"

subsection \<open>Maps in insertion order\<close>

type_synonym ('k, 'v) js_map = "('k \<times> 'v) list"

abbreviation map_get :: "('k, 'v) js_map \<Rightarrow> 'k \<Rightarrow> 'v option" where
  "map_get m k \<equiv> map_of m k"

definition map_has :: "('k, 'v) js_map \<Rightarrow> 'k \<Rightarrow> bool" where
  "map_has m k = (k \<in> fst ` set m)"

fun map_set :: "'k \<Rightarrow> 'v \<Rightarrow> ('k, 'v) js_map \<Rightarrow> ('k, 'v) js_map" where
  "map_set k v [] = [(k, v)]"
| "map_set k v ((k', v') # m) = (if k = k' then (k', v) # m else (k', v') # map_set k v m)"

subsection \<open>Lemmas: exceptions and loops\<close>

lemma bind_r_simps [simp]:
  "bind_r (Inl e) f = Inl e"
  "bind_r (Inr a) f = f a"
  by (simp_all add: bind_r_def)

lemma bind_r_Inr_iff: "bind_r x f = Inr b \<longleftrightarrow> (\<exists>a. x = Inr a \<and> f a = Inr b)"
  by (cases x) simp_all

lemma bind_r_Inr_E [elim!]:
  assumes "bind_r x f = Inr b"
  obtains a where "x = Inr a" and "f a = Inr b"
  using assms by (auto simp: bind_r_Inr_iff)

lemma fold_r_append: "fold_r f (xs @ ys) s = bind_r (fold_r f xs s) (fold_r f ys)"
proof (induction xs arbitrary: s)
  case Nil
  show ?case by simp
next
  case (Cons x xs)
  then show ?case by (cases "f x s") simp_all
qed

lemma fold_r_invariant:
  assumes "fold_r f xs s = Inr t" and "P s"
    and "\<And>x s t. x \<in> set xs \<Longrightarrow> P s \<Longrightarrow> f x s = Inr t \<Longrightarrow> P t"
  shows "P t"
  using assms
proof (induction xs arbitrary: s)
  case Nil
  then show ?case by simp
next
  case (Cons x xs)
  from Cons.prems(1) obtain s' where "f x s = Inr s'" and "fold_r f xs s' = Inr t" by auto
  moreover from Cons.prems(2,3) \<open>f x s = Inr s'\<close> have "P s'" by (meson list.set_intros(1))
  ultimately show ?case using Cons.IH Cons.prems(3) by (meson list.set_intros(2))
qed

text \<open>A loop that keeps an invariant about the elements it has processed ends normally.\<close>

lemma fold_r_prefix:
  assumes "I [] s"
    and "\<And>ds x rest s. xs = ds @ x # rest \<Longrightarrow> I ds s \<Longrightarrow> \<exists>s'. f x s = Inr s' \<and> I (ds @ [x]) s'"
  shows "\<exists>s'. fold_r f xs s = Inr s' \<and> I xs s'"
proof -
  have "\<exists>s'. fold_r f zs s = Inr s' \<and> I xs s'" if "xs = ds @ zs" "I ds s" for ds zs s
    using that
  proof (induction zs arbitrary: ds s)
    case (Cons x zs)
    from assms(2) [OF Cons.prems] obtain s' where "f x s = Inr s'" "I (ds @ [x]) s'" by blast
    with Cons.IH [of "ds @ [x]" s'] Cons.prems(1) show ?case by simp
  qed simp
  from this [of "[]" xs s] assms(1) show ?thesis by simp
qed

lemma map_r_Inr_iff: "map_r f xs = Inr ys \<longleftrightarrow> list_all2 (\<lambda>x y. f x = Inr y) xs ys"
proof (induction xs arbitrary: ys)
  case Nil
  then show ?case by auto
next
  case (Cons x xs)
  then show ?case by (auto simp: list_all2_Cons1 bind_r_Inr_iff)
qed

lemma map_r_cong: "(\<And>x. x \<in> set xs \<Longrightarrow> f x = g x) \<Longrightarrow> map_r f xs = map_r g xs"
  by (induction xs) simp_all

subsection \<open>Lemmas: arrays\<close>

lemma find_index_Some: "find_index P xs = Some i \<Longrightarrow> i < length xs \<and> P (xs ! i) \<and> (\<forall>j < i. \<not> P (xs ! j))"
proof (induction xs arbitrary: i)
  case (Cons x xs)
  then show ?case by (cases i) (auto simp: less_Suc_eq_0_disj split: if_splits)
qed simp

lemma find_index_None_iff: "find_index P xs = None \<longleftrightarrow> (\<forall>x \<in> set xs. \<not> P x)"
  by (induction xs) auto

lemma find_index_map: "find_index P (map f xs) = find_index (\<lambda>x. P (f x)) xs"
  by (induction xs) simp_all

lemma find_index_distinct:
  assumes "distinct (map f xs)" and "i < length xs"
  shows "find_index (\<lambda>x. f x = f (xs ! i)) xs = Some i"
proof (cases "find_index (\<lambda>x. f x = f (xs ! i)) xs")
  case None
  with assms(2) show ?thesis by (auto simp: find_index_None_iff)
next
  case (Some j)
  from find_index_Some [OF this] assms show ?thesis
    by (metis Some distinct_map length_map nth_eq_iff_index_eq nth_map)
qed

lemma js_index_Some_iff: "js_index xs i = Some x \<longleftrightarrow> 0 \<le> i \<and> nat i < length xs \<and> x = xs ! nat i"
  by (auto simp: js_index_def)

lemma js_index_of_nat [simp]: "k < length xs \<Longrightarrow> js_index xs (int k) = Some (xs ! k)"
  by (simp add: js_index_def)

lemma js_array_get_set [simp]:
  "js_array_get (js_array_set xs i v) j = (if i = j then Some v else js_array_get xs j)"
  by (auto simp: js_array_get_def js_array_set_def nth_append)

lemma length_js_array_set: "length (js_array_set xs i v) = max (length xs) (Suc i)"
  by (simp add: js_array_set_def)

subsection \<open>Lemmas: 32-bit operators\<close>

lemma bit_to_int32 [bit_ext]: "bit (to_int32 a) n \<longleftrightarrow> bit a (min n 31)"
  by (simp add: to_int32_def bit_signed_take_bit_iff min.commute)

lemma bit_js_and [bit_ext]: "bit (js_and a b) n \<longleftrightarrow> bit a (min n 31) \<and> bit b (min n 31)"
  by (simp add: js_and_def bit_and_iff bit_to_int32)

lemma bit_js_or [bit_ext]: "bit (js_or a b) n \<longleftrightarrow> bit a (min n 31) \<or> bit b (min n 31)"
  by (simp add: js_or_def bit_or_iff bit_to_int32)

lemma bit_js_shl [bit_ext]:
  "bit (js_shl a k) n \<longleftrightarrow> k \<le> min n 31 \<and> bit a (min (min n 31 - k) 31)"
  by (simp add: js_shl_def bit_to_int32 bit_push_bit_iff)

lemma bit_js_shr [bit_ext]: "bit (js_shr a k) n \<longleftrightarrow> bit a (min (k + n) 31)"
  by (simp add: js_shr_def bit_drop_bit_eq bit_to_int32)

lemma to_int32_id: "- (2 ^ 31) \<le> n \<Longrightarrow> n < 2 ^ 31 \<Longrightarrow> to_int32 n = n"
  by (simp add: to_int32_def signed_take_bit_int_eq_self)

lemma to_int32_idem [simp]: "to_int32 (to_int32 n) = to_int32 n"
  by (simp add: to_int32_def)

lemma to_int32_range: "- (2 ^ 31) \<le> to_int32 n \<and> to_int32 n < 2 ^ 31"
  using signed_take_bit_int_greater_eq_minus_exp [of 31 n] signed_take_bit_int_less_exp [of 31 n]
  by (simp add: to_int32_def)

lemma to_int32_eq_iff: "to_int32 a = to_int32 b \<longleftrightarrow> take_bit 32 a = take_bit 32 b"
  by (simp add: to_int32_def signed_take_bit_eq_iff_take_bit_eq)

lemma take_bit_to_int32: "m \<le> 32 \<Longrightarrow> take_bit m (to_int32 a) = take_bit m a"
  by (simp add: to_int32_def take_bit_signed_take_bit)

lemma js_and_mask:
  assumes "n < 32"
  shows "js_and a (mask n) = take_bit n a"
proof (rule bit_eqI)
  fix m
  show "bit (js_and a (mask n)) m \<longleftrightarrow> bit (take_bit n a) m"
    using assms by (auto simp: bit_js_and bit_mask_iff bit_take_bit_iff min_def)
qed

lemma mask_255: "(255 :: int) = mask 8" and mask_7fff: "(0x7fff :: int) = mask 15"
  and mask_3: "(3 :: int) = mask 2" and mask_ffff: "(0xffff :: int) = mask 16"
  and mask_ffffff: "(0xffffff :: int) = mask 24"
  by (simp_all add: mask_eq_exp_minus_1)

lemma js_and_255 [js_simps]: "js_and a 255 = take_bit 8 a"
  by (simp add: mask_255 js_and_mask)

subsection \<open>Lemmas: maps\<close>

lemma map_has_iff: "map_has m k \<longleftrightarrow> map_get m k \<noteq> None"
  by (simp add: map_has_def map_of_eq_None_iff)

lemma map_get_set [simp]: "map_get (map_set k v m) = (map_of m)(k \<mapsto> v)"
  by (induction m) (auto simp: fun_eq_iff)

lemma keys_map_set: "fst ` set (map_set k v m) = insert k (fst ` set m)"
proof (induction m)
  case (Cons p m)
  then show ?case by (cases p) auto
qed simp

lemma map_keys_set_fresh:
  "\<not> map_has m k \<Longrightarrow> map fst (map_set k v m) = map fst m @ [k]"
  by (induction m) (auto simp: map_has_def)

lemma map_set_fresh: "\<not> map_has m k \<Longrightarrow> map_set k v m = m @ [(k, v)]"
  by (induction m) (auto simp: map_has_def)

lemma map_keys_set_old:
  "map_has m k \<Longrightarrow> map fst (map_set k v m) = map fst m"
proof (induction m)
  case (Cons p m)
  obtain a b where p: "p = (a, b)" by (cases p)
  from Cons show ?case
    by (cases "k = a") (simp_all add: map_has_def p)
qed (simp add: map_has_def)

lemma distinct_map_set: "distinct (map fst m) \<Longrightarrow> distinct (map fst (map_set k v m))"
  by (cases "map_has m k") (auto simp: map_keys_set_old map_keys_set_fresh map_has_def)

subsection \<open>Lemmas: recursion through lists and results\<close>

lemma size_list_mem: "u \<in> set ps \<Longrightarrow> size u \<le> size_list size ps"
  by (rule size_list_estimation') auto

lemma size_opt_list_mem: "Some u \<in> set vs \<Longrightarrow> size u < size_list (size_option size) vs"
  by (induction vs) auto

lemma fold_r_cong [fundef_cong]:
  "xs = ys \<Longrightarrow> s = t \<Longrightarrow> (\<And>x u. x \<in> set ys \<Longrightarrow> f x u = g x u) \<Longrightarrow> fold_r f xs s = fold_r g ys t"
  by (induction xs arbitrary: s t ys) (auto simp: bind_r_def split: sum.split)

lemma bind_r_cong [fundef_cong]: "r = r' \<Longrightarrow> (\<And>x. r' = Inr x \<Longrightarrow> f x = g x) \<Longrightarrow> bind_r r f = bind_r r' g"
  by (cases r') simp_all

end
