(* ===== verification/DataPool.thy ===== *)
theory DataPool
  imports Prelude
begin

text \<open>
  The data pool of the IR module (\<open>src/src/semantics/ir/data_pool.ts\<close>): a growing
  byte buffer to which the IR back end appends NUL-terminated strings and little-endian
  32-bit integers, and in which it patches block headers.

  \<^item> \<open>data_pool\<close> is the class with its private fields; \<open>addString\<close>, \<open>addByte\<close>,
    \<open>addInt32\<close>, \<open>setByte\<close>, \<open>setInt32\<close>, \<open>updateBufferSize\<close> and \<open>getData\<close> are
    its methods. A method that returns a number and changes the object returns the pair;
    one that may throw returns a \<open>result\<close>.
  \<^item> A write past the end of a \<open>Uint8Array\<close> is dropped, as \<open>xs[i := v]\<close> drops it.
  \<^item> \<open>byte_pool\<close> is the interface the serialiser of the IR module relies on: the pool as
    an append-only byte list with patching.
\<close>

section \<open>The class\<close>

definition INC_SIZE :: nat where
  "INC_SIZE = 1024 * 4"

record data_pool =
  buffer :: "8 word list"
  capacity :: nat
  pool_size :: nat
  strMap :: "(js_string, nat) js_map"

definition new_DataPool :: data_pool where
  "new_DataPool = \<lparr>buffer = replicate INC_SIZE 0, capacity = INC_SIZE, pool_size = 0, strMap = []\<rparr>"

definition updateBufferSize :: "nat \<Rightarrow> data_pool \<Rightarrow> data_pool" where
  "updateBufferSize inc_size p =
     (if pool_size p + inc_size > capacity p then
        let capacity' = capacity p + INC_SIZE;
            buffer' = map (\<lambda>i. if i < pool_size p \<and> i < length (buffer p) then buffer p ! i else 0)
                        [0..<capacity']
        in p\<lparr>capacity := capacity', buffer := buffer'\<rparr>
      else p)"

text \<open>The loop over the characters of a string, and the loop that pads to a multiple of four.\<close>

fun write_chars :: "8 word list \<Rightarrow> nat \<Rightarrow> js_string \<Rightarrow> 8 word list result" where
  "write_chars buf i [] = Inr buf"
| "write_chars buf i (c # cs) =
     (if unat c \<ge> 256 then Inl (JSError ''UTF-16 string not supported'')
      else write_chars (buf[i := ucast c]) (Suc i) cs)"

function pad_zero :: "8 word list \<Rightarrow> nat \<Rightarrow> 8 word list \<times> nat" where
  "pad_zero buf i = (if i mod 4 \<noteq> 0 then pad_zero (buf[i := 0]) (Suc i) else (buf, i))"
  by pat_completeness auto
termination
  by (relation "measure (\<lambda>(buf, i). (4 - i mod 4) mod 4)") (auto simp: mod_Suc)

declare pad_zero.simps [simp del]

definition addString :: "js_string \<Rightarrow> data_pool \<Rightarrow> (nat \<times> data_pool) result" where
  "addString s p =
     (case map_get (strMap p) s of
        Some n \<Rightarrow> Inr (n, p)
      | None \<Rightarrow>
          let p1 = updateBufferSize (length s) p;
              size = pool_size p1
          in bind_r (write_chars (buffer p1) size s) (\<lambda>buf.
               let i = length s + size;
                   (buf', i') = pad_zero (buf[i := 0]) (Suc i)
               in Inr (size, p1\<lparr>buffer := buf', pool_size := i'\<rparr>)))"

definition getStringCount :: "data_pool \<Rightarrow> nat" where
  "getStringCount p = length (strMap p)"

definition addByte :: "int \<Rightarrow> data_pool \<Rightarrow> nat \<times> data_pool" where
  "addByte byte p =
     (let p1 = updateBufferSize 1 p;
          p2 = p1\<lparr>buffer := (buffer p1)[pool_size p1 := word_of_int (js_and byte 0xff)],
                  pool_size := Suc (pool_size p1)\<rparr>
      in (pool_size p2 - 1, p2))"

definition getCurrentSize :: "data_pool \<Rightarrow> nat" where
  "getCurrentSize p = pool_size p"

definition addInt32 :: "int \<Rightarrow> data_pool \<Rightarrow> nat \<times> data_pool" where
  "addInt32 n p =
     (let (size, p) = addByte (js_and n 0xff) p;
          (_, p) = addByte (js_and (js_shr n 8) 0xff) p;
          (_, p) = addByte (js_and (js_shr n 16) 0xff) p;
          (_, p) = addByte (js_and (js_shr n 24) 0xff) p
      in (size, p))"

definition setByte :: "nat \<Rightarrow> int \<Rightarrow> data_pool \<Rightarrow> data_pool" where
  "setByte idx byte p = p\<lparr>buffer := (buffer p)[idx := word_of_int (js_and byte 0xff)]\<rparr>"

definition setInt32 :: "nat \<Rightarrow> int \<Rightarrow> data_pool \<Rightarrow> data_pool" where
  "setInt32 idx n p =
     (let p = setByte idx (js_and n 0xff) p;
          p = setByte (idx + 1) (js_and (js_shr n 8) 0xff) p;
          p = setByte (idx + 2) (js_and (js_shr n 16) 0xff) p
      in setByte (idx + 3) (js_and (js_shr n 24) 0xff) p)"

text \<open>\<open>new Uint8Array(buffer, 0, size)\<close> throws when the view is longer than the buffer.\<close>

definition getData :: "data_pool \<Rightarrow> 8 word list result" where
  "getData p = (if pool_size p \<le> length (buffer p) then Inr (take (pool_size p) (buffer p))
                else Inl JSRangeError)"

section \<open>What the pool promises\<close>

text \<open>
  \<open>pool_bytes\<close> is the abstraction of a pool, the bytes written so far; \<open>dp_inv\<close> is the
  invariant under which it is the data the pool hands out.
\<close>

definition pool_bytes :: "data_pool \<Rightarrow> 8 word list" where
  "pool_bytes p = take (pool_size p) (buffer p)"

definition dp_inv :: "data_pool \<Rightarrow> bool" where
  "dp_inv p \<longleftrightarrow> length (buffer p) = capacity p \<and> pool_size p \<le> capacity p"

text \<open>
  The four numbers \<open>addInt32\<close> and \<open>setInt32\<close> write, the little-endian image of a 32-bit
  integer, its reader, and the reader of a C string.
\<close>

definition int32_bytes :: "int \<Rightarrow> int list" where
  "int32_bytes n = [js_and n 0xff, js_and (js_shr n 8) 0xff, js_and (js_shr n 16) 0xff,
                    js_and (js_shr n 24) 0xff]"

definition int32_le :: "int \<Rightarrow> 8 word list" where
  "int32_le n = [word_of_int n, word_of_int (drop_bit 8 n), word_of_int (drop_bit 16 n),
                 word_of_int (drop_bit 24 n)]"

fun le_int32 :: "8 word list \<Rightarrow> int option" where
  "le_int32 [a, b, c, d] =
     Some (to_int32 (uint a OR push_bit 8 (uint b) OR push_bit 16 (uint c) OR push_bit 24 (uint d)))"
| "le_int32 _ = None"

definition read_int32 :: "8 word list \<Rightarrow> nat \<Rightarrow> int option" where
  "read_int32 bs i = le_int32 (take 4 (drop i bs))"

definition read_cstring :: "8 word list \<Rightarrow> nat \<Rightarrow> js_string" where
  "read_cstring bs i = map ucast (takeWhile (\<lambda>b. b \<noteq> 0) (drop i bs))"

text \<open>The end of a string of length \<open>n\<close> written at \<open>i\<close>, after its NUL and the padding.\<close>

definition string_end :: "nat \<Rightarrow> nat \<Rightarrow> nat" where
  "string_end i n = 4 * ((i + n) div 4 + 1)"

definition string_fits :: "js_string \<Rightarrow> data_pool \<Rightarrow> bool" where
  "string_fits s p \<longleftrightarrow>
     string_end (pool_size p) (length s) \<le> capacity (updateBufferSize (length s) p)"

text \<open>Runs of the pool: its operations as data, and one step of a run.\<close>

datatype pool_op = AddString js_string | AddByte int | AddInt32 int | SetInt32 nat int

fun pool_step :: "pool_op \<Rightarrow> data_pool \<Rightarrow> data_pool result" where
  "pool_step (AddString s) p = bind_r (addString s p) (\<lambda>(_, q). Inr q)"
| "pool_step (AddByte b) p = Inr (snd (addByte b p))"
| "pool_step (AddInt32 n) p = Inr (snd (addInt32 n p))"
| "pool_step (SetInt32 i n) p = Inr (setInt32 i n p)"

section \<open>The interface of a byte pool\<close>

locale byte_pool =
  fixes add_byte :: "int \<Rightarrow> 'p \<Rightarrow> nat \<times> 'p"
    and set_byte :: "nat \<Rightarrow> int \<Rightarrow> 'p \<Rightarrow> 'p"
    and bytes :: "'p \<Rightarrow> 8 word list"
    and invar :: "'p \<Rightarrow> bool"
  assumes bytes_add: "invar p \<Longrightarrow> bytes (snd (add_byte b p)) = bytes p @ [word_of_int b]"
    and offset_add: "invar p \<Longrightarrow> fst (add_byte b p) = length (bytes p)"
    and invar_add: "invar p \<Longrightarrow> invar (snd (add_byte b p))"
    and bytes_set: "invar p \<Longrightarrow> i < length (bytes p) \<Longrightarrow>
          bytes (set_byte i b p) = (bytes p)[i := word_of_int b]"
    and invar_set: "invar p \<Longrightarrow> i < length (bytes p) \<Longrightarrow> invar (set_byte i b p)"
begin

lemma emit_list:
  assumes "invar p"
  shows "invar (fold (\<lambda>b q. snd (add_byte b q)) bs p) \<and>
         bytes (fold (\<lambda>b q. snd (add_byte b q)) bs p) = bytes p @ map word_of_int bs"
  using assms by (induction bs arbitrary: p) (simp_all add: bytes_add invar_add)

lemma patch_list:
  assumes "invar p" and "i + length bs \<le> length (bytes p)"
  shows "invar (fold (\<lambda>(k, b) q. set_byte k b q) (enumerate i bs) p) \<and>
         bytes (fold (\<lambda>(k, b) q. set_byte k b q) (enumerate i bs) p) =
           take i (bytes p) @ map word_of_int bs @ drop (i + length bs) (bytes p)"
  using assms
proof (induction bs arbitrary: i p)
  case Nil
  then show ?case by simp
next
  case (Cons b bs)
  let ?q = "set_byte i b p"
  from Cons.prems have q: "invar ?q" "bytes ?q = (bytes p)[i := word_of_int b]"
    by (simp_all add: bytes_set invar_set)
  with Cons.prems have "Suc i + length bs \<le> length (bytes ?q)" by simp
  from Cons.IH [OF q(1) this] Cons.prems q(2) show ?case
    by (simp add: upd_conv_take_nth_drop take_Suc_conv_app_nth)
qed

end

section \<open>Lemmas\<close>

subsection \<open>Growing and appending\<close>

lemma INC_SIZE_eq: "INC_SIZE = 4096"
  by (simp add: INC_SIZE_def)

lemma new_DataPool_fields [simp]:
  "pool_size new_DataPool = 0" "strMap new_DataPool = []" "pool_bytes new_DataPool = []"
  "capacity new_DataPool = 4096"
  by (simp_all add: new_DataPool_def pool_bytes_def INC_SIZE_eq)

lemma new_DataPool_inv: "dp_inv new_DataPool"
  by (simp add: dp_inv_def new_DataPool_def)

lemma updateBufferSize_fields [simp]:
  "pool_size (updateBufferSize n p) = pool_size p"
  "strMap (updateBufferSize n p) = strMap p"
  by (simp_all add: updateBufferSize_def Let_def)

lemma updateBufferSize_inv: "dp_inv p \<Longrightarrow> dp_inv (updateBufferSize n p)"
  by (simp add: dp_inv_def updateBufferSize_def Let_def)

lemma updateBufferSize_bytes: "dp_inv p \<Longrightarrow> pool_bytes (updateBufferSize n p) = pool_bytes p"
proof (cases "pool_size p + n > capacity p")
  case True
  assume "dp_inv p"
  with True show ?thesis
    by (auto simp: pool_bytes_def updateBufferSize_def dp_inv_def Let_def take_map
        intro!: nth_equalityI)
qed (simp add: updateBufferSize_def)

lemma updateBufferSize_room: "dp_inv p \<Longrightarrow> pool_size p < capacity (updateBufferSize 1 p)"
  by (auto simp: dp_inv_def updateBufferSize_def Let_def INC_SIZE_eq)

lemma pool_bytes_length: "dp_inv p \<Longrightarrow> length (pool_bytes p) = pool_size p"
  by (simp add: dp_inv_def pool_bytes_def)

lemma word_of_js_and_255: "(word_of_int (js_and b 255) :: 8 word) = word_of_int b"
  by (simp add: js_simps word_of_int_eq_iff)

lemma addByte_fst [simp]: "fst (addByte b p) = pool_size p"
  by (simp add: addByte_def Let_def)

lemma addByte_strMap [simp]: "strMap (snd (addByte b p)) = strMap p"
  by (simp add: addByte_def Let_def)

lemma addByte_inv: "dp_inv p \<Longrightarrow> dp_inv (snd (addByte b p))"
  using updateBufferSize_room [of p] updateBufferSize_inv [of p 1]
  by (simp add: addByte_def Let_def dp_inv_def)

lemma addByte_bytes:
  assumes "dp_inv p"
  shows "pool_bytes (snd (addByte b p)) = pool_bytes p @ [word_of_int b]"
proof -
  let ?q = "updateBufferSize 1 p"
  have "pool_size p < length (buffer ?q)"
    using updateBufferSize_room [OF assms] updateBufferSize_inv [OF assms, of 1]
    by (simp add: dp_inv_def)
  moreover have "take (pool_size p) (buffer ?q) = pool_bytes p"
    using updateBufferSize_bytes [OF assms, of 1] by (simp add: pool_bytes_def)
  ultimately show ?thesis
    by (simp add: addByte_def Let_def pool_bytes_def take_Suc_conv_app_nth word_of_js_and_255)
qed

lemma setByte_fields [simp]:
  "pool_size (setByte i b p) = pool_size p" "capacity (setByte i b p) = capacity p"
  "strMap (setByte i b p) = strMap p"
  by (simp_all add: setByte_def)

lemma setByte_inv: "dp_inv p \<Longrightarrow> dp_inv (setByte i b p)"
  by (simp add: setByte_def dp_inv_def)

lemma setByte_bytes:
  "dp_inv p \<Longrightarrow> i < length (pool_bytes p) \<Longrightarrow>
     pool_bytes (setByte i b p) = (pool_bytes p)[i := word_of_int b]"
  by (simp add: setByte_def pool_bytes_def dp_inv_def take_update_swap word_of_js_and_255)

text \<open>The class provides the interface.\<close>

interpretation dp: byte_pool addByte setByte pool_bytes dp_inv
  by unfold_locales
    (simp_all add: addByte_bytes addByte_inv setByte_bytes setByte_inv pool_bytes_length)

subsection \<open>32-bit integers\<close>

lemma word8_of_shr:
  assumes "k \<le> 24"
  shows "(word_of_int (js_shr n k) :: 8 word) = word_of_int (drop_bit k n)"
proof -
  have "take_bit 8 (js_shr n k) = take_bit 8 (drop_bit k n)"
    by (rule bit_eqI) (use assms in \<open>auto simp: bit_ext bit_take_bit_iff bit_drop_bit_eq min_def\<close>)
  then show ?thesis by (simp add: word_of_int_eq_iff)
qed

lemma int32_bytes_word: "map word_of_int (int32_bytes n) = int32_le n"
  by (simp add: int32_bytes_def int32_le_def word_of_js_and_255 word8_of_shr)

lemma length_int32_le [simp]: "length (int32_le n) = 4"
  by (simp add: int32_le_def)

lemma addInt32_fold:
  "addInt32 n p = (pool_size p, fold (\<lambda>b q. snd (addByte b q)) (int32_bytes n) p)"
  by (simp add: addInt32_def int32_bytes_def Let_def split_beta)

lemma setInt32_fold:
  "setInt32 i n p = fold (\<lambda>(k, b) q. setByte k b q) (enumerate i (int32_bytes n)) p"
  by (simp add: setInt32_def int32_bytes_def Let_def numeral_2_eq_2 numeral_3_eq_3)

lemma addInt32_pair: "addInt32 n p = (pool_size p, snd (addInt32 n p))"
  by (simp add: addInt32_fold)

lemma addInt32_inv: "dp_inv p \<Longrightarrow> dp_inv (snd (addInt32 n p))"
  using dp.emit_list by (simp add: addInt32_fold)

lemma addInt32_bytes: "dp_inv p \<Longrightarrow> pool_bytes (snd (addInt32 n p)) = pool_bytes p @ int32_le n"
  using dp.emit_list [of p "int32_bytes n"] by (simp add: addInt32_fold int32_bytes_word)

lemma addInt32_size: "dp_inv p \<Longrightarrow> pool_size (snd (addInt32 n p)) = pool_size p + 4"
  using addInt32_bytes [of p n] addInt32_inv [of p n] pool_bytes_length
  by (metis length_append length_int32_le)

lemma setInt32_fields [simp]: "pool_size (setInt32 i n p) = pool_size p"
  by (simp add: setInt32_def Let_def)

lemma setInt32_inv: "dp_inv p \<Longrightarrow> dp_inv (setInt32 i n p)"
  by (simp add: setInt32_def Let_def setByte_inv)

lemma setInt32_bytes:
  assumes "dp_inv p" and "i + 4 \<le> pool_size p"
  shows "pool_bytes (setInt32 i n p) =
           take i (pool_bytes p) @ int32_le n @ drop (i + 4) (pool_bytes p)"
proof -
  have "length (int32_bytes n) = 4" by (simp add: int32_bytes_def)
  with dp.patch_list [of p i "int32_bytes n"] assms show ?thesis
    by (simp add: setInt32_fold pool_bytes_length int32_bytes_word)
qed

lemma le_int32_int32_le: "le_int32 (int32_le n) = Some (to_int32 n)"
proof -
  have "take_bit 32 (take_bit 8 n OR push_bit 8 (take_bit 8 (drop_bit 8 n)) OR
           push_bit 16 (take_bit 8 (drop_bit 16 n)) OR push_bit 24 (take_bit 8 (drop_bit 24 n)))
        = take_bit 32 n" (is "?l = ?r")
  proof (rule bit_eqI)
    fix m
    show "bit ?l m \<longleftrightarrow> bit ?r m"
      by (cases "m < 8"; cases "m < 16"; cases "m < 24")
        (auto simp: bit_take_bit_iff bit_or_iff bit_push_bit_iff bit_drop_bit_eq)
  qed
  then show ?thesis
    by (simp add: int32_le_def to_int32_eq_iff unsigned_of_int)
qed

lemma read_int32_append:
  "length xs = i \<Longrightarrow> read_int32 (xs @ int32_le n @ ys) i = Some (to_int32 n)"
  by (simp add: read_int32_def le_int32_int32_le)

lemma read_int32_frame:
  "i + 4 \<le> length xs \<Longrightarrow> read_int32 (xs @ ys) i = read_int32 xs i"
  by (simp add: read_int32_def)

subsection \<open>Strings\<close>

lemma length_write_chars: "write_chars buf i cs = Inr buf' \<Longrightarrow> length buf' = length buf"
  by (induction buf i cs rule: write_chars.induct) (auto split: if_splits)

lemma write_chars_ok_iff:
  "(\<exists>buf'. write_chars buf i cs = Inr buf') \<longleftrightarrow> (\<forall>c \<in> set cs. unat c < 256)"
  by (induction buf i cs rule: write_chars.induct) (auto simp: not_less)

lemma write_chars_outside:
  "write_chars buf i cs = Inr buf' \<Longrightarrow> j < i \<or> i + length cs \<le> j \<Longrightarrow> buf' ! j = buf ! j"
  by (induction buf i cs rule: write_chars.induct) (auto split: if_splits)

lemma write_chars_inside:
  "write_chars buf i cs = Inr buf' \<Longrightarrow> j < length cs \<Longrightarrow> i + j < length buf \<Longrightarrow>
     buf' ! (i + j) = ucast (cs ! j)"
proof (induction buf i cs arbitrary: j rule: write_chars.induct)
  case (2 buf i c cs)
  from "2.prems"(1) have c: "unat c < 256"
    and w: "write_chars (buf[i := ucast c]) (Suc i) cs = Inr buf'"
    by (auto split: if_splits)
  show ?case
  proof (cases j)
    case 0
    with "2.prems"(3) write_chars_outside [OF w, of i] show ?thesis by simp
  next
    case (Suc k)
    with c "2.prems" have "buf' ! (Suc i + k) = ucast (cs ! k)"
      by (intro "2.IH") (simp_all add: w)
    with Suc show ?thesis by simp
  qed
qed simp

lemma pad_zero_index: "snd (pad_zero buf i) = 4 * ((i + 3) div 4)"
proof (induction buf i rule: pad_zero.induct)
  case (1 buf i)
  then show ?case
    by (cases "i mod 4 = 0") (simp_all add: pad_zero.simps [of buf i], presburger+)
qed

lemma length_pad_zero [simp]: "length (fst (pad_zero buf i)) = length buf"
proof (induction buf i rule: pad_zero.induct)
  case (1 buf i)
  then show ?case by (cases "i mod 4 = 0") (simp_all add: pad_zero.simps [of buf i])
qed

lemma pad_zero_before: "j < i \<Longrightarrow> fst (pad_zero buf i) ! j = buf ! j"
proof (induction buf i rule: pad_zero.induct)
  case (1 buf i)
  then show ?case by (cases "i mod 4 = 0") (simp_all add: pad_zero.simps [of buf i])
qed

lemma string_end_bounds: "i + n < string_end i n \<and> string_end i n \<le> i + n + 4"
  unfolding string_end_def by presburger

lemma string_end_eq: "4 * ((Suc (n + i) + 3) div 4) = string_end i n"
  unfolding string_end_def by presburger

text \<open>The successful run of \<open>addString\<close> on a string the map does not have.\<close>

lemma addString_fresh:
  assumes "map_get (strMap p) s = None" and "addString s p = Inr (off, q)"
  obtains buf where "write_chars (buffer (updateBufferSize (length s) p)) (pool_size p) s = Inr buf"
    and "off = pool_size p" and "pool_size q = string_end (pool_size p) (length s)"
    and "buffer q = fst (pad_zero (buf[pool_size p + length s := 0]) (Suc (pool_size p + length s)))"
    and "capacity q = capacity (updateBufferSize (length s) p)" and "strMap q = strMap p"
proof -
  from assms obtain buf where
    w: "write_chars (buffer (updateBufferSize (length s) p)) (pool_size p) s = Inr buf"
    by (auto simp: addString_def Let_def)
  with assms that [OF w] show thesis
    by (auto simp: addString_def Let_def split_beta pad_zero_index string_end_eq [symmetric]
        add.commute)
qed

lemma addString_inv_iff:
  assumes "dp_inv p" and "map_get (strMap p) s = None" and "addString s p = Inr (off, q)"
  shows "dp_inv q \<longleftrightarrow> string_fits s p"
proof -
  from addString_fresh [OF assms(2,3)] obtain buf where
    w: "write_chars (buffer (updateBufferSize (length s) p)) (pool_size p) s = Inr buf"
    and q: "pool_size q = string_end (pool_size p) (length s)"
    "buffer q = fst (pad_zero (buf[pool_size p + length s := 0]) (Suc (pool_size p + length s)))"
    "capacity q = capacity (updateBufferSize (length s) p)" by metis
  from length_write_chars [OF w] updateBufferSize_inv [OF assms(1), of "length s"] q
  show ?thesis by (simp add: dp_inv_def string_fits_def)
qed

lemma pool_step_strMap:
  assumes "pool_step x p = Inr q" and "strMap p = []"
  shows "strMap q = []"
proof (cases x)
  case (AddString s)
  with assms obtain off where "addString s p = Inr (off, q)" by auto
  with assms(2) show ?thesis using addString_fresh [of p s off q] by fastforce
qed (use assms in \<open>auto simp: addInt32_fold int32_bytes_def setInt32_def Let_def\<close>)

text \<open>With room for it, the string and its terminator land behind the old bytes.\<close>

lemma addString_bytes:
  assumes inv: "dp_inv p" and fresh: "map_get (strMap p) s = None"
    and run: "addString s p = Inr (off, q)" and fits: "string_fits s p"
  shows "take (Suc (pool_size p + length s)) (pool_bytes q) = pool_bytes p @ map ucast s @ [0]"
proof -
  let ?p = "updateBufferSize (length s) p" and ?e = "pool_size p + length s"
  from addString_fresh [OF fresh run] obtain buf where
    w: "write_chars (buffer ?p) (pool_size p) s = Inr buf"
    and q: "pool_size q = string_end (pool_size p) (length s)"
    "buffer q = fst (pad_zero (buf[?e := 0]) (Suc ?e))" by metis
  have len: "length buf = capacity ?p"
    using length_write_chars [OF w] updateBufferSize_inv [OF inv] by (simp add: dp_inv_def)
  have room: "Suc ?e \<le> string_end (pool_size p) (length s)" "Suc ?e \<le> length buf"
    using fits len string_end_bounds [of "pool_size p" "length s"]
    by (auto simp: string_fits_def)
  have old: "take (pool_size p) (buffer ?p) = pool_bytes p"
    using updateBufferSize_bytes [OF inv, of "length s"] by (simp add: pool_bytes_def)
  have "take (Suc ?e) (buffer q) = take (Suc ?e) (buf[?e := 0])"
    using room by (intro nth_equalityI) (auto simp: q pad_zero_before)
  also have "\<dots> = take ?e buf @ [0]"
    using room by (simp add: take_Suc_conv_app_nth)
  also have "take ?e buf = pool_bytes p @ map ucast s"
  proof (rule nth_equalityI)
    show "length (take ?e buf) = length (pool_bytes p @ map ucast s)"
      using room by (simp add: pool_bytes_length [OF inv])
  next
    fix j assume "j < length (take ?e buf)"
    then have j: "j < ?e" by simp
    show "take ?e buf ! j = (pool_bytes p @ map ucast s) ! j"
    proof (cases "j < pool_size p")
      case True
      then have "pool_bytes p ! j = buffer ?p ! j" by (metis old nth_take)
      with True j write_chars_outside [OF w, of j] show ?thesis
        by (simp add: nth_append pool_bytes_length [OF inv])
    next
      case False
      with j room length_write_chars [OF w] write_chars_inside [OF w, of "j - pool_size p"]
      show ?thesis by (simp add: nth_append pool_bytes_length [OF inv])
    qed
  qed
  finally show ?thesis
    using room by (simp add: pool_bytes_def q(1))
qed

lemma cstring_roundtrip:
  assumes "\<forall>c \<in> set s. 0 < unat c \<and> unat c < 256" and "length xs = i"
  shows "read_cstring (xs @ map ucast s @ 0 # ys) i = s"
proof -
  have nz: "(ucast c :: 8 word) \<noteq> 0 \<and> ucast (ucast c :: 8 word) = c" if "c \<in> set s" for c
  proof -
    from assms(1) that have c: "0 < unat c" "unat c < 256" by auto
    then have u: "unat (ucast c :: 8 word) = unat c" by (simp add: unsigned_ucast_eq unsigned_take_bit_eq take_bit_eq_mod)
    with c(1) have "(ucast c :: 8 word) \<noteq> 0" by auto
    moreover from u have "unat (ucast (ucast c :: 8 word) :: 16 word) = unat c"
      using c(2) by (simp add: unsigned_ucast_eq unsigned_take_bit_eq take_bit_eq_mod unat_mod)
    ultimately show ?thesis using word_unat_eq_iff by blast
  qed
  have "takeWhile (\<lambda>b. b \<noteq> 0) (map ucast s @ 0 # ys) = (map ucast s :: 8 word list)"
    using nz by (subst takeWhile_append2) auto
  with nz assms(2) show ?thesis
    by (simp add: read_cstring_def map_idI)
qed

section \<open>Properties\<close>

text \<open>
  C1. \<open>addInt32\<close> refines appending: from a well-formed pool it returns the old size,
  keeps the pool well formed, appends the four little-endian bytes and nothing else, and
  the integer read back at the returned offset is the argument as a signed 32-bit number.
\<close>

theorem addInt32_append:
  assumes "dp_inv p" and "addInt32 n p = (off, q)"
  shows "off = length (pool_bytes p) \<and> dp_inv q \<and> pool_bytes q = pool_bytes p @ int32_le n \<and>
         getData q = Inr (pool_bytes q) \<and> read_int32 (pool_bytes q) off = Some (to_int32 n)"
proof -
  from assms(2) have q: "q = snd (addInt32 n p)" and off: "off = pool_size p"
    by (metis addInt32_pair prod.inject)+
  have inv: "dp_inv q" using assms(1) q by (simp add: addInt32_inv)
  then have "getData q = Inr (pool_bytes q)"
    by (simp add: getData_def dp_inv_def pool_bytes_def)
  moreover have "read_int32 (pool_bytes q) off = Some (to_int32 n)"
    using read_int32_append [of "pool_bytes p" off n "[]"] assms(1)
    by (simp add: q off addInt32_bytes pool_bytes_length)
  ultimately show ?thesis
    using assms(1) inv by (simp add: q off addInt32_bytes pool_bytes_length)
qed

theorem addInt32_append_witness:
  "dp_inv new_DataPool \<and> read_int32 (pool_bytes (snd (addInt32 (-2) new_DataPool))) 0 = Some (-2)"
proof -
  have i: "dp_inv new_DataPool" by (rule new_DataPool_inv)
  have e: "addInt32 (-2) new_DataPool = (0, snd (addInt32 (-2) new_DataPool))"
    using addInt32_pair [of "-2" new_DataPool] by simp
  have "to_int32 (-2) = -2" by (simp add: to_int32_id)
  with addInt32_append [OF i e] i show ?thesis by metis
qed

text \<open>
  C2. \<open>setInt32\<close> patches in place: inside the written bytes it replaces exactly the four
  bytes at the index, so the new integer reads back there and every integer that does not
  overlap it is read as before.
\<close>

theorem setInt32_patch:
  assumes "dp_inv p" and "i + 4 \<le> length (pool_bytes p)"
    and "j + 4 \<le> i \<or> i + 4 \<le> j \<and> j + 4 \<le> length (pool_bytes p)"
  shows "dp_inv (setInt32 i n p) \<and> read_int32 (pool_bytes (setInt32 i n p)) i = Some (to_int32 n) \<and>
         read_int32 (pool_bytes (setInt32 i n p)) j = read_int32 (pool_bytes p) j"
proof -
  let ?b = "pool_bytes p"
  have q: "pool_bytes (setInt32 i n p) = take i ?b @ int32_le n @ drop (i + 4) ?b"
    using assms by (intro setInt32_bytes) (simp_all add: pool_bytes_length)
  have "take 4 (drop j (take i ?b @ int32_le n @ drop (i + 4) ?b)) = take 4 (drop j ?b)"
    using assms(3)
  proof (elim disjE conjE)
    assume "j + 4 \<le> i"
    with assms(2) show ?thesis by (simp add: drop_take)
  next
    assume "i + 4 \<le> j"
    with assms(2) show ?thesis by simp
  qed
  with q read_int32_append [of "take i ?b" i n "drop (i + 4) ?b"] assms(1,2) show ?thesis
    by (simp add: read_int32_def setInt32_inv)
qed

theorem setInt32_patch_witness:
  "let p = snd (addInt32 7 (snd (addInt32 5 new_DataPool)))
   in read_int32 (pool_bytes (setInt32 0 9 p)) 0 = Some 9 \<and>
      read_int32 (pool_bytes (setInt32 0 9 p)) 4 = read_int32 (pool_bytes p) 4"
proof -
  let ?p = "snd (addInt32 7 (snd (addInt32 5 new_DataPool)))"
  have i: "dp_inv new_DataPool" by (rule new_DataPool_inv)
  then have i2: "dp_inv ?p" by (simp add: addInt32_inv)
  have "pool_size ?p = 8"
    using i by (simp add: addInt32_size addInt32_inv)
  then have l: "length (pool_bytes ?p) = 8" using i2 by (simp add: pool_bytes_length)
  from setInt32_patch [OF i2, of 0 4 9] l show ?thesis by (simp add: Let_def to_int32_id)
qed

text \<open>
  C3. Round trip of strings: when the padded string fits, \<open>addString\<close> of a Latin-1 string
  without NUL returns an offset at which the reader of C strings finds it again, keeps the
  bytes written before, keeps the pool well formed and leaves its size a multiple of four.
\<close>

theorem addString_roundtrip:
  assumes "dp_inv p" and "map_get (strMap p) s = None" and "string_fits s p"
    and "\<forall>c \<in> set s. 0 < unat c \<and> unat c < 256"
  shows "\<exists>q. addString s p = Inr (length (pool_bytes p), q) \<and> dp_inv q \<and> 4 dvd pool_size q \<and>
           take (length (pool_bytes p)) (pool_bytes q) = pool_bytes p \<and>
           read_cstring (pool_bytes q) (length (pool_bytes p)) = s"
proof -
  from assms(4) write_chars_ok_iff obtain buf where
    "write_chars (buffer (updateBufferSize (length s) p)) (pool_size p) s = Inr buf" by blast
  with assms(2) obtain off q where run: "addString s p = Inr (off, q)"
    by (simp add: addString_def Let_def split_beta)
  from addString_fresh [OF assms(2) run] have q: "off = length (pool_bytes p)"
    "pool_size q = string_end (pool_size p) (length s)"
    by (metis pool_bytes_length [OF assms(1)])+
  let ?n = "Suc (pool_size p + length s)"
  have split: "pool_bytes q = (pool_bytes p @ map ucast s @ [0]) @ drop ?n (pool_bytes q)"
    using append_take_drop_id [of ?n "pool_bytes q"]
      addString_bytes [OF assms(1,2) run assms(3)] by simp
  then have "read_cstring (pool_bytes q) (length (pool_bytes p)) = s"
    using cstring_roundtrip [OF assms(4), of "pool_bytes p" _ "drop ?n (pool_bytes q)"] by simp
  moreover from split have "take (length (pool_bytes p)) (pool_bytes q) = pool_bytes p"
    by (metis append.assoc append_eq_conv_conj)
  moreover have "dp_inv q" using addString_inv_iff [OF assms(1,2) run] assms(3) by simp
  ultimately show ?thesis
    using run q by (simp add: string_end_def)
qed

theorem addString_roundtrip_witness:
  "\<exists>q. addString (js_lit ''main'') new_DataPool = Inr (0, q) \<and> 4 dvd pool_size q \<and>
       read_cstring (pool_bytes q) 0 = js_lit ''main''"
proof -
  have "dp_inv new_DataPool" "map_get (strMap new_DataPool) (js_lit ''main'') = None"
    "string_fits (js_lit ''main'') new_DataPool" "length (pool_bytes new_DataPool) = 0"
    "\<forall>c \<in> set (js_lit ''main''). 0 < unat c \<and> unat c < 256"
    by (simp_all add: new_DataPool_inv string_fits_def string_end_def js_lit_def
        updateBufferSize_def)
  from addString_roundtrip [OF this(1-3) this(5)] this(4) show ?thesis by auto
qed

text \<open>
  C4. The size check of \<open>addString\<close> counts neither the terminator nor the padding: a string
  that exactly fills the space left is accepted, its terminator is dropped, and the pool
  ends longer than its buffer, so that \<open>getData\<close> throws.
\<close>

theorem addString_exact_fill_breaks_getData:
  assumes "dp_inv p" and "map_get (strMap p) s = None"
    and "pool_size p + length s = capacity p" and "\<forall>c \<in> set s. unat c < 256"
  shows "\<exists>q. addString s p = Inr (pool_size p, q) \<and> getData q = Inl JSRangeError"
proof -
  from assms(4) write_chars_ok_iff obtain buf where
    "write_chars (buffer (updateBufferSize (length s) p)) (pool_size p) s = Inr buf" by blast
  with assms(2) obtain off q where run: "addString s p = Inr (off, q)"
    by (simp add: addString_def Let_def split_beta)
  from addString_fresh [OF assms(2) run] obtain buf where
    w: "write_chars (buffer (updateBufferSize (length s) p)) (pool_size p) s = Inr buf"
    and q: "off = pool_size p" "pool_size q = string_end (pool_size p) (length s)"
    "buffer q = fst (pad_zero (buf[pool_size p + length s := 0]) (Suc (pool_size p + length s)))"
    by metis
  have "length (buffer q) = capacity p"
    using length_write_chars [OF w] assms(1,3) q(3) by (simp add: updateBufferSize_def dp_inv_def)
  with q(2) assms(3) string_end_bounds [of "pool_size p" "length s"]
  have "getData q = Inl JSRangeError" by (simp add: getData_def)
  with run q(1) show ?thesis by simp
qed

theorem addString_exact_fill_breaks_getData_witness:
  "\<exists>q. addString (replicate 4096 97) new_DataPool = Inr (0, q) \<and> getData q = Inl JSRangeError"
proof -
  have "dp_inv new_DataPool" "map_get (strMap new_DataPool) (replicate 4096 97) = None"
    "pool_size new_DataPool + length (replicate 4096 (97 :: 16 word)) = capacity new_DataPool"
    "\<forall>c \<in> set (replicate 4096 (97 :: 16 word)). unat c < 256"
    by (simp_all add: new_DataPool_inv)
  from addString_exact_fill_breaks_getData [OF this] show ?thesis by simp
qed

text \<open>
  The string map is never written: whatever strings, bytes and integers are added to a
  new pool, \<open>getStringCount\<close> stays 0, so the header of the string block always has count 0
  and a string added twice is stored twice.
\<close>

theorem string_map_never_filled:
  assumes "fold_r pool_step ops new_DataPool = Inr p"
  shows "getStringCount p = 0 \<and>
         (addString s p = Inr (off, q) \<longrightarrow> addString s q = Inr (off', q') \<longrightarrow> off < off')"
proof -
  have "strMap p = []"
    using assms by (rule fold_r_invariant) (auto intro: pool_step_strMap)
  moreover have "off < off'" if a: "addString s p = Inr (off, q)" and b: "addString s q = Inr (off', q')"
  proof -
    from \<open>strMap p = []\<close> have fresh: "map_get (strMap p) s = None" by simp
    from addString_fresh [OF fresh a] have q: "off = pool_size p" "strMap q = []"
      "pool_size q = string_end (pool_size p) (length s)"
      using \<open>strMap p = []\<close> by metis+
    then have "map_get (strMap q) s = None" by simp
    from addString_fresh [OF this b] have "off' = pool_size q" by metis
    with q string_end_bounds [of "pool_size p" "length s"] show ?thesis by simp
  qed
  ultimately show ?thesis by (simp add: getStringCount_def)
qed

theorem string_map_never_filled_witness:
  "fold_r pool_step [AddByte 1, AddInt32 2] new_DataPool =
     Inr (snd (addInt32 2 (snd (addByte 1 new_DataPool)))) \<and>
   getStringCount (snd (addInt32 2 (snd (addByte 1 new_DataPool)))) = 0"
proof -
  have r: "fold_r pool_step [AddByte 1, AddInt32 2] new_DataPool =
     Inr (snd (addInt32 2 (snd (addByte 1 new_DataPool))))" by simp
  from string_map_never_filled [OF r] r show ?thesis by simp
qed

end
