(* ===== verification/ValueTypes.thy ===== *)
theory ValueTypes
  imports Prelude
begin

text \<open>
  The value types of the semantic tree (\<open>src/src/semantics/value_types.ts\<close>, with the
  identifiers of \<open>src/src/utils.ts\<close>).

  The class hierarchy under \<open>ValueType\<close> is the datatype \<open>value_type\<close>, one constructor per
  class that the code instantiates. \<open>vt_kind\<close> and \<open>typeId\<close> are the two fields of the base
  class. An \<open>ObjectDescription\<close> is shared and mutable, so a type holds its address
  (\<open>meta_ref\<close>) and \<open>===\<close> on descriptions is equality of addresses. The kinds the source
  passes to \<open>new ValueType\<close>, \<open>new PrimitiveType\<close>, \<open>new WASMType\<close> and \<open>new EmptyType\<close> are
  \<open>base_kind\<close>, which makes the casts after a comparison of kinds safe by construction.
  The virtual method \<open>equals\<close> dispatches on the class of its receiver, the first argument.
\<close>

section \<open>Enumerations\<close>

datatype (plugins only: size) ValueTypeKind =
    PRIMITVE_BEGIN | VOID | UNDEFINED | NULL | NEVER | INT | NUMBER | BOOLEAN | RAW_STRING
    | STRING | ANY | GENERIC | PRIMITVE_END | ARRAY | SET | MAP | OBJECT | INTERFACE | FUNCTION
    | UNION | INTERSECTION | NAMESPACE | CLOSURECONTEXT | EMPTY | TYPE_PARAMETER | ENUM | TUPLE
    | WASM_I64 | WASM_F32 | WASM_ARRAY | WASM_STRUCT

text \<open>The reserved type ids: an enumeration that starts at 1; \<open>predefined_id\<close> is the number of a member.\<close>

datatype PredefinedTypeId = PredefinedTypeId (predefined_id: int)

abbreviation PredefinedTypeId_VOID :: PredefinedTypeId where "PredefinedTypeId_VOID \<equiv> PredefinedTypeId 1"
abbreviation PredefinedTypeId_UNDEFINED :: PredefinedTypeId where "PredefinedTypeId_UNDEFINED \<equiv> PredefinedTypeId 2"
abbreviation PredefinedTypeId_NULL :: PredefinedTypeId where "PredefinedTypeId_NULL \<equiv> PredefinedTypeId 3"
abbreviation PredefinedTypeId_NEVER :: PredefinedTypeId where "PredefinedTypeId_NEVER \<equiv> PredefinedTypeId 4"
abbreviation PredefinedTypeId_INT :: PredefinedTypeId where "PredefinedTypeId_INT \<equiv> PredefinedTypeId 5"
abbreviation PredefinedTypeId_NUMBER :: PredefinedTypeId where "PredefinedTypeId_NUMBER \<equiv> PredefinedTypeId 6"
abbreviation PredefinedTypeId_BOOLEAN :: PredefinedTypeId where "PredefinedTypeId_BOOLEAN \<equiv> PredefinedTypeId 7"
abbreviation PredefinedTypeId_RAW_STRING :: PredefinedTypeId where "PredefinedTypeId_RAW_STRING \<equiv> PredefinedTypeId 8"
abbreviation PredefinedTypeId_STRING :: PredefinedTypeId where "PredefinedTypeId_STRING \<equiv> PredefinedTypeId 9"
abbreviation PredefinedTypeId_ANY :: PredefinedTypeId where "PredefinedTypeId_ANY \<equiv> PredefinedTypeId 10"
abbreviation PredefinedTypeId_UNION :: PredefinedTypeId where "PredefinedTypeId_UNION \<equiv> PredefinedTypeId 11"
abbreviation PredefinedTypeId_GENERIC :: PredefinedTypeId where "PredefinedTypeId_GENERIC \<equiv> PredefinedTypeId 12"
abbreviation PredefinedTypeId_NAMESPACE :: PredefinedTypeId where "PredefinedTypeId_NAMESPACE \<equiv> PredefinedTypeId 13"
abbreviation PredefinedTypeId_CLOSURECONTEXT :: PredefinedTypeId where "PredefinedTypeId_CLOSURECONTEXT \<equiv> PredefinedTypeId 14"
abbreviation PredefinedTypeId_EMPTY :: PredefinedTypeId where "PredefinedTypeId_EMPTY \<equiv> PredefinedTypeId 15"
abbreviation PredefinedTypeId_ARRAY :: PredefinedTypeId where "PredefinedTypeId_ARRAY \<equiv> PredefinedTypeId 16"
abbreviation PredefinedTypeId_ARRAY_CONSTRUCTOR :: PredefinedTypeId where "PredefinedTypeId_ARRAY_CONSTRUCTOR \<equiv> PredefinedTypeId 17"
abbreviation PredefinedTypeId_STRING_OBJECT :: PredefinedTypeId where "PredefinedTypeId_STRING_OBJECT \<equiv> PredefinedTypeId 18"
abbreviation PredefinedTypeId_STRING_CONSTRUCTOR :: PredefinedTypeId where "PredefinedTypeId_STRING_CONSTRUCTOR \<equiv> PredefinedTypeId 19"
abbreviation PredefinedTypeId_MAP :: PredefinedTypeId where "PredefinedTypeId_MAP \<equiv> PredefinedTypeId 20"
abbreviation PredefinedTypeId_MAP_CONSTRUCTOR :: PredefinedTypeId where "PredefinedTypeId_MAP_CONSTRUCTOR \<equiv> PredefinedTypeId 21"
abbreviation PredefinedTypeId_SET :: PredefinedTypeId where "PredefinedTypeId_SET \<equiv> PredefinedTypeId 22"
abbreviation PredefinedTypeId_SET_CONSTRUCTOR :: PredefinedTypeId where "PredefinedTypeId_SET_CONSTRUCTOR \<equiv> PredefinedTypeId 23"
abbreviation PredefinedTypeId_FUNCTION :: PredefinedTypeId where "PredefinedTypeId_FUNCTION \<equiv> PredefinedTypeId 24"
abbreviation PredefinedTypeId_PROMISE :: PredefinedTypeId where "PredefinedTypeId_PROMISE \<equiv> PredefinedTypeId 25"
abbreviation PredefinedTypeId_PROMISE_CONSTRUCTOR :: PredefinedTypeId where "PredefinedTypeId_PROMISE_CONSTRUCTOR \<equiv> PredefinedTypeId 26"
abbreviation PredefinedTypeId_DATE :: PredefinedTypeId where "PredefinedTypeId_DATE \<equiv> PredefinedTypeId 27"
abbreviation PredefinedTypeId_DATE_CONSTRUCTOR :: PredefinedTypeId where "PredefinedTypeId_DATE_CONSTRUCTOR \<equiv> PredefinedTypeId 28"
abbreviation PredefinedTypeId_FUNC_VOID_VOID_NONE :: PredefinedTypeId where "PredefinedTypeId_FUNC_VOID_VOID_NONE \<equiv> PredefinedTypeId 29"
abbreviation PredefinedTypeId_FUNC_VOID_VOID_DEFAULT :: PredefinedTypeId where "PredefinedTypeId_FUNC_VOID_VOID_DEFAULT \<equiv> PredefinedTypeId 30"
abbreviation PredefinedTypeId_FUNC_VOID_ARRAY_ANY_DEFAULT :: PredefinedTypeId where "PredefinedTypeId_FUNC_VOID_ARRAY_ANY_DEFAULT \<equiv> PredefinedTypeId 31"
abbreviation PredefinedTypeId_FUNC_ANY_ARRAY_ANY_DEFAULT :: PredefinedTypeId where "PredefinedTypeId_FUNC_ANY_ARRAY_ANY_DEFAULT \<equiv> PredefinedTypeId 32"
abbreviation PredefinedTypeId_FUNC_VOID_VOID_METHOD :: PredefinedTypeId where "PredefinedTypeId_FUNC_VOID_VOID_METHOD \<equiv> PredefinedTypeId 33"
abbreviation PredefinedTypeId_FUNC_VOID_ARRAY_ANY_METHOD :: PredefinedTypeId where "PredefinedTypeId_FUNC_VOID_ARRAY_ANY_METHOD \<equiv> PredefinedTypeId 34"
abbreviation PredefinedTypeId_FUNC_ANY_ARRAY_ANY_METHOD :: PredefinedTypeId where "PredefinedTypeId_FUNC_ANY_ARRAY_ANY_METHOD \<equiv> PredefinedTypeId 35"
abbreviation PredefinedTypeId_ARRAY_ANY :: PredefinedTypeId where "PredefinedTypeId_ARRAY_ANY \<equiv> PredefinedTypeId 36"
abbreviation PredefinedTypeId_ARRAY_INT :: PredefinedTypeId where "PredefinedTypeId_ARRAY_INT \<equiv> PredefinedTypeId 37"
abbreviation PredefinedTypeId_ARRAY_NUMBER :: PredefinedTypeId where "PredefinedTypeId_ARRAY_NUMBER \<equiv> PredefinedTypeId 38"
abbreviation PredefinedTypeId_ARRAY_BOOLEAN :: PredefinedTypeId where "PredefinedTypeId_ARRAY_BOOLEAN \<equiv> PredefinedTypeId 39"
abbreviation PredefinedTypeId_ARRAY_STRING :: PredefinedTypeId where "PredefinedTypeId_ARRAY_STRING \<equiv> PredefinedTypeId 40"
abbreviation PredefinedTypeId_SET_ANY :: PredefinedTypeId where "PredefinedTypeId_SET_ANY \<equiv> PredefinedTypeId 41"
abbreviation PredefinedTypeId_SET_INT :: PredefinedTypeId where "PredefinedTypeId_SET_INT \<equiv> PredefinedTypeId 42"
abbreviation PredefinedTypeId_SET_NUMBER :: PredefinedTypeId where "PredefinedTypeId_SET_NUMBER \<equiv> PredefinedTypeId 43"
abbreviation PredefinedTypeId_SET_BOOLEAN :: PredefinedTypeId where "PredefinedTypeId_SET_BOOLEAN \<equiv> PredefinedTypeId 44"
abbreviation PredefinedTypeId_SET_STRING :: PredefinedTypeId where "PredefinedTypeId_SET_STRING \<equiv> PredefinedTypeId 45"
abbreviation PredefinedTypeId_MAP_STRING_STRING :: PredefinedTypeId where "PredefinedTypeId_MAP_STRING_STRING \<equiv> PredefinedTypeId 46"
abbreviation PredefinedTypeId_MAP_STRING_ANY :: PredefinedTypeId where "PredefinedTypeId_MAP_STRING_ANY \<equiv> PredefinedTypeId 47"
abbreviation PredefinedTypeId_MAP_INT_STRING :: PredefinedTypeId where "PredefinedTypeId_MAP_INT_STRING \<equiv> PredefinedTypeId 48"
abbreviation PredefinedTypeId_MAP_INT_ANY :: PredefinedTypeId where "PredefinedTypeId_MAP_INT_ANY \<equiv> PredefinedTypeId 49"
abbreviation PredefinedTypeId_ERROR :: PredefinedTypeId where "PredefinedTypeId_ERROR \<equiv> PredefinedTypeId 50"
abbreviation PredefinedTypeId_ERROR_CONSTRUCTOR :: PredefinedTypeId where "PredefinedTypeId_ERROR_CONSTRUCTOR \<equiv> PredefinedTypeId 51"
abbreviation PredefinedTypeId_ARRAYBUFFER :: PredefinedTypeId where "PredefinedTypeId_ARRAYBUFFER \<equiv> PredefinedTypeId 52"
abbreviation PredefinedTypeId_ARRAYBUFFER_CONSTRUCTOR :: PredefinedTypeId where "PredefinedTypeId_ARRAYBUFFER_CONSTRUCTOR \<equiv> PredefinedTypeId 53"
abbreviation PredefinedTypeId_DATAVIEW :: PredefinedTypeId where "PredefinedTypeId_DATAVIEW \<equiv> PredefinedTypeId 54"
abbreviation PredefinedTypeId_DATAVIEW_CONSTRUCTOR :: PredefinedTypeId where "PredefinedTypeId_DATAVIEW_CONSTRUCTOR \<equiv> PredefinedTypeId 55"
abbreviation PredefinedTypeId_WASM_I64 :: PredefinedTypeId where "PredefinedTypeId_WASM_I64 \<equiv> PredefinedTypeId 56"
abbreviation PredefinedTypeId_WASM_F32 :: PredefinedTypeId where "PredefinedTypeId_WASM_F32 \<equiv> PredefinedTypeId 57"
abbreviation PredefinedTypeId_WASM_ARRAY :: PredefinedTypeId where "PredefinedTypeId_WASM_ARRAY \<equiv> PredefinedTypeId 58"
abbreviation PredefinedTypeId_WASM_STRUCT :: PredefinedTypeId where "PredefinedTypeId_WASM_STRUCT \<equiv> PredefinedTypeId 59"
abbreviation PredefinedTypeId_TUPLE :: PredefinedTypeId where "PredefinedTypeId_TUPLE \<equiv> PredefinedTypeId 60"
abbreviation PredefinedTypeId_BUILTIN_TYPE_BEGIN :: PredefinedTypeId where "PredefinedTypeId_BUILTIN_TYPE_BEGIN \<equiv> PredefinedTypeId 61"
abbreviation PredefinedTypeId_CUSTOM_TYPE_BEGIN :: PredefinedTypeId where "PredefinedTypeId_CUSTOM_TYPE_BEGIN \<equiv> PredefinedTypeId 1061"

definition DefaultTypeId :: int where
  "DefaultTypeId = -1"

datatype PackedTypeKind = Not_Packed | I8 | I16

datatype MutabilityKind = Immutable | Mutable

datatype NullabilityKind = NonNullable | Nullable

datatype ObjectTypeFlag = OBJECT | LITERAL | CLASS | UNION

datatype TypeParameterOwnerType = FUNCTION | CLASS | CLOSURE

section \<open>Types\<close>

type_synonym meta_ref = nat

datatype base_kind =
    BVoid | BUndefined | BNull | BNever | BInt | BNumber | BBoolean | BRawString | BString | BAny
  | BGeneric | BNamespace | BEmpty | BWasmI64 | BWasmF32

primrec base_kind_of :: "base_kind \<Rightarrow> ValueTypeKind" where
  "base_kind_of BVoid = ValueTypeKind.VOID"
| "base_kind_of BUndefined = ValueTypeKind.UNDEFINED"
| "base_kind_of BNull = ValueTypeKind.NULL"
| "base_kind_of BNever = ValueTypeKind.NEVER"
| "base_kind_of BInt = ValueTypeKind.INT"
| "base_kind_of BNumber = ValueTypeKind.NUMBER"
| "base_kind_of BBoolean = ValueTypeKind.BOOLEAN"
| "base_kind_of BRawString = ValueTypeKind.RAW_STRING"
| "base_kind_of BString = ValueTypeKind.STRING"
| "base_kind_of BAny = ValueTypeKind.ANY"
| "base_kind_of BGeneric = ValueTypeKind.GENERIC"
| "base_kind_of BNamespace = ValueTypeKind.NAMESPACE"
| "base_kind_of BEmpty = ValueTypeKind.EMPTY"
| "base_kind_of BWasmI64 = ValueTypeKind.WASM_I64"
| "base_kind_of BWasmF32 = ValueTypeKind.WASM_F32"

text \<open>
  The arguments are the fields in the order of the constructors of the source. The private
  fields \<open>_typeArguments\<close> and \<open>_specialTypeArguments\<close> of \<open>ValueTypeWithArguments\<close> come
  last, as do the index types and \<open>_element\<close> of the object types. \<open>UnionType.types\<close> is a
  \<open>Set\<close>, a list in insertion order.
\<close>

datatype (plugins only: size) value_type =
    SimpleType base_kind int
  | ClosureContextType "value_type option" "value_type list"
  | WASMArrayType value_type PackedTypeKind MutabilityKind NullabilityKind
  | WASMStructType value_type "PackedTypeKind list" "MutabilityKind list" NullabilityKind
      "value_type option"
  | SetType int value_type "meta_ref option" "value_type list option" "value_type list option"
  | MapType int value_type value_type "meta_ref option" "value_type list option"
      "value_type list option"
  | ObjectType int meta_ref ObjectTypeFlag "value_type option" "value_type option"
      "value_type list option" "value_type list option"
  | ArrayType int meta_ref ObjectTypeFlag value_type "value_type option"
      "value_type list option" "value_type list option"
  | UnionType int "value_type list" value_type
  | FunctionType int value_type "value_type list" "bool list" int nat
      "value_type list option" "value_type list option"
  | TypeParameterType int js_string value_type int "value_type option" TypeParameterOwnerType
  | EnumType int js_string value_type "(js_string, int + js_string) js_map"
  | TupleType int "value_type list"

primrec vt_kind :: "value_type \<Rightarrow> ValueTypeKind" where
  "vt_kind (SimpleType k i) = base_kind_of k"
| "vt_kind (ClosureContextType p fs) = ValueTypeKind.CLOSURECONTEXT"
| "vt_kind (WASMArrayType a pk m n) = ValueTypeKind.WASM_ARRAY"
| "vt_kind (WASMStructType t pks ms n b) = ValueTypeKind.WASM_STRUCT"
| "vt_kind (SetType i e m ta sa) = ValueTypeKind.SET"
| "vt_kind (MapType i k v m ta sa) = ValueTypeKind.MAP"
| "vt_kind (ObjectType i m f ni si ta sa) = ValueTypeKind.OBJECT"
| "vt_kind (ArrayType i m f e ni ta sa) = ValueTypeKind.ARRAY"
| "vt_kind (UnionType i ts w) = ValueTypeKind.UNION"
| "vt_kind (FunctionType i r as os rp ep ta sa) = ValueTypeKind.FUNCTION"
| "vt_kind (TypeParameterType i n w ix d ow) = ValueTypeKind.TYPE_PARAMETER"
| "vt_kind (EnumType i n mt ms) = ValueTypeKind.ENUM"
| "vt_kind (TupleType i es) = ValueTypeKind.TUPLE"

primrec typeId :: "value_type \<Rightarrow> int" where
  "typeId (SimpleType k i) = i"
| "typeId (ClosureContextType p fs) = predefined_id PredefinedTypeId_CLOSURECONTEXT"
| "typeId (WASMArrayType a pk m n) = predefined_id PredefinedTypeId_WASM_ARRAY"
| "typeId (WASMStructType t pks ms n b) = predefined_id PredefinedTypeId_WASM_STRUCT"
| "typeId (SetType i e m ta sa) = i"
| "typeId (MapType i k v m ta sa) = i"
| "typeId (ObjectType i m f ni si ta sa) = i"
| "typeId (ArrayType i m f e ni ta sa) = i"
| "typeId (UnionType i ts w) = i"
| "typeId (FunctionType i r as os rp ep ta sa) = i"
| "typeId (TypeParameterType i n w ix d ow) = i"
| "typeId (EnumType i n mt ms) = i"
| "typeId (TupleType i es) = i"

subsection \<open>The shared primitive types\<close>

definition Primitive_Void :: value_type where
  "Primitive_Void = SimpleType BVoid (predefined_id PredefinedTypeId_VOID)"

definition Primitive_Null :: value_type where
  "Primitive_Null = SimpleType BNull (predefined_id PredefinedTypeId_NULL)"

definition Primitive_Undefined :: value_type where
  "Primitive_Undefined = SimpleType BUndefined (predefined_id PredefinedTypeId_UNDEFINED)"

definition Primitive_Never :: value_type where
  "Primitive_Never = SimpleType BNever (predefined_id PredefinedTypeId_NEVER)"

definition Primitive_Boolean :: value_type where
  "Primitive_Boolean = SimpleType BBoolean (predefined_id PredefinedTypeId_BOOLEAN)"

definition Primitive_Int :: value_type where
  "Primitive_Int = SimpleType BInt (predefined_id PredefinedTypeId_INT)"

definition Primitive_Number :: value_type where
  "Primitive_Number = SimpleType BNumber (predefined_id PredefinedTypeId_NUMBER)"

definition Primitive_RawString :: value_type where
  "Primitive_RawString = SimpleType BRawString (predefined_id PredefinedTypeId_RAW_STRING)"

definition Primitive_String :: value_type where
  "Primitive_String = SimpleType BString (predefined_id PredefinedTypeId_STRING)"

definition Primitive_Any :: value_type where
  "Primitive_Any = SimpleType BAny (predefined_id PredefinedTypeId_ANY)"

definition Primitive_Generic :: value_type where
  "Primitive_Generic = SimpleType BGeneric (predefined_id PredefinedTypeId_GENERIC)"

definition Primitive_Namespace :: value_type where
  "Primitive_Namespace = SimpleType BNamespace (predefined_id PredefinedTypeId_NAMESPACE)"

definition WASM_I32 :: value_type where
  "WASM_I32 = SimpleType BInt (predefined_id PredefinedTypeId_INT)"

definition WASM_I64 :: value_type where
  "WASM_I64 = SimpleType BWasmI64 (predefined_id PredefinedTypeId_WASM_I64)"

definition WASM_F32 :: value_type where
  "WASM_F32 = SimpleType BWasmF32 (predefined_id PredefinedTypeId_WASM_F32)"

definition WASM_F64 :: value_type where
  "WASM_F64 = SimpleType BNumber (predefined_id PredefinedTypeId_NUMBER)"

definition WASM_ANYREF :: value_type where
  "WASM_ANYREF = SimpleType BAny (predefined_id PredefinedTypeId_ANY)"

definition new_EmptyType :: value_type where
  "new_EmptyType = SimpleType BEmpty (predefined_id PredefinedTypeId_EMPTY)"

subsection \<open>Constructors with defaults\<close>

text \<open>\<open>new WASMArrayType\<close> and \<open>new WASMStructType\<close>: absent arguments take the defaults of the class.\<close>

definition new_WASMArrayType ::
  "value_type \<Rightarrow> PackedTypeKind option \<Rightarrow> MutabilityKind option \<Rightarrow> NullabilityKind option \<Rightarrow> value_type"
where
  "new_WASMArrayType arr pk mu nu =
     WASMArrayType arr (case_option Not_Packed id pk) (case_option Mutable id mu)
       (case_option Nullable id nu)"

definition tuple_elements :: "value_type \<Rightarrow> value_type list option" where
  "tuple_elements t = (case t of TupleType i es \<Rightarrow> Some es | _ \<Rightarrow> None)"

definition new_WASMStructType ::
  "value_type \<Rightarrow> PackedTypeKind list option \<Rightarrow> MutabilityKind list option \<Rightarrow>
   NullabilityKind option \<Rightarrow> value_type option \<Rightarrow> value_type result"
where
  "new_WASMStructType tup pks mus nu base =
     (case tuple_elements tup of
        None \<Rightarrow> Inl JSTypeError
      | Some es \<Rightarrow>
          Inr (WASMStructType tup
                (case pks of Some l \<Rightarrow> l | None \<Rightarrow> replicate (length es) Not_Packed)
                (case mus of Some l \<Rightarrow> l | None \<Rightarrow> replicate (length es) Mutable)
                (case_option Nullable id nu) base))"

subsection \<open>Object and array types\<close>

text \<open>\<open>arr[0]\<close> of a possibly empty array.\<close>

definition js_first :: "'a list \<Rightarrow> 'a option" where
  "js_first xs = (case xs of [] \<Rightarrow> None | x # _ \<Rightarrow> Some x)"

text \<open>The getters \<open>ArrayType.numberIndexType\<close> and \<open>ArrayType.element\<close> over the fields.\<close>

definition array_numberIndexType ::
  "ObjectTypeFlag \<Rightarrow> value_type option \<Rightarrow> value_type list option \<Rightarrow> value_type list option \<Rightarrow>
   value_type option"
where
  "array_numberIndexType flags ni ta sa =
     (case ni of Some t \<Rightarrow> Some t
      | None \<Rightarrow>
          (case sa of Some ts \<Rightarrow> js_first ts
           | None \<Rightarrow>
               (if flags = ObjectTypeFlag.OBJECT
                then (case ta of Some ts \<Rightarrow> js_first ts | None \<Rightarrow> None) else None)))"

definition array_element ::
  "ObjectTypeFlag \<Rightarrow> value_type \<Rightarrow> value_type option \<Rightarrow> value_type list option \<Rightarrow>
   value_type list option \<Rightarrow> value_type"
where
  "array_element flags e ni ta sa =
     (case array_numberIndexType flags ni ta sa of Some t \<Rightarrow> t | None \<Rightarrow> e)"

lemma size_zip_member:
  "(x, y) \<in> set (zip xs ys) \<Longrightarrow> size x \<le> size_list size xs \<and> size y \<le> size_list size ys"
  by (auto dest: set_zip_leftD set_zip_rightD intro: size_list_mem)

lemma size_array_element:
  "size (array_element flags e ni ta sa) \<le>
     size e + (size_option size ni + (size_option (size_list size) ta + size_option (size_list size) sa))"
  by (auto simp: array_element_def array_numberIndexType_def js_first_def
      split: option.splits list.splits if_splits)

lemmas size_array_elements = add_mono [OF size_array_element size_array_element]

section \<open>Equality of types\<close>

text \<open>
  \<open>equals\<close> is the method of the class of its first argument. The comparison of two unions
  first asks \<open>other_union.types.has(t)\<close>, which is identity of objects; the model takes
  equality of values for it, and \<open>equals_refl\<close> below makes the outcome independent of
  the choice.
\<close>

function equals :: "value_type \<Rightarrow> value_type \<Rightarrow> bool" where
  "equals (FunctionType i r as os rp ep ta sa) other =
     (case other of
        FunctionType i' r' as' os' rp' ep' ta' sa' \<Rightarrow>
          equals r r' \<and> length as = length as' \<and>
          (\<forall>(x, y) \<in> set (zip as as'). equals x y)
      | _ \<Rightarrow> False)"
| "equals (SetType i e m ta sa) other =
     (case other of SetType i' e' m' ta' sa' \<Rightarrow> i = i' \<and> equals e e' | _ \<Rightarrow> False)"
| "equals (MapType i k v m ta sa) other =
     (case other of MapType i' k' v' m' ta' sa' \<Rightarrow> i = i' \<and> equals k k' \<and> equals v v' | _ \<Rightarrow> False)"
| "equals (ObjectType i m f ni si ta sa) other =
     (case other of
        ObjectType i' m' f' ni' si' ta' sa' \<Rightarrow>
          (if f = ObjectTypeFlag.LITERAL \<and> f' = ObjectTypeFlag.LITERAL then i = i' else m = m')
      | _ \<Rightarrow> False)"
| "equals (ArrayType i m f e ni ta sa) other =
     (case other of
        ArrayType i' m' f' e' ni' ta' sa' \<Rightarrow>
          equals (array_element f e ni ta sa) (array_element f' e' ni' ta' sa')
      | _ \<Rightarrow> False)"
| "equals (UnionType i ts w) other =
     (case other of
        UnionType i' ts' w' \<Rightarrow>
          i = i' \<and> length ts = length ts' \<and>
          (\<forall>t \<in> set ts. t \<in> set ts' \<or> (\<exists>p \<in> set ts'. equals p t))
      | _ \<Rightarrow> False)"
| "equals (TypeParameterType i n w ix d ow) other =
     (case other of
        TypeParameterType i' n' w' ix' d' ow' \<Rightarrow>
          (if i \<noteq> -1 \<and> i' \<noteq> -1 then i = i' else equals w w')
      | _ \<Rightarrow> False)"
| "equals (SimpleType k i) other = (base_kind_of k = vt_kind other \<and> typeId other = i)"
| "equals (ClosureContextType p fs) other =
     (ValueTypeKind.CLOSURECONTEXT = vt_kind other \<and>
      typeId other = predefined_id PredefinedTypeId_CLOSURECONTEXT)"
| "equals (WASMArrayType a pk mu nu) other =
     (ValueTypeKind.WASM_ARRAY = vt_kind other \<and>
      typeId other = predefined_id PredefinedTypeId_WASM_ARRAY)"
| "equals (WASMStructType t pks mus nu b) other =
     (ValueTypeKind.WASM_STRUCT = vt_kind other \<and>
      typeId other = predefined_id PredefinedTypeId_WASM_STRUCT)"
| "equals (EnumType i n mt ms) other = (ValueTypeKind.ENUM = vt_kind other \<and> typeId other = i)"
| "equals (TupleType i es) other = (ValueTypeKind.TUPLE = vt_kind other \<and> typeId other = i)"
  by pat_completeness auto
termination
  by (relation "measure (\<lambda>(a, b). size a + size b)")
    (auto dest!: size_list_mem size_zip_member simp: less_Suc_eq_le
      intro!: le_SucI order_trans [OF size_array_elements])

text \<open>No union type among the parts that \<open>equals\<close> compares.\<close>

function union_free :: "value_type \<Rightarrow> bool" where
  "union_free (UnionType i ts w) = False"
| "union_free (FunctionType i r as os rp ep ta sa) = (union_free r \<and> (\<forall>a \<in> set as. union_free a))"
| "union_free (SetType i e m ta sa) = union_free e"
| "union_free (MapType i k v m ta sa) = (union_free k \<and> union_free v)"
| "union_free (ArrayType i m f e ni ta sa) = union_free (array_element f e ni ta sa)"
| "union_free (TypeParameterType i n w ix d ow) = union_free w"
| "union_free (ObjectType i m f ni si ta sa) = True"
| "union_free (SimpleType k i) = True"
| "union_free (ClosureContextType p fs) = True"
| "union_free (WASMArrayType a pk mu nu) = True"
| "union_free (WASMStructType t pks mus nu b) = True"
| "union_free (EnumType i n mt ms) = True"
| "union_free (TupleType i es) = True"
  by pat_completeness auto
termination
  by (relation "measure size")
    (auto dest!: size_list_mem simp: less_Suc_eq_le intro!: le_SucI order_trans [OF size_array_element])

section \<open>Type arguments\<close>

text \<open>The class \<open>ValueTypeWithArguments\<close>: its two private fields and their setters.\<close>

definition typeArguments :: "value_type \<Rightarrow> value_type list option" where
  "typeArguments t =
     (case t of SetType i e m ta sa \<Rightarrow> ta | MapType i k v m ta sa \<Rightarrow> ta
      | ObjectType i m f ni si ta sa \<Rightarrow> ta | ArrayType i m f e ni ta sa \<Rightarrow> ta
      | FunctionType i r as os rp ep ta sa \<Rightarrow> ta | _ \<Rightarrow> None)"

definition specialTypeArguments :: "value_type \<Rightarrow> value_type list option" where
  "specialTypeArguments t =
     (case t of SetType i e m ta sa \<Rightarrow> sa | MapType i k v m ta sa \<Rightarrow> sa
      | ObjectType i m f ni si ta sa \<Rightarrow> sa | ArrayType i m f e ni ta sa \<Rightarrow> sa
      | FunctionType i r as os rp ep ta sa \<Rightarrow> sa | _ \<Rightarrow> None)"

definition setTypeArguments :: "value_type list \<Rightarrow> value_type \<Rightarrow> value_type" where
  "setTypeArguments types t =
     (case t of SetType i e m ta sa \<Rightarrow> SetType i e m (Some types) sa
      | MapType i k v m ta sa \<Rightarrow> MapType i k v m (Some types) sa
      | ObjectType i m f ni si ta sa \<Rightarrow> ObjectType i m f ni si (Some types) sa
      | ArrayType i m f e ni ta sa \<Rightarrow> ArrayType i m f e ni (Some types) sa
      | FunctionType i r as os rp ep ta sa \<Rightarrow> FunctionType i r as os rp ep (Some types) sa
      | _ \<Rightarrow> t)"

definition setSpecialTypeArguments :: "value_type list \<Rightarrow> value_type \<Rightarrow> value_type" where
  "setSpecialTypeArguments types t =
     (case t of SetType i e m ta sa \<Rightarrow> SetType i e m ta (Some types)
      | MapType i k v m ta sa \<Rightarrow> MapType i k v m ta (Some types)
      | ObjectType i m f ni si ta sa \<Rightarrow> ObjectType i m f ni si ta (Some types)
      | ArrayType i m f e ni ta sa \<Rightarrow> ArrayType i m f e ni ta (Some types)
      | FunctionType i r as os rp ep ta sa \<Rightarrow> FunctionType i r as os rp ep ta (Some types)
      | _ \<Rightarrow> t)"

definition has_type_arguments :: "value_type \<Rightarrow> bool" where
  "has_type_arguments t =
     (case t of SetType i e m ta sa \<Rightarrow> True | MapType i k v m ta sa \<Rightarrow> True
      | ObjectType i m f ni si ta sa \<Rightarrow> True | ArrayType i m f e ni ta sa \<Rightarrow> True
      | FunctionType i r as os rp ep ta sa \<Rightarrow> True | _ \<Rightarrow> False)"

definition hasUninitedTypeArguments :: "value_type \<Rightarrow> bool" where
  "hasUninitedTypeArguments t = (typeArguments t = Some [])"

definition set_owner :: "TypeParameterOwnerType \<Rightarrow> value_type \<Rightarrow> value_type" where
  "set_owner ow t =
     (case t of TypeParameterType i n w ix d _ \<Rightarrow> TypeParameterType i n w ix d ow | _ \<Rightarrow> t)"

definition addTypeParameter :: "value_type \<Rightarrow> value_type \<Rightarrow> value_type" where
  "addTypeParameter type this =
     (let args = (case typeArguments this of None \<Rightarrow> [] | Some l \<Rightarrow> l);
          type' = (if vt_kind this = ValueTypeKind.FUNCTION
                   then set_owner TypeParameterOwnerType.FUNCTION type
                   else if vt_kind this = ValueTypeKind.OBJECT \<or> vt_kind this = ValueTypeKind.ARRAY
                   then set_owner TypeParameterOwnerType.CLASS type
                   else type)
      in setTypeArguments (args @ [type']) this)"

definition inTypeArguments :: "value_type \<Rightarrow> value_type \<Rightarrow> bool" where
  "inTypeArguments valueType this =
     (case typeArguments this of None \<Rightarrow> False
      | Some args \<Rightarrow> \<exists>v \<in> set args. equals v valueType)"

definition tp_name :: "value_type \<Rightarrow> js_string option" where
  "tp_name t =
     (case t of TypeParameterType i n w ix d ow \<Rightarrow> Some n | EnumType i n mt ms \<Rightarrow> Some n | _ \<Rightarrow> None)"

text \<open>The loop that looks for the index of a type parameter keeps the last match.\<close>

fun find_type_index :: "js_string option \<Rightarrow> value_type list \<Rightarrow> nat \<Rightarrow> int \<Rightarrow> int" where
  "find_type_index nm [] i typeIdx = typeIdx"
| "find_type_index nm (t # ts) i typeIdx =
     find_type_index nm ts (Suc i) (if tp_name t = nm then int i else typeIdx)"

definition getSpecialTypeArg :: "value_type \<Rightarrow> value_type \<Rightarrow> value_type option result" where
  "getSpecialTypeArg type this =
     (case typeArguments this of
        None \<Rightarrow> Inl JSTypeError
      | Some args \<Rightarrow>
          let typeIdx = find_type_index (tp_name type) args 0 (-1)
          in (case specialTypeArguments this of
                Some sargs \<Rightarrow> Inr (js_index sargs typeIdx)
              | None \<Rightarrow> Inr None))"

fun getSpecialTypeArgs :: "value_type list \<Rightarrow> value_type \<Rightarrow> value_type option list result" where
  "getSpecialTypeArgs [] this = Inr []"
| "getSpecialTypeArgs (type # types) this =
     bind_r (getSpecialTypeArg type this) (\<lambda>a.
     bind_r (getSpecialTypeArgs types this) (\<lambda>as. Inr (a # as)))"

section \<open>Parameters of function types\<close>

definition hasParamType :: "value_type \<Rightarrow> bool" where
  "hasParamType t = (case t of FunctionType i r as os rp ep ta sa \<Rightarrow> rp \<ge> 0 | _ \<Rightarrow> False)"

definition getRestParam :: "value_type \<Rightarrow> value_type option result" where
  "getRestParam t =
     (case t of
        FunctionType i r as os rp ep ta sa \<Rightarrow>
          (if rp < 0 then Inr None
           else if length as \<le> 0 then Inr (Some Primitive_Any)
           else (case js_index as rp of
                   None \<Rightarrow> Inl JSTypeError
                 | Some (ArrayType i' m f e ni ta' sa') \<Rightarrow> Inr (Some (array_element f e ni ta' sa'))
                 | Some last_type \<Rightarrow> Inr (Some last_type)))
      | _ \<Rightarrow> Inl JSTypeError)"

definition getParamType :: "int \<Rightarrow> value_type \<Rightarrow> value_type option result" where
  "getParamType idx t =
     (case t of
        FunctionType i r as os rp ep ta sa \<Rightarrow>
          (if hasParamType t \<and> idx < rp \<or> \<not> hasParamType t then Inr (js_index as idx)
           else getRestParam t)
      | _ \<Rightarrow> Inl JSTypeError)"

section \<open>Lemmas\<close>

declare equals.simps [simp del]

lemma equals_same_kind: "equals a b \<Longrightarrow> vt_kind a = vt_kind b"
  by (cases a; cases b) (simp_all add: equals.simps)

lemma equals_reflexive: "equals t t"
proof (induction t rule: measure_induct_rule [of size])
  case (less t)
  have zipd: "equals x y" if "(x, y) \<in> set (zip ts ts)" "size_list size ts < size t" for x y ts
    using that less size_list_mem [of x ts]
    by (metis in_set_zip le_less_trans nth_mem prod.sel(1) prod.sel(2))
  show ?case
  proof (cases t)
    case (ArrayType i m f e ni ta sa)
    then have "size (array_element f e ni ta sa) < size t"
      using size_array_element [of f e ni ta sa] by simp
    with less ArrayType show ?thesis by (simp add: equals.simps)
  next
    case (FunctionType i r as os rp ep ta sa)
    with less zipd [of _ _ as] show ?thesis by (auto simp: equals.simps)
  qed (use less in \<open>auto simp: equals.simps\<close>)
qed

text \<open>The classes that inherit \<open>equals\<close> from the base class, where it compares kind and id.\<close>

abbreviation own_equals_kinds :: "ValueTypeKind set" where
  "own_equals_kinds \<equiv> {ValueTypeKind.FUNCTION, ValueTypeKind.SET, ValueTypeKind.MAP,
     ValueTypeKind.OBJECT, ValueTypeKind.ARRAY, ValueTypeKind.UNION, ValueTypeKind.TYPE_PARAMETER}"

lemma base_kind_inherits: "base_kind_of k \<notin> own_equals_kinds"
  by (cases k) simp_all

lemma equals_inherited:
  "vt_kind a \<notin> own_equals_kinds \<Longrightarrow> equals a b \<longleftrightarrow> vt_kind a = vt_kind b \<and> typeId b = typeId a"
  by (cases a) (simp_all add: equals.simps)

lemma equals_inherited_sym: "equals a b \<Longrightarrow> vt_kind a \<notin> own_equals_kinds \<Longrightarrow> equals b a"
  by (metis equals_inherited)

lemma equals_sym_imp: "equals a b \<Longrightarrow> union_free a \<Longrightarrow> equals b a"
proof (induction a b rule: equals.induct)
  case (1 i r as os rp ep ta sa other)
  then obtain i' r' as' os' rp' ep' ta' sa' where
    o: "other = FunctionType i' r' as' os' rp' ep' ta' sa'"
    and e: "equals r r'" "length as = length as'" "\<forall>(x, y) \<in> set (zip as as'). equals x y"
    by (cases other) (simp_all add: equals.simps)
  have "equals y x" if "(y, x) \<in> set (zip as' as)" for x y
  proof -
    from that have xy: "(x, y) \<in> set (zip as as')" by (auto simp: set_zip)
    moreover from xy "1.prems"(2) have "union_free x" by (auto dest: set_zip_leftD)
    ultimately show ?thesis using e "1.IH"(2) [OF o] by blast
  qed
  with o e "1.IH"(1) [OF o] "1.prems"(2) show ?case by (auto simp: equals.simps)
next
  case (6 i ts w other)
  then show ?case by simp
next
  case (8 k i other)
  then show ?case using base_kind_inherits [of k] by (simp add: equals_inherited_sym)
qed (fastforce simp: equals.simps split: value_type.splits if_splits
      | erule equals_inherited_sym, simp)+

lemma find_type_index_none: "\<forall>t \<in> set ts. tp_name t \<noteq> nm \<Longrightarrow> find_type_index nm ts i d = d"
  by (induction ts arbitrary: i) auto

lemma find_type_index_found:
  "distinct (map tp_name ts) \<Longrightarrow> k < length ts \<Longrightarrow> find_type_index (tp_name (ts ! k)) ts i d = int (i + k)"
proof (induction ts arbitrary: i k d)
  case (Cons t ts)
  show ?case
  proof (cases k)
    case 0
    from Cons.prems(1) have "tp_name t \<notin> tp_name ` set ts" by simp
    then have "\<forall>u \<in> set ts. tp_name u \<noteq> tp_name t" by (metis image_eqI)
    with 0 show ?thesis by (simp add: find_type_index_none)
  next
    case (Suc j)
    with Cons show ?thesis by simp
  qed
qed simp

lemma type_arguments_simps [simp]:
  "has_type_arguments t \<Longrightarrow> typeArguments (setTypeArguments ts t) = Some ts"
  "has_type_arguments t \<Longrightarrow> specialTypeArguments (setSpecialTypeArguments ts t) = Some ts"
  "typeArguments (setSpecialTypeArguments ts t) = typeArguments t"
  "has_type_arguments (setTypeArguments ts t) = has_type_arguments t"
  by (simp_all add: has_type_arguments_def typeArguments_def setTypeArguments_def
      specialTypeArguments_def setSpecialTypeArguments_def split: value_type.splits)

section \<open>Properties\<close>

text \<open>
  Equality of types is reflexive: every value type, whatever its class and nesting,
  equals itself.
\<close>

theorem equals_refl: "equals t t"
  by (rule equals_reflexive)

text \<open>
  Without union types equality of types is symmetric, although the method is dispatched
  on the receiver only.
\<close>

theorem equals_symmetric:
  assumes "union_free a" and "union_free b"
  shows "equals a b \<longleftrightarrow> equals b a"
  using assms equals_sym_imp by blast

theorem equals_symmetric_witness:
  "equals (TypeParameterType (-1) [84] Primitive_Any 0 None TypeParameterOwnerType.FUNCTION)
          (TypeParameterType 7 [85] Primitive_Any 1 None TypeParameterOwnerType.CLASS) \<longleftrightarrow>
   equals (TypeParameterType 7 [85] Primitive_Any 1 None TypeParameterOwnerType.CLASS)
          (TypeParameterType (-1) [84] Primitive_Any 0 None TypeParameterOwnerType.FUNCTION)"
  by (rule equals_symmetric) (simp_all add: Primitive_Any_def)

text \<open>
  In the comparison of two unions the identity test \<open>types.has(t)\<close> is only a shortcut:
  the result is the same as that of the search with \<open>equals\<close> alone.
\<close>

theorem union_identity_shortcut:
  "equals (UnionType i ts w) (UnionType i' ts' w') \<longleftrightarrow>
     i = i' \<and> length ts = length ts' \<and> (\<forall>t. t \<in> set ts \<longrightarrow> (\<exists>p. p \<in> set ts' \<and> equals p t))"
  using equals_reflexive by (auto simp: equals.simps)

theorem union_identity_shortcut_witness:
  "equals (UnionType 5 [Primitive_Int, Primitive_Null] Primitive_Any)
          (UnionType 5 [Primitive_Null, Primitive_Int] Primitive_Any)"
  using equals_reflexive
  by (subst union_identity_shortcut) auto

text \<open>
  Specialisation of type parameters: with the type parameters \<open>ps\<close> of distinct names and
  as many type arguments, looking up any list of the parameters yields exactly the arguments
  at their positions.
\<close>

theorem getSpecialTypeArgs_specialized:
  assumes "has_type_arguments t" and "distinct (map tp_name ps)" and "length sas = length ps"
    and "\<forall>k \<in> set ks. k < length ps"
  shows "getSpecialTypeArgs (map ((!) ps) ks)
           (setSpecialTypeArguments sas (setTypeArguments ps t)) = Inr (map (\<lambda>k. Some (sas ! k)) ks)"
  using assms(4)
proof (induction ks)
  case (Cons k ks)
  then have "find_type_index (tp_name (ps ! k)) ps 0 (-1) = int k"
    using assms(2) by (simp add: find_type_index_found)
  with Cons assms show ?case by (simp add: getSpecialTypeArg_def)
qed simp

theorem getSpecialTypeArgs_specialized_witness:
  "getSpecialTypeArgs [TypeParameterType 3 [75] Primitive_Any 0 None TypeParameterOwnerType.CLASS]
     (setSpecialTypeArguments [Primitive_Int]
        (setTypeArguments [TypeParameterType 3 [75] Primitive_Any 0 None TypeParameterOwnerType.CLASS]
           (ObjectType 9 0 ObjectTypeFlag.OBJECT None None None None))) = Inr [Some Primitive_Int]"
  using getSpecialTypeArgs_specialized
    [of "ObjectType 9 0 ObjectTypeFlag.OBJECT None None None None"
        "[TypeParameterType 3 [75] Primitive_Any 0 None TypeParameterOwnerType.CLASS]"
        "[Primitive_Int]" "[0]"]
  by (simp add: has_type_arguments_def)

text \<open>
  Parameters of a function type with a rest parameter at the end: below the rest index a
  position has its declared type, at and beyond it every position has the element type of
  the rest array, so no position of a call is left without a type.
\<close>

theorem getParamType_total:
  assumes "rp < length as" and "as ! rp = ArrayType j m f e ni ta' sa'"
  shows "getParamType (int idx) (FunctionType i r as os (int rp) ep ta sa) =
           Inr (Some (if idx < rp then as ! idx else array_element f e ni ta' sa'))"
proof -
  from assms(1) have "as \<noteq> []" by auto
  with assms show ?thesis
    by (auto simp: getParamType_def hasParamType_def getRestParam_def)
qed

theorem getParamType_total_witness:
  "getParamType 5 (FunctionType 30 Primitive_Void
     [ArrayType 40 0 ObjectTypeFlag.OBJECT Primitive_Undefined (Some Primitive_Any) None None]
     [] 0 2 None None) = Inr (Some Primitive_Any)"
  using getParamType_total [of 0 "[ArrayType 40 0 ObjectTypeFlag.OBJECT Primitive_Undefined
      (Some Primitive_Any) None None]" 40 0 ObjectTypeFlag.OBJECT Primitive_Undefined
      "Some Primitive_Any" None None 5]
  by (simp add: array_element_def array_numberIndexType_def)

end
