(* ===== verification/Runtime.thy ===== *)
theory Runtime
  imports ValueTypes
begin

text \<open>
  The run-time descriptions of objects (\<open>src/src/semantics/runtime.ts\<close>): members with
  their packed flag word, object descriptions with their member table, and shapes, which
  say where each member of a description is found in an object of another description.

  Object descriptions, shapes and the little accessor records are shared, mutable objects.
  They live in a heap (\<open>rt_heap\<close>) and are referred to by address, so \<open>===\<close> is equality of
  addresses. \<open>'v\<close> is the type of the function values stored in members
  (the interface \<open>Value\<close>).
\<close>

section \<open>Members\<close>

datatype MemberType = FIELD | METHOD | CONSTRUCTOR | ACCESSOR

text \<open>The numbers of the enumeration, which starts at 1.\<close>

primrec member_type_num :: "MemberType \<Rightarrow> int" where
  "member_type_num FIELD = 1"
| "member_type_num METHOD = 2"
| "member_type_num CONSTRUCTOR = 3"
| "member_type_num ACCESSOR = 4"

record 'v MemberOrAccessor =
  acc_method :: "'v option"
  acc_getter :: "'v option"
  acc_setter :: "'v option"

type_synonym acc_ref = nat

record 'v MemberDescription =
  m_name :: js_string
  m_type :: MemberType
  m_index :: nat
  isOptional :: bool
  valueType :: value_type
  methodOrAccessor :: "acc_ref option"
  isOwn :: bool
  isStaic :: bool
  staticFieldInitValue :: "'v option"
  isDeclaredCtor :: bool
  m_flags :: int
  modifiers :: int
  m_getterType :: "value_type option"
  m_setterType :: "value_type option"

definition new_MemberDescription ::
  "js_string \<Rightarrow> MemberType \<Rightarrow> nat \<Rightarrow> bool \<Rightarrow> value_type \<Rightarrow> acc_ref option \<Rightarrow> bool \<Rightarrow> bool \<Rightarrow>
   'v option \<Rightarrow> 'v MemberDescription"
where
  "new_MemberDescription name type index optional vt acc own static init =
     \<lparr>m_name = name, m_type = type, m_index = index, isOptional = optional, valueType = vt,
      methodOrAccessor = acc, isOwn = own, isStaic = static, staticFieldInitValue = init,
      isDeclaredCtor = True, m_flags = 0, modifiers = 0, m_getterType = None, m_setterType = None\<rparr>"

subsection \<open>The flag word\<close>

text \<open>Bit 0 of \<open>_flags\<close> is the override mark; the bits from 2 on hold the offset.\<close>

definition isOverrid :: "'v MemberDescription \<Rightarrow> bool" where
  "isOverrid m = (js_and (m_flags m) 1 = 1)"

definition setOverrid :: "'v MemberDescription \<Rightarrow> 'v MemberDescription" where
  "setOverrid m = m\<lparr>m_flags := js_or (m_flags m) 1\<rparr>"

definition set_offset :: "int \<Rightarrow> 'v MemberDescription \<Rightarrow> 'v MemberDescription" where
  "set_offset off m = m\<lparr>m_flags := js_or (js_shl off 2) (js_and (m_flags m) 3)\<rparr>"

definition get_offset :: "'v MemberDescription \<Rightarrow> int" where
  "get_offset m = js_shr (m_flags m) 2"

definition set_getterOffset :: "int \<Rightarrow> 'v MemberDescription \<Rightarrow> 'v MemberDescription" where
  "set_getterOffset off m =
     set_offset (js_or (js_shl (js_and (get_offset m) 0x7fff) 15) (js_and off 0x7fff)) m"

definition get_getterOffset :: "'v MemberDescription \<Rightarrow> int" where
  "get_getterOffset m = js_and (get_offset m) 0x7fff"

definition set_setterOffset :: "int \<Rightarrow> 'v MemberDescription \<Rightarrow> 'v MemberDescription" where
  "set_setterOffset off m =
     set_offset (js_or (js_and (get_offset m) 0x7fff) (js_shl (js_and off 0x7fff) 15)) m"

definition get_setterOffset :: "'v MemberDescription \<Rightarrow> int" where
  "get_setterOffset m = js_and (js_shr (get_offset m) 15) 0x7fff"

definition set_getterType :: "value_type option \<Rightarrow> 'v MemberDescription \<Rightarrow> 'v MemberDescription" where
  "set_getterType v m = m\<lparr>m_getterType := v\<rparr>"

definition set_setterType :: "value_type option \<Rightarrow> 'v MemberDescription \<Rightarrow> 'v MemberDescription" where
  "set_setterType v m = m\<lparr>m_setterType := v\<rparr>"

section \<open>Shapes\<close>

type_synonym shape_ref = nat

datatype ShapeMemberStorage = OFFSET | VALUE

text \<open>A getter, setter or method is \<open>Value | number\<close>.\<close>

datatype 'v code_ref = Off int | Val 'v

datatype 'v ShapeMember =
    ShapeField "int option"
  | ShapeAccessor ShapeMemberStorage "'v code_ref option" "'v code_ref option"
  | ShapeMethod ShapeMemberStorage "'v code_ref option"

primrec sm_kind :: "'v ShapeMember \<Rightarrow> MemberType" where
  "sm_kind (ShapeField off) = FIELD"
| "sm_kind (ShapeAccessor st g s) = ACCESSOR"
| "sm_kind (ShapeMethod st f) = METHOD"

primrec sm_storage :: "'v ShapeMember \<Rightarrow> ShapeMemberStorage" where
  "sm_storage (ShapeField off) = OFFSET"
| "sm_storage (ShapeAccessor st g s) = st"
| "sm_storage (ShapeMethod st f) = st"

definition isOffset :: "'v ShapeMember \<Rightarrow> bool" where
  "isOffset m = (sm_storage m = OFFSET)"

definition isValue :: "'v ShapeMember \<Rightarrow> bool" where
  "isValue m = (sm_storage m = VALUE)"

primrec isEmpty :: "'v ShapeMember \<Rightarrow> bool" where
  "isEmpty (ShapeField off) = (off = None)"
| "isEmpty (ShapeAccessor st g s) = (g = None \<and> s = None)"
| "isEmpty (ShapeMethod st f) = (f = None)"

text \<open>
  The casts \<open>as number\<close> and \<open>as Value\<close> after a test of the storage; a member whose storage
  and content disagree is not built by the code.
\<close>

fun as_number :: "'v code_ref option \<Rightarrow> int option" where
  "as_number (Some (Off n)) = Some n"
| "as_number _ = None"

fun as_Value :: "'v code_ref option \<Rightarrow> 'v option" where
  "as_Value (Some (Val v)) = Some v"
| "as_Value _ = None"

definition sa_getterOffset :: "ShapeMemberStorage \<Rightarrow> 'v code_ref option \<Rightarrow> int option" where
  "sa_getterOffset st getter = (if getter \<noteq> None \<and> st = OFFSET then as_number getter else None)"

definition sa_getterValue :: "ShapeMemberStorage \<Rightarrow> 'v code_ref option \<Rightarrow> 'v option" where
  "sa_getterValue st getter = (if getter \<noteq> None \<and> st = VALUE then as_Value getter else None)"

definition sa_setterOffset :: "ShapeMemberStorage \<Rightarrow> 'v code_ref option \<Rightarrow> int option" where
  "sa_setterOffset st setter = (if setter \<noteq> None \<and> st = OFFSET then as_number setter else None)"

definition sa_setterValue :: "ShapeMemberStorage \<Rightarrow> 'v code_ref option \<Rightarrow> 'v option" where
  "sa_setterValue st setter = (if setter \<noteq> None \<and> st = VALUE then as_Value setter else None)"

definition methodOffset :: "ShapeMemberStorage \<Rightarrow> 'v code_ref option \<Rightarrow> int option" where
  "methodOffset st func = (if st = OFFSET \<and> func \<noteq> None then as_number func else None)"

definition methodValue :: "ShapeMemberStorage \<Rightarrow> 'v code_ref option \<Rightarrow> 'v option" where
  "methodValue st func = (if st = VALUE \<and> func \<noteq> None then as_Value func else None)"

record 'v Shape =
  s_members :: "'v ShapeMember option list option"
  s_meta :: meta_ref
  s_generic :: "shape_ref option"

definition getMember :: "nat \<Rightarrow> 'v Shape \<Rightarrow> 'v ShapeMember option" where
  "getMember idx s = (case s_members s of Some ms \<Rightarrow> js_array_get ms idx | None \<Rightarrow> None)"

definition isStaticShape :: "'v Shape \<Rightarrow> bool" where
  "isStaticShape s = (case s_members s of Some ms \<Rightarrow> None \<notin> set ms | None \<Rightarrow> False)"

section \<open>Object descriptions\<close>

datatype ObjectDescriptionType = OBJECT_LITERAL | INTERFACE | OBJECT_INSTANCE | OBJECT_CLASS

primrec od_type_num :: "ObjectDescriptionType \<Rightarrow> int" where
  "od_type_num OBJECT_LITERAL = 0"
| "od_type_num INTERFACE = 1"
| "od_type_num OBJECT_INSTANCE = 2"
| "od_type_num OBJECT_CLASS = 3"

record 'v ObjectDescription =
  od_name :: js_string
  od_type :: ObjectDescriptionType
  od_generic :: "meta_ref option"
  clazz_or_instance :: "meta_ref option"
  originShape :: "shape_ref option"
  thisShape :: "shape_ref option"
  compatibleShapes :: "(meta_ref, shape_ref) js_map"
  members :: "'v MemberDescription option list"
  fieldCount :: nat
  drived :: nat
  od_base :: "meta_ref option"
  inited :: bool
  builtin :: bool
  od_ctor :: "'v MemberDescription option"

definition new_ObjectDescription ::
  "js_string \<Rightarrow> ObjectDescriptionType \<Rightarrow> meta_ref option \<Rightarrow> 'v ObjectDescription"
where
  "new_ObjectDescription name type generic =
     \<lparr>od_name = name, od_type = type, od_generic = generic, clazz_or_instance = None,
      originShape = None, thisShape = None, compatibleShapes = [], members = [], fieldCount = 0,
      drived = 0, od_base = None, inited = False, builtin = False, od_ctor = None\<rparr>"

definition UnknownObjectDescription :: "'v ObjectDescription" where
  "UnknownObjectDescription = new_ObjectDescription (js_lit ''UnknownObject'') INTERFACE None"

record 'v rt_heap =
  metas :: "meta_ref \<Rightarrow> 'v ObjectDescription"
  shapes :: "shape_ref \<Rightarrow> 'v Shape"
  accs :: "acc_ref \<Rightarrow> 'v MemberOrAccessor"
  next_shape :: shape_ref
  next_acc :: acc_ref

abbreviation upd_meta ::
  "meta_ref \<Rightarrow> ('v ObjectDescription \<Rightarrow> 'v ObjectDescription) \<Rightarrow> 'v rt_heap \<Rightarrow> 'v rt_heap"
where
  "upd_meta a f h \<equiv> h\<lparr>metas := (metas h)(a := f (metas h a))\<rparr>"

definition isObjectInstance :: "'v ObjectDescription \<Rightarrow> bool" where
  "isObjectInstance od = (od_type od = OBJECT_INSTANCE)"

definition isObjectClass :: "'v ObjectDescription \<Rightarrow> bool" where
  "isObjectClass od = (od_type od = OBJECT_CLASS)"

text \<open>The getters and setters \<open>instance\<close>, \<open>clazz\<close>, \<open>base\<close> and \<open>generic\<close>.\<close>

definition get_instance :: "meta_ref \<Rightarrow> 'v rt_heap \<Rightarrow> meta_ref option" where
  "get_instance a h =
     (if isObjectClass (metas h a) then clazz_or_instance (metas h a) else Some a)"

definition set_instance :: "meta_ref \<Rightarrow> meta_ref option \<Rightarrow> 'v rt_heap \<Rightarrow> 'v rt_heap" where
  "set_instance a inst h =
     (if isObjectClass (metas h a) then upd_meta a (clazz_or_instance_update (\<lambda>_. inst)) h else h)"

definition get_clazz :: "meta_ref \<Rightarrow> 'v rt_heap \<Rightarrow> meta_ref option" where
  "get_clazz a h =
     (if isObjectClass (metas h a) then Some a
      else if isObjectInstance (metas h a) then clazz_or_instance (metas h a) else None)"

definition set_clazz :: "meta_ref \<Rightarrow> meta_ref option \<Rightarrow> 'v rt_heap \<Rightarrow> 'v rt_heap" where
  "set_clazz a c h =
     (if isObjectInstance (metas h a) then upd_meta a (clazz_or_instance_update (\<lambda>_. c)) h else h)"

definition set_base :: "meta_ref \<Rightarrow> meta_ref option \<Rightarrow> 'v rt_heap \<Rightarrow> 'v rt_heap" where
  "set_base a b h =
     (let h1 = upd_meta a (od_base_update (\<lambda>_. b)) h
      in case b of Some b' \<Rightarrow> upd_meta b' (drived_update Suc) h1 | None \<Rightarrow> h1)"

definition get_generic :: "meta_ref \<Rightarrow> 'v rt_heap \<Rightarrow> meta_ref" where
  "get_generic a h = (case od_generic (metas h a) of Some g \<Rightarrow> g | None \<Rightarrow> a)"

definition genericShape :: "shape_ref \<Rightarrow> 'v rt_heap \<Rightarrow> shape_ref" where
  "genericShape s h = (case s_generic (shapes h s) of Some g \<Rightarrow> g | None \<Rightarrow> s)"

subsection \<open>Looking up and adding members\<close>

fun find_member_slot :: "js_string \<Rightarrow> 'v MemberDescription option list \<Rightarrow> nat option" where
  "find_member_slot name [] = None"
| "find_member_slot name (x # xs) =
     (if \<exists>m. x = Some m \<and> m_name m = name then Some 0
      else map_option Suc (find_member_slot name xs))"

definition findMember :: "js_string \<Rightarrow> 'v ObjectDescription \<Rightarrow> 'v MemberDescription option" where
  "findMember name od =
     (case find_member_slot name (members od) of Some k \<Rightarrow> members od ! k | None \<Rightarrow> None)"

definition findConstructor :: "'v ObjectDescription \<Rightarrow> 'v MemberDescription option" where
  "findConstructor od = findMember (js_lit ''constructor'') od"

text \<open>The \<open>while\<close> loop of \<open>findFreeSlot\<close> and the test after it.\<close>

function free_slot_loop :: "'a option list \<Rightarrow> nat \<Rightarrow> nat" where
  "free_slot_loop ms start =
     (if start < length ms \<and> ms ! start \<noteq> None then free_slot_loop ms (Suc start) else start)"
  by pat_completeness auto
termination
  by (relation "measure (\<lambda>(ms, start). length ms - start)") auto

declare free_slot_loop.simps [simp del]

definition findFreeSlot :: "nat \<Rightarrow> 'v ObjectDescription \<Rightarrow> nat result" where
  "findFreeSlot start od =
     (let s = free_slot_loop (members od) start
      in if s \<ge> length (members od) then Inl (JSError ''Cannot found a free slot'') else Inr s)"

definition updateMember ::
  "js_string \<Rightarrow> nat \<Rightarrow> MemberType \<Rightarrow> bool \<Rightarrow> value_type \<Rightarrow> bool \<Rightarrow> acc_ref option \<Rightarrow> bool \<Rightarrow>
   'v option \<Rightarrow> meta_ref \<Rightarrow> 'v rt_heap \<Rightarrow> (nat \<times> 'v rt_heap) result"
where
  "updateMember name i type is_optional vt is_own acc is_static init a h =
     (let super_slot =
            (case od_base (metas h a) of
               Some b \<Rightarrow> if name \<noteq> js_lit ''constructor''
                         then map_option (Pair b) (find_member_slot name (members (metas h b)))
                         else None
             | None \<Rightarrow> None)
      in bind_r
           (case super_slot of
              Some (b, k) \<Rightarrow>
                (let sm = the (members (metas h b) ! k);
                     h1 = upd_meta b (members_update (\<lambda>ms. ms[k := Some (setOverrid sm)])) h
                 in Inr (m_index sm, m_index sm,
                         if \<not> is_own then methodOrAccessor sm else acc, h1))
            | None \<Rightarrow>
                bind_r (findFreeSlot i (metas h a)) (\<lambda>slot. Inr (i, slot, acc, h)))
           (\<lambda>(index, slot, acc', h1).
              let m = new_MemberDescription name type index is_optional vt acc' is_own is_static init
              in Inr (slot, upd_meta a (members_update (\<lambda>ms. js_array_set ms slot m)) h1)))"

text \<open>
  \<open>setAccessorFunction\<close> changes the shared accessor record in place when the member has
  one, and allocates a record otherwise.
\<close>

definition setAccessorFunction ::
  "'v \<Rightarrow> bool \<Rightarrow> 'v MemberDescription \<Rightarrow> 'v rt_heap \<Rightarrow> 'v MemberDescription \<times> 'v rt_heap"
where
  "setAccessorFunction func is_setter m h =
     (case methodOrAccessor m of
        Some r \<Rightarrow>
          (m, h\<lparr>accs := (accs h)(r := (if is_setter then (accs h r)\<lparr>acc_setter := Some func\<rparr>
                                       else (accs h r)\<lparr>acc_getter := Some func\<rparr>))\<rparr>)
      | None \<Rightarrow>
          (m\<lparr>methodOrAccessor := Some (next_acc h)\<rparr>,
           h\<lparr>accs := (accs h)(next_acc h :=
                (if is_setter then \<lparr>acc_method = None, acc_getter = None, acc_setter = Some func\<rparr>
                 else \<lparr>acc_method = None, acc_getter = Some func, acc_setter = None\<rparr>)),
             next_acc := Suc (next_acc h)\<rparr>))"

definition get_getter :: "'v MemberDescription \<Rightarrow> 'v rt_heap \<Rightarrow> 'v option" where
  "get_getter m h =
     (if m_type m = ACCESSOR
      then (case methodOrAccessor m of Some r \<Rightarrow> acc_getter (accs h r) | None \<Rightarrow> None) else None)"

definition get_setter :: "'v MemberDescription \<Rightarrow> 'v rt_heap \<Rightarrow> 'v option" where
  "get_setter m h =
     (if m_type m = ACCESSOR
      then (case methodOrAccessor m of Some r \<Rightarrow> acc_setter (accs h r) | None \<Rightarrow> None) else None)"

definition get_method :: "'v MemberDescription \<Rightarrow> 'v rt_heap \<Rightarrow> 'v option" where
  "get_method m h =
     (if m_type m = METHOD
      then (case methodOrAccessor m of Some r \<Rightarrow> acc_method (accs h r) | None \<Rightarrow> None) else None)"

subsection \<open>Building a shape from another one\<close>

definition members_compatible :: "MemberType \<Rightarrow> MemberType \<Rightarrow> bool" where
  "members_compatible from_t to_t =
     (from_t = to_t \<or>
      (from_t = FIELD \<or> from_t = ACCESSOR) \<and> (to_t = FIELD \<or> to_t = ACCESSOR))"

text \<open>The body and the loop over the members of the target description.\<close>

definition shape_entry ::
  "'v Shape \<Rightarrow> 'v ObjectDescription \<Rightarrow> 'v MemberDescription \<Rightarrow> 'v ShapeMember option"
where
  "shape_entry from from_meta to_member =
     (case findMember (m_name to_member) from_meta of
        Some from_member \<Rightarrow>
          if members_compatible (m_type from_member) (m_type to_member)
          then getMember (m_index from_member) from else None
      | None \<Rightarrow> None)"

fun shape_loop ::
  "'v Shape \<Rightarrow> 'v ObjectDescription \<Rightarrow> 'v MemberDescription option list \<Rightarrow>
   'v ShapeMember option list \<Rightarrow> 'v ShapeMember option list result"
where
  "shape_loop from from_meta [] acc = Inr acc"
| "shape_loop from from_meta (None # ms) acc = Inl JSTypeError"
| "shape_loop from from_meta (Some to_member # ms) acc =
     shape_loop from from_meta ms
       (case shape_entry from from_meta to_member of
          Some m \<Rightarrow> js_array_set acc (m_index to_member) m | None \<Rightarrow> acc)"

definition alloc_shape ::
  "meta_ref \<Rightarrow> meta_ref \<Rightarrow> 'v Shape \<Rightarrow> 'v rt_heap \<Rightarrow> shape_ref \<times> 'v rt_heap"
where
  "alloc_shape a from_meta s h =
     (let r = next_shape h;
          h1 = h\<lparr>shapes := (shapes h)(r := s), next_shape := Suc r\<rparr>
      in (r, upd_meta a (compatibleShapes_update (map_set from_meta r)) h1))"

text \<open>
  \<open>buildShape\<close> calls itself on the generic description. The first argument is the call
  depth that is left; running out of it is the overflow of the call stack.
\<close>

fun buildShape ::
  "nat \<Rightarrow> meta_ref \<Rightarrow> shape_ref \<Rightarrow> 'v rt_heap \<Rightarrow> (shape_ref \<times> 'v rt_heap) result"
where
  "buildShape 0 a from h = Inl JSRangeError"
| "buildShape (Suc fuel) a from h =
     (let from_meta = s_meta (shapes h from)
      in case map_get (compatibleShapes (metas h a)) from_meta of
           Some s \<Rightarrow> Inr (s, h)
         | None \<Rightarrow>
             (case od_generic (metas h a) of
                Some g \<Rightarrow>
                  bind_r (buildShape fuel g (genericShape from h) h) (\<lambda>(gs, h1).
                    Inr (alloc_shape a from_meta
                      \<lparr>s_members = s_members (shapes h1 gs), s_meta = a, s_generic = Some gs\<rparr> h1))
              | None \<Rightarrow>
                  bind_r (shape_loop (shapes h from) (metas h from_meta) (members (metas h a))
                            (replicate (length (members (metas h a))) None)) (\<lambda>ms.
                    Inr (alloc_shape a from_meta
                      \<lparr>s_members = Some ms, s_meta = a, s_generic = None\<rparr> h))))"

text \<open>
  A small heap for closed instances: description 0 with a field \<open>f\<close> at index 0 and description
  1 derived from it with one free slot. Shape 0 is the shape of description 0.
\<close>

definition sample_heap :: "unit rt_heap" where
  "sample_heap =
     \<lparr>metas = (\<lambda>_. new_ObjectDescription [] OBJECT_INSTANCE None)
        (0 := (new_ObjectDescription [66] OBJECT_INSTANCE None)
                \<lparr>members := [Some (new_MemberDescription [102] FIELD 0 False Primitive_Any None True False None)]\<rparr>,
         1 := (new_ObjectDescription [68] OBJECT_INSTANCE None)\<lparr>members := [None], od_base := Some 0\<rparr>,
         2 := (new_ObjectDescription [73] INTERFACE None)
                \<lparr>members := [Some (new_MemberDescription [102] FIELD 0 False Primitive_Any None True False None)]\<rparr>),
      shapes = (\<lambda>_. \<lparr>s_members = None, s_meta = 0, s_generic = None\<rparr>)
        (0 := \<lparr>s_members = Some [Some (ShapeField (Some 0))], s_meta = 0, s_generic = None\<rparr>),
      accs = (\<lambda>_. \<lparr>acc_method = None, acc_getter = None, acc_setter = None\<rparr>),
      next_shape = 1, next_acc = 0\<rparr>"

section \<open>Lemmas\<close>

subsection \<open>Flag words\<close>

lemma bit_low_masks [bit_ext]:
  "bit (3 :: int) n \<longleftrightarrow> n < 2" "bit (0x7fff :: int) n \<longleftrightarrow> n < 15" "bit (1 :: int) n \<longleftrightarrow> n = 0"
  by (simp_all add: mask_3 mask_7fff bit_mask_iff bit_1_iff)

lemma isOverrid_bit: "isOverrid m \<longleftrightarrow> bit (m_flags m) 0"
proof -
  have "js_and (m_flags m) 1 = (if bit (m_flags m) 0 then 1 else 0)"
    by (rule bit_eqI) (auto simp: bit_ext min_def intro: gr0I)
  then show ?thesis by (simp add: isOverrid_def)
qed

lemma get_set_offset: "get_offset (set_offset off m) = signed_take_bit 29 off"
  by (rule bit_eqI) (auto simp: get_offset_def set_offset_def bit_ext bit_signed_take_bit_iff min_def)

lemma isOverrid_set_offset [simp]: "isOverrid (set_offset off m) = isOverrid m"
  by (auto simp: isOverrid_bit set_offset_def bit_ext)

lemma setOverrid_offset [simp]: "get_offset (setOverrid m) = get_offset m"
  by (rule bit_eqI) (auto simp: get_offset_def setOverrid_def bit_ext min_def)

lemma getterOffset_eq: "get_getterOffset m = take_bit 15 (get_offset m)"
  by (simp add: get_getterOffset_def mask_7fff js_and_mask)

lemma setterOffset_eq: "get_setterOffset m = take_bit 15 (drop_bit 15 (get_offset m))"
proof -
  have "get_setterOffset m = take_bit 15 (js_shr (get_offset m) 15)"
    by (simp add: get_setterOffset_def mask_7fff js_and_mask)
  also have "\<dots> = take_bit 15 (drop_bit 15 (get_offset m))"
    by (rule bit_eqI) (auto simp: bit_ext bit_take_bit_iff bit_drop_bit_eq)
  finally show ?thesis .
qed

lemma offset_after_getter:
  "get_offset (set_getterOffset g m) =
     signed_take_bit 29 (push_bit 15 (take_bit 15 (get_offset m)) OR take_bit 15 g)"
  unfolding set_getterOffset_def get_set_offset
  by (rule bit_eqI)
    (auto simp: bit_ext bit_signed_take_bit_iff bit_take_bit_iff bit_or_iff bit_push_bit_iff min_def)

lemma offset_after_setter:
  "get_offset (set_setterOffset s m) =
     signed_take_bit 29 (take_bit 15 (get_offset m) OR push_bit 15 (take_bit 15 s))"
  unfolding set_setterOffset_def get_set_offset
  by (rule bit_eqI)
    (auto simp: bit_ext bit_signed_take_bit_iff bit_take_bit_iff bit_or_iff bit_push_bit_iff min_def)

lemma getter_after_getter: "get_getterOffset (set_getterOffset g m) = take_bit 15 g"
  unfolding getterOffset_eq offset_after_getter
  by (rule bit_eqI)
    (auto simp: bit_signed_take_bit_iff bit_take_bit_iff bit_or_iff bit_push_bit_iff)

lemma setter_after_getter: "get_setterOffset (set_getterOffset g m) = get_getterOffset m"
  unfolding getterOffset_eq setterOffset_eq offset_after_getter
  by (rule bit_eqI)
    (auto simp: bit_signed_take_bit_iff bit_take_bit_iff bit_or_iff bit_push_bit_iff bit_drop_bit_eq)

lemma getter_after_setter: "get_getterOffset (set_setterOffset s m) = get_getterOffset m"
  unfolding getterOffset_eq offset_after_setter
  by (rule bit_eqI)
    (auto simp: bit_signed_take_bit_iff bit_take_bit_iff bit_or_iff bit_push_bit_iff)

lemma setter_after_setter: "get_setterOffset (set_setterOffset s m) = take_bit 15 s"
  unfolding setterOffset_eq offset_after_setter
  by (rule bit_eqI)
    (auto simp: bit_signed_take_bit_iff bit_take_bit_iff bit_or_iff bit_push_bit_iff bit_drop_bit_eq)

subsection \<open>Member tables\<close>

lemma free_slot_loop_spec:
  "start \<le> free_slot_loop ms start \<and>
   (\<forall>k. start \<le> k \<longrightarrow> k < free_slot_loop ms start \<longrightarrow> k < length ms \<and> ms ! k \<noteq> None) \<and>
   (free_slot_loop ms start < length ms \<longrightarrow> ms ! free_slot_loop ms start = None)"
proof (induction ms start rule: free_slot_loop.induct)
  case (1 ms start)
  show ?case
  proof (cases "start < length ms \<and> ms ! start \<noteq> None")
    case True
    with "1.IH" show ?thesis
      by (simp add: free_slot_loop.simps [of ms start] Suc_le_eq)
        (metis le_neq_implies_less)
  next
    case False
    then have "free_slot_loop ms start = start" by (subst free_slot_loop.simps) auto
    with False show ?thesis by auto
  qed
qed

lemma findFreeSlot_Inr_iff:
  "findFreeSlot start od = Inr s \<longleftrightarrow>
     start \<le> s \<and> s < length (members od) \<and> members od ! s = None \<and>
     (\<forall>k. start \<le> k \<longrightarrow> k < s \<longrightarrow> members od ! k \<noteq> None)"
  (is "?l \<longleftrightarrow> ?r")
proof
  assume ?l
  then show ?r
    using free_slot_loop_spec [of start "members od"]
    by (auto simp: findFreeSlot_def Let_def split: if_splits)
next
  assume r: ?r
  let ?f = "free_slot_loop (members od) start"
  note f = free_slot_loop_spec [of start "members od"]
  have "\<not> s < ?f" using r f by blast
  moreover have "\<not> ?f < s" using r f by (meson order.strict_trans)
  ultimately have "?f = s" by simp
  with r show ?l by (simp add: findFreeSlot_def)
qed

lemma find_member_slot_Some:
  "find_member_slot name ms = Some k \<Longrightarrow>
     k < length ms \<and> (\<exists>m. ms ! k = Some m \<and> m_name m = name) \<and>
     (\<forall>j < k. \<forall>m. ms ! j = Some m \<longrightarrow> m_name m \<noteq> name)"
proof (induction ms arbitrary: k)
  case (Cons x xs)
  show ?case
  proof (cases "\<exists>m. x = Some m \<and> m_name m = name")
    case False
    with Cons.prems obtain k' where "find_member_slot name xs = Some k'" "k = Suc k'" by auto
    with Cons.IH False show ?thesis by (auto simp: nth_Cons split: nat.splits)
  qed (use Cons.prems in auto)
qed simp

lemma find_member_slot_None_iff:
  "find_member_slot name ms = None \<longleftrightarrow> (\<forall>m. Some m \<in> set ms \<longrightarrow> m_name m \<noteq> name)"
  by (induction ms) auto

lemma findMember_Some: "findMember name od = Some m \<Longrightarrow> Some m \<in> set (members od) \<and> m_name m = name"
  by (auto simp: findMember_def split: option.splits dest!: find_member_slot_Some)
    (metis nth_mem)

lemma findMember_None_iff:
  "findMember name od = None \<longleftrightarrow> (\<forall>m. Some m \<in> set (members od) \<longrightarrow> m_name m \<noteq> name)"
  by (auto simp: findMember_def find_member_slot_None_iff [symmetric] split: option.splits
      dest!: find_member_slot_Some)

lemma members_update_at: "f (members r) = g (members r) \<Longrightarrow> members_update f r = members_update g r"
  by (cases r) simp

text \<open>The two ways in which a member is added.\<close>

lemma updateMember_fresh:
  assumes "od_base (metas h a) = None \<or>
           (\<exists>b. od_base (metas h a) = Some b \<and>
             (name = js_lit ''constructor'' \<or> findMember name (metas h b) = None))"
  shows "updateMember name i type opt vt own acc st init a h =
     bind_r (findFreeSlot i (metas h a)) (\<lambda>slot.
       Inr (slot, upd_meta a (members_update (\<lambda>ms. js_array_set ms slot
              (new_MemberDescription name type i opt vt acc own st init))) h))"
proof -
  have "(case od_base (metas h a) of
          Some b \<Rightarrow> if name \<noteq> js_lit ''constructor''
                    then map_option (Pair b) (find_member_slot name (members (metas h b))) else None
        | None \<Rightarrow> None) = None"
    using assms by (auto simp: findMember_None_iff find_member_slot_None_iff [symmetric])
  then show ?thesis
    by (simp add: updateMember_def Let_def) (cases "findFreeSlot i (metas h a)"; simp)
qed

lemma updateMember_override:
  assumes "od_base (metas h a) = Some b" and "name \<noteq> js_lit ''constructor''"
    and "find_member_slot name (members (metas h b)) = Some k"
    and "members (metas h b) ! k = Some sm"
  shows "updateMember name i type opt vt own acc st init a h =
     Inr (m_index sm,
          upd_meta a (members_update (\<lambda>ms. js_array_set ms (m_index sm)
             (new_MemberDescription name type (m_index sm) opt vt
                (if own then acc else methodOrAccessor sm) own st init)))
            (upd_meta b (members_update (\<lambda>ms. ms[k := Some (setOverrid sm)])) h))"
  using assms by (simp add: updateMember_def Let_def)

subsection \<open>Shapes\<close>

text \<open>Entry of the result of \<open>buildShape\<close> at an index: the last member with that index counts.\<close>

lemma shape_loop_unclaimed:
  assumes "shape_loop from fm ms acc = Inr out"
    and "\<forall>m. Some m \<in> set ms \<longrightarrow> m_index m \<noteq> i"
  shows "js_array_get out i = js_array_get acc i"
  using assms
  by (induction "from" fm ms acc rule: shape_loop.induct) (auto split: option.splits)

lemma shape_loop_entry:
  assumes "shape_loop from fm ms acc = Inr out"
    and "distinct (map (map_option m_index) ms)" and "Some m \<in> set ms"
  shows "js_array_get out (m_index m) =
     (case shape_entry from fm m of Some e \<Rightarrow> Some e | None \<Rightarrow> js_array_get acc (m_index m))"
  using assms
proof (induction "from" fm ms acc rule: shape_loop.induct)
  case (3 "from" fm t ms acc)
  let ?acc = "case shape_entry from fm t of
      Some e \<Rightarrow> js_array_set acc (m_index t) e | None \<Rightarrow> acc"
  show ?case
  proof (cases "t = m")
    case True
    have "\<forall>u. Some u \<in> set ms \<longrightarrow> m_index u \<noteq> m_index m"
      using "3.prems"(2) True by force
    with "3.prems"(1) True have "js_array_get out (m_index m) = js_array_get ?acc (m_index m)"
      by (intro shape_loop_unclaimed) auto
    with True show ?thesis by (auto split: option.splits)
  next
    case False
    with "3.prems" have m: "Some m \<in> set ms" by simp
    then have ne: "m_index t \<noteq> m_index m" using "3.prems"(2) by force
    from "3.IH" "3.prems" m ne show ?thesis by (auto split: option.splits)
  qed
qed auto

lemma shape_loop_ok: "(\<exists>out. shape_loop from fm ms acc = Inr out) \<longleftrightarrow> None \<notin> set ms"
  by (induction "from" fm ms acc rule: shape_loop.induct) auto

lemma alloc_shape_cached:
  "alloc_shape a fm s h = (r, h') \<Longrightarrow>
     map_get (compatibleShapes (metas h' a)) fm = Some r \<and> shapes h' r = s \<and>
     (\<forall>q < next_shape h. shapes h' q = shapes h q)"
  by (auto simp: alloc_shape_def Let_def)

lemma buildShape_frame:
  assumes "buildShape fuel a from h = Inr (s, h')"
  shows "(\<forall>q < next_shape h. shapes h' q = shapes h q) \<and> next_shape h \<le> next_shape h' \<and>
         (\<forall>x. od_generic (metas h' x) = od_generic (metas h x) \<and>
              members (metas h' x) = members (metas h x))"
  using assms
proof (induction fuel a "from" h arbitrary: s h' rule: buildShape.induct)
  case (2 fuel a "from" h)
  let ?fm = "s_meta (shapes h from)"
  show ?case
  proof (cases "map_get (compatibleShapes (metas h a)) ?fm")
    case None
    show ?thesis
    proof (cases "od_generic (metas h a)")
      case N: None
      with None "2.prems" show ?thesis by (auto simp: Let_def alloc_shape_def)
    next
      case (Some g)
      with None "2.prems" obtain gs h1 where
        g: "buildShape fuel g (genericShape from h) h = Inr (gs, h1)"
        and r: "alloc_shape a ?fm \<lparr>s_members = s_members (shapes h1 gs), s_meta = a, s_generic = Some gs\<rparr> h1
                = (s, h')"
        by (auto simp: Let_def)
      from "2.IH" [OF refl None Some g] r show ?thesis
        by (auto simp: alloc_shape_def Let_def)
    qed
  qed (use "2.prems" in \<open>auto simp: Let_def\<close>)
qed simp

lemma buildShape_caches:
  assumes "buildShape fuel a from h = Inr (s, h')"
  shows "map_get (compatibleShapes (metas h' a)) (s_meta (shapes h from)) = Some s"
proof (cases fuel)
  case (Suc n)
  with assms show ?thesis
    by (auto simp: Let_def split: option.splits dest: alloc_shape_cached)
qed (use assms in simp)

lemma buildShape_enough_fuel:
  assumes "\<forall>x g. od_generic (metas h x) = Some g \<longrightarrow> g < x"
    and "\<forall>x. None \<notin> set (members (metas h x))" and "a < fuel"
  shows "\<exists>s h'. buildShape fuel a from h = Inr (s, h')"
  using assms(3)
proof (induction fuel arbitrary: a "from")
  case (Suc n)
  let ?fm = "s_meta (shapes h from)"
  show ?case
  proof (cases "map_get (compatibleShapes (metas h a)) ?fm")
    case None
    show ?thesis
    proof (cases "od_generic (metas h a)")
      case N: None
      from assms(2) shape_loop_ok obtain out where
        "shape_loop (shapes h from) (metas h ?fm) (members (metas h a))
           (replicate (length (members (metas h a))) None) = Inr out" by metis
      with None N show ?thesis by (simp add: Let_def alloc_shape_def)
    next
      case (Some g)
      with assms(1) Suc.prems have "g < n" by fastforce
      from Suc.IH [OF this] obtain gs h1 where
        "buildShape n g (genericShape from h) h = Inr (gs, h1)" by blast
      with None Some show ?thesis by (simp add: Let_def alloc_shape_def)
    qed
  qed (simp add: Let_def)
qed simp

section \<open>Properties\<close>

text \<open>
  C5. Accessor offsets written getter first: both 15-bit offsets read back, and the
  override mark of the member is kept.
\<close>

theorem accessor_offsets_getter_first:
  assumes "0 \<le> g" and "g < 2 ^ 15" and "0 \<le> s" and "s < 2 ^ 15"
  shows "get_getterOffset (set_setterOffset s (set_getterOffset g m)) = g \<and>
         get_setterOffset (set_setterOffset s (set_getterOffset g m)) = s \<and>
         isOverrid (set_setterOffset s (set_getterOffset g m)) = isOverrid m"
  using assms
  by (simp add: getter_after_setter getter_after_getter setter_after_setter take_bit_int_eq_self)
    (simp add: set_setterOffset_def set_getterOffset_def)

theorem accessor_offsets_getter_first_witness:
  "get_setterOffset (set_setterOffset 32767 (set_getterOffset 3
     (new_MemberDescription [120] ACCESSOR 0 False Primitive_Any None True False None
        :: unit MemberDescription))) = 32767"
  using accessor_offsets_getter_first
    [of 3 32767 "new_MemberDescription [120] ACCESSOR 0 False Primitive_Any None True False None
        :: unit MemberDescription"]
  by simp

text \<open>
  Written in the other order the setter offset is lost: setting the getter offset moves
  the old getter offset into the setter field, whatever the setter offset was.
\<close>

theorem setter_offset_overwritten:
  "get_setterOffset (set_getterOffset g (set_setterOffset s m)) = get_getterOffset m"
  by (simp add: setter_after_getter getter_after_setter)

text \<open>
  C6. Overriding a member: when the base description has a member of that name, the new
  member takes over its index and slot, an inherited (not own) member also its accessor
  record, the member of the base is marked as overridden with its offset unchanged, and no
  other description changes.
\<close>

theorem updateMember_overrides:
  assumes "od_base (metas h a) = Some b" and "a \<noteq> b" and "name \<noteq> js_lit ''constructor''"
    and "findMember name (metas h b) = Some sm"
  shows "\<exists>h' m. updateMember name i type opt vt own acc st init a h = Inr (m_index sm, h') \<and>
     js_array_get (members (metas h' a)) (m_index sm) = Some m \<and>
     m_name m = name \<and> m_index m = m_index sm \<and>
     methodOrAccessor m = (if own then acc else methodOrAccessor sm) \<and>
     findMember name (metas h' b) = Some (setOverrid sm) \<and>
     isOverrid (setOverrid sm) \<and> get_offset (setOverrid sm) = get_offset sm \<and>
     (\<forall>x. x \<noteq> a \<longrightarrow> x \<noteq> b \<longrightarrow> metas h' x = metas h x)"
proof -
  let ?ms = "members (metas h b)"
  from assms(4) obtain k where k: "find_member_slot name ?ms = Some k" "?ms ! k = Some sm"
    by (auto simp: findMember_def split: option.splits)
  note slot = find_member_slot_Some [OF k(1)]
  have keep: "find_member_slot name (?ms[k := Some (setOverrid sm)]) = Some k"
  proof -
    have "find_member_slot name (ms[k := Some (setOverrid sm)]) = Some k"
      if "find_member_slot name ms = Some k" "ms ! k = Some sm" for ms :: "'a MemberDescription option list"
      using that
    proof (induction ms arbitrary: k)
      case (Cons x xs)
      then show ?case
        by (cases k) (auto simp: setOverrid_def split: if_splits)
    qed simp
    from this [OF k] show ?thesis .
  qed
  have "isOverrid (setOverrid sm)"
    by (simp add: isOverrid_bit setOverrid_def bit_ext)
  with updateMember_override [OF assms(1,3) k, of i type opt vt own acc st init] assms(2) slot keep
  show ?thesis
    by (auto simp: findMember_def new_MemberDescription_def)
qed

theorem updateMember_overrides_witness:
  "\<exists>h'. updateMember [102] 0 FIELD False Primitive_Any True None False None 1 sample_heap = Inr (0, h') \<and>
        (\<exists>m. findMember [102] (metas h' 0) = Some m \<and> isOverrid m)"
proof -
  let ?sm = "new_MemberDescription [102] FIELD 0 False Primitive_Any None True False None
               :: unit MemberDescription"
  have "od_base (metas sample_heap 1) = Some 0" "(1 :: nat) \<noteq> 0" "[102] \<noteq> js_lit ''constructor''"
    "findMember [102] (metas sample_heap 0) = Some ?sm"
    by (simp_all add: sample_heap_def js_lit_def findMember_def new_MemberDescription_def
        new_ObjectDescription_def)
  from updateMember_overrides [OF this] show ?thesis
    by (fastforce simp: new_MemberDescription_def)
qed

text \<open>
  Adding a member that the base does not have: it succeeds exactly when the table has a
  free slot at or after the wished index, the member goes into the first such slot with the
  wished index, every other slot keeps its member, and the table does not grow.
\<close>

theorem updateMember_first_free_slot:
  assumes "od_base (metas h a) = None"
  shows "updateMember name i type opt vt own acc st init a h = Inr (slot, h') \<longleftrightarrow>
     findFreeSlot i (metas h a) = Inr slot \<and>
     i \<le> slot \<and> slot < length (members (metas h a)) \<and> members (metas h a) ! slot = None \<and>
     (\<forall>k. i \<le> k \<longrightarrow> k < slot \<longrightarrow> members (metas h a) ! k \<noteq> None) \<and>
     h' = upd_meta a (members_update (\<lambda>ms.
            ms[slot := Some (new_MemberDescription name type i opt vt acc own st init)])) h"
proof -
  note upd = updateMember_fresh [OF disjI1 [OF assms], of name i type opt vt own acc st init]
  have in_range: "members_update (\<lambda>ms. js_array_set ms slot m) (metas h a) =
      members_update (\<lambda>ms. ms[slot := Some m]) (metas h a)"
    if "findFreeSlot i (metas h a) = Inr slot" for m
    using that by (intro members_update_at) (simp add: findFreeSlot_Inr_iff js_array_set_def)
  show ?thesis
  proof (cases "findFreeSlot i (metas h a) = Inr slot")
    case True
    with in_range [OF True] findFreeSlot_Inr_iff [of i "metas h a" slot] show ?thesis
      by (auto simp: upd)
  next
    case False
    then show ?thesis by (cases "findFreeSlot i (metas h a)") (auto simp: upd)
  qed
qed

theorem updateMember_first_free_slot_witness:
  "\<exists>h'. updateMember [103] 0 METHOD False Primitive_Any True None False None 1
     (upd_meta 1 (od_base_update (\<lambda>_. None)) sample_heap) = Inr (0, h')"
proof -
  let ?h = "upd_meta 1 (od_base_update (\<lambda>_. None)) sample_heap"
  have b: "od_base (metas ?h 1) = None" by simp
  have "findFreeSlot 0 (metas ?h 1) = Inr 0"
    by (simp add: findFreeSlot_Inr_iff sample_heap_def)
  then show ?thesis
    using updateMember_first_free_slot [OF b, of "[103]" 0 METHOD False Primitive_Any True None False None 0]
    by (auto simp: findFreeSlot_Inr_iff)
qed

text \<open>
  C7. A shape built for a description without a generic owner: it belongs to that
  description, and for every member, with distinct member indices, it holds what the source
  shape holds for the member of the same name and a compatible kind, and nothing otherwise.
\<close>

theorem buildShape_entries:
  assumes "buildShape fuel a from h = Inr (s, h')"
    and "map_get (compatibleShapes (metas h a)) (s_meta (shapes h from)) = None"
    and "od_generic (metas h a) = None"
    and "distinct (map (map_option m_index) (members (metas h a)))"
    and "Some m \<in> set (members (metas h a))"
  shows "s_meta (shapes h' s) = a \<and>
     getMember (m_index m) (shapes h' s) =
       (case findMember (m_name m) (metas h (s_meta (shapes h from))) of
          Some fm \<Rightarrow> if members_compatible (m_type fm) (m_type m)
                     then getMember (m_index fm) (shapes h from) else None
        | None \<Rightarrow> None)"
proof -
  let ?fm = "metas h (s_meta (shapes h from))" and ?ms = "members (metas h a)"
  from assms(1) obtain n where "fuel = Suc n" by (cases fuel) auto
  with assms(1-3) obtain out where
    out: "shape_loop (shapes h from) ?fm ?ms (replicate (length ?ms) None) = Inr out"
    and al: "alloc_shape a (s_meta (shapes h from))
               \<lparr>s_members = Some out, s_meta = a, s_generic = None\<rparr> h = (s, h')"
    by (auto simp: Let_def)
  have "shapes h' s = \<lparr>s_members = Some out, s_meta = a, s_generic = None\<rparr>"
    using alloc_shape_cached [OF al] by simp
  moreover have "js_array_get (replicate (length ?ms) None) (m_index m) = None"
    by (simp add: js_array_get_def)
  moreover from this shape_loop_entry [OF out assms(4,5)]
  have "js_array_get out (m_index m) = shape_entry (shapes h from) ?fm m"
    by (cases "shape_entry (shapes h from) ?fm m") simp_all
  ultimately show ?thesis
    by (simp add: getMember_def [of _ "\<lparr>s_members = Some out, s_meta = a, s_generic = None\<rparr>"]
        shape_entry_def)
qed

theorem buildShape_entries_witness:
  "\<exists>s h'. buildShape 1 2 0 sample_heap = Inr (s, h') \<and>
     getMember 0 (shapes h' s) = Some (ShapeField (Some 0))"
proof -
  let ?m = "new_MemberDescription [102] FIELD 0 False Primitive_Any None True False None
              :: unit MemberDescription"
  obtain s h' where b: "buildShape 1 2 0 sample_heap = Inr (s, h')"
    by (simp add: sample_heap_def Let_def alloc_shape_def new_ObjectDescription_def)
  have "map_get (compatibleShapes (metas sample_heap 2)) (s_meta (shapes sample_heap 0)) = None"
    "od_generic (metas sample_heap 2) = None"
    "distinct (map (map_option m_index) (members (metas sample_heap 2)))"
    "Some ?m \<in> set (members (metas sample_heap 2))"
    by (simp_all add: sample_heap_def new_ObjectDescription_def)
  from buildShape_entries [OF b this] b show ?thesis
    by (simp add: new_MemberDescription_def sample_heap_def findMember_def new_ObjectDescription_def
        members_compatible_def getMember_def js_array_get_def)
qed

text \<open>
  Shapes are built once: asking again for the shape of the same description from the same
  shape returns the shape of the first call and changes nothing.
\<close>

theorem buildShape_idempotent:
  assumes "buildShape fuel a from h = Inr (s, h')" and "from < next_shape h" and "0 < fuel'"
  shows "buildShape fuel' a from h' = Inr (s, h')"
proof -
  from buildShape_frame [OF assms(1)] assms(2) have "shapes h' from = shapes h from" by blast
  with buildShape_caches [OF assms(1)] assms(3) show ?thesis
    by (cases fuel') (simp_all add: Let_def)
qed

theorem buildShape_idempotent_witness:
  "\<exists>s h'. buildShape 1 2 0 sample_heap = Inr (s, h') \<and> buildShape 1 2 0 h' = Inr (s, h')"
proof -
  obtain s h' where b: "buildShape 1 2 0 sample_heap = Inr (s, h')"
    by (simp add: sample_heap_def Let_def alloc_shape_def new_ObjectDescription_def)
  moreover have "0 < next_shape sample_heap" by (simp add: sample_heap_def)
  ultimately show ?thesis using buildShape_idempotent [OF b, of 1] by auto
qed

text \<open>
  C8. \<open>buildShape\<close> returns: when a generic owner is older than the descriptions specialised
  from it and the member tables have no holes, a call depth of one more than the address of
  the description is enough, and no error is raised.
\<close>

theorem buildShape_returns:
  assumes "\<And>x g. od_generic (metas h x) = Some g \<Longrightarrow> g < x"
    and "\<And>x. None \<notin> set (members (metas h x))"
  shows "\<exists>s h'. buildShape (Suc a) a from h = Inr (s, h')"
  using assms by (intro buildShape_enough_fuel) auto

theorem buildShape_returns_witness:
  "\<exists>s h'. buildShape 3 2 0 (upd_meta 1 (members_update (\<lambda>_. [])) sample_heap) = Inr (s, h')"
proof -
  let ?h = "upd_meta 1 (members_update (\<lambda>_. [])) sample_heap"
  have "\<exists>s h'. buildShape (Suc 2) 2 0 ?h = Inr (s, h')"
    by (rule buildShape_returns)
      (auto simp: sample_heap_def new_ObjectDescription_def split: if_splits)
  then show ?thesis by (simp only: eval_nat_numeral)
qed

end
