(* ===== verification/IRCode.thy ===== *)
theory IRCode
  imports Runtime
begin

text \<open>
  Instructions of the stack IR (\<open>src/src/semantics/ir/ircode.ts\<close>): the opcode enumeration,
  the value types of the IR, and one definition per static constructor of \<open>IRCode\<close>.

  An instruction has an untyped operand \<open>oph\<close> (\<open>any\<close> in the source); the model's \<open>operand\<close>
  lists what the constructors store there. Blocks are mutable and a branch inside a block
  refers to it, so a block operand is an address.
\<close>

section \<open>Enumerations\<close>

text \<open>
  The opcodes. The enumeration of the source has no explicit values, so an opcode is its
  position; the code only compares opcodes.
\<close>

datatype IRCodeKind = IRCodeKind nat

abbreviation IRCodeKind_UNKNOWN :: IRCodeKind where "IRCodeKind_UNKNOWN \<equiv> IRCodeKind 0"
abbreviation IRCodeKind_LOAD_CONST :: IRCodeKind where "IRCodeKind_LOAD_CONST \<equiv> IRCodeKind 1"
abbreviation IRCodeKind_LOAD_STRING :: IRCodeKind where "IRCodeKind_LOAD_STRING \<equiv> IRCodeKind 2"
abbreviation IRCodeKind_LOAD_PARAM :: IRCodeKind where "IRCodeKind_LOAD_PARAM \<equiv> IRCodeKind 3"
abbreviation IRCodeKind_LOAD_LOCAL :: IRCodeKind where "IRCodeKind_LOAD_LOCAL \<equiv> IRCodeKind 4"
abbreviation IRCodeKind_LOAD_GLOBAL :: IRCodeKind where "IRCodeKind_LOAD_GLOBAL \<equiv> IRCodeKind 5"
abbreviation IRCodeKind_LOAD_CLOSURE :: IRCodeKind where "IRCodeKind_LOAD_CLOSURE \<equiv> IRCodeKind 6"
abbreviation IRCodeKind_LOAD_FUNCTION :: IRCodeKind where "IRCodeKind_LOAD_FUNCTION \<equiv> IRCodeKind 7"
abbreviation IRCodeKind_LOAD_CLASS :: IRCodeKind where "IRCodeKind_LOAD_CLASS \<equiv> IRCodeKind 8"
abbreviation IRCodeKind_LOAD_UNDEFINED :: IRCodeKind where "IRCodeKind_LOAD_UNDEFINED \<equiv> IRCodeKind 9"
abbreviation IRCodeKind_LOAD_NULL :: IRCodeKind where "IRCodeKind_LOAD_NULL \<equiv> IRCodeKind 10"
abbreviation IRCodeKind_SAVE_PARAM :: IRCodeKind where "IRCodeKind_SAVE_PARAM \<equiv> IRCodeKind 11"
abbreviation IRCodeKind_SAVE_LOCAL :: IRCodeKind where "IRCodeKind_SAVE_LOCAL \<equiv> IRCodeKind 12"
abbreviation IRCodeKind_SAVE_GLOBAL :: IRCodeKind where "IRCodeKind_SAVE_GLOBAL \<equiv> IRCodeKind 13"
abbreviation IRCodeKind_SAVE_CLOSURE :: IRCodeKind where "IRCodeKind_SAVE_CLOSURE \<equiv> IRCodeKind 14"
abbreviation IRCodeKind_DROP :: IRCodeKind where "IRCodeKind_DROP \<equiv> IRCodeKind 15"
abbreviation IRCodeKind_DUP :: IRCodeKind where "IRCodeKind_DUP \<equiv> IRCodeKind 16"
abbreviation IRCodeKind_SWAP :: IRCodeKind where "IRCodeKind_SWAP \<equiv> IRCodeKind 17"
abbreviation IRCodeKind_NEW_REF :: IRCodeKind where "IRCodeKind_NEW_REF \<equiv> IRCodeKind 18"
abbreviation IRCodeKind_READ_REF :: IRCodeKind where "IRCodeKind_READ_REF \<equiv> IRCodeKind 19"
abbreviation IRCodeKind_WRITE_REF :: IRCodeKind where "IRCodeKind_WRITE_REF \<equiv> IRCodeKind 20"
abbreviation IRCodeKind_ADD :: IRCodeKind where "IRCodeKind_ADD \<equiv> IRCodeKind 21"
abbreviation IRCodeKind_SUB :: IRCodeKind where "IRCodeKind_SUB \<equiv> IRCodeKind 22"
abbreviation IRCodeKind_MULT :: IRCodeKind where "IRCodeKind_MULT \<equiv> IRCodeKind 23"
abbreviation IRCodeKind_DIV :: IRCodeKind where "IRCodeKind_DIV \<equiv> IRCodeKind 24"
abbreviation IRCodeKind_MOD :: IRCodeKind where "IRCodeKind_MOD \<equiv> IRCodeKind 25"
abbreviation IRCodeKind_ASSIGN :: IRCodeKind where "IRCodeKind_ASSIGN \<equiv> IRCodeKind 26"
abbreviation IRCodeKind_ASSIGN_ADD :: IRCodeKind where "IRCodeKind_ASSIGN_ADD \<equiv> IRCodeKind 27"
abbreviation IRCodeKind_ASSIGN_SUB :: IRCodeKind where "IRCodeKind_ASSIGN_SUB \<equiv> IRCodeKind 28"
abbreviation IRCodeKind_ASSIGN_MULT :: IRCodeKind where "IRCodeKind_ASSIGN_MULT \<equiv> IRCodeKind 29"
abbreviation IRCodeKind_ASSIGN_DIV :: IRCodeKind where "IRCodeKind_ASSIGN_DIV \<equiv> IRCodeKind 30"
abbreviation IRCodeKind_ASSIGN_MOD :: IRCodeKind where "IRCodeKind_ASSIGN_MOD \<equiv> IRCodeKind 31"
abbreviation IRCodeKind_LT :: IRCodeKind where "IRCodeKind_LT \<equiv> IRCodeKind 32"
abbreviation IRCodeKind_LTE :: IRCodeKind where "IRCodeKind_LTE \<equiv> IRCodeKind 33"
abbreviation IRCodeKind_GT :: IRCodeKind where "IRCodeKind_GT \<equiv> IRCodeKind 34"
abbreviation IRCodeKind_GTE :: IRCodeKind where "IRCodeKind_GTE \<equiv> IRCodeKind 35"
abbreviation IRCodeKind_EQ :: IRCodeKind where "IRCodeKind_EQ \<equiv> IRCodeKind 36"
abbreviation IRCodeKind_EQ2 :: IRCodeKind where "IRCodeKind_EQ2 \<equiv> IRCodeKind 37"
abbreviation IRCodeKind_NEQ :: IRCodeKind where "IRCodeKind_NEQ \<equiv> IRCodeKind 38"
abbreviation IRCodeKind_NEQ2 :: IRCodeKind where "IRCodeKind_NEQ2 \<equiv> IRCodeKind 39"
abbreviation IRCodeKind_AND :: IRCodeKind where "IRCodeKind_AND \<equiv> IRCodeKind 40"
abbreviation IRCodeKind_OR :: IRCodeKind where "IRCodeKind_OR \<equiv> IRCodeKind 41"
abbreviation IRCodeKind_NOT :: IRCodeKind where "IRCodeKind_NOT \<equiv> IRCodeKind 42"
abbreviation IRCodeKind_INC :: IRCodeKind where "IRCodeKind_INC \<equiv> IRCodeKind 43"
abbreviation IRCodeKind_DEC :: IRCodeKind where "IRCodeKind_DEC \<equiv> IRCodeKind 44"
abbreviation IRCodeKind_IS_NULL :: IRCodeKind where "IRCodeKind_IS_NULL \<equiv> IRCodeKind 45"
abbreviation IRCodeKind_CALL :: IRCodeKind where "IRCodeKind_CALL \<equiv> IRCodeKind 46"
abbreviation IRCodeKind_METHOD_CALL :: IRCodeKind where "IRCodeKind_METHOD_CALL \<equiv> IRCodeKind 47"
abbreviation IRCodeKind_CONSTRUCTOR_CALL :: IRCodeKind where "IRCodeKind_CONSTRUCTOR_CALL \<equiv> IRCodeKind 48"
abbreviation IRCodeKind_GET_OFFSET :: IRCodeKind where "IRCodeKind_GET_OFFSET \<equiv> IRCodeKind 49"
abbreviation IRCodeKind_SET_OFFSET :: IRCodeKind where "IRCodeKind_SET_OFFSET \<equiv> IRCodeKind 50"
abbreviation IRCodeKind_GET_VTABLE :: IRCodeKind where "IRCodeKind_GET_VTABLE \<equiv> IRCodeKind 51"
abbreviation IRCodeKind_SET_VTABLE :: IRCodeKind where "IRCodeKind_SET_VTABLE \<equiv> IRCodeKind 52"
abbreviation IRCodeKind_VTABLE_CALL :: IRCodeKind where "IRCodeKind_VTABLE_CALL \<equiv> IRCodeKind 53"
abbreviation IRCodeKind_GET_SHAPE :: IRCodeKind where "IRCodeKind_GET_SHAPE \<equiv> IRCodeKind 54"
abbreviation IRCodeKind_SET_SHAPE :: IRCodeKind where "IRCodeKind_SET_SHAPE \<equiv> IRCodeKind 55"
abbreviation IRCodeKind_SHAPE_CALL :: IRCodeKind where "IRCodeKind_SHAPE_CALL \<equiv> IRCodeKind 56"
abbreviation IRCodeKind_GET_DYNAMIC :: IRCodeKind where "IRCodeKind_GET_DYNAMIC \<equiv> IRCodeKind 57"
abbreviation IRCodeKind_SET_DYNAMIC :: IRCodeKind where "IRCodeKind_SET_DYNAMIC \<equiv> IRCodeKind 58"
abbreviation IRCodeKind_DYNAMIC_CALL :: IRCodeKind where "IRCodeKind_DYNAMIC_CALL \<equiv> IRCodeKind 59"
abbreviation IRCodeKind_STRING_INDEX_GET :: IRCodeKind where "IRCodeKind_STRING_INDEX_GET \<equiv> IRCodeKind 60"
abbreviation IRCodeKind_STRING_INDEX_SET :: IRCodeKind where "IRCodeKind_STRING_INDEX_SET \<equiv> IRCodeKind 61"
abbreviation IRCodeKind_ARRAY_INDEX_GET :: IRCodeKind where "IRCodeKind_ARRAY_INDEX_GET \<equiv> IRCodeKind 62"
abbreviation IRCodeKind_ARRAY_INDEX_SET :: IRCodeKind where "IRCodeKind_ARRAY_INDEX_SET \<equiv> IRCodeKind 63"
abbreviation IRCodeKind_OBJECT_INDEX_GET :: IRCodeKind where "IRCodeKind_OBJECT_INDEX_GET \<equiv> IRCodeKind 64"
abbreviation IRCodeKind_OBJECT_INDEX_SET :: IRCodeKind where "IRCodeKind_OBJECT_INDEX_SET \<equiv> IRCodeKind 65"
abbreviation IRCodeKind_OBJECT_KEY_GET :: IRCodeKind where "IRCodeKind_OBJECT_KEY_GET \<equiv> IRCodeKind 66"
abbreviation IRCodeKind_OBJECT_KEY_SET :: IRCodeKind where "IRCodeKind_OBJECT_KEY_SET \<equiv> IRCodeKind 67"
abbreviation IRCodeKind_NEW_OBJECT :: IRCodeKind where "IRCodeKind_NEW_OBJECT \<equiv> IRCodeKind 68"
abbreviation IRCodeKind_NEW_DYNAMIC :: IRCodeKind where "IRCodeKind_NEW_DYNAMIC \<equiv> IRCodeKind 69"
abbreviation IRCodeKind_NEW_CLOSURE :: IRCodeKind where "IRCodeKind_NEW_CLOSURE \<equiv> IRCodeKind 70"
abbreviation IRCodeKind_NEW_ARRAY_PARAMS :: IRCodeKind where "IRCodeKind_NEW_ARRAY_PARAMS \<equiv> IRCodeKind 71"
abbreviation IRCodeKind_NEW_ARRAY_LENGTH :: IRCodeKind where "IRCodeKind_NEW_ARRAY_LENGTH \<equiv> IRCodeKind 72"
abbreviation IRCodeKind_INIT_CLOSURE_VALUE :: IRCodeKind where "IRCodeKind_INIT_CLOSURE_VALUE \<equiv> IRCodeKind 73"
abbreviation IRCodeKind_INSTANCE_OF :: IRCodeKind where "IRCodeKind_INSTANCE_OF \<equiv> IRCodeKind 74"
abbreviation IRCodeKind_INSTANCE_OF_DYNAMIC :: IRCodeKind where "IRCodeKind_INSTANCE_OF_DYNAMIC \<equiv> IRCodeKind 75"
abbreviation IRCodeKind_BUILD_SHAPE :: IRCodeKind where "IRCodeKind_BUILD_SHAPE \<equiv> IRCodeKind 76"
abbreviation IRCodeKind_BIND_SHAPE :: IRCodeKind where "IRCodeKind_BIND_SHAPE \<equiv> IRCodeKind 77"
abbreviation IRCodeKind_UNBOUND_SHAPE :: IRCodeKind where "IRCodeKind_UNBOUND_SHAPE \<equiv> IRCodeKind 78"
abbreviation IRCodeKind_GET_KEY_ITER :: IRCodeKind where "IRCodeKind_GET_KEY_ITER \<equiv> IRCodeKind 79"
abbreviation IRCodeKind_GET_VALUE_ITER :: IRCodeKind where "IRCodeKind_GET_VALUE_ITER \<equiv> IRCodeKind 80"
abbreviation IRCodeKind_NEXT_ITER :: IRCodeKind where "IRCodeKind_NEXT_ITER \<equiv> IRCodeKind 81"
abbreviation IRCodeKind_RETURN :: IRCodeKind where "IRCodeKind_RETURN \<equiv> IRCodeKind 82"
abbreviation IRCodeKind_VALUE_CAST :: IRCodeKind where "IRCodeKind_VALUE_CAST \<equiv> IRCodeKind 83"
abbreviation IRCodeKind_STATIC_CAST :: IRCodeKind where "IRCodeKind_STATIC_CAST \<equiv> IRCodeKind 84"
abbreviation IRCodeKind_DYN_CAST :: IRCodeKind where "IRCodeKind_DYN_CAST \<equiv> IRCodeKind 85"
abbreviation IRCodeKind_PUSH_TRY :: IRCodeKind where "IRCodeKind_PUSH_TRY \<equiv> IRCodeKind 86"
abbreviation IRCodeKind_POP_TRY :: IRCodeKind where "IRCodeKind_POP_TRY \<equiv> IRCodeKind 87"
abbreviation IRCodeKind_THROW :: IRCodeKind where "IRCodeKind_THROW \<equiv> IRCodeKind 88"
abbreviation IRCodeKind_FINALLY_END :: IRCodeKind where "IRCodeKind_FINALLY_END \<equiv> IRCodeKind 89"
abbreviation IRCodeKind_AWAIT :: IRCodeKind where "IRCodeKind_AWAIT \<equiv> IRCodeKind 90"
abbreviation IRCodeKind_YIELD :: IRCodeKind where "IRCodeKind_YIELD \<equiv> IRCodeKind 91"
abbreviation IRCodeKind_BLOCK :: IRCodeKind where "IRCodeKind_BLOCK \<equiv> IRCodeKind 92"
abbreviation IRCodeKind_BRANCH :: IRCodeKind where "IRCodeKind_BRANCH \<equiv> IRCodeKind 93"
abbreviation IRCodeKind_BRANCH_TRUE :: IRCodeKind where "IRCodeKind_BRANCH_TRUE \<equiv> IRCodeKind 94"
abbreviation IRCodeKind_BRANCH_FALSE :: IRCodeKind where "IRCodeKind_BRANCH_FALSE \<equiv> IRCodeKind 95"
abbreviation IRCodeKind_IMPORT_FUNCTION :: IRCodeKind where "IRCodeKind_IMPORT_FUNCTION \<equiv> IRCodeKind 96"

datatype (plugins only: size) IRCodeValueType =
    VOID | NATIVE | NULL | UNDEFINED | INT | INT8 | UINT8 | INT16 | UINT16 | INT32 | UINT32
    | INT64 | UINT64 | F32 | F64 | BOOLEAN | RAW_STRING | STRING | ANY | REFERENCE | OBJECT
    | INTERFACE | ENUM | GENERIC

primrec irvt_num :: "IRCodeValueType \<Rightarrow> nat" where
  "irvt_num IRCodeValueType.VOID = 0"
| "irvt_num IRCodeValueType.NATIVE = 1"
| "irvt_num IRCodeValueType.NULL = 2"
| "irvt_num IRCodeValueType.UNDEFINED = 3"
| "irvt_num IRCodeValueType.INT = 4"
| "irvt_num IRCodeValueType.INT8 = 5"
| "irvt_num IRCodeValueType.UINT8 = 6"
| "irvt_num IRCodeValueType.INT16 = 7"
| "irvt_num IRCodeValueType.UINT16 = 8"
| "irvt_num IRCodeValueType.INT32 = 9"
| "irvt_num IRCodeValueType.UINT32 = 10"
| "irvt_num IRCodeValueType.INT64 = 11"
| "irvt_num IRCodeValueType.UINT64 = 12"
| "irvt_num IRCodeValueType.F32 = 13"
| "irvt_num IRCodeValueType.F64 = 14"
| "irvt_num IRCodeValueType.BOOLEAN = 15"
| "irvt_num IRCodeValueType.RAW_STRING = 16"
| "irvt_num IRCodeValueType.STRING = 17"
| "irvt_num IRCodeValueType.ANY = 18"
| "irvt_num IRCodeValueType.REFERENCE = 19"
| "irvt_num IRCodeValueType.OBJECT = 20"
| "irvt_num IRCodeValueType.INTERFACE = 21"
| "irvt_num IRCodeValueType.ENUM = 22"
| "irvt_num IRCodeValueType.GENERIC = 23"

text \<open>The binary operators of the TypeScript syntax, by the names of their tokens.\<close>

datatype (plugins only: size) BinaryOperator =
    EqualsToken | PlusEqualsToken | MinusEqualsToken | AsteriskAsteriskEqualsToken
    | AsteriskEqualsToken | SlashEqualsToken | PercentEqualsToken | AmpersandEqualsToken
    | BarEqualsToken | CaretEqualsToken | LessThanLessThanEqualsToken
    | GreaterThanGreaterThanGreaterThanEqualsToken | GreaterThanGreaterThanEqualsToken
    | AsteriskAsteriskToken | AsteriskToken | SlashToken | PercentToken | PlusToken
    | MinusToken | CommaToken | LessThanLessThanToken | GreaterThanGreaterThanToken
    | GreaterThanGreaterThanGreaterThanToken | LessThanToken | LessThanEqualsToken
    | GreaterThanToken | GreaterThanEqualsToken | InstanceOfKeyword | InKeyword
    | EqualsEqualsToken | EqualsEqualsEqualsToken | ExclamationEqualsEqualsToken
    | ExclamationEqualsToken | AmpersandToken | BarToken | CaretToken | AmpersandAmpersandToken
    | BarBarToken | QuestionQuestionToken | AmpersandAmpersandEqualsToken | BarBarEqualsToken
    | QuestionQuestionEqualsToken

definition isObjectIRValue :: "IRCodeValueType \<Rightarrow> bool" where
  "isObjectIRValue type =
     (type = IRCodeValueType.STRING \<or> type = IRCodeValueType.OBJECT \<or> type = IRCodeValueType.INTERFACE)"

definition isIntIRValue :: "IRCodeValueType \<Rightarrow> bool" where
  "isIntIRValue type =
     (irvt_num type \<ge> irvt_num IRCodeValueType.INT \<and> irvt_num type \<le> irvt_num IRCodeValueType.UINT64)"

definition isStringIRValue :: "IRCodeValueType \<Rightarrow> bool" where
  "isStringIRValue type = (type = IRCodeValueType.RAW_STRING \<or> type = IRCodeValueType.STRING)"

definition isNumberIRValue :: "IRCodeValueType \<Rightarrow> bool" where
  "isNumberIRValue type = (type = IRCodeValueType.F32 \<or> type = IRCodeValueType.F64)"

section \<open>Value types of the IR\<close>

definition ir_of_kind :: "ValueTypeKind \<Rightarrow> IRCodeValueType" where
  "ir_of_kind k =
     (if k = ValueTypeKind.VOID \<or> k = ValueTypeKind.UNDEFINED then IRCodeValueType.UNDEFINED
      else if k = ValueTypeKind.NEVER \<or> k = ValueTypeKind.NULL then IRCodeValueType.NULL
      else if k = ValueTypeKind.INT then IRCodeValueType.INT
      else if k = ValueTypeKind.NUMBER then IRCodeValueType.F64
      else if k = ValueTypeKind.BOOLEAN then IRCodeValueType.BOOLEAN
      else if k = ValueTypeKind.RAW_STRING then IRCodeValueType.RAW_STRING
      else if k = ValueTypeKind.STRING then IRCodeValueType.STRING
      else if k = ValueTypeKind.ANY then IRCodeValueType.ANY
      else if k = ValueTypeKind.ENUM then IRCodeValueType.ENUM
      else if k = ValueTypeKind.INTERFACE then IRCodeValueType.INTERFACE
      else if k = ValueTypeKind.GENERIC then IRCodeValueType.GENERIC
      else IRCodeValueType.OBJECT)"

text \<open>Type parameters and unions stand for their wide type; any other type goes by its kind.\<close>

primrec GetIRCodeValueTypeFromType :: "value_type \<Rightarrow> IRCodeValueType" where
  "GetIRCodeValueTypeFromType (TypeParameterType i n w ix d ow) = GetIRCodeValueTypeFromType w"
| "GetIRCodeValueTypeFromType (UnionType i ts w) = GetIRCodeValueTypeFromType w"
| "GetIRCodeValueTypeFromType (SimpleType k i) = ir_of_kind (base_kind_of k)"
| "GetIRCodeValueTypeFromType (ClosureContextType p fs) = ir_of_kind ValueTypeKind.CLOSURECONTEXT"
| "GetIRCodeValueTypeFromType (WASMArrayType a pk mu nu) = ir_of_kind ValueTypeKind.WASM_ARRAY"
| "GetIRCodeValueTypeFromType (WASMStructType t pks mus nu b) = ir_of_kind ValueTypeKind.WASM_STRUCT"
| "GetIRCodeValueTypeFromType (SetType i e m ta sa) = ir_of_kind ValueTypeKind.SET"
| "GetIRCodeValueTypeFromType (MapType i k v m ta sa) = ir_of_kind ValueTypeKind.MAP"
| "GetIRCodeValueTypeFromType (ObjectType i m f ni si ta sa) = ir_of_kind ValueTypeKind.OBJECT"
| "GetIRCodeValueTypeFromType (ArrayType i m f e ni ta sa) = ir_of_kind ValueTypeKind.ARRAY"
| "GetIRCodeValueTypeFromType (FunctionType i r as os rp ep ta sa) = ir_of_kind ValueTypeKind.FUNCTION"
| "GetIRCodeValueTypeFromType (EnumType i n mt ms) = ir_of_kind ValueTypeKind.ENUM"
| "GetIRCodeValueTypeFromType (TupleType i es) = ir_of_kind ValueTypeKind.TUPLE"

section \<open>Instructions\<close>

text \<open>A literal of the source program; a number is given by its IEEE 754 bit pattern.\<close>

datatype literal = LNumber "64 word" | LBoolean bool | LString js_string | LNull | LUndefined

type_synonym block_ref = nat

datatype operand = NoOperand | Num int | Lit literal | BlockOp block_ref

record IRCode =
  ir_kind :: IRCodeKind
  ir_type :: IRCodeValueType
  ir_valueType :: "value_type option"
  oph :: operand
  ir_typeArguments :: "value_type list option"

definition new_IRCode :: "IRCodeKind \<Rightarrow> IRCodeValueType \<Rightarrow> value_type \<Rightarrow> operand \<Rightarrow> IRCode" where
  "new_IRCode kind type vt op =
     \<lparr>ir_kind = kind, ir_type = type, ir_valueType = Some vt, oph = op, ir_typeArguments = None\<rparr>"

definition ir_setTypeArguments :: "value_type list \<Rightarrow> IRCode \<Rightarrow> IRCode" where
  "ir_setTypeArguments typeArgs c = c\<lparr>ir_typeArguments := Some typeArgs\<rparr>"

text \<open>The getters that read the operand as a number.\<close>

definition op_number :: "IRCode \<Rightarrow> int" where
  "op_number c = (case oph c of Num n \<Rightarrow> n | _ \<Rightarrow> 0)"

definition vtableIndex :: "IRCode \<Rightarrow> int" where
  "vtableIndex c = js_shr (op_number c) 8"

definition shapeIndex :: "IRCode \<Rightarrow> int" where
  "shapeIndex c = js_shr (op_number c) 8"

definition dynamicIndex :: "IRCode \<Rightarrow> int" where
  "dynamicIndex c = js_shr (op_number c) 8"

definition paramCount :: "IRCode \<Rightarrow> int" where
  "paramCount c = js_and (op_number c) 0xff"

subsection \<open>Loads\<close>

definition LoadConst :: "value_type \<Rightarrow> literal \<Rightarrow> IRCode" where
  "LoadConst type v =
     new_IRCode IRCodeKind_LOAD_CONST (GetIRCodeValueTypeFromType type) type (Lit v)"

definition LoadString :: "int \<Rightarrow> IRCode" where
  "LoadString offset =
     new_IRCode IRCodeKind_LOAD_STRING IRCodeValueType.INT32 Primitive_RawString (Num offset)"

definition NewUndefined :: "IRCode" where
  "NewUndefined =
     new_IRCode IRCodeKind_LOAD_UNDEFINED IRCodeValueType.UNDEFINED Primitive_Undefined NoOperand"

definition NewReturn :: "value_type option \<Rightarrow> IRCode" where
  "NewReturn vt =
     new_IRCode IRCodeKind_RETURN
       (case vt of Some t \<Rightarrow> GetIRCodeValueTypeFromType t | None \<Rightarrow> IRCodeValueType.UNDEFINED)
       (case vt of Some t \<Rightarrow> t | None \<Rightarrow> Primitive_Undefined) NoOperand"

text \<open>The only caller may pass \<open>undefined\<close>: the class of a function that has none.\<close>

definition LoadThis :: "value_type option \<Rightarrow> IRCode" where
  "LoadThis clazz_type =
     (new_IRCode IRCodeKind_LOAD_PARAM IRCodeValueType.OBJECT Primitive_Void (Num 0))
       \<lparr>ir_valueType := clazz_type\<rparr>"

definition LoadLocal :: "int \<Rightarrow> value_type \<Rightarrow> IRCode" where
  "LoadLocal index v =
     new_IRCode IRCodeKind_LOAD_LOCAL (GetIRCodeValueTypeFromType v) v (Num index)"

definition LoadGlobal :: "int \<Rightarrow> value_type \<Rightarrow> IRCode" where
  "LoadGlobal index v =
     new_IRCode IRCodeKind_LOAD_GLOBAL (GetIRCodeValueTypeFromType v) v (Num index)"

definition LoadFunction :: "int \<Rightarrow> value_type \<Rightarrow> IRCode" where
  "LoadFunction index v =
     new_IRCode IRCodeKind_LOAD_FUNCTION (GetIRCodeValueTypeFromType v) v (Num index)"

definition LoadClass :: "int \<Rightarrow> value_type \<Rightarrow> IRCode" where
  "LoadClass index obj_type =
     new_IRCode IRCodeKind_LOAD_CLASS IRCodeValueType.OBJECT obj_type (Num index)"

definition LoadParam :: "int \<Rightarrow> value_type \<Rightarrow> IRCode" where
  "LoadParam index v =
     new_IRCode IRCodeKind_LOAD_PARAM (GetIRCodeValueTypeFromType v) v (Num index)"

definition LoadClosure :: "int \<Rightarrow> value_type \<Rightarrow> IRCode" where
  "LoadClosure index v =
     new_IRCode IRCodeKind_LOAD_CLOSURE (GetIRCodeValueTypeFromType v) v (Num index)"

subsection \<open>References and stores\<close>

definition NewRef :: "value_type option \<Rightarrow> IRCode" where
  "NewRef vt =
     new_IRCode IRCodeKind_NEW_REF IRCodeValueType.REFERENCE
       (case vt of Some t \<Rightarrow> t | None \<Rightarrow> Primitive_Any) NoOperand"

definition ReadRef :: "value_type \<Rightarrow> IRCode" where
  "ReadRef vt =
     new_IRCode IRCodeKind_READ_REF (GetIRCodeValueTypeFromType vt) vt NoOperand"

definition WriteRef :: "value_type \<Rightarrow> IRCode" where
  "WriteRef vt =
     new_IRCode IRCodeKind_WRITE_REF (GetIRCodeValueTypeFromType vt) vt NoOperand"

definition SaveParam :: "int \<Rightarrow> value_type \<Rightarrow> IRCode" where
  "SaveParam index type =
     new_IRCode IRCodeKind_SAVE_PARAM (GetIRCodeValueTypeFromType type) type (Num index)"

definition SaveLocal :: "int \<Rightarrow> value_type \<Rightarrow> IRCode" where
  "SaveLocal index type =
     new_IRCode IRCodeKind_SAVE_LOCAL (GetIRCodeValueTypeFromType type) type (Num index)"

definition SaveGlobal :: "int \<Rightarrow> value_type \<Rightarrow> IRCode" where
  "SaveGlobal index type =
     new_IRCode IRCodeKind_SAVE_GLOBAL (GetIRCodeValueTypeFromType type) type (Num index)"

definition SaveClosure :: "int \<Rightarrow> value_type \<Rightarrow> IRCode" where
  "SaveClosure index type =
     new_IRCode IRCodeKind_SAVE_CLOSURE (GetIRCodeValueTypeFromType type) type (Num index)"

subsection \<open>Operators\<close>

definition binary_kind :: "BinaryOperator \<Rightarrow> IRCodeKind result" where
  "binary_kind opKind =
     (case opKind of
        PlusEqualsToken \<Rightarrow> Inr IRCodeKind_ADD
      | PlusToken \<Rightarrow> Inr IRCodeKind_ADD
      | MinusEqualsToken \<Rightarrow> Inr IRCodeKind_SUB
      | MinusToken \<Rightarrow> Inr IRCodeKind_SUB
      | AsteriskEqualsToken \<Rightarrow> Inr IRCodeKind_MULT
      | AsteriskToken \<Rightarrow> Inr IRCodeKind_MULT
      | SlashEqualsToken \<Rightarrow> Inr IRCodeKind_DIV
      | SlashToken \<Rightarrow> Inr IRCodeKind_DIV
      | PercentEqualsToken \<Rightarrow> Inr IRCodeKind_MOD
      | PercentToken \<Rightarrow> Inr IRCodeKind_MOD
      | LessThanToken \<Rightarrow> Inr IRCodeKind_LT
      | LessThanEqualsToken \<Rightarrow> Inr IRCodeKind_LTE
      | GreaterThanToken \<Rightarrow> Inr IRCodeKind_GT
      | GreaterThanEqualsToken \<Rightarrow> Inr IRCodeKind_GTE
      | EqualsEqualsToken \<Rightarrow> Inr IRCodeKind_EQ
      | EqualsEqualsEqualsToken \<Rightarrow> Inr IRCodeKind_EQ2
      | ExclamationEqualsToken \<Rightarrow> Inr IRCodeKind_NEQ
      | ExclamationEqualsEqualsToken \<Rightarrow> Inr IRCodeKind_NEQ2
      | AmpersandAmpersandToken \<Rightarrow> Inr IRCodeKind_AND
      | BarBarToken \<Rightarrow> Inr IRCodeKind_OR
      | _ \<Rightarrow> Inl (JSError ''unknown binary operator''))"

definition NewBinaryOp :: "BinaryOperator \<Rightarrow> value_type \<Rightarrow> IRCode result" where
  "NewBinaryOp opKind type =
     bind_r (binary_kind opKind) (\<lambda>kind.
       Inr (new_IRCode kind (GetIRCodeValueTypeFromType type) type NoOperand))"

subsection \<open>Calls\<close>

definition with_typeArgs :: "value_type list option \<Rightarrow> IRCode \<Rightarrow> IRCode" where
  "with_typeArgs typeArgs code =
     (case typeArgs of Some ts \<Rightarrow> ir_setTypeArguments ts code | None \<Rightarrow> code)"

definition NewCall :: "value_type \<Rightarrow> int \<Rightarrow> value_type list option \<Rightarrow> IRCode" where
  "NewCall type param_count typeArgs =
     with_typeArgs typeArgs
       (new_IRCode IRCodeKind_CALL (GetIRCodeValueTypeFromType type) type (Num param_count))"

definition NewMethodCall :: "value_type \<Rightarrow> int \<Rightarrow> value_type list option \<Rightarrow> IRCode" where
  "NewMethodCall type param_count typeArgs =
     with_typeArgs typeArgs
       (new_IRCode IRCodeKind_METHOD_CALL (GetIRCodeValueTypeFromType type) type (Num param_count))"

definition NewConstructorCall :: "value_type \<Rightarrow> int \<Rightarrow> value_type list option \<Rightarrow> IRCode" where
  "NewConstructorCall type param_count typeArgs =
     with_typeArgs typeArgs
       (new_IRCode IRCodeKind_CONSTRUCTOR_CALL IRCodeValueType.UNDEFINED type (Num param_count))"

subsection \<open>The stack and new objects\<close>

definition NewDupStackValue :: "int \<Rightarrow> value_type \<Rightarrow> IRCode" where
  "NewDupStackValue index vt =
     new_IRCode IRCodeKind_DUP (GetIRCodeValueTypeFromType vt) vt (Num index)"

definition NewSwap :: "IRCode" where
  "NewSwap =
     new_IRCode IRCodeKind_SWAP IRCodeValueType.ANY Primitive_Void NoOperand"

definition NewObject :: "int \<Rightarrow> value_type \<Rightarrow> IRCode" where
  "NewObject idx t =
     new_IRCode IRCodeKind_NEW_OBJECT IRCodeValueType.OBJECT t (Num idx)"

definition NewDynamic :: "value_type \<Rightarrow> IRCode" where
  "NewDynamic vt =
     new_IRCode IRCodeKind_NEW_DYNAMIC IRCodeValueType.OBJECT vt NoOperand"

definition NewArrayLength :: "value_type \<Rightarrow> IRCode" where
  "NewArrayLength vt =
     new_IRCode IRCodeKind_NEW_ARRAY_LENGTH IRCodeValueType.OBJECT vt NoOperand"

definition NewArrayParameters :: "int \<Rightarrow> value_type \<Rightarrow> IRCode" where
  "NewArrayParameters argc vt =
     new_IRCode IRCodeKind_NEW_ARRAY_PARAMS IRCodeValueType.OBJECT vt (Num argc)"

definition NewClosure :: "int \<Rightarrow> value_type \<Rightarrow> IRCode" where
  "NewClosure func_idx vt =
     new_IRCode IRCodeKind_NEW_CLOSURE IRCodeValueType.OBJECT vt (Num func_idx)"

definition InitClosureValue :: "int \<Rightarrow> value_type \<Rightarrow> IRCode" where
  "InitClosureValue idx vt =
     new_IRCode IRCodeKind_INIT_CLOSURE_VALUE (GetIRCodeValueTypeFromType vt) vt (Num idx)"

subsection \<open>Element and member access\<close>

definition NewStringIndexGet :: "IRCode" where
  "NewStringIndexGet =
     new_IRCode IRCodeKind_STRING_INDEX_GET IRCodeValueType.STRING Primitive_String NoOperand"

definition NewStringIndexSet :: "IRCode" where
  "NewStringIndexSet =
     new_IRCode IRCodeKind_STRING_INDEX_SET IRCodeValueType.STRING Primitive_String NoOperand"

definition NewArrayIndexGet :: "value_type \<Rightarrow> IRCode" where
  "NewArrayIndexGet vt =
     new_IRCode IRCodeKind_ARRAY_INDEX_GET (GetIRCodeValueTypeFromType vt) vt NoOperand"

definition NewArrayIndexSet :: "value_type \<Rightarrow> IRCode" where
  "NewArrayIndexSet vt =
     new_IRCode IRCodeKind_ARRAY_INDEX_SET (GetIRCodeValueTypeFromType vt) vt NoOperand"

definition NewObjectIndexGet :: "value_type \<Rightarrow> IRCode" where
  "NewObjectIndexGet vt =
     new_IRCode IRCodeKind_OBJECT_INDEX_GET (GetIRCodeValueTypeFromType vt) vt NoOperand"

definition NewObjectIndexSet :: "value_type \<Rightarrow> IRCode" where
  "NewObjectIndexSet vt =
     new_IRCode IRCodeKind_OBJECT_INDEX_SET (GetIRCodeValueTypeFromType vt) vt NoOperand"

definition NewObjectKeyGet :: "value_type \<Rightarrow> IRCode" where
  "NewObjectKeyGet vt =
     new_IRCode IRCodeKind_OBJECT_KEY_GET (GetIRCodeValueTypeFromType vt) vt NoOperand"

definition NewObjectKeySet :: "value_type \<Rightarrow> IRCode" where
  "NewObjectKeySet vt =
     new_IRCode IRCodeKind_OBJECT_KEY_SET (GetIRCodeValueTypeFromType vt) vt NoOperand"

definition NewGetOffset :: "int \<Rightarrow> value_type \<Rightarrow> IRCode" where
  "NewGetOffset index vt =
     new_IRCode IRCodeKind_GET_OFFSET (GetIRCodeValueTypeFromType vt) vt (Num index)"

definition NewSetOffset :: "int \<Rightarrow> value_type \<Rightarrow> IRCode" where
  "NewSetOffset index vt =
     new_IRCode IRCodeKind_SET_OFFSET (GetIRCodeValueTypeFromType vt) vt (Num index)"

definition NewGetVTable :: "int \<Rightarrow> value_type \<Rightarrow> IRCode" where
  "NewGetVTable index vt =
     new_IRCode IRCodeKind_GET_VTABLE (GetIRCodeValueTypeFromType vt) vt (Num index)"

definition NewSetVTable :: "int \<Rightarrow> value_type \<Rightarrow> IRCode" where
  "NewSetVTable index vt =
     new_IRCode IRCodeKind_SET_VTABLE (GetIRCodeValueTypeFromType vt) vt (Num index)"

definition NewVTableCall :: "int \<Rightarrow> int \<Rightarrow> value_type \<Rightarrow> IRCode" where
  "NewVTableCall index param_count vt =
     new_IRCode IRCodeKind_VTABLE_CALL (GetIRCodeValueTypeFromType vt) vt
       (Num (js_or (js_shl (js_and index 0xffffff) 8) (js_and param_count 0xff)))"

definition NewGetShape :: "int \<Rightarrow> value_type \<Rightarrow> IRCode" where
  "NewGetShape index vt =
     new_IRCode IRCodeKind_GET_SHAPE (GetIRCodeValueTypeFromType vt) vt (Num index)"

definition NewSetShape :: "int \<Rightarrow> value_type \<Rightarrow> IRCode" where
  "NewSetShape index vt =
     new_IRCode IRCodeKind_SET_SHAPE (GetIRCodeValueTypeFromType vt) vt (Num index)"

definition NewShapeCall :: "int \<Rightarrow> int \<Rightarrow> value_type \<Rightarrow> IRCode" where
  "NewShapeCall index param_count vt =
     new_IRCode IRCodeKind_SHAPE_CALL (GetIRCodeValueTypeFromType vt) vt
       (Num (js_or (js_shl (js_and index 0xffffff) 8) (js_and param_count 0xff)))"

definition NewGetDynamic :: "int \<Rightarrow> IRCode" where
  "NewGetDynamic index =
     new_IRCode IRCodeKind_GET_DYNAMIC IRCodeValueType.ANY Primitive_Any (Num index)"

definition NewSetDynamic :: "int \<Rightarrow> IRCode" where
  "NewSetDynamic index =
     new_IRCode IRCodeKind_SET_DYNAMIC IRCodeValueType.ANY Primitive_Any (Num index)"

definition NewDynamicCall :: "int \<Rightarrow> int \<Rightarrow> IRCode" where
  "NewDynamicCall index param_count =
     new_IRCode IRCodeKind_DYNAMIC_CALL IRCodeValueType.ANY Primitive_Any
       (Num (js_or (js_shl (js_and index 0xffffff) 8) (js_and param_count 0xff)))"

subsection \<open>Blocks, shapes and imports\<close>

record IRBlock =
  codes :: "IRCode list"
  ir_label :: js_string
  ir_isLoop :: bool

definition new_IRBlock :: "js_string \<Rightarrow> bool \<Rightarrow> IRBlock" where
  "new_IRBlock label isLoop = \<lparr>codes = [], ir_label = label, ir_isLoop = isLoop\<rparr>"

definition block_add :: "IRCode \<Rightarrow> IRBlock \<Rightarrow> IRBlock" where
  "block_add code b = b\<lparr>codes := codes b @ [code]\<rparr>"

text \<open>\<open>NewBlock\<close> also creates the \<open>IRBlock\<close>; here the block is given by its address.\<close>

definition NewBlock :: "block_ref \<Rightarrow> value_type \<Rightarrow> IRCode" where
  "NewBlock ir_block type =
     new_IRCode IRCodeKind_BLOCK (GetIRCodeValueTypeFromType type) type (BlockOp ir_block)"

definition NewBindShape :: "int \<Rightarrow> value_type \<Rightarrow> IRCode" where
  "NewBindShape shape_idx vt =
     new_IRCode IRCodeKind_BIND_SHAPE (GetIRCodeValueTypeFromType vt) vt (Num shape_idx)"

definition NewBuildShape :: "int \<Rightarrow> value_type \<Rightarrow> IRCode" where
  "NewBuildShape meta_idx vt =
     new_IRCode IRCodeKind_BUILD_SHAPE (GetIRCodeValueTypeFromType vt) vt (Num meta_idx)"

definition NewBranch :: "block_ref \<Rightarrow> IRCode" where
  "NewBranch target =
     new_IRCode IRCodeKind_BRANCH IRCodeValueType.UNDEFINED Primitive_Undefined (BlockOp target)"

definition NewBranchIf :: "block_ref \<Rightarrow> bool \<Rightarrow> IRCode" where
  "NewBranchIf target isTrue =
     new_IRCode (if isTrue then IRCodeKind_BRANCH_TRUE else IRCodeKind_BRANCH_FALSE)
       IRCodeValueType.UNDEFINED Primitive_Undefined (BlockOp target)"

definition NewImportFunction :: "int \<Rightarrow> int \<Rightarrow> IRCode" where
  "NewImportFunction moduleIndex funcIndex =
     new_IRCode IRCodeKind_IMPORT_FUNCTION IRCodeValueType.UNDEFINED Primitive_Undefined
       (Num (js_or (js_shl (js_and moduleIndex 0xffff) 16) (js_and funcIndex 0xffff)))"

section \<open>Operators as text\<close>

text \<open>
  \<open>operatorString\<close> of \<open>src/src/semantics/value.ts\<close>. The last branch asks the TypeScript
  package for the name of the token, the parameter \<open>token_name\<close>.
\<close>

definition operatorString :: "(BinaryOperator \<Rightarrow> string) \<Rightarrow> BinaryOperator \<Rightarrow> string" where
  "operatorString token_name kind =
     (case kind of
        EqualsToken \<Rightarrow> ''=''
      | PlusEqualsToken \<Rightarrow> ''+=''
      | MinusEqualsToken \<Rightarrow> ''-=''
      | AsteriskAsteriskEqualsToken \<Rightarrow> ''**=''
      | AsteriskEqualsToken \<Rightarrow> ''*=''
      | SlashEqualsToken \<Rightarrow> ''/=''
      | PercentEqualsToken \<Rightarrow> ''%=''
      | AmpersandEqualsToken \<Rightarrow> ''&=''
      | BarEqualsToken \<Rightarrow> ''|=''
      | CaretEqualsToken \<Rightarrow> ''^=''
      | LessThanLessThanEqualsToken \<Rightarrow> ''<<=''
      | GreaterThanGreaterThanGreaterThanEqualsToken \<Rightarrow> ''>>>=''
      | GreaterThanGreaterThanEqualsToken \<Rightarrow> ''>>=''
      | AsteriskAsteriskToken \<Rightarrow> ''**''
      | AsteriskToken \<Rightarrow> ''*''
      | SlashToken \<Rightarrow> ''/''
      | PercentToken \<Rightarrow> ''%''
      | PlusToken \<Rightarrow> ''+''
      | MinusToken \<Rightarrow> ''-''
      | CommaToken \<Rightarrow> '',''
      | LessThanLessThanToken \<Rightarrow> ''<<''
      | GreaterThanGreaterThanToken \<Rightarrow> ''>>''
      | GreaterThanGreaterThanGreaterThanToken \<Rightarrow> ''>>>''
      | LessThanToken \<Rightarrow> ''<''
      | LessThanEqualsToken \<Rightarrow> ''<=''
      | GreaterThanToken \<Rightarrow> ''>''
      | GreaterThanEqualsToken \<Rightarrow> ''>=''
      | InstanceOfKeyword \<Rightarrow> ''instance of''
      | InKeyword \<Rightarrow> ''in''
      | EqualsEqualsToken \<Rightarrow> ''==''
      | EqualsEqualsEqualsToken \<Rightarrow> ''===''
      | ExclamationEqualsEqualsToken \<Rightarrow> ''!==''
      | ExclamationEqualsToken \<Rightarrow> ''!=''
      | AmpersandToken \<Rightarrow> ''&''
      | BarToken \<Rightarrow> ''|''
      | CaretToken \<Rightarrow> ''^''
      | AmpersandAmpersandToken \<Rightarrow> ''&&''
      | BarBarToken \<Rightarrow> ''||''
      | QuestionQuestionToken \<Rightarrow> ''??''
      | _ \<Rightarrow> token_name kind)"

definition isEqualOperator :: "BinaryOperator \<Rightarrow> bool" where
  "isEqualOperator kind =
     (kind = EqualsToken \<or> kind = PlusEqualsToken \<or> kind = MinusEqualsToken \<or>
      kind = AsteriskEqualsToken \<or> kind = AsteriskAsteriskEqualsToken \<or>
      kind = SlashEqualsToken \<or> kind = PercentEqualsToken \<or> kind = AmpersandEqualsToken \<or>
      kind = AmpersandAmpersandEqualsToken \<or> kind = BarEqualsToken \<or> kind = BarBarEqualsToken \<or>
      kind = CaretEqualsToken)"

section \<open>Lemmas: packed operands\<close>

text \<open>A call packs the member index into the bits from 8 on and the argument count below.\<close>

definition packed_call :: "int \<Rightarrow> int \<Rightarrow> int" where
  "packed_call index param_count =
     js_or (js_shl (js_and index 0xffffff) 8) (js_and param_count 0xff)"

lemma op_number_new_IRCode [simp]: "op_number (new_IRCode k t vt (Num n)) = n"
  by (simp add: op_number_def new_IRCode_def)

lemma op_number_calls [simp]:
  "op_number (NewVTableCall i c vt) = packed_call i c"
  "op_number (NewShapeCall i c vt) = packed_call i c"
  "op_number (NewDynamicCall i c) = packed_call i c"
  by (simp_all add: NewVTableCall_def NewShapeCall_def NewDynamicCall_def packed_call_def)

lemma packed_call_low: "js_and (packed_call i c) 0xff = take_bit 8 c"
  unfolding js_and_255
  by (rule bit_eqI) (auto simp: packed_call_def bit_ext bit_take_bit_iff mask_255 bit_mask_iff min_def)

lemma packed_call_high: "js_shr (packed_call i c) 8 = signed_take_bit 23 i"
proof (rule bit_eqI)
  fix n
  show "bit (js_shr (packed_call i c) 8) n \<longleftrightarrow> bit (signed_take_bit 23 i) n"
    by (auto simp: packed_call_def bit_ext bit_signed_take_bit_iff mask_255 mask_ffffff
        bit_mask_iff min_def not_le)
qed

lemma packed_call_high_nonneg:
  assumes "0 \<le> i" and "i < 2 ^ 23"
  shows "js_shr (packed_call i c) 8 = i"
  using assms by (simp add: packed_call_high signed_take_bit_int_eq_self)

lemma packed_call_high_wraps:
  assumes "2 ^ 23 \<le> i" and "i < 2 ^ 24"
  shows "js_shr (packed_call i c) 8 = i - 2 ^ 24"
proof -
  have "signed_take_bit 23 i = signed_take_bit 23 (i - 2 ^ 24)"
  proof (rule iffD2 [OF signed_take_bit_eq_iff_take_bit_eq])
    have "(i - 2 ^ 24) mod 2 ^ 24 = i mod 2 ^ 24"
      by (metis minus_mod_self2)
    then show "take_bit (Suc 23) i = take_bit (Suc 23) (i - 2 ^ 24)"
      by (simp add: take_bit_eq_mod)
  qed
  also have "\<dots> = i - 2 ^ 24"
    using assms by (intro signed_take_bit_int_eq_self) simp_all
  finally show ?thesis by (simp add: packed_call_high)
qed

text \<open>The operators that have an opcode; the bitwise ones and the shifts are refused.\<close>

lemma NewBinaryOp_defined_iff:
  "(\<exists>c. NewBinaryOp k t = Inr c) \<longleftrightarrow>
      k \<in> {PlusEqualsToken, PlusToken, MinusEqualsToken, MinusToken, AsteriskEqualsToken,
           AsteriskToken, SlashEqualsToken, SlashToken, PercentEqualsToken, PercentToken,
           LessThanToken, LessThanEqualsToken, GreaterThanToken, GreaterThanEqualsToken,
           EqualsEqualsToken, EqualsEqualsEqualsToken, ExclamationEqualsToken,
           ExclamationEqualsEqualsToken, AmpersandAmpersandToken, BarBarToken}"
  by (cases k) (simp_all add: NewBinaryOp_def binary_kind_def)

section \<open>Properties\<close>

text \<open>
  C9. The call instructions pack the member index and the argument count into one 32-bit
  operand. For an index below \<open>2^23\<close> and fewer than 256 arguments both read back from a
  vtable call, a shape call and a dynamic call.
\<close>

theorem call_operand_roundtrip:
  assumes "0 \<le> index" and "index < 2 ^ 23" and "0 \<le> argc" and "argc < 256"
  shows "vtableIndex (NewVTableCall index argc vt) = index \<and>
    shapeIndex (NewShapeCall index argc vt) = index \<and>
    dynamicIndex (NewDynamicCall index argc) = index \<and>
    paramCount (NewVTableCall index argc vt) = argc \<and>
    paramCount (NewShapeCall index argc vt) = argc \<and>
    paramCount (NewDynamicCall index argc) = argc"
  using assms
  by (simp add: vtableIndex_def shapeIndex_def dynamicIndex_def paramCount_def
      packed_call_low packed_call_high_nonneg take_bit_int_eq_self)

theorem call_operand_roundtrip_witness:
  "vtableIndex (NewVTableCall 3 2 Primitive_Any) = 3 \<and> paramCount (NewShapeCall 3 2 Primitive_Any) = 2"
  using call_operand_roundtrip [of 3 2 Primitive_Any] by simp

text \<open>
  The mask keeps 24 bits of the index but the getter shifts arithmetically, so an index
  with bit 23 set, which the mask accepts, reads back as a negative number.
\<close>

theorem call_operand_index_sign:
  assumes "2 ^ 23 \<le> index" and "index < 2 ^ 24"
  shows "vtableIndex (NewVTableCall index argc vt) = index - 2 ^ 24 \<and>
    vtableIndex (NewVTableCall index argc vt) < 0 \<and> js_and index 0xffffff = index"
proof (intro conjI)
  show v: "vtableIndex (NewVTableCall index argc vt) = index - 2 ^ 24"
    using assms by (simp add: vtableIndex_def packed_call_high_wraps del: power_numeral)
  from assms v show "vtableIndex (NewVTableCall index argc vt) < 0" by simp
  show "js_and index 0xffffff = index"
    using assms by (simp add: mask_ffffff js_and_mask take_bit_int_eq_self)
qed

theorem call_operand_index_sign_witness:
  "vtableIndex (NewVTableCall 8388608 1 Primitive_Any) = - 8388608"
  using call_operand_index_sign [of 8388608 1 Primitive_Any] by simp

end
