(* ===== verification/SemValue.thy ===== *)
theory SemValue
  imports IRCode
begin

text \<open>
  The tree that the semantic pass builds and the IR builder reads: values
  (\<open>src/src/semantics/value.ts\<close>), declarations and statement nodes
  (\<open>src/src/semantics/semantics_nodes.ts\<close>).

  The classes under \<open>SemanticsValue\<close> are the datatype \<open>semantics_value\<close>, one constructor per
  class with the fields in the order of the source's constructor. An object that the code
  compares by identity carries that identity: \<open>vd_id\<close> for a variable declaration, \<open>fh_id\<close> for
  a function, \<open>ot_id\<close> for an object type and the number of a \<open>BlockValue\<close>. Fields that only
  the WebAssembly code generator or the dump reads are left out.
\<close>

section \<open>Declarations\<close>

text \<open>The kinds of values: an enumeration without explicit values, whose members the code compares.\<close>

datatype SemanticsValueKind = SemanticsValueKind nat

abbreviation SemanticsValueKind_NOP :: SemanticsValueKind where "SemanticsValueKind_NOP \<equiv> SemanticsValueKind 0"
abbreviation SemanticsValueKind_UNIMPLEMENT :: SemanticsValueKind where "SemanticsValueKind_UNIMPLEMENT \<equiv> SemanticsValueKind 1"
abbreviation SemanticsValueKind_THIS :: SemanticsValueKind where "SemanticsValueKind_THIS \<equiv> SemanticsValueKind 2"
abbreviation SemanticsValueKind_SUPER :: SemanticsValueKind where "SemanticsValueKind_SUPER \<equiv> SemanticsValueKind 3"
abbreviation SemanticsValueKind_LITERAL :: SemanticsValueKind where "SemanticsValueKind_LITERAL \<equiv> SemanticsValueKind 4"
abbreviation SemanticsValueKind_LOCAL_VAR :: SemanticsValueKind where "SemanticsValueKind_LOCAL_VAR \<equiv> SemanticsValueKind 5"
abbreviation SemanticsValueKind_LOCAL_CONST :: SemanticsValueKind where "SemanticsValueKind_LOCAL_CONST \<equiv> SemanticsValueKind 6"
abbreviation SemanticsValueKind_PARAM_VAR :: SemanticsValueKind where "SemanticsValueKind_PARAM_VAR \<equiv> SemanticsValueKind 7"
abbreviation SemanticsValueKind_GLOBAL_VAR :: SemanticsValueKind where "SemanticsValueKind_GLOBAL_VAR \<equiv> SemanticsValueKind 8"
abbreviation SemanticsValueKind_GLOBAL_CONST :: SemanticsValueKind where "SemanticsValueKind_GLOBAL_CONST \<equiv> SemanticsValueKind 9"
abbreviation SemanticsValueKind_CLOSURE_VAR :: SemanticsValueKind where "SemanticsValueKind_CLOSURE_VAR \<equiv> SemanticsValueKind 10"
abbreviation SemanticsValueKind_CLOSURE_CONST :: SemanticsValueKind where "SemanticsValueKind_CLOSURE_CONST \<equiv> SemanticsValueKind 11"
abbreviation SemanticsValueKind_TEMPL_VAR :: SemanticsValueKind where "SemanticsValueKind_TEMPL_VAR \<equiv> SemanticsValueKind 12"
abbreviation SemanticsValueKind_BINARY_EXPR :: SemanticsValueKind where "SemanticsValueKind_BINARY_EXPR \<equiv> SemanticsValueKind 13"
abbreviation SemanticsValueKind_POST_UNARY_EXPR :: SemanticsValueKind where "SemanticsValueKind_POST_UNARY_EXPR \<equiv> SemanticsValueKind 14"
abbreviation SemanticsValueKind_PRE_UNARY_EXPR :: SemanticsValueKind where "SemanticsValueKind_PRE_UNARY_EXPR \<equiv> SemanticsValueKind 15"
abbreviation SemanticsValueKind_CONDITION_EXPR :: SemanticsValueKind where "SemanticsValueKind_CONDITION_EXPR \<equiv> SemanticsValueKind 16"
abbreviation SemanticsValueKind_COMMA_EXPR :: SemanticsValueKind where "SemanticsValueKind_COMMA_EXPR \<equiv> SemanticsValueKind 17"
abbreviation SemanticsValueKind_FUNCTION_CALL :: SemanticsValueKind where "SemanticsValueKind_FUNCTION_CALL \<equiv> SemanticsValueKind 18"
abbreviation SemanticsValueKind_CLOSURE_CALL :: SemanticsValueKind where "SemanticsValueKind_CLOSURE_CALL \<equiv> SemanticsValueKind 19"
abbreviation SemanticsValueKind_CONSTRUCTOR_CALL :: SemanticsValueKind where "SemanticsValueKind_CONSTRUCTOR_CALL \<equiv> SemanticsValueKind 20"
abbreviation SemanticsValueKind_ANY_CALL :: SemanticsValueKind where "SemanticsValueKind_ANY_CALL \<equiv> SemanticsValueKind 21"
abbreviation SemanticsValueKind_NEW_CLASS :: SemanticsValueKind where "SemanticsValueKind_NEW_CLASS \<equiv> SemanticsValueKind 22"
abbreviation SemanticsValueKind_NEW_CLOSURE_FUNCTION :: SemanticsValueKind where "SemanticsValueKind_NEW_CLOSURE_FUNCTION \<equiv> SemanticsValueKind 23"
abbreviation SemanticsValueKind_OBJECT_CAST_OBJECT :: SemanticsValueKind where "SemanticsValueKind_OBJECT_CAST_OBJECT \<equiv> SemanticsValueKind 24"
abbreviation SemanticsValueKind_OBJECT_CAST_VALUE :: SemanticsValueKind where "SemanticsValueKind_OBJECT_CAST_VALUE \<equiv> SemanticsValueKind 25"
abbreviation SemanticsValueKind_OBJECT_CAST_UNION :: SemanticsValueKind where "SemanticsValueKind_OBJECT_CAST_UNION \<equiv> SemanticsValueKind 26"
abbreviation SemanticsValueKind_VALUE_CAST_ANY :: SemanticsValueKind where "SemanticsValueKind_VALUE_CAST_ANY \<equiv> SemanticsValueKind 27"
abbreviation SemanticsValueKind_VALUE_CAST_UNION :: SemanticsValueKind where "SemanticsValueKind_VALUE_CAST_UNION \<equiv> SemanticsValueKind 28"
abbreviation SemanticsValueKind_OBJECT_CAST_ANY :: SemanticsValueKind where "SemanticsValueKind_OBJECT_CAST_ANY \<equiv> SemanticsValueKind 29"
abbreviation SemanticsValueKind_VALUE_CAST_VALUE :: SemanticsValueKind where "SemanticsValueKind_VALUE_CAST_VALUE \<equiv> SemanticsValueKind 30"
abbreviation SemanticsValueKind_VALUE_CAST_OBJECT :: SemanticsValueKind where "SemanticsValueKind_VALUE_CAST_OBJECT \<equiv> SemanticsValueKind 31"
abbreviation SemanticsValueKind_ANY_CAST_VALUE :: SemanticsValueKind where "SemanticsValueKind_ANY_CAST_VALUE \<equiv> SemanticsValueKind 32"
abbreviation SemanticsValueKind_ANY_CAST_OBJECT :: SemanticsValueKind where "SemanticsValueKind_ANY_CAST_OBJECT \<equiv> SemanticsValueKind 33"
abbreviation SemanticsValueKind_ANY_CAST_INTERFACE :: SemanticsValueKind where "SemanticsValueKind_ANY_CAST_INTERFACE \<equiv> SemanticsValueKind 34"
abbreviation SemanticsValueKind_UNION_CAST_VALUE :: SemanticsValueKind where "SemanticsValueKind_UNION_CAST_VALUE \<equiv> SemanticsValueKind 35"
abbreviation SemanticsValueKind_UNION_CAST_OBJECT :: SemanticsValueKind where "SemanticsValueKind_UNION_CAST_OBJECT \<equiv> SemanticsValueKind 36"
abbreviation SemanticsValueKind_UNION_CAST_ANY :: SemanticsValueKind where "SemanticsValueKind_UNION_CAST_ANY \<equiv> SemanticsValueKind 37"
abbreviation SemanticsValueKind_VALUE_TO_STRING :: SemanticsValueKind where "SemanticsValueKind_VALUE_TO_STRING \<equiv> SemanticsValueKind 38"
abbreviation SemanticsValueKind_OBJECT_TO_STRING :: SemanticsValueKind where "SemanticsValueKind_OBJECT_TO_STRING \<equiv> SemanticsValueKind 39"
abbreviation SemanticsValueKind_INSTANCE_OF :: SemanticsValueKind where "SemanticsValueKind_INSTANCE_OF \<equiv> SemanticsValueKind 40"
abbreviation SemanticsValueKind_ENUM_KEY_GET :: SemanticsValueKind where "SemanticsValueKind_ENUM_KEY_GET \<equiv> SemanticsValueKind 41"
abbreviation SemanticsValueKind_DYNAMIC_GET :: SemanticsValueKind where "SemanticsValueKind_DYNAMIC_GET \<equiv> SemanticsValueKind 42"
abbreviation SemanticsValueKind_DYNAMIC_SET :: SemanticsValueKind where "SemanticsValueKind_DYNAMIC_SET \<equiv> SemanticsValueKind 43"
abbreviation SemanticsValueKind_DYNAMIC_CALL :: SemanticsValueKind where "SemanticsValueKind_DYNAMIC_CALL \<equiv> SemanticsValueKind 44"
abbreviation SemanticsValueKind_SHAPE_GET :: SemanticsValueKind where "SemanticsValueKind_SHAPE_GET \<equiv> SemanticsValueKind 45"
abbreviation SemanticsValueKind_SHAPE_SET :: SemanticsValueKind where "SemanticsValueKind_SHAPE_SET \<equiv> SemanticsValueKind 46"
abbreviation SemanticsValueKind_SHAPE_CALL :: SemanticsValueKind where "SemanticsValueKind_SHAPE_CALL \<equiv> SemanticsValueKind 47"
abbreviation SemanticsValueKind_OFFSET_GET :: SemanticsValueKind where "SemanticsValueKind_OFFSET_GET \<equiv> SemanticsValueKind 48"
abbreviation SemanticsValueKind_OFFSET_SET :: SemanticsValueKind where "SemanticsValueKind_OFFSET_SET \<equiv> SemanticsValueKind 49"
abbreviation SemanticsValueKind_OFFSET_GETTER :: SemanticsValueKind where "SemanticsValueKind_OFFSET_GETTER \<equiv> SemanticsValueKind 50"
abbreviation SemanticsValueKind_OFFSET_SETTER :: SemanticsValueKind where "SemanticsValueKind_OFFSET_SETTER \<equiv> SemanticsValueKind 51"
abbreviation SemanticsValueKind_OFFSET_CALL :: SemanticsValueKind where "SemanticsValueKind_OFFSET_CALL \<equiv> SemanticsValueKind 52"
abbreviation SemanticsValueKind_VTABLE_GET :: SemanticsValueKind where "SemanticsValueKind_VTABLE_GET \<equiv> SemanticsValueKind 53"
abbreviation SemanticsValueKind_VTABLE_SET :: SemanticsValueKind where "SemanticsValueKind_VTABLE_SET \<equiv> SemanticsValueKind 54"
abbreviation SemanticsValueKind_VTABLE_CALL :: SemanticsValueKind where "SemanticsValueKind_VTABLE_CALL \<equiv> SemanticsValueKind 55"
abbreviation SemanticsValueKind_DIRECT_GETTER :: SemanticsValueKind where "SemanticsValueKind_DIRECT_GETTER \<equiv> SemanticsValueKind 56"
abbreviation SemanticsValueKind_DIRECT_SETTER :: SemanticsValueKind where "SemanticsValueKind_DIRECT_SETTER \<equiv> SemanticsValueKind 57"
abbreviation SemanticsValueKind_DIRECT_CALL :: SemanticsValueKind where "SemanticsValueKind_DIRECT_CALL \<equiv> SemanticsValueKind 58"
abbreviation SemanticsValueKind_DIRECT_GET :: SemanticsValueKind where "SemanticsValueKind_DIRECT_GET \<equiv> SemanticsValueKind 59"
abbreviation SemanticsValueKind_ENUMERATE_KEY_GET :: SemanticsValueKind where "SemanticsValueKind_ENUMERATE_KEY_GET \<equiv> SemanticsValueKind 60"
abbreviation SemanticsValueKind_STRING_INDEX_GET :: SemanticsValueKind where "SemanticsValueKind_STRING_INDEX_GET \<equiv> SemanticsValueKind 61"
abbreviation SemanticsValueKind_STRING_INDEX_SET :: SemanticsValueKind where "SemanticsValueKind_STRING_INDEX_SET \<equiv> SemanticsValueKind 62"
abbreviation SemanticsValueKind_ARRAY_INDEX_GET :: SemanticsValueKind where "SemanticsValueKind_ARRAY_INDEX_GET \<equiv> SemanticsValueKind 63"
abbreviation SemanticsValueKind_ARRAY_INDEX_SET :: SemanticsValueKind where "SemanticsValueKind_ARRAY_INDEX_SET \<equiv> SemanticsValueKind 64"
abbreviation SemanticsValueKind_OBJECT_INDEX_GET :: SemanticsValueKind where "SemanticsValueKind_OBJECT_INDEX_GET \<equiv> SemanticsValueKind 65"
abbreviation SemanticsValueKind_OBJECT_INDEX_SET :: SemanticsValueKind where "SemanticsValueKind_OBJECT_INDEX_SET \<equiv> SemanticsValueKind 66"
abbreviation SemanticsValueKind_TUPLE_INDEX_GET :: SemanticsValueKind where "SemanticsValueKind_TUPLE_INDEX_GET \<equiv> SemanticsValueKind 67"
abbreviation SemanticsValueKind_TUPLE_INDEX_SET :: SemanticsValueKind where "SemanticsValueKind_TUPLE_INDEX_SET \<equiv> SemanticsValueKind 68"
abbreviation SemanticsValueKind_WASMARRAY_INDEX_GET :: SemanticsValueKind where "SemanticsValueKind_WASMARRAY_INDEX_GET \<equiv> SemanticsValueKind 69"
abbreviation SemanticsValueKind_WASMARRAY_INDEX_SET :: SemanticsValueKind where "SemanticsValueKind_WASMARRAY_INDEX_SET \<equiv> SemanticsValueKind 70"
abbreviation SemanticsValueKind_WASMSTRUCT_INDEX_GET :: SemanticsValueKind where "SemanticsValueKind_WASMSTRUCT_INDEX_GET \<equiv> SemanticsValueKind 71"
abbreviation SemanticsValueKind_WASMSTRUCT_INDEX_SET :: SemanticsValueKind where "SemanticsValueKind_WASMSTRUCT_INDEX_SET \<equiv> SemanticsValueKind 72"
abbreviation SemanticsValueKind_OBJECT_KEY_GET :: SemanticsValueKind where "SemanticsValueKind_OBJECT_KEY_GET \<equiv> SemanticsValueKind 73"
abbreviation SemanticsValueKind_OBJECT_KEY_SET :: SemanticsValueKind where "SemanticsValueKind_OBJECT_KEY_SET \<equiv> SemanticsValueKind 74"
abbreviation SemanticsValueKind_NEW_CONSTRCTOR_OBJECT :: SemanticsValueKind where "SemanticsValueKind_NEW_CONSTRCTOR_OBJECT \<equiv> SemanticsValueKind 75"
abbreviation SemanticsValueKind_NEW_LITERAL_OBJECT :: SemanticsValueKind where "SemanticsValueKind_NEW_LITERAL_OBJECT \<equiv> SemanticsValueKind 76"
abbreviation SemanticsValueKind_NEW_LITERAL_ARRAY :: SemanticsValueKind where "SemanticsValueKind_NEW_LITERAL_ARRAY \<equiv> SemanticsValueKind 77"
abbreviation SemanticsValueKind_NEW_ARRAY :: SemanticsValueKind where "SemanticsValueKind_NEW_ARRAY \<equiv> SemanticsValueKind 78"
abbreviation SemanticsValueKind_NEW_ARRAY_LEN :: SemanticsValueKind where "SemanticsValueKind_NEW_ARRAY_LEN \<equiv> SemanticsValueKind 79"
abbreviation SemanticsValueKind_NEW_FROM_CLASS_OBJECT :: SemanticsValueKind where "SemanticsValueKind_NEW_FROM_CLASS_OBJECT \<equiv> SemanticsValueKind 80"
abbreviation SemanticsValueKind_NEW_RAW_ARRAY :: SemanticsValueKind where "SemanticsValueKind_NEW_RAW_ARRAY \<equiv> SemanticsValueKind 81"
abbreviation SemanticsValueKind_NEW_RAW_ARRAY_LEN :: SemanticsValueKind where "SemanticsValueKind_NEW_RAW_ARRAY_LEN \<equiv> SemanticsValueKind 82"
abbreviation SemanticsValueKind_BLOCK :: SemanticsValueKind where "SemanticsValueKind_BLOCK \<equiv> SemanticsValueKind 83"
abbreviation SemanticsValueKind_BLOCK_BRANCH :: SemanticsValueKind where "SemanticsValueKind_BLOCK_BRANCH \<equiv> SemanticsValueKind 84"
abbreviation SemanticsValueKind_BLOCK_BRANCH_IF :: SemanticsValueKind where "SemanticsValueKind_BLOCK_BRANCH_IF \<equiv> SemanticsValueKind 85"
abbreviation SemanticsValueKind_RET :: SemanticsValueKind where "SemanticsValueKind_RET \<equiv> SemanticsValueKind 86"
abbreviation SemanticsValueKind_TYPEOF :: SemanticsValueKind where "SemanticsValueKind_TYPEOF \<equiv> SemanticsValueKind 87"
abbreviation SemanticsValueKind_TEMPLATE_EXPRESSION :: SemanticsValueKind where "SemanticsValueKind_TEMPLATE_EXPRESSION \<equiv> SemanticsValueKind 88"
abbreviation SemanticsValueKind_REBINDING :: SemanticsValueKind where "SemanticsValueKind_REBINDING \<equiv> SemanticsValueKind 89"
abbreviation SemanticsValueKind_SPREAD :: SemanticsValueKind where "SemanticsValueKind_SPREAD \<equiv> SemanticsValueKind 90"

record VarDeclareNode =
  vd_id :: nat
  storageType :: SemanticsValueKind
  vd_type :: value_type
  vd_name :: js_string
  vd_index :: int
  vd_flags :: int

text \<open>\<open>flags & ~3\<close>.\<close>

definition clear_closure_bits :: "int \<Rightarrow> int" where
  "clear_closure_bits f = js_and f (NOT 3)"

definition setUsedByClosureFunction :: "VarDeclareNode \<Rightarrow> VarDeclareNode" where
  "setUsedByClosureFunction v =
     (if storageType v = SemanticsValueKind_LOCAL_VAR \<or>
         storageType v = SemanticsValueKind_PARAM_VAR \<or>
         storageType v = SemanticsValueKind_CLOSURE_VAR
      then v\<lparr>vd_flags := js_or (clear_closure_bits (vd_flags v)) 1\<rparr>
      else if storageType v = SemanticsValueKind_LOCAL_CONST \<or>
              storageType v = SemanticsValueKind_CLOSURE_CONST
      then v\<lparr>vd_flags := js_or (clear_closure_bits (vd_flags v)) 2\<rparr>
      else v)"

definition isUsedInClosureFunction :: "VarDeclareNode \<Rightarrow> bool" where
  "isUsedInClosureFunction v = (js_and (vd_flags v) 3 \<noteq> 0)"

definition isUsedInClosureByRef :: "VarDeclareNode \<Rightarrow> bool" where
  "isUsedInClosureByRef v = (js_and (vd_flags v) 3 = 1)"

definition isUsedInClosureByValue :: "VarDeclareNode \<Rightarrow> bool" where
  "isUsedInClosureByValue v = (js_and (vd_flags v) 3 = 2)"

definition setImportAsRef :: "VarDeclareNode \<Rightarrow> VarDeclareNode" where
  "setImportAsRef v = v\<lparr>vd_flags := js_or (vd_flags v) 8\<rparr>"

definition isImportAsRef :: "VarDeclareNode \<Rightarrow> bool" where
  "isImportAsRef v = (js_and (vd_flags v) 8 = 8)"

definition isRef :: "VarDeclareNode \<Rightarrow> bool" where
  "isRef v = (isUsedInClosureFunction v \<or> isImportAsRef v)"

text \<open>
  The test \<open>c === v || c.name == v.name\<close> of \<open>LocalVars.findVar\<close>, \<open>findClosureIndex\<close> and
  \<open>findParameterIndex\<close>, and the loop around it.
\<close>

definition same_var :: "VarDeclareNode \<Rightarrow> VarDeclareNode \<Rightarrow> bool" where
  "same_var c v = (vd_id c = vd_id v \<or> vd_name c = vd_name v)"

fun find_var :: "VarDeclareNode \<Rightarrow> VarDeclareNode list \<Rightarrow> int \<Rightarrow> int" where
  "find_var v [] i = -1"
| "find_var v (c # cs) i = (if same_var c v then i else find_var v cs (i + 1))"

text \<open>
  The part of a \<open>FunctionDeclareNode\<close> that values refer to; the full node extends it below.
\<close>

record func_head =
  fh_id :: nat
  fh_name :: js_string
  fh_funcType :: value_type
  fh_returnType :: value_type

text \<open>
  An object type with its identity. \<open>ot_instance\<close> is the identity of the type that the getter
  \<open>instanceType\<close> returns, \<open>ot_super\<close> the field \<open>super\<close>.
\<close>

record object_ty =
  ot_id :: nat
  ot_type :: value_type
  ot_instance :: "nat option"
  ot_super :: "value_type option"

fun isClassObject :: "value_type \<Rightarrow> bool" where
  "isClassObject (ObjectType i m f ni si ta sa) = (f = ObjectTypeFlag.CLASS)"
| "isClassObject (ArrayType i m f e ni ta sa) = (f = ObjectTypeFlag.CLASS)"
| "isClassObject _ = False"

text \<open>The field \<open>meta\<close> of the object types, \<open>undefined\<close> for any other type.\<close>

fun meta_of :: "value_type \<Rightarrow> meta_ref option" where
  "meta_of (ObjectType i m f ni si ta sa) = Some m"
| "meta_of (ArrayType i m f e ni ta sa) = Some m"
| "meta_of (SetType i e m ta sa) = m"
| "meta_of (MapType i k v m ta sa) = m"
| "meta_of _ = None"

text \<open>What \<open>VarValue.ref\<close>, an \<open>any\<close>, holds.\<close>

datatype (plugins only: size) var_ref =
    RefVar VarDeclareNode
  | RefFunction func_head
  | RefObject object_ty
  | RefOther
  | RefUndefined

section \<open>Values\<close>

type_synonym block_id = nat

datatype SuperUsageFlag = SUPER_CALL | SUPER_LITERAL

datatype (plugins only: size) semantics_value =
    ThisValue value_type
  | SuperValue value_type SuperUsageFlag "semantics_value list option"
  | NopValue
  | LiteralValue value_type literal
  | VarValue SemanticsValueKind value_type var_ref
  | BinaryExprValue value_type BinaryOperator semantics_value semantics_value
  | PrefixUnaryExprValue value_type semantics_value "semantics_value option"
  | PostUnaryExprValue value_type semantics_value "semantics_value option"
  | ConditionExprValue value_type semantics_value semantics_value semantics_value
  | CommaExprValue value_type "semantics_value list"
  | FunctionCallValue value_type semantics_value "semantics_value list option" "value_type list option"
  | EnumerateKeysGetValue value_type semantics_value
  | NewClosureFunction func_head "semantics_value list option"
  | ClosureCallValue value_type semantics_value "semantics_value list option"
  | ConstructorCallValue semantics_value semantics_value "semantics_value list option"
  | AnyCallValue value_type semantics_value "semantics_value list option"
  | ElementGetValue SemanticsValueKind value_type semantics_value semantics_value
  | ElementSetValue SemanticsValueKind value_type semantics_value semantics_value
      "semantics_value option" "BinaryOperator option"
  | CastValue SemanticsValueKind value_type semantics_value "shape_ref option"
  | InstanceOfValue semantics_value semantics_value
  | NewClassValue value_type
  | ToStringValue SemanticsValueKind semantics_value
  | TypeofValue semantics_value
  | TemplateExprValue semantics_value "semantics_value list"
  | UnimplementValue
  | DynamicGetValue semantics_value js_string bool value_type
  | DynamicSetValue semantics_value js_string value_type "semantics_value option" "BinaryOperator option"
  | DynamicCallValue semantics_value js_string "semantics_value list option"
  | ShapeGetValue semantics_value value_type int
  | ShapeSetValue semantics_value value_type int "semantics_value option" "BinaryOperator option"
  | ShapeCallValue semantics_value value_type int "semantics_value list option"
  | OffsetGetValue semantics_value value_type int
  | OffsetSetValue semantics_value value_type int "semantics_value option" "BinaryOperator option"
  | OffsetGetterValue semantics_value value_type int
  | OffsetSetterValue semantics_value value_type int "int option" "semantics_value option"
      "BinaryOperator option"
  | OffsetCallValue semantics_value value_type value_type int "semantics_value list option"
      "value_type list option"
  | VTableGetValue semantics_value value_type int
  | VTableSetValue semantics_value value_type int "semantics_value option" "BinaryOperator option"
  | VTableCallValue semantics_value value_type int "semantics_value list option"
  | DirectGetterValue semantics_value value_type semantics_value
  | DirectCallValue semantics_value value_type semantics_value "semantics_value list option"
      "value_type list option"
  | DirectSetterValue semantics_value value_type semantics_value "semantics_value option"
      "semantics_value option" "BinaryOperator option"
  | DirectGetValue semantics_value value_type int
  | NewLiteralObjectValue object_ty "semantics_value option list"
  | NewLiteralArrayValue value_type "semantics_value list"
  | NewConstructorObjectValue object_ty "semantics_value list" "value_type list option"
  | NewArrayValue value_type "semantics_value list"
  | NewArrayLenValue value_type semantics_value
  | NewFromClassObjectValue value_type semantics_value "semantics_value list"
      "value_type list option"
  | BlockValue block_id value_type js_string bool bool "VarDeclareNode list option"
      "VarDeclareNode list option" "semantics_value list"
  | BlockBranchValue block_id
  | BlockBranchIfValue block_id semantics_value bool
  | ReturnValue "semantics_value option"
  | ReBindingValue VarDeclareNode
  | SpreadValue value_type semantics_value

text \<open>
  The field \<open>type\<close>. The member calls are typed by the return type of their method, which
  \<open>ShapeCallValue\<close>, \<open>VTableCallValue\<close>, \<open>OffsetCallValue\<close> and \<open>DirectCallValue\<close> hold here;
  \<open>OffsetCallValue\<close> also holds the function type itself.
\<close>

fun sv_type :: "semantics_value \<Rightarrow> value_type" where
  "sv_type (ThisValue t) = t"
| "sv_type (SuperValue t u ps) = t"
| "sv_type NopValue = Primitive_Void"
| "sv_type (LiteralValue t v) = t"
| "sv_type (VarValue k t r) = t"
| "sv_type (BinaryExprValue t op l r) = t"
| "sv_type (PrefixUnaryExprValue t x f) = t"
| "sv_type (PostUnaryExprValue t x f) = t"
| "sv_type (ConditionExprValue t c a b) = t"
| "sv_type (CommaExprValue t xs) = t"
| "sv_type (FunctionCallValue t f ps ta) = t"
| "sv_type (EnumerateKeysGetValue t x) = t"
| "sv_type (NewClosureFunction f cl) = fh_funcType f"
| "sv_type (ClosureCallValue t f ps) = t"
| "sv_type (ConstructorCallValue s c ps) = Primitive_Void"
| "sv_type (AnyCallValue t f ps) = t"
| "sv_type (ElementGetValue k t ow ix) = t"
| "sv_type (ElementSetValue k t ow ix v op) = t"
| "sv_type (CastValue k t v sh) = t"
| "sv_type (InstanceOfValue v c) = Primitive_Boolean"
| "sv_type (NewClassValue t) = t"
| "sv_type (ToStringValue k v) = Primitive_String"
| "sv_type (TypeofValue v) = Primitive_String"
| "sv_type (TemplateExprValue h fs) = Primitive_String"
| "sv_type UnimplementValue = Primitive_Void"
| "sv_type (DynamicGetValue ow n mc t) = t"
| "sv_type (DynamicSetValue ow n t v op) = t"
| "sv_type (DynamicCallValue ow n ps) = Primitive_Any"
| "sv_type (ShapeGetValue ow t i) = t"
| "sv_type (ShapeSetValue ow t i v op) = t"
| "sv_type (ShapeCallValue ow t i ps) = t"
| "sv_type (OffsetGetValue ow t i) = t"
| "sv_type (OffsetSetValue ow t i v op) = t"
| "sv_type (OffsetGetterValue ow t i) = t"
| "sv_type (OffsetSetterValue ow t i g v op) = t"
| "sv_type (OffsetCallValue ow ft t i ps ta) = t"
| "sv_type (VTableGetValue ow t i) = t"
| "sv_type (VTableSetValue ow t i v op) = t"
| "sv_type (VTableCallValue ow t i ps) = t"
| "sv_type (DirectGetterValue ow t g) = t"
| "sv_type (DirectCallValue ow t m ps ta) = t"
| "sv_type (DirectSetterValue ow t s g v op) = t"
| "sv_type (DirectGetValue ow t i) = t"
| "sv_type (NewLiteralObjectValue t vs) = ot_type t"
| "sv_type (NewLiteralArrayValue t vs) = t"
| "sv_type (NewConstructorObjectValue t ps ta) = ot_type t"
| "sv_type (NewArrayValue t ps) = t"
| "sv_type (NewArrayLenValue t l) = t"
| "sv_type (NewFromClassObjectValue t c ps ta) = t"
| "sv_type (BlockValue b t lb lp bt vl rl vs) = t"
| "sv_type (BlockBranchValue b) = Primitive_Void"
| "sv_type (BlockBranchIfValue b c tb) = Primitive_Void"
| "sv_type (ReturnValue e) = (case e of Some v \<Rightarrow> sv_type v | None \<Rightarrow> Primitive_Void)"
| "sv_type (ReBindingValue v) = Primitive_Void"
| "sv_type (SpreadValue t x) = t"

text \<open>\<open>effectType\<close>: a type parameter stands for its wide type.\<close>

fun effectType :: "value_type \<Rightarrow> value_type" where
  "effectType (TypeParameterType i n w ix d ow) = w"
| "effectType t = t"

text \<open>Reading \<open>.ref\<close> of a value that was cast to \<open>VarValue\<close>.\<close>

fun value_ref :: "semantics_value \<Rightarrow> var_ref" where
  "value_ref (VarValue k t r) = r"
| "value_ref _ = RefUndefined"

fun is_VarValue_sv :: "semantics_value \<Rightarrow> bool" where
  "is_VarValue_sv (VarValue k t r) = True"
| "is_VarValue_sv _ = False"

text \<open>The operands that the methods \<open>forEachChild\<close> visit, in their order.\<close>

abbreviation opt_list :: "'a list option \<Rightarrow> 'a list" where
  "opt_list xs \<equiv> (case xs of Some ys \<Rightarrow> ys | None \<Rightarrow> [])"

abbreviation opt_elem :: "'a option \<Rightarrow> 'a list" where
  "opt_elem x \<equiv> (case x of Some y \<Rightarrow> [y] | None \<Rightarrow> [])"

fun children :: "semantics_value \<Rightarrow> semantics_value list" where
  "children (BinaryExprValue t op l r) = [l, r]"
| "children (PrefixUnaryExprValue t x f) = [x]"
| "children (PostUnaryExprValue t x f) = [x]"
| "children (ConditionExprValue t c a b) = [c, a, b]"
| "children (CommaExprValue t xs) = xs"
| "children (FunctionCallValue t f ps ta) = f # opt_list ps"
| "children (EnumerateKeysGetValue t x) = [x]"
| "children (NewClosureFunction f cl) = opt_list cl"
| "children (ClosureCallValue t f ps) = f # opt_list ps"
| "children (ConstructorCallValue s c ps) = s # opt_list ps"
| "children (AnyCallValue t f ps) = f # opt_list ps"
| "children (ElementGetValue k t ow ix) = [ow, ix]"
| "children (ElementSetValue k t ow ix v op) = ow # ix # opt_elem v"
| "children (CastValue k t v sh) = [v]"
| "children (InstanceOfValue v c) = [v]"
| "children (ToStringValue k v) = [v]"
| "children (TypeofValue v) = [v]"
| "children (TemplateExprValue h fs) = h # fs"
| "children (DynamicGetValue ow n mc t) = [ow]"
| "children (DynamicSetValue ow n t v op) = [ow]"
| "children (DynamicCallValue ow n ps) = ow # opt_list ps"
| "children (ShapeGetValue ow t i) = [ow]"
| "children (ShapeSetValue ow t i v op) = [ow]"
| "children (ShapeCallValue ow t i ps) = ow # opt_list ps"
| "children (OffsetGetValue ow t i) = [ow]"
| "children (OffsetSetValue ow t i v op) = [ow]"
| "children (OffsetGetterValue ow t i) = [ow]"
| "children (OffsetSetterValue ow t i g v op) = [ow]"
| "children (OffsetCallValue ow ft t i ps ta) = ow # opt_list ps"
| "children (VTableGetValue ow t i) = [ow]"
| "children (VTableSetValue ow t i v op) = [ow]"
| "children (VTableCallValue ow t i ps) = ow # opt_list ps"
| "children (DirectGetterValue ow t g) = [ow]"
| "children (DirectCallValue ow t m ps ta) = ow # opt_list ps"
| "children (DirectSetterValue ow t s g v op) = [ow]"
| "children (DirectGetValue ow t i) = [ow]"
| "children (NewConstructorObjectValue t ps ta) = ps"
| "children (NewArrayValue t ps) = ps"
| "children (NewFromClassObjectValue t c ps ta) = ps"
| "children _ = []"

section \<open>Nodes\<close>

datatype (plugins only: size) semantics_node =
    EmptyNode
  | ReturnNode "semantics_value option"
  | VarNode VarDeclareNode
  | BlockNode "semantics_node list" "VarDeclareNode list option"
  | BasicBlockNode "semantics_value list"
  | IfNode semantics_value semantics_node "semantics_node option"
  | ForNode js_string js_string "js_string option" "VarDeclareNode list option"
      "semantics_node option" "semantics_value option" "semantics_value option"
      "semantics_node option"
  | ForInNode VarDeclareNode semantics_value "semantics_node option"
  | ForOfNode VarDeclareNode semantics_value "semantics_node option"
  | WhileNode bool js_string js_string "js_string option" semantics_value "semantics_node option"
  | SwitchNode js_string js_string semantics_value "semantics_node list" "semantics_node option"
  | CaseClauseNode semantics_value "semantics_node option"
  | DefaultClauseNode "semantics_node option"
  | BreakNode js_string
  | ContinueNode js_string
  | ThrowNode semantics_value
  | CatchClauseNode semantics_node "semantics_value option"
  | TryNode js_string semantics_node "semantics_node option" "semantics_node option"

text \<open>The values that the methods \<open>forEachValue\<close> visit, in their order.\<close>

primrec node_values :: "semantics_node \<Rightarrow> semantics_value list" where
  "node_values EmptyNode = []"
| "node_values (ReturnNode e) = opt_elem e"
| "node_values (VarNode v) = []"
| "node_values (BlockNode ss vl) = concat (map node_values ss)"
| "node_values (BasicBlockNode vs) = vs"
| "node_values (IfNode c t f) = c # node_values t @ concat (opt_elem (map_option node_values f))"
| "node_values (ForNode lb bl cl vl ini c nx b) =
     opt_elem c @ concat (opt_elem (map_option node_values ini))
     @ concat (opt_elem (map_option node_values b))"
| "node_values (ForInNode k t b) = t # concat (opt_elem (map_option node_values b))"
| "node_values (ForOfNode k t b) = t # concat (opt_elem (map_option node_values b))"
| "node_values (WhileNode dw lb bl cl c b) = c # concat (opt_elem (map_option node_values b))"
| "node_values (SwitchNode lb bl c cs d) =
     c # concat (map node_values cs) @ concat (opt_elem (map_option node_values d))"
| "node_values (CaseClauseNode c b) = c # concat (opt_elem (map_option node_values b))"
| "node_values (DefaultClauseNode b) = concat (opt_elem (map_option node_values b))"
| "node_values (BreakNode lb) = []"
| "node_values (ContinueNode lb) = []"
| "node_values (ThrowNode v) = []"
| "node_values (CatchClauseNode b cv) = node_values b"
| "node_values (TryNode lb b c f) =
     node_values b @ concat (opt_elem (map_option node_values c))
     @ concat (opt_elem (map_option node_values f))"

record FunctionDeclareNode = func_head +
  ownKind :: int
  fd_body :: semantics_node
  parameters :: "VarDeclareNode list option"
  varList :: "VarDeclareNode list option"
  closureVars :: "VarDeclareNode list option"
  thisClassType :: "object_ty option"
  flattenValue :: "semantics_value option"

definition pushClosureVarDeclare :: "VarDeclareNode \<Rightarrow> FunctionDeclareNode \<Rightarrow> FunctionDeclareNode"
where
  "pushClosureVarDeclare val f =
     f\<lparr>closureVars := Some ((case closureVars f of Some vs \<Rightarrow> vs | None \<Rightarrow> []) @ [val])\<rparr>"

definition findClosureIndex :: "VarDeclareNode \<Rightarrow> FunctionDeclareNode \<Rightarrow> int" where
  "findClosureIndex v f = (case closureVars f of Some cs \<Rightarrow> find_var v cs 0 | None \<Rightarrow> -1)"

definition findParameterIndex :: "VarDeclareNode \<Rightarrow> FunctionDeclareNode \<Rightarrow> int" where
  "findParameterIndex v f = (case parameters f of Some ps \<Rightarrow> find_var v ps 0 | None \<Rightarrow> -1)"

subsection \<open>Modules\<close>

datatype ExternTypeKind = FUNCTION | CLASS | VAR | ENUM

primrec extern_kind_num :: "ExternTypeKind \<Rightarrow> int" where
  "extern_kind_num ExternTypeKind.FUNCTION = 0"
| "extern_kind_num ExternTypeKind.CLASS = 1"
| "extern_kind_num ExternTypeKind.VAR = 2"
| "extern_kind_num ExternTypeKind.ENUM = 3"

text \<open>
  \<open>ExternType\<close>, a reference to the declared object; for a class the identity that
  \<open>instanceType\<close> returns comes second.
\<close>

datatype extern_type =
    ExtFunction nat
  | ExtClass nat "nat option"
  | ExtVar nat
  | ExtEnum nat

record ExternItem =
  it_kind :: ExternTypeKind
  it_name :: js_string
  it_type :: extern_type

record ExternModule =
  em_name :: js_string
  em_items :: "ExternItem list"

text \<open>
  \<open>ModuleNode\<close>: the sets and maps of the source are lists in insertion order. A named type is
  given with its identity.
\<close>

record ModuleNode =
  globalVars :: "VarDeclareNode list"
  mn_functions :: "FunctionDeclareNode list"
  objectDescriptions :: "meta_ref list"
  namedTypes :: "(js_string \<times> object_ty) list"
  mn_exports :: "ExternModule list"
  mn_imports :: "ExternModule list"

section \<open>Lemmas: flags of a variable\<close>

lemma js_and_3: "js_and a 3 = take_bit 2 a"
  using js_and_mask [of 2 a] by (simp add: mask_eq_exp_minus_1)

lemma bit_clear_closure_bits [bit_ext]:
  "bit (clear_closure_bits f) n \<longleftrightarrow> bit f (min n 31) \<and> 2 \<le> n"
proof -
  have "NOT (3 :: int) = NOT (mask 2)" by (simp add: mask_eq_exp_minus_1)
  then have "clear_closure_bits f = js_and f (NOT (mask 2))"
    by (simp only: clear_closure_bits_def)
  then show ?thesis
    by (auto simp: bit_js_and bit_not_iff bit_mask_iff min_def simp del: mask_numeral)
qed

lemma bit_numeral_flags [bit_ext]:
  "bit (1 :: int) n \<longleftrightarrow> n = 0" "bit (2 :: int) n \<longleftrightarrow> n = 1" "bit (8 :: int) n \<longleftrightarrow> n = 3"
  using bit_exp_iff [of 1 n] bit_exp_iff [of 3 n] by (auto simp: bit_1_iff)

lemma closure_bits_set:
  "take_bit 2 (js_or (clear_closure_bits f) 1) = 1"
  "take_bit 2 (js_or (clear_closure_bits f) 2) = 2"
  by (rule bit_eqI, auto simp: bit_ext bit_take_bit_iff)+

lemma import_bit_iff: "isImportAsRef v \<longleftrightarrow> bit (vd_flags v) 3"
proof -
  have "js_and f 8 = (if bit f 3 then 8 else 0)" for f
    by (rule bit_eqI) (auto simp: bit_ext min_def)
  then show ?thesis by (simp add: isImportAsRef_def)
qed

lemma marks_commute:
  "js_or (clear_closure_bits (js_or f 8)) k = js_or (js_or (clear_closure_bits f) k) 8"
  by (rule bit_eqI) (auto simp: bit_ext min_def)

text \<open>
  A variable that a closure captures is marked by the way it is captured: a variable or
  parameter by reference, a constant by value; a global is not marked. The mark does not touch the
  import mark, the two marks can be set in either order, and an imported variable is a reference.
\<close>

theorem closure_mark_by_storage:
  "(storageType v \<in> {SemanticsValueKind_LOCAL_VAR, SemanticsValueKind_PARAM_VAR, SemanticsValueKind_CLOSURE_VAR}
      \<longrightarrow> isUsedInClosureByRef (setUsedByClosureFunction v)) \<and>
   (storageType v \<in> {SemanticsValueKind_LOCAL_CONST, SemanticsValueKind_CLOSURE_CONST}
      \<longrightarrow> isUsedInClosureByValue (setUsedByClosureFunction v)) \<and>
   (storageType v \<in> {SemanticsValueKind_GLOBAL_VAR, SemanticsValueKind_GLOBAL_CONST}
      \<longrightarrow> setUsedByClosureFunction v = v) \<and>
   isImportAsRef (setUsedByClosureFunction v) = isImportAsRef v \<and>
   setUsedByClosureFunction (setImportAsRef v) = setImportAsRef (setUsedByClosureFunction v) \<and>
   isRef (setImportAsRef v)"
  unfolding import_bit_iff isRef_def
  by (auto simp: marks_commute setUsedByClosureFunction_def setImportAsRef_def isUsedInClosureByRef_def
      isUsedInClosureByValue_def js_and_3 closure_bits_set bit_js_or bit_clear_closure_bits
      bit_numeral_flags)

definition flag_example :: "SemanticsValueKind \<Rightarrow> VarDeclareNode" where
  "flag_example k = \<lparr>vd_id = 0, storageType = k, vd_type = Primitive_Any, vd_name = js_lit ''x'',
     vd_index = 0, vd_flags = 8\<rparr>"

theorem closure_mark_by_storage_witness:
  "isUsedInClosureByRef (setUsedByClosureFunction (flag_example SemanticsValueKind_LOCAL_VAR)) \<and>
   isUsedInClosureByValue (setUsedByClosureFunction (flag_example SemanticsValueKind_LOCAL_CONST)) \<and>
   setUsedByClosureFunction (flag_example SemanticsValueKind_GLOBAL_VAR)
     = flag_example SemanticsValueKind_GLOBAL_VAR"
  using closure_mark_by_storage [of "flag_example SemanticsValueKind_LOCAL_VAR"]
    closure_mark_by_storage [of "flag_example SemanticsValueKind_LOCAL_CONST"]
    closure_mark_by_storage [of "flag_example SemanticsValueKind_GLOBAL_VAR"]
  by (simp add: flag_example_def)

end
