(* ===== verification/IRContext.thy ===== *)
theory IRContext
  imports SemValue DataPool
begin

text \<open>
  \<open>src/src/semantics/ir/ir_context.ts\<close>: the tables that number the global variables,
  functions, classes, object descriptions and shapes of a module, the counters of their uses,
  and the import and export tables.

  The maps of the source are keyed by objects, here by the identities of the objects. The
  source numbers from 1, so that an index can be tested like a boolean, and its getters
  subtract 1. The data pool belongs to the \<open>IRModule\<close> that owns the context; the model keeps it
  in the context. The messages of errors are cut to their constant part.
\<close>

section \<open>State\<close>

record StatisticsInfo =
  loadCount :: nat
  saveCount :: nat
  newCount :: nat
  callCount :: nat

definition new_StatisticsInfo :: StatisticsInfo where
  "new_StatisticsInfo = \<lparr>loadCount = 0, saveCount = 0, newCount = 0, callCount = 0\<rparr>"

datatype S = LOAD | NEW | SAVE | CALL | IMPORT_EXPORT

datatype stat_object = StatVar nat | StatFunction nat | StatClass nat | StatMeta meta_ref | StatShape shape_ref

text \<open>The records of the import and export tables (\<open>src/src/semantics/ir/irmodule.ts\<close>).\<close>

record RuntimeExternItem =
  xi_nameOffset :: nat
  xi_type :: int
  xi_index :: int
  xi_externIndex :: nat

record RuntimeExternModule =
  xm_nameOffset :: nat
  xm_items :: "RuntimeExternItem list"
  xm_externIndex :: nat

text \<open>An \<open>ExternItemInfo\<close> refers to the module; only its \<open>externIndex\<close> is read through it.\<close>

record ExternItemInfo =
  info_module :: nat
  info_item :: RuntimeExternItem

record GlobalContext =
  gc_module :: ModuleNode
  gc_heap :: "semantics_value rt_heap"
  gc_stringShape :: "shape_ref option" \<comment> \<open>the origin shape of the builtin \<open>String\<close>\<close>
  gc_dataPool :: data_pool
  gc_vars :: "(nat, int) js_map"
  gc_functions :: "(nat, int) js_map"
  gc_classes :: "(nat, int) js_map"
  gc_metas :: "(meta_ref, int) js_map"
  gc_staticShapes :: "(shape_ref, int) js_map"
  gc_statistics :: "(stat_object, StatisticsInfo) js_map"
  gc_imports :: "RuntimeExternModule list"
  gc_exports :: "RuntimeExternModule list"
  gc_importMap :: "(extern_type, ExternItemInfo) js_map"
  gc_exportMap :: "(extern_type, ExternItemInfo) js_map"

section \<open>Operations\<close>

text \<open>The loop \<open>for (const t of ts) map.set(t, i++)\<close>.\<close>

fun number_from :: "'k list \<Rightarrow> int \<Rightarrow> ('k, int) js_map \<Rightarrow> ('k, int) js_map" where
  "number_from [] i m = m"
| "number_from (k # ks) i m = number_from ks (i + 1) (map_set k i m)"

definition processVars :: "GlobalContext \<Rightarrow> GlobalContext" where
  "processVars g =
     g\<lparr>gc_vars := number_from (map vd_id (globalVars (gc_module g))) 1 (gc_vars g)\<rparr>"

definition processFunctions :: "GlobalContext \<Rightarrow> GlobalContext" where
  "processFunctions g =
     g\<lparr>gc_functions := number_from (map fh_id (mn_functions (gc_module g))) 1 (gc_functions g)\<rparr>"

definition class_ids :: "ModuleNode \<Rightarrow> nat list" where
  "class_ids m =
     map (ot_id \<circ> snd)
       (filter (\<lambda>(n, vt). vt_kind (ot_type vt) = ValueTypeKind.OBJECT) (namedTypes m))"

definition processClasses :: "GlobalContext \<Rightarrow> GlobalContext" where
  "processClasses g =
     g\<lparr>gc_classes := number_from (class_ids (gc_module g)) 1 (gc_classes g)\<rparr>"

text \<open>The two forms of adding a shape: always, or only when it is not in the map yet.\<close>

definition add_shape ::
  "shape_ref \<Rightarrow> (shape_ref, int) js_map \<times> int \<Rightarrow> (shape_ref, int) js_map \<times> int"
where
  "add_shape s = (\<lambda>(m, i). (map_set s i m, i + 1))"

definition add_new_shape ::
  "shape_ref \<Rightarrow> (shape_ref, int) js_map \<times> int \<Rightarrow> (shape_ref, int) js_map \<times> int"
where
  "add_new_shape s = (\<lambda>(m, i). if map_has m s then (m, i) else (map_set s i m, i + 1))"

definition add_meta_shapes ::
  "'v ObjectDescription \<Rightarrow> (shape_ref, int) js_map \<times> int \<Rightarrow> (shape_ref, int) js_map \<times> int"
where
  "add_meta_shapes od st =
     (let st1 = (case originShape od of Some s \<Rightarrow> add_shape s st | None \<Rightarrow> st);
          st2 = (case thisShape od of
                   Some s \<Rightarrow> if Some s \<noteq> originShape od then add_shape s st1 else st1
                 | None \<Rightarrow> st1)
      in fold (add_new_shape \<circ> snd) (compatibleShapes od) st2)"

definition processMetaShapes :: "GlobalContext \<Rightarrow> GlobalContext" where
  "processMetaShapes g =
     (let ms = objectDescriptions (gc_module g);
          (sm, i) = fold (\<lambda>a. add_meta_shapes (metas (gc_heap g) a)) ms (gc_staticShapes g, 1)
      in g\<lparr>gc_metas := number_from ms 1 (gc_metas g), gc_staticShapes := sm\<rparr>)"

definition count_use :: "S \<Rightarrow> StatisticsInfo \<Rightarrow> StatisticsInfo" where
  "count_use s info =
     (case s of
        S.LOAD \<Rightarrow> info\<lparr>loadCount := Suc (loadCount info)\<rparr>
      | S.SAVE \<Rightarrow> info\<lparr>saveCount := Suc (saveCount info)\<rparr>
      | S.NEW \<Rightarrow> info\<lparr>newCount := Suc (newCount info)\<rparr>
      | S.CALL \<Rightarrow> info\<lparr>callCount := Suc (callCount info)\<rparr>
      | S.IMPORT_EXPORT \<Rightarrow> info)"

definition updateStatistics :: "stat_object \<Rightarrow> S \<Rightarrow> GlobalContext \<Rightarrow> GlobalContext" where
  "updateStatistics key s g =
     (let info = (case map_get (gc_statistics g) key of Some i \<Rightarrow> i | None \<Rightarrow> new_StatisticsInfo)
      in g\<lparr>gc_statistics := map_set key (count_use s info) (gc_statistics g)\<rparr>)"

text \<open>The test \<open>!idx\<close>: a missing entry and 0 are both refused.\<close>

definition found_index :: "js_error \<Rightarrow> int option \<Rightarrow> int result" where
  "found_index e idx = (case idx of Some i \<Rightarrow> if i = 0 then Inl e else Inr i | None \<Rightarrow> Inl e)"

definition getVarIndex :: "nat \<Rightarrow> S \<Rightarrow> GlobalContext \<Rightarrow> (int \<times> GlobalContext) result" where
  "getVarIndex decl s g =
     bind_r (found_index (JSError ''global is not exist'') (map_get (gc_vars g) decl)) (\<lambda>idx.
       Inr (idx - 1, updateStatistics (StatVar decl) s g))"

definition getFunctionIndex :: "nat \<Rightarrow> S \<Rightarrow> GlobalContext \<Rightarrow> (int \<times> GlobalContext) result" where
  "getFunctionIndex func s g =
     bind_r (found_index (JSError ''global function is not exist'') (map_get (gc_functions g) func))
       (\<lambda>idx. Inr (idx - 1, updateStatistics (StatFunction func) s g))"

definition getClassIndex :: "nat \<Rightarrow> S \<Rightarrow> GlobalContext \<Rightarrow> (int \<times> GlobalContext) result" where
  "getClassIndex clazz s g =
     bind_r (found_index (JSError ''global class is not exist'') (map_get (gc_classes g) clazz))
       (\<lambda>idx. Inr (idx - 1, updateStatistics (StatClass clazz) s g))"

definition getMetaIndex :: "meta_ref \<Rightarrow> GlobalContext \<Rightarrow> (int \<times> GlobalContext) result" where
  "getMetaIndex meta g =
     bind_r (found_index (JSError ''global meta is not exist'') (map_get (gc_metas g) meta))
       (\<lambda>idx. Inr (idx - 1, updateStatistics (StatMeta meta) S.LOAD g))"

definition getShapeIndex :: "shape_ref \<Rightarrow> GlobalContext \<Rightarrow> (int \<times> GlobalContext) result" where
  "getShapeIndex shape g =
     bind_r (found_index (JSError ''global shape is not exist'')
               (map_get (gc_staticShapes g) (genericShape shape (gc_heap g))))
       (\<lambda>idx. Inr (idx - 1, updateStatistics (StatShape shape) S.LOAD g))"

definition getImportInfo :: "extern_type \<Rightarrow> GlobalContext \<Rightarrow> ExternItemInfo option" where
  "getImportInfo type g = map_get (gc_importMap g) type"

text \<open>
  The casts of \<open>findExternItemIndex\<close>. An item whose kind does not fit its type has no entry in
  the table of that kind, and a class without an instance type asks for \<open>undefined\<close>.
\<close>

fun extern_var :: "extern_type \<Rightarrow> nat option" where
  "extern_var (ExtVar v) = Some v"
| "extern_var _ = None"

fun extern_function :: "extern_type \<Rightarrow> nat option" where
  "extern_function (ExtFunction f) = Some f"
| "extern_function _ = None"

fun extern_class_instance :: "extern_type \<Rightarrow> nat option" where
  "extern_class_instance (ExtClass c inst) = inst"
| "extern_class_instance _ = None"

definition findExternItemIndex ::
  "ExternTypeKind \<Rightarrow> extern_type \<Rightarrow> GlobalContext \<Rightarrow> (int \<times> GlobalContext) result"
where
  "findExternItemIndex kind type g =
     (case kind of
        ExternTypeKind.FUNCTION \<Rightarrow>
          (case extern_function type of
             Some f \<Rightarrow> getFunctionIndex f S.IMPORT_EXPORT g
           | None \<Rightarrow> Inl (JSError ''global function is not exist''))
      | ExternTypeKind.CLASS \<Rightarrow>
          (case extern_class_instance type of
             Some c \<Rightarrow> getClassIndex c S.IMPORT_EXPORT g
           | None \<Rightarrow> Inl (JSError ''global class is not exist''))
      | ExternTypeKind.VAR \<Rightarrow>
          (case extern_var type of
             Some v \<Rightarrow> getVarIndex v S.IMPORT_EXPORT g
           | None \<Rightarrow> Inl (JSError ''global is not exist''))
      | ExternTypeKind.ENUM \<Rightarrow> Inr (-1, g))"

definition gc_addString :: "js_string \<Rightarrow> GlobalContext \<Rightarrow> (nat \<times> GlobalContext) result" where
  "gc_addString s g =
     bind_r (addString s (gc_dataPool g)) (\<lambda>(off, p). Inr (off, g\<lparr>gc_dataPool := p\<rparr>))"

text \<open>The inner loop over the items of one module; \<open>k\<close> is the \<open>externIndex\<close> of the module.\<close>

fun build_extern_items ::
  "nat \<Rightarrow> ExternItem list \<Rightarrow> RuntimeExternItem list \<Rightarrow> (extern_type, ExternItemInfo) js_map \<Rightarrow>
   GlobalContext \<Rightarrow>
   (RuntimeExternItem list \<times> (extern_type, ExternItemInfo) js_map \<times> GlobalContext) result"
where
  "build_extern_items k [] items mm g = Inr (items, mm, g)"
| "build_extern_items k (it # its) items mm g =
     bind_r (gc_addString (it_name it) g) (\<lambda>(off, g1).
     bind_r (findExternItemIndex (it_kind it) (it_type it) g1) (\<lambda>(idx, g2).
       let item = \<lparr>xi_nameOffset = off, xi_type = extern_kind_num (it_kind it),
                   xi_index = idx, xi_externIndex = length items\<rparr>
       in build_extern_items k its (items @ [item])
            (map_set (it_type it) \<lparr>info_module = k, info_item = item\<rparr> mm) g2))"

fun buildExternModules ::
  "ExternModule list \<Rightarrow> RuntimeExternModule list \<Rightarrow> (extern_type, ExternItemInfo) js_map \<Rightarrow>
   GlobalContext \<Rightarrow>
   (RuntimeExternModule list \<times> (extern_type, ExternItemInfo) js_map \<times> GlobalContext) result"
where
  "buildExternModules [] xms mm g = Inr (xms, mm, g)"
| "buildExternModules (m # ms) xms mm g =
     bind_r (gc_addString (em_name m) g) (\<lambda>(off, g1).
     bind_r (build_extern_items (length xms) (em_items m) [] mm g1) (\<lambda>(items, mm', g2).
       buildExternModules ms
         (xms @ [\<lparr>xm_nameOffset = off, xm_items = items, xm_externIndex = length xms\<rparr>]) mm' g2))"

definition processImportsExports :: "GlobalContext \<Rightarrow> GlobalContext result" where
  "processImportsExports g =
     bind_r (buildExternModules (mn_imports (gc_module g)) [] (gc_importMap g) g) (\<lambda>(xs, mm, g1).
     let g2 = g1\<lparr>gc_imports := xs, gc_importMap := mm\<rparr>
     in bind_r (buildExternModules (mn_exports (gc_module g2)) [] (gc_exportMap g2) g2)
          (\<lambda>(ys, mm', g3). Inr (g3\<lparr>gc_exports := ys, gc_exportMap := mm'\<rparr>)))"

definition empty_GlobalContext ::
  "ModuleNode \<Rightarrow> semantics_value rt_heap \<Rightarrow> shape_ref option \<Rightarrow> data_pool \<Rightarrow> GlobalContext"
where
  "empty_GlobalContext m h str p =
     \<lparr>gc_module = m, gc_heap = h, gc_stringShape = str, gc_dataPool = p, gc_vars = [],
      gc_functions = [], gc_classes = [], gc_metas = [], gc_staticShapes = [],
      gc_statistics = [], gc_imports = [], gc_exports = [], gc_importMap = [],
      gc_exportMap = []\<rparr>"

definition new_GlobalContext ::
  "ModuleNode \<Rightarrow> semantics_value rt_heap \<Rightarrow> shape_ref option \<Rightarrow> data_pool \<Rightarrow> GlobalContext result"
where
  "new_GlobalContext m h str p =
     processImportsExports
       (processMetaShapes (processClasses (processFunctions (processVars
         (empty_GlobalContext m h str p)))))"

text \<open>\<open>buildMapAsArray\<close> inverts a table: a write outside of the new array extends it.\<close>

definition buildMapAsArray :: "('k, int) js_map \<Rightarrow> 'k option list" where
  "buildMapAsArray m =
     fold (\<lambda>(t, idx) arr. js_array_set arr (nat (idx - 1)) t) m (replicate (length m) None)"

text \<open>A small module for examples: a variable, an imported function, a class and its description.\<close>

definition sample_var :: VarDeclareNode where
  "sample_var = \<lparr>vd_id = 5, storageType = SemanticsValueKind_GLOBAL_VAR,
     vd_type = Primitive_Number, vd_name = [118], vd_index = 0, vd_flags = 0\<rparr>"

definition sample_function :: FunctionDeclareNode where
  "sample_function = \<lparr>fh_id = 7, fh_name = [102], fh_funcType = Primitive_Any,
     fh_returnType = Primitive_Void, ownKind = 8, fd_body = EmptyNode, parameters = None,
     varList = None, closureVars = None, thisClassType = None, flattenValue = None\<rparr>"

definition sample_class :: object_ty where
  "sample_class = \<lparr>ot_id = 9, ot_type = ObjectType 1 0 ObjectTypeFlag.OBJECT None None None None,
     ot_instance = Some 9, ot_super = None\<rparr>"

definition sample_module :: ModuleNode where
  "sample_module = \<lparr>globalVars = [sample_var], mn_functions = [sample_function],
     objectDescriptions = [0], namedTypes = [([99], sample_class)], mn_exports = [],
     mn_imports = [\<lparr>em_name = [], em_items =
       [\<lparr>it_kind = ExternTypeKind.FUNCTION, it_name = [102], it_type = ExtFunction 7\<rparr>]\<rparr>]\<rparr>"

definition sample_runtime :: "semantics_value rt_heap" where
  "sample_runtime =
     \<lparr>metas = (\<lambda>_. (new_ObjectDescription [99] OBJECT_INSTANCE None)
        \<lparr>originShape := Some 0, thisShape := Some 1\<rparr>),
      shapes = (\<lambda>_. \<lparr>s_members = None, s_meta = 0, s_generic = None\<rparr>),
      accs = (\<lambda>_. \<lparr>acc_method = None, acc_getter = None, acc_setter = None\<rparr>),
      next_shape = 2, next_acc = 0\<rparr>"

definition sample_pool :: data_pool where
  "sample_pool = \<lparr>buffer = replicate 8 0, capacity = 8, pool_size = 0, strMap = []\<rparr>"

definition sample_context :: "GlobalContext result" where
  "sample_context = new_GlobalContext sample_module sample_runtime None sample_pool"

section \<open>Lemmas: numbering\<close>

abbreviation numbers_from :: "int \<Rightarrow> nat \<Rightarrow> int list" where
  "numbers_from i n \<equiv> map (\<lambda>k. i + int k) [0..<n]"

lemma numbers_from_Suc: "numbers_from i (Suc n) = i # numbers_from (i + 1) n"
  by (simp add: map_upt_Suc algebra_simps del: upt_Suc)

lemma number_from_fresh:
  "distinct ks \<Longrightarrow> set ks \<inter> fst ` set m = {} \<Longrightarrow>
   number_from ks i m = m @ zip ks (numbers_from i (length ks))"
proof (induction ks arbitrary: i m)
  case (Cons k ks)
  have "number_from ks (i + 1) (m @ [(k, i)])
      = (m @ [(k, i)]) @ zip ks (numbers_from (i + 1) (length ks))"
    using Cons.prems by (intro Cons.IH) auto
  moreover have "map_set k i m = m @ [(k, i)]"
    using Cons.prems by (intro map_set_fresh) (auto simp: map_has_def)
  ultimately show ?case by (simp only: number_from.simps length_Cons numbers_from_Suc) simp
qed simp

lemma map_get_numbered:
  assumes "distinct ks"
  shows "map_get (zip ks (numbers_from i (length ks))) x = Some j \<longleftrightarrow>
    (\<exists>k < length ks. x = ks ! k \<and> j = i + int k)"
proof -
  have "distinct (map fst (zip ks (numbers_from i (length ks))))" using assms by simp
  then show ?thesis by (subst map_of_eq_Some_iff) (auto simp: in_set_zip)
qed

lemma array_of_numbered:
  "fold (\<lambda>(t, idx) arr. js_array_set arr (nat (idx - 1)) t)
     (zip ks (numbers_from (1 + int (length pre)) (length ks)))
     (pre @ replicate (length ks) None) = pre @ map Some ks"
proof (induction ks arbitrary: pre)
  case (Cons k ks)
  have "js_array_set (pre @ replicate (Suc (length ks)) None) (length pre) k
      = (pre @ [Some k]) @ replicate (length ks) None"
    by (simp add: js_array_set_def list_update_append)
  moreover have "1 + int (length pre) + 1 = 1 + int (length (pre @ [Some k]))" by simp
  ultimately show ?case
    using Cons.IH [of "pre @ [Some k]"]
    by (simp only: length_Cons numbers_from_Suc zip_Cons_Cons fold_simps) simp
qed simp

lemma buildMapAsArray_numbered:
  "buildMapAsArray (zip ks (numbers_from 1 (length ks))) = map Some ks"
  using array_of_numbered [of ks "[]"] by (simp add: buildMapAsArray_def)

lemma buildMapAsArray_number_from:
  "distinct ks \<Longrightarrow> buildMapAsArray (number_from ks 1 []) = map Some ks"
  by (simp add: number_from_fresh buildMapAsArray_numbered)

lemma number_from_lookup:
  "distinct ks \<Longrightarrow>
   map_get (number_from ks 1 []) x = Some j \<longleftrightarrow> (\<exists>k < length ks. x = ks ! k \<and> j = 1 + int k)"
  using map_get_numbered [of ks 1 x j] by (simp add: number_from_fresh)

section \<open>The interface of the index tables\<close>

text \<open>
  What the function and module builders rely on: a context step that changes only the data
  pool and the counters, and getters that read one of the tables.
\<close>

definition same_tables :: "GlobalContext \<Rightarrow> GlobalContext \<Rightarrow> bool" where
  "same_tables g g' = (\<exists>p st. g' = g\<lparr>gc_dataPool := p, gc_statistics := st\<rparr>)"

lemma same_tables_refl [simp, intro]: "same_tables g g"
  unfolding same_tables_def by (rule exI [of _ "gc_dataPool g"], rule exI [of _ "gc_statistics g"]) simp

lemma same_tables_trans [trans]:
  assumes "same_tables a b" and "same_tables b c"
  shows "same_tables a c"
proof -
  obtain p st q su where "b = a\<lparr>gc_dataPool := p, gc_statistics := st\<rparr>"
    and "c = b\<lparr>gc_dataPool := q, gc_statistics := su\<rparr>"
    using assms by (auto simp: same_tables_def)
  then have "c = a\<lparr>gc_dataPool := q, gc_statistics := su\<rparr>" by simp
  then show ?thesis unfolding same_tables_def by blast
qed

lemma same_tables_fields:
  assumes "same_tables g g'"
  shows "gc_vars g' = gc_vars g" and "gc_functions g' = gc_functions g"
    and "gc_classes g' = gc_classes g" and "gc_metas g' = gc_metas g"
    and "gc_staticShapes g' = gc_staticShapes g" and "gc_module g' = gc_module g"
    and "gc_heap g' = gc_heap g" and "gc_stringShape g' = gc_stringShape g"
    and "gc_imports g' = gc_imports g" and "gc_exports g' = gc_exports g"
    and "gc_importMap g' = gc_importMap g"
  using assms by (auto simp: same_tables_def)

lemma same_tables_statistics [simp]: "same_tables g (updateStatistics k s g)"
  unfolding same_tables_def updateStatistics_def Let_def
  by (rule exI [of _ "gc_dataPool g"]) auto

lemma updateStatistics_dataPool [simp]: "gc_dataPool (updateStatistics k s g) = gc_dataPool g"
  by (simp add: updateStatistics_def Let_def)

lemma found_index_Inr: "found_index e x = Inr i \<longleftrightarrow> x = Some i \<and> i \<noteq> 0"
  by (auto simp: found_index_def split: option.splits if_splits)

locale index_getter =
  fixes get :: "'k \<Rightarrow> GlobalContext \<Rightarrow> (int \<times> GlobalContext) result"
    and lookup :: "GlobalContext \<Rightarrow> 'k \<Rightarrow> int option"
  assumes get_iff: "get k g = Inr (i, g') \<Longrightarrow> lookup g k = Some (i + 1) \<and> i \<noteq> -1"
    and get_defined: "lookup g k = Some (i + 1) \<Longrightarrow> i \<noteq> -1 \<Longrightarrow> \<exists>g'. get k g = Inr (i, g')"
    and get_frame: "get k g = Inr (i, g') \<Longrightarrow> same_tables g g'"
    and get_pool: "get k g = Inr (i, g') \<Longrightarrow> gc_dataPool g' = gc_dataPool g"
    and lookup_frame: "same_tables g g' \<Longrightarrow> lookup g' = lookup g"
begin

lemma get_succeeds_iff:
  "(\<exists>g'. get k g = Inr (i, g')) \<longleftrightarrow> lookup g k = Some (i + 1) \<and> i \<noteq> -1"
  using get_iff get_defined by metis

lemma get_stable:
  assumes "get k g = Inr (i, g')" and "same_tables g' g''"
  shows "\<exists>h. get k g'' = Inr (i, h)"
  using assms get_iff get_frame lookup_frame get_defined by metis

lemma get_position:
  assumes "lookup g = map_get (number_from ks 1 [])" and "distinct ks" and "k < length ks"
  shows "\<exists>g'. get (ks ! k) g = Inr (int k, g')"
  using assms by (intro get_defined) (auto simp: number_from_lookup)

lemma get_in_range:
  assumes "lookup g = map_get (number_from ks 1 [])" and "distinct ks"
    and "get x g = Inr (i, g')"
  shows "0 \<le> i \<and> nat i < length ks \<and> x = ks ! nat i"
proof -
  from get_iff [OF assms(3)] assms(1,2) obtain k where "k < length ks" and "x = ks ! k"
    and "i + 1 = 1 + int k" by (auto simp: number_from_lookup)
  then show ?thesis by simp
qed

end

lemma index_getterI:
  assumes "\<And>k g. get k g = bind_r (found_index e (lookup g k))
      (\<lambda>idx. Inr (idx - 1, updateStatistics (key k) s g))"
    and "\<And>g g'. same_tables g g' \<Longrightarrow> lookup g' = lookup g"
  shows "index_getter get lookup"
proof unfold_locales
  show "lookup g' = lookup g" if "same_tables g g'" for g g' using that by (rule assms(2))
qed (auto simp: assms(1) found_index_Inr bind_r_Inr_iff)

interpretation vi: index_getter "\<lambda>k. getVarIndex k s" "\<lambda>g. map_get (gc_vars g)"
  by (rule index_getterI, rule getVarIndex_def) (simp only: same_tables_fields)

interpretation fi: index_getter "\<lambda>k. getFunctionIndex k s" "\<lambda>g. map_get (gc_functions g)"
  by (rule index_getterI, rule getFunctionIndex_def) (simp only: same_tables_fields)

interpretation ci: index_getter "\<lambda>k. getClassIndex k s" "\<lambda>g. map_get (gc_classes g)"
  by (rule index_getterI, rule getClassIndex_def) (simp only: same_tables_fields)

interpretation mi: index_getter getMetaIndex "\<lambda>g. map_get (gc_metas g)"
  by (rule index_getterI, rule getMetaIndex_def) (simp only: same_tables_fields)

interpretation si: index_getter getShapeIndex
  "\<lambda>g k. map_get (gc_staticShapes g) (genericShape k (gc_heap g))"
  by (rule index_getterI, rule getShapeIndex_def) (simp only: same_tables_fields)

section \<open>Lemmas: imports and exports\<close>

lemma gc_addString_frame: "gc_addString s g = Inr (off, g') \<Longrightarrow> same_tables g g'"
  unfolding same_tables_def
  by (auto simp: gc_addString_def bind_r_Inr_iff intro!: exI [of _ "gc_statistics g"])

lemma findExternItemIndex_frame:
  "findExternItemIndex kind type g = Inr (i, g') \<Longrightarrow> same_tables g g'"
  by (auto simp: findExternItemIndex_def split: ExternTypeKind.splits option.splits
      intro: fi.get_frame ci.get_frame vi.get_frame)

text \<open>What one pass over the items of a module adds to the table and to the map.\<close>

lemma build_extern_items_spec:
  assumes "build_extern_items k its items mm g = Inr (items', mm', g')"
    and "distinct (map it_type its)"
  shows "\<exists>new. items' = items @ new \<and> length new = length its \<and> same_tables g g' \<and>
    (\<forall>j < length its. xi_externIndex (new ! j) = length items + j \<and>
       map_get mm' (it_type (its ! j)) = Some \<lparr>info_module = k, info_item = new ! j\<rparr>) \<and>
    (\<forall>x. x \<notin> it_type ` set its \<longrightarrow> map_get mm' x = map_get mm x)"
  using assms
proof (induction its arbitrary: items mm g)
  case Nil
  then show ?case by (intro exI [of _ "[]"]) auto
next
  case (Cons it its)
  obtain off g1 idx g2 where add: "gc_addString (it_name it) g = Inr (off, g1)"
    and idx: "findExternItemIndex (it_kind it) (it_type it) g1 = Inr (idx, g2)"
    and rest: "build_extern_items k its
        (items @ [\<lparr>xi_nameOffset = off, xi_type = extern_kind_num (it_kind it), xi_index = idx,
                   xi_externIndex = length items\<rparr>])
        (map_set (it_type it)
          \<lparr>info_module = k,
           info_item = \<lparr>xi_nameOffset = off, xi_type = extern_kind_num (it_kind it),
             xi_index = idx, xi_externIndex = length items\<rparr>\<rparr> mm) g2 = Inr (items', mm', g')"
    using Cons.prems(1) by (auto simp: Let_def bind_r_Inr_iff)
  define item where "item = \<lparr>xi_nameOffset = off, xi_type = extern_kind_num (it_kind it),
    xi_index = idx, xi_externIndex = length items\<rparr>"
  note rest' = rest [folded item_def]
  from Cons.IH [OF rest'] Cons.prems(2)
  obtain new where new: "items' = (items @ [item]) @ new" "length new = length its"
    and fr: "same_tables g2 g'"
    and at: "\<forall>j < length its. xi_externIndex (new ! j) = length (items @ [item]) + j \<and>
      map_get mm' (it_type (its ! j)) = Some \<lparr>info_module = k, info_item = new ! j\<rparr>"
    and old: "\<forall>x. x \<notin> it_type ` set its \<longrightarrow>
      map_get mm' x = map_get (map_set (it_type it) \<lparr>info_module = k, info_item = item\<rparr> mm) x"
    by auto
  have "same_tables g g'"
    using gc_addString_frame [OF add] findExternItemIndex_frame [OF idx] fr
    by (blast intro: same_tables_trans)
  moreover have "map_get mm' (it_type it) = Some \<lparr>info_module = k, info_item = item\<rparr>"
    using old Cons.prems(2) by simp
  moreover have "xi_externIndex item = length items" by (simp add: item_def)
  ultimately show ?case
    using new at old
    by (intro exI [of _ "item # new"]) (auto simp: nth_Cons' less_Suc_eq_0_disj)
qed

lemma build_extern_items_frame:
  "build_extern_items k its items mm g = Inr (items', mm', g') \<Longrightarrow> same_tables g g'"
proof (induction its arbitrary: items mm g)
  case (Cons it its)
  then obtain off g1 idx g2 items1 mm1 where "gc_addString (it_name it) g = Inr (off, g1)"
    and "findExternItemIndex (it_kind it) (it_type it) g1 = Inr (idx, g2)"
    and "build_extern_items k its items1 mm1 g2 = Inr (items', mm', g')"
    by (auto simp: Let_def bind_r_Inr_iff)
  then have "same_tables g g1" and "same_tables g1 g2" and "same_tables g2 g'"
    using Cons.IH by (blast dest: gc_addString_frame findExternItemIndex_frame)+
  then show ?case by (meson same_tables_trans)
qed simp

lemma buildExternModules_frame:
  "buildExternModules ms xms mm g = Inr (xms', mm', g') \<Longrightarrow> same_tables g g'"
proof (induction ms arbitrary: xms mm g)
  case (Cons m ms)
  then obtain off g1 items mm1 g2 xms1 where "gc_addString (em_name m) g = Inr (off, g1)"
    and "build_extern_items (length xms) (em_items m) [] mm g1 = Inr (items, mm1, g2)"
    and "buildExternModules ms xms1 mm1 g2 = Inr (xms', mm', g')"
    by (auto simp: bind_r_Inr_iff)
  then have "same_tables g g1" and "same_tables g1 g2" and "same_tables g2 g'"
    using Cons.IH by (blast dest: gc_addString_frame build_extern_items_frame)+
  then show ?case by (meson same_tables_trans)
qed simp

text \<open>All items of the modules of a table.\<close>

definition extern_types :: "ExternModule list \<Rightarrow> extern_type list" where
  "extern_types ms = concat (map (\<lambda>m. map it_type (em_items m)) ms)"

lemma buildExternModules_spec:
  assumes "buildExternModules ms xms mm g = Inr (xms', mm', g')" and "distinct (extern_types ms)"
  shows "\<exists>new. xms' = xms @ new \<and> length new = length ms \<and>
    (\<forall>k < length ms. xm_externIndex (new ! k) = length xms + k \<and>
      length (xm_items (new ! k)) = length (em_items (ms ! k)) \<and>
      (\<forall>j < length (em_items (ms ! k)).
         xi_externIndex (xm_items (new ! k) ! j) = j \<and>
         map_get mm' (it_type (em_items (ms ! k) ! j))
           = Some \<lparr>info_module = length xms + k, info_item = xm_items (new ! k) ! j\<rparr>)) \<and>
    (\<forall>x. x \<notin> set (extern_types ms) \<longrightarrow> map_get mm' x = map_get mm x)"
  using assms
proof (induction ms arbitrary: xms mm g)
  case Nil
  then show ?case by (intro exI [of _ "[]"]) auto
next
  case (Cons m ms)
  obtain off g1 items mm1 g2
    where items: "build_extern_items (length xms) (em_items m) [] mm g1 = Inr (items, mm1, g2)"
      and rest: "buildExternModules ms
        (xms @ [\<lparr>xm_nameOffset = off, xm_items = items, xm_externIndex = length xms\<rparr>]) mm1 g2
        = Inr (xms', mm', g')"
    using Cons.prems(1) by (auto simp: bind_r_Inr_iff)
  define x where "x = \<lparr>xm_nameOffset = off, xm_items = items, xm_externIndex = length xms\<rparr>"
  have dist: "distinct (map it_type (em_items m))" "distinct (extern_types ms)"
    and disj: "it_type ` set (em_items m) \<inter> set (extern_types ms) = {}"
    using Cons.prems(2) by (auto simp: extern_types_def)
  from Cons.IH [OF rest [folded x_def] dist(2)]
  obtain new where new: "xms' = (xms @ [x]) @ new" "length new = length ms"
    and at: "\<forall>k < length ms. xm_externIndex (new ! k) = length (xms @ [x]) + k \<and>
      length (xm_items (new ! k)) = length (em_items (ms ! k)) \<and>
      (\<forall>j < length (em_items (ms ! k)).
         xi_externIndex (xm_items (new ! k) ! j) = j \<and>
         map_get mm' (it_type (em_items (ms ! k) ! j))
           = Some \<lparr>info_module = length (xms @ [x]) + k, info_item = xm_items (new ! k) ! j\<rparr>)"
    and old: "\<forall>y. y \<notin> set (extern_types ms) \<longrightarrow> map_get mm' y = map_get mm1 y"
    by auto
  from build_extern_items_spec [OF items dist(1)]
  have its: "length items = length (em_items m)"
    "\<forall>j < length (em_items m). xi_externIndex (items ! j) = j \<and>
      map_get mm1 (it_type (em_items m ! j)) = Some \<lparr>info_module = length xms, info_item = items ! j\<rparr>"
    and old1: "\<forall>y. y \<notin> it_type ` set (em_items m) \<longrightarrow> map_get mm1 y = map_get mm y"
    by auto
  have head: "\<forall>j < length (em_items m).
      map_get mm' (it_type (em_items m ! j)) = Some \<lparr>info_module = length xms, info_item = items ! j\<rparr>"
    using its(2) old disj by (metis disjoint_iff image_eqI nth_mem)
  have "\<forall>y. y \<notin> set (extern_types (m # ms)) \<longrightarrow> map_get mm' y = map_get mm y"
    using old old1 by (auto simp: extern_types_def)
  then show ?case
    using new at its head
    by (intro exI [of _ "x # new"]) (auto simp: x_def nth_Cons' less_Suc_eq_0_disj)
qed

lemma new_GlobalContext_tables:
  assumes "new_GlobalContext m h str p = Inr g"
  shows "gc_vars g = number_from (map vd_id (globalVars m)) 1 []"
    and "gc_functions g = number_from (map fh_id (mn_functions m)) 1 []"
    and "gc_classes g = number_from (class_ids m) 1 []"
    and "gc_metas g = number_from (objectDescriptions m) 1 []"
    and "gc_staticShapes g
      = fst (fold (\<lambda>a. add_meta_shapes (metas h a)) (objectDescriptions m) ([], 1))"
    and "gc_module g = m" and "gc_heap g = h"
proof -
  define g0 where "g0 = processMetaShapes (processClasses (processFunctions (processVars
    (empty_GlobalContext m h str p))))"
  obtain xs mm g1 ys mm' g3 where s1: "same_tables g0 g1"
    and s2: "same_tables (g1\<lparr>gc_imports := xs, gc_importMap := mm\<rparr>) g3"
    and g: "g = g3\<lparr>gc_exports := ys, gc_exportMap := mm'\<rparr>"
    using assms
    by (auto simp: new_GlobalContext_def processImportsExports_def Let_def g0_def bind_r_Inr_iff
        dest!: buildExternModules_frame)
  note same = g same_tables_fields [OF s2] same_tables_fields [OF s1]
  show "gc_vars g = number_from (map vd_id (globalVars m)) 1 []"
    and "gc_functions g = number_from (map fh_id (mn_functions m)) 1 []"
    and "gc_classes g = number_from (class_ids m) 1 []"
    and "gc_metas g = number_from (objectDescriptions m) 1 []"
    and "gc_staticShapes g
      = fst (fold (\<lambda>a. add_meta_shapes (metas h a)) (objectDescriptions m) ([], 1))"
    and "gc_module g = m" and "gc_heap g = h"
    by (simp_all add: same g0_def processMetaShapes_def processClasses_def processFunctions_def
        processVars_def empty_GlobalContext_def split_beta Let_def)
qed

lemma new_GlobalContext_imports:
  assumes "new_GlobalContext m h str p = Inr g"
  shows "\<exists>g0 mm g1. buildExternModules (mn_imports m) [] [] g0 = Inr (gc_imports g, mm, g1) \<and>
    gc_importMap g = mm"
proof -
  define g0 where "g0 = processMetaShapes (processClasses (processFunctions (processVars
    (empty_GlobalContext m h str p))))"
  have m: "mn_imports (gc_module g0) = mn_imports m" "gc_importMap g0 = []"
    by (simp_all add: g0_def processMetaShapes_def processClasses_def processFunctions_def
        processVars_def empty_GlobalContext_def split_beta Let_def)
  obtain xs mm g1 ys mm' g3
    where b: "buildExternModules (mn_imports (gc_module g0)) [] (gc_importMap g0) g0 = Inr (xs, mm, g1)"
    and b2: "buildExternModules (mn_exports (gc_module g1)) [] (gc_exportMap g1)
      (g1\<lparr>gc_imports := xs, gc_importMap := mm\<rparr>) = Inr (ys, mm', g3)"
    and g: "g = g3\<lparr>gc_exports := ys, gc_exportMap := mm'\<rparr>"
    using assms
    by (auto simp: new_GlobalContext_def processImportsExports_def Let_def g0_def bind_r_Inr_iff)
  note s2 = buildExternModules_frame [OF b2]
  from b m have "buildExternModules (mn_imports m) [] [] g0 = Inr (xs, mm, g1)" by simp
  moreover have "gc_imports g = xs" and "gc_importMap g = mm"
    using same_tables_fields [OF s2] by (simp_all add: g)
  ultimately show ?thesis by blast
qed

section \<open>Lemmas: the table of shapes\<close>

text \<open>The shapes that \<open>processMetaShapes\<close> adds unconditionally, per description.\<close>

definition own_shapes :: "'v ObjectDescription \<Rightarrow> shape_ref list" where
  "own_shapes od =
     opt_elem (originShape od) @ (if thisShape od = originShape od then [] else opt_elem (thisShape od))"

text \<open>A table that numbers its keys in order, and the next number.\<close>

definition numbered :: "('k, int) js_map \<times> int \<Rightarrow> bool" where
  "numbered st \<longleftrightarrow> distinct (map fst (fst st)) \<and>
     fst st = zip (map fst (fst st)) (numbers_from 1 (length (fst st))) \<and>
     snd st = 1 + int (length (fst st))"

lemma numbered_Nil: "numbered ([], 1)"
  by (simp add: numbered_def)

lemma numbered_snoc:
  assumes "numbered (m, i)" and "\<not> map_has m s"
  shows "numbered (m @ [(s, i)], i + 1)"
proof -
  have "zip (map fst m @ [s]) (numbers_from 1 (Suc (length m)))
      = zip (map fst m) (numbers_from 1 (length m)) @ [(s, 1 + int (length m))]" by simp
  then show ?thesis using assms by (auto simp: numbered_def map_has_def)
qed

lemma numbered_add_shape:
  "numbered st \<Longrightarrow> \<not> map_has (fst st) s \<Longrightarrow> numbered (add_shape s st)"
  by (cases st) (simp add: add_shape_def map_set_fresh numbered_snoc)

lemma numbered_add_new_shape: "numbered st \<Longrightarrow> numbered (add_new_shape s st)"
  by (cases st) (auto simp: add_new_shape_def map_set_fresh numbered_snoc)

lemma keys_add_shape [simp]:
  "fst ` set (fst (add_shape s st)) = insert s (fst ` set (fst st))"
  "fst ` set (fst (add_new_shape s st)) = insert s (fst ` set (fst st))"
  by (cases st; auto simp: add_shape_def add_new_shape_def keys_map_set map_has_def)+

lemma fold_add_new_shape:
  "numbered st \<Longrightarrow> numbered (fold (add_new_shape \<circ> snd) cs st)"
  "fst ` set (fst (fold (add_new_shape \<circ> snd) cs st)) = snd ` set cs \<union> fst ` set (fst st)"
  by (induction cs arbitrary: st) (auto simp: numbered_add_new_shape)

lemma add_meta_shapes_numbered:
  assumes "numbered st" and "distinct (own_shapes od)"
    and "set (own_shapes od) \<inter> fst ` set (fst st) = {}"
  shows "numbered (add_meta_shapes od st)"
    and "fst ` set (fst (add_meta_shapes od st))
      = set (own_shapes od) \<union> snd ` set (compatibleShapes od) \<union> fst ` set (fst st)"
proof -
  have "numbered (add_meta_shapes od st) \<and> fst ` set (fst (add_meta_shapes od st))
      = set (own_shapes od) \<union> snd ` set (compatibleShapes od) \<union> fst ` set (fst st)"
    using assms
    by (cases "originShape od"; cases "thisShape od")
       (auto simp: add_meta_shapes_def own_shapes_def Let_def fold_add_new_shape map_has_def
         numbered_add_shape split: if_splits)
  then show "numbered (add_meta_shapes od st)"
    and "fst ` set (fst (add_meta_shapes od st))
      = set (own_shapes od) \<union> snd ` set (compatibleShapes od) \<union> fst ` set (fst st)" by auto
qed

lemma fold_add_meta_shapes_numbered:
  assumes "numbered st" and "distinct (concat (map (own_shapes \<circ> mt) as))"
    and "set (concat (map (own_shapes \<circ> mt) as)) \<inter> fst ` set (fst st) = {}"
    and "set (concat (map (own_shapes \<circ> mt) as)) \<inter> snd ` set (concat (map (compatibleShapes \<circ> mt) as)) = {}"
  shows "numbered (fold (\<lambda>a. add_meta_shapes (mt a)) as st)"
  using assms
proof (induction as arbitrary: st)
  case (Cons a as)
  have own: "distinct (own_shapes (mt a))" "set (own_shapes (mt a)) \<inter> fst ` set (fst st) = {}"
    using Cons.prems by auto
  note step = add_meta_shapes_numbered [OF Cons.prems(1) own]
  have "set (concat (map (own_shapes \<circ> mt) as)) \<inter> fst ` set (fst (add_meta_shapes (mt a) st)) = {}"
    unfolding step(2) Int_Un_distrib using Cons.prems(2,3,4) by auto
  moreover have "set (concat (map (own_shapes \<circ> mt) as)) \<inter>
      snd ` set (concat (map (compatibleShapes \<circ> mt) as)) = {}"
    using Cons.prems(4) by auto
  ultimately show ?case using Cons.IH [OF step(1)] Cons.prems(2) by simp
qed simp

lemma numbered_array: "numbered (m, i) \<Longrightarrow> buildMapAsArray m = map Some (map fst m)"
  using buildMapAsArray_numbered [of "map fst m"] by (auto simp: numbered_def)

lemma numbered_get:
  assumes "numbered (m, i)"
  shows "map_get m x = Some j \<longleftrightarrow> (\<exists>k < length m. x = fst (m ! k) \<and> j = 1 + int k)"
proof -
  have "m = zip (map fst m) (numbers_from 1 (length (map fst m)))" and d: "distinct (map fst m)"
    using assms by (simp_all add: numbered_def)
  then have "map_get m x = map_get (zip (map fst m) (numbers_from 1 (length (map fst m)))) x"
    by simp
  then show ?thesis using map_get_numbered [OF d, of 1 x j] by auto
qed

lemma js_index_map_Some:
  "js_index (map Some ks) i = Some (Some x) \<longleftrightarrow> (\<exists>k < length ks. x = ks ! k \<and> i = int k)"
  by (auto simp: js_index_def intro: exI [of _ "nat i"])

text \<open>The example module has a context.\<close>

lemmas sample_defs =
  sample_context_def sample_module_def sample_class_def sample_var_def sample_function_def
  sample_pool_def sample_runtime_def

lemmas context_defs =
  new_GlobalContext_def processImportsExports_def processMetaShapes_def processClasses_def
  processFunctions_def processVars_def empty_GlobalContext_def class_ids_def gc_addString_def
  findExternItemIndex_def getFunctionIndex_def found_index_def updateStatistics_def count_use_def
  add_meta_shapes_def add_shape_def add_new_shape_def

lemma sample_context_defined: "\<exists>g. sample_context = Inr g"
  by (simp add: sample_defs context_defs Let_def split_beta addString_def updateBufferSize_def
      pad_zero.simps new_ObjectDescription_def)

section \<open>Properties\<close>

text \<open>
  C10. In the context of a module whose declarations have different identities, an index
  getter succeeds exactly for the declared objects: it returns the position of the variable,
  function or class in the module, and the array that the code generator receives holds the
  object at that position.
\<close>

theorem global_index_roundtrip:
  assumes "new_GlobalContext m h str p = Inr g"
    and "distinct (map vd_id (globalVars m))" and "distinct (map fh_id (mn_functions m))"
    and "distinct (class_ids m)"
  shows "((\<exists>g'. getVarIndex v s g = Inr (i, g')) \<longleftrightarrow> js_index (buildMapAsArray (gc_vars g)) i = Some (Some v)) \<and>
    ((\<exists>g'. getFunctionIndex f s g = Inr (i, g')) \<longleftrightarrow> js_index (buildMapAsArray (gc_functions g)) i = Some (Some f)) \<and>
    ((\<exists>g'. getClassIndex c s g = Inr (i, g')) \<longleftrightarrow> js_index (buildMapAsArray (gc_classes g)) i = Some (Some c)) \<and>
    buildMapAsArray (gc_vars g) = map (Some \<circ> vd_id) (globalVars m) \<and>
    buildMapAsArray (gc_functions g) = map (Some \<circ> fh_id) (mn_functions m)"
proof -
  have arr: "(map_get (number_from ks 1 []) x = Some (i + 1) \<and> i \<noteq> -1) \<longleftrightarrow>
      js_index (map Some ks) i = Some (Some x)" if "distinct ks" for ks :: "nat list" and x
    by (auto simp: number_from_lookup [OF that] js_index_map_Some)
  show ?thesis
    unfolding vi.get_succeeds_iff fi.get_succeeds_iff ci.get_succeeds_iff
      new_GlobalContext_tables [OF assms(1)]
    using assms(2-4) by (simp add: buildMapAsArray_number_from arr)
qed

theorem global_index_roundtrip_witness:
  "\<exists>g g'. sample_context = Inr g \<and> getVarIndex 5 S.LOAD g = Inr (0, g')"
proof -
  obtain g where g: "sample_context = Inr g" using sample_context_defined by blast
  have "buildMapAsArray (gc_vars g) = [Some 5]"
    using global_index_roundtrip [OF g [unfolded sample_context_def], of 5 S.LOAD 0 7 9]
    by (simp add: sample_defs class_ids_def)
  then have "\<exists>g'. getVarIndex 5 S.LOAD g = Inr (0, g')"
    using global_index_roundtrip [OF g [unfolded sample_context_def], of 5 S.LOAD 0 7 9]
    by (simp add: sample_defs class_ids_def js_index_def)
  with g show ?thesis by blast
qed

text \<open>
  When no imported object is listed twice, the record that \<open>IRFunction.build\<close> finds for an
  imported object leads to the entry of the import table that the runtime reads: entry \<open>j\<close> of
  module \<open>k\<close> for the item declared at that place.
\<close>

theorem import_info_position:
  assumes "new_GlobalContext m h str p = Inr g" and "distinct (extern_types (mn_imports m))"
    and "k < length (mn_imports m)" and "j < length (em_items (mn_imports m ! k))"
  shows "length (gc_imports g) = length (mn_imports m) \<and>
    xm_externIndex (gc_imports g ! k) = k \<and>
    getImportInfo (it_type (em_items (mn_imports m ! k) ! j)) g
      = Some \<lparr>info_module = k, info_item = xm_items (gc_imports g ! k) ! j\<rparr> \<and>
    xi_externIndex (xm_items (gc_imports g ! k) ! j) = j"
proof -
  obtain g0 mm g1 where b: "buildExternModules (mn_imports m) [] [] g0 = Inr (gc_imports g, mm, g1)"
    and mm: "gc_importMap g = mm"
    using new_GlobalContext_imports [OF assms(1)] by blast
  from buildExternModules_spec [OF b assms(2)] assms(3,4) show ?thesis
    by (auto simp: getImportInfo_def mm)
qed

theorem import_info_position_witness:
  "\<exists>g info. sample_context = Inr g \<and> getImportInfo (ExtFunction 7) g = Some info \<and>
    info_module info = 0 \<and> xi_externIndex (info_item info) = 0"
proof -
  obtain g where g: "sample_context = Inr g" using sample_context_defined by blast
  from import_info_position [OF g [unfolded sample_context_def], of 0 0] g show ?thesis
    by (auto simp: sample_module_def extern_types_def)
qed

text \<open>
  C11. When every description has shapes of its own that no other description shares, the
  static shapes are numbered without gaps: the array of shapes has no hole and the index of a
  shape is the position of its generic shape in it.
\<close>

theorem shape_index_dense:
  assumes "new_GlobalContext m h str p = Inr g"
    and "distinct (concat (map (own_shapes \<circ> metas h) (objectDescriptions m)))"
    and "set (concat (map (own_shapes \<circ> metas h) (objectDescriptions m))) \<inter>
      snd ` set (concat (map (compatibleShapes \<circ> metas h) (objectDescriptions m))) = {}"
  shows "None \<notin> set (buildMapAsArray (gc_staticShapes g)) \<and>
    ((\<exists>g'. getShapeIndex sh g = Inr (i, g')) \<longleftrightarrow>
       js_index (buildMapAsArray (gc_staticShapes g)) i = Some (Some (genericShape sh h)))"
proof -
  obtain n where n: "numbered (gc_staticShapes g, n)"
    using fold_add_meta_shapes_numbered [OF numbered_Nil assms(2) _ assms(3)]
      new_GlobalContext_tables(5) [OF assms(1)] by (metis Int_empty_right fst_conv image_empty
        list.set(1) prod.collapse)
  have "(map_get (gc_staticShapes g) x = Some (i + 1) \<and> i \<noteq> -1) \<longleftrightarrow>
      js_index (map Some (map fst (gc_staticShapes g))) i = Some (Some x)" for x
    unfolding numbered_get [OF n] js_index_map_Some by auto
  then show ?thesis
    unfolding si.get_succeeds_iff numbered_array [OF n] new_GlobalContext_tables(7) [OF assms(1)]
    by auto
qed

theorem shape_index_dense_witness:
  "\<exists>g. sample_context = Inr g \<and> None \<notin> set (buildMapAsArray (gc_staticShapes g))"
proof -
  obtain g where g: "sample_context = Inr g" using sample_context_defined by blast
  from shape_index_dense [OF g [unfolded sample_context_def], of 0 0] g show ?thesis
    by (auto simp: sample_module_def sample_runtime_def own_shapes_def new_ObjectDescription_def)
qed

end
