(* ===== verification/IRFunction.thy ===== *)
theory IRFunction
  imports IRContext
begin

text \<open>
  The code generator of the stack IR (\<open>src/src/semantics/ir/function.ts\<close>): local variables,
  the build context and \<open>IRFunction.buildValue\<close>.

  A step of the builder is a function \<open>Context \<Rightarrow> Context result\<close>; \<open>run\<close> executes a list of
  steps until one throws. The cases of the \<open>switch\<close> in \<open>buildValue\<close> are definitions
  \<open>build_<KIND>\<close> that take the steps which build the operands; \<open>buildValue\<close> itself is
  recursive on the value and dispatches. The IR blocks are numbered in the order of their
  creation, block 0 is the function.
\<close>

section \<open>Local variables\<close>

record LocalVars =
  lv_start :: int
  lv_vars :: "VarDeclareNode list"

definition findVar :: "VarDeclareNode \<Rightarrow> LocalVars \<Rightarrow> int" where
  "findVar v l = find_var v (lv_vars l) (lv_start l)"

fun calcLocalVarCount :: "semantics_value \<Rightarrow> nat" where
  "calcLocalVarCount (BlockValue b t lb lp bt vl rl vs) =
     length (opt_list vl) + fold (\<lambda>v m. max m (calcLocalVarCount v)) vs 0"
| "calcLocalVarCount _ = 0"

section \<open>The build context\<close>

record Context =
  maxTempCount :: int
  curTempCount :: int
  blockMap :: "(block_id, block_ref) js_map"
  blockStack :: "block_ref list" \<comment> \<open>the top is the last element\<close>
  localVarsStack :: "LocalVars list" \<comment> \<open>the top is the last element\<close>
  ctx_varCount :: nat
  c_func :: FunctionDeclareNode
  c_global :: GlobalContext
  irBlocks :: "IRBlock list"

type_synonym ctx_op = "Context \<Rightarrow> Context result"

definition run :: "ctx_op list \<Rightarrow> ctx_op" where
  "run = fold_r (\<lambda>f. f)"

definition pushLocalVars :: "VarDeclareNode list option \<Rightarrow> ctx_op" where
  "pushLocalVars vl c =
     Inr (case vl of
            None \<Rightarrow> c
          | Some vars \<Rightarrow>
              let start = (if localVarsStack c = [] then 0
                           else lv_start (last (localVarsStack c))
                                + int (length (lv_vars (last (localVarsStack c)))))
              in c\<lparr>localVarsStack :=
                     localVarsStack c @ [\<lparr>lv_start = start, lv_vars = vars\<rparr>]\<rparr>)"

text \<open>The loop runs from the innermost list of variables outwards.\<close>

fun find_local :: "VarDeclareNode \<Rightarrow> LocalVars list \<Rightarrow> int" where
  "find_local v [] = -1"
| "find_local v (l # ls) = (let idx = findVar v l in if idx \<ge> 0 then idx else find_local v ls)"

definition getLocalVarIndex :: "VarDeclareNode \<Rightarrow> Context \<Rightarrow> int" where
  "getLocalVarIndex v c = find_local v (rev (localVarsStack c))"

definition getClosureIndex :: "VarDeclareNode \<Rightarrow> Context \<Rightarrow> int" where
  "getClosureIndex v c = findClosureIndex v (c_func c)"

definition getParameterIndex :: "VarDeclareNode \<Rightarrow> Context \<Rightarrow> int" where
  "getParameterIndex v c = findParameterIndex v (c_func c)"

text \<open>A call on the global context that returns an index, and what is done with the index.\<close>

definition with_index ::
  "(GlobalContext \<Rightarrow> (int \<times> GlobalContext) result) \<Rightarrow> (int \<Rightarrow> ctx_op) \<Rightarrow> ctx_op"
where
  "with_index get k c =
     bind_r (get (c_global c)) (\<lambda>(idx, g). k idx (c\<lparr>c_global := g\<rparr>))"

definition ctx_addString :: "js_string \<Rightarrow> GlobalContext \<Rightarrow> (int \<times> GlobalContext) result" where
  "ctx_addString s g = bind_r (gc_addString s g) (\<lambda>(off, g'). Inr (int off, g'))"

definition incTemp :: "int \<Rightarrow> ctx_op" where
  "incTemp n c =
     (let cur = curTempCount c + n
      in Inr (c\<lparr>curTempCount := cur,
                maxTempCount := (if maxTempCount c < cur then cur else maxTempCount c)\<rparr>))"

definition decTemp :: "int \<Rightarrow> ctx_op" where
  "decTemp n c = Inr (c\<lparr>curTempCount := curTempCount c - n\<rparr>)"

definition setBlock :: "block_id \<Rightarrow> block_ref \<Rightarrow> ctx_op" where
  "setBlock b r c = Inr (c\<lparr>blockMap := map_set b r (blockMap c)\<rparr>)"

definition getIRBlock :: "block_id \<Rightarrow> Context \<Rightarrow> block_ref option" where
  "getIRBlock b c = map_get (blockMap c) b"

definition topBlock :: "Context \<Rightarrow> block_ref option" where
  "topBlock c = (if blockStack c = [] then None else Some (last (blockStack c)))"

definition pushCode :: "IRCode \<Rightarrow> ctx_op" where
  "pushCode op c =
     (case topBlock c of
        Some r \<Rightarrow> Inr (c\<lparr>irBlocks := (irBlocks c)[r := block_add op (irBlocks c ! r)]\<rparr>)
      | None \<Rightarrow> Inl JSTypeError)"

definition pushBlock :: "block_ref \<Rightarrow> ctx_op" where
  "pushBlock r c = Inr (c\<lparr>blockStack := blockStack c @ [r]\<rparr>)"

definition popBlock :: ctx_op where
  "popBlock c = Inr (c\<lparr>blockStack := butlast (blockStack c)\<rparr>)"

definition popBlockVars :: "VarDeclareNode list option \<Rightarrow> ctx_op" where
  "popBlockVars vl c =
     Inr (case vl of Some vars \<Rightarrow> c\<lparr>localVarsStack := butlast (localVarsStack c)\<rparr> | None \<Rightarrow> c)"

text \<open>An instruction whose constructor may throw.\<close>

definition pushBinaryOp :: "BinaryOperator \<Rightarrow> value_type \<Rightarrow> ctx_op" where
  "pushBinaryOp opKind t c = bind_r (NewBinaryOp opKind t) (\<lambda>op. pushCode op c)"

section \<open>Variables\<close>

definition var_code :: "VarDeclareNode \<Rightarrow> bool \<Rightarrow> Context \<Rightarrow> IRCode option" where
  "var_code v load c =
     (if storageType v = SemanticsValueKind_LOCAL_VAR \<or>
         storageType v = SemanticsValueKind_LOCAL_CONST
      then (let idx = getLocalVarIndex v c
            in if idx \<ge> 0
               then Some (if load then LoadLocal idx (vd_type v) else SaveLocal idx (vd_type v))
               else None)
      else (let idx = getParameterIndex v c
            in if idx \<ge> 0
               then Some (if load then LoadParam idx (vd_type v) else SaveParam idx (vd_type v))
               else None))"

definition closure_code :: "VarDeclareNode \<Rightarrow> bool \<Rightarrow> Context \<Rightarrow> IRCode option" where
  "closure_code v load c =
     (let idx = getClosureIndex v c
      in if idx \<ge> 0
         then Some (if load then LoadClosure idx (vd_type v) else SaveClosure idx (vd_type v))
         else None)"

definition buildVar :: "VarDeclareNode \<Rightarrow> bool \<Rightarrow> ctx_op" where
  "buildVar v load c =
     (if storageType v = SemanticsValueKind_LOCAL_VAR \<or>
         storageType v = SemanticsValueKind_LOCAL_CONST \<or>
         storageType v = SemanticsValueKind_PARAM_VAR
      then (case (case var_code v load c of Some op \<Rightarrow> Some op | None \<Rightarrow> closure_code v load c) of
              Some op \<Rightarrow> pushCode op c
            | None \<Rightarrow> Inl (JSError ''buildVar Field, cannot found in function''))
      else Inr c)"

text \<open>The same call on \<open>VarValue.ref\<close>: an object without a \<open>storageType\<close> is ignored.\<close>

definition buildVar_ref :: "var_ref \<Rightarrow> bool \<Rightarrow> ctx_op" where
  "buildVar_ref ref load c =
     (case ref of
        RefVar v \<Rightarrow> buildVar v load c
      | RefUndefined \<Rightarrow> Inl JSTypeError
      | _ \<Rightarrow> Inr c)"

definition buildBlockRefList :: "VarDeclareNode list option \<Rightarrow> ctx_op" where
  "buildBlockRefList refList =
     run (concat (map (\<lambda>v. [pushCode (NewRef (Some (vd_type v))), buildVar v False])
            (opt_list refList)))"

definition buildSaveVar :: "SemanticsValueKind \<Rightarrow> value_type \<Rightarrow> var_ref \<Rightarrow> ctx_op" where
  "buildSaveVar kind type ref c =
     (case ref of
        RefVar v \<Rightarrow>
          if kind \<in> {SemanticsValueKind_LOCAL_CONST, SemanticsValueKind_LOCAL_VAR,
                     SemanticsValueKind_PARAM_VAR, SemanticsValueKind_CLOSURE_CONST,
                     SemanticsValueKind_CLOSURE_VAR}
          then (if isRef v
                then run [buildVar v True, pushCode (WriteRef (vd_type v)), decTemp 1] c
                else run [buildVar v False, decTemp 1] c)
          else if kind = SemanticsValueKind_GLOBAL_CONST \<or> kind = SemanticsValueKind_GLOBAL_VAR
          then (if isRef v
                then run [with_index (getVarIndex (vd_id v) S.LOAD) (\<lambda>i. pushCode (LoadGlobal i type)),
                          pushCode (WriteRef (vd_type v)), decTemp 1] c
                else run [with_index (getVarIndex (vd_id v) S.SAVE) (\<lambda>i. pushCode (SaveGlobal i type)),
                          decTemp 1] c)
          else Inl (JSError ''var cannot be saved'')
      | _ \<Rightarrow> Inl (JSError ''must be a var''))"

section \<open>The cases of buildValue\<close>

text \<open>\<open>opKind && opKind != EqualsToken\<close>.\<close>

definition compound_op :: "BinaryOperator option \<Rightarrow> BinaryOperator option" where
  "compound_op op = (case op of Some k \<Rightarrow> if k = EqualsToken then None else Some k | None \<Rightarrow> None)"

text \<open>\<open>buildValue\<close> of an optional value that the code takes for given: \<open>undefined\<close> has no kind.\<close>

definition build_opt :: "ctx_op option \<Rightarrow> ctx_op" where
  "build_opt f c = (case f of Some g \<Rightarrow> g c | None \<Rightarrow> Inl JSTypeError)"

definition build_BLOCK ::
  "block_id \<Rightarrow> value_type \<Rightarrow> js_string \<Rightarrow> bool \<Rightarrow> VarDeclareNode list option \<Rightarrow>
   VarDeclareNode list option \<Rightarrow> ctx_op list \<Rightarrow> ctx_op"
where
  "build_BLOCK b t label isLoop vl rl values c =
     (let r = length (irBlocks c)
      in run ([\<lambda>c. Inr (c\<lparr>irBlocks := irBlocks c @ [new_IRBlock label isLoop]\<rparr>),
               pushCode (NewBlock r t), setBlock b r, pushLocalVars vl, pushBlock r,
               buildBlockRefList rl] @ values @ [popBlockVars vl, popBlock]) c)"

definition build_BLOCK_BRANCH :: "block_id \<Rightarrow> ctx_op" where
  "build_BLOCK_BRANCH target c =
     (case getIRBlock target c of
        Some r \<Rightarrow> pushCode (NewBranch r) c
      | None \<Rightarrow> Inl (JSError ''IR Need Target''))"

definition build_BLOCK_BRANCH_IF :: "block_id \<Rightarrow> bool \<Rightarrow> ctx_op" where
  "build_BLOCK_BRANCH_IF target trueBranch c =
     (case getIRBlock target c of
        Some r \<Rightarrow> run [decTemp 1, pushCode (NewBranchIf r trueBranch)] c
      | None \<Rightarrow> Inl (JSError ''IR Need Target''))"

definition build_THIS :: ctx_op where
  "build_THIS c =
     run [pushCode (LoadThis (map_option ot_type (thisClassType (c_func c)))), incTemp 1] c"

definition build_SUPER :: ctx_op where
  "build_SUPER c =
     (case thisClassType (c_func c) of
        Some t \<Rightarrow> run [pushCode (LoadThis (ot_super t)), incTemp 1] c
      | None \<Rightarrow> Inl JSTypeError)"

definition build_LITERAL :: "value_type \<Rightarrow> literal \<Rightarrow> ctx_op" where
  "build_LITERAL t v = run [pushCode (LoadConst t v), incTemp 1]"

definition build_LOCAL_VAR :: "var_ref \<Rightarrow> ctx_op" where
  "build_LOCAL_VAR ref =
     (case ref of
        RefVar v \<Rightarrow>
          run ([buildVar v True] @ (if isRef v then [pushCode (ReadRef (vd_type v))] else [])
               @ [incTemp 1])
      | _ \<Rightarrow> run [])"

definition build_GLOBAL_VAR :: "SemanticsValueKind \<Rightarrow> value_type \<Rightarrow> var_ref \<Rightarrow> ctx_op" where
  "build_GLOBAL_VAR kind type ref =
     (case ref of
        RefFunction f \<Rightarrow>
          if kind = SemanticsValueKind_GLOBAL_CONST
          then run [with_index (getFunctionIndex (fh_id f) S.LOAD)
                      (\<lambda>i. pushCode (LoadFunction i (fh_returnType f))), incTemp 1]
          else (\<lambda>c. Inl (JSError ''unkown var''))
      | RefObject ot \<Rightarrow>
          if isClassObject (ot_type ot)
          then (case ot_instance ot of
                  Some inst \<Rightarrow>
                    run [with_index (getClassIndex inst S.LOAD)
                           (\<lambda>i. pushCode (LoadClass i (ot_type ot))), incTemp 1]
                | None \<Rightarrow> (\<lambda>c. Inl (JSError ''global class is not exist'')))
          else incTemp 1
      | RefVar v \<Rightarrow>
          run ([with_index (getVarIndex (vd_id v) S.LOAD) (\<lambda>i. pushCode (LoadGlobal i type))]
               @ (if isRef v then [pushCode (ReadRef (vd_type v))] else []) @ [incTemp 1])
      | _ \<Rightarrow> (\<lambda>c. Inl (JSError ''unkown var'')))"

definition build_VAR :: "SemanticsValueKind \<Rightarrow> value_type \<Rightarrow> var_ref \<Rightarrow> ctx_op" where
  "build_VAR kind type ref =
     (if kind \<in> {SemanticsValueKind_PARAM_VAR, SemanticsValueKind_CLOSURE_VAR,
                 SemanticsValueKind_CLOSURE_CONST, SemanticsValueKind_LOCAL_VAR,
                 SemanticsValueKind_LOCAL_CONST}
      then build_LOCAL_VAR ref
      else if kind = SemanticsValueKind_GLOBAL_VAR \<or> kind = SemanticsValueKind_GLOBAL_CONST
      then build_GLOBAL_VAR kind type ref
      else run [])"

text \<open>\<open>save\<close> is \<open>buildSaveVar\<close> on the left operand, \<open>None\<close> when that is no \<open>VarValue\<close>.\<close>

definition buildBinaryExprValue ::
  "BinaryOperator \<Rightarrow> value_type \<Rightarrow> ctx_op option \<Rightarrow> ctx_op \<Rightarrow> ctx_op \<Rightarrow> ctx_op"
where
  "buildBinaryExprValue opKind t save left right =
     (if opKind = EqualsToken
      then run [right,
                (case save of Some f \<Rightarrow> f
                 | None \<Rightarrow> (\<lambda>c. Inl (JSError ''error unkown binary express left'')))]
      else if isEqualOperator opKind
      then (case save of
              Some f \<Rightarrow> run [left, right, pushBinaryOp opKind t, decTemp 1, f]
            | None \<Rightarrow> (\<lambda>c. Inl (JSError ''error unkown binary express left'')))
      else run [left, right, pushBinaryOp opKind t, decTemp 1])"

definition save_left :: "semantics_value \<Rightarrow> ctx_op option" where
  "save_left v = (case v of VarValue k t r \<Rightarrow> Some (buildSaveVar k t r) | _ \<Rightarrow> None)"

definition build_FUNCTION_CALL ::
  "value_type \<Rightarrow> ctx_op \<Rightarrow> ctx_op list option \<Rightarrow> value_type list option \<Rightarrow> ctx_op"
where
  "build_FUNCTION_CALL t func params typeArgs =
     (let n = int (length (opt_list params))
      in run ([func, incTemp 1] @ opt_list params
              @ [pushCode (NewCall t n typeArgs), decTemp n]))"

definition element_get_code :: "SemanticsValueKind \<Rightarrow> value_type \<Rightarrow> IRCode" where
  "element_get_code kind t =
     (if kind = SemanticsValueKind_STRING_INDEX_GET then NewStringIndexGet
      else if kind = SemanticsValueKind_ARRAY_INDEX_GET then NewArrayIndexGet t
      else if kind = SemanticsValueKind_OBJECT_INDEX_GET then NewObjectIndexGet t
      else NewObjectKeyGet t)"

definition build_ELEMENT_GET :: "SemanticsValueKind \<Rightarrow> value_type \<Rightarrow> ctx_op \<Rightarrow> ctx_op \<Rightarrow> ctx_op" where
  "build_ELEMENT_GET kind t owner index =
     (if kind \<in> {SemanticsValueKind_STRING_INDEX_GET, SemanticsValueKind_ARRAY_INDEX_GET,
                 SemanticsValueKind_OBJECT_INDEX_GET, SemanticsValueKind_OBJECT_KEY_GET}
      then run [index, owner, pushCode (element_get_code kind t), decTemp 1]
      else run [])"

definition element_set_code :: "SemanticsValueKind \<Rightarrow> value_type \<Rightarrow> IRCode" where
  "element_set_code kind t =
     (if kind = SemanticsValueKind_STRING_INDEX_SET then NewStringIndexSet
      else if kind = SemanticsValueKind_ARRAY_INDEX_SET then NewArrayIndexSet t
      else if kind = SemanticsValueKind_OBJECT_INDEX_SET then NewObjectIndexSet t
      else NewObjectKeySet t)"

definition build_ELEMENT_SET ::
  "SemanticsValueKind \<Rightarrow> value_type \<Rightarrow> value_type \<Rightarrow> value_type \<Rightarrow> BinaryOperator option \<Rightarrow>
   ctx_op \<Rightarrow> ctx_op \<Rightarrow> ctx_op option \<Rightarrow> ctx_op"
where
  "build_ELEMENT_SET kind t owner_t index_t op owner index val =
     (if kind \<in> {SemanticsValueKind_STRING_INDEX_SET, SemanticsValueKind_ARRAY_INDEX_SET,
                 SemanticsValueKind_OBJECT_INDEX_SET, SemanticsValueKind_OBJECT_KEY_SET}
      then run ([owner, index]
             @ (case compound_op op of
                  Some k \<Rightarrow> [pushCode (NewDupStackValue (-1) owner_t),
                             pushCode (NewDupStackValue (-1) index_t), incTemp 2,
                             build_opt val, pushBinaryOp k t]
                | None \<Rightarrow> [build_opt val])
             @ [pushCode (element_set_code kind t), decTemp 2])
      else run [])"

definition build_NEW_CONSTRCTOR_OBJECT ::
  "object_ty \<Rightarrow> ctx_op list \<Rightarrow> value_type list option \<Rightarrow> ctx_op"
where
  "build_NEW_CONSTRCTOR_OBJECT ot params typeArgs =
     (let n = int (length params)
      in run ([with_index (getClassIndex (ot_id ot) S.NEW) (\<lambda>i. pushCode (NewObject i (ot_type ot))),
               incTemp 1] @ params
              @ [pushCode (NewConstructorCall (ot_type ot) n typeArgs), decTemp n]))"

text \<open>
  The initial values of an object literal: a hole is skipped, but its member is still read;
  \<open>members\<close> is the array of the description, \<open>None\<close> when the type has no description.
\<close>

definition init_member ::
  "'v MemberDescription option list option \<Rightarrow> nat \<Rightarrow> (value_type \<times> ctx_op) option \<Rightarrow> ctx_op"
where
  "init_member ms i init c =
     (case ms of
        None \<Rightarrow> Inl JSTypeError
      | Some mems \<Rightarrow>
          (case init of
             None \<Rightarrow> Inr c
           | Some (t, f) \<Rightarrow>
               (case js_array_get mems i of
                  Some m \<Rightarrow> run [pushCode (NewDupStackValue 0 t), f,
                                 pushCode (NewSetOffset (int (m_index m)) t)] c
                | None \<Rightarrow> run [pushCode (NewDupStackValue 0 t), f, \<lambda>c. Inl JSTypeError] c)))"

definition build_NEW_LITERAL_OBJECT ::
  "object_ty \<Rightarrow> (value_type \<times> ctx_op) option list \<Rightarrow> ctx_op"
where
  "build_NEW_LITERAL_OBJECT ot inits c =
     (let ms = map_option (\<lambda>a. members (metas (gc_heap (c_global c)) a)) (meta_of (ot_type ot))
      in run ([with_index (getClassIndex (ot_id ot) S.NEW) (\<lambda>i. pushCode (NewObject i (ot_type ot))),
               incTemp 1]
              @ map (\<lambda>(i, init). init_member ms i init) (enumerate 0 inits)
              @ [decTemp (int (length inits))]) c)"

definition build_NEW_FROM_CLASS_OBJECT ::
  "value_type \<Rightarrow> ctx_op \<Rightarrow> ctx_op list \<Rightarrow> value_type list option \<Rightarrow> ctx_op"
where
  "build_NEW_FROM_CLASS_OBJECT t clazz params typeArgs =
     (let n = int (length params)
      in run ([clazz, pushCode (NewDynamic t)] @ params
              @ [pushCode (NewConstructorCall t n typeArgs), decTemp n]))"

definition build_NEW_LITERAL_ARRAY :: "value_type \<Rightarrow> ctx_op list \<Rightarrow> ctx_op" where
  "build_NEW_LITERAL_ARRAY t inits =
     (let n = int (length inits)
      in run (inits @ [pushCode (NewArrayParameters n t), decTemp (n - 1)]))"

definition build_NEW_ARRAY :: "value_type \<Rightarrow> ctx_op list \<Rightarrow> ctx_op" where
  "build_NEW_ARRAY t params =
     (let n = int (length params)
      in run (params @ [pushCode (NewArrayParameters n t), decTemp (n - 1)]))"

definition build_NEW_ARRAY_LEN :: "value_type \<Rightarrow> ctx_op \<Rightarrow> ctx_op" where
  "build_NEW_ARRAY_LEN t len = run [len, pushCode (NewArrayLength t), incTemp 1]"

definition build_NEW_CLOSURE_FUNCTION :: "func_head \<Rightarrow> semantics_value list option \<Rightarrow> ctx_op" where
  "build_NEW_CLOSURE_FUNCTION f inits =
     run ([with_index (getFunctionIndex (fh_id f) S.NEW) (\<lambda>i. pushCode (NewClosure i (fh_funcType f))),
           incTemp 1]
          @ concat (map (\<lambda>(i, v). [buildVar_ref (value_ref v) True,
                                    pushCode (InitClosureValue (int i) (sv_type v))])
              (enumerate 0 (opt_list inits))))"

text \<open>The getter \<open>shape\<close> of a value, with \<open>GetShapeFromType\<close> of \<open>src/src/semantics/builtin.ts\<close>.\<close>

definition GetShapeFromType :: "value_type \<Rightarrow> GlobalContext \<Rightarrow> shape_ref option result" where
  "GetShapeFromType t g =
     (if vt_kind t \<in> {ValueTypeKind.OBJECT, ValueTypeKind.ARRAY, ValueTypeKind.MAP, ValueTypeKind.SET}
      then (case meta_of t of
              Some a \<Rightarrow> Inr (thisShape (metas (gc_heap g) a))
            | None \<Rightarrow> Inl JSTypeError)
      else if vt_kind t = ValueTypeKind.RAW_STRING \<or> vt_kind t = ValueTypeKind.STRING
      then Inr (gc_stringShape g)
      else Inr None)"

definition sv_shape :: "shape_ref option \<Rightarrow> value_type \<Rightarrow> GlobalContext \<Rightarrow> shape_ref option result" where
  "sv_shape sh t g =
     (case sh of Some s \<Rightarrow> Inr (Some s) | None \<Rightarrow> GetShapeFromType (effectType t) g)"

definition bind_cast_shape :: "shape_ref option \<Rightarrow> value_type \<Rightarrow> ctx_op" where
  "bind_cast_shape sh t c =
     bind_r (sv_shape sh t (c_global c)) (\<lambda>shape.
       case shape of
         Some s \<Rightarrow> with_index (getShapeIndex s) (\<lambda>i. pushCode (NewBindShape i t)) c
       | None \<Rightarrow>
           (case meta_of t of
              Some a \<Rightarrow> with_index (getMetaIndex a) (\<lambda>i. pushCode (NewBuildShape i t)) c
            | None \<Rightarrow> Inl JSTypeError))"

definition build_CAST :: "SemanticsValueKind \<Rightarrow> value_type \<Rightarrow> shape_ref option \<Rightarrow> ctx_op \<Rightarrow> ctx_op" where
  "build_CAST kind t sh val =
     (if kind \<in> {SemanticsValueKind_VALUE_CAST_VALUE, SemanticsValueKind_ANY_CAST_VALUE,
                 SemanticsValueKind_VALUE_CAST_ANY, SemanticsValueKind_ANY_CAST_OBJECT,
                 SemanticsValueKind_OBJECT_CAST_ANY}
      then run [val]
      else if kind = SemanticsValueKind_OBJECT_CAST_OBJECT
      then run [val, bind_cast_shape sh t, incTemp 1]
      else run [])"

subsection \<open>Member access\<close>

definition buildMethodCall ::
  "value_type \<Rightarrow> ctx_op list option \<Rightarrow> value_type list option \<Rightarrow> ctx_op"
where
  "buildMethodCall returnType params typeArgs =
     (let n = int (length (opt_list params))
      in run (opt_list params @ [pushCode (NewMethodCall returnType n typeArgs), decTemp (n + 1)]))"

definition build_DIRECT_GETTER :: "value_type \<Rightarrow> var_ref \<Rightarrow> ctx_op \<Rightarrow> ctx_op" where
  "build_DIRECT_GETTER t getter owner =
     (case getter of
        RefFunction f \<Rightarrow>
          run [with_index (getFunctionIndex (fh_id f) S.CALL) (\<lambda>i. pushCode (LoadFunction i t)),
               incTemp 1, owner, pushCode (NewMethodCall t 0 None), decTemp 1]
      | _ \<Rightarrow> (\<lambda>c. Inl (JSError ''DirectGetter should has a function'')))"

text \<open>\<open>getter\<close> is \<open>None\<close> when the field is undefined or no \<open>VarValue\<close>.\<close>

definition direct_setter_value ::
  "value_type \<Rightarrow> value_type \<Rightarrow> var_ref option \<Rightarrow> BinaryOperator option \<Rightarrow> ctx_op option \<Rightarrow> ctx_op list"
where
  "direct_setter_value t owner_t getter op val =
     (case compound_op op of
        Some k \<Rightarrow>
          (case getter of
             None \<Rightarrow> [\<lambda>c. Inl (JSError ''DirectSetter need a getter'')]
           | Some (RefFunction f) \<Rightarrow>
               [with_index (getFunctionIndex (fh_id f) S.CALL) (\<lambda>i. pushCode (LoadFunction i t)),
                pushCode (NewDupStackValue (-1) owner_t), pushCode (NewMethodCall t 0 None),
                incTemp 1, build_opt val, pushBinaryOp k t]
           | Some _ \<Rightarrow> [\<lambda>c. Inl (JSError ''DirectSetter need function getter'')])
      | None \<Rightarrow> [build_opt val])"

definition build_DIRECT_SETTER ::
  "value_type \<Rightarrow> value_type \<Rightarrow> var_ref \<Rightarrow> var_ref option \<Rightarrow> BinaryOperator option \<Rightarrow> ctx_op \<Rightarrow>
   ctx_op option \<Rightarrow> ctx_op"
where
  "build_DIRECT_SETTER t owner_t setter getter op owner val =
     (case setter of
        RefFunction f \<Rightarrow>
          run ([with_index (getFunctionIndex (fh_id f) S.CALL) (\<lambda>i. pushCode (LoadFunction i t)),
                incTemp 1, owner] @ direct_setter_value t owner_t getter op val
               @ [pushCode (NewMethodCall Primitive_Void 0 None), decTemp 3])
      | _ \<Rightarrow> (\<lambda>c. Inl (JSError ''DirectGetter should has a function'')))"

definition build_DIRECT_CALL ::
  "value_type \<Rightarrow> var_ref \<Rightarrow> ctx_op \<Rightarrow> ctx_op list option \<Rightarrow> value_type list option \<Rightarrow> ctx_op"
where
  "build_DIRECT_CALL returnType method owner params typeArgs =
     (case method of
        RefFunction f \<Rightarrow>
          run [with_index (getFunctionIndex (fh_id f) S.CALL)
                 (\<lambda>i. pushCode (LoadFunction i (fh_returnType f))),
               incTemp 1, owner, buildMethodCall returnType params typeArgs]
      | _ \<Rightarrow> (\<lambda>c. Inl (JSError ''Cannot find the function'')))"

definition build_OFFSET_GET :: "value_type \<Rightarrow> int \<Rightarrow> ctx_op \<Rightarrow> ctx_op" where
  "build_OFFSET_GET t index owner = run [owner, pushCode (NewGetOffset index t)]"

definition build_OFFSET_GETTER :: "value_type \<Rightarrow> value_type \<Rightarrow> int \<Rightarrow> ctx_op \<Rightarrow> ctx_op" where
  "build_OFFSET_GETTER t owner_t index owner =
     run [owner, pushCode (NewDupStackValue 0 owner_t), incTemp 1,
          pushCode (NewGetOffset index t), pushCode NewSwap,
          pushCode (NewMethodCall t 0 None), decTemp 1]"

definition build_OFFSET_SET ::
  "value_type \<Rightarrow> value_type \<Rightarrow> int \<Rightarrow> BinaryOperator option \<Rightarrow> ctx_op \<Rightarrow> ctx_op option \<Rightarrow> ctx_op"
where
  "build_OFFSET_SET t owner_t index op owner val =
     run ([owner]
          @ (case compound_op op of
               Some k \<Rightarrow> [pushCode (NewDupStackValue 0 owner_t), pushCode (NewGetOffset index t),
                          incTemp 1, build_opt val, pushBinaryOp k t]
             | None \<Rightarrow> [build_opt val])
          @ [pushCode (NewSetOffset index t), decTemp 2])"

definition build_OFFSET_SETTER ::
  "value_type \<Rightarrow> value_type \<Rightarrow> int \<Rightarrow> int option \<Rightarrow> BinaryOperator option \<Rightarrow> ctx_op \<Rightarrow>
   ctx_op option \<Rightarrow> ctx_op"
where
  "build_OFFSET_SETTER t owner_t index getterIndex op owner val =
     run ([owner, pushCode (NewDupStackValue 0 owner_t), incTemp 1,
           pushCode (NewGetOffset index t), pushCode NewSwap, incTemp 2]
          @ (case compound_op op of
               Some k \<Rightarrow>
                 (if getterIndex = None \<or> getterIndex = Some 0
                  then [\<lambda>c. Inl (JSError ''OffsetSetterValue's getterIndex is null'')]
                  else [pushCode (NewDupStackValue 0 owner_t),
                        pushCode (NewGetOffset (the getterIndex) t),
                        pushCode (NewDupStackValue (-1) owner_t),
                        pushCode (NewMethodCall t 0 None), incTemp 1,
                        build_opt val, pushBinaryOp k t])
             | None \<Rightarrow> [build_opt val])
          @ [pushCode (NewMethodCall t 1 None), decTemp 3])"

definition build_OFFSET_CALL ::
  "value_type \<Rightarrow> value_type \<Rightarrow> value_type \<Rightarrow> int \<Rightarrow> ctx_op \<Rightarrow> ctx_op list option \<Rightarrow>
   value_type list option \<Rightarrow> ctx_op"
where
  "build_OFFSET_CALL funcType returnType owner_t index owner params typeArgs =
     run [owner, pushCode (NewDupStackValue 0 owner_t), incTemp 1,
          pushCode (NewGetOffset index funcType), pushCode NewSwap,
          buildMethodCall returnType params typeArgs]"

definition build_VTABLE_GET :: "value_type \<Rightarrow> int \<Rightarrow> ctx_op \<Rightarrow> ctx_op" where
  "build_VTABLE_GET t index owner = run [owner, pushCode (NewGetVTable index t)]"

definition build_VTABLE_SET ::
  "value_type \<Rightarrow> value_type \<Rightarrow> int \<Rightarrow> BinaryOperator option \<Rightarrow> ctx_op \<Rightarrow> ctx_op option \<Rightarrow> ctx_op"
where
  "build_VTABLE_SET t owner_t index op owner val =
     run ([owner]
          @ (case compound_op op of
               Some k \<Rightarrow> [pushCode (NewDupStackValue 0 owner_t), pushCode (NewGetVTable index t),
                          incTemp 1, build_opt val, pushBinaryOp k t]
             | None \<Rightarrow> [build_opt val])
          @ [pushCode (NewSetVTable index t), decTemp 1])"

definition build_VTABLE_CALL :: "value_type \<Rightarrow> int \<Rightarrow> ctx_op \<Rightarrow> ctx_op list option \<Rightarrow> ctx_op" where
  "build_VTABLE_CALL t index owner params =
     (let n = int (length (opt_list params))
      in run ([owner] @ opt_list params @ [pushCode (NewVTableCall index n t), decTemp n]))"

definition build_SHAPE_GET :: "value_type \<Rightarrow> int \<Rightarrow> ctx_op \<Rightarrow> ctx_op" where
  "build_SHAPE_GET t index owner = run [owner, pushCode (NewGetShape index t)]"

definition build_SHAPE_SET ::
  "value_type \<Rightarrow> value_type \<Rightarrow> int \<Rightarrow> BinaryOperator option \<Rightarrow> ctx_op \<Rightarrow> ctx_op option \<Rightarrow> ctx_op"
where
  "build_SHAPE_SET t owner_t index op owner val =
     run ([owner]
          @ (case compound_op op of
               Some k \<Rightarrow> [pushCode (NewDupStackValue 0 owner_t), pushCode (NewGetShape index t),
                          incTemp 1, build_opt val, pushBinaryOp k t]
             | None \<Rightarrow> [build_opt val])
          @ [pushCode (NewSetShape index t), decTemp 1])"

definition build_SHAPE_CALL :: "value_type \<Rightarrow> int \<Rightarrow> ctx_op \<Rightarrow> ctx_op list option \<Rightarrow> ctx_op" where
  "build_SHAPE_CALL t index owner params =
     (let n = int (length (opt_list params))
      in run ([owner] @ opt_list params @ [pushCode (NewShapeCall index n t), decTemp n]))"

definition build_DYNAMIC_GET :: "js_string \<Rightarrow> ctx_op \<Rightarrow> ctx_op" where
  "build_DYNAMIC_GET name owner =
     run [owner, with_index (ctx_addString name) (\<lambda>off. pushCode (NewGetDynamic off))]"

definition build_DYNAMIC_SET ::
  "value_type \<Rightarrow> js_string \<Rightarrow> BinaryOperator option \<Rightarrow> ctx_op \<Rightarrow> ctx_op option \<Rightarrow> ctx_op"
where
  "build_DYNAMIC_SET owner_t name op owner val =
     run [owner,
          with_index (ctx_addString name) (\<lambda>off.
            run ((case compound_op op of
                    Some k \<Rightarrow> [pushCode (NewDupStackValue 0 owner_t), pushCode (NewGetDynamic off),
                               incTemp 1, build_opt val, pushBinaryOp k Primitive_Any]
                  | None \<Rightarrow> [build_opt val])
                 @ [pushCode (NewSetDynamic off)]))]"

definition build_DYNAMIC_CALL :: "js_string \<Rightarrow> ctx_op \<Rightarrow> ctx_op list option \<Rightarrow> ctx_op" where
  "build_DYNAMIC_CALL name owner params =
     (let n = int (length (opt_list params))
      in run [owner,
              with_index (ctx_addString name) (\<lambda>off.
                run (opt_list params @ [pushCode (NewDynamicCall off n), decTemp n]))])"

definition build_RET :: "value_type option \<Rightarrow> ctx_op option \<Rightarrow> ctx_op" where
  "build_RET t expr = run (opt_elem expr @ [pushCode (NewReturn t)])"

section \<open>buildValue\<close>

definition getter_ref :: "semantics_value option \<Rightarrow> var_ref option" where
  "getter_ref g = (case g of Some (VarValue k t r) \<Rightarrow> Some r | _ \<Rightarrow> None)"

primrec buildValue :: "semantics_value \<Rightarrow> ctx_op" where
  "buildValue (ThisValue t) = build_THIS"
| "buildValue (SuperValue t u ps) = build_SUPER"
| "buildValue NopValue = run []"
| "buildValue (LiteralValue t v) = build_LITERAL t v"
| "buildValue (VarValue k t r) = build_VAR k t r"
| "buildValue (BinaryExprValue t op l r) =
     buildBinaryExprValue op t (save_left l) (buildValue l) (buildValue r)"
| "buildValue (PrefixUnaryExprValue t x f) = run []"
| "buildValue (PostUnaryExprValue t x f) = run []"
| "buildValue (ConditionExprValue t c a b) = run []"
| "buildValue (CommaExprValue t xs) = run []"
| "buildValue (FunctionCallValue t f ps ta) =
     build_FUNCTION_CALL t (buildValue f) (map_option (map buildValue) ps) ta"
| "buildValue (EnumerateKeysGetValue t x) = run []"
| "buildValue (NewClosureFunction f cl) = build_NEW_CLOSURE_FUNCTION f cl"
| "buildValue (ClosureCallValue t f ps) = run []"
| "buildValue (ConstructorCallValue s ct ps) = run []"
| "buildValue (AnyCallValue t f ps) = run []"
| "buildValue (ElementGetValue k t ow ix) = build_ELEMENT_GET k t (buildValue ow) (buildValue ix)"
| "buildValue (ElementSetValue k t ow ix v op) =
     build_ELEMENT_SET k t (sv_type ow) (sv_type ix) op (buildValue ow) (buildValue ix)
       (map_option buildValue v)"
| "buildValue (CastValue k t v sh) = build_CAST k t sh (buildValue v)"
| "buildValue (InstanceOfValue v ct) = run []"
| "buildValue (NewClassValue t) = run []"
| "buildValue (ToStringValue k v) = run []"
| "buildValue (TypeofValue v) = run []"
| "buildValue (TemplateExprValue h fs) = run []"
| "buildValue UnimplementValue = run []"
| "buildValue (DynamicGetValue ow n mc t) = build_DYNAMIC_GET n (buildValue ow)"
| "buildValue (DynamicSetValue ow n t v op) =
     build_DYNAMIC_SET (sv_type ow) n op (buildValue ow) (map_option buildValue v)"
| "buildValue (DynamicCallValue ow n ps) =
     build_DYNAMIC_CALL n (buildValue ow) (map_option (map buildValue) ps)"
| "buildValue (ShapeGetValue ow t i) = build_SHAPE_GET t i (buildValue ow)"
| "buildValue (ShapeSetValue ow t i v op) =
     build_SHAPE_SET t (sv_type ow) i op (buildValue ow) (map_option buildValue v)"
| "buildValue (ShapeCallValue ow t i ps) =
     build_SHAPE_CALL t i (buildValue ow) (map_option (map buildValue) ps)"
| "buildValue (OffsetGetValue ow t i) = build_OFFSET_GET t i (buildValue ow)"
| "buildValue (OffsetSetValue ow t i v op) =
     build_OFFSET_SET t (sv_type ow) i op (buildValue ow) (map_option buildValue v)"
| "buildValue (OffsetGetterValue ow t i) = build_OFFSET_GETTER t (sv_type ow) i (buildValue ow)"
| "buildValue (OffsetSetterValue ow t i g v op) =
     build_OFFSET_SETTER t (sv_type ow) i g op (buildValue ow) (map_option buildValue v)"
| "buildValue (OffsetCallValue ow ft t i ps ta) =
     build_OFFSET_CALL ft t (sv_type ow) i (buildValue ow) (map_option (map buildValue) ps) ta"
| "buildValue (VTableGetValue ow t i) = build_VTABLE_GET t i (buildValue ow)"
| "buildValue (VTableSetValue ow t i v op) =
     build_VTABLE_SET t (sv_type ow) i op (buildValue ow) (map_option buildValue v)"
| "buildValue (VTableCallValue ow t i ps) =
     build_VTABLE_CALL t i (buildValue ow) (map_option (map buildValue) ps)"
| "buildValue (DirectGetterValue ow t g) = build_DIRECT_GETTER t (value_ref g) (buildValue ow)"
| "buildValue (DirectCallValue ow t m ps ta) =
     build_DIRECT_CALL t (value_ref m) (buildValue ow) (map_option (map buildValue) ps) ta"
| "buildValue (DirectSetterValue ow t s g v op) =
     build_DIRECT_SETTER t (sv_type ow) (value_ref s) (getter_ref g) op (buildValue ow)
       (map_option buildValue v)"
| "buildValue (DirectGetValue ow t i) = run []"
| "buildValue (NewLiteralObjectValue ot vs) =
     build_NEW_LITERAL_OBJECT ot (map (map_option (\<lambda>f. (sv_type f, buildValue f))) vs)"
| "buildValue (NewLiteralArrayValue t vs) = build_NEW_LITERAL_ARRAY t (map buildValue vs)"
| "buildValue (NewConstructorObjectValue ot ps ta) =
     build_NEW_CONSTRCTOR_OBJECT ot (map buildValue ps) ta"
| "buildValue (NewArrayValue t ps) = build_NEW_ARRAY t (map buildValue ps)"
| "buildValue (NewArrayLenValue t l) = build_NEW_ARRAY_LEN t (buildValue l)"
| "buildValue (NewFromClassObjectValue t cl ps ta) =
     build_NEW_FROM_CLASS_OBJECT t (buildValue cl) (map buildValue ps) ta"
| "buildValue (BlockValue b t lb lp bt vl rl vs) =
     build_BLOCK b t lb lp vl rl (map buildValue vs)"
| "buildValue (BlockBranchValue b) = build_BLOCK_BRANCH b"
| "buildValue (BlockBranchIfValue b cond tb) = build_BLOCK_BRANCH_IF b tb"
| "buildValue (ReturnValue e) = build_RET (map_option sv_type e) (map_option buildValue e)"
| "buildValue (ReBindingValue v) = run []"
| "buildValue (SpreadValue t x) = run []"

section \<open>Functions\<close>

record IRFunction =
  fn_blocks :: "IRBlock list" \<comment> \<open>block 0 is the function itself\<close>
  fn_paramCount :: nat
  fn_varCount :: nat
  fn_tempCount :: int
  fn_closureCount :: nat
  fn_funcNode :: FunctionDeclareNode

definition isStartFunction :: "IRFunction \<Rightarrow> bool" where
  "isStartFunction f = (ownKind (fn_funcNode f) = 64)"

definition new_Context :: "GlobalContext \<Rightarrow> FunctionDeclareNode \<Rightarrow> Context result" where
  "new_Context g func =
     pushLocalVars (varList func)
       \<lparr>maxTempCount = 0, curTempCount = 0, blockMap = [], blockStack = [0],
        localVarsStack = [],
        ctx_varCount = length (opt_list (varList func))
          + (case flattenValue func of Some v \<Rightarrow> calcLocalVarCount v | None \<Rightarrow> 0),
        c_func = func, c_global = g, irBlocks = [new_IRBlock (js_lit ''function'') False]\<rparr>"

text \<open>\<open>build\<close> on a new \<open>IRFunction\<close>; the result has the changed global context.\<close>

definition build :: "FunctionDeclareNode \<Rightarrow> GlobalContext \<Rightarrow> (IRFunction \<times> GlobalContext) result" where
  "build func g =
     (let f0 = \<lparr>fn_blocks = [new_IRBlock (js_lit ''function'') False],
                fn_paramCount = length (opt_list (parameters func)), fn_varCount = 0,
                fn_tempCount = 0, fn_closureCount = 0, fn_funcNode = func\<rparr>
      in case flattenValue func of
           Some v \<Rightarrow>
             bind_r (new_Context g func) (\<lambda>c0.
             bind_r (buildValue v c0) (\<lambda>c.
               Inr (f0\<lparr>fn_blocks := irBlocks c, fn_tempCount := maxTempCount c,
                       fn_varCount := ctx_varCount c,
                       fn_closureCount := length (opt_list (closureVars func))\<rparr>, c_global c)))
         | None \<Rightarrow>
             (case getImportInfo (ExtFunction (fh_id func)) g of
                Some info \<Rightarrow>
                  Inr (f0\<lparr>fn_blocks :=
                            [block_add (NewImportFunction (int (info_module info))
                                          (int (xi_externIndex (info_item info))))
                               (new_IRBlock (js_lit ''function'') False)]\<rparr>, g)
              | None \<Rightarrow> Inr (f0, g)))"

end
