(* ===== verification/BuildInvariants.thy ===== *)
theory BuildInvariants
  imports IRFunction "HOL-Library.Sublist" "HOL-Library.Multiset"
begin

text \<open>
  Properties of the code generator of \<open>src/src/semantics/ir/function.ts\<close>.

  The locale \<open>build_relation\<close> states what the single steps of the builder have to satisfy so
  that a relation between the contexts before and after a step holds for \<open>buildValue\<close> on any
  value. The relation is graded by the number of local variables that the blocks inside the
  value declare. Its interpretations give the stack discipline of the builder, the growth of
  the code, the validity of branch targets and the bounds of local variable indices.
\<close>

section \<open>Operands and local variables of a value\<close>

text \<open>The values that \<open>buildValue\<close> builds for a value.\<close>

fun operands :: "semantics_value \<Rightarrow> semantics_value list" where
  "operands (BinaryExprValue t op l r) = [l, r]"
| "operands (FunctionCallValue t f ps ta) = f # opt_list ps"
| "operands (ElementGetValue k t ow ix) = [ow, ix]"
| "operands (ElementSetValue k t ow ix v op) = [ow, ix] @ opt_elem v"
| "operands (CastValue k t v sh) = [v]"
| "operands (DynamicGetValue ow n mc t) = [ow]"
| "operands (DynamicSetValue ow n t v op) = ow # opt_elem v"
| "operands (DynamicCallValue ow n ps) = ow # opt_list ps"
| "operands (ShapeGetValue ow t i) = [ow]"
| "operands (ShapeSetValue ow t i v op) = ow # opt_elem v"
| "operands (ShapeCallValue ow t i ps) = ow # opt_list ps"
| "operands (OffsetGetValue ow t i) = [ow]"
| "operands (OffsetSetValue ow t i v op) = ow # opt_elem v"
| "operands (OffsetGetterValue ow t i) = [ow]"
| "operands (OffsetSetterValue ow t i g v op) = ow # opt_elem v"
| "operands (OffsetCallValue ow ft t i ps ta) = ow # opt_list ps"
| "operands (VTableGetValue ow t i) = [ow]"
| "operands (VTableSetValue ow t i v op) = ow # opt_elem v"
| "operands (VTableCallValue ow t i ps) = ow # opt_list ps"
| "operands (DirectGetterValue ow t g) = [ow]"
| "operands (DirectCallValue ow t m ps ta) = ow # opt_list ps"
| "operands (DirectSetterValue ow t s g v op) = ow # opt_elem v"
| "operands (NewLiteralObjectValue ot vs) = concat (map (\<lambda>x. opt_elem x) vs)"
| "operands (NewLiteralArrayValue t vs) = vs"
| "operands (NewConstructorObjectValue ot ps ta) = ps"
| "operands (NewArrayValue t ps) = ps"
| "operands (NewArrayLenValue t l) = [l]"
| "operands (NewFromClassObjectValue t cl ps ta) = cl # ps"
| "operands (BlockValue b t lb lp bt vl rl vs) = vs"
| "operands (ReturnValue e) = opt_elem e"
| "operands _ = []"

fun block_vars :: "semantics_value \<Rightarrow> nat" where
  "block_vars (BlockValue b t lb lp bt vl rl vs) = length (opt_list vl)"
| "block_vars _ = 0"

lemma operands_smaller: "u \<in> set (operands v) \<Longrightarrow> size u < size v"
  by (cases v rule: operands.cases)
     (auto dest!: size_list_mem size_opt_list_mem split: option.splits)

text \<open>
  The local variables of the blocks inside a value, as many as are alive at the same time.
\<close>

function local_need :: "semantics_value \<Rightarrow> nat" where
  "local_need v = block_vars v + fold (\<lambda>u m. max m (local_need u)) (operands v) 0"
  by auto
termination by (relation "measure size") (auto dest: operands_smaller)

declare local_need.simps [simp del]

lemma fold_max_le:
  fixes f :: "'a \<Rightarrow> nat"
  shows "fold (\<lambda>u m. max m (f u)) us k \<le> n \<longleftrightarrow> k \<le> n \<and> (\<forall>u \<in> set us. f u \<le> n)"
  by (induction us arbitrary: k) auto

lemma local_need_le:
  "local_need v \<le> n \<longleftrightarrow> block_vars v \<le> n \<and> (\<forall>u \<in> set (operands v). local_need u \<le> n - block_vars v)"
proof -
  have "local_need v \<le> n \<longleftrightarrow>
      block_vars v \<le> n \<and> fold (\<lambda>u m. max m (local_need u)) (operands v) 0 \<le> n - block_vars v"
    by (subst local_need.simps) auto
  then show ?thesis by (simp add: fold_max_le)
qed

text \<open>A block inside another value than a block declares no variables.\<close>

fun is_block :: "semantics_value \<Rightarrow> bool" where
  "is_block (BlockValue b t lb lp bt vl rl vs) = True"
| "is_block _ = False"

function blocks_nested :: "semantics_value \<Rightarrow> bool" where
  "blocks_nested v \<longleftrightarrow>
     (if is_block v then \<forall>u \<in> set (operands v). blocks_nested u else local_need v = 0)"
  by auto
termination by (relation "measure size") (auto dest: operands_smaller)

declare blocks_nested.simps [simp del]

lemma calcLocalVarCount_need: "blocks_nested v \<Longrightarrow> calcLocalVarCount v = local_need v"
proof (induction v rule: local_need.induct)
  case (1 v)
  show ?case
  proof (cases "is_block v")
    case True
    then obtain b t lb lp bt vl rl vs where v: "v = BlockValue b t lb lp bt vl rl vs"
      by (cases v rule: is_block.cases) auto
    with 1(2) True have "\<forall>u \<in> set vs. blocks_nested u"
      by (subst (asm) blocks_nested.simps) simp
    with 1(1) v have "\<forall>u \<in> set vs. calcLocalVarCount u = local_need u" by simp
    then have "fold (\<lambda>u m. max m (calcLocalVarCount u)) vs 0 = fold (\<lambda>u m. max m (local_need u)) vs 0"
      by (intro fold_cong) auto
    then show ?thesis by (simp add: v local_need.simps [of "BlockValue b t lb lp bt vl rl vs"])
  next
    case False
    with 1(2) have "local_need v = 0" by (subst (asm) blocks_nested.simps) simp
    moreover from False have "calcLocalVarCount v = 0" by (cases v rule: is_block.cases) simp_all
    ultimately show ?thesis by simp
  qed
qed

section \<open>Relations that the builder maintains\<close>

text \<open>The instructions other than accesses to local variables, blocks and branches.\<close>

definition plain_op :: "IRCode \<Rightarrow> bool" where
  "plain_op op \<longleftrightarrow> (\<forall>r. oph op \<noteq> BlockOp r) \<and>
     ir_kind op \<noteq> IRCodeKind_LOAD_LOCAL \<and> ir_kind op \<noteq> IRCodeKind_SAVE_LOCAL"

lemma plain_op_new [simp]:
  "plain_op (new_IRCode k t vt op) \<longleftrightarrow> (\<forall>r. op \<noteq> BlockOp r) \<and>
     k \<noteq> IRCodeKind_LOAD_LOCAL \<and> k \<noteq> IRCodeKind_SAVE_LOCAL"
  by (simp add: plain_op_def new_IRCode_def)

lemma plain_op_updates [simp]:
  "plain_op (op\<lparr>ir_valueType := t\<rparr>) = plain_op op"
  "plain_op (ir_setTypeArguments ts op) = plain_op op"
  "plain_op (with_typeArgs ta op) = plain_op op"
  by (simp_all add: plain_op_def ir_setTypeArguments_def with_typeArgs_def split: option.split)

lemmas ir_constructors =
  LoadConst_def NewReturn_def LoadThis_def LoadGlobal_def LoadFunction_def LoadClass_def
  LoadParam_def LoadClosure_def NewRef_def ReadRef_def WriteRef_def SaveParam_def SaveGlobal_def
  SaveClosure_def NewCall_def NewMethodCall_def NewConstructorCall_def NewDupStackValue_def
  NewSwap_def NewObject_def NewDynamic_def NewArrayLength_def NewArrayParameters_def
  NewClosure_def InitClosureValue_def NewStringIndexGet_def NewStringIndexSet_def
  NewArrayIndexGet_def NewArrayIndexSet_def NewObjectIndexGet_def NewObjectIndexSet_def
  NewObjectKeyGet_def NewObjectKeySet_def NewGetOffset_def NewSetOffset_def NewGetVTable_def
  NewSetVTable_def NewVTableCall_def NewGetShape_def NewSetShape_def NewShapeCall_def
  NewGetDynamic_def NewSetDynamic_def NewDynamicCall_def NewBindShape_def NewBuildShape_def
  element_get_code_def element_set_code_def

lemma binary_kind_plain:
  "binary_kind k = Inr kd \<Longrightarrow> kd \<noteq> IRCodeKind_LOAD_LOCAL \<and> kd \<noteq> IRCodeKind_SAVE_LOCAL"
  by (cases k) (auto simp: binary_kind_def)

lemma NewBinaryOp_plain: "NewBinaryOp k t = Inr op \<Longrightarrow> plain_op op"
  by (auto simp: NewBinaryOp_def bind_r_Inr_iff dest: binary_kind_plain)

lemma run_Nil [simp]: "run [] c = Inr c"
  by (simp add: run_def)

lemma run_Cons [simp]: "run (f # fs) c = bind_r (f c) (run fs)"
  by (simp add: run_def)

lemma run_append: "run (fs @ gs) = (\<lambda>c. bind_r (run fs c) (run gs))"
  by (rule ext) (simp add: run_def fold_r_append)

text \<open>The steps before and after the body of a block.\<close>

definition enter_block ::
  "block_id \<Rightarrow> value_type \<Rightarrow> js_string \<Rightarrow> bool \<Rightarrow> VarDeclareNode list option \<Rightarrow> ctx_op"
where
  "enter_block b t label isLoop vl c =
     (let r = length (irBlocks c)
      in run [\<lambda>c. Inr (c\<lparr>irBlocks := irBlocks c @ [new_IRBlock label isLoop]\<rparr>),
              pushCode (NewBlock r t), setBlock b r, pushLocalVars vl, pushBlock r] c)"

definition exit_block :: "VarDeclareNode list option \<Rightarrow> ctx_op" where
  "exit_block vl = run [popBlockVars vl, popBlock]"

lemma build_BLOCK_split:
  "build_BLOCK b t label isLoop vl rl values c =
     bind_r (enter_block b t label isLoop vl c) (\<lambda>c1.
     bind_r (run (buildBlockRefList rl # values) c1) (exit_block vl))"
proof -
  have "[\<lambda>c. Inr (c\<lparr>irBlocks := irBlocks c @ [new_IRBlock label isLoop]\<rparr>),
          pushCode (NewBlock r t), setBlock b r, pushLocalVars vl, pushBlock r,
          buildBlockRefList rl] @ values @ [popBlockVars vl, popBlock]
     = [\<lambda>c. Inr (c\<lparr>irBlocks := irBlocks c @ [new_IRBlock label isLoop]\<rparr>),
          pushCode (NewBlock r t), setBlock b r, pushLocalVars vl, pushBlock r]
       @ (buildBlockRefList rl # values) @ [popBlockVars vl, popBlock]" for r by simp
  then show ?thesis
    unfolding build_BLOCK_def enter_block_def exit_block_def Let_def by (simp only: run_append)
qed

lemma ctx_addString_frame: "ctx_addString s g = Inr (i, g') \<Longrightarrow> same_tables g g'"
  by (auto simp: ctx_addString_def bind_r_Inr_iff intro: gc_addString_frame)

locale build_relation =
  fixes R :: "nat \<Rightarrow> Context \<Rightarrow> Context \<Rightarrow> bool"
  assumes R_refl: "R n c c"
    and R_trans: "R n c c1 \<Longrightarrow> R n c1 c' \<Longrightarrow> R n c c'"
    and R_push: "plain_op op \<Longrightarrow> pushCode op c = Inr c' \<Longrightarrow> R n c c'"
    and R_var: "buildVar v load c = Inr c' \<Longrightarrow> R n c c'"
    and R_branch: "getIRBlock b c = Some r \<Longrightarrow> op = NewBranch r \<or> op = NewBranchIf r tb \<Longrightarrow>
      pushCode op c = Inr c' \<Longrightarrow> R n c c'"
    and R_inc: "incTemp k c = Inr c' \<Longrightarrow> R n c c'"
    and R_dec: "decTemp k c = Inr c' \<Longrightarrow> R n c c'"
    and R_global: "same_tables (c_global c) g \<Longrightarrow> R n c (c\<lparr>c_global := g\<rparr>)"
    and R_block: "enter_block b bt lb lp vl c = Inr c1 \<Longrightarrow> R n c1 c2 \<Longrightarrow>
      exit_block vl c2 = Inr c' \<Longrightarrow> R (n + length (opt_list vl)) c c'"
begin

definition good :: "nat \<Rightarrow> ctx_op \<Rightarrow> bool" where
  "good n f \<longleftrightarrow> (\<forall>c c'. f c = Inr c' \<longrightarrow> R n c c')"

lemma goodI: "(\<And>c c'. f c = Inr c' \<Longrightarrow> R n c c') \<Longrightarrow> good n f"
  by (simp add: good_def)

lemma goodD: "good n f \<Longrightarrow> f c = Inr c' \<Longrightarrow> R n c c'"
  by (simp add: good_def)

lemma good_run: "(\<And>f. f \<in> set fs \<Longrightarrow> good n f) \<Longrightarrow> good n (run fs)"
proof (induction fs)
  case Nil
  show ?case by (rule goodI) (simp add: R_refl)
next
  case (Cons f fs)
  show ?case
  proof (rule goodI)
    fix c c' assume "run (f # fs) c = Inr c'"
    then obtain c1 where "f c = Inr c1" and "run fs c1 = Inr c'" by (auto simp: bind_r_Inr_iff)
    moreover have "good n f" and "good n (run fs)" using Cons by simp_all
    ultimately show "R n c c'" by (blast intro: R_trans goodD)
  qed
qed

lemma good_skip: "good n Inr"
  by (rule goodI) (simp add: R_refl)

lemma good_throw: "good n (\<lambda>c. Inl e)"
  by (rule goodI) simp

lemma good_push: "plain_op op \<Longrightarrow> good n (pushCode op)"
  by (rule goodI) (rule R_push)

lemma good_var: "good n (buildVar v load)"
  by (rule goodI) (rule R_var)

lemma good_inc: "good n (incTemp k)"
  by (rule goodI) (rule R_inc)

lemma good_dec: "good n (decTemp k)"
  by (rule goodI) (rule R_dec)

lemma good_binary_op: "good n (pushBinaryOp k t)"
  by (rule goodI) (auto simp: pushBinaryOp_def bind_r_Inr_iff dest: NewBinaryOp_plain intro: R_push)

lemma good_with_index:
  assumes "\<And>g i g'. get g = Inr (i, g') \<Longrightarrow> same_tables g g'" and "\<And>i. good n (k i)"
  shows "good n (with_index get k)"
proof (rule goodI)
  fix c c' assume "with_index get k c = Inr c'"
  then obtain i g where "get (c_global c) = Inr (i, g)" and "k i (c\<lparr>c_global := g\<rparr>) = Inr c'"
    by (auto simp: with_index_def bind_r_Inr_iff)
  then show "R n c c'" using assms by (blast intro: R_trans R_global goodD)
qed

lemma good_var_index: "(\<And>i. good n (k i)) \<Longrightarrow> good n (with_index (getVarIndex v s) k)"
  and good_function_index: "(\<And>i. good n (k i)) \<Longrightarrow> good n (with_index (getFunctionIndex f s) k)"
  and good_class_index: "(\<And>i. good n (k i)) \<Longrightarrow> good n (with_index (getClassIndex cl s) k)"
  and good_meta_index: "(\<And>i. good n (k i)) \<Longrightarrow> good n (with_index (getMetaIndex a) k)"
  and good_shape_index: "(\<And>i. good n (k i)) \<Longrightarrow> good n (with_index (getShapeIndex sh) k)"
  and good_string: "(\<And>i. good n (k i)) \<Longrightarrow> good n (with_index (ctx_addString str) k)"
  by (rule good_with_index; blast intro: vi.get_frame fi.get_frame ci.get_frame mi.get_frame
      si.get_frame ctx_addString_frame)+

lemmas good_steps =
  good_run good_throw good_push good_var good_inc good_dec good_binary_op good_var_index
  good_function_index good_class_index good_meta_index good_shape_index good_string

lemma good_var_ref: "good n (buildVar_ref ref load)"
  by (cases ref) (auto simp: buildVar_ref_def intro!: goodI intro: R_var R_refl)

lemma good_refs: "good n (buildBlockRefList rl)"
  unfolding buildBlockRefList_def by (rule good_run) (auto simp: ir_constructors intro!: good_steps)

lemma good_save: "good n (buildSaveVar k t ref)"
proof (rule goodI)
  fix c c' assume "buildSaveVar k t ref c = Inr c'"
  moreover have "good n (run fs)" if "fs \<in> {[buildVar v True, pushCode (WriteRef (vd_type v)), decTemp 1],
      [buildVar v False, decTemp 1],
      [with_index (getVarIndex (vd_id v) S.LOAD) (\<lambda>i. pushCode (LoadGlobal i t)),
        pushCode (WriteRef (vd_type v)), decTemp 1],
      [with_index (getVarIndex (vd_id v) S.SAVE) (\<lambda>i. pushCode (SaveGlobal i t)), decTemp 1]}" for fs v
    using that by (auto simp: ir_constructors intro!: good_steps)
  ultimately show "R n c c'"
    by (cases ref) (auto simp: buildSaveVar_def simp del: run_Cons split: if_splits dest: goodD)
qed

lemma good_opt: "(\<And>g. f = Some g \<Longrightarrow> good n g) \<Longrightarrow> good n (build_opt f)"
  by (rule goodI) (auto simp: build_opt_def split: option.splits dest: goodD)

lemma good_local: "good n (build_LOCAL_VAR ref)"
  by (cases ref) (auto simp: build_LOCAL_VAR_def ir_constructors simp del: run_Cons intro!: good_steps)

lemma good_global: "good n (build_GLOBAL_VAR k t ref)"
  by (cases ref) (auto simp: build_GLOBAL_VAR_def ir_constructors simp del: run_Cons
      intro!: good_steps split: option.splits)

lemma good_build_VAR: "good n (build_VAR k t ref)"
  by (auto simp: build_VAR_def intro: good_local good_global good_run)

lemma good_this: "good n build_THIS"
proof (rule goodI)
  fix c c' assume "build_THIS c = Inr c'"
  moreover have "good n (run [pushCode (LoadThis t), incTemp 1])" for t
    by (auto simp: ir_constructors intro!: good_steps)
  ultimately show "R n c c'" unfolding build_THIS_def by (blast dest: goodD)
qed

lemma good_super: "good n build_SUPER"
proof (rule goodI)
  fix c c' assume "build_SUPER c = Inr c'"
  moreover have "good n (run [pushCode (LoadThis t), incTemp 1])" for t
    by (auto simp: ir_constructors intro!: good_steps)
  ultimately show "R n c c'" unfolding build_SUPER_def
    by (auto simp del: run_Cons split: option.splits dest: goodD)
qed

lemma good_branch: "good n (build_BLOCK_BRANCH b)"
  by (rule goodI) (auto simp: build_BLOCK_BRANCH_def split: option.splits intro: R_branch)

lemma good_branch_if: "good n (build_BLOCK_BRANCH_IF b tb)"
proof (rule goodI)
  fix c c' assume "build_BLOCK_BRANCH_IF b tb c = Inr c'"
  then obtain r c1 where r: "getIRBlock b c = Some r" and d: "decTemp 1 c = Inr c1"
    and p: "pushCode (NewBranchIf r tb) c1 = Inr c'"
    by (auto simp: build_BLOCK_BRANCH_IF_def bind_r_Inr_iff split: option.splits)
  from r d have "getIRBlock b c1 = Some r" by (auto simp: decTemp_def getIRBlock_def)
  then show "R n c c'" using R_dec [OF d] p by (blast intro: R_trans R_branch)
qed

lemma good_cast_shape: "good n (bind_cast_shape sh t)"
proof (rule goodI)
  fix c c' assume "bind_cast_shape sh t c = Inr c'"
  moreover have s: "good n (with_index (getShapeIndex s) (\<lambda>i. pushCode (NewBindShape i t)))" for s
    by (auto simp: ir_constructors intro!: good_steps)
  moreover have a: "good n (with_index (getMetaIndex a) (\<lambda>i. pushCode (NewBuildShape i t)))" for a
    by (auto simp: ir_constructors intro!: good_steps)
  ultimately show "R n c c'"
    unfolding bind_cast_shape_def
    by (auto simp: bind_r_Inr_iff split: option.splits intro: goodD [OF s] goodD [OF a])
qed

lemma good_init_member:
  assumes "\<And>t f. init = Some (t, f) \<Longrightarrow> good n f"
  shows "good n (init_member ms i init)"
proof (rule goodI)
  fix c c' assume "init_member ms i init c = Inr c'"
  moreover have "good n (run [pushCode (NewDupStackValue 0 t), f, pushCode (NewSetOffset k t)])"
    and "good n (run [pushCode (NewDupStackValue 0 t), f, \<lambda>c. Inl JSTypeError])"
    if "init = Some (t, f)" for t f k
    using assms [OF that] by (auto simp: ir_constructors intro!: good_steps)
  ultimately show "R n c c'"
    unfolding init_member_def
    by (auto simp: R_refl simp del: run_Cons split: option.splits prod.splits dest: goodD)
qed

lemma good_literal_object:
  assumes "\<And>t f. Some (t, f) \<in> set inits \<Longrightarrow> good n f"
  shows "good n (build_NEW_LITERAL_OBJECT ot inits)"
proof (rule goodI)
  fix c c' assume b: "build_NEW_LITERAL_OBJECT ot inits c = Inr c'"
  have "good n (init_member ms i init)" if "(i, init) \<in> set (enumerate 0 inits)" for ms i init
    using that assms by (auto intro!: good_init_member dest: set_zip_rightD simp: enumerate_eq_zip)
  then have "good n (run ([with_index (getClassIndex (ot_id ot) S.NEW)
        (\<lambda>i. pushCode (NewObject i (ot_type ot))), incTemp 1]
      @ map (\<lambda>(i, init). init_member ms i init) (enumerate 0 inits)
      @ [decTemp (int (length inits))]))" for ms
    by (auto simp: ir_constructors simp del: run_Cons intro!: good_steps)
  with b show "R n c c'" unfolding build_NEW_LITERAL_OBJECT_def Let_def by (blast dest: goodD)
qed

lemma good_closure: "good n (build_NEW_CLOSURE_FUNCTION f inits)"
  unfolding build_NEW_CLOSURE_FUNCTION_def
  by (rule good_run) (auto simp: ir_constructors intro!: good_steps good_var_ref)

lemma good_method_call:
  "(\<And>f. f \<in> set (opt_list ps) \<Longrightarrow> good n f) \<Longrightarrow> good n (buildMethodCall t ps ta)"
  unfolding buildMethodCall_def Let_def
  by (rule good_run) (auto simp: ir_constructors intro!: good_steps)

lemma good_block:
  assumes "\<And>f. f \<in> set fs \<Longrightarrow> good n f"
  shows "good (n + length (opt_list vl)) (build_BLOCK b t lb lp vl rl fs)"
proof (rule goodI)
  fix c c' assume "build_BLOCK b t lb lp vl rl fs c = Inr c'"
  then obtain c1 c2 where "enter_block b t lb lp vl c = Inr c1"
    and "run (buildBlockRefList rl # fs) c1 = Inr c2" and "exit_block vl c2 = Inr c'"
    unfolding build_BLOCK_split by (auto simp: bind_r_Inr_iff simp del: run_Cons)
  moreover have "good n (run (buildBlockRefList rl # fs))"
    by (rule good_run) (auto intro: good_refs assms)
  ultimately show "R (n + length (opt_list vl)) c c'" by (blast intro: R_block dest: goodD)
qed

text \<open>The remaining cases of \<open>buildValue\<close> are sequences of steps.\<close>

lemma good_binary:
  "good n l \<Longrightarrow> good n r \<Longrightarrow> (\<And>f. save = Some f \<Longrightarrow> good n f) \<Longrightarrow>
   good n (buildBinaryExprValue op t save l r)"
  by (cases save) (auto simp: buildBinaryExprValue_def simp del: run_Cons intro!: good_steps)

lemma good_save_left: "save_left v = Some f \<Longrightarrow> good n f"
  by (auto simp: save_left_def good_save split: semantics_value.splits)

lemmas sequences =
  build_LITERAL_def build_FUNCTION_CALL_def build_ELEMENT_GET_def build_ELEMENT_SET_def
  build_NEW_CONSTRCTOR_OBJECT_def build_NEW_FROM_CLASS_OBJECT_def build_NEW_LITERAL_ARRAY_def
  build_NEW_ARRAY_def build_NEW_ARRAY_LEN_def build_CAST_def build_OFFSET_GET_def
  build_OFFSET_GETTER_def build_OFFSET_SET_def build_OFFSET_SETTER_def build_OFFSET_CALL_def
  build_VTABLE_GET_def build_VTABLE_SET_def build_VTABLE_CALL_def build_SHAPE_GET_def
  build_SHAPE_SET_def build_SHAPE_CALL_def build_DYNAMIC_GET_def build_DYNAMIC_SET_def
  build_DYNAMIC_CALL_def build_RET_def

lemma good_literal: "good n (build_LITERAL t v)"
  by (auto simp: sequences ir_constructors simp del: run_Cons intro!: good_steps)

lemma good_calls:
  assumes "good n f" and "\<And>p. p \<in> set (opt_list ps) \<Longrightarrow> good n p"
  shows "good n (build_FUNCTION_CALL t f ps ta)"
    and "good n (build_VTABLE_CALL t i f ps)"
    and "good n (build_SHAPE_CALL t i f ps)"
    and "good n (build_DYNAMIC_CALL name f ps)"
    and "good n (build_OFFSET_CALL ft t ot i f ps ta)"
    and "good n (build_DIRECT_CALL t ref f ps ta)"
  using assms
  by (auto simp: sequences Let_def ir_constructors build_DIRECT_CALL_def simp del: run_Cons
      intro!: good_steps good_method_call split: var_ref.splits)

lemma good_gets:
  assumes "good n f" and "good n g"
  shows "good n (build_ELEMENT_GET k t f g)"
    and "good n (build_CAST k t sh f)"
    and "good n (build_NEW_ARRAY_LEN t f)"
    and "good n (build_OFFSET_GET t i f)"
    and "good n (build_OFFSET_GETTER t ot i f)"
    and "good n (build_VTABLE_GET t i f)"
    and "good n (build_SHAPE_GET t i f)"
    and "good n (build_DYNAMIC_GET name f)"
    and "good n (build_DIRECT_GETTER t ref f)"
  using assms
  by (auto simp: sequences ir_constructors build_DIRECT_GETTER_def simp del: run_Cons
      intro!: good_steps good_cast_shape split: var_ref.splits)

lemma good_sets:
  assumes "good n f" and "good n g" and "\<And>h. val = Some h \<Longrightarrow> good n h"
  shows "good n (build_ELEMENT_SET k t ot it op f g val)"
    and "good n (build_OFFSET_SET t ot i op f val)"
    and "good n (build_OFFSET_SETTER t ot i gi op f val)"
    and "good n (build_VTABLE_SET t ot i op f val)"
    and "good n (build_SHAPE_SET t ot i op f val)"
    and "good n (build_DYNAMIC_SET ot name op f val)"
    and "good n (build_DIRECT_SETTER t ot ref gref op f val)"
  using assms
  by (auto simp: sequences ir_constructors build_DIRECT_SETTER_def direct_setter_value_def
      simp del: run_Cons intro!: good_steps good_opt split: var_ref.splits option.splits if_splits)

lemma good_news:
  assumes "\<And>p. p \<in> set ps \<Longrightarrow> good n p" and "good n f"
  shows "good n (build_NEW_CONSTRCTOR_OBJECT oty ps ta)"
    and "good n (build_NEW_FROM_CLASS_OBJECT t f ps ta)"
    and "good n (build_NEW_LITERAL_ARRAY t ps)"
    and "good n (build_NEW_ARRAY t ps)"
  using assms
  by (auto simp: sequences Let_def ir_constructors simp del: run_Cons intro!: good_steps)

lemma good_ret: "(\<And>f. expr = Some f \<Longrightarrow> good n f) \<Longrightarrow> good n (build_RET t expr)"
  by (auto simp: sequences ir_constructors simp del: run_Cons intro!: good_steps split: option.splits)

theorem good_buildValue: "local_need v \<le> n \<Longrightarrow> good n (buildValue v)"
proof (induction v arbitrary: n rule: local_need.induct)
  case (1 v)
  have IH: "good n (buildValue u)" if "u \<in> set (operands v)" "\<not> is_block v" for u
  proof -
    have "block_vars v = 0" using that(2) by (cases v rule: is_block.cases) simp_all
    then have "local_need u \<le> n" using 1(2) that(1) by (simp add: local_need_le [of v])
    then show ?thesis using 1(1) that(1) by blast
  qed
  note cases = good_skip good_this good_super good_run good_literal good_build_VAR good_closure
    good_branch good_branch_if
  show ?case
  proof (cases "is_block v")
    case True
    then obtain b t lb lp bt vl rl vs where v: "v = BlockValue b t lb lp bt vl rl vs"
      by (cases v rule: is_block.cases) auto
    define k where "k = n - length (opt_list vl)"
    have "n = k + length (opt_list vl)" and "\<forall>u \<in> set vs. good k (buildValue u)"
      using 1 by (auto simp: v local_need_le [of "BlockValue b t lb lp bt vl rl vs"] k_def)
    then show ?thesis by (auto simp: v intro!: good_block)
  next
    case False
    with IH have ops: "\<And>u. u \<in> set (operands v) \<Longrightarrow> good n (buildValue u)" by blast
    show ?thesis
    proof (cases v rule: operands.cases)
      case (1 t op l r)
      with ops show ?thesis by (auto intro: good_binary good_save_left)
    qed (insert ops False, auto simp: map_option_eq_Some [THEN eq_iff_swap] intro!: cases good_calls good_gets good_sets good_news good_ret
        good_literal_object)
  qed
qed

end

section \<open>Lemmas: single steps\<close>

lemma pushCode_Inr:
  "pushCode op c = Inr c' \<longleftrightarrow> blockStack c \<noteq> [] \<and>
     c' = c\<lparr>irBlocks := (irBlocks c)[last (blockStack c) :=
        block_add op (irBlocks c ! last (blockStack c))]\<rparr>"
  by (auto simp: pushCode_def topBlock_def)

lemma var_code_cases:
  assumes "var_code v load c = Some op"
  shows "plain_op op \<or> (\<exists>i. 0 \<le> i \<and> i = getLocalVarIndex v c \<and>
    (op = LoadLocal i (vd_type v) \<or> op = SaveLocal i (vd_type v)))"
  using assms
  by (auto simp: var_code_def Let_def ir_constructors split: if_splits)

lemma closure_code_plain: "closure_code v load c = Some op \<Longrightarrow> plain_op op"
  by (auto simp: closure_code_def Let_def ir_constructors split: if_splits)

lemma buildVar_Inr:
  assumes "buildVar v load c = Inr c'"
  shows "c' = c \<or> (\<exists>op. pushCode op c = Inr c' \<and> (plain_op op \<or>
    (\<exists>i. 0 \<le> i \<and> i = getLocalVarIndex v c \<and>
      (op = LoadLocal i (vd_type v) \<or> op = SaveLocal i (vd_type v)))))"
  using assms var_code_cases closure_code_plain
  by (fastforce simp: buildVar_def split: if_splits option.splits)

text \<open>The context after entering and after leaving a block.\<close>

definition lv_top :: "LocalVars list \<Rightarrow> int" where
  "lv_top ls = (if ls = [] then 0 else lv_start (last ls) + int (length (lv_vars (last ls))))"

definition push_lvs :: "VarDeclareNode list option \<Rightarrow> LocalVars list \<Rightarrow> LocalVars list" where
  "push_lvs vl ls =
     (case vl of None \<Rightarrow> ls | Some vars \<Rightarrow> ls @ [\<lparr>lv_start = lv_top ls, lv_vars = vars\<rparr>])"

lemma pushLocalVars_eq:
  "pushLocalVars vl c = Inr (c\<lparr>localVarsStack := push_lvs vl (localVarsStack c)\<rparr>)"
  by (simp add: pushLocalVars_def push_lvs_def lv_top_def Let_def split: option.split)

lemma enter_block_Inr:
  "enter_block b t lb lp vl c = Inr c1 \<longleftrightarrow> blockStack c \<noteq> [] \<and>
    c1 = c\<lparr>irBlocks := (irBlocks c @ [new_IRBlock lb lp])[last (blockStack c) :=
             block_add (NewBlock (length (irBlocks c)) t)
               ((irBlocks c @ [new_IRBlock lb lp]) ! last (blockStack c))],
           blockMap := map_set b (length (irBlocks c)) (blockMap c),
           localVarsStack := push_lvs vl (localVarsStack c),
           blockStack := blockStack c @ [length (irBlocks c)]\<rparr>"
  by (auto simp: enter_block_def Let_def pushCode_Inr bind_r_Inr_iff setBlock_def pushBlock_def
      pushLocalVars_eq)

definition pop_lvs :: "VarDeclareNode list option \<Rightarrow> LocalVars list \<Rightarrow> LocalVars list" where
  "pop_lvs vl ls = (if vl = None then ls else butlast ls)"

lemma exit_block_Inr:
  "exit_block vl c = Inr c' \<longleftrightarrow>
     c' = c\<lparr>localVarsStack := pop_lvs vl (localVarsStack c),
            blockStack := butlast (blockStack c)\<rparr>"
  by (auto simp: exit_block_def popBlockVars_def popBlock_def pop_lvs_def split: option.splits)

lemma pop_push_lvs [simp]: "pop_lvs vl (push_lvs vl ls) = ls"
  by (simp add: pop_lvs_def push_lvs_def split: option.split)

section \<open>The stacks and the growth of the code\<close>

text \<open>
  What a build step may do: the stacks and the tables stay as they are, the current block
  grows at its end, the other blocks keep their code and new blocks are added.
\<close>

definition ctx_extends :: "Context \<Rightarrow> Context \<Rightarrow> bool" where
  "ctx_extends c c' \<longleftrightarrow>
     blockStack c' = blockStack c \<and> localVarsStack c' = localVarsStack c \<and>
     ctx_varCount c' = ctx_varCount c \<and> c_func c' = c_func c \<and>
     same_tables (c_global c) (c_global c') \<and> length (irBlocks c) \<le> length (irBlocks c') \<and>
     (\<forall>a < length (irBlocks c).
        prefix (codes (irBlocks c ! a)) (codes (irBlocks c' ! a)) \<and>
        (topBlock c \<noteq> Some a \<longrightarrow> irBlocks c' ! a = irBlocks c ! a))"

lemma ctx_extends_refl: "ctx_extends c c"
  by (simp add: ctx_extends_def)

lemma ctx_extends_trans:
  assumes "ctx_extends c c1" and "ctx_extends c1 c'"
  shows "ctx_extends c c'"
proof -
  have top: "topBlock c1 = topBlock c" using assms(1) by (simp add: ctx_extends_def topBlock_def)
  have "same_tables (c_global c) (c_global c1)" and "same_tables (c_global c1) (c_global c')"
    using assms unfolding ctx_extends_def by blast+
  then have "same_tables (c_global c) (c_global c')" by (rule same_tables_trans)
  moreover have "prefix (codes (irBlocks c ! a)) (codes (irBlocks c' ! a)) \<and>
      (topBlock c \<noteq> Some a \<longrightarrow> irBlocks c' ! a = irBlocks c ! a)" if "a < length (irBlocks c)" for a
  proof -
    have a1: "a < length (irBlocks c1)" using assms(1) that by (simp add: ctx_extends_def)
    have "prefix (codes (irBlocks c ! a)) (codes (irBlocks c1 ! a))"
      and "prefix (codes (irBlocks c1 ! a)) (codes (irBlocks c' ! a))"
      using assms that a1 unfolding ctx_extends_def by blast+
    then have "prefix (codes (irBlocks c ! a)) (codes (irBlocks c' ! a))" by (rule prefix_order.trans)
    then show ?thesis using assms that a1 top by (simp add: ctx_extends_def)
  qed
  ultimately show ?thesis using assms by (simp add: ctx_extends_def)
qed

lemma prefix_codes_push:
  "a < length bs \<Longrightarrow> prefix (codes (bs ! a)) (codes (bs[r := block_add op (bs ! r)] ! a))"
  by (cases "a = r") (simp_all add: block_add_def)

lemma ctx_extends_push: "pushCode op c = Inr c' \<Longrightarrow> ctx_extends c c'"
  by (auto simp: ctx_extends_def pushCode_Inr topBlock_def prefix_codes_push)

lemma ctx_extends_var: "buildVar v load c = Inr c' \<Longrightarrow> ctx_extends c c'"
  by (drule buildVar_Inr) (auto intro: ctx_extends_push ctx_extends_refl)

lemma ctx_extends_block:
  assumes "enter_block b t lb lp vl c = Inr c1" and "ctx_extends c1 c2"
    and "exit_block vl c2 = Inr c'"
  shows "ctx_extends c c'"
proof -
  have top: "topBlock c1 = Some (length (irBlocks c))"
    and len: "length (irBlocks c1) = Suc (length (irBlocks c))"
    using assms(1) by (auto simp: enter_block_Inr topBlock_def)
  have "prefix (codes (irBlocks c ! a)) (codes (irBlocks c' ! a)) \<and>
      (topBlock c \<noteq> Some a \<longrightarrow> irBlocks c' ! a = irBlocks c ! a)" if "a < length (irBlocks c)" for a
  proof -
    let ?bs = "irBlocks c @ [new_IRBlock lb lp]"
    have "prefix (codes (?bs ! a)) (codes (irBlocks c1 ! a))"
      using assms(1) that prefix_codes_push [of a ?bs] by (auto simp: enter_block_Inr)
    moreover have "topBlock c \<noteq> Some a \<longrightarrow> irBlocks c1 ! a = ?bs ! a"
      using assms(1) by (auto simp: enter_block_Inr topBlock_def)
    moreover have "irBlocks c2 ! a = irBlocks c1 ! a"
      using assms(2) top len that by (simp add: ctx_extends_def)
    ultimately show ?thesis using that assms(3) by (auto simp: exit_block_Inr nth_append)
  qed
  then show ?thesis
    using assms by (auto simp: ctx_extends_def enter_block_Inr exit_block_Inr)
qed

interpretation ext: build_relation "\<lambda>n. ctx_extends"
proof unfold_locales
  show "ctx_extends c c'" if "incTemp k c = Inr c'" for k c c'
    using that by (auto simp: incTemp_def Let_def ctx_extends_def)
  show "ctx_extends c c'" if "decTemp k c = Inr c'" for k c c'
    using that by (auto simp: decTemp_def ctx_extends_def)
  show "ctx_extends c (c\<lparr>c_global := g\<rparr>)" if "same_tables (c_global c) g" for c g
    using that by (simp add: ctx_extends_def)
qed (blast intro: ctx_extends_refl ctx_extends_trans ctx_extends_push ctx_extends_var ctx_extends_block)+

section \<open>Blocks, branches and their targets\<close>

text \<open>The blocks that the \<open>BLOCK\<close> instructions of a block enter.\<close>

definition child_refs :: "IRBlock \<Rightarrow> block_ref list" where
  "child_refs B =
     concat (map (\<lambda>op. case oph op of
                         BlockOp r \<Rightarrow> if ir_kind op = IRCodeKind_BLOCK then [r] else []
                       | _ \<Rightarrow> []) (codes B))"

text \<open>
  Well-formed code: the blocks form a tree with root 0 in which every block is entered by one
  instruction of a block with a smaller number, and a branch refers to an existing block.
\<close>

definition targets_below :: "nat \<Rightarrow> IRBlock list \<Rightarrow> bool" where
  "targets_below n bs \<longleftrightarrow>
     (\<forall>B \<in> set bs. \<forall>op \<in> set (codes B). \<forall>r. oph op = BlockOp r \<longrightarrow> r < n)"

definition tree_code :: "IRBlock list \<Rightarrow> bool" where
  "tree_code bs \<longleftrightarrow>
     mset (concat (map child_refs bs)) = mset [1..<length bs] \<and>
     (\<forall>a < length bs. \<forall>r \<in> set (child_refs (bs ! a)). a < r) \<and>
     targets_below (length bs) bs"

definition ctx_tree :: "Context \<Rightarrow> bool" where
  "ctx_tree c \<longleftrightarrow> tree_code (irBlocks c) \<and> irBlocks c \<noteq> [] \<and>
     (\<forall>r \<in> set (blockStack c). r < length (irBlocks c)) \<and>
     (\<forall>b r. map_get (blockMap c) b = Some r \<longrightarrow> r < length (irBlocks c))"

lemma child_refs_add:
  "child_refs (block_add op B) = child_refs B @
     (case oph op of BlockOp r \<Rightarrow> if ir_kind op = IRCodeKind_BLOCK then [r] else [] | _ \<Rightarrow> [])"
  by (simp add: child_refs_def block_add_def)

lemma mset_concat_update:
  "a < length bs \<Longrightarrow> f y = f (bs ! a) @ xs \<Longrightarrow>
   mset (concat (map f (bs[a := y]))) = mset (concat (map f bs)) + mset xs"
proof (induction bs arbitrary: a)
  case (Cons b bs)
  then show ?case by (cases a) (simp_all add: add_ac)
qed simp

lemma targets_below_push:
  assumes "targets_below n bs" and "\<forall>r. oph op = BlockOp r \<longrightarrow> r < n"
  shows "targets_below n (bs[a := block_add op (bs ! a)])"
proof (cases "a < length bs")
  case True
  then have "bs ! a \<in> set bs" by simp
  with assms show ?thesis
    unfolding targets_below_def
    by (auto simp: block_add_def dest!: set_update_subset_insert [THEN subsetD])
qed (use assms in \<open>simp add: list_update_beyond\<close>)

lemma targets_below_snoc:
  "targets_below n bs \<Longrightarrow> codes B = [] \<Longrightarrow> targets_below (Suc n) (bs @ [B])"
  by (auto simp: targets_below_def less_Suc_eq)

text \<open>Adding an instruction without a child block.\<close>

lemma tree_code_push:
  assumes "tree_code bs" and "a < length bs" and "child_refs (block_add op (bs ! a)) = child_refs (bs ! a)"
    and "\<forall>r. oph op = BlockOp r \<longrightarrow> r < length bs"
  shows "tree_code (bs[a := block_add op (bs ! a)])"
proof -
  have "map child_refs (bs[a := block_add op (bs ! a)]) = map child_refs bs"
    using assms(2,3) by (simp add: map_update) (metis list_update_id nth_map)
  moreover have "\<forall>k < length bs. child_refs (bs[a := block_add op (bs ! a)] ! k) = child_refs (bs ! k)"
    using assms(2,3) by (auto simp: nth_list_update)
  moreover have "targets_below (length bs) (bs[a := block_add op (bs ! a)])"
    using assms by (intro targets_below_push) (simp_all add: tree_code_def)
  ultimately show ?thesis using assms(1) by (simp add: tree_code_def)
qed

text \<open>Adding a block and the instruction that enters it.\<close>

lemma tree_code_new_block:
  assumes "tree_code bs" and "a < length bs" and "codes B = []"
  shows "tree_code ((bs @ [B])[a := block_add (NewBlock (length bs) t) ((bs @ [B]) ! a)])"
proof -
  let ?op = "NewBlock (length bs) t"
  let ?bs = "(bs @ [B])[a := block_add ?op ((bs @ [B]) ! a)]"
  have refs: "child_refs (block_add ?op ((bs @ [B]) ! a)) = child_refs ((bs @ [B]) ! a) @ [length bs]"
    by (simp add: child_refs_add NewBlock_def new_IRCode_def)
  have B: "child_refs B = []" using assms(3) by (simp add: child_refs_def)
  have "mset (concat (map child_refs ?bs)) = mset (concat (map child_refs (bs @ [B]))) + mset [length bs]"
    using assms(2) refs by (intro mset_concat_update) auto
  then have "mset (concat (map child_refs ?bs)) = mset [1..<length ?bs]"
    using assms(1,2) B by (simp add: tree_code_def)
  moreover have "\<forall>k < length ?bs. \<forall>r \<in> set (child_refs (?bs ! k)). k < r"
    using assms(1,2) refs B by (auto simp: tree_code_def nth_list_update nth_append less_Suc_eq)
  moreover have "targets_below (length ?bs) ?bs"
    using assms
    by (intro targets_below_push) (simp_all add: targets_below_snoc tree_code_def NewBlock_def new_IRCode_def)
  ultimately show ?thesis by (simp add: tree_code_def)
qed

lemma ctx_tree_push:
  assumes "ctx_tree c" and "pushCode op c = Inr c'"
    and "\<forall>r. oph op = BlockOp r \<longrightarrow> r < length (irBlocks c) \<and> ir_kind op \<noteq> IRCodeKind_BLOCK"
  shows "ctx_tree c'"
proof -
  have "child_refs (block_add op B) = child_refs B" for B
    using assms(3) by (auto simp: child_refs_add split: operand.split)
  then show ?thesis
    using assms tree_code_push [of "irBlocks c" "last (blockStack c)" op]
    by (auto simp: ctx_tree_def pushCode_Inr)
qed

lemma ctx_tree_var: "ctx_tree c \<Longrightarrow> buildVar v load c = Inr c' \<Longrightarrow> ctx_tree c'"
  by (drule buildVar_Inr)
     (auto simp: LoadLocal_def SaveLocal_def new_IRCode_def plain_op_def intro: ctx_tree_push)

lemma ctx_tree_block:
  assumes "ctx_tree c" and "enter_block b t lb lp vl c = Inr c1"
  shows "ctx_tree c1"
  using assms tree_code_new_block [of "irBlocks c" "last (blockStack c)" "new_IRBlock lb lp" t]
  by (auto simp: ctx_tree_def enter_block_Inr new_IRBlock_def less_Suc_eq)

interpretation tree: build_relation "\<lambda>n c c'. ctx_tree c \<longrightarrow> ctx_tree c'"
proof unfold_locales
  show "ctx_tree c \<longrightarrow> ctx_tree c'" if "incTemp k c = Inr c'" for k c c'
    using that by (auto simp: incTemp_def Let_def ctx_tree_def)
  show "ctx_tree c \<longrightarrow> ctx_tree c'" if "decTemp k c = Inr c'" for k c c'
    using that by (auto simp: decTemp_def ctx_tree_def)
  show "ctx_tree c \<longrightarrow> ctx_tree (c\<lparr>c_global := g\<rparr>)" for c g
    by (simp add: ctx_tree_def)
  show "ctx_tree c \<longrightarrow> ctx_tree c'" if "plain_op op" and "pushCode op c = Inr c'" for op c c'
    using that by (auto simp: plain_op_def intro: ctx_tree_push)
  show "ctx_tree c \<longrightarrow> ctx_tree c'"
    if "getIRBlock b c = Some r" and "op = NewBranch r \<or> op = NewBranchIf r tb"
      and "pushCode op c = Inr c'" for b c r op tb c'
  proof
    assume c: "ctx_tree c"
    then have "r < length (irBlocks c)" using that(1) by (simp add: ctx_tree_def getIRBlock_def)
    then show "ctx_tree c'"
      using that(2) ctx_tree_push [OF c that(3)]
      by (auto simp: NewBranch_def NewBranchIf_def new_IRCode_def)
  qed
  show "ctx_tree c \<longrightarrow> ctx_tree c'"
    if "enter_block b bt lb lp vl c = Inr c1" and "ctx_tree c1 \<longrightarrow> ctx_tree c2"
      and "exit_block vl c2 = Inr c'" for b bt lb lp vl c c1 c2 c'
  proof
    assume "ctx_tree c"
    with that have "ctx_tree c2" using ctx_tree_block by blast
    with that(3) show "ctx_tree c'"
      by (auto simp: exit_block_Inr ctx_tree_def dest: in_set_butlastD)
  qed
qed (blast intro: ctx_tree_var)+

section \<open>Indices of local variables\<close>

definition lvs_ok :: "LocalVars list \<Rightarrow> bool" where
  "lvs_ok ls \<longleftrightarrow> 0 \<le> lv_top ls \<and>
     (\<forall>l \<in> set ls. 0 \<le> lv_start l \<and> lv_start l + int (length (lv_vars l)) \<le> lv_top ls)"

text \<open>Every access to a local variable has an index below the bound.\<close>

definition locals_below :: "int \<Rightarrow> IRBlock list \<Rightarrow> bool" where
  "locals_below B bs \<longleftrightarrow>
     (\<forall>b \<in> set bs. \<forall>op \<in> set (codes b).
        ir_kind op = IRCodeKind_LOAD_LOCAL \<or> ir_kind op = IRCodeKind_SAVE_LOCAL \<longrightarrow>
        0 \<le> op_number op \<and> op_number op < B)"

lemma find_var_range:
  "0 \<le> i \<Longrightarrow> 0 \<le> find_var v vs i \<Longrightarrow> find_var v vs i < i + int (length vs)"
proof (induction vs arbitrary: i)
  case (Cons x vs)
  show ?case using Cons.IH [of "i + 1"] Cons.prems by (auto split: if_splits)
qed simp

lemma find_local_range:
  assumes "\<forall>l \<in> set ls. 0 \<le> lv_start l \<and> lv_start l + int (length (lv_vars l)) \<le> B"
    and "0 \<le> find_local v ls"
  shows "find_local v ls < B"
  using assms
proof (induction ls)
  case (Cons l ls)
  have "findVar v l < B" if "0 \<le> findVar v l"
    using find_var_range [of "lv_start l" v "lv_vars l"] that Cons.prems(1)
    by (simp add: findVar_def)
  with Cons show ?case by (auto simp: Let_def split: if_splits)
qed simp

lemma getLocalVarIndex_range:
  "lvs_ok (localVarsStack c) \<Longrightarrow> 0 \<le> getLocalVarIndex v c \<Longrightarrow>
   getLocalVarIndex v c < lv_top (localVarsStack c)"
  unfolding getLocalVarIndex_def by (rule find_local_range) (auto simp: lvs_ok_def)

lemma lvs_ok_push:
  assumes "lvs_ok ls"
  shows "lvs_ok (push_lvs vl ls) \<and> lv_top (push_lvs vl ls) = lv_top ls + int (length (opt_list vl))"
proof (cases vl)
  case (Some vars)
  have "lv_top (push_lvs vl ls) = lv_top ls + int (length vars)"
    by (simp add: Some push_lvs_def) (simp add: lv_top_def)
  with assms show ?thesis by (auto simp: Some lvs_ok_def push_lvs_def)
qed (use assms in \<open>simp add: push_lvs_def\<close>)

lemma locals_below_push:
  assumes "locals_below B bs"
    and "ir_kind op = IRCodeKind_LOAD_LOCAL \<or> ir_kind op = IRCodeKind_SAVE_LOCAL \<Longrightarrow>
      0 \<le> op_number op \<and> op_number op < B"
  shows "locals_below B (bs[a := block_add op (bs ! a)])"
proof (cases "a < length bs")
  case True
  then have "bs ! a \<in> set bs" by simp
  with assms show ?thesis
    unfolding locals_below_def
    by (auto simp: block_add_def dest!: set_update_subset_insert [THEN subsetD])
qed (use assms in \<open>simp add: list_update_beyond\<close>)

text \<open>
  The graded relation: with room for \<open>n\<close> more variables below the bound, the step keeps all
  indices below it.
\<close>

definition keeps_locals :: "int \<Rightarrow> nat \<Rightarrow> Context \<Rightarrow> Context \<Rightarrow> bool" where
  "keeps_locals B n c c' \<longleftrightarrow> localVarsStack c' = localVarsStack c \<and>
     (lvs_ok (localVarsStack c) \<and> lv_top (localVarsStack c) + int n \<le> B \<and>
      locals_below B (irBlocks c) \<longrightarrow> locals_below B (irBlocks c'))"

lemma keeps_locals_push:
  assumes "pushCode op c = Inr c'"
    and "lvs_ok (localVarsStack c) \<Longrightarrow> lv_top (localVarsStack c) + int n \<le> B \<Longrightarrow>
      ir_kind op = IRCodeKind_LOAD_LOCAL \<or> ir_kind op = IRCodeKind_SAVE_LOCAL \<Longrightarrow>
      0 \<le> op_number op \<and> op_number op < B"
  shows "keeps_locals B n c c'"
  using assms locals_below_push by (auto simp: keeps_locals_def pushCode_Inr)

lemma keeps_locals_var:
  assumes "buildVar v load c = Inr c'"
  shows "keeps_locals B n c c'"
  using buildVar_Inr [OF assms]
proof
  assume "c' = c"
  then show ?thesis by (simp add: keeps_locals_def)
next
  assume "\<exists>op. pushCode op c = Inr c' \<and> (plain_op op \<or>
    (\<exists>i. 0 \<le> i \<and> i = getLocalVarIndex v c \<and>
      (op = LoadLocal i (vd_type v) \<or> op = SaveLocal i (vd_type v))))"
  then obtain op where push: "pushCode op c = Inr c'" and op: "plain_op op \<or>
    (\<exists>i. 0 \<le> i \<and> i = getLocalVarIndex v c \<and>
      (op = LoadLocal i (vd_type v) \<or> op = SaveLocal i (vd_type v)))" by blast
  have "0 \<le> op_number op \<and> op_number op < B" if "lvs_ok (localVarsStack c)"
    "lv_top (localVarsStack c) + int n \<le> B"
    "ir_kind op = IRCodeKind_LOAD_LOCAL \<or> ir_kind op = IRCodeKind_SAVE_LOCAL"
    using op that getLocalVarIndex_range [OF that(1), of v]
    by (auto simp: plain_op_def LoadLocal_def SaveLocal_def)
  with push show ?thesis by (rule keeps_locals_push)
qed

lemma keeps_locals_block:
  assumes "enter_block b t lb lp vl c = Inr c1" and "keeps_locals B n c1 c2"
    and "exit_block vl c2 = Inr c'"
  shows "keeps_locals B (n + length (opt_list vl)) c c'"
proof -
  have "locals_below B (irBlocks c1)" if "locals_below B (irBlocks c)"
  proof -
    have "locals_below B (irBlocks c @ [new_IRBlock lb lp])"
      using that by (auto simp: locals_below_def new_IRBlock_def)
    then show ?thesis
      using assms(1) locals_below_push [of B "irBlocks c @ [new_IRBlock lb lp]"
          "NewBlock (length (irBlocks c)) t"]
      by (auto simp: enter_block_Inr NewBlock_def new_IRCode_def)
  qed
  moreover have "localVarsStack c1 = push_lvs vl (localVarsStack c)"
    using assms(1) by (auto simp: enter_block_Inr)
  ultimately show ?thesis
    using assms(2,3) lvs_ok_push [of "localVarsStack c" vl]
    by (auto simp: keeps_locals_def exit_block_Inr)
qed

interpretation loc: build_relation "keeps_locals B"
proof unfold_locales
  show "keeps_locals B n c c'" if "keeps_locals B n c c1" and "keeps_locals B n c1 c'" for n c c1 c'
    using that by (simp add: keeps_locals_def)
  show "keeps_locals B n c c'" if "plain_op op" and "pushCode op c = Inr c'" for op c n c'
    using that(2) by (rule keeps_locals_push) (use that(1) in \<open>auto simp: plain_op_def\<close>)
  show "keeps_locals B n c c'"
    if "op = NewBranch r \<or> op = NewBranchIf r tb" and "pushCode op c = Inr c'" for r op tb c n c'
    using that(2)
    by (rule keeps_locals_push) (use that(1) in \<open>auto simp: NewBranch_def NewBranchIf_def new_IRCode_def split: if_splits\<close>)
  show "keeps_locals B n c c'" if "incTemp k c = Inr c'" for k c n c'
    using that by (auto simp: incTemp_def Let_def keeps_locals_def)
  show "keeps_locals B n c c'" if "decTemp k c = Inr c'" for k c n c'
    using that by (auto simp: decTemp_def keeps_locals_def)
qed (simp add: keeps_locals_def, (rule keeps_locals_var, assumption),
     simp add: keeps_locals_def, (rule keeps_locals_block, assumption+))

section \<open>The number of temporaries\<close>

interpretation temp: build_relation "\<lambda>n c c'. maxTempCount c \<le> maxTempCount c'"
proof unfold_locales
  fix b bt lb lp vl c c1 c2 c' n
  assume "enter_block b bt lb lp vl c = Inr c1" and "maxTempCount c1 \<le> maxTempCount c2"
    and "exit_block vl c2 = Inr c'"
  then show "maxTempCount c \<le> maxTempCount c'" by (auto simp: enter_block_Inr exit_block_Inr)
qed (auto simp: pushCode_Inr incTemp_def decTemp_def Let_def dest!: buildVar_Inr)

lemma incTemp_eq:
  "incTemp n c = Inr (c\<lparr>curTempCount := curTempCount c + n,
     maxTempCount := max (maxTempCount c) (curTempCount c + n)\<rparr>)"
  by (simp add: incTemp_def Let_def max_def)

text \<open>Expressions of literals, local variables and operators that do not assign.\<close>

fun simple_expr :: "semantics_value \<Rightarrow> bool" where
  "simple_expr (LiteralValue t v) = True"
| "simple_expr (VarValue k t (RefVar v)) = (k = SemanticsValueKind_LOCAL_VAR \<or> k = SemanticsValueKind_PARAM_VAR)"
| "simple_expr (BinaryExprValue t op l r) =
     (\<not> isEqualOperator op \<and> simple_expr l \<and> simple_expr r)"
| "simple_expr _ = False"

text \<open>The stack slots that a left-to-right evaluation of the expression needs.\<close>

fun expr_depth :: "semantics_value \<Rightarrow> int" where
  "expr_depth (BinaryExprValue t op l r) = max (expr_depth l) (1 + expr_depth r)"
| "expr_depth _ = 1"

lemma buildVar_temps:
  "buildVar v load c = Inr c' \<Longrightarrow>
   curTempCount c' = curTempCount c \<and> maxTempCount c' = maxTempCount c"
  by (drule buildVar_Inr) (auto simp: pushCode_Inr)

lemma local_var_temps:
  assumes "build_LOCAL_VAR (RefVar v) c = Inr c'"
  shows "curTempCount c' = curTempCount c + 1 \<and>
    maxTempCount c' = max (maxTempCount c) (curTempCount c + 1)"
  using assms
  by (auto simp: build_LOCAL_VAR_def incTemp_eq pushCode_Inr bind_r_Inr_iff split: if_splits
      dest!: buildVar_temps)

lemma simple_expr_temps:
  "simple_expr v \<Longrightarrow> buildValue v c = Inr c' \<Longrightarrow>
   curTempCount c' = curTempCount c + 1 \<and>
   maxTempCount c' = max (maxTempCount c) (curTempCount c + expr_depth v)"
proof (induction v arbitrary: c c' rule: simple_expr.induct)
  case (1 t v)
  then show ?case
    by (auto simp: build_LITERAL_def incTemp_eq pushCode_Inr bind_r_Inr_iff)
next
  case (2 k t v)
  then show ?case by (auto simp: build_VAR_def dest: local_var_temps)
next
  case (3 t op l r)
  then have op: "op \<noteq> EqualsToken" "\<not> isEqualOperator op" by (auto simp: isEqualOperator_def)
  with 3(4) obtain c1 c2 c3 where l: "buildValue l c = Inr c1" and r: "buildValue r c1 = Inr c2"
    and p: "pushBinaryOp op t c2 = Inr c3" and d: "decTemp 1 c3 = Inr c'"
    by (auto simp: buildBinaryExprValue_def bind_r_Inr_iff)
  have "curTempCount c' = curTempCount c2 - 1 \<and> maxTempCount c' = maxTempCount c2"
    using p d by (auto simp: pushBinaryOp_def pushCode_Inr decTemp_def bind_r_Inr_iff)
  with 3(1) [OF _ l] 3(2) [OF _ r] 3(3) show ?case by auto
qed auto

section \<open>Lemmas: functions\<close>

lemma new_Context_Inr:
  "new_Context g func = Inr c \<longleftrightarrow>
     c = \<lparr>maxTempCount = 0, curTempCount = 0, blockMap = [], blockStack = [0],
          localVarsStack = push_lvs (varList func) [],
          ctx_varCount = length (opt_list (varList func))
            + (case flattenValue func of Some v \<Rightarrow> calcLocalVarCount v | None \<Rightarrow> 0),
          c_func = func, c_global = g, irBlocks = [new_IRBlock (js_lit ''function'') False]\<rparr>"
  by (auto simp: new_Context_def pushLocalVars_eq)

lemma build_Inr:
  assumes "build func g = Inr (f, g')" and "flattenValue func = Some v"
  shows "\<exists>c0 c. new_Context g func = Inr c0 \<and> buildValue v c0 = Inr c \<and>
    fn_blocks f = irBlocks c \<and> fn_tempCount f = maxTempCount c \<and>
    fn_varCount f = ctx_varCount c \<and> g' = c_global c"
  using assms by (auto simp: build_def Let_def bind_r_Inr_iff)

lemma tree_code_function: "codes B = [] \<Longrightarrow> tree_code [B]"
  by (simp add: tree_code_def targets_below_def child_refs_def)

text \<open>A function for examples: a block with a local variable that is set, read and left.\<close>

definition sample_local :: VarDeclareNode where
  "sample_local = sample_var\<lparr>vd_id := 11, storageType := SemanticsValueKind_LOCAL_VAR\<rparr>"

definition sample_body :: semantics_value where
  "sample_body =
     BlockValue 1 Primitive_Void [98] False False (Some [sample_local]) None
       [BinaryExprValue Primitive_Number EqualsToken
          (VarValue SemanticsValueKind_LOCAL_VAR Primitive_Number (RefVar sample_local))
          (LiteralValue Primitive_Number (LNumber 0)),
        BlockBranchValue 1]"

definition sample_global :: GlobalContext where
  "sample_global = empty_GlobalContext sample_module sample_runtime None sample_pool"

definition sample_built :: "(IRFunction \<times> GlobalContext) result" where
  "sample_built = build (sample_function\<lparr>flattenValue := Some sample_body\<rparr>) sample_global"

definition sample_ctx :: Context where
  "sample_ctx =
     \<lparr>maxTempCount = 0, curTempCount = 0, blockMap = [(1, 0)], blockStack = [0],
      localVarsStack = [], ctx_varCount = 0, c_func = sample_function, c_global = sample_global,
      irBlocks = [new_IRBlock [] False]\<rparr>"

lemmas build_defs =
  build_def build_BLOCK_def buildBlockRefList_def setBlock_def pushLocalVars_def pushBlock_def
  popBlock_def popBlockVars_def buildBinaryExprValue_def save_left_def buildSaveVar_def
  buildVar_def var_code_def getLocalVarIndex_def findVar_def same_var_def isRef_def
  isUsedInClosureFunction_def isImportAsRef_def build_LITERAL_def build_BLOCK_BRANCH_def
  getIRBlock_def pushCode_def topBlock_def incTemp_eq decTemp_def new_Context_def

lemma sample_built_defined: "\<exists>f g. sample_built = Inr (f, g)"
  by (simp add: sample_built_def sample_body_def sample_local_def sample_var_def
      sample_function_def build_defs Let_def js_and_def to_int32_def)

lemma sample_body_nested: "blocks_nested sample_body"
  unfolding sample_body_def
  by (subst blocks_nested.simps)
     (simp add: blocks_nested.simps [of "BinaryExprValue _ _ _ _"]
       blocks_nested.simps [of "BlockBranchValue _"] local_need.simps [of "BinaryExprValue _ _ _ _"]
       local_need.simps [of "VarValue _ _ _"] local_need.simps [of "LiteralValue _ _"]
       local_need.simps [of "BlockBranchValue _"])

section \<open>Properties\<close>

text \<open>
  C12. Building a value is a disciplined step: it leaves the stack of blocks, the stack of
  local variables and the index tables as they were, appends instructions to the current block
  only, and puts everything else into new blocks.
\<close>

theorem buildValue_extends:
  assumes "buildValue v c = Inr c'"
  shows "ctx_extends c c'"
  using ext.goodD [OF ext.good_buildValue [OF order.refl] assms] .

theorem buildValue_extends_witness:
  "\<exists>c'. buildValue (LiteralValue Primitive_Number (LNumber 0)) sample_ctx = Inr c' \<and>
    ctx_extends sample_ctx c'"
proof -
  obtain c' where "buildValue (LiteralValue Primitive_Number (LNumber 0)) sample_ctx = Inr c'"
    by (simp add: build_LITERAL_def pushCode_def topBlock_def sample_ctx_def incTemp_eq)
  then show ?thesis using buildValue_extends by blast
qed

text \<open>
  C13. The code of a function is a tree of blocks: every block but the first is entered by
  exactly one \<open>BLOCK\<close> instruction, in a block with a smaller number, and every block or branch
  instruction refers to a block of the function.
\<close>

theorem build_tree_code:
  assumes "build func g = Inr (f, g')"
  shows "tree_code (fn_blocks f)"
proof (cases "flattenValue func")
  case (Some v)
  with assms obtain c0 c where c0: "new_Context g func = Inr c0" and c: "buildValue v c0 = Inr c"
    and f: "fn_blocks f = irBlocks c" using build_Inr by blast
  have "ctx_tree c0"
    using c0 by (simp add: new_Context_Inr ctx_tree_def tree_code_function new_IRBlock_def)
  then have "ctx_tree c" using tree.goodD [OF tree.good_buildValue [OF order.refl] c] by blast
  then show ?thesis by (simp add: f ctx_tree_def)
next
  case None
  let ?B = "new_IRBlock (js_lit ''function'') False"
  have B: "tree_code [?B]" by (simp add: tree_code_function new_IRBlock_def)
  have "tree_code [block_add (NewImportFunction m i) ?B]" for m i
    using tree_code_push [OF B, of 0 "NewImportFunction m i"]
    by (simp add: child_refs_add NewImportFunction_def new_IRCode_def)
  with None assms B show ?thesis
    by (auto simp: build_def Let_def split: option.splits)
qed

theorem build_tree_code_witness:
  "\<exists>f g. sample_built = Inr (f, g) \<and> tree_code (fn_blocks f)"
  using sample_built_defined build_tree_code unfolding sample_built_def by blast

text \<open>
  C14. When blocks inside expressions declare no variables, \<open>varCount\<close> is large enough: every
  load and store of a local variable in the code of a function has an index from 0 up to
  \<open>varCount\<close>.
\<close>

theorem build_locals_bounded:
  assumes "build func g = Inr (f, g')" and "flattenValue func = Some v" and "blocks_nested v"
  shows "locals_below (int (fn_varCount f)) (fn_blocks f)"
proof -
  obtain c0 c where c0: "new_Context g func = Inr c0" and c: "buildValue v c0 = Inr c"
    and f: "fn_blocks f = irBlocks c" "fn_varCount f = ctx_varCount c"
    using build_Inr [OF assms(1,2)] by blast
  have n: "fn_varCount f = length (opt_list (varList func)) + local_need v"
    using c0 f(2) ext.goodD [OF ext.good_buildValue [OF order.refl] c] assms(2)
      calcLocalVarCount_need [OF assms(3)]
    by (simp add: ctx_extends_def new_Context_Inr)
  have ok: "lvs_ok ([] :: LocalVars list)" by (simp add: lvs_ok_def lv_top_def)
  have "lvs_ok (localVarsStack c0) \<and> lv_top (localVarsStack c0) = int (length (opt_list (varList func)))"
    using c0 lvs_ok_push [OF ok, of "varList func"] by (simp add: new_Context_Inr lv_top_def)
  moreover have "locals_below B (irBlocks c0)" for B
    using c0 by (simp add: new_Context_Inr locals_below_def new_IRBlock_def)
  ultimately show ?thesis
    using loc.goodD [OF loc.good_buildValue [OF order.refl] c, of "int (fn_varCount f)"] f(1) n
    by (simp add: keeps_locals_def)
qed

theorem build_locals_bounded_witness:
  "\<exists>f g. sample_built = Inr (f, g) \<and> locals_below (int (fn_varCount f)) (fn_blocks f)"
proof -
  obtain f g where fg: "sample_built = Inr (f, g)" using sample_built_defined by blast
  then have "locals_below (int (fn_varCount f)) (fn_blocks f)"
    using build_locals_bounded [OF _ _ sample_body_nested] unfolding sample_built_def by simp
  with fg show ?thesis by blast
qed

text \<open>
  C15. For an expression of literals, local variables and operators the builder counts the
  temporaries exactly: one more value is on the stack afterwards, and the maximum covers the
  depth of the left-to-right evaluation.
\<close>

theorem simple_expr_temp_exact:
  assumes "simple_expr v" and "buildValue v c = Inr c'"
  shows "curTempCount c' = curTempCount c + 1 \<and>
    maxTempCount c' = max (maxTempCount c) (curTempCount c + expr_depth v)"
  using assms by (rule simple_expr_temps)

theorem simple_expr_temp_exact_witness:
  "\<exists>c'. buildValue (BinaryExprValue Primitive_Number PlusToken
      (LiteralValue Primitive_Number (LNumber 0)) (LiteralValue Primitive_Number (LNumber 0)))
      sample_ctx = Inr c' \<and> curTempCount c' = 1 \<and> maxTempCount c' = 2"
proof -
  let ?l = "LiteralValue Primitive_Number (LNumber 0)"
  obtain c' where c': "buildValue (BinaryExprValue Primitive_Number PlusToken ?l ?l) sample_ctx = Inr c'"
    by (simp add: build_defs isEqualOperator_def sample_ctx_def pushBinaryOp_def NewBinaryOp_def
        binary_kind_def)
  then show ?thesis
    using simple_expr_temp_exact [OF _ c']
    by (simp add: isEqualOperator_def sample_ctx_def)
qed

text \<open>
  An empty array literal is not counted: its instruction pushes an array, but the code
  subtracts -1 from the current count without raising the maximum, so a function that returns
  \<open>[]\<close> has \<open>tempCount\<close> 0.
\<close>

theorem empty_array_temp_not_counted:
  assumes "flattenValue func = Some (ReturnValue (Some (NewLiteralArrayValue t [])))"
    and "build func g = Inr (f, g')"
  shows "fn_tempCount f = 0 \<and>
    map codes (fn_blocks f) = [[NewArrayParameters 0 t, NewReturn (Some t)]]"
proof -
  obtain c0 c where "new_Context g func = Inr c0"
    and "buildValue (ReturnValue (Some (NewLiteralArrayValue t []))) c0 = Inr c"
    and "fn_blocks f = irBlocks c" "fn_tempCount f = maxTempCount c"
    using build_Inr [OF assms(2,1)] by blast
  then show ?thesis
    by (auto simp: new_Context_Inr build_RET_def build_NEW_LITERAL_ARRAY_def pushCode_Inr
        decTemp_def new_IRBlock_def block_add_def bind_r_Inr_iff)
qed

theorem empty_array_temp_not_counted_witness:
  "\<exists>f g. build (sample_function\<lparr>flattenValue :=
      Some (ReturnValue (Some (NewLiteralArrayValue Primitive_Any [])))\<rparr>) sample_global = Inr (f, g) \<and>
    fn_tempCount f = 0"
proof -
  let ?func = "sample_function\<lparr>flattenValue :=
    Some (ReturnValue (Some (NewLiteralArrayValue Primitive_Any [])))\<rparr>"
  obtain f g where fg: "build ?func sample_global = Inr (f, g)"
    by (simp add: build_defs build_RET_def build_NEW_LITERAL_ARRAY_def sample_function_def)
  then show ?thesis using empty_array_temp_not_counted [OF _ fg] by simp
qed

text \<open>
  A conditional branch is compiled without its condition: the only instruction added is
  the branch itself, which pops a value that nothing pushed.
\<close>

theorem branch_if_skips_condition:
  assumes "getIRBlock b c = Some r" and "blockStack c = s @ [a]" and "a < length (irBlocks c)"
  shows "\<exists>c'. buildValue (BlockBranchIfValue b cond tb) c = Inr c' \<and>
    irBlocks c' = (irBlocks c)[a := block_add (NewBranchIf r tb) (irBlocks c ! a)] \<and>
    curTempCount c' = curTempCount c - 1"
  using assms by (simp add: build_BLOCK_BRANCH_IF_def decTemp_def pushCode_def topBlock_def)

theorem branch_if_skips_condition_witness:
  "\<exists>c'. buildValue (BlockBranchIfValue 1 (LiteralValue Primitive_Boolean (LBoolean True)) False)
      sample_ctx = Inr c' \<and> map (map ir_kind \<circ> codes) (irBlocks c') = [[IRCodeKind_BRANCH_FALSE]]"
  using branch_if_skips_condition [of 1 sample_ctx 0 "[]" 0
      "LiteralValue Primitive_Boolean (LBoolean True)" False]
  by (auto simp: sample_ctx_def getIRBlock_def block_add_def new_IRBlock_def NewBranchIf_def
      new_IRCode_def)

text \<open>
  A compound assignment to an element, such as \<open>a[i] += e\<close>, never reads the element: for
  literal operands the code is two loads, two copies, the value, the operation and the store.
\<close>

theorem compound_element_set_never_reads:
  assumes "binary_kind op = Inr k" and "op \<noteq> EqualsToken"
    and "blockStack c = s @ [a]" and "a < length (irBlocks c)"
  shows "\<exists>c' opcode. buildValue (ElementSetValue SemanticsValueKind_ARRAY_INDEX_SET t
      (LiteralValue t1 x1) (LiteralValue t2 x2) (Some (LiteralValue t3 x3)) (Some op)) c = Inr c' \<and>
    NewBinaryOp op t = Inr opcode \<and>
    codes (irBlocks c' ! a) = codes (irBlocks c ! a) @
      [LoadConst t1 x1, LoadConst t2 x2, NewDupStackValue (-1) t1, NewDupStackValue (-1) t2,
       LoadConst t3 x3, opcode, NewArrayIndexSet t]"
  using assms
  by (simp add: build_ELEMENT_SET_def compound_op_def build_LITERAL_def pushCode_def topBlock_def
      incTemp_eq decTemp_def build_opt_def pushBinaryOp_def NewBinaryOp_def block_add_def
      element_set_code_def)

theorem compound_element_set_never_reads_witness:
  "\<exists>c'. buildValue (ElementSetValue SemanticsValueKind_ARRAY_INDEX_SET Primitive_Number
      (LiteralValue Primitive_Any LNull) (LiteralValue Primitive_Number (LNumber 0))
      (Some (LiteralValue Primitive_Number (LNumber 0))) (Some PlusEqualsToken)) sample_ctx = Inr c' \<and>
    IRCodeKind_ARRAY_INDEX_GET \<notin> ir_kind ` set (codes (irBlocks c' ! 0))"
  using compound_element_set_never_reads [of PlusEqualsToken IRCodeKind_ADD sample_ctx "[]" 0
      Primitive_Number Primitive_Any LNull Primitive_Number "LNumber 0" Primitive_Number "LNumber 0"]
  by (auto simp: binary_kind_def sample_ctx_def new_IRBlock_def NewBinaryOp_def LoadConst_def
      NewDupStackValue_def NewArrayIndexSet_def new_IRCode_def)

end
