(* ===== verification/IRModule.thy ===== *)
theory IRModule
  imports IRFunction
begin

text \<open>
  \<open>src/src/semantics/ir/irmodule.ts\<close>: the encoding of shape members, the block headers, the
  tables of object descriptions, shapes, imports and exports in the data pool, and the
  construction of a module.

  The data pool is the one of the \<open>GlobalContext\<close>. The recursion of \<open>buildObjectDescription\<close>
  over base descriptions has the depth of the call stack as its fuel; running out of it is the
  \<open>RangeError\<close> of JavaScript.
\<close>

section \<open>Members of shapes\<close>

datatype ShapeMemberType = METHOD | OFFSET | ACCESSOR | ACCESSOR_OFFSET

primrec shape_member_num :: "ShapeMemberType \<Rightarrow> int" where
  "shape_member_num ShapeMemberType.METHOD = 0"
| "shape_member_num ShapeMemberType.OFFSET = 1"
| "shape_member_num ShapeMemberType.ACCESSOR = 2"
| "shape_member_num ShapeMemberType.ACCESSOR_OFFSET = 3"

record ShapeMemberParam =
  p_offset :: "int option"
  p_method :: "int option"
  p_getter :: "int option"
  p_setter :: "int option"

definition empty_param :: ShapeMemberParam where
  "empty_param = \<lparr>p_offset = None, p_method = None, p_getter = None, p_setter = None\<rparr>"

text \<open>A number or \<open>undefined\<close> as a condition.\<close>

definition truthy :: "int option \<Rightarrow> bool" where
  "truthy x = (case x of Some n \<Rightarrow> n \<noteq> 0 | None \<Rightarrow> False)"

definition index_or_0 :: "int option \<Rightarrow> int" where
  "index_or_0 x = (if truthy x then the x + 1 else 0)"

definition shape_member_value :: "ShapeMemberType \<Rightarrow> ShapeMemberParam option \<Rightarrow> int" where
  "shape_member_value type param =
     (case param of
        None \<Rightarrow> 0
      | Some p \<Rightarrow>
          if type = ShapeMemberType.METHOD \<or> type = ShapeMemberType.OFFSET then
            (if truthy (p_offset p) \<or> truthy (p_method p)
             then (if truthy (p_offset p) then the (p_offset p) else the (p_method p)) + 1
             else 0)
          else
            (if truthy (p_getter p) \<or> truthy (p_setter p)
             then js_or (js_and (index_or_0 (p_getter p)) 0x7fff)
                        (js_shl (js_and (index_or_0 (p_setter p)) 0x7fff) 15)
             else 0))"

text \<open>A \<open>ShapeMemberInfo\<close> is its field \<open>_value\<close>.\<close>

type_synonym ShapeMemberInfo = int

definition new_ShapeMemberInfo ::
  "ShapeMemberType \<Rightarrow> ShapeMemberParam option \<Rightarrow> ShapeMemberInfo"
where
  "new_ShapeMemberInfo type param =
     js_or (js_shl (shape_member_value type param) 2) (js_and (shape_member_num type) 3)"

definition info_type :: "ShapeMemberInfo \<Rightarrow> int" where
  "info_type v = js_and v 3"

definition info_offset :: "ShapeMemberInfo \<Rightarrow> int" where
  "info_offset v = js_shr v 2"

definition info_method :: "ShapeMemberInfo \<Rightarrow> int" where
  "info_method v = js_shr v 2"

definition info_getter :: "ShapeMemberInfo \<Rightarrow> int" where
  "info_getter v = js_and (js_shr v 2) 0x7fff"

definition info_setter :: "ShapeMemberInfo \<Rightarrow> int" where
  "info_setter v = js_and (js_shr v 17) 0x7fff"

section \<open>Tables\<close>

record MemberDescriptionInfo =
  mi_nameOffset :: nat
  mi_type :: int
  mi_index :: nat

text \<open>Of the base only the offset of its information is read.\<close>

record ObjectDescriptionInfo =
  oi_name :: js_string
  oi_offset :: nat
  oi_nameOffset :: nat
  oi_base :: "nat option"
  oi_flags :: int
  oi_members :: "MemberDescriptionInfo list"

record ShapeInfo =
  si_name :: js_string
  si_offset :: nat
  si_metaOffset :: nat
  si_members :: "ShapeMemberInfo list"

definition createObjectDescriptionName :: "'v ObjectDescription \<Rightarrow> js_string" where
  "createObjectDescriptionName od =
     od_name od @ js_lit (case od_type od of
        ObjectDescriptionType.OBJECT_LITERAL \<Rightarrow> ''_literal''
      | ObjectDescriptionType.INTERFACE \<Rightarrow> ''_interface''
      | ObjectDescriptionType.OBJECT_INSTANCE \<Rightarrow> ''_instance''
      | ObjectDescriptionType.OBJECT_CLASS \<Rightarrow> ''_class'')"

datatype BlockHeaderType = STRING_POOL | METAS | SHAPS | IMPORTS | EXPORTS

primrec header_type_num :: "BlockHeaderType \<Rightarrow> int" where
  "header_type_num STRING_POOL = 0"
| "header_type_num METAS = 1"
| "header_type_num SHAPS = 2"
| "header_type_num IMPORTS = 3"
| "header_type_num EXPORTS = 4"

record BlockHeader =
  bh_type :: BlockHeaderType
  bh_count :: int
  bh_size :: int

definition new_BlockHeader :: "BlockHeaderType \<Rightarrow> BlockHeader" where
  "new_BlockHeader t = \<lparr>bh_type = t, bh_count = 0, bh_size = 0\<rparr>"

definition header_word :: "BlockHeader \<Rightarrow> int" where
  "header_word b =
     js_or (js_and (js_shl (header_type_num (bh_type b)) 28) 0xf0000000)
           (js_and (bh_count b) 0x0fffffff)"

definition header_write :: "BlockHeader \<Rightarrow> data_pool \<Rightarrow> data_pool" where
  "header_write b p = snd (addInt32 (bh_size b) (snd (addInt32 (header_word b) p)))"

definition header_update :: "BlockHeader \<Rightarrow> nat \<Rightarrow> data_pool \<Rightarrow> data_pool" where
  "header_update b start p = setInt32 (start + 4) (bh_size b) (setInt32 start (header_word b) p)"

record RuntimeData =
  rd_ctx :: GlobalContext
  rd_metas :: "meta_ref option list"
  objectDescriptionsMap :: "(meta_ref, ObjectDescriptionInfo) js_map"
  shapesMap :: "(shape_ref, ShapeInfo) js_map"
  imports_offset :: nat
  exports_offset :: nat

definition rd_pool :: "(data_pool \<Rightarrow> data_pool) \<Rightarrow> RuntimeData \<Rightarrow> RuntimeData" where
  "rd_pool f rd = rd\<lparr>rd_ctx := (rd_ctx rd)\<lparr>gc_dataPool := f (gc_dataPool (rd_ctx rd))\<rparr>\<rparr>"

definition rd_size :: "RuntimeData \<Rightarrow> nat" where
  "rd_size rd = getCurrentSize (gc_dataPool (rd_ctx rd))"

definition rd_int32 :: "int \<Rightarrow> RuntimeData \<Rightarrow> RuntimeData" where
  "rd_int32 n = rd_pool (\<lambda>p. snd (addInt32 n p))"

definition rd_addString :: "js_string \<Rightarrow> RuntimeData \<Rightarrow> (nat \<times> RuntimeData) result" where
  "rd_addString s rd =
     bind_r (gc_addString s (rd_ctx rd)) (\<lambda>(off, g). Inr (off, rd\<lparr>rd_ctx := g\<rparr>))"

subsection \<open>Object descriptions\<close>

text \<open>The loop that adds the names of the members; a hole of the array has no name.\<close>

fun member_infos ::
  "'v MemberDescription option list \<Rightarrow> RuntimeData \<Rightarrow> (MemberDescriptionInfo list \<times> RuntimeData) result"
where
  "member_infos [] rd = Inr ([], rd)"
| "member_infos (None # ms) rd = Inl JSTypeError"
| "member_infos (Some m # ms) rd =
     bind_r (rd_addString (m_name m) rd) (\<lambda>(off, rd1).
     bind_r (member_infos ms rd1) (\<lambda>(infos, rd2).
       Inr (\<lparr>mi_nameOffset = off, mi_type = member_type_num (m_type m), mi_index = m_index m\<rparr>
            # infos, rd2)))"

definition member_word :: "MemberDescriptionInfo \<Rightarrow> int" where
  "member_word m = js_or (js_shl (mi_type m) 16) (js_and (int (mi_index m)) 0xffff)"

text \<open>The words of a description in the pool.\<close>

definition save_description ::
  "nat \<Rightarrow> nat option \<Rightarrow> int \<Rightarrow> MemberDescriptionInfo list \<Rightarrow> RuntimeData \<Rightarrow> RuntimeData"
where
  "save_description nameOffset base flags infos rd =
     fold (\<lambda>m rd. rd_int32 (member_word m) (rd_int32 (int (mi_nameOffset m)) rd)) infos
       (rd_int32 (int (length infos))
         (rd_int32 flags
           (rd_int32 (int (case base of Some off \<Rightarrow> off | None \<Rightarrow> 0))
             (rd_int32 (int nameOffset) rd))))"

fun buildObjectDescription ::
  "nat \<Rightarrow> meta_ref \<Rightarrow> RuntimeData \<Rightarrow> (ObjectDescriptionInfo \<times> RuntimeData) result"
where
  "buildObjectDescription 0 a rd = Inl JSRangeError"
| "buildObjectDescription (Suc fuel) a rd =
     (case map_get (objectDescriptionsMap rd) a of
        Some info \<Rightarrow> Inr (info, rd)
      | None \<Rightarrow>
          let od = metas (gc_heap (rd_ctx rd)) a
          in bind_r (case od_base od of
                       Some b \<Rightarrow> bind_r (buildObjectDescription fuel b rd) (\<lambda>(i, rd1). Inr (Some (oi_offset i), rd1))
                     | None \<Rightarrow> Inr (None, rd)) (\<lambda>(base, rd1).
             bind_r (rd_addString (od_name od) rd1) (\<lambda>(nameOffset, rd2).
             bind_r (member_infos (members od) rd2) (\<lambda>(infos, rd3).
               Inr (\<lparr>oi_name = createObjectDescriptionName od, oi_offset = rd_size rd3,
                     oi_nameOffset = nameOffset, oi_base = base, oi_flags = od_type_num (od_type od),
                     oi_members = infos\<rparr>,
                    save_description nameOffset base (od_type_num (od_type od)) infos rd3)))))"

text \<open>The loops over the descriptions; the array may have holes, which have no property.\<close>

definition build_description_entry :: "nat \<Rightarrow> meta_ref option \<Rightarrow> RuntimeData \<Rightarrow> RuntimeData result" where
  "build_description_entry fuel a rd =
     (case a of
        None \<Rightarrow> Inl JSTypeError
      | Some a \<Rightarrow>
          bind_r (buildObjectDescription fuel a rd) (\<lambda>(info, rd1).
            Inr (rd1\<lparr>objectDescriptionsMap := map_set a info (objectDescriptionsMap rd1)\<rparr>)))"

text \<open>
  The frame of the three table builders: write an empty header, fill the table, and patch the
  header with the count and with the size of the table.
\<close>

definition patch_header :: "BlockHeaderType \<Rightarrow> int \<Rightarrow> nat \<Rightarrow> RuntimeData \<Rightarrow> RuntimeData" where
  "patch_header t count start rd =
     rd_pool (header_update \<lparr>bh_type = t, bh_count = count, bh_size = int (rd_size rd) - int start\<rparr>
                (start - 8)) rd"

definition buildObjectDescriptions :: "nat \<Rightarrow> RuntimeData \<Rightarrow> RuntimeData result" where
  "buildObjectDescriptions fuel rd =
     (let rd1 = rd_pool (header_write (new_BlockHeader METAS)) rd;
          start = rd_size rd1
      in bind_r (fold_r (build_description_entry fuel) (rd_metas rd) rd1) (\<lambda>rd2.
           Inr (patch_header METAS (int (length (objectDescriptionsMap rd2))) start rd2)))"

subsection \<open>Shapes\<close>

definition getShapeValueIndex ::
  "semantics_value option \<Rightarrow> GlobalContext \<Rightarrow> (int option \<times> GlobalContext) result"
where
  "getShapeValueIndex v g =
     (case v of
        Some (VarValue k t (RefFunction f)) \<Rightarrow>
          bind_r (getFunctionIndex (fh_id f) S.CALL g) (\<lambda>(i, g'). Inr (Some i, g'))
      | _ \<Rightarrow> Inr (None, g))"

definition createAccessorInfo ::
  "ShapeMemberStorage \<Rightarrow> semantics_value code_ref option \<Rightarrow> semantics_value code_ref option \<Rightarrow>
   GlobalContext \<Rightarrow> (ShapeMemberParam \<times> GlobalContext) result"
where
  "createAccessorInfo st getter setter g =
     (if st = ShapeMemberStorage.OFFSET
      then Inr (empty_param\<lparr>p_getter := sa_getterOffset st getter,
                            p_setter := sa_setterOffset st setter\<rparr>, g)
      else bind_r (getShapeValueIndex (sa_getterValue st getter) g) (\<lambda>(gi, g1).
           bind_r (getShapeValueIndex (sa_setterValue st setter) g1) (\<lambda>(si, g2).
             Inr (empty_param\<lparr>p_getter := gi, p_setter := si\<rparr>, g2))))"

definition shape_member_info ::
  "semantics_value ShapeMember option \<Rightarrow> GlobalContext \<Rightarrow> (ShapeMemberInfo \<times> GlobalContext) result"
where
  "shape_member_info m g =
     (case m of
        None \<Rightarrow> Inr (new_ShapeMemberInfo ShapeMemberType.METHOD None, g)
      | Some (ShapeField off) \<Rightarrow>
          Inr (new_ShapeMemberInfo ShapeMemberType.OFFSET (Some (empty_param\<lparr>p_offset := off\<rparr>)), g)
      | Some (ShapeAccessor st getter setter) \<Rightarrow>
          bind_r (createAccessorInfo st getter setter g) (\<lambda>(p, g').
            Inr (new_ShapeMemberInfo ShapeMemberType.ACCESSOR (Some p), g'))
      | Some (ShapeMethod st func) \<Rightarrow>
          if st = ShapeMemberStorage.OFFSET
          then Inr (new_ShapeMemberInfo ShapeMemberType.OFFSET
                      (Some (empty_param\<lparr>p_offset := methodOffset st func\<rparr>)), g)
          else bind_r (getShapeValueIndex (methodValue st func) g) (\<lambda>(i, g').
                 Inr (new_ShapeMemberInfo ShapeMemberType.METHOD (Some (empty_param\<lparr>p_method := i\<rparr>)), g')))"

fun shape_member_infos ::
  "semantics_value ShapeMember option list \<Rightarrow> GlobalContext \<Rightarrow> (ShapeMemberInfo list \<times> GlobalContext) result"
where
  "shape_member_infos [] g = Inr ([], g)"
| "shape_member_infos (m # ms) g =
     bind_r (shape_member_info m g) (\<lambda>(i, g1).
     bind_r (shape_member_infos ms g1) (\<lambda>(is, g2). Inr (i # is, g2)))"

definition saveShape :: "ShapeInfo \<Rightarrow> RuntimeData \<Rightarrow> ShapeInfo \<times> RuntimeData" where
  "saveShape info rd =
     (info\<lparr>si_offset := rd_size rd\<rparr>,
      fold rd_int32 (si_members info)
        (rd_int32 (int (length (si_members info))) (rd_int32 (int (si_metaOffset info)) rd)))"

definition buildShape_rt :: "shape_ref \<Rightarrow> js_string \<Rightarrow> RuntimeData \<Rightarrow> RuntimeData result" where
  "buildShape_rt s suffix rd =
     (let shape = shapes (gc_heap (rd_ctx rd)) s
      in case map_get (objectDescriptionsMap rd) (s_meta shape) of
           None \<Rightarrow> Inl JSTypeError
         | Some meta_info \<Rightarrow>
             bind_r (shape_member_infos (opt_list (s_members shape)) (rd_ctx rd)) (\<lambda>(infos, g).
               let (info, rd1) =
                     saveShape \<lparr>si_name = oi_name meta_info @ js_lit ''_'' @ suffix, si_offset = 0,
                                si_metaOffset = oi_offset meta_info, si_members = infos\<rparr>
                       (rd\<lparr>rd_ctx := g\<rparr>)
               in Inr (rd1\<lparr>shapesMap := map_set s info (shapesMap rd1)\<rparr>)))"

text \<open>The shapes written for one description: the origin shape, this shape, the others.\<close>

definition description_shapes :: "'v ObjectDescription \<Rightarrow> (shape_ref \<times> js_string) list" where
  "description_shapes od =
     (case originShape od of Some s \<Rightarrow> [(s, js_lit ''origin'')] | None \<Rightarrow> [])
     @ (case thisShape od of Some s \<Rightarrow> [(s, js_lit ''this'')] | None \<Rightarrow> [])
     @ map (\<lambda>(i, m, s). (s, js_lit (''comp_'' @ decimal i))) (enumerate 0 (compatibleShapes od))"

definition build_shapes_entry ::
  "meta_ref option \<Rightarrow> nat \<times> RuntimeData \<Rightarrow> (nat \<times> RuntimeData) result"
where
  "build_shapes_entry a st =
     (case a of
        None \<Rightarrow> Inl JSTypeError
      | Some a \<Rightarrow>
          fold_r (\<lambda>(s, suffix) (count, rd).
                    bind_r (buildShape_rt s suffix rd) (\<lambda>rd1. Inr (Suc count, rd1)))
            (description_shapes (metas (gc_heap (rd_ctx (snd st))) a)) st)"

definition buildShapes :: "RuntimeData \<Rightarrow> RuntimeData result" where
  "buildShapes rd =
     (let rd1 = rd_pool (header_write (new_BlockHeader SHAPS)) rd;
          start = rd_size rd1
      in bind_r (fold_r build_shapes_entry (rd_metas rd) (0, rd1)) (\<lambda>(count, rd2).
           Inr (patch_header SHAPS (int count) start rd2)))"

subsection \<open>Imports and exports\<close>

definition extern_item_word :: "RuntimeExternItem \<Rightarrow> int" where
  "extern_item_word i = js_or (js_shl (js_and (xi_type i) 0xf) 28) (js_and (xi_index i) 0x7fffffff)"

definition save_extern_module :: "bool \<Rightarrow> RuntimeExternModule \<Rightarrow> RuntimeData \<Rightarrow> RuntimeData" where
  "save_extern_module isImports m rd =
     fold (\<lambda>i rd. rd_int32 (extern_item_word i) (rd_int32 (int (xi_nameOffset i)) rd)) (xm_items m)
       (rd_int32 (js_or (int (length (xm_items m))) (if isImports then 0x80000000 else 0))
         (rd_int32 (int (xm_nameOffset m)) rd))"

definition buildExterns :: "RuntimeExternModule list \<Rightarrow> bool \<Rightarrow> RuntimeData \<Rightarrow> RuntimeData" where
  "buildExterns modules isImports rd =
     (let t = (if isImports then IMPORTS else EXPORTS);
          rd1 = rd_pool (header_write (new_BlockHeader t)) rd;
          start = rd_size rd1;
          rd2 = (if isImports then rd1\<lparr>imports_offset := start\<rparr> else rd1\<lparr>exports_offset := start\<rparr>);
          rd3 = fold (save_extern_module isImports) modules rd2
      in patch_header t (int (length modules)) start rd3)"

definition build_RuntimeData :: "nat \<Rightarrow> RuntimeData \<Rightarrow> RuntimeData result" where
  "build_RuntimeData fuel rd =
     bind_r (buildObjectDescriptions fuel rd) (\<lambda>rd1.
     bind_r (buildShapes rd1) (\<lambda>rd2.
       let rd3 = buildExterns (gc_imports (rd_ctx rd2)) True rd2
       in Inr (buildExterns (gc_exports (rd_ctx rd3)) False rd3)))"

text \<open>\<open>finishBuild\<close> and \<open>buildRuntimeData\<close> of \<open>src/src/semantics/ir/ir_context.ts\<close>.\<close>

definition buildRuntimeData :: "nat \<Rightarrow> GlobalContext \<Rightarrow> RuntimeData result" where
  "buildRuntimeData fuel g =
     build_RuntimeData fuel
       \<lparr>rd_ctx = g, rd_metas = buildMapAsArray (gc_metas g), objectDescriptionsMap = [],
        shapesMap = [], imports_offset = 0, exports_offset = 0\<rparr>"

section \<open>Modules\<close>

lemma children_smaller: "u \<in> set (children v) \<Longrightarrow> size u < size v"
  by (cases v rule: children.cases) (auto dest!: size_list_mem split: option.splits)

text \<open>The string of a literal of the type \<open>RAW_STRING\<close>.\<close>

fun literal_string :: "literal \<Rightarrow> js_string" where
  "literal_string (LString s) = s"
| "literal_string _ = []"

function processValueString :: "semantics_value \<Rightarrow> data_pool \<Rightarrow> data_pool result" where
  "processValueString v p =
     bind_r (case v of
               LiteralValue t l \<Rightarrow>
                 if vt_kind t = ValueTypeKind.RAW_STRING
                 then bind_r (addString (literal_string l) p) (\<lambda>(off, q). Inr q) else Inr p
             | _ \<Rightarrow> Inr p)
       (fold_r (\<lambda>f. f) (map processValueString (children v)))"
  by auto
termination by (relation "measure (size \<circ> fst)") (auto dest: children_smaller)

declare processValueString.simps [simp del]

definition collectionStrings :: "FunctionDeclareNode list \<Rightarrow> data_pool \<Rightarrow> data_pool result" where
  "collectionStrings fs =
     fold_r (\<lambda>f p. bind_r (addString (fh_name f) p) (\<lambda>(off, q).
                     fold_r processValueString (node_values (fd_body f)) q)) fs"

fun buildFunctions ::
  "FunctionDeclareNode list \<Rightarrow> GlobalContext \<Rightarrow> (IRFunction list \<times> GlobalContext) result"
where
  "buildFunctions [] g = Inr ([], g)"
| "buildFunctions (f # fs) g =
     bind_r (build f g) (\<lambda>(irf, g1).
     bind_r (buildFunctions fs g1) (\<lambda>(irfs, g2). Inr (irf # irfs, g2)))"

record IRModule =
  irm_functions :: "IRFunction list"
  irm_dataPool :: data_pool
  irm_runtimeData :: RuntimeData

definition update_string_header :: "GlobalContext \<Rightarrow> GlobalContext" where
  "update_string_header g =
     (let p = gc_dataPool g
      in g\<lparr>gc_dataPool := header_update
             \<lparr>bh_type = STRING_POOL, bh_count = int (getStringCount p),
              bh_size = int (getCurrentSize p)\<rparr> 0 p\<rparr>)"

definition new_IRModule ::
  "nat \<Rightarrow> ModuleNode \<Rightarrow> semantics_value rt_heap \<Rightarrow> shape_ref option \<Rightarrow> IRModule result"
where
  "new_IRModule fuel m h str =
     bind_r (collectionStrings (mn_functions m)
               (header_write (new_BlockHeader STRING_POOL) new_DataPool)) (\<lambda>p.
     bind_r (new_GlobalContext m h str p) (\<lambda>g.
     bind_r (buildFunctions (mn_functions m) (update_string_header g)) (\<lambda>(fs, g1).
     bind_r (buildRuntimeData fuel g1) (\<lambda>rd.
       Inr \<lparr>irm_functions = fs, irm_dataPool = gc_dataPool (rd_ctx rd), irm_runtimeData = rd\<rparr>))))"

section \<open>Lemmas: shape members\<close>

lemma info_word_type:
  "js_and (js_or (js_shl v 2) (js_and (shape_member_num t) 3)) 3 = shape_member_num t"
proof -
  have "js_and (js_or (js_shl v 2) (js_and n 3)) 3 = take_bit 2 n" for n
    by (rule bit_eqI) (auto simp: bit_ext mask_3 bit_mask_iff bit_take_bit_iff min_def)
  then show ?thesis by (cases t) (simp_all add: take_bit_eq_mod)
qed

lemma info_word_value:
  "js_shr (js_or (js_shl v 2) (js_and n 3)) 2 = signed_take_bit 29 v"
  by (rule bit_eqI)
     (auto simp: bit_ext mask_3 bit_mask_iff bit_signed_take_bit_iff min_def not_le)

lemma info_word_high:
  "js_and (js_shr (js_or (js_shl v 2) (js_and n 3)) 17) 0x7fff = take_bit 15 (drop_bit 15 v)"
  unfolding mask_7fff
  by (subst js_and_mask, simp, rule bit_eqI)
     (auto simp: bit_ext mask_3 bit_mask_iff bit_take_bit_iff bit_drop_bit_eq min_def)

lemma info_word_low:
  "js_and (js_shr (js_or (js_shl v 2) (js_and n 3)) 2) 0x7fff = take_bit 15 v"
  unfolding mask_7fff
  by (subst js_and_mask, simp, rule bit_eqI)
     (auto simp: bit_ext mask_3 bit_mask_iff bit_take_bit_iff min_def)

lemma accessor_value_parts:
  "take_bit 15 (js_or (js_and g 0x7fff) (js_shl (js_and s 0x7fff) 15)) = take_bit 15 g"
  "take_bit 15 (drop_bit 15 (js_or (js_and g 0x7fff) (js_shl (js_and s 0x7fff) 15))) = take_bit 15 s"
  unfolding mask_7fff
  by (rule bit_eqI;
      auto simp: bit_ext bit_mask_iff bit_take_bit_iff bit_drop_bit_eq min_def)+

lemma info_reads:
  "info_type (new_ShapeMemberInfo t param) = shape_member_num t"
  "info_offset (new_ShapeMemberInfo t param) = signed_take_bit 29 (shape_member_value t param)"
  "info_method (new_ShapeMemberInfo t param) = signed_take_bit 29 (shape_member_value t param)"
  "info_getter (new_ShapeMemberInfo t param) = take_bit 15 (shape_member_value t param)"
  "info_setter (new_ShapeMemberInfo t param) = take_bit 15 (drop_bit 15 (shape_member_value t param))"
  unfolding new_ShapeMemberInfo_def info_type_def info_offset_def info_method_def info_getter_def
    info_setter_def
  by (rule info_word_type info_word_value info_word_low info_word_high)+

section \<open>Words in the pool\<close>

text \<open>A sink of 32-bit words; the bytes are what the runtime sees.\<close>

definition words_bytes :: "int list \<Rightarrow> 8 word list" where
  "words_bytes ws = concat (map int32_le ws)"

lemma words_bytes_simps [simp]:
  "words_bytes [] = []" "words_bytes (w # ws) = int32_le w @ words_bytes ws"
  "words_bytes (xs @ ys) = words_bytes xs @ words_bytes ys"
  by (simp_all add: words_bytes_def)

lemma length_words_bytes [simp]: "length (words_bytes ws) = 4 * length ws"
  by (induction ws) simp_all

locale word_sink =
  fixes emit :: "int \<Rightarrow> 's \<Rightarrow> 's"
    and bytes :: "'s \<Rightarrow> 8 word list"
    and invar :: "'s \<Rightarrow> bool"
  assumes emit_inv: "invar s \<Longrightarrow> invar (emit n s)"
    and emit_bytes: "invar s \<Longrightarrow> bytes (emit n s) = bytes s @ int32_le n"
begin

definition emits :: "('s \<Rightarrow> 's) \<Rightarrow> int list \<Rightarrow> bool" where
  "emits f ws \<longleftrightarrow> (\<forall>s. invar s \<longrightarrow> invar (f s) \<and> bytes (f s) = bytes s @ words_bytes ws)"

lemma emits_word: "emits (emit n) [n]"
  by (simp add: emits_def emit_inv emit_bytes)

lemma emits_comp: "emits f xs \<Longrightarrow> emits g ys \<Longrightarrow> emits (\<lambda>s. g (f s)) (xs @ ys)"
  by (simp add: emits_def)

lemma emits_then: "emits f ws \<Longrightarrow> emits (\<lambda>s. emit n (f s)) (ws @ [n])"
  by (rule emits_comp) (auto intro: emits_word)

lemma emits_fold:
  "(\<And>x. x \<in> set xs \<Longrightarrow> emits (f x) (w x)) \<Longrightarrow> emits (fold f xs) (concat (map w xs))"
proof (induction xs)
  case Nil
  show ?case by (simp add: emits_def)
next
  case (Cons x xs)
  then have "emits (\<lambda>s. fold f xs (f x s)) (w x @ concat (map w xs))"
    by (intro emits_comp) auto
  then show ?case by (simp add: comp_def)
qed

lemma emits_read:
  assumes "emits f ws" and "invar s" and "k < length ws"
  shows "read_int32 (bytes (f s)) (length (bytes s) + 4 * k) = Some (to_int32 (ws ! k))"
proof -
  have "ws = take k ws @ ws ! k # drop (Suc k) ws" using assms(3) by (simp add: id_take_nth_drop)
  then have "words_bytes ws = words_bytes (take k ws) @ int32_le (ws ! k) @ words_bytes (drop (Suc k) ws)"
    by (metis words_bytes_simps(2,3))
  then have "bytes (f s) = (bytes s @ words_bytes (take k ws)) @ int32_le (ws ! k)
      @ words_bytes (drop (Suc k) ws)"
    using assms(1,2) by (simp add: emits_def)
  then show ?thesis
    using read_int32_append [of "bytes s @ words_bytes (take k ws)"] assms(3) by simp
qed

end

definition rd_bytes :: "RuntimeData \<Rightarrow> 8 word list" where
  "rd_bytes rd = pool_bytes (gc_dataPool (rd_ctx rd))"

definition rd_inv :: "RuntimeData \<Rightarrow> bool" where
  "rd_inv rd = dp_inv (gc_dataPool (rd_ctx rd))"

interpretation pw: word_sink "\<lambda>n p. snd (addInt32 n p)" pool_bytes dp_inv
  by unfold_locales (simp_all add: addInt32_inv addInt32_bytes)

interpretation rw: word_sink rd_int32 rd_bytes rd_inv
  by unfold_locales (simp_all add: rd_int32_def rd_pool_def rd_bytes_def rd_inv_def addInt32_inv
      addInt32_bytes)

section \<open>Lemmas: headers and tables\<close>

lemma header_word_parts:
  assumes "0 \<le> bh_count b" and "bh_count b < 2 ^ 28"
  shows "js_and (js_shr (header_word b) 28) 0xf = header_type_num (bh_type b)"
    and "js_and (header_word b) 0x0fffffff = bh_count b"
proof -
  have f: "(0xf0000000 :: int) = push_bit 28 (mask 4)" "(0x0fffffff :: int) = mask 28"
    "(0xf :: int) = mask 4"
    by (simp_all add: mask_eq_exp_minus_1 push_bit_eq_mult)
  have "js_and (js_shr (header_word b) 28) 0xf = take_bit 4 (header_type_num (bh_type b))"
    unfolding header_word_def f
    by (subst js_and_mask, simp, rule bit_eqI)
       (auto simp: bit_ext bit_mask_iff bit_push_bit_iff bit_take_bit_iff min_def)
  then show "js_and (js_shr (header_word b) 28) 0xf = header_type_num (bh_type b)"
    by (cases "bh_type b") (simp_all add: take_bit_eq_mod)
  have "js_and (header_word b) 0x0fffffff = take_bit 28 (bh_count b)"
    unfolding header_word_def f
    by (subst js_and_mask, simp, rule bit_eqI)
       (auto simp: bit_ext bit_mask_iff bit_push_bit_iff bit_take_bit_iff min_def)
  then show "js_and (header_word b) 0x0fffffff = bh_count b"
    using assms by (simp add: take_bit_int_eq_self)
qed

lemma header_update_bytes:
  assumes "dp_inv p" and "start + 8 \<le> length (pool_bytes p)"
  shows "dp_inv (header_update b start p) \<and>
    pool_bytes (header_update b start p) = take start (pool_bytes p) @ words_bytes [header_word b, bh_size b]
      @ drop (start + 8) (pool_bytes p)"
proof -
  let ?q = "setInt32 start (header_word b) p"
  have len: "length (pool_bytes p) = pool_size p" using assms(1) by (rule pool_bytes_length)
  have q: "dp_inv ?q" "pool_bytes ?q = take start (pool_bytes p) @ int32_le (header_word b)
      @ drop (start + 4) (pool_bytes p)"
    using assms len by (simp_all add: setInt32_inv setInt32_bytes)
  have "pool_bytes (header_update b start p) = take (start + 4) (pool_bytes ?q)
      @ int32_le (bh_size b) @ drop (start + 8) (pool_bytes ?q)"
    using setInt32_bytes [OF q(1), of "start + 4" "bh_size b"] assms len
    by (simp add: header_update_def add.commute)
  moreover have "take (start + 4) (pool_bytes ?q) = take start (pool_bytes p) @ int32_le (header_word b)"
    and "drop (start + 8) (pool_bytes ?q) = drop (start + 8) (pool_bytes p)"
    using assms(2) by (simp_all add: q(2) add.commute)
  ultimately show ?thesis using q(1) by (simp add: header_update_def setInt32_inv)
qed

text \<open>
  A table in the pool: the header with the number of entries and the size in bytes of the
  words that follow it.
\<close>

definition table_bytes :: "BlockHeaderType \<Rightarrow> int \<Rightarrow> int list \<Rightarrow> 8 word list" where
  "table_bytes t count ws =
     words_bytes ([header_word \<lparr>bh_type = t, bh_count = count, bh_size = int (4 * length ws)\<rparr>,
                   int (4 * length ws)] @ ws)"

lemma rd_size_bytes: "rd_inv rd \<Longrightarrow> rd_size rd = length (rd_bytes rd)"
  by (simp add: rd_size_def rd_bytes_def rd_inv_def getCurrentSize_def pool_bytes_length)

lemma header_write_bytes:
  assumes "rd_inv rd"
  shows "rd_inv (rd_pool (header_write b) rd) \<and>
    rd_bytes (rd_pool (header_write b) rd) = rd_bytes rd @ words_bytes [header_word b, bh_size b]"
proof -
  have "pw.emits (header_write b) [header_word b, bh_size b]"
    unfolding header_write_def using pw.emits_then [OF pw.emits_word] by simp
  with assms show ?thesis by (simp add: pw.emits_def rd_inv_def rd_bytes_def rd_pool_def)
qed

text \<open>Filling a table between the header and its patch.\<close>

lemma patch_header_table:
  assumes "rd_inv rd" and "rd_inv rd2" and "rd1 = rd_pool (header_write (new_BlockHeader t)) rd"
    and "rd_bytes rd2 = rd_bytes rd1 @ words_bytes ws"
  shows "rd_inv (patch_header t count (rd_size rd1) rd2) \<and>
    rd_bytes (patch_header t count (rd_size rd1) rd2) = rd_bytes rd @ table_bytes t count ws"
proof -
  let ?h = "words_bytes [header_word (new_BlockHeader t), bh_size (new_BlockHeader t)]"
  have rd1: "rd_inv rd1" "rd_bytes rd1 = rd_bytes rd @ ?h"
    using header_write_bytes [OF assms(1)] assms(3) by auto
  have start: "rd_size rd1 = length (rd_bytes rd) + 8" using rd1 by (simp add: rd_size_bytes)
  have size: "int (rd_size rd2) - int (rd_size rd1) = int (4 * length ws)"
    using assms(2,4) rd1 by (simp add: rd_size_bytes)
  let ?b = "\<lparr>bh_type = t, bh_count = count, bh_size = int (4 * length ws)\<rparr>"
  have "dp_inv (gc_dataPool (rd_ctx rd2))" using assms(2) by (simp add: rd_inv_def)
  moreover have "length (rd_bytes rd) + 8 \<le> length (pool_bytes (gc_dataPool (rd_ctx rd2)))"
    using assms(4) rd1(2) by (simp add: rd_bytes_def)
  ultimately have "dp_inv (header_update ?b (length (rd_bytes rd)) (gc_dataPool (rd_ctx rd2)))"
    and "pool_bytes (header_update ?b (length (rd_bytes rd)) (gc_dataPool (rd_ctx rd2)))
      = take (length (rd_bytes rd)) (rd_bytes rd2) @ words_bytes [header_word ?b, bh_size ?b]
        @ drop (length (rd_bytes rd) + 8) (rd_bytes rd2)"
    using header_update_bytes by (auto simp: rd_bytes_def)
  then show ?thesis
    using assms(4) rd1(2) size start
    by (simp add: patch_header_def rd_inv_def rd_bytes_def rd_pool_def table_bytes_def)
qed

lemma patch_header_fields [simp]:
  "objectDescriptionsMap (patch_header t n s rd) = objectDescriptionsMap rd"
  "shapesMap (patch_header t n s rd) = shapesMap rd"
  by (simp_all add: patch_header_def rd_pool_def)

subsection \<open>Imports and exports\<close>

definition extern_words :: "bool \<Rightarrow> RuntimeExternModule \<Rightarrow> int list" where
  "extern_words isImports m =
     [int (xm_nameOffset m), js_or (int (length (xm_items m))) (if isImports then 0x80000000 else 0)]
     @ concat (map (\<lambda>i. [int (xi_nameOffset i), extern_item_word i]) (xm_items m))"

lemma emits_pair: "rw.emits (\<lambda>rd. rd_int32 b (rd_int32 a rd)) [a, b]"
  using rw.emits_comp [OF rw.emits_word rw.emits_word, of b a] by simp

lemma emits_extern_module: "rw.emits (save_extern_module isImports m) (extern_words isImports m)"
  unfolding save_extern_module_def extern_words_def
  by (intro rw.emits_comp emits_pair rw.emits_fold)

lemma buildExterns_bytes:
  assumes "rd_inv rd"
  shows "rd_inv (buildExterns ms isImports rd) \<and>
    rd_bytes (buildExterns ms isImports rd) = rd_bytes rd @
      table_bytes (if isImports then IMPORTS else EXPORTS) (int (length ms))
        (concat (map (extern_words isImports) ms))"
proof -
  define t where "t = (if isImports then IMPORTS else EXPORTS)"
  define rd1 where "rd1 = rd_pool (header_write (new_BlockHeader t)) rd"
  define rd2 where "rd2 = (if isImports then rd1\<lparr>imports_offset := rd_size rd1\<rparr>
    else rd1\<lparr>exports_offset := rd_size rd1\<rparr>)"
  define rd3 where "rd3 = fold (save_extern_module isImports) ms rd2"
  have "rd_inv rd1" using header_write_bytes [OF assms] by (simp add: rd1_def)
  then have "rd_inv rd2" and "rd_bytes rd2 = rd_bytes rd1"
    by (auto simp: rd2_def rd_inv_def rd_bytes_def)
  moreover have "rw.emits (fold (save_extern_module isImports) ms)
      (concat (map (extern_words isImports) ms))"
    by (intro rw.emits_fold emits_extern_module)
  ultimately have "rd_inv rd3"
    and "rd_bytes rd3 = rd_bytes rd1 @ words_bytes (concat (map (extern_words isImports) ms))"
    by (simp_all add: rw.emits_def rd3_def)
  note table = patch_header_table [OF assms this(1) rd1_def this(2)]
  have "buildExterns ms isImports rd = patch_header t (int (length ms)) (rd_size rd1) rd3"
    unfolding buildExterns_def Let_def t_def [symmetric] rd1_def [symmetric] rd2_def [symmetric]
      rd3_def [symmetric] ..
  then show ?thesis using table t_def by simp
qed

subsection \<open>Shapes\<close>

definition shape_words :: "ShapeInfo \<Rightarrow> int list" where
  "shape_words info =
     [int (si_metaOffset info), int (length (si_members info))] @ si_members info"

lemma saveShape_emits: "rw.emits (\<lambda>rd. snd (saveShape info rd)) (shape_words info)"
proof -
  have "rw.emits (fold rd_int32 ws) (concat (map (\<lambda>w. [w]) ws))" for ws
    by (intro rw.emits_fold rw.emits_word)
  then have "rw.emits (fold rd_int32 ws) ws" for ws by simp
  then show ?thesis
    unfolding saveShape_def shape_words_def snd_conv by (intro rw.emits_comp emits_pair)
qed

lemma getShapeValueIndex_pool:
  "getShapeValueIndex v g = Inr (i, g') \<Longrightarrow> gc_dataPool g' = gc_dataPool g \<and> same_tables g g'"
  by (auto simp: getShapeValueIndex_def bind_r_Inr_iff split: option.splits semantics_value.splits
      var_ref.splits dest: fi.get_pool fi.get_frame)

lemma shape_member_info_pool:
  assumes "shape_member_info m g = Inr (i, g')"
  shows "gc_dataPool g' = gc_dataPool g \<and> same_tables g g'"
proof -
  have "gc_dataPool g' = gc_dataPool g \<and> same_tables g g'"
    if "createAccessorInfo st a b g = Inr (p, g')" for st a b p
    using that
    by (auto simp: createAccessorInfo_def bind_r_Inr_iff split: if_splits
        dest!: getShapeValueIndex_pool dest: same_tables_trans)
  with assms show ?thesis
    by (auto simp: shape_member_info_def bind_r_Inr_iff getShapeValueIndex_pool
        split: option.splits ShapeMember.splits if_splits dest: getShapeValueIndex_pool)
qed

lemma shape_member_infos_pool:
  "shape_member_infos ms g = Inr (is, g') \<Longrightarrow>
   gc_dataPool g' = gc_dataPool g \<and> same_tables g g' \<and> length is = length ms"
proof (induction ms arbitrary: g "is")
  case (Cons m ms)
  then obtain i g1 js where "shape_member_info m g = Inr (i, g1)"
    and "shape_member_infos ms g1 = Inr (js, g')" and "is = i # js"
    by (auto simp: bind_r_Inr_iff)
  with Cons.IH [of g1 js] shape_member_info_pool [of m g i g1] show ?case
    by (auto intro: same_tables_trans)
qed simp

text \<open>Steps that only append words and keep the descriptions.\<close>

definition grows :: "RuntimeData \<Rightarrow> RuntimeData \<Rightarrow> bool" where
  "grows rd rd' \<longleftrightarrow> rd_inv rd' \<and> (\<exists>ws. rd_bytes rd' = rd_bytes rd @ words_bytes ws) \<and>
     gc_heap (rd_ctx rd') = gc_heap (rd_ctx rd) \<and>
     objectDescriptionsMap rd' = objectDescriptionsMap rd"

lemma grows_refl: "rd_inv rd \<Longrightarrow> grows rd rd"
  unfolding grows_def by (auto intro: exI [of _ "[]"])

lemma grows_trans: "grows a b \<Longrightarrow> grows b c \<Longrightarrow> grows a c"
  unfolding grows_def by (auto, metis words_bytes_simps(3))

lemma rd_int32_fields [simp]:
  "objectDescriptionsMap (rd_int32 n rd) = objectDescriptionsMap rd"
  "gc_heap (rd_ctx (rd_int32 n rd)) = gc_heap (rd_ctx rd)"
  "shapesMap (rd_int32 n rd) = shapesMap rd"
  by (simp_all add: rd_int32_def rd_pool_def)

lemma fold_rd_int32_fields [simp]:
  "objectDescriptionsMap (fold rd_int32 ws rd) = objectDescriptionsMap rd"
  "gc_heap (rd_ctx (fold rd_int32 ws rd)) = gc_heap (rd_ctx rd)"
  by (induction ws arbitrary: rd) simp_all

lemma buildShape_rt_Inr:
  assumes "buildShape_rt s suffix rd = Inr rd'" and "rd_inv rd"
  shows "\<exists>info meta_info. map_get (objectDescriptionsMap rd) (s_meta (shapes (gc_heap (rd_ctx rd)) s)) = Some meta_info \<and>
    map_get (shapesMap rd') s = Some info \<and> si_offset info = length (rd_bytes rd) \<and>
    si_metaOffset info = oi_offset meta_info \<and>
    length (si_members info) = length (opt_list (s_members (shapes (gc_heap (rd_ctx rd)) s))) \<and>
    rd_bytes rd' = rd_bytes rd @ words_bytes (shape_words info) \<and> grows rd rd'"
proof -
  obtain mi infos g
    where mi: "map_get (objectDescriptionsMap rd) (s_meta (shapes (gc_heap (rd_ctx rd)) s)) = Some mi"
      and infos: "shape_member_infos (opt_list (s_members (shapes (gc_heap (rd_ctx rd)) s))) (rd_ctx rd)
        = Inr (infos, g)"
      and rd': "rd' = (let (info, rd1) = saveShape
          \<lparr>si_name = oi_name mi @ js_lit ''_'' @ suffix, si_offset = 0,
           si_metaOffset = oi_offset mi, si_members = infos\<rparr> (rd\<lparr>rd_ctx := g\<rparr>)
        in rd1\<lparr>shapesMap := map_set s info (shapesMap rd1)\<rparr>)"
    using assms(1)
    by (auto simp: buildShape_rt_def Let_def bind_r_Inr_iff split_beta split: option.splits)
  define info0 where "info0 = \<lparr>si_name = oi_name mi @ js_lit ''_'' @ suffix, si_offset = 0,
    si_metaOffset = oi_offset mi, si_members = infos\<rparr>"
  define rd0 where "rd0 = rd\<lparr>rd_ctx := g\<rparr>"
  have g: "gc_dataPool g = gc_dataPool (rd_ctx rd)" "same_tables (rd_ctx rd) g"
    "length infos = length (opt_list (s_members (shapes (gc_heap (rd_ctx rd)) s)))"
    using shape_member_infos_pool [OF infos] by auto
  have rd0: "rd_inv rd0" "rd_bytes rd0 = rd_bytes rd" "gc_heap (rd_ctx rd0) = gc_heap (rd_ctx rd)"
    using assms(2) g same_tables_fields(7) [OF g(2)]
    by (simp_all add: rd0_def rd_inv_def rd_bytes_def)
  have save: "rd_inv (snd (saveShape info0 rd0)) \<and>
      rd_bytes (snd (saveShape info0 rd0)) = rd_bytes rd @ words_bytes (shape_words info0)"
    using saveShape_emits [of info0] rd0 by (simp add: rw.emits_def)
  define info where "info = info0\<lparr>si_offset := rd_size rd0\<rparr>"
  have fst: "fst (saveShape info0 rd0) = info" by (simp add: saveShape_def info_def)
  have rd'': "rd' = (snd (saveShape info0 rd0))
      \<lparr>shapesMap := map_set s info (shapesMap (snd (saveShape info0 rd0)))\<rparr>"
    using rd' fst unfolding info0_def [symmetric] rd0_def [symmetric] by (auto simp: split_beta Let_def)
  have words: "shape_words info = shape_words info0" by (simp add: info_def shape_words_def)
  have "grows rd rd'"
    unfolding grows_def using save rd0(3)
    by (auto simp: rd'' rd_inv_def rd_bytes_def saveShape_def rd0_def)
  moreover have "rd_bytes rd' = rd_bytes rd @ words_bytes (shape_words info)"
    using save by (simp add: rd'' rd_bytes_def words)
  moreover have "map_get (shapesMap rd') s = Some info" by (simp add: rd'')
  moreover have "si_offset info = length (rd_bytes rd)" using rd0 by (simp add: info_def rd_size_bytes)
  ultimately show ?thesis using mi g(3) by (auto simp: info_def info0_def)
qed

lemma description_shapes_loop:
  "fold_r (\<lambda>(s, suffix) (count, rd). bind_r (buildShape_rt s suffix rd) (\<lambda>rd1. Inr (Suc count, rd1)))
     xs (n, rd) = Inr (n', rd') \<Longrightarrow> rd_inv rd \<Longrightarrow> grows rd rd' \<and> n' = n + length xs"
proof (induction xs arbitrary: n rd)
  case Nil
  then show ?case by (simp add: grows_refl)
next
  case (Cons x xs)
  obtain s suffix where x: "x = (s, suffix)" by (cases x)
  with Cons.prems obtain rd1 where b: "buildShape_rt s suffix rd = Inr rd1"
    and r: "fold_r (\<lambda>(s, suffix) (count, rd). bind_r (buildShape_rt s suffix rd) (\<lambda>rd1. Inr (Suc count, rd1)))
     xs (Suc n, rd1) = Inr (n', rd')"
    by (auto simp: bind_r_Inr_iff)
  have "grows rd rd1" using buildShape_rt_Inr [OF b Cons.prems(2)] by blast
  moreover have "grows rd1 rd' \<and> n' = Suc n + length xs"
    using Cons.IH [OF r] \<open>grows rd rd1\<close> by (simp add: grows_def)
  ultimately show ?case by (auto intro: grows_trans)
qed

definition shape_count :: "semantics_value rt_heap \<Rightarrow> meta_ref option list \<Rightarrow> nat" where
  "shape_count h ms =
     sum_list (map (\<lambda>a. case a of Some a \<Rightarrow> length (description_shapes (metas h a)) | None \<Rightarrow> 0) ms)"

lemma shapes_loop:
  "fold_r build_shapes_entry ms (n, rd) = Inr (n', rd') \<Longrightarrow> rd_inv rd \<Longrightarrow>
   grows rd rd' \<and> n' = n + shape_count (gc_heap (rd_ctx rd)) ms"
proof (induction ms arbitrary: n rd)
  case Nil
  then show ?case by (simp add: grows_refl shape_count_def)
next
  case (Cons a ms)
  from Cons.prems(1) obtain n1 rd1 where e0: "build_shapes_entry a (n, rd) = Inr (n1, rd1)"
    and r: "fold_r build_shapes_entry ms (n1, rd1) = Inr (n', rd')"
    by (auto simp: bind_r_Inr_iff)
  then obtain a' where a: "a = Some a'" by (cases a) (simp_all add: build_shapes_entry_def)
  with e0 have e: "build_shapes_entry (Some a') (n, rd) = Inr (n1, rd1)" by simp
  have g: "grows rd rd1 \<and> n1 = n + length (description_shapes (metas (gc_heap (rd_ctx rd)) a'))"
    using description_shapes_loop [of _ n rd n1 rd1] e Cons.prems(2)
    by (simp add: build_shapes_entry_def)
  then have "grows rd1 rd' \<and> n' = n1 + shape_count (gc_heap (rd_ctx rd1)) ms"
    using Cons.IH [OF r] by (simp add: grows_def)
  moreover have "gc_heap (rd_ctx rd1) = gc_heap (rd_ctx rd)" using g by (simp add: grows_def)
  ultimately show ?case using g by (auto simp: a shape_count_def intro: grows_trans)
qed

subsection \<open>Descriptions\<close>

definition description_words :: "nat \<Rightarrow> nat option \<Rightarrow> int \<Rightarrow> MemberDescriptionInfo list \<Rightarrow> int list" where
  "description_words nameOffset base flags infos =
     [int nameOffset, int (case base of Some off \<Rightarrow> off | None \<Rightarrow> 0), flags, int (length infos)]
     @ concat (map (\<lambda>m. [int (mi_nameOffset m), member_word m]) infos)"

lemma save_description_emits:
  "rw.emits (save_description nameOffset base flags infos)
     (description_words nameOffset base flags infos)"
proof -
  have "rw.emits (\<lambda>rd. rd_int32 (int (length infos)) (rd_int32 flags
      (rd_int32 (int (case base of Some off \<Rightarrow> off | None \<Rightarrow> 0)) (rd_int32 (int nameOffset) rd))))
      ((([int nameOffset] @ [int (case base of Some off \<Rightarrow> off | None \<Rightarrow> 0)]) @ [flags])
       @ [int (length infos)])"
    by (intro rw.emits_then rw.emits_word)
  from rw.emits_comp [OF this, of "fold (\<lambda>m rd. rd_int32 (member_word m)
      (rd_int32 (int (mi_nameOffset m)) rd)) infos"
      "concat (map (\<lambda>m. [int (mi_nameOffset m), member_word m]) infos)"]
  show ?thesis
    unfolding save_description_def description_words_def
    by (simp add: rw.emits_fold emits_pair)
qed

lemma nth_concat_pairs:
  "k < length xs \<Longrightarrow> concat (map (\<lambda>m. [f m, g m]) xs) ! (2 * k) = f (xs ! k) \<and>
     concat (map (\<lambda>m. [f m, g m]) xs) ! Suc (2 * k) = g (xs ! k)"
proof (induction xs arbitrary: k)
  case (Cons x xs)
  then show ?case by (cases k) simp_all
qed simp

lemma member_word_parts:
  assumes "0 \<le> mi_type m" and "mi_type m < 2 ^ 15" and "mi_index m < 2 ^ 16"
  shows "js_shr (member_word m) 16 = mi_type m" and "js_and (member_word m) 0xffff = int (mi_index m)"
proof -
  have "js_shr (member_word m) 16 = signed_take_bit 15 (mi_type m)"
    unfolding member_word_def mask_ffff
    by (rule bit_eqI) (auto simp: bit_ext bit_mask_iff bit_signed_take_bit_iff min_def not_le)
  then show "js_shr (member_word m) 16 = mi_type m"
    using assms by (simp add: signed_take_bit_int_eq_self)
  have "js_and (member_word m) 0xffff = take_bit 16 (int (mi_index m))"
    unfolding member_word_def mask_ffff
    by (subst js_and_mask, simp, rule bit_eqI)
       (auto simp: bit_ext bit_mask_iff bit_take_bit_iff min_def)
  then show "js_and (member_word m) 0xffff = int (mi_index m)"
    using assms by (simp add: take_bit_int_eq_self)
qed

lemma extern_word_parts:
  assumes "0 \<le> xi_index i" and "xi_index i < 2 ^ 28" and "0 \<le> xi_type i" and "xi_type i < 16"
  shows "js_and (js_shr (extern_item_word i) 28) 0xf = xi_type i"
    and "js_and (extern_item_word i) 0x0fffffff = xi_index i"
proof -
  have f: "(0x7fffffff :: int) = mask 31" "(0x0fffffff :: int) = mask 28" "(0xf :: int) = mask 4"
    by (simp_all add: mask_eq_exp_minus_1)
  have idx: "bit (xi_index i) n \<longleftrightarrow> bit (xi_index i) n \<and> n < 28" for n
    using assms(1,2) by (metis bit_take_bit_iff take_bit_int_eq_self)
  have "js_and (js_shr (extern_item_word i) 28) 0xf = take_bit 4 (xi_type i)"
    unfolding extern_item_word_def f
    by (subst js_and_mask, simp, rule bit_eqI, subst (2) bit_take_bit_iff)
       (use idx in \<open>auto simp: bit_ext bit_mask_iff bit_take_bit_iff min_def\<close>)
  then show "js_and (js_shr (extern_item_word i) 28) 0xf = xi_type i"
    using assms by (simp add: take_bit_int_eq_self)
  have "js_and (extern_item_word i) 0x0fffffff = take_bit 28 (xi_index i)"
    unfolding extern_item_word_def f
    by (subst js_and_mask, simp, rule bit_eqI)
       (auto simp: bit_ext bit_mask_iff bit_take_bit_iff min_def)
  then show "js_and (extern_item_word i) 0x0fffffff = xi_index i"
    using assms by (simp add: take_bit_int_eq_self)
qed

lemma enum_word_value: "js_or (js_shl (js_and 3 0xf) 28) (js_and (-1) 0x7fffffff) = 0x7fffffff"
proof -
  have "js_and (-1) (mask 31) = mask 31" by (simp add: js_and_mask take_bit_minus_one_eq_mask)
  then have "js_and (-1) 0x7fffffff = 0x7fffffff" by (simp add: mask_eq_exp_minus_1)
  moreover have "js_shl (js_and 3 0xf) 28 = 0x30000000"
    by (simp add: js_shl_def js_and_def to_int32_id)
  ultimately show ?thesis by (simp add: js_or_def to_int32_id)
qed

lemma to_int32_js_or [simp]: "to_int32 (js_or a b) = js_or a b"
  by (rule bit_eqI) (simp add: bit_ext)

lemma to_int32_nonneg: "0 \<le> n \<Longrightarrow> n < 2 ^ 31 \<Longrightarrow> to_int32 n = n"
  by (simp add: to_int32_id)

subsection \<open>The size of the pool\<close>

lemma addString_grows: "addString s p = Inr (off, q) \<Longrightarrow> pool_size p \<le> pool_size q"
proof (cases "map_get (strMap p) s")
  case None
  assume "addString s p = Inr (off, q)"
  with None have "pool_size q = string_end (pool_size p) (length s)"
    using addString_fresh by metis
  then show ?thesis using string_end_bounds [of "pool_size p" "length s"] by simp
qed (simp add: addString_def)

lemma addString_defined: "\<forall>c \<in> set s. unat c < 256 \<Longrightarrow> \<exists>r. addString s p = Inr r"
  using write_chars_ok_iff [of "buffer (updateBufferSize (length s) p)" "pool_size p" s]
  by (auto simp: addString_def Let_def split_beta split: option.split)

lemma rd_addString_Inr:
  assumes "rd_addString s rd = Inr (off, rd')"
  shows "rd_size rd \<le> rd_size rd'" and "objectDescriptionsMap rd' = objectDescriptionsMap rd"
    and "gc_heap (rd_ctx rd') = gc_heap (rd_ctx rd)"
  using assms
  by (auto simp: rd_addString_def gc_addString_def bind_r_Inr_iff rd_size_def getCurrentSize_def
      intro: addString_grows)

lemma rd_addString_defined:
  "\<forall>c \<in> set s. unat c < 256 \<Longrightarrow> \<exists>off rd'. rd_addString s rd = Inr (off, rd')"
  using addString_defined [of s "gc_dataPool (rd_ctx rd)"]
  by (auto simp: rd_addString_def gc_addString_def)

lemma member_infos_Inr:
  "member_infos ms rd = Inr (infos, rd') \<Longrightarrow> rd_size rd \<le> rd_size rd' \<and>
   objectDescriptionsMap rd' = objectDescriptionsMap rd \<and> gc_heap (rd_ctx rd') = gc_heap (rd_ctx rd)"
proof (induction ms arbitrary: rd infos)
  case (Cons m ms)
  then obtain m' where m: "m = Some m'" by (cases m) auto
  with Cons.prems obtain off rd1 js where a: "rd_addString (m_name m') rd = Inr (off, rd1)"
    and r: "member_infos ms rd1 = Inr (js, rd')" by (auto simp: bind_r_Inr_iff)
  from Cons.IH [OF r] rd_addString_Inr [OF a] show ?case by simp
qed simp

lemma rd_int32_size [simp]: "rd_size (rd_int32 n rd) = rd_size rd + 4"
  by (simp add: rd_int32_def rd_pool_def rd_size_def getCurrentSize_def addInt32_def addByte_def
      Let_def split_beta)

lemma save_description_Inr:
  "rd_size rd < rd_size (save_description n b f infos rd) \<and>
   objectDescriptionsMap (save_description n b f infos rd) = objectDescriptionsMap rd \<and>
   gc_heap (rd_ctx (save_description n b f infos rd)) = gc_heap (rd_ctx rd)"
proof -
  have "rd_size rd \<le> rd_size (fold (\<lambda>m rd. rd_int32 (member_word m) (rd_int32 (int (mi_nameOffset m)) rd)) infos rd) \<and>
    objectDescriptionsMap (fold (\<lambda>m rd. rd_int32 (member_word m) (rd_int32 (int (mi_nameOffset m)) rd)) infos rd)
      = objectDescriptionsMap rd \<and>
    gc_heap (rd_ctx (fold (\<lambda>m rd. rd_int32 (member_word m) (rd_int32 (int (mi_nameOffset m)) rd)) infos rd))
      = gc_heap (rd_ctx rd)" for rd
  proof (induction infos arbitrary: rd)
    case (Cons m ms)
    show ?case
      using Cons.IH [of "rd_int32 (member_word m) (rd_int32 (int (mi_nameOffset m)) rd)"] by simp
  qed simp
  from this [of "rd_int32 (int (length infos)) (rd_int32 f
      (rd_int32 (int (case b of Some off \<Rightarrow> off | None \<Rightarrow> 0)) (rd_int32 (int n) rd)))"]
  show ?thesis by (simp add: save_description_def)
qed

text \<open>A description that is not in the map is written behind everything before it.\<close>

lemma buildObjectDescription_Inr:
  "buildObjectDescription fuel a rd = Inr (info, rd') \<Longrightarrow>
   objectDescriptionsMap rd' = objectDescriptionsMap rd \<and>
   gc_heap (rd_ctx rd') = gc_heap (rd_ctx rd) \<and> rd_size rd \<le> rd_size rd' \<and>
   (map_get (objectDescriptionsMap rd) a = None \<longrightarrow> rd_size rd \<le> oi_offset info \<and> oi_offset info < rd_size rd')"
proof (induction fuel a rd arbitrary: info rd' rule: buildObjectDescription.induct)
  case (2 fuel a rd)
  show ?case
  proof (cases "map_get (objectDescriptionsMap rd) a")
    case (Some i)
    with "2.prems" show ?thesis by simp
  next
    case None
    let ?od = "metas (gc_heap (rd_ctx rd)) a"
    obtain base rd1 nameOffset rd2 infos rd3
      where b: "(case od_base ?od of
                   Some b \<Rightarrow> bind_r (buildObjectDescription fuel b rd) (\<lambda>(i, rd1). Inr (Some (oi_offset i), rd1))
                 | None \<Rightarrow> Inr (None, rd)) = Inr (base, rd1)"
        and n: "rd_addString (od_name ?od) rd1 = Inr (nameOffset, rd2)"
        and m: "member_infos (members ?od) rd2 = Inr (infos, rd3)"
        and i: "oi_offset info = rd_size rd3"
        and rd': "rd' = save_description nameOffset base (od_type_num (od_type ?od)) infos rd3"
      using "2.prems" None by (auto simp: Let_def bind_r_Inr_iff)
    have "objectDescriptionsMap rd1 = objectDescriptionsMap rd \<and>
        gc_heap (rd_ctx rd1) = gc_heap (rd_ctx rd) \<and> rd_size rd \<le> rd_size rd1"
      using b "2.IH" [OF None refl]
      by (auto simp: bind_r_Inr_iff split: option.splits)
    then show ?thesis
      using rd_addString_Inr [OF n] member_infos_Inr [OF m]
        save_description_Inr [of rd3 nameOffset base "od_type_num (od_type ?od)" infos]
      by (auto simp: rd' i)
  qed
qed simp

lemma build_description_entry_Inr:
  assumes "build_description_entry fuel (Some a) rd = Inr rd'"
  obtains info rd1 where "buildObjectDescription fuel a rd = Inr (info, rd1)"
    and "rd' = rd1\<lparr>objectDescriptionsMap := map_set a info (objectDescriptionsMap rd1)\<rparr>"
  using assms by (auto simp: build_description_entry_def bind_r_Inr_iff)

text \<open>Runtime data for examples: two descriptions, the first derived from the second.\<close>

definition sample_descriptions :: "semantics_value rt_heap" where
  "sample_descriptions = sample_runtime\<lparr>metas := (\<lambda>_. new_ObjectDescription [] OBJECT_INSTANCE None)
     (0 := (new_ObjectDescription [] OBJECT_INSTANCE None)\<lparr>od_base := Some 1\<rparr>)\<rparr>"

definition sample_data :: "semantics_value rt_heap \<Rightarrow> RuntimeData" where
  "sample_data h =
     \<lparr>rd_ctx = empty_GlobalContext sample_module h None sample_pool, rd_metas = [Some 0],
      objectDescriptionsMap = [], shapesMap = [], imports_offset = 0, exports_offset = 0\<rparr>"

lemma sample_data_inv [simp]: "rd_inv (sample_data h)"
  by (simp add: sample_data_def rd_inv_def dp_inv_def empty_GlobalContext_def sample_pool_def)

section \<open>Properties\<close>

text \<open>
  A shape member reads back from its 32-bit encoding: the kind of the member, and the
  offset, the method index or the two accessor indices, each plus one, as long as they are
  positive and fit.
\<close>

theorem shape_member_roundtrip:
  assumes "0 < off" and "off < 2 ^ 29 - 1" and "0 < g" and "g < 2 ^ 15 - 1"
    and "0 < s" and "s < 2 ^ 15 - 1"
  shows "(let f = new_ShapeMemberInfo ShapeMemberType.OFFSET (Some (empty_param\<lparr>p_offset := Some off\<rparr>));
              m = new_ShapeMemberInfo ShapeMemberType.METHOD (Some (empty_param\<lparr>p_method := Some off\<rparr>));
              a = new_ShapeMemberInfo ShapeMemberType.ACCESSOR
                    (Some (empty_param\<lparr>p_getter := Some g, p_setter := Some s\<rparr>))
          in info_type f = 1 \<and> info_offset f = off + 1 \<and>
             info_type m = 0 \<and> info_method m = off + 1 \<and>
             info_type a = 2 \<and> info_getter a = g + 1 \<and> info_setter a = s + 1)"
proof -
  have "shape_member_value ShapeMemberType.OFFSET (Some (empty_param\<lparr>p_offset := Some off\<rparr>)) = off + 1"
    and "shape_member_value ShapeMemberType.METHOD (Some (empty_param\<lparr>p_method := Some off\<rparr>)) = off + 1"
    and "shape_member_value ShapeMemberType.ACCESSOR
        (Some (empty_param\<lparr>p_getter := Some g, p_setter := Some s\<rparr>))
      = js_or (js_and (g + 1) 0x7fff) (js_shl (js_and (s + 1) 0x7fff) 15)"
    using assms by (auto simp: shape_member_value_def truthy_def empty_param_def index_or_0_def)
  moreover have "signed_take_bit 29 (off + 1) = off + 1"
    using assms by (intro signed_take_bit_int_eq_self) simp_all
  moreover have "take_bit 15 (g + 1) = g + 1" and "take_bit 15 (s + 1) = s + 1"
    using assms by (simp_all add: take_bit_int_eq_self)
  ultimately show ?thesis
    by (simp add: info_reads Let_def accessor_value_parts)
qed

theorem shape_member_roundtrip_witness:
  "info_offset (new_ShapeMemberInfo ShapeMemberType.OFFSET (Some (empty_param\<lparr>p_offset := Some 8\<rparr>))) = 9"
  using shape_member_roundtrip [of 8 1 1] by (simp add: Let_def)

text \<open>
  The index 0 is lost: a field at offset 0, the method with function index 0 and an accessor
  whose getter has index 0 are encoded like a member that has none.
\<close>

theorem shape_member_zero_lost:
  "new_ShapeMemberInfo ShapeMemberType.OFFSET (Some (empty_param\<lparr>p_offset := Some 0\<rparr>))
     = new_ShapeMemberInfo ShapeMemberType.OFFSET (Some empty_param) \<and>
   new_ShapeMemberInfo ShapeMemberType.METHOD (Some (empty_param\<lparr>p_method := Some 0\<rparr>))
     = new_ShapeMemberInfo ShapeMemberType.METHOD None \<and>
   new_ShapeMemberInfo ShapeMemberType.ACCESSOR (Some (empty_param\<lparr>p_getter := Some 0, p_setter := st\<rparr>))
     = new_ShapeMemberInfo ShapeMemberType.ACCESSOR (Some (empty_param\<lparr>p_setter := st\<rparr>))"
  by (simp add: new_ShapeMemberInfo_def shape_member_value_def truthy_def empty_param_def
      index_or_0_def split: option.split)

text \<open>
  A patched block header reads back: its type from the top four bits, the count from the
  other bits and the size from the next word; the bytes around the header are unchanged.
\<close>

theorem header_update_roundtrip:
  assumes "dp_inv p" and "start + 8 \<le> length (pool_bytes p)"
    and "0 \<le> count" and "count < 2 ^ 28" and "0 \<le> n" and "n < 2 ^ 31"
  shows "(let bs = pool_bytes (header_update \<lparr>bh_type = t, bh_count = count, bh_size = n\<rparr> start p)
    in (\<exists>w. read_int32 bs start = Some w \<and> js_and (js_shr w 28) 0xf = header_type_num t \<and>
            js_and w 0x0fffffff = count) \<and>
       read_int32 bs (start + 4) = Some n \<and> length bs = length (pool_bytes p) \<and>
       take start bs = take start (pool_bytes p) \<and> drop (start + 8) bs = drop (start + 8) (pool_bytes p))"
proof -
  let ?b = "\<lparr>bh_type = t, bh_count = count, bh_size = n\<rparr>"
  let ?bs = "pool_bytes (header_update ?b start p)"
  have bs: "?bs = take start (pool_bytes p) @ int32_le (header_word ?b) @ int32_le n
      @ drop (start + 8) (pool_bytes p)"
    using header_update_bytes [OF assms(1,2), of ?b] by simp
  have "to_int32 (header_word ?b) = header_word ?b" by (simp add: header_word_def)
  then have "read_int32 ?bs start = Some (header_word ?b)"
    unfolding bs using assms(2) by (simp add: read_int32_append)
  moreover have "read_int32 ?bs (start + 4) = Some n"
  proof -
    have "?bs = (take start (pool_bytes p) @ int32_le (header_word ?b)) @ int32_le n
        @ drop (start + 8) (pool_bytes p)" using bs by simp
    then show ?thesis
      using assms read_int32_append [of "take start (pool_bytes p) @ int32_le (header_word ?b)"]
      by (simp add: to_int32_nonneg)
  qed
  ultimately show ?thesis
    using header_word_parts [of ?b] assms bs by (simp add: Let_def)
qed

theorem header_update_roundtrip_witness:
  "\<exists>p. dp_inv p \<and> read_int32 (pool_bytes (header_update
      \<lparr>bh_type = SHAPS, bh_count = 3, bh_size = 40\<rparr> 0 p)) 4 = Some 40"
proof -
  define p where "p = header_write (new_BlockHeader SHAPS) new_DataPool"
  have "dp_inv p" and "length (pool_bytes p) = 8"
    using addInt32_inv new_DataPool_inv addInt32_bytes
    by (simp_all add: p_def header_write_def)
  then show ?thesis
    using header_update_roundtrip [of p 0 3 40 SHAPS] by (auto simp: Let_def)
qed

text \<open>
  C16. The import and the export table are appended to the pool as specified: a header with the
  number of modules and the size in bytes, then for every module its name, its number of items
  with the import flag, and name and word of every item.
\<close>

theorem buildExterns_layout:
  assumes "rd_inv rd"
  shows "rd_inv (buildExterns ms isImports rd) \<and>
    rd_bytes (buildExterns ms isImports rd) = rd_bytes rd @
      table_bytes (if isImports then IMPORTS else EXPORTS) (int (length ms))
        (concat (map (extern_words isImports) ms))"
  using assms by (rule buildExterns_bytes)

theorem buildExterns_layout_witness:
  "length (rd_bytes (buildExterns [] True (sample_data sample_runtime))) = 8"
  using buildExterns_layout [OF sample_data_inv, of "[]" True sample_runtime]
  by (simp add: table_bytes_def sample_data_def rd_bytes_def pool_bytes_def empty_GlobalContext_def
      sample_pool_def)

text \<open>
  An imported or exported item whose index is below \<open>2^28\<close> reads back from its word: kind
  and index.
\<close>

theorem extern_item_roundtrip:
  assumes "0 \<le> xi_index i" and "xi_index i < 2 ^ 28" and "0 \<le> xi_type i" and "xi_type i < 16"
  shows "js_and (js_shr (extern_item_word i) 28) 0xf = xi_type i \<and>
    js_and (extern_item_word i) 0x0fffffff = xi_index i"
  using extern_word_parts [OF assms] by simp

theorem extern_item_roundtrip_witness:
  "js_and (extern_item_word \<lparr>xi_nameOffset = 0, xi_type = 2, xi_index = 5, xi_externIndex = 0\<rparr>)
    0x0fffffff = 5"
  using extern_item_roundtrip
    [of "\<lparr>xi_nameOffset = 0, xi_type = 2, xi_index = 5, xi_externIndex = 0\<rparr>"] by simp

text \<open>
  An enumeration is listed with the index -1, whose 31 low bits overlap the four bits of the
  kind: the kind of every such item reads back as 7, no number of \<open>ExternTypeKind\<close>.
\<close>

theorem enum_item_kind_lost:
  assumes "findExternItemIndex ExternTypeKind.ENUM ty g = Inr (idx, g')"
  shows "js_and (js_shr (extern_item_word
      \<lparr>xi_nameOffset = off, xi_type = extern_kind_num ExternTypeKind.ENUM, xi_index = idx,
       xi_externIndex = k\<rparr>) 28) 0xf = 7"
proof -
  have "idx = -1" using assms by (simp add: findExternItemIndex_def)
  then have "extern_item_word \<lparr>xi_nameOffset = off, xi_type = extern_kind_num ExternTypeKind.ENUM,
      xi_index = idx, xi_externIndex = k\<rparr> = 0x7fffffff"
    using enum_word_value by (simp add: extern_item_word_def)
  then show ?thesis by (simp add: js_shr_def js_and_def to_int32_id)
qed

theorem enum_item_kind_lost_witness:
  "js_and (js_shr (extern_item_word
      \<lparr>xi_nameOffset = 0, xi_type = 3, xi_index = -1, xi_externIndex = 0\<rparr>) 28) 0xf = 7"
  using enum_item_kind_lost [of "ExtEnum 0" "rd_ctx (sample_data sample_runtime)" "-1" "rd_ctx (sample_data sample_runtime)" 0 0]
  by (simp add: findExternItemIndex_def)

text \<open>
  C17. The shape table is appended to the pool: a header whose count is the number of shapes
  written for the descriptions and whose size is the number of bytes that follow it.
\<close>

theorem buildShapes_layout:
  assumes "rd_inv rd" and "buildShapes rd = Inr rd'"
  shows "\<exists>ws. rd_inv rd' \<and> rd_bytes rd' = rd_bytes rd @
    table_bytes SHAPS (int (shape_count (gc_heap (rd_ctx rd)) (rd_metas rd))) ws"
proof -
  define rd1 where "rd1 = rd_pool (header_write (new_BlockHeader SHAPS)) rd"
  obtain n rd2 where f: "fold_r build_shapes_entry (rd_metas rd) (0, rd1) = Inr (n, rd2)"
    and rd': "rd' = patch_header SHAPS (int n) (rd_size rd1) rd2"
    using assms(2) by (auto simp: buildShapes_def Let_def rd1_def bind_r_Inr_iff)
  have "rd_inv rd1" using header_write_bytes [OF assms(1)] by (simp add: rd1_def)
  with shapes_loop [OF f] obtain ws where "rd_inv rd2" "rd_bytes rd2 = rd_bytes rd1 @ words_bytes ws"
    and n: "n = shape_count (gc_heap (rd_ctx rd1)) (rd_metas rd)" by (auto simp: grows_def)
  then show ?thesis
    using patch_header_table [OF assms(1) _ rd1_def, of rd2 ws "int n"]
    by (auto simp: rd' rd1_def rd_pool_def)
qed

theorem buildShapes_layout_witness:
  "\<exists>rd ws. buildShapes (sample_data sample_descriptions) = Inr rd \<and>
    rd_bytes rd = table_bytes SHAPS 0 ws"
proof -
  have "\<exists>rd. buildShapes (sample_data sample_descriptions) = Inr rd"
    by (simp add: buildShapes_def Let_def sample_data_def build_shapes_entry_def rd_pool_def
        empty_GlobalContext_def sample_descriptions_def description_shapes_def
        new_ObjectDescription_def)
  moreover have "rd_bytes (sample_data sample_descriptions) = []"
    by (simp add: rd_bytes_def sample_data_def empty_GlobalContext_def sample_pool_def pool_bytes_def)
  moreover have "shape_count (gc_heap (rd_ctx (sample_data sample_descriptions)))
      (rd_metas (sample_data sample_descriptions)) = 0"
    by (simp add: shape_count_def sample_data_def empty_GlobalContext_def sample_descriptions_def
        description_shapes_def new_ObjectDescription_def)
  ultimately show ?thesis using buildShapes_layout [OF sample_data_inv] by fastforce
qed

text \<open>
  C18. The words of an object description read back at the place where they were written: the
  offset of the name, the offset of the base or 0, the kind, the number of members, and for
  every member the offset of its name, its kind and its index.
\<close>

theorem description_roundtrip:
  assumes "rd_inv rd" and "nameOffset < 2 ^ 31" and "base = None \<or> the base < 2 ^ 31"
    and "0 \<le> flags" and "flags < 2 ^ 31" and "length infos < 2 ^ 31"
    and "k < length infos" and "mi_nameOffset (infos ! k) < 2 ^ 31"
    and "0 \<le> mi_type (infos ! k)" and "mi_type (infos ! k) < 2 ^ 15" and "mi_index (infos ! k) < 2 ^ 16"
  shows "(let bs = rd_bytes (save_description nameOffset base flags infos rd); off = length (rd_bytes rd)
    in read_int32 bs off = Some (int nameOffset) \<and>
       read_int32 bs (off + 4) = Some (int (case base of Some b \<Rightarrow> b | None \<Rightarrow> 0)) \<and>
       read_int32 bs (off + 8) = Some flags \<and>
       read_int32 bs (off + 12) = Some (int (length infos)) \<and>
       read_int32 bs (off + 16 + 8 * k) = Some (int (mi_nameOffset (infos ! k))) \<and>
       (\<exists>w. read_int32 bs (off + 20 + 8 * k) = Some w \<and> js_shr w 16 = mi_type (infos ! k) \<and>
            js_and w 0xffff = int (mi_index (infos ! k))))"
proof -
  let ?ws = "description_words nameOffset base flags infos"
  let ?ms = "concat (map (\<lambda>m. [int (mi_nameOffset m), member_word m]) infos)"
  let ?bs = "rd_bytes (save_description nameOffset base flags infos rd)"
  have len: "length ?ws = 4 + 2 * length infos"
    by (induction infos) (simp_all add: description_words_def)
  have read: "read_int32 ?bs (length (rd_bytes rd) + 4 * j) = Some (to_int32 (?ws ! j))"
    if "j < 4 + 2 * length infos" for j
    using rw.emits_read [OF save_description_emits assms(1)] that len by metis
  have pairs: "?ms ! (2 * k) = int (mi_nameOffset (infos ! k))" "?ms ! Suc (2 * k) = member_word (infos ! k)"
    using nth_concat_pairs [OF assms(7)] by metis+
  have ws: "?ws ! 0 = int nameOffset" "?ws ! 1 = int (case base of Some b \<Rightarrow> b | None \<Rightarrow> 0)"
    "?ws ! 2 = flags" "?ws ! 3 = int (length infos)"
    "?ws ! (4 + 2 * k) = int (mi_nameOffset (infos ! k))"
    "?ws ! (5 + 2 * k) = member_word (infos ! k)"
    using pairs by (simp_all add: description_words_def nth_append numeral_eq_Suc)
  have "to_int32 (member_word (infos ! k)) = member_word (infos ! k)" by (simp add: member_word_def)
  moreover have "int (case base of Some b \<Rightarrow> b | None \<Rightarrow> 0) < 2 ^ 31" using assms(3) by (cases base) auto
  ultimately show ?thesis
    using read [of 0] read [of 1] read [of 2] read [of 3] read [of "4 + 2 * k"] read [of "5 + 2 * k"]
      member_word_parts [OF assms(9-11)] assms ws
    by (simp add: Let_def to_int32_nonneg algebra_simps)
qed

theorem description_roundtrip_witness:
  "read_int32 (rd_bytes (save_description 8 None 2 [\<lparr>mi_nameOffset = 12, mi_type = 1, mi_index = 0\<rparr>]
     (sample_data sample_runtime))) 8 = Some 2"
proof -
  have "length (rd_bytes (sample_data sample_runtime)) = 0"
    by (simp add: rd_bytes_def sample_data_def empty_GlobalContext_def sample_pool_def pool_bytes_def)
  then show ?thesis
    using description_roundtrip [OF sample_data_inv, of 8 None 2
        "[\<lparr>mi_nameOffset = 12, mi_type = 1, mi_index = 0\<rparr>]" 0 sample_runtime]
    by (simp add: Let_def)
qed

text \<open>
  The index of a shape is not its position in the shape table. A description whose two own
  shapes are the same object, as for every class without subclasses, is numbered once but
  written twice: the shape with index 1 is the third one in the table.
\<close>

theorem shape_index_is_not_position:
  assumes "new_GlobalContext m h str p = Inr g" and "objectDescriptions m = [a]"
    and "originShape (metas h a) = Some s" and "thisShape (metas h a) = Some s"
    and "compatibleShapes (metas h a) = [(b, s')]" and "s' \<noteq> s" and "s_generic (shapes h s') = None"
  shows "(\<exists>g'. getShapeIndex s' g = Inr (1, g')) \<and>
    map fst (description_shapes (metas h a)) = [s, s, s'] \<and>
    buildMapAsArray (gc_staticShapes g) = [Some s, Some s']"
proof -
  have t: "gc_staticShapes g = [(s, 1), (s', 2)]"
    using new_GlobalContext_tables(5) [OF assms(1)] assms(2-6)
    by (simp add: add_meta_shapes_def add_shape_def add_new_shape_def map_has_def)
  have h: "gc_heap g = h" by (rule new_GlobalContext_tables(7) [OF assms(1)])
  have "genericShape s' h = s'" using assms(7) by (simp add: genericShape_def)
  then have "\<exists>g'. getShapeIndex s' g = Inr (1, g')"
    using si.get_succeeds_iff [of s' g 1] t h assms(6) by simp
  moreover have "map fst (description_shapes (metas h a)) = [s, s, s']"
    using assms(3-5) by (simp add: description_shapes_def)
  ultimately show ?thesis by (simp add: t buildMapAsArray_def js_array_set_def numeral_2_eq_2)
qed

definition sample_leaf_class :: "semantics_value rt_heap" where
  "sample_leaf_class = sample_runtime\<lparr>metas := (\<lambda>_. (new_ObjectDescription [] OBJECT_INSTANCE None)
     \<lparr>originShape := Some 0, thisShape := Some 0, compatibleShapes := [(1, 1)]\<rparr>)\<rparr>"

theorem shape_index_is_not_position_witness:
  "\<exists>g g'. new_GlobalContext sample_module sample_leaf_class None sample_pool = Inr g \<and>
    getShapeIndex 1 g = Inr (1, g') \<and>
    map fst (description_shapes (metas sample_leaf_class 0)) = [0, 0, 1]"
proof -
  obtain g where g: "new_GlobalContext sample_module sample_leaf_class None sample_pool = Inr g"
    by (simp add: sample_defs sample_leaf_class_def context_defs Let_def split_beta addString_def
        updateBufferSize_def pad_zero.simps new_ObjectDescription_def map_has_def)
  show ?thesis
    using shape_index_is_not_position [OF g, of 0 0 1 1] g
    by (auto simp: sample_module_def sample_leaf_class_def sample_runtime_def
        new_ObjectDescription_def)
qed

text \<open>
  A base description that is listed after a description derived from it is written twice,
  since the recursion does not record the bases it builds: the derived description points to a
  copy that lies before the one recorded for the base.
\<close>

theorem base_written_twice:
  assumes "fold_r (build_description_entry fuel) [Some d, Some b] rd = Inr rd'"
    and "objectDescriptionsMap rd = []" and "d \<noteq> b"
    and "od_base (metas (gc_heap (rd_ctx rd)) d) = Some b"
  shows "\<exists>di bi off. map_get (objectDescriptionsMap rd') d = Some di \<and>
    map_get (objectDescriptionsMap rd') b = Some bi \<and> oi_base di = Some off \<and> off < oi_offset bi"
proof -
  obtain rd1 where e1: "build_description_entry fuel (Some d) rd = Inr rd1"
    and e2: "build_description_entry fuel (Some b) rd1 = Inr rd'"
    using assms(1) by (auto simp: bind_r_Inr_iff)
  obtain di rd2 where b1: "buildObjectDescription fuel d rd = Inr (di, rd2)"
    and rd1: "rd1 = rd2\<lparr>objectDescriptionsMap := map_set d di (objectDescriptionsMap rd2)\<rparr>"
    using build_description_entry_Inr [OF e1] by blast
  obtain bi rd3 where b2: "buildObjectDescription fuel b rd1 = Inr (bi, rd3)"
    and rd': "rd' = rd3\<lparr>objectDescriptionsMap := map_set b bi (objectDescriptionsMap rd3)\<rparr>"
    using build_description_entry_Inr [OF e2] by blast
  obtain fuel' where fuel: "fuel = Suc fuel'" using b1 by (cases fuel) simp_all
  note m = buildObjectDescription_Inr [OF b1] buildObjectDescription_Inr [OF b2]
  have map1: "objectDescriptionsMap rd1 = [(d, di)]" using m(1) assms(2) by (simp add: rd1)
  have size: "rd_size rd1 = rd_size rd2" by (simp add: rd1 rd_size_def)
  obtain i rda where b0: "buildObjectDescription fuel' b rd = Inr (i, rda)"
    and off: "oi_base di = Some (oi_offset i)" and grow: "rd_size rda \<le> rd_size rd2"
  proof -
    obtain i rda nameOffset rdb infos rdc
      where "buildObjectDescription fuel' b rd = Inr (i, rda)"
        and "rd_addString (od_name (metas (gc_heap (rd_ctx rd)) d)) rda = Inr (nameOffset, rdb)"
        and "member_infos (members (metas (gc_heap (rd_ctx rd)) d)) rdb = Inr (infos, rdc)"
        and "oi_base di = Some (oi_offset i)"
        and "rd2 = save_description nameOffset (Some (oi_offset i))
          (od_type_num (od_type (metas (gc_heap (rd_ctx rd)) d))) infos rdc"
      using b1 assms(2,4) by (auto simp: fuel Let_def bind_r_Inr_iff)
    then show thesis
      using that rd_addString_Inr(1) member_infos_Inr save_description_Inr
      by (metis (no_types, lifting) less_imp_le order.trans)
  qed
  have "oi_offset i < rd_size rda" using buildObjectDescription_Inr [OF b0] assms(2) by simp
  moreover have "rd_size rd1 \<le> oi_offset bi" using m(2) map1 assms(3) by simp
  ultimately have "oi_offset i < oi_offset bi" using grow size by simp
  moreover have "map_get (objectDescriptionsMap rd') d = Some di" "map_get (objectDescriptionsMap rd') b = Some bi"
    using m(2) map1 assms(3) by (simp_all add: rd')
  ultimately show ?thesis using off by blast
qed

theorem base_written_twice_witness:
  "\<exists>rd di bi off. fold_r (build_description_entry 2) [Some 0, Some 1] (sample_data sample_descriptions) = Inr rd \<and>
    map_get (objectDescriptionsMap rd) 0 = Some di \<and> map_get (objectDescriptionsMap rd) 1 = Some bi \<and>
    oi_base di = Some off \<and> off < oi_offset bi"
proof -
  let ?rd = "sample_data sample_descriptions"
  have heap: "gc_heap (rd_ctx ?rd) = sample_descriptions" "objectDescriptionsMap ?rd = []"
    by (simp_all add: sample_data_def empty_GlobalContext_def)
  obtain o1 r1 where s1: "rd_addString [] ?rd = Inr (o1, r1)" using rd_addString_defined by fastforce
  define r2 where "r2 = save_description o1 None 2 [] r1"
  obtain o2 r3 where s2: "rd_addString [] r2 = Inr (o2, r3)" using rd_addString_defined by fastforce
  define r4 where "r4 = save_description o2 (Some (rd_size r1)) 2 [] r3"
  define r5 where "r5 = r4\<lparr>objectDescriptionsMap := [(0 :: nat,
    \<lparr>oi_name = createObjectDescriptionName (metas sample_descriptions 0), oi_offset = rd_size r3,
     oi_nameOffset = o2, oi_base = Some (rd_size r1), oi_flags = 2, oi_members = []\<rparr>)]\<rparr>"
  obtain o3 r6 where s3: "rd_addString [] r5 = Inr (o3, r6)" using rd_addString_defined by fastforce
  have h: "gc_heap (rd_ctx r5) = sample_descriptions" "objectDescriptionsMap r4 = []"
    using rd_addString_Inr [OF s1] rd_addString_Inr [OF s2] heap
      save_description_Inr [of r1 o1 None 2 "[]"] save_description_Inr [of r3 o2 "Some (rd_size r1)" 2 "[]"]
    by (simp_all add: r2_def r4_def r5_def)
  have od: "od_base (metas sample_descriptions 0) = Some 1" "od_base (metas sample_descriptions 1) = None"
    "od_name (metas sample_descriptions k) = []" "members (metas sample_descriptions k) = []"
    "od_type (metas sample_descriptions k) = OBJECT_INSTANCE" for k
    by (simp_all add: sample_descriptions_def new_ObjectDescription_def)
  have "build_description_entry 2 (Some 0) ?rd = Inr r5"
    using s1 s2 od h(2)
    by (simp add: build_description_entry_def numeral_2_eq_2 heap Let_def r2_def r4_def r5_def)
  moreover have "\<exists>r. build_description_entry 2 (Some 1) r5 = Inr r"
    using s3 od h(1) by (simp add: build_description_entry_def numeral_2_eq_2 Let_def r5_def)
  ultimately obtain r where r: "fold_r (build_description_entry 2) [Some 0, Some 1] ?rd = Inr r" by auto
  then show ?thesis
    using base_written_twice [OF r heap(2)] od(1) heap(1) by auto
qed

end
