(* ===== verification/Flatten.thy ===== *)
theory Flatten
  imports SemValue
begin

text \<open>
  \<open>src/src/semantics/flatten.ts\<close>: turns the statement nodes of a function into nested blocks with
  branches, the form that the IR builder reads.

  \<^item> A \<open>BlockValue\<close> is mutable while its contents are collected, so the blocks live in
    \<open>fl_blocks\<close> of the context and are referred to by number, in the order of their creation.
    An entry of a block is a value or a reference to a block. \<open>read_block\<close> reads the object
    graph as the tree \<open>semantics_value\<close> that the IR builder walks over; its first argument is the
    depth of the recursion.
  \<^item> A statement is an operation \<open>flat_op\<close> on the context; the cases of the \<open>switch\<close> of
    \<open>flatternStatement\<close> are the definitions \<open>flat_<KIND>\<close>.
  \<^item> \<open>flat_spec\<close> is the same translation without state: it returns the values that a statement
    adds. The imperative code refines it, and the properties are proved about it.
\<close>

section \<open>Blocks under construction\<close>

datatype (plugins only: size) flat_item = FValue semantics_value | FBlock block_id

record flat_block =
  fb_type :: value_type
  fb_label :: js_string
  fb_isLoop :: bool
  fb_breakTarget :: bool
  fb_varList :: "VarDeclareNode list option"
  fb_refList :: "VarDeclareNode list option"
  fb_values :: "flat_item list"
  fb_parent :: "block_id option"

record FlattenContext =
  fl_labelIndex :: nat
  fl_stacks :: "block_id list" \<comment> \<open>the top is the last element\<close>
  fl_blocks :: "block_id \<Rightarrow> flat_block"
  fl_next :: block_id

definition new_flat_block :: "value_type \<Rightarrow> js_string \<Rightarrow> bool \<Rightarrow> bool \<Rightarrow> flat_block" where
  "new_flat_block t label isLoop breakTarget =
     \<lparr>fb_type = t, fb_label = label, fb_isLoop = isLoop, fb_breakTarget = breakTarget,
      fb_varList = None, fb_refList = None, fb_values = [], fb_parent = None\<rparr>"

definition new_FlattenContext :: FlattenContext where
  "new_FlattenContext =
     \<lparr>fl_labelIndex = 0, fl_stacks = [],
      fl_blocks = (\<lambda>_. new_flat_block Primitive_Void [] False False), fl_next = 0\<rparr>"

text \<open>\<open>new BlockValue(Primitive.Void, label, isLoop, breakTarget)\<close>.\<close>

definition new_BlockValue ::
  "js_string \<Rightarrow> bool \<Rightarrow> bool \<Rightarrow> FlattenContext \<Rightarrow> block_id \<times> FlattenContext"
where
  "new_BlockValue label isLoop breakTarget c =
     (fl_next c,
      c\<lparr>fl_blocks := (fl_blocks c)(fl_next c :=
           new_flat_block Primitive_Void label isLoop breakTarget),
        fl_next := Suc (fl_next c)\<rparr>)"

definition upd_block :: "block_id \<Rightarrow> (flat_block \<Rightarrow> flat_block) \<Rightarrow> FlattenContext \<Rightarrow> FlattenContext"
where
  "upd_block b f c = c\<lparr>fl_blocks := (fl_blocks c)(b := f (fl_blocks c b))\<rparr>"

text \<open>\<open>BlockValue.addValue\<close>: an added block gets this block as its parent.\<close>

definition block_addValue :: "block_id \<Rightarrow> flat_item \<Rightarrow> FlattenContext \<Rightarrow> FlattenContext" where
  "block_addValue b item c =
     (let c1 = upd_block b (fb_values_update (\<lambda>vs. vs @ [item])) c
      in case item of
           FBlock x \<Rightarrow> upd_block x (fb_parent_update (\<lambda>_. Some b)) c1
         | FValue v \<Rightarrow> c1)"

section \<open>FlattenContext\<close>

definition fl_push :: "block_id \<Rightarrow> FlattenContext \<Rightarrow> FlattenContext" where
  "fl_push b c = c\<lparr>fl_stacks := fl_stacks c @ [b]\<rparr>"

definition fl_pop :: "FlattenContext \<Rightarrow> FlattenContext" where
  "fl_pop c = c\<lparr>fl_stacks := butlast (fl_stacks c)\<rparr>"

definition fl_addValue :: "flat_item \<Rightarrow> FlattenContext \<Rightarrow> FlattenContext" where
  "fl_addValue item c = (if fl_stacks c \<noteq> [] then block_addValue (last (fl_stacks c)) item c else c)"

definition pushAdd :: "block_id \<Rightarrow> FlattenContext \<Rightarrow> FlattenContext" where
  "pushAdd b c = fl_push b (fl_addValue (FBlock b) c)"

definition makeLabel :: "string \<Rightarrow> FlattenContext \<Rightarrow> js_string \<times> FlattenContext" where
  "makeLabel hint c =
     (js_lit (hint @ decimal (Suc (fl_labelIndex c))),
      c\<lparr>fl_labelIndex := Suc (fl_labelIndex c)\<rparr>)"

text \<open>
  The loop that both searches run: to the parent as long as the condition holds. A chain of
  parents that does not end within the number of blocks is a cycle.
\<close>

fun skip_blocks ::
  "nat \<Rightarrow> (flat_block \<Rightarrow> bool) \<Rightarrow> (block_id \<Rightarrow> flat_block) \<Rightarrow> block_id option \<Rightarrow> block_id option result"
where
  "skip_blocks n P bs None = Inr None"
| "skip_blocks 0 P bs (Some b) = (if P (bs b) then Inl JSDiverges else Inr (Some b))"
| "skip_blocks (Suc n) P bs (Some b) =
     (if P (bs b) then skip_blocks n P bs (fb_parent (bs b)) else Inr (Some b))"

definition findNearestLoop :: "FlattenContext \<Rightarrow> block_id option result" where
  "findNearestLoop c =
     (if fl_stacks c = [] then Inr None
      else skip_blocks (fl_next c) fb_isLoop (fl_blocks c) (Some (last (fl_stacks c))))"

definition findNearestBreakTarget :: "FlattenContext \<Rightarrow> block_id option result" where
  "findNearestBreakTarget c =
     (if fl_stacks c = [] then Inr None
      else skip_blocks (fl_next c) fb_breakTarget (fl_blocks c) (Some (last (fl_stacks c))))"

definition buildVarReferenceList :: "VarDeclareNode list option \<Rightarrow> VarDeclareNode list option" where
  "buildVarReferenceList vl =
     (case vl of
        Some vs \<Rightarrow> (let l = filter isUsedInClosureByRef vs in if l \<noteq> [] then Some l else None)
      | None \<Rightarrow> None)"

section \<open>Statements\<close>

type_synonym flat_op = "FlattenContext \<Rightarrow> FlattenContext result"

definition flat_seq :: "flat_op list \<Rightarrow> flat_op" where
  "flat_seq = fold_r (\<lambda>f. f)"

definition flat_opt :: "flat_op option \<Rightarrow> flat_op" where
  "flat_opt f = (case f of Some op \<Rightarrow> op | None \<Rightarrow> Inr)"

definition flat_BASIC_BLOCK :: "semantics_value list \<Rightarrow> flat_op" where
  "flat_BASIC_BLOCK vs c = Inr (fold (\<lambda>v. fl_addValue (FValue v)) vs c)"

definition flat_RETURN :: "semantics_value option \<Rightarrow> flat_op" where
  "flat_RETURN e c = Inr (fl_addValue (FValue (ReturnValue e)) c)"

definition flat_BREAK :: flat_op where
  "flat_BREAK c =
     bind_r (findNearestLoop c) (\<lambda>b.
       case b of
         Some t \<Rightarrow> Inr (fl_addValue (FValue (BlockBranchValue t)) c)
       | None \<Rightarrow> Inl (JSError ''break unkown block''))"

definition flat_CONTINUE :: flat_op where
  "flat_CONTINUE c =
     bind_r (findNearestLoop c) (\<lambda>b.
       case b of
         Some t \<Rightarrow> Inr (fl_addValue (FValue (BlockBranchValue t)) c)
       | None \<Rightarrow> Inr c)"

definition set_block_vars :: "block_id \<Rightarrow> VarDeclareNode list option \<Rightarrow> FlattenContext \<Rightarrow> FlattenContext"
where
  "set_block_vars b vl =
     upd_block b (\<lambda>k. k\<lparr>fb_varList := vl, fb_refList := buildVarReferenceList vl\<rparr>)"

definition flat_BLOCK :: "VarDeclareNode list option \<Rightarrow> flat_op list \<Rightarrow> flat_op" where
  "flat_BLOCK vl stmts c =
     (case vl of
        Some vars \<Rightarrow>
          (let (label, c) = makeLabel ''block_node'' c;
               (b, c) = new_BlockValue label False False c;
               c = set_block_vars b vl c;
               c = pushAdd b c
           in bind_r (flat_seq stmts c) (\<lambda>c. Inr (fl_pop c)))
      | None \<Rightarrow> flat_seq stmts c)"

definition flat_IF :: "semantics_value \<Rightarrow> flat_op \<Rightarrow> flat_op option \<Rightarrow> flat_op" where
  "flat_IF cond trueOp falseOp c =
     (let (label, c) = makeLabel ''if'' c;
          (if_block, c) = new_BlockValue label False False c;
          (label, c) = makeLabel ''if_true'' c;
          (true_block, c) = new_BlockValue label False False c;
          c = pushAdd if_block c
      in case falseOp of
           Some fop \<Rightarrow>
             (let (label, c) = makeLabel ''if_false'' c;
                  (false_block, c) = new_BlockValue label False False c;
                  c = block_addValue true_block (FValue (BlockBranchIfValue false_block cond False)) c;
                  c = fl_push true_block c
              in bind_r (trueOp c) (\<lambda>c.
                 let c = fl_pop c;
                     c = block_addValue true_block (FValue (BlockBranchValue if_block)) c;
                     c = block_addValue false_block (FBlock true_block) c;
                     c = fl_push false_block c
                 in bind_r (fop c) (\<lambda>c.
                    let c = fl_pop c;
                        c = block_addValue if_block (FBlock false_block) c
                    in Inr (fl_pop c))))
         | None \<Rightarrow>
             (let c = block_addValue true_block (FValue (BlockBranchIfValue if_block cond False)) c;
                  c = fl_push true_block c
              in bind_r (trueOp c) (\<lambda>c.
                 let c = fl_pop c;
                     c = block_addValue if_block (FBlock true_block) c
                 in Inr (fl_pop c))))"

definition flat_WHILE :: "bool \<Rightarrow> semantics_value \<Rightarrow> flat_op option \<Rightarrow> flat_op" where
  "flat_WHILE is_dowhile cond body c =
     (let hint_prefix = (if is_dowhile then ''do_while'' else ''while'');
          (while_block, c) = new_BlockValue (js_lit hint_prefix) False True c;
          (label, c) = makeLabel (hint_prefix @ ''_loop'') c;
          (loop_block, c) = new_BlockValue label True False c;
          c = pushAdd while_block c;
          c = pushAdd loop_block c
      in if is_dowhile then
           bind_r (flat_opt body c) (\<lambda>c.
             let c = block_addValue loop_block (FValue (BlockBranchIfValue loop_block cond True)) c;
                 c = block_addValue loop_block (FValue (BlockBranchValue while_block)) c
             in Inr (fl_pop (fl_pop c)))
         else
           (let c = block_addValue loop_block (FValue (BlockBranchIfValue while_block cond False)) c
            in bind_r (flat_opt body c) (\<lambda>c.
                 let c = block_addValue loop_block (FValue (BlockBranchValue loop_block)) c
                 in Inr (fl_pop (fl_pop c)))))"

definition flat_FOR ::
  "VarDeclareNode list option \<Rightarrow> flat_op option \<Rightarrow> semantics_value option \<Rightarrow> semantics_value option \<Rightarrow>
   flat_op option \<Rightarrow> flat_op"
where
  "flat_FOR vl ini cond nxt body c =
     (let (label, c) = makeLabel ''for'' c;
          (for_block, c) = new_BlockValue label False True c;
          c = pushAdd for_block c;
          (label, c) = makeLabel ''for_loop'' c;
          (for_loop, c) = new_BlockValue label True False c;
          c = (case vl of Some _ \<Rightarrow> set_block_vars for_block vl c | None \<Rightarrow> c)
      in bind_r (flat_opt ini c) (\<lambda>c.
         let c = pushAdd for_loop c;
             c = (case cond of
                    Some e \<Rightarrow> block_addValue for_loop (FValue (BlockBranchIfValue for_block e False)) c
                  | None \<Rightarrow> c)
         in bind_r
              (case body of
                 Some op \<Rightarrow>
                   (let (label, c) = makeLabel ''for_body'' c;
                        (body_block, c) = new_BlockValue label False False c;
                        c = pushAdd body_block c
                    in bind_r (op c) (\<lambda>c. Inr (fl_pop c)))
               | None \<Rightarrow> Inr c) (\<lambda>c.
            let c = (case nxt of Some e \<Rightarrow> block_addValue for_loop (FValue e) c | None \<Rightarrow> c);
                c = block_addValue for_loop (FValue (BlockBranchValue for_loop)) c
            in Inr (fl_pop (fl_pop c)))))"

text \<open>
  One round of the loop over the case clauses. \<open>pushAdd\<close> has just set the parent of the new
  block, so that \<open>parent!\<close> is defined.
\<close>

definition flat_case :: "nat \<times> semantics_value \<times> flat_op option \<Rightarrow> flat_op" where
  "flat_case = (\<lambda>(i, caseVar, body) c.
     (let (label, c) = makeLabel (''switch_case'' @ decimal i @ ''_'') c;
          (case_block, c) = new_BlockValue label False False c;
          c = pushAdd case_block c
      in case fb_parent (fl_blocks c case_block) of
           Some p \<Rightarrow>
             (let c = fl_addValue (FValue (BlockBranchIfValue p caseVar False)) c
              in bind_r (flat_opt body c) (\<lambda>c. Inr (fl_pop c)))
         | None \<Rightarrow> Inl JSTypeError))"

text \<open>The last argument of \<open>flat_SWITCH\<close> is the default clause with its optional body.\<close>

definition flat_SWITCH ::
  "(semantics_value \<times> flat_op option) list \<Rightarrow> flat_op option option \<Rightarrow> flat_op"
where
  "flat_SWITCH cases dflt c =
     (let (label, c) = makeLabel ''switch'' c;
          (switch_block, c) = new_BlockValue label False True c;
          c = pushAdd switch_block c
      in bind_r
           (case dflt of
              Some body \<Rightarrow>
                (let (label, c) = makeLabel ''switch_default'' c;
                     (def_block, c) = new_BlockValue label False False c;
                     c = pushAdd def_block c
                 in flat_opt body c)
            | None \<Rightarrow> Inr c) (\<lambda>c.
         bind_r (fold_r flat_case (rev (enumerate 0 cases)) c) (\<lambda>c.
           let c = (case dflt of Some _ \<Rightarrow> fl_pop c | None \<Rightarrow> c)
           in Inr (fl_pop c))))"

text \<open>The fields \<open>caseVar\<close> and \<open>body\<close> of a clause of a \<open>SwitchNode\<close>.\<close>

fun clause_body :: "semantics_node \<Rightarrow> semantics_node option" where
  "clause_body (CaseClauseNode e b) = b"
| "clause_body (DefaultClauseNode b) = b"
| "clause_body _ = None"

fun clause_var :: "semantics_node \<Rightarrow> semantics_value" where
  "clause_var (CaseClauseNode e b) = e"
| "clause_var _ = NopValue"

lemma clause_body_smaller: "clause_body n = Some b \<Longrightarrow> size b < size n"
  by (cases n rule: clause_body.cases) auto

function (sequential) flatternStatement :: "semantics_node \<Rightarrow> flat_op" where
  "flatternStatement (BasicBlockNode vs) = flat_BASIC_BLOCK vs"
| "flatternStatement (ReturnNode e) = flat_RETURN e"
| "flatternStatement (BreakNode lb) = flat_BREAK"
| "flatternStatement (ContinueNode lb) = flat_CONTINUE"
| "flatternStatement (BlockNode ss vl) = flat_BLOCK vl (map flatternStatement ss)"
| "flatternStatement (IfNode cond t f) =
     flat_IF cond (flatternStatement t) (map_option flatternStatement f)"
| "flatternStatement (WhileNode dw lb bl cl cond b) =
     flat_WHILE dw cond (map_option flatternStatement b)"
| "flatternStatement (ForNode lb bl cl vl ini cond nxt b) =
     flat_FOR vl (map_option flatternStatement ini) cond nxt (map_option flatternStatement b)"
| "flatternStatement (SwitchNode lb bl cond cs d) =
     flat_SWITCH
       (map (\<lambda>n. (clause_var n, map_option flatternStatement (clause_body n))) cs)
       (map_option (\<lambda>n. map_option flatternStatement (clause_body n)) d)"
| "flatternStatement _ = Inr"
  by pat_completeness auto
termination
  by (relation "measure size") (force dest: clause_body_smaller size_list_mem)+

section \<open>Functions\<close>

text \<open>The object graph of a block as a tree.\<close>

fun read_item :: "nat \<Rightarrow> (block_id \<Rightarrow> flat_block) \<Rightarrow> flat_item \<Rightarrow> semantics_value option" where
  "read_item n bs (FValue v) = Some v"
| "read_item 0 bs (FBlock b) = None"
| "read_item (Suc n) bs (FBlock b) =
     map_option
       (BlockValue b (fb_type (bs b)) (fb_label (bs b)) (fb_isLoop (bs b)) (fb_breakTarget (bs b))
          (fb_varList (bs b)) (fb_refList (bs b)))
       (those (map (read_item n bs) (fb_values (bs b))))"

definition func_refList :: "FunctionDeclareNode \<Rightarrow> VarDeclareNode list option" where
  "func_refList func =
     (case (buildVarReferenceList (varList func), buildVarReferenceList (parameters func)) of
        (Some r, Some p) \<Rightarrow> Some (p @ r)
      | (Some r, None) \<Rightarrow> Some r
      | (None, Some p) \<Rightarrow> Some p
      | (None, None) \<Rightarrow> None)"

definition flattenFunction :: "FunctionDeclareNode \<Rightarrow> FunctionDeclareNode result" where
  "flattenFunction func =
     (let c = new_FlattenContext;
          (block, c) = new_BlockValue [] False False c;
          c = fl_push block c;
          c = upd_block block (\<lambda>k. k\<lparr>fb_varList := varList func, fb_refList := func_refList func\<rparr>) c
      in bind_r (flatternStatement (fd_body func) c) (\<lambda>c.
           case read_item (fl_next c) (fl_blocks c) (FBlock block) of
             Some v \<Rightarrow> Inr (func\<lparr>flattenValue := Some v\<rparr>)
           | None \<Rightarrow> Inl JSRangeError))"

text \<open>
  A conditional expression as blocks; \<open>n\<close> is the number of the first of the three new blocks.
\<close>

definition flattenConditionValue ::
  "block_id \<Rightarrow> semantics_value \<Rightarrow> semantics_value \<Rightarrow> semantics_value \<Rightarrow> semantics_value"
where
  "flattenConditionValue n cond trueExpr falseExpr =
     BlockValue n (sv_type falseExpr) (js_lit ''condition_outter'') False False None None
       [BlockValue (n + 1) (sv_type trueExpr) (js_lit ''condition_false'') False False None None
          [BlockBranchIfValue (n + 1) cond False,
           BlockValue (n + 2) (sv_type trueExpr) (js_lit ''condition_true'') False False None None
             [trueExpr],
           BlockBranchValue n],
        falseExpr]"

section \<open>The translation without state\<close>

text \<open>
  \<open>ch\<close> is the chain of parents of the block that receives the values, each with its loop flag;
  \<open>l\<close> is the number of labels made so far and \<open>n\<close> the number of the next block. The result is
  the list of added values with the new counters.
\<close>

type_synonym block_chain = "(block_id \<times> bool) list"

type_synonym flat_fun =
  "block_chain \<Rightarrow> nat \<Rightarrow> block_id \<Rightarrow> (semantics_value list \<times> nat \<times> block_id) result"

definition plain_block ::
  "block_id \<Rightarrow> js_string \<Rightarrow> bool \<Rightarrow> bool \<Rightarrow> semantics_value list \<Rightarrow> semantics_value"
where
  "plain_block n label isLoop breakTarget = BlockValue n Primitive_Void label isLoop breakTarget None None"

abbreviation num_label :: "string \<Rightarrow> nat \<Rightarrow> js_string" where
  "num_label hint i \<equiv> js_lit (hint @ decimal i)"

fun first_no_loop :: "block_chain \<Rightarrow> block_id option" where
  "first_no_loop [] = None"
| "first_no_loop ((b, lp) # ch) = (if lp then first_no_loop ch else Some b)"

fun spec_seq :: "flat_fun list \<Rightarrow> flat_fun" where
  "spec_seq [] ch l n = Inr ([], l, n)"
| "spec_seq (f # fs) ch l n =
     bind_r (f ch l n) (\<lambda>(vs, l, n). bind_r (spec_seq fs ch l n) (\<lambda>(ws, l, n). Inr (vs @ ws, l, n)))"

definition spec_opt :: "flat_fun option \<Rightarrow> flat_fun" where
  "spec_opt f = (case f of Some g \<Rightarrow> g | None \<Rightarrow> (\<lambda>ch l n. Inr ([], l, n)))"

definition spec_branch :: "bool \<Rightarrow> flat_fun" where
  "spec_branch must ch l n =
     (case first_no_loop ch of
        Some t \<Rightarrow> Inr ([BlockBranchValue t], l, n)
      | None \<Rightarrow> if must then Inl (JSError ''break unkown block'') else Inr ([], l, n))"

definition spec_BLOCK :: "VarDeclareNode list option \<Rightarrow> flat_fun list \<Rightarrow> flat_fun" where
  "spec_BLOCK vl stmts ch l n =
     (case vl of
        Some _ \<Rightarrow>
          bind_r (spec_seq stmts ((n, False) # ch) (l + 1) (n + 1)) (\<lambda>(vs, l', n').
            Inr ([BlockValue n Primitive_Void (num_label ''block_node'' (l + 1)) False False vl
                    (buildVarReferenceList vl) vs], l', n'))
      | None \<Rightarrow> spec_seq stmts ch l n)"

definition spec_IF :: "semantics_value \<Rightarrow> flat_fun \<Rightarrow> flat_fun option \<Rightarrow> flat_fun" where
  "spec_IF cond t f ch l n =
     (case f of
        Some f \<Rightarrow>
          bind_r (t [(n + 1, False)] (l + 3) (n + 3)) (\<lambda>(ts, l1, n1).
          bind_r (f [(n + 2, False)] l1 n1) (\<lambda>(fs, l2, n2).
            Inr ([plain_block n (num_label ''if'' (l + 1)) False False
                   [plain_block (n + 2) (num_label ''if_false'' (l + 3)) False False
                     (plain_block (n + 1) (num_label ''if_true'' (l + 2)) False False
                        (BlockBranchIfValue (n + 2) cond False # ts @ [BlockBranchValue n]) # fs)]],
                 l2, n2)))
      | None \<Rightarrow>
          bind_r (t [(n + 1, False)] (l + 2) (n + 2)) (\<lambda>(ts, l1, n1).
            Inr ([plain_block n (num_label ''if'' (l + 1)) False False
                   [plain_block (n + 1) (num_label ''if_true'' (l + 2)) False False
                     (BlockBranchIfValue n cond False # ts)]], l1, n1)))"

definition spec_WHILE :: "bool \<Rightarrow> semantics_value \<Rightarrow> flat_fun option \<Rightarrow> flat_fun" where
  "spec_WHILE dw cond body ch l n =
     (let hint = (if dw then ''do_while'' else ''while'')
      in bind_r (spec_opt body ((n + 1, True) # (n, False) # ch) (l + 1) (n + 2)) (\<lambda>(bs, l', n').
           Inr ([plain_block n (js_lit hint) False True
                  [plain_block (n + 1) (num_label (hint @ ''_loop'') (l + 1)) True False
                    (if dw then bs @ [BlockBranchIfValue (n + 1) cond True, BlockBranchValue n]
                     else BlockBranchIfValue n cond False # bs @ [BlockBranchValue (n + 1)])]],
                l', n')))"

definition spec_for_body :: "flat_fun option \<Rightarrow> flat_fun" where
  "spec_for_body body ch l n =
     (case body of
        Some f \<Rightarrow>
          bind_r (f ((n, False) # ch) (l + 1) (n + 1)) (\<lambda>(bs, l', n').
            Inr ([plain_block n (num_label ''for_body'' (l + 1)) False False bs], l', n'))
      | None \<Rightarrow> Inr ([], l, n))"

definition spec_FOR ::
  "VarDeclareNode list option \<Rightarrow> flat_fun option \<Rightarrow> semantics_value option \<Rightarrow> semantics_value option \<Rightarrow>
   flat_fun option \<Rightarrow> flat_fun"
where
  "spec_FOR vl ini cond nxt body ch l n =
     bind_r (spec_opt ini ((n, False) # ch) (l + 2) (n + 2)) (\<lambda>(is, l1, n1).
     bind_r (spec_for_body body ((n + 1, True) # (n, False) # ch) l1 n1) (\<lambda>(bs, l2, n2).
       Inr ([BlockValue n Primitive_Void (num_label ''for'' (l + 1)) False True vl
               (buildVarReferenceList vl)
               (is @ [plain_block (n + 1) (num_label ''for_loop'' (l + 2)) True False
                       ((case cond of Some e \<Rightarrow> [BlockBranchIfValue n e False] | None \<Rightarrow> [])
                        @ bs @ opt_elem nxt @ [BlockBranchValue (n + 1)])])], l2, n2)))"

text \<open>The blocks of the clauses, one after the other in the block on top of the chain.\<close>

fun spec_cases :: "(nat \<times> semantics_value \<times> flat_fun option) list \<Rightarrow> flat_fun" where
  "spec_cases [] ch l n = Inr ([], l, n)"
| "spec_cases ((i, e, body) # cs) ch l n =
     bind_r (spec_opt body ((n, False) # ch) (l + 1) (n + 1)) (\<lambda>(bs, l1, n1).
     bind_r (spec_cases cs ch l1 n1) (\<lambda>(ws, l2, n2).
       Inr (plain_block n (num_label (''switch_case'' @ decimal i @ ''_'') (l + 1)) False False
              (BlockBranchIfValue (fst (hd ch)) e False # bs) # ws, l2, n2)))"

definition spec_SWITCH ::
  "(semantics_value \<times> flat_fun option) list \<Rightarrow> flat_fun option option \<Rightarrow> flat_fun"
where
  "spec_SWITCH cases dflt ch l n =
     (case dflt of
        Some body \<Rightarrow>
          bind_r (spec_opt body ((n + 1, False) # (n, False) # ch) (l + 2) (n + 2)) (\<lambda>(ds, l1, n1).
          bind_r (spec_cases (rev (enumerate 0 cases)) ((n + 1, False) # (n, False) # ch) l1 n1)
            (\<lambda>(ws, l2, n2).
            Inr ([plain_block n (num_label ''switch'' (l + 1)) False True
                   [plain_block (n + 1) (num_label ''switch_default'' (l + 2)) False False (ds @ ws)]],
                 l2, n2)))
      | None \<Rightarrow>
          bind_r (spec_cases (rev (enumerate 0 cases)) ((n, False) # ch) (l + 1) (n + 1))
            (\<lambda>(ws, l2, n2).
            Inr ([plain_block n (num_label ''switch'' (l + 1)) False True ws], l2, n2)))"

function (sequential) flat_spec :: "semantics_node \<Rightarrow> flat_fun" where
  "flat_spec (BasicBlockNode vs) = (\<lambda>ch l n. Inr (vs, l, n))"
| "flat_spec (ReturnNode e) = (\<lambda>ch l n. Inr ([ReturnValue e], l, n))"
| "flat_spec (BreakNode lb) = spec_branch True"
| "flat_spec (ContinueNode lb) = spec_branch False"
| "flat_spec (BlockNode ss vl) = spec_BLOCK vl (map flat_spec ss)"
| "flat_spec (IfNode cond t f) = spec_IF cond (flat_spec t) (map_option flat_spec f)"
| "flat_spec (WhileNode dw lb bl cl cond b) = spec_WHILE dw cond (map_option flat_spec b)"
| "flat_spec (ForNode lb bl cl vl ini cond nxt b) =
     spec_FOR vl (map_option flat_spec ini) cond nxt (map_option flat_spec b)"
| "flat_spec (SwitchNode lb bl cond cs d) =
     spec_SWITCH (map (\<lambda>n. (clause_var n, map_option flat_spec (clause_body n))) cs)
       (map_option (\<lambda>n. map_option flat_spec (clause_body n)) d)"
| "flat_spec _ = (\<lambda>ch l n. Inr ([], l, n))"
  by pat_completeness auto
termination
  by (relation "measure size") (force dest: clause_body_smaller size_list_mem)+

definition flatten_spec :: "FunctionDeclareNode \<Rightarrow> FunctionDeclareNode result" where
  "flatten_spec func =
     bind_r (flat_spec (fd_body func) [(0, False)] 0 1) (\<lambda>(vs, l, n).
       Inr (func\<lparr>flattenValue := Some (BlockValue 0 Primitive_Void [] False False (varList func)
                                        (func_refList func) vs)\<rparr>))"


end
