(* ===== verification/FlattenRefine.thy ===== *)
theory FlattenRefine
  imports Flatten
begin

text \<open>
  The imperative code of \<open>src/src/semantics/flatten.ts\<close> refines the stateless translation
  \<open>flat_spec\<close>. Its core is \<open>simulates\<close>: run with a block on top of the stack, an
  operation adds to this block exactly the values of the specification, gives the same error,
  and changes no other block that existed before.
\<close>

section \<open>Reading blocks\<close>

lemma those_append:
  "those xs = Some vs \<Longrightarrow> those ys = Some ws \<Longrightarrow> those (xs @ ys) = Some (vs @ ws)"
proof (induction xs arbitrary: vs)
  case Nil
  then show ?case by simp
next
  case (Cons x xs)
  then show ?case by (cases x) auto
qed

text \<open>
  Whatever the other blocks are, \<open>items\<close> are read as \<open>vs\<close> from the blocks \<open>lo\<close> up to \<open>hi\<close> with
  depth \<open>d\<close>.
\<close>

definition reads_n ::
  "nat \<Rightarrow> block_id \<Rightarrow> block_id \<Rightarrow> (block_id \<Rightarrow> flat_block) \<Rightarrow> flat_item list \<Rightarrow> semantics_value list \<Rightarrow> bool"
where
  "reads_n d lo hi bs items vs \<longleftrightarrow>
     (\<forall>bs' N. (\<forall>j. lo \<le> j \<longrightarrow> j < hi \<longrightarrow> bs' j = bs j) \<longrightarrow> d \<le> N \<longrightarrow>
        those (map (read_item N bs') items) = Some vs)"

abbreviation reads ::
  "block_id \<Rightarrow> block_id \<Rightarrow> (block_id \<Rightarrow> flat_block) \<Rightarrow> flat_item list \<Rightarrow> semantics_value list \<Rightarrow> bool"
where
  "reads lo hi \<equiv> reads_n (hi - lo) lo hi"

lemma reads_values [simp]: "reads_n d lo hi bs (map FValue vs) vs"
proof -
  have "those (map (read_item N bs') (map FValue vs)) = Some vs" for N bs'
    by (induction vs) simp_all
  then show ?thesis by (simp add: reads_n_def)
qed

lemma reads_value [simp]: "reads_n d lo hi bs [FValue v] [v]"
  using reads_values [of d lo hi bs "[v]"] by simp

lemma reads_Nil [simp]: "reads_n d lo hi bs [] []"
  by (simp add: reads_n_def)

lemma reads_single: "reads_n d lo hi bs [x] [v] \<Longrightarrow> read_item d bs x = Some v"
  unfolding reads_n_def by (erule allE [of _ bs], erule allE [of _ d]) (auto split: option.splits)

lemma reads_n_mono:
  assumes "reads_n d lo hi bs items vs" and "d \<le> d'" and "lo' \<le> lo" and "hi \<le> hi'"
    and "\<And>j. lo \<le> j \<Longrightarrow> j < hi \<Longrightarrow> bs' j = bs j"
  shows "reads_n d' lo' hi' bs' items vs"
  unfolding reads_n_def
proof (intro allI impI)
  fix b N
  assume *: "\<forall>j. lo' \<le> j \<longrightarrow> j < hi' \<longrightarrow> b j = bs' j" and "d' \<le> N"
  then have "\<forall>j. lo \<le> j \<longrightarrow> j < hi \<longrightarrow> b j = bs j" and "d \<le> N"
    using assms(2-5) by auto
  then show "those (map (read_item N b) items) = Some vs"
    using assms(1) unfolding reads_n_def by blast
qed

lemma reads_mono:
  assumes "reads lo hi bs items vs" and "lo' \<le> lo" and "hi \<le> hi'"
    and "\<And>j. lo \<le> j \<Longrightarrow> j < hi \<Longrightarrow> bs' j = bs j"
  shows "reads lo' hi' bs' items vs"
  by (rule reads_n_mono [OF assms(1) _ assms(2,3,4)]) (use assms(2,3) in auto)

lemma reads_append:
  "reads_n d lo hi bs xs vs \<Longrightarrow> reads_n d lo hi bs ys ws \<Longrightarrow> reads_n d lo hi bs (xs @ ys) (vs @ ws)"
  unfolding reads_n_def by (simp add: those_append)

lemma reads_Cons:
  "reads_n d lo hi bs [x] [v] \<Longrightarrow> reads_n d lo hi bs ys ws \<Longrightarrow> reads_n d lo hi bs (x # ys) (v # ws)"
  using reads_append [of d lo hi bs "[x]" "[v]" ys ws] by simp

text \<open>A block is read when its contents are, one level deeper.\<close>

lemma reads_n_block:
  assumes "reads_n d lo hi bs (fb_values (bs b)) vs" and "lo \<le> b" and "b < hi"
  shows "reads_n (Suc d) lo hi bs [FBlock b]
    [BlockValue b (fb_type (bs b)) (fb_label (bs b)) (fb_isLoop (bs b)) (fb_breakTarget (bs b))
       (fb_varList (bs b)) (fb_refList (bs b)) vs]"
  unfolding reads_n_def
proof (intro allI impI)
  fix b' N
  assume *: "\<forall>j. lo \<le> j \<longrightarrow> j < hi \<longrightarrow> b' j = bs j" and N: "Suc d \<le> N"
  from N obtain M where M: "N = Suc M" "d \<le> M" by (cases N) auto
  from * assms(2,3) have b: "b' b = bs b" by blast
  from assms(1) * M(2) have "those (map (read_item M b') (fb_values (bs b))) = Some vs"
    unfolding reads_n_def by blast
  then show "those (map (read_item N b') [FBlock b]) = Some
    [BlockValue b (fb_type (bs b)) (fb_label (bs b)) (fb_isLoop (bs b)) (fb_breakTarget (bs b))
       (fb_varList (bs b)) (fb_refList (bs b)) vs]"
    by (simp add: M(1) b)
qed

lemma reads_block:
  assumes "reads lo' hi' bs (fb_values (bs b)) vs"
    and "lo \<le> b" and "b < hi" and "lo \<le> lo'" and "hi' \<le> hi" and "hi' - lo' < hi - lo"
  shows "reads lo hi bs [FBlock b]
    [BlockValue b (fb_type (bs b)) (fb_label (bs b)) (fb_isLoop (bs b)) (fb_breakTarget (bs b))
       (fb_varList (bs b)) (fb_refList (bs b)) vs]"
proof -
  have "reads_n (hi - lo - 1) lo hi bs (fb_values (bs b)) vs"
    by (rule reads_n_mono [OF assms(1)]) (use assms in auto)
  moreover have "Suc (hi - lo - 1) = hi - lo" using assms(6) by simp
  ultimately show ?thesis using reads_n_block [OF _ assms(2,3), of "hi - lo - 1" bs vs] by (simp only:)
qed

section \<open>Chains of parents\<close>

inductive chain :: "(block_id \<Rightarrow> flat_block) \<Rightarrow> block_id \<Rightarrow> block_chain \<Rightarrow> bool" for bs where
  chain_end: "fb_parent (bs b) = None \<Longrightarrow> chain bs b [(b, fb_isLoop (bs b))]"
| chain_step: "fb_parent (bs b) = Some p \<Longrightarrow> p < b \<Longrightarrow> chain bs p ch \<Longrightarrow>
    chain bs b ((b, fb_isLoop (bs b)) # ch)"

lemma chain_frame:
  assumes "chain bs b ch"
    and "\<And>j. j \<le> b \<Longrightarrow> fb_parent (bs' j) = fb_parent (bs j) \<and> fb_isLoop (bs' j) = fb_isLoop (bs j)"
  shows "chain bs' b ch"
  using assms
proof (induction rule: chain.induct)
  case (chain_end b)
  then show ?case using chain.chain_end [of bs' b] by simp
next
  case (chain_step b p ch)
  from chain_step.IH chain_step.prems chain_step.hyps(2) have "chain bs' p ch" by simp
  moreover from chain_step.prems [of b] have "fb_parent (bs' b) = fb_parent (bs b)"
    "fb_isLoop (bs' b) = fb_isLoop (bs b)" by auto
  ultimately show ?case
    using chain_step.hyps chain.chain_step [of bs' b p ch] by simp
qed

lemma chain_values:
  assumes "chain bs b ch" and "\<And>j. j \<le> b \<Longrightarrow> \<exists>vs. bs' j = (bs j)\<lparr>fb_values := vs\<rparr>"
  shows "chain bs' b ch"
proof (rule chain_frame [OF assms(1)])
  fix j
  assume "j \<le> b"
  then obtain vs where "bs' j = (bs j)\<lparr>fb_values := vs\<rparr>" using assms(2) by blast
  then show "fb_parent (bs' j) = fb_parent (bs j) \<and> fb_isLoop (bs' j) = fb_isLoop (bs j)" by simp
qed

lemma same_values: "\<exists>vs. bs = (bs :: flat_block)\<lparr>fb_values := vs\<rparr>"
  by (intro exI [of _ "fb_values bs"]) simp

lemma skip_chain:
  assumes "chain bs b ch" and "b < n"
  shows "skip_blocks n fb_isLoop bs (Some b) = Inr (first_no_loop ch)"
  using assms
proof (induction arbitrary: n rule: chain.induct)
  case (chain_end b)
  then show ?case by (cases n) simp_all
next
  case (chain_step b p ch)
  then obtain m where "n = Suc m" "p < m" by (cases n) auto
  then show ?case using chain_step by simp
qed

section \<open>The simulation\<close>

text \<open>\<open>c'\<close> is \<open>c\<close> after adding \<open>items\<close> to block \<open>k\<close>, with new blocks.\<close>

definition added :: "block_id \<Rightarrow> flat_item list \<Rightarrow> FlattenContext \<Rightarrow> FlattenContext \<Rightarrow> bool" where
  "added k items c c' \<longleftrightarrow>
     fl_stacks c' = fl_stacks c \<and> fl_next c \<le> fl_next c' \<and>
     fl_blocks c' k = (fl_blocks c k)\<lparr>fb_values := fb_values (fl_blocks c k) @ items\<rparr> \<and>
     (\<forall>j < fl_next c. j \<noteq> k \<longrightarrow> fl_blocks c' j = fl_blocks c j)"

definition on_top :: "block_id \<Rightarrow> block_chain \<Rightarrow> FlattenContext \<Rightarrow> bool" where
  "on_top k ch c \<longleftrightarrow> fl_stacks c \<noteq> [] \<and> last (fl_stacks c) = k \<and> k < fl_next c \<and>
     chain (fl_blocks c) k ch"

text \<open>The outcome \<open>x\<close> of an operation on \<open>c\<close> with block \<open>k\<close> on top is the specified one.\<close>

definition yields ::
  "block_id \<Rightarrow> FlattenContext \<Rightarrow> FlattenContext result \<Rightarrow> (semantics_value list \<times> nat \<times> block_id) result \<Rightarrow> bool"
where
  "yields k c x r \<longleftrightarrow>
     (case r of
        Inl e \<Rightarrow> x = Inl e
      | Inr (vs, l, n) \<Rightarrow>
          \<exists>c' items. x = Inr c' \<and> added k items c c' \<and> fl_labelIndex c' = l \<and>
            fl_next c' = n \<and> reads (fl_next c) n (fl_blocks c') items vs)"

definition simulates :: "flat_op \<Rightarrow> flat_fun \<Rightarrow> bool" where
  "simulates op sp \<longleftrightarrow>
     (\<forall>c k ch. on_top k ch c \<longrightarrow> yields k c (op c) (sp ch (fl_labelIndex c) (fl_next c)))"

lemma simulatesI:
  assumes "\<And>c k ch e. on_top k ch c \<Longrightarrow> sp ch (fl_labelIndex c) (fl_next c) = Inl e \<Longrightarrow> op c = Inl e"
    and "\<And>c k ch vs l n. on_top k ch c \<Longrightarrow> sp ch (fl_labelIndex c) (fl_next c) = Inr (vs, l, n) \<Longrightarrow>
      \<exists>c' items. op c = Inr c' \<and> added k items c c' \<and> fl_labelIndex c' = l \<and> fl_next c' = n \<and>
        reads (fl_next c) n (fl_blocks c') items vs"
  shows "simulates op sp"
  unfolding simulates_def yields_def using assms by (auto split: sum.split)

lemma simulates_Inl:
  "simulates op sp \<Longrightarrow> on_top k ch c \<Longrightarrow> sp ch (fl_labelIndex c) (fl_next c) = Inl e \<Longrightarrow> op c = Inl e"
  unfolding simulates_def yields_def by fastforce

lemma simulates_Inr:
  assumes "simulates op sp" and "on_top k ch c" and "sp ch (fl_labelIndex c) (fl_next c) = Inr (vs, l, n)"
  obtains c' items where "op c = Inr c'" and "added k items c c'" and "fl_labelIndex c' = l"
    and "fl_next c' = n" and "reads (fl_next c) n (fl_blocks c') items vs"
  using assms unfolding simulates_def yields_def by fastforce

lemma added_refl [simp]: "added k [] c c"
  by (simp add: added_def)

lemma added_trans:
  assumes "added k xs c c1" and "added k ys c1 c2" and "k < fl_next c"
  shows "added k (xs @ ys) c c2"
  using assms by (auto simp: added_def)

lemma on_top_added: "on_top k ch c \<Longrightarrow> added k items c c' \<Longrightarrow> on_top k ch c'"
  unfolding on_top_def added_def
  by (auto elim!: chain_values) (metis le_less_trans same_values)

lemma added_addValue:
  "on_top k ch c \<Longrightarrow> added k [FValue v] c (fl_addValue (FValue v) c)"
  by (simp add: added_def on_top_def fl_addValue_def block_addValue_def upd_block_def)

lemma addValue_fields [simp]:
  "fl_labelIndex (fl_addValue (FValue v) c) = fl_labelIndex c"
  "fl_next (fl_addValue (FValue v) c) = fl_next c"
  by (simp_all add: fl_addValue_def block_addValue_def upd_block_def)

lemma simulates_value:
  "simulates (\<lambda>c. Inr (fl_addValue (FValue v) c)) (\<lambda>ch l n. Inr ([v], l, n))"
  by (rule simulatesI) (auto intro!: added_addValue exI [of _ "[FValue v]"])

lemma simulates_skip: "simulates Inr (\<lambda>ch l n. Inr ([], l, n))"
  by (rule simulatesI) (auto intro!: exI [of _ "[]"])

lemma simulates_bind:
  assumes "simulates op1 sp1" and "simulates op2 sp2"
  shows "simulates (\<lambda>c. bind_r (op1 c) op2)
    (\<lambda>ch l n. bind_r (sp1 ch l n) (\<lambda>(vs, l, n). bind_r (sp2 ch l n) (\<lambda>(ws, l, n). Inr (vs @ ws, l, n))))"
proof (rule simulatesI)
  fix c k ch e
  assume top: "on_top k ch c" and "bind_r (sp1 ch (fl_labelIndex c) (fl_next c))
    (\<lambda>(vs, l, n). bind_r (sp2 ch l n) (\<lambda>(ws, l, n). Inr (vs @ ws, l, n))) = Inl e"
  then consider "sp1 ch (fl_labelIndex c) (fl_next c) = Inl e"
    | vs l n where "sp1 ch (fl_labelIndex c) (fl_next c) = Inr (vs, l, n)" "sp2 ch l n = Inl e"
    by (auto simp: bind_r_def split: sum.splits)
  then show "bind_r (op1 c) op2 = Inl e"
  proof cases
    case 1
    then show ?thesis using simulates_Inl [OF assms(1) top] by simp
  next
    case 2
    from simulates_Inr [OF assms(1) top 2(1)] obtain c' items
      where "op1 c = Inr c'" "added k items c c'" "fl_labelIndex c' = l" "fl_next c' = n" by metis
    then show ?thesis
      using simulates_Inl [OF assms(2) on_top_added [OF top]] 2(2) by fastforce
  qed
next
  fix c k ch us l n
  assume top: "on_top k ch c" and "bind_r (sp1 ch (fl_labelIndex c) (fl_next c))
    (\<lambda>(vs, l, n). bind_r (sp2 ch l n) (\<lambda>(ws, l, n). Inr (vs @ ws, l, n))) = Inr (us, l, n)"
  then obtain vs l1 n1 ws where 1: "sp1 ch (fl_labelIndex c) (fl_next c) = Inr (vs, l1, n1)"
    and 2: "sp2 ch l1 n1 = Inr (ws, l, n)" and us: "us = vs @ ws"
    by auto
  from simulates_Inr [OF assms(1) top 1] obtain c1 xs
    where c1: "op1 c = Inr c1" "added k xs c c1" "fl_labelIndex c1 = l1" "fl_next c1 = n1"
      "reads (fl_next c) n1 (fl_blocks c1) xs vs" by metis
  from simulates_Inr [OF assms(2) on_top_added [OF top c1(2)]] 2 c1(3,4) obtain c2 ys
    where c2: "op2 c1 = Inr c2" "added k ys c1 c2" "fl_labelIndex c2 = l" "fl_next c2 = n"
      "reads n1 n (fl_blocks c2) ys ws" by metis
  have k: "k < fl_next c" using top by (simp add: on_top_def)
  have le: "fl_next c \<le> n1" "n1 \<le> n" using c1(2,4) c2(2,4) by (auto simp: added_def)
  have "reads (fl_next c) n (fl_blocks c2) xs vs"
    using c1(5) by (rule reads_mono) (use c2(2) c1(4) k le in \<open>auto simp: added_def\<close>)
  moreover have "reads (fl_next c) n (fl_blocks c2) ys ws"
    using c2(5) by (rule reads_mono) (use le in auto)
  ultimately show "\<exists>c' items. bind_r (op1 c) op2 = Inr c' \<and> added k items c c' \<and>
    fl_labelIndex c' = l \<and> fl_next c' = n \<and> reads (fl_next c) n (fl_blocks c') items us"
    using c1 c2 us added_trans [OF c1(2) c2(2) k] reads_append by force
qed

lemma simulates_values:
  "simulates (flat_BASIC_BLOCK vs) (\<lambda>ch l n. Inr (vs, l, n))"
proof (induction vs)
  case Nil
  then show ?case using simulates_skip by (simp add: flat_BASIC_BLOCK_def [abs_def])
next
  case (Cons v vs)
  from simulates_bind [OF simulates_value Cons, of v] show ?case
    by (simp add: flat_BASIC_BLOCK_def [abs_def] )
qed

lemma simulates_seq:
  "list_all2 simulates ops sps \<Longrightarrow> simulates (flat_seq ops) (spec_seq sps)"
proof (induction rule: list_all2_induct)
  case Nil
  then show ?case using simulates_skip by (simp add: flat_seq_def [abs_def] fold_r.simps(1) [abs_def])
next
  case (Cons op ops sp sps)
  have "flat_seq (op # ops) = (\<lambda>c. bind_r (op c) (flat_seq ops))" by (rule ext) (simp add: flat_seq_def)
  moreover have "spec_seq (sp # sps) = (\<lambda>ch l n. bind_r (sp ch l n)
    (\<lambda>(vs, l, n). bind_r (spec_seq sps ch l n) (\<lambda>(ws, l, n). Inr (vs @ ws, l, n))))"
    by (intro ext) simp
  ultimately show ?case using simulates_bind [OF Cons.hyps(1) Cons.IH] by simp
qed

lemma findNearestLoop_chain: "on_top k ch c \<Longrightarrow> findNearestLoop c = Inr (first_no_loop ch)"
  by (auto simp: on_top_def findNearestLoop_def skip_chain)

lemma simulates_branch:
  "simulates flat_BREAK (spec_branch True)" "simulates flat_CONTINUE (spec_branch False)"
  by (rule simulatesI; simp add: flat_BREAK_def flat_CONTINUE_def spec_branch_def
      findNearestLoop_chain split: option.splits if_splits;
      force intro: added_addValue exI [of _ "[]"] exI [of _ "[FValue _]"])+


section \<open>Statements with blocks\<close>

lemmas flat_defs = makeLabel_def new_BlockValue_def pushAdd_def fl_push_def fl_pop_def
  fl_addValue_def block_addValue_def upd_block_def new_flat_block_def set_block_vars_def Let_def

lemma append_values [simp]:
  "fb_values_update (\<lambda>vs. vs @ xs) b = b\<lparr>fb_values := fb_values b @ xs\<rparr>"
  by (cases b) simp

lemma chain_on:
  "chain bs p ch \<Longrightarrow> fb_parent (bs b) = Some p \<Longrightarrow> p < b \<Longrightarrow> lp = fb_isLoop (bs b) \<Longrightarrow>
   chain bs b ((b, lp) # ch)"
  by (simp add: chain_step)

lemma simulates_cong:
  "simulates op' sp \<Longrightarrow> (\<And>c k ch. on_top k ch c \<Longrightarrow> op c = op' c) \<Longrightarrow> simulates op sp"
  unfolding simulates_def by metis

lemma simulates_spec:
  assumes "simulates op sp" and "\<And>ch l n. sp' ch l n = sp ch l n"
  shows "simulates op sp'"
proof -
  have "sp' = sp" using assms(2) by (intro ext)
  with assms(1) show ?thesis by simp
qed

lemma simulates_stacks:
  assumes "simulates op sp" and "on_top k ch c" and "op c = Inr c'"
  shows "fl_stacks c' = fl_stacks c"
proof (cases "sp ch (fl_labelIndex c) (fl_next c)")
  case (Inl e)
  then show ?thesis using simulates_Inl [OF assms(1,2)] assms(3) by simp
next
  case (Inr x)
  then obtain vs l n where "sp ch (fl_labelIndex c) (fl_next c) = Inr (vs, l, n)"
    by (cases x) auto
  from simulates_Inr [OF assms(1,2) this] assms(3) show ?thesis by (auto simp: added_def)
qed

lemma bind_after:
  assumes "simulates op sp" and "on_top k ch c"
    and "\<And>c'. fl_stacks c' = fl_stacks c \<Longrightarrow> F c' = G c'"
  shows "bind_r (op c) F = bind_r (op c) G"
  using simulates_stacks [OF assms(1,2)] assms(3) by (cases "op c") auto

text \<open>An operation in a new block that is added to the current one.\<close>

definition in_block ::
  "(FlattenContext \<Rightarrow> js_string \<times> FlattenContext) \<Rightarrow> bool \<Rightarrow> bool \<Rightarrow> VarDeclareNode list option \<Rightarrow>
   (block_id \<Rightarrow> flat_op) \<Rightarrow> flat_op"
where
  "in_block mk lp bt vl op c =
     (let (label, c) = mk c; (b, c) = new_BlockValue label lp bt c
      in bind_r (op b (pushAdd b (set_block_vars b vl c))) (\<lambda>c. Inr (fl_pop c)))"

lemma on_top_new:
  assumes "on_top k ch c"
  shows "on_top (fl_next c) ((fl_next c, lp) # ch)
    (pushAdd (fl_next c) (set_block_vars (fl_next c) vl
       (snd (new_BlockValue label lp bt (c\<lparr>fl_labelIndex := l\<rparr>)))))"
proof -
  let ?b = "fl_blocks (pushAdd (fl_next c) (set_block_vars (fl_next c) vl
       (snd (new_BlockValue label lp bt (c\<lparr>fl_labelIndex := l\<rparr>)))))"
  from assms have k: "fl_stacks c \<noteq> []" "last (fl_stacks c) = k" "k < fl_next c"
    by (simp_all add: on_top_def)
  then have b: "?b = (fl_blocks c)(fl_next c := (new_flat_block Primitive_Void label lp bt)
        \<lparr>fb_varList := vl, fb_refList := buildVarReferenceList vl, fb_parent := Some k\<rparr>,
      k := (fl_blocks c k)\<lparr>fb_values := fb_values (fl_blocks c k) @ [FBlock (fl_next c)]\<rparr>)"
    by (auto simp: flat_defs)
  have "chain ?b k ch"
    using assms k unfolding b by (auto simp: on_top_def same_values elim!: chain_values)
  moreover have "fb_parent (?b (fl_next c)) = Some k" "fb_isLoop (?b (fl_next c)) = lp"
    using k unfolding b by (auto simp: new_flat_block_def)
  ultimately have "chain ?b (fl_next c) ((fl_next c, lp) # ch)"
    using k by (auto intro: chain_on)
  then show ?thesis by (simp add: on_top_def flat_defs)
qed

lemma simulates_in_block:
  assumes sim: "\<And>b. simulates (op b) (sp b)"
    and mk: "\<And>c. mk c = (lab (fl_labelIndex c), c\<lparr>fl_labelIndex := fl_labelIndex c + dl\<rparr>)"
  shows "simulates (in_block mk lp bt vl op)
    (\<lambda>ch l n. bind_r (sp n ((n, lp) # ch) (l + dl) (n + 1)) (\<lambda>(vs, l', n').
       Inr ([BlockValue n Primitive_Void (lab l) lp bt vl (buildVarReferenceList vl) vs], l', n')))"
proof -
  define c1 where "c1 = (\<lambda>c. pushAdd (fl_next c) (set_block_vars (fl_next c) vl
       (snd (new_BlockValue (lab (fl_labelIndex c)) lp bt
          (c\<lparr>fl_labelIndex := fl_labelIndex c + dl\<rparr>)))))"
  have op: "in_block mk lp bt vl op c = bind_r (op (fl_next c) (c1 c)) (\<lambda>c. Inr (fl_pop c))" for c
    by (simp add: in_block_def mk c1_def new_BlockValue_def)
  have top1: "on_top (fl_next c) ((fl_next c, lp) # ch) (c1 c)" if "on_top k ch c" for c k ch
    unfolding c1_def using that by (rule on_top_new)
  have c1: "fl_labelIndex (c1 c) = fl_labelIndex c + dl" "fl_next (c1 c) = fl_next c + 1"
    "fl_stacks (c1 c) = fl_stacks c @ [fl_next c]" for c
    by (simp_all add: c1_def flat_defs)
  show ?thesis
  proof (rule simulatesI)
    fix c k ch e
    assume top: "on_top k ch c"
      and "bind_r (sp (fl_next c) ((fl_next c, lp) # ch) (fl_labelIndex c + dl) (fl_next c + 1))
        (\<lambda>(vs, l', n'). Inr ([BlockValue (fl_next c) Primitive_Void (lab (fl_labelIndex c)) lp bt vl
           (buildVarReferenceList vl) vs], l', n')) = Inl e"
    then have "sp (fl_next c) ((fl_next c, lp) # ch) (fl_labelIndex (c1 c)) (fl_next (c1 c)) = Inl e"
      by (auto simp: bind_r_def c1 split: sum.splits)
    from simulates_Inl [OF sim top1 [OF top] this] show "in_block mk lp bt vl op c = Inl e"
      by (simp add: op)
  next
    fix c k ch us l n
    assume top: "on_top k ch c"
      and "bind_r (sp (fl_next c) ((fl_next c, lp) # ch) (fl_labelIndex c + dl) (fl_next c + 1))
        (\<lambda>(vs, l', n'). Inr ([BlockValue (fl_next c) Primitive_Void (lab (fl_labelIndex c)) lp bt vl
           (buildVarReferenceList vl) vs], l', n')) = Inr (us, l, n)"
    then obtain vs where
      vs: "sp (fl_next c) ((fl_next c, lp) # ch) (fl_labelIndex (c1 c)) (fl_next (c1 c)) = Inr (vs, l, n)"
      and us: "us = [BlockValue (fl_next c) Primitive_Void (lab (fl_labelIndex c)) lp bt vl
           (buildVarReferenceList vl) vs]"
      by (auto simp: c1)
    from top have k: "fl_stacks c \<noteq> []" "last (fl_stacks c) = k" "k < fl_next c"
      by (simp_all add: on_top_def)
    from simulates_Inr [OF sim top1 [OF top] vs] obtain c2 items where
      c2: "op (fl_next c) (c1 c) = Inr c2" "added (fl_next c) items (c1 c) c2"
        "fl_labelIndex c2 = l" "fl_next c2 = n" "reads (fl_next c + 1) n (fl_blocks c2) items vs"
      by (metis c1(2))
    let ?n = "fl_next c"
    have blk: "fl_blocks c2 ?n = \<lparr>fb_type = Primitive_Void, fb_label = lab (fl_labelIndex c),
        fb_isLoop = lp, fb_breakTarget = bt, fb_varList = vl, fb_refList = buildVarReferenceList vl,
        fb_values = items, fb_parent = Some k\<rparr>"
      using c2(2) k by (auto simp: added_def c1_def flat_defs)
    have "fl_blocks c2 k = (fl_blocks c k)\<lparr>fb_values := fb_values (fl_blocks c k) @ [FBlock ?n]\<rparr>"
      and "\<forall>j < ?n. j \<noteq> k \<longrightarrow> fl_blocks c2 j = fl_blocks c j"
      using c2(2) k by (auto simp: added_def c1_def flat_defs)
    moreover have "n \<ge> ?n + 1" using c2(2,4) by (simp add: added_def c1)
    ultimately have "added k [FBlock ?n] c (fl_pop c2)"
      using c2(2,4) by (simp add: added_def fl_pop_def c1)
    moreover have "reads ?n n (fl_blocks c2) [FBlock ?n] us"
      unfolding us using reads_block [where lo' = "?n + 1" and hi' = n and bs = "fl_blocks c2" and b = ?n and vs = vs and lo = ?n and hi = n] c2(5) \<open>n \<ge> ?n + 1\<close>
      by (simp add: blk)
    ultimately show "\<exists>c' items. in_block mk lp bt vl op c = Inr c' \<and> added k items c c' \<and>
      fl_labelIndex c' = l \<and> fl_next c' = n \<and> reads ?n n (fl_blocks c') items us"
      using c2 by (intro exI [of _ "fl_pop c2"] exI [of _ "[FBlock ?n]"]) (simp add: op fl_pop_def)
  qed
qed


lemma makeLabel_mk:
  "makeLabel h c = (num_label h (fl_labelIndex c + 1), c\<lparr>fl_labelIndex := fl_labelIndex c + 1\<rparr>)"
  by (simp add: makeLabel_def)

lemma fixed_mk: "(lb, c) = (lb, c\<lparr>fl_labelIndex := fl_labelIndex c + 0\<rparr>)"
  by simp

lemma simulates_labelled:
  assumes "\<And>b. simulates (op b) (sp b)"
  shows "simulates (in_block (makeLabel h) lp bt vl op)
    (\<lambda>ch l n. bind_r (sp n ((n, lp) # ch) (l + 1) (n + 1)) (\<lambda>(vs, l', n').
       Inr ([BlockValue n Primitive_Void (num_label h (l + 1)) lp bt vl (buildVarReferenceList vl) vs],
            l', n')))"
  using simulates_in_block [OF assms makeLabel_mk] .

lemma simulates_plain:
  assumes "\<And>b. simulates (op b) (sp b)"
  shows "simulates (in_block (makeLabel h) lp bt None op)
    (\<lambda>ch l n. bind_r (sp n ((n, lp) # ch) (l + 1) (n + 1)) (\<lambda>(vs, l', n').
       Inr ([plain_block n (num_label h (l + 1)) lp bt vs], l', n')))"
  using simulates_labelled [OF assms, where vl = None]
  by (simp add: plain_block_def buildVarReferenceList_def)

lemma simulates_fixed:
  assumes "\<And>b. simulates (op b) (sp b)"
  shows "simulates (in_block (\<lambda>c. (lb, c)) lp bt None op)
    (\<lambda>ch l n. bind_r (sp n ((n, lp) # ch) l (n + 1)) (\<lambda>(vs, l', n').
       Inr ([plain_block n lb lp bt vs], l', n')))"
  using simulates_in_block [OF assms fixed_mk, where vl = None]
  by (simp add: plain_block_def buildVarReferenceList_def)

lemma simulates_BLOCK:
  assumes "list_all2 simulates ops sps"
  shows "simulates (flat_BLOCK vl ops) (spec_BLOCK vl sps)"
proof (cases vl)
  case None
  then show ?thesis using simulates_seq [OF assms] by (simp add: flat_BLOCK_def [abs_def] spec_BLOCK_def [abs_def])
next
  case (Some vars)
  have "flat_BLOCK vl ops = in_block (makeLabel ''block_node'') False False vl (\<lambda>b. flat_seq ops)"
    by (rule ext) (simp add: flat_BLOCK_def in_block_def Some Let_def case_prod_beta)
  moreover have "spec_BLOCK vl sps = (\<lambda>ch l n.
      bind_r (spec_seq sps ((n, False) # ch) (l + 1) (n + 1)) (\<lambda>(vs, l', n').
        Inr ([BlockValue n Primitive_Void (num_label ''block_node'' (l + 1)) False False vl
                (buildVarReferenceList vl) vs], l', n')))"
    by (intro ext) (simp only: spec_BLOCK_def Some option.case)
  ultimately show ?thesis by (simp only: simulates_labelled [OF simulates_seq [OF assms]])
qed

lemma new_block_no_vars:
  "set_block_vars (fl_next c) None (snd (new_BlockValue label lp bt c)) = snd (new_BlockValue label lp bt c)"
  by (cases c) (simp add: flat_defs buildVarReferenceList_def)

lemma in_block_None:
  "in_block mk lp bt None op c =
     (let (label, c) = mk c; (b, c) = new_BlockValue label lp bt c
      in bind_r (op b (pushAdd b c)) (\<lambda>c. Inr (fl_pop c)))"
proof -
  have "fst (new_BlockValue label lp bt c) = fl_next c" for label c by (simp add: new_BlockValue_def)
  then show ?thesis by (simp add: in_block_def case_prod_beta new_block_no_vars Let_def)
qed

lemma flat_case_in_block:
  assumes "on_top k ch c"
  shows "flat_case (i, e, body) c = in_block (makeLabel (''switch_case'' @ decimal i @ ''_'')) False False
    None (\<lambda>b c. bind_r (Inr (fl_addValue (FValue (BlockBranchIfValue k e False)) c)) (flat_opt body)) c"
proof -
  obtain label c1 where mk: "makeLabel (''switch_case'' @ decimal i @ ''_'') c = (label, c1)" by fastforce
  then have c1: "fl_stacks c1 = fl_stacks c" "fl_next c1 = fl_next c" by (auto simp: makeLabel_def)
  obtain b c2 where new: "new_BlockValue label False False c1 = (b, c2)" by fastforce
  have "fb_parent (fl_blocks (pushAdd b c2) b) = Some k"
    using assms new c1 by (auto simp: on_top_def flat_defs)
  then show ?thesis by (simp only: flat_case_def in_block_None mk new Let_def prod.case option.case bind_r_simps)
qed

text \<open>A chain starts with the block on top.\<close>

lemma on_top_hd: "on_top k ch c \<Longrightarrow> fst (hd ch) = k"
  by (auto simp: on_top_def elim: chain.cases)

lemma simulates_value_top:
  "simulates (\<lambda>c. Inr (fl_addValue (FValue (f (last (fl_stacks c)))) c)) (\<lambda>ch l n. Inr ([f (fst (hd ch))], l, n))"
  by (rule simulatesI)
    (auto simp: on_top_hd on_top_def intro!: added_addValue exI [of _ "[FValue (f _)]"])


lemma simulates_case:
  assumes "simulates (flat_opt body) (spec_opt sbody)"
  shows "simulates (flat_case (i, e, body)) (\<lambda>ch l n.
    bind_r (spec_opt sbody ((n, False) # ch) (l + 1) (n + 1)) (\<lambda>(bs, l', n').
      Inr ([plain_block n (num_label (''switch_case'' @ decimal i @ ''_'') (l + 1)) False False
              (BlockBranchIfValue (fst (hd ch)) e False # bs)], l', n')))"
    (is "simulates _ ?sp")
proof -
  define h where "h = ''switch_case'' @ decimal i @ ''_''"
  have sim: "simulates (\<lambda>c. bind_r (Inr (fl_addValue (FValue (BlockBranchIfValue k e False)) c)) (flat_opt body))
    (\<lambda>ch l n. bind_r (Inr ([BlockBranchIfValue k e False], l, n)) (\<lambda>(vs, l, n).
       bind_r (spec_opt sbody ch l n) (\<lambda>(ws, l, n). Inr (vs @ ws, l, n))))" for k
    by (rule simulates_bind [OF simulates_value assms])
  show ?thesis
    unfolding simulates_def
  proof (intro allI impI)
    fix c k ch
    assume top: "on_top k ch c"
    have "yields k c (flat_case (i, e, body) c)
      (bind_r (bind_r (Inr ([BlockBranchIfValue k e False], fl_labelIndex c + 1, fl_next c + 1)) (\<lambda>(vs, l, n).
         bind_r (spec_opt sbody ((fl_next c, False) # ch) l n) (\<lambda>(ws, l, n). Inr (vs @ ws, l, n))))
        (\<lambda>(vs, l', n'). Inr ([plain_block (fl_next c) (num_label h (fl_labelIndex c + 1)) False False vs], l', n')))"
      using simulates_plain [where h = h and lp = False and bt = False, OF sim [of k]] top
      unfolding simulates_def flat_case_in_block [OF top] h_def by blast
    then show "yields k c (flat_case (i, e, body) c) (?sp ch (fl_labelIndex c) (fl_next c))"
      by (rule back_subst [where P = "yields k c (flat_case (i, e, body) c)"])
        (simp add: on_top_hd [OF top] bind_r_def h_def split: sum.split)
  qed
qed

lemma simulates_cases:
  assumes "list_all2 (\<lambda>(i, e, op) (j, f, sp). i = j \<and> e = f \<and> simulates (flat_opt op) (spec_opt sp)) cs scs"
  shows "simulates (fold_r flat_case cs) (spec_cases scs)"
  using assms
proof (induction rule: list_all2_induct)
  case Nil
  have "fold_r flat_case [] = Inr" "spec_cases [] = (\<lambda>ch l n. Inr ([], l, n))" by (auto intro!: ext)
  then show ?case using simulates_skip by simp
next
  case (Cons x cs y scs)
  obtain i e op where x: "x = (i, e, op)" by (cases x)
  with Cons.hyps(1) obtain sp where y: "y = (i, e, sp)" and sim: "simulates (flat_opt op) (spec_opt sp)"
    by (cases y) auto
  have "fold_r flat_case (x # cs) = (\<lambda>c. bind_r (flat_case (i, e, op) c) (fold_r flat_case cs))"
    by (rule ext) (simp add: x)
  moreover have "spec_cases (y # scs) = (\<lambda>ch l n. bind_r
     (bind_r (spec_opt sp ((n, False) # ch) (l + 1) (n + 1)) (\<lambda>(bs, l', n').
      Inr ([plain_block n (num_label (''switch_case'' @ decimal i @ ''_'') (l + 1)) False False
              (BlockBranchIfValue (fst (hd ch)) e False # bs)], l', n')))
     (\<lambda>(vs, l, n). bind_r (spec_cases scs ch l n) (\<lambda>(ws, l, n). Inr (vs @ ws, l, n))))"
    by (intro ext) (simp add: y bind_r_def split: sum.split prod.split)
  ultimately show ?case using simulates_bind [OF simulates_case [OF sim] Cons.IH] by simp
qed

lemma pushAdd_new:
  assumes "w < fl_next c" and "fl_stacks c \<noteq> [] \<Longrightarrow> last (fl_stacks c) < fl_next c"
  shows "pushAdd w (snd (new_BlockValue lb lp bt c)) = snd (new_BlockValue lb lp bt (pushAdd w c))"
proof (cases "last (fl_stacks c) = w")
  case True
  with assms show ?thesis by (cases c) (auto simp: flat_defs)
next
  case False
  with assms show ?thesis
    by (cases c) (auto simp: flat_defs fun_upd_twist)
qed


lemma pushAdd_label:
  "pushAdd w (c\<lparr>fl_labelIndex := l\<rparr>) = (pushAdd w c)\<lparr>fl_labelIndex := l\<rparr>"
  by (cases c) (simp add: flat_defs)

lemma on_top_label [simp]: "on_top k ch (c\<lparr>fl_labelIndex := l\<rparr>) = on_top k ch c"
  by (simp add: on_top_def)

lemma fst_new [simp]: "fst (new_BlockValue lb lp bt c) = fl_next c"
  by (simp add: new_BlockValue_def)

lemma new_fields [simp]:
  "fl_next (snd (new_BlockValue lb lp bt c)) = fl_next c + 1"
  "fl_labelIndex (snd (new_BlockValue lb lp bt c)) = fl_labelIndex c"
  "fl_stacks (snd (new_BlockValue lb lp bt c)) = fl_stacks c"
  "fl_next (pushAdd w c) = fl_next c"
  "fl_labelIndex (pushAdd w c) = fl_labelIndex c"
  "fl_stacks (pushAdd w c) = fl_stacks c @ [w]"
  by (simp_all add: flat_defs)

lemma label_fields [simp]:
  "fl_next (c\<lparr>fl_labelIndex := l\<rparr>) = fl_next c"
  "fl_labelIndex (c\<lparr>fl_labelIndex := l\<rparr>) = l"
  "fl_stacks (c\<lparr>fl_labelIndex := l\<rparr>) = fl_stacks c"
  by simp_all

lemma on_top_new_plain:
  "on_top k ch c \<Longrightarrow> on_top (fl_next c) ((fl_next c, lp) # ch)
    (pushAdd (fl_next c) (snd (new_BlockValue lb lp bt c)))"
  using on_top_new [of k ch c lp None lb bt "fl_labelIndex c"] by (simp add: new_block_no_vars)

lemma addValue_top:
  "on_top k ch c \<Longrightarrow> block_addValue k item c = fl_addValue item c"
  by (simp add: on_top_def fl_addValue_def)

text \<open>The two blocks of a loop, opened one after the other.\<close>

lemma while_opened:
  fixes c hint
  assumes top: "on_top k ch c"
  defines "c1 \<equiv> pushAdd (fl_next c) (snd (new_BlockValue (js_lit hint) False True c))"
  defines "c2 \<equiv> c1\<lparr>fl_labelIndex := fl_labelIndex c + 1\<rparr>"
  defines "c3 \<equiv> pushAdd (fl_next c + 1)
    (snd (new_BlockValue (num_label (hint @ ''_loop'') (fl_labelIndex c + 1)) True False c2))"
  shows "pushAdd (fl_next c + 1) (pushAdd (fl_next c)
      (snd (new_BlockValue (num_label (hint @ ''_loop'') (fl_labelIndex c + 1)) True False
        ((snd (new_BlockValue (js_lit hint) False True c))\<lparr>fl_labelIndex := fl_labelIndex c + 1\<rparr>)))) = c3"
    and "on_top (fl_next c + 1) ((fl_next c + 1, True) # (fl_next c, False) # ch) c3"
    and "fl_stacks c3 = fl_stacks c @ [fl_next c, fl_next c + 1]"
proof -
  have n: "fl_next c1 = fl_next c + 1" "fl_next c2 = fl_next c + 1"
    by (simp_all add: c1_def c2_def flat_defs)
  have top2: "on_top (fl_next c) ((fl_next c, False) # ch) c2"
    unfolding c2_def c1_def using on_top_new_plain [OF top] by simp
  show "on_top (fl_next c + 1) ((fl_next c + 1, True) # (fl_next c, False) # ch) c3"
    unfolding c3_def using on_top_new_plain [OF top2] by (simp add: n)
  show "fl_stacks c3 = fl_stacks c @ [fl_next c, fl_next c + 1]"
    by (simp add: c3_def c2_def c1_def flat_defs)
  let ?d = "(snd (new_BlockValue (js_lit hint) False True c))\<lparr>fl_labelIndex := fl_labelIndex c + 1\<rparr>"
  have "fl_next ?d = fl_next c + 1" "fl_stacks ?d = fl_stacks c" by (simp_all add: new_BlockValue_def)
  moreover have "last (fl_stacks c) < fl_next c" using top by (simp add: on_top_def)
  ultimately have "pushAdd (fl_next c) (snd (new_BlockValue lb True False ?d)) =
      snd (new_BlockValue lb True False (pushAdd (fl_next c) ?d))" for lb
    by (intro pushAdd_new) simp_all
  then show "pushAdd (fl_next c + 1) (pushAdd (fl_next c)
      (snd (new_BlockValue (num_label (hint @ ''_loop'') (fl_labelIndex c + 1)) True False ?d))) = c3"
    by (simp add: c3_def c2_def c1_def pushAdd_label)
qed

text \<open>A statement whose body runs between two lists of added values.\<close>

lemma simulates_around:
  assumes "simulates op sp"
  shows "simulates (\<lambda>c. bind_r (flat_BASIC_BLOCK xs c) (\<lambda>c. bind_r (op c) (flat_BASIC_BLOCK ys)))
    (\<lambda>ch l n. bind_r (sp ch l n) (\<lambda>(vs, l, n). Inr (xs @ vs @ ys, l, n)))"
  by (rule simulates_spec [OF simulates_bind [OF simulates_values simulates_bind [OF assms simulates_values]]])
    (simp add: bind_r_def split: sum.split prod.split)

lemma simulates_loop:
  assumes sim: "simulates (flat_opt body) (spec_opt sbody)"
  shows "simulates (in_block (\<lambda>c. (js_lit hint, c)) False True None (\<lambda>w.
      in_block (makeLabel (hint @ ''_loop'')) True False None (\<lambda>p c.
        bind_r (flat_BASIC_BLOCK (xs w p) c) (\<lambda>c. bind_r (flat_opt body c) (flat_BASIC_BLOCK (ys w p))))))
    (\<lambda>ch l n. bind_r (spec_opt sbody ((n + 1, True) # (n, False) # ch) (l + 1) (n + 2)) (\<lambda>(bs, l', n').
      Inr ([plain_block n (js_lit hint) False True
             [plain_block (n + 1) (num_label (hint @ ''_loop'') (l + 1)) True False
               (xs n (n + 1) @ bs @ ys n (n + 1))]], l', n')))"
  by (rule simulates_spec [OF simulates_fixed [OF simulates_plain [OF simulates_around [OF sim]]]])
    (simp add: bind_r_def split: sum.split prod.split)

lemma BASIC_simps:
  "flat_BASIC_BLOCK [] c = Inr c"
  "flat_BASIC_BLOCK (v # vs) c = flat_BASIC_BLOCK vs (fl_addValue (FValue v) c)"
  by (simp_all add: flat_BASIC_BLOCK_def)

lemma makeLabel_simps: 
  "fst (makeLabel h c) = num_label h (fl_labelIndex c + 1)"
  "snd (makeLabel h c) = c\<lparr>fl_labelIndex := fl_labelIndex c + 1\<rparr>"
  by (simp_all add: makeLabel_def)

lemma simulates_WHILE:
  assumes sim: "simulates (flat_opt body) (spec_opt sbody)"
  shows "simulates (flat_WHILE dw cond body) (spec_WHILE dw cond sbody)"
proof -
  define hint where "hint = (if dw then ''do_while'' else ''while'')"
  define xs where "xs = (\<lambda>w p :: block_id. if dw then [] else [BlockBranchIfValue w cond False])"
  define ys where "ys = (\<lambda>w p. if dw then [BlockBranchIfValue p cond True, BlockBranchValue w]
    else [BlockBranchValue p])"
  let ?op = "in_block (\<lambda>c. (js_lit hint, c)) False True None (\<lambda>w.
      in_block (makeLabel (hint @ ''_loop'')) True False None (\<lambda>p c.
        bind_r (flat_BASIC_BLOCK (xs w p) c) (\<lambda>c. bind_r (flat_opt body c) (flat_BASIC_BLOCK (ys w p)))))"
  have "simulates ?op (spec_WHILE dw cond sbody)"
    by (rule simulates_spec [OF simulates_loop [OF sim]])
      (simp add: spec_WHILE_def xs_def ys_def Let_def flip: hint_def)
  then show ?thesis
  proof (rule simulates_cong)
    fix c k ch
    assume top: "on_top k ch c"
    define c1 where "c1 = (pushAdd (fl_next c) (snd (new_BlockValue (js_lit hint) False True c)))
      \<lparr>fl_labelIndex := fl_labelIndex c + 1\<rparr>"
    define c3 where "c3 = pushAdd (fl_next c + 1)
      (snd (new_BlockValue (num_label (hint @ ''_loop'') (fl_labelIndex c + 1)) True False c1))"
    note opened = while_opened [OF top, of hint, folded c1_def, folded c3_def]
    let ?n = "fl_next c" and ?p = "fl_next c + 1"
    have code: "flat_WHILE dw cond body c =
      (if dw then bind_r (flat_opt body c3) (\<lambda>c. Inr (fl_pop (fl_pop (block_addValue ?p
             (FValue (BlockBranchValue ?n)) (block_addValue ?p (FValue (BlockBranchIfValue ?p cond True)) c)))))
       else bind_r (flat_opt body (block_addValue ?p (FValue (BlockBranchIfValue ?n cond False)) c3))
         (\<lambda>c. Inr (fl_pop (fl_pop (block_addValue ?p (FValue (BlockBranchValue ?p)) c)))))"
      unfolding flat_WHILE_def hint_def [symmetric] Let_def case_prod_beta fst_new makeLabel_simps new_fields
        label_fields opened(1) by (rule refl)
    have op: "?op c = bind_r (bind_r (flat_BASIC_BLOCK (xs ?n ?p) c3)
      (\<lambda>c. bind_r (flat_opt body c) (flat_BASIC_BLOCK (ys ?n ?p)))) (\<lambda>c. Inr (fl_pop (fl_pop c)))"
      unfolding in_block_None Let_def case_prod_beta fst_new makeLabel_simps new_fields fst_conv snd_conv
        label_fields c3_def c1_def by (simp add: bind_r_def split: sum.split)
    define c4 where "c4 = (if dw then c3 else fl_addValue (FValue (BlockBranchIfValue ?n cond False)) c3)"
    have top4: "on_top ?p ((?p, True) # (?n, False) # ch) c4"
      using opened(2) on_top_added [OF opened(2) added_addValue [OF opened(2)]] by (simp add: c4_def)
    have code4: "flat_WHILE dw cond body c = bind_r (flat_opt body c4) (\<lambda>c. Inr (fl_pop (fl_pop
      (if dw then block_addValue ?p (FValue (BlockBranchValue ?n))
             (block_addValue ?p (FValue (BlockBranchIfValue ?p cond True)) c)
       else block_addValue ?p (FValue (BlockBranchValue ?p)) c))))"
      unfolding code c4_def addValue_top [OF opened(2)] by simp
    have op4: "?op c = bind_r (flat_opt body c4) (\<lambda>c. bind_r (flat_BASIC_BLOCK (ys ?n ?p) c)
      (\<lambda>c. Inr (fl_pop (fl_pop c))))"
      unfolding op by (simp add: c4_def xs_def BASIC_simps bind_r_def split: sum.split)
    show "flat_WHILE dw cond body c = ?op c"
      unfolding code4 op4
      by (rule bind_after [OF sim top4])
        (use top4 in \<open>simp add: on_top_def ys_def BASIC_simps fl_addValue_def block_addValue_def upd_block_def\<close>)
  qed
qed


lemma simulates_SWITCH:
  assumes cases: "list_all2 (\<lambda>(e, op) (f, sp). e = f \<and> simulates (flat_opt op) (spec_opt sp)) cs scs"
    and dflt: "rel_option (\<lambda>op sp. simulates (flat_opt op) (spec_opt sp)) d sd"
  shows "simulates (flat_SWITCH cs d) (spec_SWITCH scs sd)"
proof -
  have "list_all2 (\<lambda>(i, e, op) (j, f, sp). i = j \<and> e = f \<and> simulates (flat_opt op) (spec_opt sp))
    (rev (enumerate 0 cs)) (rev (enumerate 0 scs))"
    using cases by (auto simp: list_all2_conv_all_nth nth_enumerate_eq rev_nth case_prod_beta)
  note sim = simulates_cases [OF this]
  show ?thesis
  proof (cases d)
    case None
    with dflt have sd: "sd = None" by simp
    have "flat_SWITCH cs d c = in_block (makeLabel ''switch'') False True None
      (\<lambda>b. fold_r flat_case (rev (enumerate 0 cs))) c" for c
      unfolding flat_SWITCH_def in_block_None None Let_def case_prod_beta option.case bind_r_simps by simp
    moreover have "spec_SWITCH scs sd = (\<lambda>ch l n. bind_r (spec_cases (rev (enumerate 0 scs)) ((n, False) # ch) (l + 1) (n + 1))
       (\<lambda>(vs, l', n'). Inr ([plain_block n (num_label ''switch'' (l + 1)) False True vs], l', n')))"
      by (intro ext) (simp only: spec_SWITCH_def sd option.case)
    ultimately show ?thesis
      by (intro simulates_cong [OF _ \<open>flat_SWITCH cs d _ = _\<close>]) (simp only: simulates_plain [OF sim])
  next
    case (Some op)
    with dflt obtain sp where sd: "sd = Some sp" and op: "simulates (flat_opt op) (spec_opt sp)"
      by (cases sd) auto
    have eq: "flat_SWITCH cs d c = in_block (makeLabel ''switch'') False True None (\<lambda>b.
      in_block (makeLabel ''switch_default'') False False None (\<lambda>b c.
        bind_r (flat_opt op c) (fold_r flat_case (rev (enumerate 0 cs))))) c" for c
      unfolding flat_SWITCH_def in_block_None Some Let_def case_prod_beta option.case
      by (simp add: bind_r_def split: sum.split)
    show ?thesis
      by (rule simulates_cong [OF simulates_spec [OF simulates_plain [OF simulates_plain
          [OF simulates_bind [OF op sim]]]] eq])
        (simp add: spec_SWITCH_def sd bind_r_def split: sum.split)
  qed
qed

lemma yields_bind:
  assumes "yields k1 c1 x r"
    and "\<And>c2 items vs. added k1 items c1 c2 \<Longrightarrow> reads (fl_next c1) (fl_next c2) (fl_blocks c2) items vs \<Longrightarrow>
      yields k c (F c2) (G (vs, fl_labelIndex c2, fl_next c2))"
  shows "yields k c (bind_r x F) (bind_r r G)"
proof (cases r)
  case (Inl e)
  then show ?thesis using assms(1) by (simp add: yields_def)
next
  case (Inr a)
  obtain vs l n where a: "a = (vs, l, n)" by (cases a)
  with Inr assms(1) obtain c2 items where "x = Inr c2" "added k1 items c1 c2" "fl_labelIndex c2 = l"
    "fl_next c2 = n" "reads (fl_next c1) n (fl_blocks c2) items vs"
    by (auto simp: yields_def)
  then show ?thesis using assms(2) by (auto simp: Inr a)
qed

lemma yields_Inr:
  assumes "added k items c c'" and "reads (fl_next c) (fl_next c') (fl_blocks c') items vs"
    and "l = fl_labelIndex c'" and "n = fl_next c'"
  shows "yields k c (Inr c') (Inr (vs, l, n))"
  using assms by (auto simp: yields_def)

lemma simulates_IF_then:
  assumes sim: "simulates op sp"
  shows "simulates (flat_IF cond op None) (spec_IF cond sp None)"
  unfolding simulates_def
proof (intro allI impI)
  fix c k ch
  assume top: "on_top k ch c"
  then have k: "fl_stacks c \<noteq> []" "last (fl_stacks c) = k" "k < fl_next c" by (simp_all add: on_top_def)
  let ?n = "fl_next c" and ?l = "fl_labelIndex c"
  define c1 where "c1 = \<lparr>fl_labelIndex = ?l + 2, fl_stacks = fl_stacks c @ [?n, ?n + 1],
    fl_blocks = (fl_blocks c)(k := (fl_blocks c k)\<lparr>fb_values := fb_values (fl_blocks c k) @ [FBlock ?n]\<rparr>,
      ?n := (new_flat_block Primitive_Void (num_label ''if'' (?l + 1)) False False)\<lparr>fb_parent := Some k\<rparr>,
      ?n + 1 := (new_flat_block Primitive_Void (num_label ''if_true'' (?l + 2)) False False)
         \<lparr>fb_values := [FValue (BlockBranchIfValue ?n cond False)]\<rparr>), fl_next = ?n + 2\<rparr>"
  have "on_top (?n + 1) [(?n + 1, False)] c1"
    using chain.chain_end [of "fl_blocks c1" "?n + 1"] by (simp add: on_top_def c1_def new_flat_block_def)
  with sim have y: "yields (?n + 1) c1 (op c1) (sp [(?n + 1, False)] (?l + 2) (?n + 2))"
    unfolding simulates_def by (metis (no_types, lifting) FlattenContext.select_convs(1,4) c1_def)
  have code: "flat_IF cond op None c = bind_r (op c1) (\<lambda>c. Inr (fl_pop (block_addValue ?n (FBlock (?n + 1)) (fl_pop c))))"
    using k by (cases c) (simp add: flat_IF_def flat_defs c1_def fun_upd_twist)
  show "yields k c (flat_IF cond op None c) (spec_IF cond sp None ch ?l ?n)"
    unfolding code spec_IF_def option.case
  proof (rule yields_bind [OF y])
    fix c2 items vs
    assume a: "added (?n + 1) items c1 c2" and r: "reads (fl_next c1) (fl_next c2) (fl_blocks c2) items vs"
    show "yields k c (Inr (fl_pop (block_addValue ?n (FBlock (?n + 1)) (fl_pop c2))))
      (case (vs, fl_labelIndex c2, fl_next c2) of (ts, l1, n1) \<Rightarrow>
        Inr ([plain_block ?n (num_label ''if'' (?l + 1)) False False
               [plain_block (?n + 1) (num_label ''if_true'' (?l + 2)) False False
                 (BlockBranchIfValue ?n cond False # ts)]], l1, n1))"
      unfolding prod.case
    proof (rule yields_Inr [where items = "[FBlock ?n]"])
      let ?c' = "fl_pop (block_addValue ?n (FBlock (?n + 1)) (fl_pop c2))"
      let ?m = "fl_next c2"
      have m: "?n + 2 \<le> ?m" using a by (simp add: added_def c1_def)
      have blks: "fl_blocks ?c' j = (if j = k \<and> k < ?n then (fl_blocks c k)\<lparr>fb_values := fb_values (fl_blocks c k) @ [FBlock ?n]\<rparr>
          else fl_blocks c j)" if "j < ?n" for j
        using a that by (simp add: added_def c1_def flat_defs)
      then show "added k [FBlock ?n] c ?c'"
        using a k m by (simp add: added_def c1_def flat_defs butlast_append)
      have n1: "fl_blocks ?c' (?n + 1) = (new_flat_block Primitive_Void (num_label ''if_true'' (?l + 2)) False False)
          \<lparr>fb_values := FValue (BlockBranchIfValue ?n cond False) # items, fb_parent := Some ?n\<rparr>"
        using a by (simp add: added_def c1_def flat_defs)
      have n0: "fl_blocks ?c' ?n = (new_flat_block Primitive_Void (num_label ''if'' (?l + 1)) False False)
          \<lparr>fb_values := [FBlock (?n + 1)], fb_parent := Some k\<rparr>"
        using a by (simp add: added_def c1_def flat_defs)
      have "reads (?n + 2) ?m (fl_blocks ?c') items vs"
        using r by (rule reads_mono) (simp_all add: c1_def flat_defs)
      then have "reads (?n + 2) ?m (fl_blocks ?c') (fb_values (fl_blocks ?c' (?n + 1)))
          (BlockBranchIfValue ?n cond False # vs)"
        unfolding n1 by (simp add: reads_Cons)
      from reads_block [OF this, of "?n + 1" ?m]
      have "reads (?n + 1) ?m (fl_blocks ?c') [FBlock (?n + 1)]
          [plain_block (?n + 1) (num_label ''if_true'' (?l + 2)) False False (BlockBranchIfValue ?n cond False # vs)]"
        using m unfolding n1 by (simp add: new_flat_block_def plain_block_def)
      then have "reads (?n + 1) ?m (fl_blocks ?c') (fb_values (fl_blocks ?c' ?n))
          [plain_block (?n + 1) (num_label ''if_true'' (?l + 2)) False False (BlockBranchIfValue ?n cond False # vs)]"
        unfolding n0 by simp
      from reads_block [OF this, of ?n ?m]
      show "reads ?n (fl_next ?c') (fl_blocks ?c') [FBlock ?n]
          [plain_block ?n (num_label ''if'' (?l + 1)) False False
            [plain_block (?n + 1) (num_label ''if_true'' (?l + 2)) False False (BlockBranchIfValue ?n cond False # vs)]]"
        using m unfolding n0 by (simp add: new_flat_block_def plain_block_def flat_defs)
    qed (simp_all add: flat_defs)
  qed
qed


lemma simulates_IF_else:
  assumes sim: "simulates op sp" and sim': "simulates fop fsp"
  shows "simulates (flat_IF cond op (Some fop)) (spec_IF cond sp (Some fsp))"
  unfolding simulates_def
proof (intro allI impI)
  fix c k ch
  assume top: "on_top k ch c"
  then have k: "fl_stacks c \<noteq> []" "last (fl_stacks c) = k" "k < fl_next c" by (simp_all add: on_top_def)
  let ?n = "fl_next c" and ?l = "fl_labelIndex c"
  define c1 where "c1 = \<lparr>fl_labelIndex = ?l + 3, fl_stacks = fl_stacks c @ [?n, ?n + 1],
    fl_blocks = (fl_blocks c)(k := (fl_blocks c k)\<lparr>fb_values := fb_values (fl_blocks c k) @ [FBlock ?n]\<rparr>,
      ?n := (new_flat_block Primitive_Void (num_label ''if'' (?l + 1)) False False)\<lparr>fb_parent := Some k\<rparr>,
      ?n + 1 := (new_flat_block Primitive_Void (num_label ''if_true'' (?l + 2)) False False)
         \<lparr>fb_values := [FValue (BlockBranchIfValue (?n + 2) cond False)]\<rparr>,
      ?n + 2 := new_flat_block Primitive_Void (num_label ''if_false'' (?l + 3)) False False),
    fl_next = ?n + 3\<rparr>"
  define H where "H = (\<lambda>c2. fl_push (?n + 2) (block_addValue (?n + 2) (FBlock (?n + 1))
    (block_addValue (?n + 1) (FValue (BlockBranchValue ?n)) (fl_pop c2))))"
  have "on_top (?n + 1) [(?n + 1, False)] c1"
    using chain.chain_end [of "fl_blocks c1" "?n + 1"] by (simp add: on_top_def c1_def new_flat_block_def)
  with sim have y: "yields (?n + 1) c1 (op c1) (sp [(?n + 1, False)] (?l + 3) (?n + 3))"
    unfolding simulates_def by (metis (no_types, lifting) FlattenContext.select_convs(1,4) c1_def)
  have code: "flat_IF cond op (Some fop) c = bind_r (op c1) (\<lambda>c. bind_r (fop (H c))
      (\<lambda>c. Inr (fl_pop (block_addValue ?n (FBlock (?n + 2)) (fl_pop c)))))"
    using k by (cases c) (simp add: flat_IF_def flat_defs c1_def H_def fun_upd_twist numeral_3_eq_3)
  show "yields k c (flat_IF cond op (Some fop) c) (spec_IF cond sp (Some fsp) ch ?l ?n)"
    unfolding code spec_IF_def option.case
  proof (rule yields_bind [OF y])
    fix c2 items vs
    assume a: "added (?n + 1) items c1 c2" and r: "reads (fl_next c1) (fl_next c2) (fl_blocks c2) items vs"
    have H: "fl_next (H c2) = fl_next c2" "fl_labelIndex (H c2) = fl_labelIndex c2"
      "fl_stacks (H c2) = fl_stacks c @ [?n, ?n + 2]"
      using a by (simp_all add: added_def H_def flat_defs c1_def butlast_append)
    have H1: "fl_blocks (H c2) (?n + 1) = (new_flat_block Primitive_Void (num_label ''if_true'' (?l + 2)) False False)
          \<lparr>fb_values := [FValue (BlockBranchIfValue (?n + 2) cond False)] @ items @ [FValue (BlockBranchValue ?n)],
           fb_parent := Some (?n + 2)\<rparr>"
      and H2: "fl_blocks (H c2) (?n + 2) = (new_flat_block Primitive_Void (num_label ''if_false'' (?l + 3)) False False)
          \<lparr>fb_values := [FBlock (?n + 1)]\<rparr>"
      and H0: "fl_blocks (H c2) ?n = (new_flat_block Primitive_Void (num_label ''if'' (?l + 1)) False False)
          \<lparr>fb_parent := Some k\<rparr>"
      and Hk: "fl_blocks (H c2) k = (fl_blocks c k)\<lparr>fb_values := fb_values (fl_blocks c k) @ [FBlock ?n]\<rparr>"
      and Hj: "\<And>j. j < ?n \<Longrightarrow> j \<noteq> k \<Longrightarrow> fl_blocks (H c2) j = fl_blocks c j"
      and Hr: "\<And>j. ?n + 3 \<le> j \<Longrightarrow> fl_blocks (H c2) j = fl_blocks c2 j"
      using a k by (auto simp: added_def H_def flat_defs c1_def)
    have m: "?n + 3 \<le> fl_next c2" using a by (simp add: added_def c1_def)
    have "on_top (?n + 2) [(?n + 2, False)] (H c2)"
      using chain.chain_end [of "fl_blocks (H c2)" "?n + 2"] m unfolding on_top_def H H2
      by (simp add: new_flat_block_def)
    with sim' have y': "yields (?n + 2) (H c2) (fop (H c2)) (fsp [(?n + 2, False)] (fl_labelIndex c2) (fl_next c2))"
      unfolding simulates_def by (metis H(1,2))
    show "yields k c (bind_r (fop (H c2)) (\<lambda>c. Inr (fl_pop (block_addValue ?n (FBlock (?n + 2)) (fl_pop c)))))
      (case (vs, fl_labelIndex c2, fl_next c2) of (ts, l1, n1) \<Rightarrow>
        bind_r (fsp [(?n + 2, False)] l1 n1) (\<lambda>(fs, l2, n2).
            Inr ([plain_block ?n (num_label ''if'' (?l + 1)) False False
                   [plain_block (?n + 2) (num_label ''if_false'' (?l + 3)) False False
                     (plain_block (?n + 1) (num_label ''if_true'' (?l + 2)) False False
                        (BlockBranchIfValue (?n + 2) cond False # ts @ [BlockBranchValue ?n]) # fs)]],
                 l2, n2)))"
      unfolding prod.case
    proof (rule yields_bind [OF y'])
      fix c4 items' ws
      assume a': "added (?n + 2) items' (H c2) c4"
        and r': "reads (fl_next (H c2)) (fl_next c4) (fl_blocks c4) items' ws"
      let ?c' = "fl_pop (block_addValue ?n (FBlock (?n + 2)) (fl_pop c4))" and ?m = "fl_next c4"
      let ?T = "plain_block (?n + 1) (num_label ''if_true'' (?l + 2)) False False
                        (BlockBranchIfValue (?n + 2) cond False # vs @ [BlockBranchValue ?n])"
      let ?F = "plain_block (?n + 2) (num_label ''if_false'' (?l + 3)) False False (?T # ws)"
      have m': "fl_next c2 \<le> ?m" using a' by (simp add: added_def H)
      have same: "fl_blocks ?c' j = fl_blocks (H c2) j" if "j < fl_next c2" "j \<noteq> ?n" "j \<noteq> ?n + 2" for j
        using a' that by (simp add: added_def flat_defs H)
      have c'2: "fl_blocks ?c' (?n + 2) = (fl_blocks (H c2) (?n + 2))\<lparr>fb_values := [FBlock (?n + 1)] @ items',
          fb_parent := Some ?n\<rparr>"
        using a' by (simp add: added_def flat_defs H2 [simplified])
      have c'0: "fl_blocks ?c' ?n = (fl_blocks (H c2) ?n)\<lparr>fb_values := [FBlock (?n + 2)]\<rparr>"
        using a' m by (simp add: added_def flat_defs H H0 new_flat_block_def)
      have c'r: "fl_blocks ?c' j = fl_blocks c4 j" if "?n + 3 \<le> j" for j
        using that by (simp add: flat_defs)
      show "yields k c (Inr ?c') (case (ws, fl_labelIndex c4, ?m) of (fs, l2, n2) \<Rightarrow>
            Inr ([plain_block ?n (num_label ''if'' (?l + 1)) False False
                   [plain_block (?n + 2) (num_label ''if_false'' (?l + 3)) False False
                     (plain_block (?n + 1) (num_label ''if_true'' (?l + 2)) False False
                        (BlockBranchIfValue (?n + 2) cond False # vs @ [BlockBranchValue ?n]) # fs)]],
                 l2, n2))"
        unfolding prod.case
      proof (rule yields_Inr [where items = "[FBlock ?n]"])
        show "added k [FBlock ?n] c ?c'"
          using k m m' a' by (simp add: added_def same Hk Hj)
            (simp add: flat_defs H Hk Hj butlast_append)
        have c2r: "fl_blocks ?c' j = fl_blocks c2 j" if "?n + 3 \<le> j" "j < fl_next c2" for j
          using same [of j] Hr [of j] that by simp
        let ?d = "?m - ?n - 3"
        have d: "?m - ?n = Suc (Suc (Suc ?d))" using m m' by simp
        have "reads_n ?d ?n ?m (fl_blocks ?c') items vs"
          by (rule reads_n_mono [OF r]) (use m m' c2r in \<open>auto simp: c1_def\<close>)
        then have "reads_n ?d ?n ?m (fl_blocks ?c') (fb_values (fl_blocks ?c' (?n + 1)))
            (BlockBranchIfValue (?n + 2) cond False # vs @ [BlockBranchValue ?n])"
          using m by (subst same) (simp_all add: H1 [simplified] reads_Cons reads_append)
        from reads_n_block [OF this]
        have T: "reads_n (Suc ?d) ?n ?m (fl_blocks ?c') [FBlock (?n + 1)] [?T]"
          using m m' same [of "?n + 1"] H1 by (simp add: new_flat_block_def plain_block_def)
        have "reads_n (Suc ?d) ?n ?m (fl_blocks ?c') items' ws"
          by (rule reads_n_mono [OF r']) (use m m' c'r in \<open>auto simp: H\<close>)
        with T have "reads_n (Suc ?d) ?n ?m (fl_blocks ?c') (fb_values (fl_blocks ?c' (?n + 2))) (?T # ws)"
          unfolding c'2 by (simp add: reads_Cons)
        from reads_n_block [OF this]
        have "reads_n (Suc (Suc ?d)) ?n ?m (fl_blocks ?c') [FBlock (?n + 2)] [?F]"
          using m m' unfolding c'2 H2 by (simp add: new_flat_block_def plain_block_def)
        then have "reads_n (Suc (Suc ?d)) ?n ?m (fl_blocks ?c') (fb_values (fl_blocks ?c' ?n)) [?F]"
          unfolding c'0 by simp
        from reads_n_block [OF this]
        have "reads_n (?m - ?n) ?n ?m (fl_blocks ?c') [FBlock ?n]
          [plain_block ?n (num_label ''if'' (?l + 1)) False False [?F]]"
          using m m' d unfolding c'0 H0 by (simp add: new_flat_block_def plain_block_def)
        then show "reads ?n (fl_next ?c') (fl_blocks ?c') [FBlock ?n]
          [plain_block ?n (num_label ''if'' (?l + 1)) False False [?F]]"
          by (simp add: flat_defs)
      qed (simp_all add: flat_defs)
    qed
  qed
qed


definition for_body_op :: "flat_op option \<Rightarrow> flat_op" where
  "for_body_op body = (case body of
     Some op \<Rightarrow> in_block (makeLabel ''for_body'') False False None (\<lambda>b. op)
   | None \<Rightarrow> Inr)"

lemma for_body_op_eq:
  "for_body_op body c = (case body of
     Some op \<Rightarrow>
       (let (label, c) = makeLabel ''for_body'' c;
            (body_block, c) = new_BlockValue label False False c;
            c = pushAdd body_block c
        in bind_r (op c) (\<lambda>c. Inr (fl_pop c)))
   | None \<Rightarrow> Inr c)"
  by (cases body) (simp_all add: for_body_op_def in_block_None)

lemma simulates_for_body:
  assumes "rel_option simulates body sbody"
  shows "simulates (for_body_op body) (spec_for_body sbody)"
proof (cases body)
  case None
  with assms simulates_skip show ?thesis
    by (cases sbody) (simp_all add: for_body_op_def spec_for_body_def [abs_def])
next
  case (Some op)
  with assms obtain sp where "sbody = Some sp" and sim: "simulates op sp" by (cases sbody) auto
  then have "spec_for_body sbody = (\<lambda>ch l n. bind_r (sp ((n, False) # ch) (l + 1) (n + 1)) (\<lambda>(vs, l', n').
      Inr ([plain_block n (num_label ''for_body'' (l + 1)) False False vs], l', n')))"
    by (intro ext) (simp only: spec_for_body_def option.case)
  with simulates_plain [OF sim] show ?thesis by (simp only: Some for_body_op_def option.case)
qed

lemma simulates_FOR:
  assumes ini: "simulates (flat_opt ini) (spec_opt sini)" and body: "rel_option simulates body sbody"
  shows "simulates (flat_FOR vl ini cond nxt body) (spec_FOR vl sini cond nxt sbody)"
  unfolding simulates_def
proof (intro allI impI)
  fix c k ch
  assume top: "on_top k ch c"
  then have k: "fl_stacks c \<noteq> []" "last (fl_stacks c) = k" "k < fl_next c" by (simp_all add: on_top_def)
  let ?n = "fl_next c" and ?l = "fl_labelIndex c"
  let ?xs = "case cond of Some e \<Rightarrow> [BlockBranchIfValue ?n e False] | None \<Rightarrow> []"
  let ?ys = "opt_elem nxt @ [BlockBranchValue (?n + 1)]"
  define for0 where "for0 = \<lparr>fb_type = Primitive_Void, fb_label = num_label ''for'' (?l + 1), fb_isLoop = False,
    fb_breakTarget = True, fb_varList = vl, fb_refList = buildVarReferenceList vl, fb_values = [],
    fb_parent = Some k\<rparr>"
  define loop0 where "loop0 = new_flat_block Primitive_Void (num_label ''for_loop'' (?l + 2)) True False"
  define c1 where "c1 = \<lparr>fl_labelIndex = ?l + 2, fl_stacks = fl_stacks c @ [?n],
    fl_blocks = (fl_blocks c)(k := (fl_blocks c k)\<lparr>fb_values := fb_values (fl_blocks c k) @ [FBlock ?n]\<rparr>,
      ?n := for0, ?n + 1 := loop0), fl_next = ?n + 2\<rparr>"
  define inner where "inner = (\<lambda>c. bind_r (flat_BASIC_BLOCK ?xs c) (\<lambda>c. bind_r (for_body_op body c) (flat_BASIC_BLOCK ?ys)))"
  have inner: "simulates inner (\<lambda>ch l n. bind_r (spec_for_body sbody ch l n) (\<lambda>(vs, l, n). Inr (?xs @ vs @ ?ys, l, n)))"
    unfolding inner_def by (rule simulates_around [OF simulates_for_body [OF body]])
  have "chain (fl_blocks c1) k ch"
    using top k by (auto simp: on_top_def c1_def same_values elim!: chain_values)
  then have "chain (fl_blocks c1) ?n ((?n, False) # ch)"
    using k by (intro chain_on) (simp_all add: c1_def for0_def)
  then have top1: "on_top ?n ((?n, False) # ch) c1" by (simp add: on_top_def c1_def)
  with ini have y: "yields ?n c1 (flat_opt ini c1) (spec_opt sini ((?n, False) # ch) (?l + 2) (?n + 2))"
    unfolding simulates_def by (metis (no_types, lifting) FlattenContext.select_convs(1,4) c1_def)
  define F where "F = (\<lambda>c2. let c = pushAdd (?n + 1) c2;
       c = (case cond of
              Some e \<Rightarrow> block_addValue (?n + 1) (FValue (BlockBranchIfValue ?n e False)) c
            | None \<Rightarrow> c)
     in bind_r (for_body_op body c) (\<lambda>c.
          let c = (case nxt of Some e \<Rightarrow> block_addValue (?n + 1) (FValue e) c | None \<Rightarrow> c);
              c = block_addValue (?n + 1) (FValue (BlockBranchValue (?n + 1))) c
          in Inr (fl_pop (fl_pop c))))"
  have v1: "(case vl of Some _ \<Rightarrow> set_block_vars ?n vl c0 | None \<Rightarrow> c0) = c1"
    if "c0 = c1\<lparr>fl_blocks := (fl_blocks c1)(?n := (new_flat_block Primitive_Void (num_label ''for'' (?l + 1)) False True)
      \<lparr>fb_parent := Some k\<rparr>)\<rparr>" for c0
    using that k
    by (cases vl) (simp_all add: c1_def for0_def flat_defs buildVarReferenceList_def fun_upd_twist)
  have v2: "snd (new_BlockValue (num_label ''for_loop'' (?l + 2)) True False ((pushAdd ?n
      (snd (new_BlockValue (num_label ''for'' (?l + 1)) False True (c\<lparr>fl_labelIndex := ?l + 1\<rparr>))))
      \<lparr>fl_labelIndex := ?l + 2\<rparr>))
    = c1\<lparr>fl_blocks := (fl_blocks c1)(?n := (new_flat_block Primitive_Void (num_label ''for'' (?l + 1)) False True)
      \<lparr>fb_parent := Some k\<rparr>)\<rparr>"
    using k by (cases c) (simp add: c1_def loop0_def flat_defs fun_upd_twist)
  have vars: "(case vl of Some _ \<Rightarrow> set_block_vars ?n vl c0 | None \<Rightarrow> c0) = c1"
    if "c0 = snd (new_BlockValue (num_label ''for_loop'' (?l + 2)) True False ((pushAdd ?n
      (snd (new_BlockValue (num_label ''for'' (?l + 1)) False True (c\<lparr>fl_labelIndex := ?l + 1\<rparr>))))
      \<lparr>fl_labelIndex := ?l + 2\<rparr>))" for c0
    by (rule v1) (simp only: that v2)
  have code: "flat_FOR vl ini cond nxt body c = bind_r (flat_opt ini c1) F"
    unfolding flat_FOR_def F_def for_body_op_eq case_prod_beta makeLabel_simps fst_new label_fields
      new_fields add.assoc one_add_one Let_def vars [OF refl] by (rule refl)
  show "yields k c (flat_FOR vl ini cond nxt body c) (spec_FOR vl sini cond nxt sbody ch ?l ?n)"
    unfolding code spec_FOR_def
  proof (rule yields_bind [OF y])
    fix c2 items vs
    assume a: "added ?n items c1 c2" and r: "reads (fl_next c1) (fl_next c2) (fl_blocks c2) items vs"
    let ?c3 = "pushAdd (?n + 1) c2"
    have st2: "fl_stacks c2 = fl_stacks c @ [?n]" using a by (simp add: added_def c1_def)
    have m: "?n + 2 \<le> fl_next c2" using a by (simp add: added_def c1_def)
    have b0: "fl_blocks ?c3 ?n = for0\<lparr>fb_values := items @ [FBlock (?n + 1)]\<rparr>"
      and b1: "fl_blocks ?c3 (?n + 1) = loop0\<lparr>fb_parent := Some ?n\<rparr>"
      and bk: "fl_blocks ?c3 k = (fl_blocks c k)\<lparr>fb_values := fb_values (fl_blocks c k) @ [FBlock ?n]\<rparr>"
      and bj: "\<And>j. j < ?n \<Longrightarrow> j \<noteq> k \<Longrightarrow> fl_blocks ?c3 j = fl_blocks c j"
      and br: "\<And>j. ?n + 2 \<le> j \<Longrightarrow> fl_blocks ?c3 j = fl_blocks c2 j"
      using a k st2 by (auto simp: added_def c1_def flat_defs for0_def)
    have "on_top ?n ((?n, False) # ch) c2" by (rule on_top_added [OF top1 a])
    then have "chain (fl_blocks c2) ?n ((?n, False) # ch)" by (simp add: on_top_def)
    then have "chain (fl_blocks ?c3) ?n ((?n, False) # ch)"
      by (rule chain_values) (use st2 in \<open>auto simp: flat_defs same_values\<close>)
    then have "chain (fl_blocks ?c3) (?n + 1) ((?n + 1, True) # (?n, False) # ch)"
      by (rule chain_on) (unfold b1, simp_all add: loop0_def new_flat_block_def)
    then have top3: "on_top (?n + 1) ((?n + 1, True) # (?n, False) # ch) ?c3"
      using m by (simp add: on_top_def)
    with inner have y': "yields (?n + 1) ?c3 (inner ?c3)
      (bind_r (spec_for_body sbody ((?n + 1, True) # (?n, False) # ch) (fl_labelIndex c2) (fl_next c2))
        (\<lambda>(vs, l, n). Inr (?xs @ vs @ ?ys, l, n)))"
      unfolding simulates_def by (metis new_fields(4,5))
    let ?c3' = "case cond of Some e \<Rightarrow> fl_addValue (FValue (BlockBranchIfValue ?n e False)) ?c3 | None \<Rightarrow> ?c3"
    have top3': "on_top (?n + 1) ((?n + 1, True) # (?n, False) # ch) ?c3'"
      using top3 on_top_added [OF top3 added_addValue [OF top3]] by (cases cond) simp_all
    have F: "F c2 = bind_r (inner ?c3) (\<lambda>c. Inr (fl_pop (fl_pop c)))"
    proof -
      have "F c2 = bind_r (for_body_op body ?c3') (\<lambda>c.
          let c = (case nxt of Some e \<Rightarrow> block_addValue (?n + 1) (FValue e) c | None \<Rightarrow> c);
              c = block_addValue (?n + 1) (FValue (BlockBranchValue (?n + 1))) c
          in Inr (fl_pop (fl_pop c)))"
        unfolding F_def Let_def addValue_top [OF top3] by (rule refl)
      also have "\<dots> = bind_r (for_body_op body ?c3') (\<lambda>c. bind_r (flat_BASIC_BLOCK ?ys c) (\<lambda>c. Inr (fl_pop (fl_pop c))))"
        by (rule bind_after [OF simulates_for_body [OF body] top3'])
          (use top3' in \<open>cases nxt; simp add: on_top_def BASIC_simps fl_addValue_def block_addValue_def upd_block_def\<close>)
      also have "\<dots> = bind_r (inner ?c3) (\<lambda>c. Inr (fl_pop (fl_pop c)))"
        unfolding inner_def by (cases cond) (simp_all add: BASIC_simps bind_r_def split: sum.split)
      finally show ?thesis .
    qed
    have eq: "(case (vs, fl_labelIndex c2, fl_next c2) of (is, l1, n1) \<Rightarrow>
      bind_r (spec_for_body sbody ((?n + 1, True) # (?n, False) # ch) l1 n1) (\<lambda>(bs, l2, n2).
       Inr ([BlockValue ?n Primitive_Void (num_label ''for'' (?l + 1)) False True vl
               (buildVarReferenceList vl)
               (is @ [plain_block (?n + 1) (num_label ''for_loop'' (?l + 2)) True False
                       ((case cond of Some e \<Rightarrow> [BlockBranchIfValue ?n e False] | None \<Rightarrow> [])
                        @ bs @ opt_elem nxt @ [BlockBranchValue (?n + 1)])])], l2, n2)))
     = bind_r (bind_r (spec_for_body sbody ((?n + 1, True) # (?n, False) # ch) (fl_labelIndex c2) (fl_next c2))
        (\<lambda>(vs, l, n). Inr (?xs @ vs @ ?ys, l, n))) (\<lambda>(ws, l2, n2).
       Inr ([BlockValue ?n Primitive_Void (num_label ''for'' (?l + 1)) False True vl
               (buildVarReferenceList vl)
               (vs @ [plain_block (?n + 1) (num_label ''for_loop'' (?l + 2)) True False ws])], l2, n2))"
      unfolding prod.case by (simp add: bind_r_def split: sum.split)
    show "yields k c (F c2)
     (case (vs, fl_labelIndex c2, fl_next c2) of (is, l1, n1) \<Rightarrow>
      bind_r (spec_for_body sbody ((?n + 1, True) # (?n, False) # ch) l1 n1) (\<lambda>(bs, l2, n2).
       Inr ([BlockValue ?n Primitive_Void (num_label ''for'' (?l + 1)) False True vl
               (buildVarReferenceList vl)
               (is @ [plain_block (?n + 1) (num_label ''for_loop'' (?l + 2)) True False
                       ((case cond of Some e \<Rightarrow> [BlockBranchIfValue ?n e False] | None \<Rightarrow> [])
                        @ bs @ opt_elem nxt @ [BlockBranchValue (?n + 1)])])], l2, n2)))"
      unfolding eq F
    proof (rule yields_bind [OF y'])
      fix c4 items' ws
      assume a': "added (?n + 1) items' ?c3 c4"
        and r': "reads (fl_next ?c3) (fl_next c4) (fl_blocks c4) items' ws"
      let ?c' = "fl_pop (fl_pop c4)" and ?m = "fl_next c4"
      have m': "fl_next c2 \<le> ?m" using a' by (simp add: added_def)
      have same: "fl_blocks ?c' j = fl_blocks ?c3 j" if "j < fl_next c2" "j \<noteq> ?n + 1" for j
        using a' that by (simp add: added_def fl_pop_def)
      have c'1: "fl_blocks ?c' (?n + 1) = loop0\<lparr>fb_parent := Some ?n, fb_values := items'\<rparr>"
        using a' b1 by (simp add: added_def fl_pop_def loop0_def new_flat_block_def)
      have c'r: "fl_blocks ?c' j = fl_blocks c2 j" if "?n + 2 \<le> j" "j < fl_next c2" for j
        using same [of j] br [of j] that by simp
      show "yields k c (Inr ?c') (case (ws, fl_labelIndex c4, ?m) of (ws, l2, n2) \<Rightarrow>
       Inr ([BlockValue ?n Primitive_Void (num_label ''for'' (?l + 1)) False True vl
               (buildVarReferenceList vl)
               (vs @ [plain_block (?n + 1) (num_label ''for_loop'' (?l + 2)) True False ws])], l2, n2))"
        unfolding prod.case
      proof (rule yields_Inr [where items = "[FBlock ?n]"])
        show "added k [FBlock ?n] c ?c'"
          using k m m' a' same [of k] bk same bj
          by (simp add: added_def) (simp add: fl_pop_def st2 butlast_append)
        let ?d = "?m - ?n - 2"
        have d: "?m - ?n = Suc (Suc ?d)" using m m' by simp
        have "reads_n ?d ?n ?m (fl_blocks ?c') items' ws"
          by (rule reads_n_mono [OF r']) (use m m' in \<open>auto simp: fl_pop_def\<close>)
        then have "reads_n ?d ?n ?m (fl_blocks ?c') (fb_values (fl_blocks ?c' (?n + 1))) ws"
          unfolding c'1 by simp
        from reads_n_block [OF this]
        have "reads_n (Suc ?d) ?n ?m (fl_blocks ?c') [FBlock (?n + 1)]
            [plain_block (?n + 1) (num_label ''for_loop'' (?l + 2)) True False ws]"
          using m m' unfolding c'1 by (simp add: loop0_def new_flat_block_def plain_block_def)
        moreover have "reads_n (Suc ?d) ?n ?m (fl_blocks ?c') items vs"
          by (rule reads_n_mono [OF r]) (use m m' c'r in \<open>auto simp: c1_def\<close>)
        ultimately have "reads_n (Suc ?d) ?n ?m (fl_blocks ?c') (fb_values (fl_blocks ?c' ?n))
            (vs @ [plain_block (?n + 1) (num_label ''for_loop'' (?l + 2)) True False ws])"
          using m same [of ?n] b0 by (simp add: reads_append)
        from reads_n_block [OF this]
        show "reads ?n (fl_next ?c') (fl_blocks ?c') [FBlock ?n]
          [BlockValue ?n Primitive_Void (num_label ''for'' (?l + 1)) False True vl (buildVarReferenceList vl)
               (vs @ [plain_block (?n + 1) (num_label ''for_loop'' (?l + 2)) True False ws])]"
          using m m' d same [of ?n] b0 by (simp add: for0_def fl_pop_def)
      qed (simp_all add: flat_defs)
    qed
  qed
qed


section \<open>Refinement\<close>

lemma simulates_opt: "rel_option simulates op sp \<Longrightarrow> simulates (flat_opt op) (spec_opt sp)"
  using simulates_skip by (cases op; cases sp) (simp_all add: flat_opt_def spec_opt_def)

lemma rel_option_map: "(\<And>x. a = Some x \<Longrightarrow> R (f x) (g x)) \<Longrightarrow> rel_option R (map_option f a) (map_option g a)"
  by (cases a) simp_all

lemma flatternStatement_simulates: "simulates (flatternStatement node) (flat_spec node)"
proof (induction node rule: flatternStatement.induct)
  case (6 cond t f)
  show ?case
  proof (cases f)
    case None
    then show ?thesis using simulates_IF_then [OF 6(1)] by simp
  next
    case (Some u)
    then show ?thesis using simulates_IF_else [OF 6(1) 6(2) [of u]] by simp
  qed
next
  case (2 e)
  then show ?case using simulates_value [of "ReturnValue e"] by (simp add: flat_RETURN_def [abs_def])
next
  case (5 ss vl)
  then show ?case by (auto intro!: simulates_BLOCK simp: list_all2_conv_all_nth)
next
  case (9 lb bl cond cs d)
  show ?case
    unfolding flatternStatement.simps flat_spec.simps
  proof (rule simulates_SWITCH)
    show "list_all2 (\<lambda>(e, op) (f, sp). e = f \<and> simulates (flat_opt op) (spec_opt sp))
       (map (\<lambda>n. (clause_var n, map_option flatternStatement (clause_body n))) cs)
       (map (\<lambda>n. (clause_var n, map_option flat_spec (clause_body n))) cs)"
      using 9(1) [OF nth_mem] by (auto simp: list_all2_conv_all_nth intro!: simulates_opt rel_option_map)
    show "rel_option (\<lambda>op sp. simulates (flat_opt op) (spec_opt sp))
       (map_option (\<lambda>n. map_option flatternStatement (clause_body n)) d)
       (map_option (\<lambda>n. map_option flat_spec (clause_body n)) d)"
      using 9(2) by (auto intro!: simulates_opt rel_option_map)
  qed
qed (auto simp: simulates_values simulates_branch simulates_skip
      intro!: simulates_WHILE simulates_FOR simulates_opt rel_option_map)


lemma flattenFunction_eq: "flattenFunction func = flatten_spec func"
proof -
  define c0 where "c0 = upd_block 0 (\<lambda>k. k\<lparr>fb_varList := varList func, fb_refList := func_refList func\<rparr>)
    (fl_push 0 (snd (new_BlockValue [] False False new_FlattenContext)))"
  have c0: "fl_next c0 = 1" "fl_labelIndex c0 = 0" "fb_values (fl_blocks c0 0) = []"
    by (simp_all add: c0_def flat_defs new_FlattenContext_def)
  have code: "flattenFunction func = bind_r (flatternStatement (fd_body func) c0) (\<lambda>c.
       case read_item (fl_next c) (fl_blocks c) (FBlock 0) of
         Some v \<Rightarrow> Inr (func\<lparr>flattenValue := Some v\<rparr>) | None \<Rightarrow> Inl JSRangeError)"
    by (simp add: flattenFunction_def c0_def new_BlockValue_def new_FlattenContext_def Let_def)
  have "on_top 0 [(0, False)] c0"
    using chain.chain_end [of "fl_blocks c0" 0]
    by (simp add: on_top_def c0_def flat_defs new_FlattenContext_def)
  with flatternStatement_simulates [of "fd_body func"] c0
  have y: "yields 0 c0 (flatternStatement (fd_body func) c0) (flat_spec (fd_body func) [(0, False)] 0 1)"
    unfolding simulates_def by metis
  show ?thesis
  proof (cases "flat_spec (fd_body func) [(0, False)] 0 1")
    case (Inl e)
    with y show ?thesis by (simp add: code flatten_spec_def yields_def)
  next
    case (Inr a)
    obtain vs l n where a: "a = (vs, l, n)" by (cases a)
    with y Inr obtain c items where c: "flatternStatement (fd_body func) c0 = Inr c" "added 0 items c0 c"
      "fl_next c = n" "reads 1 n (fl_blocks c) items vs"
      by (auto simp: yields_def c0)
    have "fl_blocks c 0 = (fl_blocks c0 0)\<lparr>fb_values := items\<rparr>" "1 \<le> n"
      using c(2,3) by (auto simp: added_def c0)
    moreover have "reads 0 n (fl_blocks c) [FBlock 0] [BlockValue 0 (fb_type (fl_blocks c 0)) (fb_label (fl_blocks c 0))
       (fb_isLoop (fl_blocks c 0)) (fb_breakTarget (fl_blocks c 0)) (fb_varList (fl_blocks c 0))
       (fb_refList (fl_blocks c 0)) vs]"
      by (rule reads_block [where lo' = 1 and hi' = n])
        (use c(4) calculation in simp_all)
    from reads_single [OF this] calculation
    have "read_item n (fl_blocks c) (FBlock 0) = Some (BlockValue 0 Primitive_Void [] False False
        (varList func) (func_refList func) vs)"
      by (simp add: c0_def flat_defs new_FlattenContext_def)
    with c(1,3) Inr a show ?thesis by (simp add: code flatten_spec_def)
  qed
qed

text \<open>
  C19. The imperative flattening of a function, with its stack of blocks under construction, is
  the stateless translation: it fails with the same error or produces the same tree of blocks.
  In particular the search for the block of a \<open>break\<close> ends, every block has one place in the
  tree, and reading the tree does not run into a cycle.
\<close>

theorem flattenFunction_refines: "flattenFunction func = flatten_spec func"
  by (rule flattenFunction_eq)

end
