(* ===== verification/FlattenSem.thy ===== *)
theory FlattenSem
  imports FlattenRefine IRContext
begin

text \<open>
  What the flattened code does. Both sides get a meaning as relations between a state and an
  outcome: the statements of the source (\<open>node_sem\<close>) and the blocks with branches
  (\<open>val_sem\<close>), where a block ends at a branch to it and a loop block starts again. The
  meaning of the values is a parameter: \<open>ev\<close> is the effect of evaluating a value, \<open>tst\<close> evaluates
  a condition.

  The translation is correct for sequences, conditionals without an \<open>else\<close> and loops. It is not
  correct for the rest: the \<open>else\<close> statement, \<open>break\<close> under a condition, \<open>continue\<close> and
  \<open>switch\<close>.
\<close>

section \<open>Outcomes\<close>

datatype 's flow = Next 's | Jump block_id 's | Ret "semantics_value option" 's

definition stops :: "'s flow \<Rightarrow> bool" where
  "stops r \<longleftrightarrow> (\<forall>s. r \<noteq> Next s)"

lemma stops_simps [simp]: "\<not> stops (Next s)" "stops (Jump b s)" "stops (Ret e s)"
  by (simp_all add: stops_def)

fun seq_sem :: "('s \<Rightarrow> 's flow \<Rightarrow> bool) list \<Rightarrow> 's \<Rightarrow> 's flow \<Rightarrow> bool" where
  "seq_sem [] s r \<longleftrightarrow> r = Next s"
| "seq_sem (R # Rs) s r \<longleftrightarrow> (\<exists>s'. R s (Next s') \<and> seq_sem Rs s' r) \<or> (R s r \<and> stops r)"

fun leave :: "block_id \<Rightarrow> 's flow \<Rightarrow> 's flow" where
  "leave b (Jump b' s) = (if b' = b then Next s else Jump b' s)"
| "leave b r = r"

definition block_sem :: "block_id \<Rightarrow> ('s \<Rightarrow> 's flow \<Rightarrow> bool) \<Rightarrow> 's \<Rightarrow> 's flow \<Rightarrow> bool" where
  "block_sem b R s r \<longleftrightarrow> (\<exists>r0. R s r0 \<and> r = leave b r0)"

inductive loop_sem :: "block_id \<Rightarrow> ('s \<Rightarrow> 's flow \<Rightarrow> bool) \<Rightarrow> 's \<Rightarrow> 's flow \<Rightarrow> bool" for b R where
  loop_again: "R s (Jump b s1) \<Longrightarrow> loop_sem b R s1 r \<Longrightarrow> loop_sem b R s r"
| loop_end: "R s r \<Longrightarrow> (\<And>s'. r \<noteq> Jump b s') \<Longrightarrow> loop_sem b R s r"

section \<open>Blocks and statements\<close>

fun val_sem ::
  "(semantics_value \<Rightarrow> 's \<Rightarrow> 's) \<Rightarrow> (semantics_value \<Rightarrow> 's \<Rightarrow> bool \<times> 's) \<Rightarrow> semantics_value \<Rightarrow>
   's \<Rightarrow> 's flow \<Rightarrow> bool"
where
  "val_sem ev tst (BlockValue b t lb lp bt vl rl vs) =
     (if lp then loop_sem b (seq_sem (map (val_sem ev tst) vs))
      else block_sem b (seq_sem (map (val_sem ev tst) vs)))"
| "val_sem ev tst (BlockBranchValue b) = (\<lambda>s r. r = Jump b s)"
| "val_sem ev tst (BlockBranchIfValue b cond tb) = (\<lambda>s r.
     r = (case tst cond s of (c, s') \<Rightarrow> if c = tb then Jump b s' else Next s'))"
| "val_sem ev tst (ReturnValue e) = (\<lambda>s r. r = Ret e s)"
| "val_sem ev tst v = (\<lambda>s r. r = Next (ev v s))"

text \<open>Loops of the source with a guard \<open>g\<close>.\<close>

inductive while_sem :: "('s \<Rightarrow> bool \<times> 's) \<Rightarrow> ('s \<Rightarrow> 's flow \<Rightarrow> bool) \<Rightarrow> 's \<Rightarrow> 's flow \<Rightarrow> bool" for g R where
  while_done: "g s = (False, s') \<Longrightarrow> while_sem g R s (Next s')"
| while_step: "g s = (True, s1) \<Longrightarrow> R s1 (Next s2) \<Longrightarrow> while_sem g R s2 r \<Longrightarrow> while_sem g R s r"
| while_stop: "g s = (True, s1) \<Longrightarrow> R s1 r \<Longrightarrow> stops r \<Longrightarrow> while_sem g R s r"

inductive do_sem :: "('s \<Rightarrow> bool \<times> 's) \<Rightarrow> ('s \<Rightarrow> 's flow \<Rightarrow> bool) \<Rightarrow> 's \<Rightarrow> 's flow \<Rightarrow> bool" for g R where
  do_done: "R s (Next s1) \<Longrightarrow> g s1 = (False, s') \<Longrightarrow> do_sem g R s (Next s')"
| do_step: "R s (Next s1) \<Longrightarrow> g s1 = (True, s2) \<Longrightarrow> do_sem g R s2 r \<Longrightarrow> do_sem g R s r"
| do_stop: "R s r \<Longrightarrow> stops r \<Longrightarrow> do_sem g R s r"

abbreviation skip_sem :: "'s \<Rightarrow> 's flow \<Rightarrow> bool" where
  "skip_sem \<equiv> \<lambda>s r. r = Next s"

abbreviation opt_sem :: "('s \<Rightarrow> 's flow \<Rightarrow> bool) option \<Rightarrow> 's \<Rightarrow> 's flow \<Rightarrow> bool" where
  "opt_sem R \<equiv> (case R of Some R \<Rightarrow> R | None \<Rightarrow> skip_sem)"

fun node_sem ::
  "(semantics_value \<Rightarrow> 's \<Rightarrow> 's) \<Rightarrow> (semantics_value \<Rightarrow> 's \<Rightarrow> bool \<times> 's) \<Rightarrow> semantics_node \<Rightarrow>
   's \<Rightarrow> 's flow \<Rightarrow> bool"
where
  "node_sem ev tst (BasicBlockNode vs) = (\<lambda>s r. r = Next (fold ev vs s))"
| "node_sem ev tst (ReturnNode e) = (\<lambda>s r. r = Ret e s)"
| "node_sem ev tst (BlockNode ss vl) = seq_sem (map (node_sem ev tst) ss)"
| "node_sem ev tst (IfNode cond t f) = (\<lambda>s r.
     (case tst cond s of (c, s') \<Rightarrow>
        if c then node_sem ev tst t s' r else opt_sem (map_option (node_sem ev tst) f) s' r))"
| "node_sem ev tst (WhileNode dw lb bl cl cond b) =
     (if dw then do_sem else while_sem) (tst cond) (opt_sem (map_option (node_sem ev tst) b))"
| "node_sem ev tst (ForNode lb bl cl vl ini cond nxt b) =
     seq_sem [opt_sem (map_option (node_sem ev tst) ini),
       while_sem (case cond of Some e \<Rightarrow> tst e | None \<Rightarrow> Pair True)
         (seq_sem [opt_sem (map_option (node_sem ev tst) b),
                   \<lambda>s r. r = Next (case nxt of Some e \<Rightarrow> ev e s | None \<Rightarrow> s)])]"
| "node_sem ev tst _ = skip_sem"

text \<open>A value that is no block, branch or return.\<close>

fun leaf :: "semantics_value \<Rightarrow> bool" where
  "leaf (BlockValue b t lb lp bt vl rl vs) = False"
| "leaf (BlockBranchValue b) = False"
| "leaf (BlockBranchIfValue b cond tb) = False"
| "leaf (ReturnValue e) = False"
| "leaf _ = True"

text \<open>The statements that are translated correctly.\<close>

fun structured :: "semantics_node \<Rightarrow> bool" where
  "structured EmptyNode \<longleftrightarrow> True"
| "structured (BasicBlockNode vs) \<longleftrightarrow> list_all leaf vs"
| "structured (ReturnNode e) \<longleftrightarrow> True"
| "structured (BlockNode ss vl) \<longleftrightarrow> (\<forall>x \<in> set ss. structured x)"
| "structured (IfNode cond t f) \<longleftrightarrow> structured t \<and> f = None"
| "structured (WhileNode dw lb bl cl cond b) \<longleftrightarrow> (\<forall>x \<in> set_option b. structured x)"
| "structured (ForNode lb bl cl vl ini cond nxt b) \<longleftrightarrow>
     (\<forall>x \<in> set_option ini. structured x) \<and> (\<forall>x \<in> set_option b. structured x) \<and>
     (\<forall>e \<in> set_option nxt. leaf e)"
| "structured _ \<longleftrightarrow> False"

section \<open>Lemmas: outcomes\<close>

lemma seq_append:
  "seq_sem (Rs @ Ss) s r \<longleftrightarrow> (\<exists>s'. seq_sem Rs s (Next s') \<and> seq_sem Ss s' r) \<or> (seq_sem Rs s r \<and> stops r)"
proof (induction Rs arbitrary: s)
  case Nil
  then show ?case by auto
next
  case (Cons R Rs)
  have "seq_sem ((R # Rs) @ Ss) s r \<longleftrightarrow> (\<exists>s'. R s (Next s') \<and>
      ((\<exists>t. seq_sem Rs s' (Next t) \<and> seq_sem Ss t r) \<or> (seq_sem Rs s' r \<and> stops r))) \<or> (R s r \<and> stops r)"
    by (simp add: Cons)
  also have "\<dots> \<longleftrightarrow> (\<exists>t. (\<exists>s'. R s (Next s') \<and> seq_sem Rs s' (Next t)) \<and> seq_sem Ss t r) \<or>
      ((\<exists>s'. R s (Next s') \<and> seq_sem Rs s' r) \<or> (R s r \<and> stops r)) \<and> stops r"
    by blast
  also have "\<dots> \<longleftrightarrow> (\<exists>t. seq_sem (R # Rs) s (Next t) \<and> seq_sem Ss t r) \<or> (seq_sem (R # Rs) s r \<and> stops r)"
    by simp
  finally show ?case .
qed

lemma leaf_sem: "leaf v \<Longrightarrow> val_sem ev tst v s r \<longleftrightarrow> r = Next (ev v s)"
  by (cases v) simp_all

lemma leaves_sem:
  "list_all leaf vs \<Longrightarrow> seq_sem (map (val_sem ev tst) vs) s r \<longleftrightarrow> r = Next (fold ev vs s)"
proof (induction vs arbitrary: s)
  case Nil
  then show ?case by simp
next
  case (Cons v vs)
  then have v: "val_sem ev tst v s r \<longleftrightarrow> r = Next (ev v s)" for r by (simp add: leaf_sem)
  from Cons.prems have vs: "seq_sem (map (val_sem ev tst) vs) (ev v s) r \<longleftrightarrow> r = Next (fold ev vs (ev v s))"
    by (simp add: Cons.IH)
  show ?case
    unfolding list.map seq_sem.simps v by (auto simp: vs)
qed

definition no_jump :: "('s \<Rightarrow> 's flow \<Rightarrow> bool) \<Rightarrow> bool" where
  "no_jump R \<longleftrightarrow> (\<forall>s b s'. \<not> R s (Jump b s'))"

lemma no_jump_seq: "(\<And>R. R \<in> set Rs \<Longrightarrow> no_jump R) \<Longrightarrow> no_jump (seq_sem Rs)"
proof (induction Rs)
  case Nil
  then show ?case by (simp add: no_jump_def)
next
  case (Cons R Rs)
  then show ?case by (force simp: no_jump_def)
qed

lemma no_jump_while: assumes "no_jump R" shows "no_jump (while_sem g R)"
proof -
  have "while_sem g R s r \<Longrightarrow> r \<noteq> Jump b s'" for s r b s'
    by (induction rule: while_sem.induct) (use assms in \<open>auto simp: no_jump_def\<close>)
  then show ?thesis by (auto simp: no_jump_def)
qed

lemma no_jump_do: assumes "no_jump R" shows "no_jump (do_sem g R)"
proof -
  have "do_sem g R s r \<Longrightarrow> r \<noteq> Jump b s'" for s r b s'
    by (induction rule: do_sem.induct) (use assms in \<open>auto simp: no_jump_def\<close>)
  then show ?thesis by (auto simp: no_jump_def)
qed

lemma block_same: "(\<And>r0. R s r0 \<Longrightarrow> leave b r0 = r0) \<Longrightarrow> block_sem b R s r \<longleftrightarrow> R s r"
  unfolding block_sem_def by metis

lemma block_no_jump:
  assumes "no_jump R"
  shows "block_sem b R = R"
proof (intro ext)
  fix s r
  have "leave b r0 = r0" if "R s r0" for r0
    using that assms by (cases r0) (auto simp: no_jump_def)
  then show "block_sem b R s r = R s r" by (auto simp: block_sem_def)
qed

text \<open>The two loops: a block around a loop block whose body ends with a branch.\<close>

lemma while_blocks:
  assumes R: "no_jump R" and "w \<noteq> p"
    and B: "\<And>s r. B s r \<longleftrightarrow> (case g s of (c, s') \<Rightarrow>
      if c then (\<exists>s2. R s' (Next s2) \<and> r = Jump p s2) \<or> (R s' r \<and> stops r) else r = Jump w s')"
  shows "block_sem w (loop_sem p B) = while_sem g R"
proof (intro ext iffI)
  fix s r
  assume "block_sem w (loop_sem p B) s r"
  then obtain r0 where "loop_sem p B s r0" and "r = leave w r0" by (auto simp: block_sem_def)
  then show "while_sem g R s r"
  proof (induction rule: loop_sem.induct)
    case (loop_again s s1 r0)
    from loop_again.hyps(1) \<open>w \<noteq> p\<close> R obtain s' where "g s = (True, s')" "R s' (Next s1)"
      by (cases "g s") (auto simp: B no_jump_def split: if_splits)
    with loop_again.IH loop_again.prems show ?case by (blast intro: while_step)
  next
    case (loop_end s r0)
    show ?case
    proof (cases "g s")
      case (Pair c s')
      with loop_end R show ?thesis
        by (cases c; cases r0) (auto simp: B no_jump_def intro: while_sem.intros)
    qed
  qed
next
  fix s r
  assume "while_sem g R s r"
  then have "\<exists>r0. loop_sem p B s r0 \<and> r = leave w r0"
  proof (induction rule: while_sem.induct)
    case (while_done s s')
    then have "B s (Jump w s')" by (simp add: B)
    then have "loop_sem p B s (Jump w s')" using \<open>w \<noteq> p\<close> by (intro loop_end) simp_all
    then show ?case by force
  next
    case (while_step s s1 s2 r)
    then have "B s (Jump p s2)" by (auto simp: B)
    with while_step.IH show ?case by (blast intro: loop_again)
  next
    case (while_stop s s1 r)
    then have "B s r" by (auto simp: B)
    moreover have "r \<noteq> Jump b s'" for b s' using R while_stop by (auto simp: no_jump_def)
    ultimately show ?case by (intro exI [of _ r]) (cases r, auto intro: loop_end)
  qed
  then show "block_sem w (loop_sem p B) s r" by (simp add: block_sem_def)
qed

lemma do_blocks:
  assumes R: "no_jump R" and "w \<noteq> p"
    and B: "\<And>s r. B s r \<longleftrightarrow> (\<exists>s1. R s (Next s1) \<and>
      r = Jump (if fst (g s1) then p else w) (snd (g s1))) \<or> (R s r \<and> stops r)"
  shows "block_sem w (loop_sem p B) = do_sem g R"
proof (intro ext iffI)
  fix s r
  assume "block_sem w (loop_sem p B) s r"
  then obtain r0 where "loop_sem p B s r0" and "r = leave w r0" by (auto simp: block_sem_def)
  then show "do_sem g R s r"
  proof (induction rule: loop_sem.induct)
    case (loop_again s s1 r0)
    from loop_again.hyps(1) \<open>w \<noteq> p\<close> R obtain s' where "R s (Next s')" "g s' = (True, s1)"
      by (auto simp: B no_jump_def prod_eq_iff split: if_splits)
    with loop_again.IH loop_again.prems show ?case by (blast intro: do_step)
  next
    case (loop_end s r0)
    from loop_end.hyps(1) consider s1 s' where "R s (Next s1)" "g s1 = (True, s')" "r0 = Jump p s'"
      | s1 s' where "R s (Next s1)" "g s1 = (False, s')" "r0 = Jump w s'"
      | "R s r0" "stops r0"
      by (auto simp: B prod_eq_iff split: if_splits)
    then show ?case
    proof cases
      case 1
      then show ?thesis using loop_end.hyps(2) by blast
    next
      case 2
      then show ?thesis using loop_end.prems by (auto intro: do_done)
    next
      case 3
      then show ?thesis using loop_end.prems R by (cases r0) (auto simp: no_jump_def intro: do_stop)
    qed
  qed
next
  fix s r
  assume "do_sem g R s r"
  then have "\<exists>r0. loop_sem p B s r0 \<and> r = leave w r0"
  proof (induction rule: do_sem.induct)
    case (do_done s s1 s')
    then have "B s (Jump w s')" by (force simp: B)
    then have "loop_sem p B s (Jump w s')" using \<open>w \<noteq> p\<close> by (intro loop_end) simp_all
    then show ?case by force
  next
    case (do_step s s1 s2 r)
    then have "B s (Jump p s2)" by (force simp: B)
    with do_step.IH show ?case by (blast intro: loop_again)
  next
    case (do_stop s r)
    then have "B s r" by (auto simp: B)
    moreover have "r \<noteq> Jump b s'" for b s' using R do_stop by (auto simp: no_jump_def)
    ultimately show ?case by (intro exI [of _ r]) (cases r, auto intro: loop_end)
  qed
  then show "block_sem w (loop_sem p B) s r" by (simp add: block_sem_def)
qed

section \<open>Correct statements\<close>

lemma no_jump_node: "structured node \<Longrightarrow> no_jump (node_sem ev tst node)"
proof (induction node rule: structured.induct)
  case (4 ss vl)
  then show ?case by (auto intro!: no_jump_seq)
next
  case (6 dw lb bl cl cond b)
  then show ?case
    by (cases b) (auto intro!: no_jump_while no_jump_do simp: no_jump_def [of skip_sem])
next
  case (7 lb bl cl vl ini cond nxt b)
  have skip: "no_jump skip_sem" "no_jump (\<lambda>s r. r = Next (f s))" for f by (simp_all add: no_jump_def)
  have "no_jump (opt_sem (map_option (node_sem ev tst) ini))" "no_jump (opt_sem (map_option (node_sem ev tst) b))"
    using 7 skip(1) by (auto split: option.splits)
  then show ?case
    unfolding node_sem.simps
    by (auto simp del: seq_sem.simps intro!: no_jump_seq no_jump_while skip)
qed (auto simp: no_jump_def split: prod.splits)

lemma seq_single [simp]: "seq_sem [R] = R"
proof (intro ext)
  fix s r
  show "seq_sem [R] s r = R s r" by (cases r) auto
qed

lemma plain_block_sem:
  "val_sem ev tst (plain_block b lb lp bt vs) =
     (if lp then loop_sem b (seq_sem (map (val_sem ev tst) vs))
      else block_sem b (seq_sem (map (val_sem ev tst) vs)))"
  by (simp add: plain_block_def)

lemma seq_group: "seq_sem (Rs @ Ss) = seq_sem [seq_sem Rs, seq_sem Ss]"
  by (intro ext) (simp add: seq_append)

lemma block_seq:
  assumes "no_jump I"
  shows "block_sem b (seq_sem [I, L]) = seq_sem [I, block_sem b L]"
proof (intro ext)
  fix s r
  have I: "leave b r0 = r0" if "I s r0" for r0
    using that assms by (cases r0) (auto simp: no_jump_def)
  have "block_sem b (seq_sem [I, L]) s r \<longleftrightarrow>
      (\<exists>s'. I s (Next s') \<and> (\<exists>r0. L s' r0 \<and> r = leave b r0)) \<or> (\<exists>r0. I s r0 \<and> stops r0 \<and> r = leave b r0)"
    by (simp add: block_sem_def) blast
  also have "\<dots> \<longleftrightarrow> seq_sem [I, block_sem b L] s r"
    using I by (auto simp: block_sem_def)
  finally show "block_sem b (seq_sem [I, L]) s r = seq_sem [I, block_sem b L] s r" .
qed

definition means ::
  "(semantics_value \<Rightarrow> 's \<Rightarrow> 's) \<Rightarrow> (semantics_value \<Rightarrow> 's \<Rightarrow> bool \<times> 's) \<Rightarrow> flat_fun \<Rightarrow>
   ('s \<Rightarrow> 's flow \<Rightarrow> bool) \<Rightarrow> bool"
where
  "means ev tst sp R \<longleftrightarrow> (\<forall>ch l n. \<exists>vs l' n'. sp ch l n = Inr (vs, l', n') \<and>
     seq_sem (map (val_sem ev tst) vs) = R)"

lemma meansE:
  assumes "means ev tst sp R"
  obtains vs l' n' where "sp ch l n = Inr (vs, l', n')" and "seq_sem (map (val_sem ev tst) vs) = R"
  using assms unfolding means_def by metis

lemma seq_Nil: "seq_sem [] = skip_sem"
  by (intro ext) simp

lemma means_opt:
  assumes "\<And>x. b = Some x \<Longrightarrow> means ev tst (f x) (R x)"
  shows "means ev tst (spec_opt (map_option f b)) (opt_sem (map_option R b))"
  using assms by (cases b) (auto simp: spec_opt_def means_def seq_Nil)

lemma means_seq:
  "(\<And>x. x \<in> set xs \<Longrightarrow> means ev tst (f x) (R x)) \<Longrightarrow> means ev tst (spec_seq (map f xs)) (seq_sem (map R xs))"
proof (induction xs)
  case Nil
  then show ?case by (auto simp: means_def seq_Nil)
next
  case (Cons x xs)
  show ?case
    unfolding means_def
  proof (intro allI)
    fix ch l n
    from Cons.prems obtain vs l1 n1 where 1: "f x ch l n = Inr (vs, l1, n1)"
      "seq_sem (map (val_sem ev tst) vs) = R x"
      by (meson list.set_intros(1) meansE)
    from Cons obtain ws l2 n2 where 2: "spec_seq (map f xs) ch l1 n1 = Inr (ws, l2, n2)"
      "seq_sem (map (val_sem ev tst) ws) = seq_sem (map R xs)"
      by (meson list.set_intros(2) meansE)
    from 1 2 show "\<exists>vs l' n'. spec_seq (map f (x # xs)) ch l n = Inr (vs, l', n') \<and>
      seq_sem (map (val_sem ev tst) vs) = seq_sem (map R (x # xs))"
      by (auto simp: seq_append intro!: ext)
  qed
qed

lemma means_BLOCK:
  assumes "means ev tst (spec_seq sps) R" and "no_jump R"
  shows "means ev tst (spec_BLOCK vl sps) R"
  unfolding means_def
proof (intro allI)
  fix ch l n
  show "\<exists>vs l' n'. spec_BLOCK vl sps ch l n = Inr (vs, l', n') \<and> seq_sem (map (val_sem ev tst) vs) = R"
  proof (cases vl)
    case None
    then show ?thesis using assms(1) by (simp add: spec_BLOCK_def means_def)
  next
    case (Some x)
    obtain vs l' n' where "spec_seq sps ((n, False) # ch) (l + 1) (n + 1) = Inr (vs, l', n')"
      "seq_sem (map (val_sem ev tst) vs) = R"
      using assms(1) by (rule meansE)
    then show ?thesis using block_no_jump [OF assms(2)] by (auto simp: Some spec_BLOCK_def)
  qed
qed

lemma means_IF:
  assumes "means ev tst sp R" and R: "no_jump R"
  shows "means ev tst (spec_IF cond sp None) (\<lambda>s r. case tst cond s of (c, s') \<Rightarrow> if c then R s' r else r = Next s')"
  unfolding means_def
proof (intro allI)
  fix ch l n
  obtain ts l' n' where ts: "sp [(n + 1, False)] (l + 2) (n + 2) = Inr (ts, l', n')"
    "seq_sem (map (val_sem ev tst) ts) = R"
    using assms(1) by (rule meansE)
  let ?B = "\<lambda>s r. case tst cond s of (c, s') \<Rightarrow> if c then R s' r else r = Jump n s'"
  have "seq_sem (map (val_sem ev tst) (BlockBranchIfValue n cond False # ts)) = ?B"
    by (auto simp: ts(2) intro!: ext split: prod.splits)
  moreover have "block_sem n (block_sem (n + 1) ?B)
      = (\<lambda>s r. case tst cond s of (c, s') \<Rightarrow> if c then R s' r else r = Next s')"
  proof (intro ext)
    fix s r
    have "leave n (leave (n + 1) r0) = r0" if "R s' r0" for s' r0
      using that R by (cases r0) (auto simp: no_jump_def)
    then show "block_sem n (block_sem (n + 1) ?B) s r
      = (case tst cond s of (c, s') \<Rightarrow> if c then R s' r else r = Next s')"
      by (cases "tst cond s") (auto simp: block_sem_def)
  qed
  ultimately show "\<exists>vs l' n'. spec_IF cond sp None ch l n = Inr (vs, l', n') \<and> seq_sem (map (val_sem ev tst) vs)
    = (\<lambda>s r. case tst cond s of (c, s') \<Rightarrow> if c then R s' r else r = Next s')"
    using ts(1) by (simp add: spec_IF_def plain_block_sem)
qed

lemma means_WHILE:
  assumes "means ev tst (spec_opt sb) R" and R: "no_jump R"
  shows "means ev tst (spec_WHILE dw cond sb) ((if dw then do_sem else while_sem) (tst cond) R)"
  unfolding means_def
proof (intro allI)
  fix ch l n
  obtain bs l' n' where bs: "spec_opt sb ((n + 1, True) # (n, False) # ch) (l + 1) (n + 2) = Inr (bs, l', n')"
    "seq_sem (map (val_sem ev tst) bs) = R"
    using assms(1) by (rule meansE)
  let ?B = "seq_sem (map (val_sem ev tst) (if dw then bs @ [BlockBranchIfValue (n + 1) cond True, BlockBranchValue n]
     else BlockBranchIfValue n cond False # bs @ [BlockBranchValue (n + 1)]))"
  have "block_sem n (loop_sem (n + 1) ?B) = (if dw then do_sem else while_sem) (tst cond) R"
  proof (cases dw)
    case True
    have "block_sem n (loop_sem (n + 1) ?B) = do_sem (tst cond) R"
    proof (rule do_blocks [OF R])
      have "seq_sem (map (val_sem ev tst) [BlockBranchIfValue (n + 1) cond True, BlockBranchValue n]) s r \<longleftrightarrow>
          r = Jump (if fst (tst cond s) then n + 1 else n) (snd (tst cond s))" for s r
        by (cases "tst cond s"; cases "fst (tst cond s)") auto
      then show "?B s r \<longleftrightarrow> (\<exists>s1. R s (Next s1) \<and>
        r = Jump (if fst (tst cond s1) then n + 1 else n) (snd (tst cond s1))) \<or> (R s r \<and> stops r)" for s r
        unfolding if_P [OF True] map_append seq_append bs(2) by (simp only:)
    qed simp
    then show ?thesis using True by simp
  next
    case False
    have "block_sem n (loop_sem (n + 1) ?B) = while_sem (tst cond) R"
    proof (rule while_blocks [OF R])
      show "?B s r \<longleftrightarrow> (case tst cond s of (c, s') \<Rightarrow>
        if c then (\<exists>s2. R s' (Next s2) \<and> r = Jump (n + 1) s2) \<or> (R s' r \<and> stops r) else r = Jump n s')" for s r
        using False by (auto simp: seq_append bs(2) split: prod.splits if_splits)
    qed simp
    then show ?thesis using False by simp
  qed
  then show "\<exists>vs l' n'. spec_WHILE dw cond sb ch l n = Inr (vs, l', n') \<and>
    seq_sem (map (val_sem ev tst) vs) = (if dw then do_sem else while_sem) (tst cond) R"
    using bs(1) by (cases dw) (simp_all add: spec_WHILE_def plain_block_sem)
qed


lemma means_for_body:
  assumes "\<And>x. b = Some x \<Longrightarrow> means ev tst (f x) (R x) \<and> no_jump (R x)"
  shows "means ev tst (spec_for_body (map_option f b)) (opt_sem (map_option R b))"
  unfolding means_def
proof (intro allI)
  fix ch l n
  show "\<exists>vs l' n'. spec_for_body (map_option f b) ch l n = Inr (vs, l', n') \<and>
    seq_sem (map (val_sem ev tst) vs) = opt_sem (map_option R b)"
  proof (cases b)
    case None
    then show ?thesis by (simp add: spec_for_body_def seq_Nil)
  next
    case (Some x)
    with assms have "means ev tst (f x) (R x)" "no_jump (R x)" by auto
    from meansE [OF this(1)] obtain vs l' n' where "f x ((n, False) # ch) (l + 1) (n + 1) = Inr (vs, l', n')"
      "seq_sem (map (val_sem ev tst) vs) = R x" by metis
    then show ?thesis
      using block_no_jump [OF \<open>no_jump (R x)\<close>] by (simp add: Some spec_for_body_def plain_block_sem)
  qed
qed

lemma means_FOR:
  assumes ini: "means ev tst (spec_opt si) I" "no_jump I"
    and body: "means ev tst (spec_for_body sb) R" "no_jump R"
    and nxt: "\<And>e. nxt = Some e \<Longrightarrow> leaf e"
  shows "means ev tst (spec_FOR vl si cond nxt sb)
    (seq_sem [I, while_sem (case cond of Some e \<Rightarrow> tst e | None \<Rightarrow> Pair True)
         (seq_sem [R, \<lambda>s r. r = Next (case nxt of Some e \<Rightarrow> ev e s | None \<Rightarrow> s)])])"
  unfolding means_def
proof (intro allI)
  fix ch l n
  obtain iv l1 n1 where i: "spec_opt si ((n, False) # ch) (l + 2) (n + 2) = Inr (iv, l1, n1)"
    "seq_sem (map (val_sem ev tst) iv) = I"
    using ini(1) by (rule meansE)
  obtain bs l2 n2 where b: "spec_for_body sb ((n + 1, True) # (n, False) # ch) l1 n1 = Inr (bs, l2, n2)"
    "seq_sem (map (val_sem ev tst) bs) = R"
    using body(1) by (rule meansE)
  let ?g = "case cond of Some e \<Rightarrow> tst e | None \<Rightarrow> Pair True"
  let ?S = "\<lambda>s r. r = Next (case nxt of Some e \<Rightarrow> ev e s | None \<Rightarrow> s)"
  define T where "T = seq_sem [R, ?S]"
  let ?xs = "case cond of Some e \<Rightarrow> [BlockBranchIfValue n e False] | None \<Rightarrow> []"
  let ?B = "seq_sem (map (val_sem ev tst) (?xs @ bs @ opt_elem nxt @ [BlockBranchValue (n + 1)]))"
  have nj: "no_jump T" "no_jump (while_sem ?g T)"
    unfolding T_def
    using body(2) by (auto simp del: seq_sem.simps intro!: no_jump_while no_jump_seq) (simp_all add: no_jump_def)
  have "seq_sem (map (val_sem ev tst) (opt_elem nxt)) = ?S"
    using nxt by (auto simp: leaf_sem fun_eq_iff split: option.split)
  then have tail: "seq_sem (map (val_sem ev tst) (bs @ opt_elem nxt @ [BlockBranchValue (n + 1)]))
      = seq_sem [T, \<lambda>s r. r = Jump (n + 1) s]"
    unfolding append_assoc [symmetric] map_append seq_group [of _ "map _ [_]"] seq_group [of _ "map _ (opt_elem nxt)"]
    by (simp add: b(2) fun_eq_iff T_def)
  have B: "?B s r \<longleftrightarrow> (case ?g s of (c, s') \<Rightarrow>
      if c then (\<exists>s2. T s' (Next s2) \<and> r = Jump (n + 1) s2) \<or> (T s' r \<and> stops r) else r = Jump n s')" for s r
    unfolding map_append [of _ ?xs] seq_group [of "map _ ?xs"] tail
    by (cases cond) (auto simp: case_prod_beta split: if_splits)
  have "block_sem n (seq_sem [I, loop_sem (n + 1) ?B]) = seq_sem [I, while_sem ?g T]"
    unfolding block_seq [OF ini(2)] by (subst while_blocks [OF nj(1) _ B]) simp_all
  then have "block_sem n (seq_sem [I, loop_sem (n + 1) ?B]) = seq_sem [I, while_sem ?g (seq_sem [R, ?S])]"
    by (simp only: T_def)
  then show "\<exists>vs l' n'. spec_FOR vl si cond nxt sb ch l n = Inr (vs, l', n') \<and>
    seq_sem (map (val_sem ev tst) vs) = seq_sem [I, while_sem ?g (seq_sem [R, ?S])]"
    using i b seq_group [of "map (val_sem ev tst) iv"]
    by (simp add: spec_FOR_def plain_block_sem del: seq_sem.simps)
qed

lemma flat_meaning: "structured node \<Longrightarrow> means ev tst (flat_spec node) (node_sem ev tst node)"
proof (induction node rule: structured.induct)
  case 1
  show ?case by (simp add: means_def seq_Nil)
next
  case (2 vs)
  then show ?case by (auto simp: means_def leaves_sem fun_eq_iff)
next
  case (3 e)
  show ?case by (simp add: means_def)
next
  case (4 ss vl)
  then have "means ev tst (spec_seq (map flat_spec ss)) (seq_sem (map (node_sem ev tst) ss))"
    by (intro means_seq) simp
  moreover have "no_jump (seq_sem (map (node_sem ev tst) ss))"
    using no_jump_node [OF 4(2)] by simp
  ultimately show ?case by (simp add: means_BLOCK)
next
  case (5 cond t f)
  then have "means ev tst (flat_spec t) (node_sem ev tst t)" "structured t" and f: "f = None" by simp_all
  then show ?case
    using means_IF [of ev tst "flat_spec t" "node_sem ev tst t" cond] no_jump_node [of t ev tst]
    by (simp add: f cong: if_cong del: if_split)
next
  case (6 dw lb bl cl cond b)
  then have "means ev tst (spec_opt (map_option flat_spec b)) (opt_sem (map_option (node_sem ev tst) b))"
    by (intro means_opt) simp
  moreover have "no_jump (opt_sem (map_option (node_sem ev tst) b))"
    using 6(2) no_jump_node by (auto simp: no_jump_def [of skip_sem] split: option.splits)
  ultimately show ?case by (simp add: means_WHILE)
next
  case (7 lb bl cl vl ini cond nxt b)
  then have "means ev tst (spec_opt (map_option flat_spec ini)) (opt_sem (map_option (node_sem ev tst) ini))"
    by (intro means_opt) simp
  moreover have "means ev tst (spec_for_body (map_option flat_spec b)) (opt_sem (map_option (node_sem ev tst) b))"
    using 7 by (intro means_for_body) (simp add: no_jump_node)
  moreover have "no_jump (opt_sem (map_option (node_sem ev tst) x))" if "x = ini \<or> x = b" for x
    using 7(3) that no_jump_node by (auto simp: no_jump_def [of skip_sem] split: option.splits)
  moreover have "leaf e" if "nxt = Some e" for e using 7(3) that by simp
  ultimately show ?case
    unfolding flat_spec.simps node_sem.simps by (intro means_FOR) simp_all
qed simp_all

section \<open>Whole functions\<close>

lemma flattenFunction_means:
  assumes "means ev tst (flat_spec (fd_body func)) R" and "no_jump R"
  shows "\<exists>v. flattenFunction func = Inr (func\<lparr>flattenValue := Some v\<rparr>) \<and> val_sem ev tst v = R"
proof -
  obtain vs l n where "flat_spec (fd_body func) [(0, False)] 0 1 = Inr (vs, l, n)"
    "seq_sem (map (val_sem ev tst) vs) = R"
    using assms(1) by (rule meansE)
  then show ?thesis
    using block_no_jump [OF assms(2)]
    by (intro exI [of _ "BlockValue 0 Primitive_Void [] False False (varList func) (func_refList func) vs"])
      (simp add: flattenFunction_eq flatten_spec_def)
qed

text \<open>
  C20. Flattening preserves the meaning of a function whose body consists of value statements,
  returns, blocks, conditionals without \<open>else\<close> and the three kinds of loops, nested in any way:
  from every state the blocks and branches reach exactly the outcomes of the statements, for
  every interpretation of the values.
\<close>

theorem flattenFunction_correct:
  assumes "structured (fd_body func)"
  shows "\<exists>v. flattenFunction func = Inr (func\<lparr>flattenValue := Some v\<rparr>) \<and>
    (\<forall>s r. val_sem ev tst v s r \<longleftrightarrow> node_sem ev tst (fd_body func) s r)"
  using flattenFunction_means [OF flat_meaning [OF assms] no_jump_node [OF assms]] by metis

text \<open>A function with a loop that counts to 3 and returns.\<close>

theorem flattenFunction_correct_witness:
  "\<exists>v. flattenFunction (sample_function\<lparr>fd_body :=
        BlockNode [WhileNode False [] [] None NopValue (Some (BasicBlockNode [NopValue])), ReturnNode None] (Some [])\<rparr>)
      = Inr (sample_function\<lparr>fd_body :=
        BlockNode [WhileNode False [] [] None NopValue (Some (BasicBlockNode [NopValue])), ReturnNode None] (Some []),
        flattenValue := Some v\<rparr>) \<and>
    val_sem (\<lambda>_ s. s + 1) (\<lambda>_ s. (s < 3, s)) v (0 :: nat) (Ret None 3)"
proof -
  let ?W = "WhileNode False [] [] None NopValue (Some (BasicBlockNode [NopValue]))"
  let ?ev = "\<lambda>_ :: semantics_value. \<lambda>s :: nat. s + 1" and ?tst = "\<lambda>_ :: semantics_value. \<lambda>s :: nat. (s < 3, s)"
  let ?f = "sample_function\<lparr>fd_body := BlockNode [?W, ReturnNode None] (Some [])\<rparr>"
  have "while_sem (?tst NopValue) (node_sem ?ev ?tst (BasicBlockNode [NopValue])) k (Next 3)" if "k + j = 3" for j k
    using that
  proof (induction j arbitrary: k)
    case 0
    then show ?case by (intro while_done) simp
  next
    case (Suc j)
    then show ?case by - (rule while_step [where ?s1.0 = k and ?s2.0 = "k + 1"], simp_all)
  qed
  from this [of 0 3] have loop: "node_sem ?ev ?tst ?W 0 (Next 3)" by (simp del: node_sem.simps(1))
  have "node_sem ?ev ?tst (fd_body ?f) 0 (Ret None 3)"
    using loop by (simp del: node_sem.simps(5))
  moreover have "structured (fd_body ?f)" by simp
  then obtain v where "flattenFunction ?f = Inr (?f\<lparr>flattenValue := Some v\<rparr>)"
    and "\<forall>s r. val_sem ?ev ?tst v s r \<longleftrightarrow> node_sem ?ev ?tst (fd_body ?f) s r"
    using flattenFunction_correct [of ?f ?ev ?tst] by blast
  ultimately show ?thesis by blast
qed

section \<open>Statements that are not translated correctly\<close>

lemma means_IF_else:
  assumes "means ev tst sp R" and R: "no_jump R" and "means ev tst sf F"
  shows "means ev tst (spec_IF cond sp (Some sf))
    (\<lambda>s r. case tst cond s of (c, s') \<Rightarrow> if c then R s' r else r = Next s')"
  unfolding means_def
proof (intro allI)
  fix ch l n
  obtain ts l1 n1 where ts: "sp [(n + 1, False)] (l + 3) (n + 3) = Inr (ts, l1, n1)"
    "seq_sem (map (val_sem ev tst) ts) = R"
    using assms(1) by (rule meansE)
  obtain fs l2 n2 where fs: "sf [(n + 2, False)] l1 n1 = Inr (fs, l2, n2)"
    "seq_sem (map (val_sem ev tst) fs) = F"
    using assms(3) by (rule meansE)
  define T where "T = (\<lambda>s r. case tst cond s of (c, s') \<Rightarrow>
    if c then (\<exists>s2. R s' (Next s2) \<and> r = Jump n s2) \<or> (R s' r \<and> stops r) else r = Jump (n + 2) s')"
  have "seq_sem (map (val_sem ev tst) (ts @ [BlockBranchValue n])) s r \<longleftrightarrow>
      (\<exists>s2. R s (Next s2) \<and> r = Jump n s2) \<or> (R s r \<and> stops r)" for s r
    by (simp add: seq_append ts(2))
  then have "seq_sem (map (val_sem ev tst) (BlockBranchIfValue (n + 2) cond False # ts @ [BlockBranchValue n])) s r
      \<longleftrightarrow> T s r" for s r
    unfolding list.map seq_sem.simps T_def by (cases "tst cond s"; cases "fst (tst cond s)") auto
  moreover have T: "block_sem (n + 1) T s r \<longleftrightarrow> T s r" for s r
  proof (rule block_same)
    show "leave (n + 1) r0 = r0" if "T s r0" for r0
      using that R by (cases r0) (auto simp: T_def no_jump_def split: prod.splits if_splits)
  qed
  ultimately have V: "val_sem ev tst (plain_block (n + 1) lb False bt
      (BlockBranchIfValue (n + 2) cond False # ts @ [BlockBranchValue n])) = T" for lb bt
    unfolding plain_block_sem by (simp add: block_sem_def fun_eq_iff del: seq_sem.simps list.map)
  have "stops r" if "T s r" for s r using that by (auto simp: T_def split: prod.splits if_splits)
  then have S: "seq_sem (T # map (val_sem ev tst) fs) s r \<longleftrightarrow> T s r" for s r
    by fastforce
  have res: "(\<exists>r0. T s r0 \<and> r = leave n (leave (n + 2) r0))
      \<longleftrightarrow> (case tst cond s of (c, s') \<Rightarrow> if c then R s' r else r = Next s')" for s r
  proof -
    have "leave n (leave (n + 2) r0) = r0" if "R s' r0" for s' r0
      using that R by (cases r0) (auto simp: no_jump_def)
    moreover have "leave n (leave (n + 2) (Jump n s2)) = Next s2" for s2 :: 'a by simp
    ultimately have "(\<exists>r0. ((\<exists>s2. R s' (Next s2) \<and> r0 = Jump n s2) \<or> (R s' r0 \<and> stops r0)) \<and> r = leave n (leave (n + 2) r0))
        \<longleftrightarrow> R s' r" for s'
      by (cases r) (metis stops_simps)+
    then show ?thesis
      unfolding T_def by (cases "tst cond s"; cases "fst (tst cond s)") simp_all
  qed
  have "block_sem n (block_sem (n + 2) (seq_sem (T # map (val_sem ev tst) fs))) s r
      \<longleftrightarrow> (case tst cond s of (c, s') \<Rightarrow> if c then R s' r else r = Next s')" for s r
    unfolding block_sem_def S res [symmetric] by blast
  then have "val_sem ev tst (plain_block n l0 False b0 [plain_block (n + 2) l1 False b1
      (plain_block (n + 1) l2 False b2 (BlockBranchIfValue (n + 2) cond False # ts @ [BlockBranchValue n]) # fs)])
    = (\<lambda>s r. case tst cond s of (c, s') \<Rightarrow> if c then R s' r else r = Next s')" for l0 l1 l2 b0 b1 b2
    unfolding plain_block_sem [of _ _ n] plain_block_sem [of _ _ "n + 2"] list.map V if_False seq_single
    by (intro ext)
  then show "\<exists>vs l' n'. spec_IF cond sp (Some sf) ch l n = Inr (vs, l', n') \<and> seq_sem (map (val_sem ev tst) vs)
    = (\<lambda>s r. case tst cond s of (c, s') \<Rightarrow> if c then R s' r else r = Next s')"
    using ts(1) fs(1) by (simp add: spec_IF_def del: if_split)
qed



lemma means_IF_branch:
  "means ev tst (spec_IF cond (spec_branch must) None) (\<lambda>s r. r = Next (snd (tst cond s)))"
  unfolding means_def
proof (intro allI)
  fix ch l n
  have "block_sem n (block_sem (n + 1) (seq_sem (map (val_sem ev tst) [BlockBranchIfValue n cond False, BlockBranchValue (n + 1)]))) s r
      \<longleftrightarrow> r = Next (snd (tst cond s))" for s r
    by (cases "tst cond s"; cases "fst (tst cond s)") (auto simp: block_sem_def)
  then show "\<exists>vs l' n'. spec_IF cond (spec_branch must) None ch l n = Inr (vs, l', n') \<and>
    seq_sem (map (val_sem ev tst) vs) = (\<lambda>s r. r = Next (snd (tst cond s)))"
    by (simp add: spec_IF_def spec_branch_def plain_block_sem fun_eq_iff)
qed

text \<open>
  A \<open>break\<close> or \<open>continue\<close> that is the statement of an \<open>if\<close> has no effect: the search for its
  target stops at the block of the \<open>if\<close>. The loop \<open>while (cond) if (c) break;\<close> only ends when
  its own condition fails.
\<close>

theorem flattened_break_in_if:
  assumes "fd_body func = WhileNode dw lb bl cl cond (Some (IfNode c stmt None))"
    and "stmt = BreakNode lb' \<or> stmt = ContinueNode lb'"
  shows "\<exists>v. flattenFunction func = Inr (func\<lparr>flattenValue := Some v\<rparr>) \<and>
    (\<forall>s r. val_sem ev tst v s r \<longleftrightarrow>
       (if dw then do_sem else while_sem) (tst cond) (\<lambda>s r. r = Next (snd (tst c s))) s r)"
proof -
  let ?R = "\<lambda>s r. r = Next (snd (tst c s))"
  have R: "no_jump ?R" by (simp add: no_jump_def)
  then have nj: "no_jump ((if dw then do_sem else while_sem) (tst cond) ?R)"
    by (simp add: no_jump_while no_jump_do)
  moreover have "means ev tst (spec_opt (map_option flat_spec (Some (IfNode c stmt None)))) ?R"
    using assms(2) means_IF_branch [of ev tst c] by (auto simp: spec_opt_def)
  ultimately have "means ev tst (flat_spec (fd_body func)) ((if dw then do_sem else while_sem) (tst cond) ?R)"
    unfolding assms(1) flat_spec.simps by (intro means_WHILE R)
  from flattenFunction_means [OF this nj] show ?thesis by metis
qed

text \<open>A \<open>continue\<close> at the end of the body of a \<open>while\<close> leaves the loop.\<close>

theorem flattened_continue_leaves_while:
  assumes "fd_body func = WhileNode False lb bl cl cond (Some (ContinueNode lb'))"
  shows "\<exists>v. flattenFunction func = Inr (func\<lparr>flattenValue := Some v\<rparr>) \<and>
    (\<forall>s r. val_sem ev tst v s r \<longleftrightarrow> r = Next (snd (tst cond s)))"
proof (intro exI conjI allI)
  define B where
    "B = seq_sem (map (val_sem ev tst) [BlockBranchIfValue 1 cond False, BlockBranchValue 1, BlockBranchValue 2])"
  let ?v = "BlockValue 0 Primitive_Void [] False False (varList func) (func_refList func)
     [plain_block 1 (js_lit ''while'') False True [plain_block 2 (num_label (''while'' @ ''_loop'') 1) True False
       [BlockBranchIfValue 1 cond False, BlockBranchValue 1, BlockBranchValue 2]]]"
  show "flattenFunction func = Inr (func\<lparr>flattenValue := Some ?v\<rparr>)"
    by (simp add: flattenFunction_eq flatten_spec_def assms spec_WHILE_def spec_opt_def spec_branch_def numeral_2_eq_2)
  fix s r
  have B: "B s r \<longleftrightarrow> r = Jump 1 (snd (tst cond s))" for s r
    by (cases "tst cond s"; cases "fst (tst cond s)") (auto simp: B_def)
  have "loop_sem 2 B s r \<longleftrightarrow> r = Jump 1 (snd (tst cond s))" for s r
    by (subst loop_sem.simps) (auto simp: B)
  then have "block_sem 0 (block_sem 1 (loop_sem 2 B)) s r \<longleftrightarrow> r = Next (snd (tst cond s))"
    by (simp add: block_sem_def)
  moreover have "val_sem ev tst ?v = block_sem 0 (block_sem 1 (loop_sem 2 B))"
    unfolding B_def by (simp add: plain_block_sem del: seq_sem.simps)
  ultimately show "val_sem ev tst ?v s r \<longleftrightarrow> r = Next (snd (tst cond s))" by (simp only:)
qed

text \<open>
  A \<open>switch\<close> executes the body of its default clause first and then tests the expressions of
  its clauses as conditions; the value of the \<open>switch\<close> is not used.
\<close>

theorem flattened_switch_ignores_condition:
  assumes "fd_body func = SwitchNode lb bl e [CaseClauseNode x (Some b)] (Some (DefaultClauseNode (Some (BasicBlockNode ds))))"
    and "structured b" and "list_all leaf ds"
  shows "\<exists>v. flattenFunction func = Inr (func\<lparr>flattenValue := Some v\<rparr>) \<and>
    (\<forall>s r. val_sem ev tst v s r \<longleftrightarrow> node_sem ev tst (BlockNode [BasicBlockNode ds, IfNode x b None] None) s r)"
proof -
  define D where "D = node_sem ev tst (BasicBlockNode ds)"
  define N where "N = node_sem ev tst b"
  define I where "I = node_sem ev tst (IfNode x b None)"
  have I: "I s r \<longleftrightarrow> (case tst x s of (c, s') \<Rightarrow> if c then N s' r else r = Next s')" for s r
    by (simp add: I_def N_def split: prod.split)
  have all: "node_sem ev tst (BlockNode [BasicBlockNode ds, IfNode x b None] None) = seq_sem [D, I]"
    by (simp add: D_def I_def del: seq_sem.simps)
  have "no_jump (node_sem ev tst (BlockNode [BasicBlockNode ds, IfNode x b None] None))"
    using assms(2,3) by (intro no_jump_node) simp
  then have nj: "no_jump (seq_sem [D, I])" "no_jump D" "no_jump N"
    unfolding all D_def N_def using assms(2) by (simp_all only: no_jump_node) (simp add: no_jump_def)
  have "no_jump I"
    unfolding I_def by (rule no_jump_node) (simp add: assms(2))
  have "means ev tst (flat_spec (fd_body func)) (seq_sem [D, I])"
    unfolding means_def
  proof (intro allI)
    fix ch l n
    obtain bs l2 n2 where bs: "flat_spec b ((n + 2, False) # (n + 1, False) # (n, False) # ch) (l + 3) (n + 3) = Inr (bs, l2, n2)"
      "seq_sem (map (val_sem ev tst) bs) = N"
      unfolding N_def using flat_meaning [OF assms(2)] by (rule meansE)
    define C where "C = (\<lambda>s r. case tst x s of (c, s') \<Rightarrow> if c then N s' r else r = Jump (n + 1) s')"
    let ?case = "\<lambda>lb bt. plain_block (n + 2) lb False bt (BlockBranchIfValue (n + 1) x False # bs)"
    have ds: "seq_sem (map (val_sem ev tst) ds) = D"
      unfolding D_def node_sem.simps by (intro ext) (rule leaves_sem [OF assms(3)])
    have "seq_sem (map (val_sem ev tst) (BlockBranchIfValue (n + 1) x False # bs)) s r \<longleftrightarrow> C s r" for s r
      unfolding list.map seq_sem.simps bs(2) C_def by (cases "tst x s"; cases "fst (tst x s)") auto
    moreover have "leave (n + 2) r0 = r0" if "C s r0" for s r0
      using that nj(3) by (cases r0) (auto simp: C_def no_jump_def split: prod.splits if_splits)
    ultimately have C: "val_sem ev tst (?case lb bt) = C" for lb bt
      unfolding plain_block_sem block_sem_def by (intro ext) (simp, metis)
    have "leave (n + 1) r0 = r0" if "N s r0" for s r0
      using that nj(3) by (cases r0) (auto simp: no_jump_def)
    then have "block_sem (n + 1) C s r \<longleftrightarrow> I s r" for s r
      unfolding block_sem_def C_def I by (cases "tst x s"; cases "fst (tst x s)") auto
    then have "block_sem (n + 1) C = I" by blast
    then have "block_sem n (block_sem (n + 1) (seq_sem (map (val_sem ev tst) (ds @ [?case lb bt])))) = seq_sem [D, I]"
      for lb bt
      unfolding map_append seq_group [of _ "map _ [_]"] ds
      unfolding list.map C seq_single block_seq [OF nj(2)] by (simp only: block_no_jump [OF \<open>no_jump I\<close>])
    then show "\<exists>vs l' n'. flat_spec (fd_body func) ch l n = Inr (vs, l', n') \<and>
      seq_sem (map (val_sem ev tst) vs) = seq_sem [D, I]"
      using bs(1)
      by (simp add: assms(1) spec_SWITCH_def spec_opt_def plain_block_sem [of _ _ n] plain_block_sem [of _ _ "Suc n"]
        enumerate_eq_zip eval_nat_numeral del: seq_sem.simps)
  qed
  from flattenFunction_means [OF this nj(1)] show ?thesis unfolding all by metis
qed

end
