(* ===== verification/TsTypes.thy ===== *)
theory TsTypes
  imports ValueTypes
begin

text \<open>
  The classes of types of the front end, \<open>src/src/type.ts\<close>, and the functions of
  \<open>src/src/utils.ts\<close> on them.

  \<^item> Types are mutable objects that refer to each other, in cycles for recursive classes. They
    live in a \<open>type_heap\<close> and a reference is a number. The subclasses of \<open>Type\<close> are the
    constructors of \<open>ts_type\<close>; an interface is a class object whose \<open>cls_isInterface\<close> is set.
  \<^item> A function that follows references takes the depth of the JavaScript call stack as its first
    argument; running out of it is the \<open>RangeError\<close> of the engine.
  \<^item> A getter or setter of a single field is the selector or the update of the record.
\<close>

section \<open>Type objects\<close>

type_synonym type_id = nat
type_synonym scope_id = nat

datatype (plugins only: size) TypeKind =
    VOID | BOOLEAN | NUMBER | ANY | UNDEFINED | STRING | ARRAY | FUNCTION | CLASS | ENUM | NULL
  | INTERFACE | UNION | TUPLE
  | WASM_I32 | WASM_I64 | WASM_F32 | WASM_F64 | WASM_ANYREF | WASM_ARRAY | WASM_STRUCT
  | GENERIC | UNKNOWN | CONTEXT | TYPE_PARAMETER

fun kind_string :: "TypeKind \<Rightarrow> string" where
  "kind_string TypeKind.VOID = ''void''"
| "kind_string TypeKind.BOOLEAN = ''boolean''"
| "kind_string TypeKind.NUMBER = ''number''"
| "kind_string TypeKind.ANY = ''any''"
| "kind_string TypeKind.UNDEFINED = ''undefined''"
| "kind_string TypeKind.STRING = ''string''"
| "kind_string TypeKind.ARRAY = ''array''"
| "kind_string TypeKind.FUNCTION = ''function''"
| "kind_string TypeKind.CLASS = ''class''"
| "kind_string TypeKind.ENUM = ''enum''"
| "kind_string TypeKind.NULL = ''null''"
| "kind_string TypeKind.INTERFACE = ''interface''"
| "kind_string TypeKind.UNION = ''unoin''"
| "kind_string TypeKind.TUPLE = ''tuple''"
| "kind_string TypeKind.WASM_I32 = ''i32''"
| "kind_string TypeKind.WASM_I64 = ''i64''"
| "kind_string TypeKind.WASM_F32 = ''f32''"
| "kind_string TypeKind.WASM_F64 = ''f64''"
| "kind_string TypeKind.WASM_ANYREF = ''anyref''"
| "kind_string TypeKind.WASM_ARRAY = ''wasm_array''"
| "kind_string TypeKind.WASM_STRUCT = ''wasm_struct''"
| "kind_string TypeKind.GENERIC = ''generic''"
| "kind_string TypeKind.UNKNOWN = ''unknown''"
| "kind_string TypeKind.CONTEXT = ''context''"
| "kind_string TypeKind.TYPE_PARAMETER = ''type_parameter''"

datatype FunctionKind = DEFAULT | CONSTRUCTOR | METHOD | GETTER | SETTER | STATIC

fun getMethodPrefix :: "FunctionKind \<Rightarrow> string" where
  "getMethodPrefix FunctionKind.CONSTRUCTOR = ''constructor''"
| "getMethodPrefix FunctionKind.GETTER = ''get_''"
| "getMethodPrefix FunctionKind.SETTER = ''set_''"
| "getMethodPrefix _ = ''''"

datatype Visibility = Public | Protected | Private

record TsClassField =
  fld_name :: js_string
  fld_type :: type_id
  fld_readonly :: bool
  fld_visibility :: "Visibility option"
  fld_static :: bool
  fld_optional :: bool

record TsClassFunc =
  cf_name :: js_string
  cf_type :: type_id \<comment> \<open>a function type\<close>
  cf_optional :: bool

text \<open>The fields of \<open>TSTypeWithArguments\<close>.\<close>

record TSTypeWithArguments =
  ta_typeArguments :: "type_id list option" \<comment> \<open>type parameters\<close>
  ta_specializedArguments :: "type_id list option"
  ta_genericOwner :: "type_id option"
  ta_belongedScope :: "scope_id option"

datatype TraverseStatus = NOTVISITTED | VISITTED | PROCESSED

record TSClass =
  cls_args :: TSTypeWithArguments
  cls_isInterface :: bool
  cls_traverseStatus :: TraverseStatus
  cls_typeId :: int
  cls_name :: js_string
  cls_mangledName :: js_string
  cls_fields :: "TsClassField list"
  cls_staticFields :: "TsClassField list"
  cls_methods :: "TsClassFunc list"
  cls_base :: "type_id option"
  cls_drived :: "type_id list option"
  cls_implInfc :: "type_id option"
  cls_isLiteral :: bool
  cls_ctor :: "type_id option"
  cls_hasDeclareCtor :: bool
  cls_isDeclare :: bool
  cls_numberIndexType :: "type_id option"
  cls_stringIndexType :: "type_id option"
  cls_overrideOrOwnMethods :: "js_string list"

record TSFunction =
  fn_args :: TSTypeWithArguments
  fn_funcKind :: FunctionKind
  fn_parameterTypes :: "type_id list"
  fn_isOptionalParams :: "bool list"
  fn_returnType :: type_id
  fn_restParamIdx :: int
  fn_isMethod :: bool
  fn_isDeclare :: bool
  fn_isStatic :: bool
  fn_isBinaryenImpl :: bool
  fn_isExport :: bool
  fn_belongedClass :: "type_id option"

datatype enum_value = EnumNumber int | EnumString js_string

record TSEnum =
  en_name :: js_string
  en_memberType :: type_id
  en_members :: "(js_string, enum_value) js_map"

datatype (plugins only: size) ts_type =
    Type
  | WasmType string
  | WasmArrayType type_id PackedTypeKind MutabilityKind NullabilityKind
  | WasmStructType type_id "PackedTypeKind list" "MutabilityKind list" NullabilityKind "type_id option"
  | GenericType
  | Primitive string
  | TSContext "type_id option" "type_id list"
  | TSTypeParameter js_string type_id int "type_id option" \<comment> \<open>name, wide type, index, default\<close>
  | TSClass TSClass
  | TSArray type_id
  | TSFunction TSFunction
  | TSUnion "type_id list"
  | TSEnum TSEnum
  | TSTuple "type_id list"

definition wasm_kind :: "string \<Rightarrow> TypeKind" where
  "wasm_kind s =
     (if s = ''i32'' then TypeKind.WASM_I32
      else if s = ''i64'' then TypeKind.WASM_I64
      else if s = ''f32'' then TypeKind.WASM_F32
      else if s = ''f64'' then TypeKind.WASM_F64
      else if s = ''anyref'' then TypeKind.WASM_ANYREF
      else if s = ''wasm_array'' then TypeKind.WASM_ARRAY
      else if s = ''wasm_struct'' then TypeKind.WASM_STRUCT
      else TypeKind.UNKNOWN)"

definition primitive_kind :: "string \<Rightarrow> TypeKind" where
  "primitive_kind s =
     (if s = ''number'' then TypeKind.NUMBER
      else if s = ''string'' then TypeKind.STRING
      else if s = ''boolean'' then TypeKind.BOOLEAN
      else if s = ''any'' then TypeKind.ANY
      else if s = ''undefined'' then TypeKind.UNDEFINED
      else if s = ''void'' then TypeKind.VOID
      else if s = ''null'' then TypeKind.NULL
      else TypeKind.UNKNOWN)"

fun ts_kind :: "ts_type \<Rightarrow> TypeKind" where
  "ts_kind Type = TypeKind.UNKNOWN"
| "ts_kind (WasmType s) = wasm_kind s"
| "ts_kind (WasmArrayType a p m n) = TypeKind.WASM_ARRAY"
| "ts_kind (WasmStructType a p m n b) = TypeKind.WASM_STRUCT"
| "ts_kind GenericType = TypeKind.GENERIC"
| "ts_kind (Primitive s) = primitive_kind s"
| "ts_kind (TSContext p f) = TypeKind.CONTEXT"
| "ts_kind (TSTypeParameter n w i d) = TypeKind.TYPE_PARAMETER"
| "ts_kind (TSClass c) = (if cls_isInterface c then TypeKind.INTERFACE else TypeKind.CLASS)"
| "ts_kind (TSArray t) = TypeKind.ARRAY"
| "ts_kind (TSFunction f) = TypeKind.FUNCTION"
| "ts_kind (TSUnion ts) = TypeKind.UNION"
| "ts_kind (TSEnum e) = TypeKind.ENUM"
| "ts_kind (TSTuple ts) = TypeKind.TUPLE"

section \<open>The heap of types\<close>

record type_heap =
  th_types :: "type_id \<Rightarrow> ts_type"
  th_next :: type_id

definition new_type :: "ts_type \<Rightarrow> type_heap \<Rightarrow> type_id \<times> type_heap" where
  "new_type t h = (th_next h, h\<lparr>th_types := (th_types h)(th_next h := t), th_next := Suc (th_next h)\<rparr>)"

definition set_type :: "type_id \<Rightarrow> ts_type \<Rightarrow> type_heap \<Rightarrow> type_heap" where
  "set_type i t h = h\<lparr>th_types := (th_types h)(i := t)\<rparr>"

text \<open>
  The module level maps. Their types are the first objects of the heap; the map constructor
  evaluates \<open>new Primitive('undefined')\<close> twice and keeps the second under the key. Behind them
  stands \<open>MixEnumMemberType\<close>.
\<close>

definition builtin_objects :: "ts_type list" where
  "builtin_objects =
     [Primitive ''number'', Primitive ''string'', Primitive ''boolean'', Primitive ''any'',
      Primitive ''undefined'', Primitive ''void'', Primitive ''null'', Primitive ''undefined'',
      GenericType,
      WasmType ''i32'', WasmType ''f32'', WasmType ''i64'', WasmType ''f64'', WasmType ''anyref'',
      TSUnion [0, 1]]"

definition builtinTypes :: "(js_string, type_id) js_map" where
  "builtinTypes =
     [(js_lit ''number'', 0), (js_lit ''string'', 1), (js_lit ''boolean'', 2), (js_lit ''any'', 3),
      (js_lit ''undefined'', 7), (js_lit ''void'', 5), (js_lit ''null'', 6), (js_lit ''generic'', 8)]"

definition builtinWasmTypes :: "(js_string, type_id) js_map" where
  "builtinWasmTypes =
     [(js_lit ''i32'', 9), (js_lit ''f32'', 10), (js_lit ''i64'', 11), (js_lit ''f64'', 12),
      (js_lit ''anyref'', 13)]"

abbreviation (input) builtin_number :: type_id where "builtin_number \<equiv> 0"
abbreviation (input) builtin_string :: type_id where "builtin_string \<equiv> 1"
abbreviation (input) builtin_undefined :: type_id where "builtin_undefined \<equiv> 7"

definition MixEnumMemberType :: type_id where
  "MixEnumMemberType = 14"

definition new_type_heap :: type_heap where
  "new_type_heap =
     \<lparr>th_types = (\<lambda>i. if i < length builtin_objects then builtin_objects ! i else Type),
      th_next = length builtin_objects\<rparr>"

definition getBuiltinType :: "js_string \<Rightarrow> type_id option" where
  "getBuiltinType s =
     (if map_has builtinTypes s then map_get builtinTypes s
      else if map_has builtinWasmTypes s then map_get builtinWasmTypes s
      else None)"

section \<open>Constructors with defaults\<close>

definition new_TSTypeWithArguments :: TSTypeWithArguments where
  "new_TSTypeWithArguments =
     \<lparr>ta_typeArguments = None, ta_specializedArguments = None, ta_genericOwner = None,
      ta_belongedScope = None\<rparr>"

definition new_TSClass :: TSClass where
  "new_TSClass =
     \<lparr>cls_args = new_TSTypeWithArguments, cls_isInterface = False, cls_traverseStatus = NOTVISITTED,
      cls_typeId = DefaultTypeId, cls_name = [], cls_mangledName = [], cls_fields = [],
      cls_staticFields = [], cls_methods = [], cls_base = None, cls_drived = None,
      cls_implInfc = None, cls_isLiteral = False, cls_ctor = None, cls_hasDeclareCtor = True,
      cls_isDeclare = False, cls_numberIndexType = None, cls_stringIndexType = None,
      cls_overrideOrOwnMethods = []\<rparr>"

definition new_TSInterface :: TSClass where
  "new_TSInterface = new_TSClass\<lparr>cls_isInterface := True\<rparr>"

text \<open>The return type starts as a new primitive \<open>void\<close>, not as the built-in one.\<close>

definition new_TSFunction :: "FunctionKind \<Rightarrow> type_heap \<Rightarrow> type_id \<times> type_heap" where
  "new_TSFunction k h =
     (let (v, h) = new_type (Primitive ''void'') h
      in new_type (TSFunction
           \<lparr>fn_args = new_TSTypeWithArguments, fn_funcKind = k, fn_parameterTypes = [],
            fn_isOptionalParams = [], fn_returnType = v, fn_restParamIdx = -1, fn_isMethod = False,
            fn_isDeclare = False, fn_isStatic = False, fn_isBinaryenImpl = False,
            fn_isExport = False, fn_belongedClass = None\<rparr>) h)"

definition new_WasmArrayType ::
  "type_id \<Rightarrow> PackedTypeKind option \<Rightarrow> MutabilityKind option \<Rightarrow> NullabilityKind option \<Rightarrow> ts_type"
where
  "new_WasmArrayType arr pk mu nu =
     WasmArrayType arr (case_option Not_Packed id pk) (case_option Mutable id mu)
       (case_option Nullable id nu)"

definition new_WasmStructType ::
  "type_id \<Rightarrow> PackedTypeKind list option \<Rightarrow> MutabilityKind list option \<Rightarrow>
   NullabilityKind option \<Rightarrow> type_id option \<Rightarrow> type_heap \<Rightarrow> ts_type result"
where
  "new_WasmStructType tup pks mus nu base h =
     (case th_types h tup of
        TSTuple es \<Rightarrow>
          Inr (WasmStructType tup
                (case pks of Some l \<Rightarrow> l | None \<Rightarrow> replicate (length es) Not_Packed)
                (case mus of Some l \<Rightarrow> l | None \<Rightarrow> replicate (length es) Mutable)
                (case_option Nullable id nu) base)
      | _ \<Rightarrow> Inl JSTypeError)"

section \<open>Type parameters\<close>

fun param_name :: "ts_type \<Rightarrow> js_string option" where
  "param_name (TSTypeParameter n w i d) = Some n"
| "param_name _ = None"

fun param_wide :: "ts_type \<Rightarrow> type_id option" where
  "param_wide (TSTypeParameter n w i d) = Some w"
| "param_wide _ = None"

text \<open>The index is ignored when parameters are compared.\<close>

definition same_parameter :: "type_heap \<Rightarrow> type_id \<Rightarrow> type_id \<Rightarrow> bool" where
  "same_parameter h t u \<longleftrightarrow>
     param_name (th_types h t) = param_name (th_types h u) \<and>
     map_option (\<lambda>w. ts_kind (th_types h w)) (param_wide (th_types h t))
       = map_option (\<lambda>w. ts_kind (th_types h w)) (param_wide (th_types h u))"

definition addTypeParameter_ts :: "type_heap \<Rightarrow> type_id \<Rightarrow> TSTypeWithArguments \<Rightarrow> TSTypeWithArguments"
where
  "addTypeParameter_ts h p a =
     (let ps = (case ta_typeArguments a of Some ps \<Rightarrow> ps | None \<Rightarrow> [])
      in a\<lparr>ta_typeArguments :=
             Some (if \<exists>t \<in> set ps. same_parameter h t p then ps else ps @ [p])\<rparr>)"

definition getTypeParameter :: "type_heap \<Rightarrow> js_string \<Rightarrow> TSTypeWithArguments \<Rightarrow> type_id option" where
  "getTypeParameter h n a =
     (case ta_typeArguments a of
        Some ps \<Rightarrow> find (\<lambda>p. param_name (th_types h p) = Some n) ps
      | None \<Rightarrow> None)"

section \<open>Classes\<close>

definition setDrivedClass :: "type_id \<Rightarrow> TSClass \<Rightarrow> TSClass" where
  "setDrivedClass d c =
     c\<lparr>cls_drived := Some ((case cls_drived c of Some ds \<Rightarrow> ds | None \<Rightarrow> []) @ [d])\<rparr>"

definition addMemberField :: "TsClassField \<Rightarrow> TSClass \<Rightarrow> TSClass" where
  "addMemberField f c = c\<lparr>cls_fields := cls_fields c @ [f]\<rparr>"

definition getMemberField :: "js_string \<Rightarrow> TSClass \<Rightarrow> TsClassField option" where
  "getMemberField n c = find (\<lambda>f. fld_name f = n) (cls_fields c)"

definition getMemberFieldIndex :: "js_string \<Rightarrow> TSClass \<Rightarrow> int" where
  "getMemberFieldIndex n c = js_findIndex (\<lambda>f. fld_name f = n) (cls_fields c)"

definition addStaticMemberField :: "TsClassField \<Rightarrow> TSClass \<Rightarrow> TSClass" where
  "addStaticMemberField f c = c\<lparr>cls_staticFields := cls_staticFields c @ [f]\<rparr>"

definition getStaticMemberField :: "js_string \<Rightarrow> TSClass \<Rightarrow> TsClassField option" where
  "getStaticMemberField n c = find (\<lambda>f. fld_name f = n) (cls_staticFields c)"

definition getStaticFieldIndex :: "js_string \<Rightarrow> TSClass \<Rightarrow> int" where
  "getStaticFieldIndex n c = js_findIndex (\<lambda>f. fld_name f = n) (cls_staticFields c)"

text \<open>
  \<open>addMethod\<close> marks the function type as a method; an inherited method keeps the class it
  belongs to.
\<close>

definition addMethod :: "type_id \<Rightarrow> TsClassFunc \<Rightarrow> type_heap \<Rightarrow> type_heap result" where
  "addMethod self m h =
     (case (th_types h self, th_types h (cf_type m)) of
        (TSClass c, TSFunction f) \<Rightarrow>
          Inr (set_type self (TSClass (c\<lparr>cls_methods := cls_methods c @ [m]\<rparr>))
            (set_type (cf_type m) (TSFunction (f\<lparr>fn_isMethod := True,
               fn_belongedClass := (case fn_belongedClass f of Some k \<Rightarrow> Some k | None \<Rightarrow> Some self)\<rparr>)) h))
      | _ \<Rightarrow> Inl JSTypeError)"

definition func_kind :: "type_heap \<Rightarrow> type_id \<Rightarrow> FunctionKind option" where
  "func_kind h t = (case th_types h t of TSFunction f \<Rightarrow> Some (fn_funcKind f) | _ \<Rightarrow> None)"

definition is_method :: "type_heap \<Rightarrow> js_string \<Rightarrow> FunctionKind \<Rightarrow> TsClassFunc \<Rightarrow> bool" where
  "is_method h n k f \<longleftrightarrow> n = cf_name f \<and> func_kind h (cf_type f) = Some k"

definition getMethod :: "type_heap \<Rightarrow> js_string \<Rightarrow> FunctionKind \<Rightarrow> TSClass \<Rightarrow> int \<times> TsClassFunc option" where
  "getMethod h n k c =
     (case find_index (is_method h n k) (cls_methods c) of
        Some i \<Rightarrow> (int i, Some (cls_methods c ! i))
      | None \<Rightarrow> (-1, None))"

definition updateMethod :: "type_heap \<Rightarrow> js_string \<Rightarrow> FunctionKind \<Rightarrow> type_id \<Rightarrow> TSClass \<Rightarrow> bool \<times> TSClass"
where
  "updateMethod h n k t c =
     (case find_index (is_method h n k) (cls_methods c) of
        Some i \<Rightarrow> (True, c\<lparr>cls_methods := (cls_methods c)[i := (cls_methods c ! i)\<lparr>cf_type := t\<rparr>]\<rparr>)
      | None \<Rightarrow> (False, c))"

section \<open>Functions\<close>

definition hasRest :: "TSFunction \<Rightarrow> bool" where
  "hasRest f \<longleftrightarrow> 0 \<le> fn_restParamIdx f"

definition addParamType :: "type_id \<Rightarrow> TSFunction \<Rightarrow> TSFunction" where
  "addParamType t f = f\<lparr>fn_parameterTypes := fn_parameterTypes f @ [t]\<rparr>"

definition addIsOptionalParam :: "bool \<Rightarrow> TSFunction \<Rightarrow> TSFunction" where
  "addIsOptionalParam b f = f\<lparr>fn_isOptionalParams := fn_isOptionalParams f @ [b]\<rparr>"

text \<open>
  \<open>clone\<close>: specialised arguments and the generic owner are not copied. The arrays of parameters
  are shared with the copy; after a clone the code replaces them and does not append to them.
\<close>

definition clone :: "TSFunction \<Rightarrow> type_heap \<Rightarrow> type_id \<times> type_heap" where
  "clone f h =
     (let (i, h) = new_TSFunction (fn_funcKind f) h
      in (i, set_type i (TSFunction (f\<lparr>fn_args := new_TSTypeWithArguments
              \<lparr>ta_typeArguments := ta_typeArguments (fn_args f),
               ta_belongedScope := ta_belongedScope (fn_args f)\<rparr>\<rparr>)) h))"

section \<open>Enumerations\<close>

definition new_TSEnum :: "js_string \<Rightarrow> TSEnum" where
  "new_TSEnum n = \<lparr>en_name = n, en_memberType = builtin_undefined, en_members = []\<rparr>"

fun is_string_value :: "enum_value \<Rightarrow> bool" where
  "is_string_value (EnumString s) = True"
| "is_string_value (EnumNumber n) = False"

definition addMember :: "type_heap \<Rightarrow> js_string \<Rightarrow> enum_value \<Rightarrow> TSEnum \<Rightarrow> TSEnum result" where
  "addMember h n v e =
     (if map_has (en_members e) n then Inl (JSError ''EnumMember exist: '')
      else
        (let mk = ts_kind (th_types h (en_memberType e));
             e = e\<lparr>en_members := map_set n v (en_members e)\<rparr>
         in Inr (if mk = TypeKind.UNDEFINED
                 then e\<lparr>en_memberType := (if is_string_value v then builtin_string else builtin_number)\<rparr>
                 else if mk = TypeKind.STRING \<and> \<not> is_string_value v \<or>
                         mk = TypeKind.NUMBER \<and> is_string_value v
                 then e\<lparr>en_memberType := MixEnumMemberType\<rparr>
                 else e)))"

definition getMember_enum :: "js_string \<Rightarrow> TSEnum \<Rightarrow> enum_value option" where
  "getMember_enum n e = map_get (en_members e) n"

section \<open>Names of types\<close>

text \<open>
  \<open>toString\<close>, dispatched on the class. \<open>TSContext.toString\<close> calls \<open>concat\<close> on a constant and drops
  the results, after evaluating the names of the parts.
\<close>

fun toString :: "nat \<Rightarrow> type_heap \<Rightarrow> type_id \<Rightarrow> js_string result" where
  "toString 0 h t = Inl JSRangeError"
| "toString (Suc n) h t =
     (case th_types h t of
        Primitive s \<Rightarrow> Inr (js_lit s)
      | TSContext p fs \<Rightarrow>
          bind_r (map_r (toString n h) ((case p of Some q \<Rightarrow> [q] | None \<Rightarrow> []) @ fs)) (\<lambda>_. Inr (js_lit ''ContextType''))
      | TSTypeParameter name wide i def \<Rightarrow>
          bind_r (toString n h wide) (\<lambda>w.
          bind_r (case def of Some d \<Rightarrow> toString n h d | None \<Rightarrow> Inr (js_lit ''undefined'')) (\<lambda>d.
            Inr (js_lit ''TypeParameter('' @ name @ js_lit '' wide:'' @ w @ js_lit '' default: '' @ d
                 @ js_lit '')'')))
      | TSClass c \<Rightarrow>
          Inr (js_lit ''Class('' @ cls_name c @ js_lit ''('' @ cls_mangledName c @ js_lit '' ''
               @ (if cls_isLiteral c then js_lit ''Literal'' else []) @ js_lit ''))'')
      | TSArray e \<Rightarrow> bind_r (toString n h e) (\<lambda>s. Inr (js_lit ''Array<'' @ s @ js_lit ''>''))
      | TSFunction f \<Rightarrow>
          bind_r (map_r (toString n h) (fn_parameterTypes f)) (\<lambda>ps.
          bind_r (toString n h (fn_returnType f)) (\<lambda>r.
            Inr (js_lit ''Function('' @ js_join (js_lit '','') ps @ js_lit '')'' @ r)))
      | TSUnion ts \<Rightarrow>
          bind_r (map_r (toString n h) ts) (\<lambda>ss.
            Inr (js_lit ''Union('' @ js_join (js_lit '' | '') ss @ js_lit '')''))
      | TSEnum e \<Rightarrow>
          Inr (js_lit ''Enum('' @ concat (map (\<lambda>(k, v). k @ js_lit '','') (take 4 (en_members e)))
               @ concat (map (\<lambda>_. js_lit ''...'') (drop 4 (en_members e))) @ js_lit '')'')
      | TSTuple ts \<Rightarrow>
          bind_r (map_r (toString n h) ts) (\<lambda>ss.
            Inr (js_lit ''Tuple['' @ js_join (js_lit '' , '') ss @ js_lit '']''))
      | x \<Rightarrow> Inr (js_lit (''TYPE('' @ kind_string (ts_kind x) @ '')'')))"

section \<open>Generic types\<close>

definition class_typeArguments :: "type_heap \<Rightarrow> type_id \<Rightarrow> type_id list option" where
  "class_typeArguments h t = (case th_types h t of TSClass c \<Rightarrow> ta_typeArguments (cls_args c) | _ \<Rightarrow> None)"

fun isTypeGeneric :: "nat \<Rightarrow> type_heap \<Rightarrow> type_id \<Rightarrow> bool result" where
  "isTypeGeneric 0 h t = Inl JSRangeError"
| "isTypeGeneric (Suc n) h t =
     (case th_types h t of
        TSUnion ts \<Rightarrow> some_r (isTypeGeneric n h) ts
      | TSTuple ts \<Rightarrow> some_r (isTypeGeneric n h) ts
      | TSArray e \<Rightarrow> isTypeGeneric n h e
      | WasmArrayType a p m nu \<Rightarrow>
          (case th_types h a of TSArray e \<Rightarrow> isTypeGeneric n h e | _ \<Rightarrow> Inl JSTypeError)
      | WasmStructType a p m nu b \<Rightarrow> isTypeGeneric n h a
      | TSFunction f \<Rightarrow>
          Inr (fn_isMethod f \<and> Option.bind (fn_belongedClass f) (class_typeArguments h) \<noteq> None \<or>
               ta_typeArguments (fn_args f) \<noteq> None)
      | TSClass c \<Rightarrow>
          (if ta_typeArguments (cls_args c) \<noteq> None then Inr True
           else some_r (isTypeGeneric n h) (map cf_type (cls_methods c)))
      | TSTypeParameter name w i d \<Rightarrow> Inr True
      | WasmType s \<Rightarrow>
          (if wasm_kind s = TypeKind.WASM_ARRAY \<or> wasm_kind s = TypeKind.WASM_STRUCT
           then Inl JSTypeError else Inr False)
      | GenericType \<Rightarrow> Inl (JSError ''Not implemented type: '')
      | TSContext p fs \<Rightarrow> Inl (JSError ''Not implemented type: '')
      | _ \<Rightarrow> Inr False)"

text \<open>The property \<open>name\<close> of a type object, \<open>None\<close> where the class has no such property.\<close>

fun obj_name :: "ts_type \<Rightarrow> js_string option" where
  "obj_name (TSTypeParameter n w i d) = Some n"
| "obj_name (WasmType s) = Some (js_lit s)"
| "obj_name (WasmArrayType a p m n) = Some (js_lit ''wasm_array'')"
| "obj_name (WasmStructType a p m n b) = Some (js_lit ''wasm_struct'')"
| "obj_name (TSEnum e) = Some (en_name e)"
| "obj_name _ = None"

definition parameter_index :: "type_heap \<Rightarrow> js_string option \<Rightarrow> type_id list \<Rightarrow> nat result" where
  "parameter_index h name ps =
     (case find_index (\<lambda>p. obj_name (th_types h p) = name) ps of
        Some i \<Rightarrow> Inr i
      | None \<Rightarrow> Inl (JSError '' not found in typeParameters''))"

text \<open>\<open>arr[i] = v\<close> where the value may be \<open>undefined\<close>.\<close>

definition js_array_put :: "'a option list \<Rightarrow> nat \<Rightarrow> 'a option \<Rightarrow> 'a option list" where
  "js_array_put xs i v =
     (if i < length xs then xs[i := v] else xs @ replicate (i - length xs) None @ [v])"

definition specialized_of :: "type_heap \<Rightarrow> type_id \<Rightarrow> type_id list option" where
  "specialized_of h t =
     (case th_types h t of
        TSClass c \<Rightarrow> ta_specializedArguments (cls_args c)
      | TSFunction f \<Rightarrow> ta_specializedArguments (fn_args f)
      | _ \<Rightarrow> None)"

text \<open>The branch of a parameter type with type arguments.\<close>

definition bind_arguments ::
  "type_heap \<Rightarrow> type_id list \<Rightarrow> type_id list option \<Rightarrow> type_id \<Rightarrow> type_id option list \<Rightarrow>
   type_id option list result"
where
  "bind_arguments h typeParameters generics aType res =
     (case specialized_of h aType of
        None \<Rightarrow> Inr res
      | Some specs \<Rightarrow>
          (case generics of
             None \<Rightarrow> Inl JSTypeError
           | Some gs \<Rightarrow>
               fold_r (\<lambda>(idx, g) res.
                 bind_r (parameter_index h (obj_name (th_types h g)) typeParameters) (\<lambda>i.
                   Inr (js_array_put res i (js_index specs (int idx)))))
                 (enumerate 0 gs) res))"

definition bind_formal ::
  "nat \<Rightarrow> type_heap \<Rightarrow> type_id list \<Rightarrow> nat \<times> type_id \<times> type_id \<Rightarrow> type_id option list \<Rightarrow>
   type_id option list result"
where
  "bind_formal n h typeParameters = (\<lambda>(i, pType, aType) res.
     bind_r (isTypeGeneric n h pType) (\<lambda>gen.
       if \<not> gen then Inr res
       else
         (case th_types h pType of
            TSTypeParameter name w ix d \<Rightarrow>
              bind_r (parameter_index h (Some name) typeParameters) (\<lambda>k.
                Inr (js_array_put res k (Some aType)))
          | TSClass c \<Rightarrow> bind_arguments h typeParameters (ta_typeArguments (cls_args c)) aType res
          | TSFunction f \<Rightarrow> bind_arguments h typeParameters (ta_typeArguments (fn_args f)) aType res
          | TSArray e \<Rightarrow>
              (case th_types h aType of
                 TSArray ae \<Rightarrow>
                   (case th_types h e of
                      TSTypeParameter name w ix d \<Rightarrow>
                        bind_r (parameter_index h (Some name) typeParameters) (\<lambda>k.
                          Inr (js_array_put res k (Some ae)))
                    | _ \<Rightarrow> Inl (JSError ''generic Array specialization operation for complex elementType is not implemented''))
               | _ \<Rightarrow> Inr (js_array_put res i (Some aType)))
          | TSUnion ts \<Rightarrow>
              (let j = length (filter (\<lambda>t. ts_kind (th_types h t) \<noteq> TypeKind.TYPE_PARAMETER) ts)
               in if j < length ts then
                    bind_r (parameter_index h (obj_name (th_types h (ts ! j))) typeParameters) (\<lambda>k.
                      Inr (js_array_put res k (Some aType)))
                  else Inl JSTypeError)
          | _ \<Rightarrow> Inr res)))"

definition calculateTypeArguments ::
  "nat \<Rightarrow> type_heap \<Rightarrow> type_id list \<Rightarrow> type_id list \<Rightarrow> type_id list \<Rightarrow> type_id option list result"
where
  "calculateTypeArguments n h formals typeParameters actuals =
     (if formals = [] \<or> typeParameters = [] \<or> actuals = [] then Inr []
      else fold_r (bind_formal n h typeParameters) (enumerate 0 (zip formals actuals))
             (replicate (length typeParameters) None))"

text \<open>
  The name of a type argument in a signature. A missing argument raises a \<open>TypeError\<close>.
\<close>

definition argument_name :: "type_heap \<Rightarrow> type_id option \<Rightarrow> js_string result" where
  "argument_name h a =
     (case a of
        None \<Rightarrow> Inl JSTypeError
      | Some t \<Rightarrow>
          (case th_types h t of
             TSClass c \<Rightarrow> Inr (cls_name c)
           | x \<Rightarrow> Inr (js_lit (kind_string (ts_kind x)))))"

definition getTypeSignature ::
  "type_heap \<Rightarrow> type_id list \<Rightarrow> type_id list \<Rightarrow> type_id option list \<Rightarrow> js_string result"
where
  "getTypeSignature h params typeParameters targs =
     bind_r (map_r (\<lambda>p.
         bind_r (parameter_index h (obj_name (th_types h p)) typeParameters) (\<lambda>i.
           argument_name h (js_array_get targs i))) params) (\<lambda>names.
       Inr (if names \<noteq> [] then js_lit ''<'' @ js_join (js_lit '','') names @ js_lit ''>'' else []))"

section \<open>Inference of type arguments\<close>

lemma js_array_put_length [simp]: "i < length xs \<Longrightarrow> length (js_array_put xs i v) = length xs"
  by (simp add: js_array_put_def)

lemma parameter_index_distinct:
  assumes "distinct (map (\<lambda>p. obj_name (th_types h p)) ps)" and "i < length ps"
  shows "parameter_index h (obj_name (th_types h (ps ! i))) ps = Inr i"
  using find_index_distinct [OF assms] by (simp add: parameter_index_def)

text \<open>
  Type arguments of a call whose formal parameters are type parameters of the function, in
  any order and with repetitions: the argument for a type parameter is the type of the last actual
  parameter at a formal parameter with its name, and missing when there is none.
\<close>

theorem calculateTypeArguments_parameters:
  assumes "distinct (map (\<lambda>p. obj_name (th_types h p)) ps)" and "ps \<noteq> []"
    and "\<forall>f \<in> set formals. f \<in> set ps" and "\<forall>p \<in> set ps. \<exists>nm w i d. th_types h p = TSTypeParameter nm w i d"
    and "formals \<noteq> []" and "actuals \<noteq> []"
  shows "\<exists>res. calculateTypeArguments (Suc n) h formals ps actuals = Inr res \<and> length res = length ps \<and>
    (\<forall>k < length ps. res ! k = map_of (rev (zip formals actuals)) (ps ! k))"
proof -
  have step: "\<exists>res'. fold_r (bind_formal (Suc n) h ps) (enumerate i xs) res = Inr res' \<and> length res' = length ps \<and>
      (\<forall>k < length ps. res' ! k = (case map_of (rev xs) (ps ! k) of Some a \<Rightarrow> Some a | None \<Rightarrow> res ! k))"
    if "\<forall>x \<in> set xs. fst x \<in> set ps" and "length res = length ps" for xs i res
    using that
  proof (induction xs arbitrary: i res)
    case (Cons x xs)
    obtain f a where x: "x = (f, a)" by (cases x)
    with Cons.prems(1) obtain j where j: "j < length ps" "f = ps ! j" by (auto simp: in_set_conv_nth)
    with assms(4) obtain nm w ix d where f: "th_types h f = TSTypeParameter nm w ix d" by (meson nth_mem)
    have "parameter_index h (Some nm) ps = Inr j"
      using parameter_index_distinct [OF assms(1) j(1)] f j(2) by simp
    then have "bind_formal (Suc n) h ps (i, x) res = Inr (res[j := Some a])"
      using Cons.prems(2) j(1) by (simp add: bind_formal_def x f js_array_put_def)
    moreover obtain res' where "fold_r (bind_formal (Suc n) h ps) (enumerate (Suc i) xs) (res[j := Some a]) = Inr res'"
      and "length res' = length ps"
      and "\<forall>k < length ps. res' ! k = (case map_of (rev xs) (ps ! k) of Some a \<Rightarrow> Some a | None \<Rightarrow> res[j := Some a] ! k)"
      using Cons.IH [of "res[j := Some a]" "Suc i"] Cons.prems by auto
    moreover have "res[j := Some a] ! k = (if ps ! k = f then Some a else res ! k)" if "k < length ps" for k
      using that j distinct_map [of "\<lambda>p. obj_name (th_types h p)" ps] assms(1) Cons.prems(2)
      by (auto simp: nth_eq_iff_index_eq nth_list_update)
    ultimately show ?case
      by (auto simp: x map_add_def split: option.split)
  qed simp
  have "\<forall>x \<in> set (zip formals actuals). fst x \<in> set ps" using assms(3) by (auto dest: set_zip_leftD)
  from step [OF this, of "replicate (length ps) None" 0] show ?thesis
    using assms(2,5,6) by (auto simp: calculateTypeArguments_def split: option.splits)
qed

theorem calculateTypeArguments_parameters_witness:
  "\<exists>res. calculateTypeArguments (Suc 0)
      (new_type_heap\<lparr>th_types := (th_types new_type_heap)(20 := TSTypeParameter [84] 3 0 None,
         21 := TSTypeParameter [85] 3 1 None)\<rparr>) [21, 20, 21] [20, 21] [0, 1, 2] = Inr res \<and>
    length res = length [20 :: type_id, 21] \<and>
    (\<forall>k < length [20 :: type_id, 21]. res ! k = map_of (rev (zip [21, 20, 21] [0, 1, 2])) ([20 :: type_id, 21] ! k))"
  by (rule calculateTypeArguments_parameters) simp_all

text \<open>
  A union parameter \<open>T | number\<close> is only handled when the type parameter comes last: the code
  counts the members that are no type parameters and takes the member at that position.
\<close>

lemma union_parameter_first_fails:
  assumes "th_types h u = TSUnion [p, q]" and "th_types h p = TSTypeParameter nm w i d"
    and "th_types h q = Primitive s"
  shows "calculateTypeArguments (Suc (Suc n)) h [u] [p] [a] = Inl (JSError '' not found in typeParameters'')"
  using assms
  by (simp add: calculateTypeArguments_def bind_formal_def parameter_index_def primitive_kind_def)

lemma union_parameter_last:
  assumes "th_types h u = TSUnion [q, p]" and "th_types h p = TSTypeParameter nm w i d"
    and "th_types h q = Primitive s"
  shows "calculateTypeArguments (Suc (Suc n)) h [u] [p] [a] = Inr [Some a]"
  using assms
  by (auto simp: calculateTypeArguments_def bind_formal_def parameter_index_def js_array_put_def
      primitive_kind_def)

end
