(* ===== verification/TypeIds.thy ===== *)
theory TypeIds
  imports TsTypes
begin

text \<open>
  The part of \<open>TypeResolver\<close> in \<open>src/src/type.ts\<close> that numbers the classes: the references
  between classes, the description string of a class, the allocation of type ids with the
  detection of recursive groups, and the cache of specialised types.

  \<open>resolver\<close> holds the fields of the resolver and of the parser context that this part uses. A
  \<open>Set\<close> of classes is the list of its elements in insertion order.
\<close>

section \<open>State\<close>

record resolver =
  rs_heap :: type_heap
  rs_typeId :: int
  rs_typeIdMap :: "(js_string, int) js_map"
  rs_recGroupTypes :: "type_id list list"
  rs_loopEntry :: "type_id option"
  rs_typeRefsMap :: "(type_id, type_id list) js_map"

abbreviation rs_type :: "resolver \<Rightarrow> type_id \<Rightarrow> ts_type" where
  "rs_type r t \<equiv> th_types (rs_heap r) t"

definition set_add :: "'a \<Rightarrow> 'a list \<Rightarrow> 'a list" where
  "set_add x xs = (if x \<in> set xs then xs else xs @ [x])"

section \<open>References between classes\<close>

fun parseTypeRefRelationship2 :: "nat \<Rightarrow> type_heap \<Rightarrow> type_id \<Rightarrow> type_id list \<Rightarrow> type_id list result" where
  "parseTypeRefRelationship2 0 h t refs = Inl JSRangeError"
| "parseTypeRefRelationship2 (Suc n) h t refs =
     (case th_types h t of
        TSClass c \<Rightarrow> Inr (set_add t refs)
      | TSArray e \<Rightarrow> parseTypeRefRelationship2 n h e refs
      | TSFunction f \<Rightarrow>
          bind_r (parseTypeRefRelationship2 n h (fn_returnType f) refs)
            (fold_r (parseTypeRefRelationship2 n h) (fn_parameterTypes f))
      | _ \<Rightarrow> Inr refs)"

definition is_static_func :: "type_heap \<Rightarrow> type_id \<Rightarrow> bool" where
  "is_static_func h t = (case th_types h t of TSFunction f \<Rightarrow> fn_isStatic f | _ \<Rightarrow> False)"

definition parseTypeRefRelationship :: "nat \<Rightarrow> type_id \<Rightarrow> resolver \<Rightarrow> resolver result" where
  "parseTypeRefRelationship n t r =
     (case rs_type r t of
        TSClass c \<Rightarrow>
          bind_r (fold_r (parseTypeRefRelationship2 n (rs_heap r))
              (map fld_type (filter (\<lambda>f. \<not> fld_static f) (cls_fields c))
               @ filter (\<lambda>m. \<not> is_static_func (rs_heap r) m) (map cf_type (cls_methods c)))
              (case map_get (rs_typeRefsMap r) t of Some refs \<Rightarrow> refs | None \<Rightarrow> []))
            (\<lambda>refs. Inr (r\<lparr>rs_typeRefsMap := map_set t refs (rs_typeRefsMap r)\<rparr>))
      | _ \<Rightarrow> Inl JSTypeError)"

section \<open>Description strings\<close>

text \<open>
  The strings of the parameters: the last one is filled only for a rest parameter, otherwise
  it is a hole that \<open>join\<close> prints as the empty string.
\<close>

definition param_strings :: "bool \<Rightarrow> bool list \<Rightarrow> js_string list \<Rightarrow> js_string list" where
  "param_strings rest optional ps =
     map (\<lambda>(i, s). if i < length ps - 1
                   then (if i < length optional \<and> optional ! i then js_lit ''?'' @ s else s)
                   else if rest then js_lit ''...'' @ s else [])
       (enumerate 0 ps)"

fun getTypeString :: "nat \<Rightarrow> type_heap \<Rightarrow> type_id \<Rightarrow> js_string result" where
  "getTypeString 0 h t = Inl JSRangeError"
| "getTypeString (Suc n) h t =
     (case th_types h t of
        Primitive s \<Rightarrow> toString n h t
      | TSUnion ts \<Rightarrow> bind_r (map_r (toString n h) ts) (\<lambda>ss. Inr (js_join (js_lit ''|'') ss))
      | TSArray e \<Rightarrow> bind_r (getTypeString n h e) (\<lambda>s. Inr (s @ js_lit ''[]''))
      | TSClass c \<Rightarrow> Inr (js_int (cls_typeId c))
      | WasmType s \<Rightarrow> Inr (js_lit s)
      | WasmArrayType a p m nu \<Rightarrow> Inr (js_lit ''wasm_array'')
      | WasmStructType a p m nu b \<Rightarrow> Inr (js_lit ''wasm_struct'')
      | TSFunction f \<Rightarrow>
          (let ps = fn_parameterTypes f
           in if hasRest f \<and> ps = [] then Inl JSTypeError
              else
                bind_r (map_r (getTypeString n h) (if hasRest f then ps else butlast ps)) (\<lambda>ss.
                bind_r (getTypeString n h (fn_returnType f)) (\<lambda>r.
                  Inr (js_lit ''('' @ js_join (js_lit '','')
                        (param_strings (hasRest f) (fn_isOptionalParams f)
                           (if hasRest f \<or> ps = [] then ss else ss @ [[]]))
                      @ js_lit '')=>'' @ r))))
      | _ \<Rightarrow> Inr (js_lit ''unknown''))"

definition desc_part ::
  "nat \<Rightarrow> type_heap \<Rightarrow> js_string \<times> js_string \<times> bool \<times> type_id \<Rightarrow> js_string \<Rightarrow> js_string result"
where
  "desc_part n h = (\<lambda>(suffix, name, optional, t) str.
     bind_r (getTypeString n h t) (\<lambda>s.
       Inr (str @ name @ js_lit (if optional then ''?: '' else '': '') @ s @ suffix @ js_lit '','')))"

definition getShapeDesc :: "nat \<Rightarrow> type_heap \<Rightarrow> TSClass \<Rightarrow> js_string result" where
  "getShapeDesc n h c =
     fold_r (desc_part n h)
       (map (\<lambda>f. ([], fld_name f, fld_optional f, fld_type f)) (cls_fields c)
        @ map (\<lambda>m. (js_lit ''(m)'', cf_name m, cf_optional m, cf_type m))
            (filter (\<lambda>m. func_kind h (cf_type m) \<noteq> Some FunctionKind.STATIC) (cls_methods c)))
       []"

section \<open>Type ids\<close>

definition generateTypeId :: "js_string \<Rightarrow> resolver \<Rightarrow> int \<times> resolver" where
  "generateTypeId s r =
     (case map_get (rs_typeIdMap r) s of
        Some i \<Rightarrow> (i, r)
      | None \<Rightarrow>
          (rs_typeId r,
           r\<lparr>rs_typeId := rs_typeId r + 2, rs_typeIdMap := map_set s (rs_typeId r) (rs_typeIdMap r)\<rparr>))"

definition upd_class :: "type_id \<Rightarrow> (TSClass \<Rightarrow> TSClass) \<Rightarrow> resolver \<Rightarrow> resolver" where
  "upd_class t f r =
     (case rs_type r t of
        TSClass c \<Rightarrow> r\<lparr>rs_heap := set_type t (TSClass (f c)) (rs_heap r)\<rparr>
      | _ \<Rightarrow> r)"

text \<open>The assignments of a type id, the name of an unnamed class and the final status.\<close>

definition finish_class :: "int \<Rightarrow> TSClass \<Rightarrow> TSClass" where
  "finish_class i c =
     c\<lparr>cls_typeId := i,
       cls_name := (if cls_name c = [] then js_lit ''@object_type'' @ js_int i else cls_name c),
       cls_traverseStatus := PROCESSED\<rparr>"

definition status :: "resolver \<Rightarrow> type_id \<Rightarrow> TraverseStatus option" where
  "status r t = (case rs_type r t of TSClass c \<Rightarrow> Some (cls_traverseStatus c) | _ \<Rightarrow> None)"

definition start_group :: "type_id \<Rightarrow> resolver \<Rightarrow> resolver" where
  "start_group t r =
     (let r = upd_class t (finish_class (rs_typeId r)) r
      in r\<lparr>rs_typeId := rs_typeId r + 2, rs_loopEntry := Some t,
           rs_recGroupTypes := rs_recGroupTypes r @ [[]]\<rparr>)"

definition finish_visit :: "nat \<Rightarrow> type_id \<Rightarrow> resolver \<Rightarrow> resolver result" where
  "finish_visit n t r =
     (case rs_type r t of
        TSClass c \<Rightarrow>
          (if cls_traverseStatus c = VISITTED then
             bind_r (getShapeDesc n (rs_heap r) c) (\<lambda>s.
               let (i, r) = generateTypeId s r in Inr (upd_class t (finish_class i) r))
           else Inr r)
      | _ \<Rightarrow> Inl JSTypeError)"

definition join_group :: "type_id \<Rightarrow> resolver \<Rightarrow> resolver" where
  "join_group t r =
     (case rs_loopEntry r of
        None \<Rightarrow> r
      | Some e \<Rightarrow>
          r\<lparr>rs_recGroupTypes := butlast (rs_recGroupTypes r) @ [last (rs_recGroupTypes r) @ [t]],
            rs_loopEntry := (if t = e then None else Some e)\<rparr>)"

fun typeIdAllocate :: "nat \<Rightarrow> type_id \<Rightarrow> resolver \<Rightarrow> resolver result" where
  "typeIdAllocate 0 t r = Inl JSRangeError"
| "typeIdAllocate (Suc n) t r =
     (case status r t of
        Some PROCESSED \<Rightarrow> Inr r
      | Some VISITTED \<Rightarrow> Inr (start_group t r)
      | Some NOTVISITTED \<Rightarrow>
          (let r = upd_class t (cls_traverseStatus_update (\<lambda>_. VISITTED)) r
           in bind_r (fold_r (typeIdAllocate n)
                (case map_get (rs_typeRefsMap r) t of Some refs \<Rightarrow> refs | None \<Rightarrow> []) r) (\<lambda>r.
              bind_r (finish_visit n t r) (\<lambda>r.
                Inr (join_group t r))))
      | None \<Rightarrow> Inl JSTypeError)"

text \<open>The second and third pass of \<open>visit\<close> over the classes of \<open>symbolTypeMap\<close>.\<close>

definition visit_classes :: "nat \<Rightarrow> type_id list \<Rightarrow> resolver \<Rightarrow> resolver result" where
  "visit_classes n ts r =
     bind_r (fold_r (parseTypeRefRelationship n) ts r) (fold_r (typeIdAllocate n) ts)"

section \<open>The cache of specialised types\<close>

type_synonym special_cache = "(type_id, (js_string, type_id) js_map list) js_map"

definition type_args_of :: "type_heap \<Rightarrow> type_id \<Rightarrow> TSTypeWithArguments option" where
  "type_args_of h t =
     (case th_types h t of TSClass c \<Rightarrow> Some (cls_args c) | TSFunction f \<Rightarrow> Some (fn_args f) | _ \<Rightarrow> None)"

definition findTypeInSpecialiezedTypeCache ::
  "type_heap \<Rightarrow> special_cache \<Rightarrow> type_id \<Rightarrow> js_string \<Rightarrow> type_id option"
where
  "findTypeInSpecialiezedTypeCache h cache g signature =
     (let owner = (case Option.bind (type_args_of h g) ta_genericOwner of Some o' \<Rightarrow> o' | None \<Rightarrow> g);
          sig = (case th_types h g of TSClass c \<Rightarrow> cls_name c @ signature | _ \<Rightarrow> signature)
      in case map_get cache owner of
           None \<Rightarrow> None
         | Some ms \<Rightarrow> fold (\<lambda>m found. case map_get m sig of Some t \<Rightarrow> Some t | None \<Rightarrow> found) ms None)"

definition updateSpecializedTypeCache ::
  "type_id \<Rightarrow> js_string \<Rightarrow> type_id \<Rightarrow> special_cache \<Rightarrow> special_cache"
where
  "updateSpecializedTypeCache g sig t cache =
     map_set g ((case map_get cache g of Some ms \<Rightarrow> ms | None \<Rightarrow> []) @ [[(sig, t)]]) cache"

end
