(* ===== verification/TypeIdProofs.thy ===== *)
theory TypeIdProofs
  imports TypeIds
begin

text \<open>
  Properties of the allocation of type ids. The locale \<open>alloc_relation\<close> lifts a relation from the
  single steps of the depth first search to the whole search; its interpretations give what the
  search leaves unchanged (\<open>keeps\<close>) and the invariant of the ids (\<open>ids_ok\<close>). The search returns on
  every finite graph of classes. Two weaknesses of the scheme are shown: the description strings
  leave out the last parameter of a method, and a self reference inside a cycle destroys the
  recursive group.
\<close>

section \<open>Lemmas: description strings\<close>

text \<open>The part of the heap that the allocation does not change.\<close>

fun sk :: "ts_type \<Rightarrow> ts_type" where
  "sk (TSClass c) = TSClass (c\<lparr>cls_typeId := 0, cls_name := [], cls_traverseStatus := NOTVISITTED\<rparr>)"
| "sk t = t"

definition similar :: "type_heap \<Rightarrow> type_heap \<Rightarrow> bool" where
  "similar h h' \<longleftrightarrow> (\<forall>t. sk (th_types h t) = sk (th_types h' t))"

lemma similar_refl [simp]: "similar h h"
  by (simp add: similar_def)

lemma similar_sym: "similar h h' \<Longrightarrow> similar h' h"
  by (simp add: similar_def)

lemma similar_trans: "similar h h' \<Longrightarrow> similar h' h'' \<Longrightarrow> similar h h''"
  by (simp add: similar_def)

lemma sk_class:
  assumes "sk (TSClass c) = sk (TSClass c')"
  shows "cls_fields c = cls_fields c'" and "cls_methods c = cls_methods c'"
proof -
  let ?c = "\<lambda>t. case t of TSClass c \<Rightarrow> (cls_fields c, cls_methods c) | _ \<Rightarrow> ([], [])"
  from assms have "?c (sk (TSClass c)) = ?c (sk (TSClass c'))" by (rule arg_cong)
  then show "cls_fields c = cls_fields c'" "cls_methods c = cls_methods c'" by simp_all
qed

lemma similar_cases:
  assumes "similar h h'"
  obtains "th_types h' t = th_types h t" and "\<And>c. th_types h t \<noteq> TSClass c"
  | c c' where "th_types h t = TSClass c" and "th_types h' t = TSClass c'"
      and "cls_fields c' = cls_fields c" and "cls_methods c' = cls_methods c"
proof -
  from assms have eq: "sk (th_types h t) = sk (th_types h' t)" by (simp add: similar_def)
  show ?thesis
  proof (cases "\<exists>c. th_types h t = TSClass c")
    case True
    then obtain c where c: "th_types h t = TSClass c" by blast
    with eq obtain c' where "th_types h' t = TSClass c'" by (cases "th_types h' t") auto
    with c eq show ?thesis using that(2) [OF c, of c'] sk_class [of c c'] by simp
  next
    case False
    then have "sk (th_types h t) = th_types h t" by (cases "th_types h t") auto
    with eq False have "th_types h' t = th_types h t" by (cases "th_types h' t") auto
    with False show ?thesis by (intro that(1)) auto
  qed
qed

definition ok :: "'a result \<Rightarrow> bool" where
  "ok x \<longleftrightarrow> (\<exists>a. x = Inr a)"

lemma ok_simps [simp]: "ok (Inr a)" "\<not> ok (Inl e)" "ok (bind_r x f) \<longleftrightarrow> ok x \<and> (\<forall>a. x = Inr a \<longrightarrow> ok (f a))"
  by (auto simp: ok_def bind_r_Inr_iff)

lemma ok_ex: "(\<exists>a. x = Inr a) \<longleftrightarrow> ok x"
  by (simp add: ok_def)

lemma ok_map_r: "ok (map_r f xs) \<longleftrightarrow> (\<forall>x \<in> set xs. ok (f x))"
proof (induction xs)
  case (Cons x xs)
  then show ?case by (cases "f x") simp_all
qed simp

lemma toString_ok: "similar h h' \<Longrightarrow> ok (toString n h t) \<Longrightarrow> n \<le> m \<Longrightarrow> ok (toString m h' t)"
proof (induction n arbitrary: m t)
  case (Suc n)
  from Suc.prems(3) obtain k where m: "m = Suc k" and k: "n \<le> k" by (cases m) auto
  have IH: "ok (toString k h' u)" if "ok (toString n h u)" for u
    using Suc.IH [OF Suc.prems(1) that k] .
  then have IH': "ok (map_r (toString k h') us)" if "ok (map_r (toString n h) us)" for us
    using that by (simp add: ok_map_r)
  from Suc.prems(1) show ?case
  proof (cases rule: similar_cases [where t = t])
    case 1
    with Suc.prems(2) IH IH' show ?thesis
      unfolding m by (cases "th_types h t") (auto simp: ok_ex split: option.splits)
  next
    case 2
    then show ?thesis by (simp add: m)
  qed
qed simp

lemma getTypeString_ok:
  "similar h h' \<Longrightarrow> ok (getTypeString n h t) \<Longrightarrow> n \<le> m \<Longrightarrow> ok (getTypeString m h' t)"
proof (induction n arbitrary: m t)
  case (Suc n)
  from Suc.prems(3) obtain k where m: "m = Suc k" and k: "n \<le> k" by (cases m) auto
  have IH: "ok (getTypeString k h' u)" if "ok (getTypeString n h u)" for u
    using Suc.IH [OF Suc.prems(1) that k] .
  then have IH': "ok (map_r (getTypeString k h') us)" if "ok (map_r (getTypeString n h) us)" for us
    using that by (simp add: ok_map_r)
  have str: "ok (toString k h' u)" if "ok (toString n h u)" for u
    using toString_ok [OF Suc.prems(1) that k] .
  then have str': "ok (map_r (toString k h') us)" if "ok (map_r (toString n h) us)" for us
    using that by (simp add: ok_map_r)
  from Suc.prems(1) show ?case
  proof (cases rule: similar_cases [where t = t])
    case 1
    with Suc.prems(2) IH IH' str str' show ?thesis
      unfolding m by (cases "th_types h t") (auto simp: ok_ex Let_def split: if_splits)
  next
    case 2
    then show ?thesis by (simp add: m)
  qed
qed simp

lemma ok_desc_parts:
  "ok (fold_r (desc_part n h) ps str) \<longleftrightarrow> (\<forall>p \<in> set ps. ok (getTypeString n h (snd (snd (snd p)))))"
proof (induction ps arbitrary: str)
  case (Cons p ps)
  obtain s nm opt t where p: "p = (s, nm, opt, t)" by (cases p)
  have "desc_part n h p str = bind_r (getTypeString n h t) (\<lambda>x.
      Inr (str @ nm @ js_lit (if opt then ''?: '' else '': '') @ x @ s @ js_lit '',''))"
    by (simp add: p desc_part_def)
  then show ?case by (cases "getTypeString n h t") (simp_all add: Cons p)
qed simp

lemma func_kind_similar: "similar h h' \<Longrightarrow> func_kind h' t = func_kind h t"
  by (cases rule: similar_cases [where t = t]) (auto simp: func_kind_def)

definition described :: "nat \<Rightarrow> type_heap \<Rightarrow> type_id \<Rightarrow> bool" where
  "described n h t \<longleftrightarrow> (\<exists>c. th_types h t = TSClass c \<and> ok (getShapeDesc n h c))"

lemma described_similar: "described n h t \<Longrightarrow> similar h h' \<Longrightarrow> n \<le> m \<Longrightarrow> described m h' t"
proof -
  assume "described n h t" and sim: "similar h h'" and "n \<le> m"
  then obtain c where c: "th_types h t = TSClass c" and okc: "ok (getShapeDesc n h c)"
    by (auto simp: described_def)
  from sim c obtain c' where c': "th_types h' t = TSClass c'" "cls_fields c' = cls_fields c" "cls_methods c' = cls_methods c"
    by (cases rule: similar_cases [where t = t]) auto
  have "ok (getShapeDesc m h' c')"
    using okc getTypeString_ok [OF sim _ \<open>n \<le> m\<close>]
    unfolding getShapeDesc_def ok_desc_parts c'(2,3) func_kind_similar [OF sim] by (simp add: ball_Un)
  with c'(1) show ?thesis by (auto simp: described_def)
qed

section \<open>Allocation\<close>

lemma rs_type_upd_class:
  "rs_type (upd_class t f r) u =
     (if u = t then (case rs_type r t of TSClass c \<Rightarrow> TSClass (f c) | x \<Rightarrow> x) else rs_type r u)"
  by (auto simp: upd_class_def set_type_def split: ts_type.split)

lemma status_upd_class:
  "status (upd_class t f r) u =
     (if u = t then (case rs_type r t of TSClass c \<Rightarrow> Some (cls_traverseStatus (f c)) | _ \<Rightarrow> None) else status r u)"
  by (auto simp: status_def rs_type_upd_class split: ts_type.split)

lemma upd_class_same [simp]:
  "rs_typeId (upd_class t f r) = rs_typeId r" "rs_typeIdMap (upd_class t f r) = rs_typeIdMap r"
  "rs_typeRefsMap (upd_class t f r) = rs_typeRefsMap r" "rs_loopEntry (upd_class t f r) = rs_loopEntry r"
  "rs_recGroupTypes (upd_class t f r) = rs_recGroupTypes r"
  by (simp_all add: upd_class_def split: ts_type.split)

lemma join_group_same [simp]:
  "rs_heap (join_group t r) = rs_heap r" "rs_typeId (join_group t r) = rs_typeId r"
  "rs_typeIdMap (join_group t r) = rs_typeIdMap r" "rs_typeRefsMap (join_group t r) = rs_typeRefsMap r"
  "status (join_group t r) = status r"
  by (auto simp: join_group_def status_def fun_eq_iff split: option.split)

text \<open>
  A relation that holds for the single steps of the allocation holds for the whole recursion.
\<close>

locale alloc_relation =
  fixes R :: "resolver \<Rightarrow> resolver \<Rightarrow> bool"
  assumes R_refl: "R r r"
    and R_trans: "R r r' \<Longrightarrow> R r' r'' \<Longrightarrow> R r r''"
    and R_visit: "status r t = Some NOTVISITTED \<Longrightarrow>
      R r (upd_class t (cls_traverseStatus_update (\<lambda>_. VISITTED)) r)"
    and R_start: "status r t = Some VISITTED \<Longrightarrow> R r (start_group t r)"
    and R_finish: "finish_visit n t r = Inr r' \<Longrightarrow> R r r'"
    and R_join: "R r (join_group t r)"
begin

lemma fold_related:
  assumes "fold_r f xs r = Inr r'" and "\<And>x r r'. f x r = Inr r' \<Longrightarrow> R r r'"
  shows "R r r'"
  using fold_r_invariant [of f xs r r' "R r"] assms R_refl R_trans by blast

lemma allocate_related: "typeIdAllocate n t r = Inr r' \<Longrightarrow> R r r'"
proof (induction n arbitrary: t r r')
  case (Suc n)
  show ?case
  proof (cases "status r t")
    case (Some st)
    show ?thesis
    proof (cases st)
      case NOTVISITTED
      let ?r1 = "upd_class t (cls_traverseStatus_update (\<lambda>_. VISITTED)) r"
      from Suc.prems Some NOTVISITTED obtain r2 r3 where
        "fold_r (typeIdAllocate n) (case map_get (rs_typeRefsMap r) t of Some refs \<Rightarrow> refs | None \<Rightarrow> []) ?r1 = Inr r2"
        "finish_visit n t r2 = Inr r3" "r' = join_group t r3"
        by auto
      moreover from this(1) have "R ?r1 r2" by (rule fold_related) (rule Suc.IH)
      ultimately show ?thesis
        using R_visit [of r t] R_finish R_join R_trans Some NOTVISITTED by metis
    qed (use Suc.prems Some R_refl R_start in auto)
  qed (use Suc.prems in simp)
qed simp

lemma allocate_list_related: "fold_r (typeIdAllocate n) ts r = Inr r' \<Longrightarrow> R r r'"
  using fold_related allocate_related by blast

end

definition keeps :: "resolver \<Rightarrow> resolver \<Rightarrow> bool" where
  "keeps r r' \<longleftrightarrow> similar (rs_heap r) (rs_heap r') \<and> rs_typeRefsMap r' = rs_typeRefsMap r \<and>
     (\<forall>u. status r u = Some PROCESSED \<longrightarrow> rs_type r' u = rs_type r u) \<and>
     (\<forall>u. status r' u = Some NOTVISITTED \<longrightarrow> status r u = Some NOTVISITTED)"

lemma status_SomeE:
  assumes "status r t = Some s"
  obtains c where "rs_type r t = TSClass c" and "cls_traverseStatus c = s"
  using assms by (auto simp: status_def split: ts_type.splits)

lemma similar_upd_class:
  assumes "\<And>c. sk (TSClass (f c)) = sk (TSClass c)"
  shows "similar (rs_heap r) (rs_heap (upd_class t f r))"
  using assms unfolding similar_def rs_type_upd_class by (auto split: ts_type.split)

lemma keeps_upd_class:
  assumes "\<And>c. sk (TSClass (f c)) = sk (TSClass c)" and "\<And>c. cls_traverseStatus (f c) \<noteq> NOTVISITTED"
    and "status r t \<noteq> Some PROCESSED"
  shows "keeps r (upd_class t f r)"
proof -
  have "status (upd_class t f r) u = Some NOTVISITTED \<Longrightarrow> status r u = Some NOTVISITTED" for u
    using assms(2) by (auto simp: status_upd_class split: if_splits ts_type.splits)
  then show ?thesis
    using similar_upd_class [OF assms(1)] assms(3) unfolding keeps_def by (auto simp: rs_type_upd_class)
qed

lemma finish_class_simps [simp]:
  "sk (TSClass (finish_class i c)) = sk (TSClass c)" "cls_traverseStatus (finish_class i c) = PROCESSED"
  "cls_typeId (finish_class i c) = i" "cls_name (finish_class i c) \<noteq> []"
  by (simp_all add: finish_class_def js_lit_def)

lemma generateTypeId_same [simp]:
  "rs_heap (snd (generateTypeId s r)) = rs_heap r"
  "rs_typeRefsMap (snd (generateTypeId s r)) = rs_typeRefsMap r"
  by (simp_all add: generateTypeId_def split: option.split)

lemma finish_visit_cases:
  assumes "finish_visit n t r = Inr r'"
  obtains "status r t \<noteq> Some VISITTED" and "r' = r"
  | s where "status r t = Some VISITTED"
      and "r' = upd_class t (finish_class (fst (generateTypeId s r))) (snd (generateTypeId s r))"
proof (cases "rs_type r t")
  case (TSClass c)
  show ?thesis
  proof (cases "cls_traverseStatus c = VISITTED")
    case True
    with assms TSClass obtain s where "r' = upd_class t (finish_class (fst (generateTypeId s r))) (snd (generateTypeId s r))"
      by (auto simp: finish_visit_def case_prod_beta)
    moreover from True TSClass have "status r t = Some VISITTED" by (simp add: status_def)
    ultimately show ?thesis using that(2) by blast
  next
    case False
    with assms TSClass have "status r t \<noteq> Some VISITTED" "r' = r" by (simp_all add: finish_visit_def status_def)
    then show ?thesis by (rule that(1))
  qed
qed (use assms in \<open>simp_all add: finish_visit_def\<close>)

lemma keeps_same_heap:
  "rs_heap r' = rs_heap r \<Longrightarrow> rs_typeRefsMap r' = rs_typeRefsMap r \<Longrightarrow> keeps r r'"
  by (simp add: keeps_def status_def)

lemma keeps_trans: "keeps r r' \<Longrightarrow> keeps r' r'' \<Longrightarrow> keeps r r''"
proof -
  assume 1: "keeps r r'" and 2: "keeps r' r''"
  have "rs_type r'' u = rs_type r u" if "status r u = Some PROCESSED" for u
  proof -
    from 1 that have "rs_type r' u = rs_type r u" by (simp add: keeps_def)
    moreover from this that have "status r' u = Some PROCESSED" by (simp add: status_def)
    ultimately show ?thesis using 2 by (simp add: keeps_def)
  qed
  with 1 2 show ?thesis using similar_trans unfolding keeps_def by metis
qed

interpretation kept: alloc_relation keeps
proof
  fix r t
  show "status r t = Some NOTVISITTED \<Longrightarrow> keeps r (upd_class t (cls_traverseStatus_update (\<lambda>_. VISITTED)) r)"
    by (rule keeps_upd_class) simp_all
  show "keeps r (start_group t r)" if "status r t = Some VISITTED"
  proof -
    have "keeps r (upd_class t (finish_class (rs_typeId r)) r)"
      by (rule keeps_upd_class) (simp_all add: that del: sk.simps)
    moreover have "keeps (upd_class t (finish_class (rs_typeId r)) r) (start_group t r)"
      by (rule keeps_same_heap) (simp_all add: start_group_def Let_def)
    ultimately show ?thesis by (rule keeps_trans)
  qed
next
  fix n t r r'
  assume "finish_visit n t r = Inr r'"
  then show "keeps r r'"
  proof (cases rule: finish_visit_cases)
    case (2 s)
    let ?r = "snd (generateTypeId s r)"
    have "keeps r ?r" by (rule keeps_same_heap) simp_all
    moreover have "keeps ?r (upd_class t (finish_class (fst (generateTypeId s r))) ?r)"
      using 2(1) by (intro keeps_upd_class) (simp_all add: status_def del: sk.simps)
    ultimately show ?thesis unfolding 2(2) by (rule keeps_trans)
  qed (simp add: keeps_same_heap)
qed (auto intro: keeps_same_heap keeps_trans)

text \<open>A class that is allocated is finished, and no class is left open that was not open before.\<close>

lemma status_keeps:
  assumes "keeps r r'"
  shows "status r u = Some PROCESSED \<Longrightarrow> status r' u = Some PROCESSED"
    and "status r u = Some VISITTED \<Longrightarrow> status r' u = Some VISITTED \<or> status r' u = Some PROCESSED"
proof -
  show "status r u = Some PROCESSED \<Longrightarrow> status r' u = Some PROCESSED"
    using assms unfolding keeps_def status_def by metis
  assume "status r u = Some VISITTED"
  then obtain c where "rs_type r u = TSClass c" by (rule status_SomeE)
  moreover from assms have "similar (rs_heap r) (rs_heap r')" by (simp add: keeps_def)
  ultimately have "\<exists>c'. rs_type r' u = TSClass c'"
    by (elim similar_cases [where t = u]) auto
  then obtain s where s: "status r' u = Some s" by (auto simp: status_def)
  moreover have "s \<noteq> NOTVISITTED"
    using assms s \<open>status r u = Some VISITTED\<close> unfolding keeps_def by auto
  ultimately show "status r' u = Some VISITTED \<or> status r' u = Some PROCESSED" by (cases s) auto
qed

lemma status_start_group:
  "status r t \<noteq> None \<Longrightarrow> status (start_group t r) u = (if u = t then Some PROCESSED else status r u)"
proof -
  assume "status r t \<noteq> None"
  then obtain c where "rs_type r t = TSClass c" by (auto simp: status_def split: ts_type.splits)
  moreover have "status (start_group t r) u = status (upd_class t (finish_class (rs_typeId r)) r) u"
    by (simp add: start_group_def Let_def status_def)
  ultimately show ?thesis by (simp add: status_upd_class finish_class_def)
qed

lemma status_finish_visit:
  assumes "finish_visit n t r = Inr r'" and "status r t \<noteq> Some NOTVISITTED"
  shows "status r' u = (if u = t then Some PROCESSED else status r u)"
  using assms(1)
proof (cases rule: finish_visit_cases)
  case 1
  from assms(1) have "status r t \<noteq> None" by (auto simp: finish_visit_def status_def split: ts_type.splits)
  then obtain s where "status r t = Some s" by blast
  with 1 assms(2) show ?thesis by (cases s) auto
next
  case (2 s)
  from 2(1) obtain c where "rs_type r t = TSClass c" by (rule status_SomeE)
  then show ?thesis by (simp add: 2(2) status_upd_class finish_class_def) (simp add: status_def)
qed

definition open_classes :: "resolver \<Rightarrow> type_id set" where
  "open_classes r = {u. status r u = Some VISITTED}"

lemma allocate_status:
  "typeIdAllocate n t r = Inr r' \<Longrightarrow> status r' t = Some PROCESSED \<and> open_classes r' \<subseteq> open_classes r"
proof (induction n arbitrary: t r r')
  case (Suc n)
  show ?case
  proof (cases "status r t")
    case (Some st)
    show ?thesis
    proof (cases st)
      case NOTVISITTED
      let ?r1 = "upd_class t (cls_traverseStatus_update (\<lambda>_. VISITTED)) r"
      from Suc.prems Some NOTVISITTED obtain r2 r3 where
        r2: "fold_r (typeIdAllocate n) (case map_get (rs_typeRefsMap r) t of Some refs \<Rightarrow> refs | None \<Rightarrow> []) ?r1 = Inr r2"
        and r3: "finish_visit n t r2 = Inr r3" "r' = join_group t r3"
        by auto
      from Some obtain c where "rs_type r t = TSClass c" by (rule status_SomeE)
      then have st1: "status ?r1 u = (if u = t then Some VISITTED else status r u)" for u
        by (simp add: status_upd_class)
      have sub: "open_classes r2 \<subseteq> open_classes ?r1"
        using r2 by (rule fold_r_invariant [where P = "\<lambda>x. open_classes x \<subseteq> open_classes ?r1"]) (use Suc.IH in blast)+
      have "status r2 t \<noteq> Some NOTVISITTED"
        using status_keeps(2) [OF kept.allocate_list_related [OF r2], of t] st1 [of t] by auto
      from status_finish_visit [OF r3(1) this] have "status r' u = (if u = t then Some PROCESSED else status r2 u)" for u
        by (simp add: r3(2))
      then show ?thesis using sub st1 unfolding open_classes_def by auto
    qed (use Suc.prems Some in \<open>auto simp: open_classes_def status_start_group split: if_splits\<close>)
  qed (use Suc.prems in simp)
qed simp

section \<open>The ids\<close>

text \<open>
  Ids start at \<open>lo\<close> and go up in steps of two. The map gives different strings different ids,
  and a finished class has an id that was handed out and a name.
\<close>

definition id_range :: "int \<Rightarrow> resolver \<Rightarrow> int \<Rightarrow> bool" where
  "id_range lo r i \<longleftrightarrow> lo \<le> i \<and> i < rs_typeId r \<and> even (i - lo)"

definition ids_ok :: "int \<Rightarrow> resolver \<Rightarrow> bool" where
  "ids_ok lo r \<longleftrightarrow> lo \<le> rs_typeId r \<and> even (rs_typeId r - lo) \<and>
     (\<forall>s i. map_get (rs_typeIdMap r) s = Some i \<longrightarrow> id_range lo r i) \<and>
     (\<forall>s s' i. map_get (rs_typeIdMap r) s = Some i \<longrightarrow> map_get (rs_typeIdMap r) s' = Some i \<longrightarrow> s = s') \<and>
     (\<forall>u c. rs_type r u = TSClass c \<longrightarrow> cls_traverseStatus c = PROCESSED \<longrightarrow>
        id_range lo r (cls_typeId c) \<and> cls_name c \<noteq> [])"

lemma ids_ok_generate:
  assumes "ids_ok lo r"
  shows "ids_ok lo (snd (generateTypeId s r))"
    and "id_range lo (snd (generateTypeId s r)) (fst (generateTypeId s r))"
    and "map_get (rs_typeIdMap (snd (generateTypeId s r))) s = Some (fst (generateTypeId s r))"
proof -
  have less: "id_range lo r i \<Longrightarrow> i < rs_typeId r" for i by (simp add: id_range_def)
  have up: "id_range lo r i \<Longrightarrow> id_range lo (snd (generateTypeId s r)) i" for i
    by (auto simp: id_range_def generateTypeId_def split: option.split)
  show "ids_ok lo (snd (generateTypeId s r))"
  proof (cases "map_get (rs_typeIdMap r) s")
    case None
    have new: "id_range lo (snd (generateTypeId s r)) (rs_typeId r)"
      using assms by (simp add: ids_ok_def id_range_def generateTypeId_def None)
    have old: "map_get (rs_typeIdMap r) s' = Some i \<Longrightarrow> i \<noteq> rs_typeId r" for s' i
      using assms less unfolding ids_ok_def by blast
    show ?thesis
      unfolding ids_ok_def
    proof (intro conjI allI impI)
      show "lo \<le> rs_typeId (snd (generateTypeId s r))" "even (rs_typeId (snd (generateTypeId s r)) - lo)"
        using assms by (simp_all add: ids_ok_def generateTypeId_def None)
    next
      fix x i
      assume "map_get (rs_typeIdMap (snd (generateTypeId s r))) x = Some i"
      then have "i = rs_typeId r \<or> map_get (rs_typeIdMap r) x = Some i"
        by (auto simp: generateTypeId_def None split: if_splits)
      with new show "id_range lo (snd (generateTypeId s r)) i"
        using assms up unfolding ids_ok_def by blast
    next
      fix x y i
      assume "map_get (rs_typeIdMap (snd (generateTypeId s r))) x = Some i"
        "map_get (rs_typeIdMap (snd (generateTypeId s r))) y = Some i"
      with old show "x = y"
        using assms by (auto simp: generateTypeId_def None ids_ok_def split: if_splits)
    next
      fix u c
      assume "rs_type (snd (generateTypeId s r)) u = TSClass c" "cls_traverseStatus c = PROCESSED"
      with assms up show "id_range lo (snd (generateTypeId s r)) (cls_typeId c)" "cls_name c \<noteq> []"
        by (auto simp: ids_ok_def)
    qed
  qed (use assms in \<open>simp add: generateTypeId_def\<close>)
  show "id_range lo (snd (generateTypeId s r)) (fst (generateTypeId s r))"
    using assms by (auto simp: generateTypeId_def ids_ok_def id_range_def split: option.split)
  show "map_get (rs_typeIdMap (snd (generateTypeId s r))) s = Some (fst (generateTypeId s r))"
    by (simp add: generateTypeId_def split: option.split)
qed

lemma ids_ok_upd_class:
  assumes "ids_ok lo r"
    and "\<And>c. cls_traverseStatus (f c) = PROCESSED \<Longrightarrow> id_range lo r (cls_typeId (f c)) \<and> cls_name (f c) \<noteq> []"
  shows "ids_ok lo (upd_class t f r)"
  using assms unfolding ids_ok_def id_range_def rs_type_upd_class
  by (auto split: if_splits ts_type.splits)

lemma ids_ok_more:
  assumes "ids_ok lo r" and "rs_heap r' = rs_heap r" and "rs_typeIdMap r' = rs_typeIdMap r"
    and "rs_typeId r' = rs_typeId r \<or> rs_typeId r' = rs_typeId r + 2"
  shows "ids_ok lo r'"
proof -
  have "id_range lo r i \<Longrightarrow> id_range lo r' i" for i using assms(4) by (auto simp: id_range_def)
  moreover have "lo \<le> rs_typeId r'" "even (rs_typeId r' - lo)" using assms(1,4) by (auto simp: ids_ok_def)
  ultimately show ?thesis using assms(1) unfolding ids_ok_def assms(2,3) by blast
qed

interpretation ids_kept: alloc_relation "\<lambda>r r'. ids_ok lo r \<longrightarrow> ids_ok lo r'" for lo
proof
  fix r t
  show "ids_ok lo r \<longrightarrow> ids_ok lo (upd_class t (cls_traverseStatus_update (\<lambda>_. VISITTED)) r)"
    by (auto intro: ids_ok_upd_class)
  show "ids_ok lo r \<longrightarrow> ids_ok lo (start_group t r)" if "status r t = Some VISITTED"
  proof
    assume okr: "ids_ok lo r"
    let ?r = "r\<lparr>rs_typeId := rs_typeId r + 2\<rparr>"
    have "ids_ok lo ?r" using okr by (rule ids_ok_more) simp_all
    moreover have "id_range lo ?r (rs_typeId r)" using okr by (simp add: ids_ok_def id_range_def)
    ultimately have "ids_ok lo (upd_class t (finish_class (rs_typeId r)) ?r)"
      by (intro ids_ok_upd_class) simp_all
    then show "ids_ok lo (start_group t r)"
      by (rule ids_ok_more) (simp_all add: start_group_def Let_def upd_class_def split: ts_type.split)
  qed
  show "ids_ok lo r \<longrightarrow> ids_ok lo (join_group t r)" by (auto elim: ids_ok_more)
next
  fix n t r r'
  assume "finish_visit n t r = Inr r'"
  then show "ids_ok lo r \<longrightarrow> ids_ok lo r'"
  proof (cases rule: finish_visit_cases)
    case (2 s)
    show ?thesis
      unfolding 2(2) using ids_ok_generate by (auto intro!: ids_ok_upd_class)
  qed simp
qed auto

section \<open>The allocation returns\<close>

definition class_refs :: "resolver \<Rightarrow> type_id \<Rightarrow> type_id list" where
  "class_refs r t = (case map_get (rs_typeRefsMap r) t of Some refs \<Rightarrow> refs | None \<Rightarrow> [])"

text \<open>
  \<open>S\<close> is a set of classes that is closed under references; their descriptions can be computed
  with call depth \<open>m\<close>.
\<close>

definition class_graph :: "nat \<Rightarrow> type_id set \<Rightarrow> resolver \<Rightarrow> bool" where
  "class_graph m S r \<longleftrightarrow> finite S \<and> (\<forall>t \<in> S. described m (rs_heap r) t \<and> set (class_refs r t) \<subseteq> S)"

lemma class_graph_keeps: "class_graph m S r \<Longrightarrow> keeps r r' \<Longrightarrow> class_graph m S r'"
  unfolding class_graph_def keeps_def class_refs_def using described_similar by fastforce

definition unvisited :: "type_id set \<Rightarrow> resolver \<Rightarrow> type_id set" where
  "unvisited S r = {u \<in> S. status r u = Some NOTVISITTED}"

lemma unvisited_keeps: "keeps r r' \<Longrightarrow> unvisited S r' \<subseteq> unvisited S r"
  by (auto simp: unvisited_def keeps_def)

lemma fold_ok_result:
  assumes "I s" and "\<And>x s. x \<in> set xs \<Longrightarrow> I s \<Longrightarrow> ok (f x s)"
    and "\<And>x s s'. x \<in> set xs \<Longrightarrow> I s \<Longrightarrow> f x s = Inr s' \<Longrightarrow> I s'"
  shows "ok (fold_r f xs s)"
  using assms
proof (induction xs arbitrary: s)
  case (Cons x xs)
  from Cons.prems(1,2) obtain s' where s': "f x s = Inr s'" by (force simp: ok_def)
  with Cons.prems(1,3) have "I s'" by (meson list.set_intros(1))
  then have "ok (fold_r f xs s')" using Cons.IH Cons.prems(2,3) by (meson list.set_intros(2))
  then show ?case by (simp add: s')
qed simp

lemma finish_visit_ok: "described n (rs_heap r) t \<Longrightarrow> ok (finish_visit n t r)"
  by (auto simp: described_def finish_visit_def ok_def split: prod.splits)

lemma allocate_ok:
  "class_graph m S r \<Longrightarrow> t \<in> S \<Longrightarrow> m + card (unvisited S r) < n \<Longrightarrow> ok (typeIdAllocate n t r)"
proof (induction n arbitrary: t r)
  case (Suc n)
  from Suc.prems(1,2) obtain c where c: "rs_type r t = TSClass c" by (auto simp: class_graph_def described_def)
  show ?case
  proof (cases "status r t = Some NOTVISITTED")
    case True
    let ?r1 = "upd_class t (cls_traverseStatus_update (\<lambda>_. VISITTED)) r"
    have fin: "finite (unvisited S r)" using Suc.prems(1) by (simp add: class_graph_def unvisited_def)
    have k1: "keeps r ?r1" using kept.R_visit [OF True] .
    have "unvisited S ?r1 \<subset> unvisited S r"
      using unvisited_keeps [OF k1, of S] True Suc.prems(2) c by (auto simp: unvisited_def status_upd_class)
    from psubset_card_mono [OF fin this] Suc.prems(3) have less: "m + card (unvisited S ?r1) < n" by simp
    have "ok (fold_r (typeIdAllocate n) (class_refs r t) ?r1)"
    proof (rule fold_ok_result [where I = "keeps ?r1"])
      show "keeps ?r1 ?r1" by (rule kept.R_refl)
      show "keeps ?r1 s'" if "keeps ?r1 s" "typeIdAllocate n x s = Inr s'" for x s s'
        using that kept.allocate_related keeps_trans by blast
      fix x s
      assume x: "x \<in> set (class_refs r t)" and s: "keeps ?r1 s"
      have "finite (unvisited S ?r1)" using fin \<open>unvisited S ?r1 \<subset> unvisited S r\<close> finite_subset by blast
      from card_mono [OF this unvisited_keeps [OF s]] less have "m + card (unvisited S s) < n" by simp
      moreover have "class_graph m S s" using Suc.prems(1) k1 s class_graph_keeps by blast
      moreover have "x \<in> S" using x Suc.prems(1,2) by (auto simp: class_graph_def)
      ultimately show "ok (typeIdAllocate n x s)" using Suc.IH by blast
    qed
    then obtain r2 where r2: "fold_r (typeIdAllocate n) (class_refs r t) ?r1 = Inr r2" by (auto simp: ok_def)
    with kept.allocate_list_related k1 keeps_trans have "class_graph m S r2"
      using Suc.prems(1) class_graph_keeps by blast
    then have "described m (rs_heap r2) t" using Suc.prems(2) by (simp add: class_graph_def)
    moreover have "m \<le> n" using less by linarith
    ultimately have "described n (rs_heap r2) t" using described_similar similar_refl by blast
    then have "ok (finish_visit n t r2)" by (rule finish_visit_ok)
    then obtain r3 where "finish_visit n t r2 = Inr r3" by (auto simp: ok_def)
    with r2 have "typeIdAllocate (Suc n) t r = Inr (join_group t r3)"
      by (simp add: class_refs_def True)
    then show ?thesis by (simp only: ok_simps)
  next
    case False
    then show ?thesis using c by (cases "cls_traverseStatus c") (simp_all add: status_def)
  qed
qed simp

section \<open>Properties\<close>

lemma fold_allocate_status:
  "fold_r (typeIdAllocate n) ts r = Inr r' \<Longrightarrow> (\<forall>t \<in> set ts. status r' t = Some PROCESSED)"
proof (induction ts arbitrary: r)
  case (Cons t ts)
  from Cons.prems obtain r1 where r1: "typeIdAllocate n t r = Inr r1" "fold_r (typeIdAllocate n) ts r1 = Inr r'" by auto
  from allocate_status [OF r1(1)] have "status r1 t = Some PROCESSED" by simp
  then have "status r' t = Some PROCESSED"
    using kept.allocate_list_related [OF r1(2)] status_keeps(1) by blast
  with Cons.IH [OF r1(2)] show ?case by simp
qed simp

text \<open>
  C22. The allocation of type ids completes, also on classes that refer to each other in cycles:
  given a call depth above the depth of the descriptions plus the number of classes, the pass
  over the classes returns, and then every class is processed, no class is left half visited,
  every processed class has a name and an id that was handed out, and different description
  strings have different ids.
\<close>

theorem allocation_completes:
  assumes "class_graph m S r" and "set ts \<subseteq> S" and "open_classes r = {}" and "ids_ok lo r"
    and "m + card S < n"
  shows "\<exists>r'. fold_r (typeIdAllocate n) ts r = Inr r' \<and> (\<forall>t \<in> set ts. status r' t = Some PROCESSED) \<and>
    open_classes r' = {} \<and> ids_ok lo r'"
proof -
  have fin: "finite S" using assms(1) by (simp add: class_graph_def)
  have "ok (fold_r (typeIdAllocate n) ts r)"
  proof (rule fold_ok_result [where I = "keeps r"])
    fix x s
    assume x: "x \<in> set ts" and s: "keeps r s"
    have "card (unvisited S s) \<le> card S" using fin by (intro card_mono) (auto simp: unvisited_def)
    then show "ok (typeIdAllocate n x s)"
      using allocate_ok [OF class_graph_keeps [OF assms(1) s]] x assms(2,5) by fastforce
  qed (use kept.R_refl kept.R_trans kept.allocate_related in blast)+
  then obtain r' where r': "fold_r (typeIdAllocate n) ts r = Inr r'" by (auto simp: ok_def)
  have "open_classes r' \<subseteq> open_classes r"
    using r' by (rule fold_r_invariant [where P = "\<lambda>x. open_classes x \<subseteq> open_classes r"]) (use allocate_status in blast)+
  moreover have "ids_ok lo r'" using ids_kept.allocate_list_related [OF r'] assms(4) by simp
  ultimately show ?thesis using r' fold_allocate_status [OF r'] assms(3) by auto
qed

text \<open>Two classes whose fields refer to each other, with the references found by the first pass.\<close>

definition cyclic_class :: "js_string \<Rightarrow> type_id \<Rightarrow> TSClass" where
  "cyclic_class name t = new_TSClass\<lparr>cls_name := name, cls_fields :=
     [\<lparr>fld_name = js_lit ''f'', fld_type = t, fld_readonly = False, fld_visibility = None,
       fld_static = False, fld_optional = False\<rparr>]\<rparr>"

definition cyclic_resolver :: resolver where
  "cyclic_resolver =
     \<lparr>rs_heap = \<lparr>th_types = (th_types new_type_heap)(20 := TSClass (cyclic_class [65] 21),
                              21 := TSClass (cyclic_class [] 20)), th_next = 22\<rparr>,
      rs_typeId = 1000, rs_typeIdMap = [], rs_recGroupTypes = [], rs_loopEntry = None,
      rs_typeRefsMap = [(20, [21]), (21, [20])]\<rparr>"

lemma cyclic_type:
  "rs_type cyclic_resolver t = (if t = 20 then TSClass (cyclic_class [65] 21) else if t = 21
     then TSClass (cyclic_class [] 20) else th_types new_type_heap t)"
  by (simp add: cyclic_resolver_def)

lemma builtin_no_class: "th_types new_type_heap t \<noteq> TSClass c"
proof (cases "t < length builtin_objects")
  case True
  then have "th_types new_type_heap t \<in> set builtin_objects" by (simp add: new_type_heap_def)
  then show ?thesis by (auto simp: builtin_objects_def)
qed (simp add: new_type_heap_def)

theorem allocation_completes_witness:
  "\<exists>r'. fold_r (typeIdAllocate 10) [20, 21] cyclic_resolver = Inr r' \<and>
    (\<forall>t \<in> set [20, 21]. status r' t = Some PROCESSED) \<and> open_classes r' = {} \<and> ids_ok 1000 r'"
proof (rule allocation_completes)
  have "described 1 (rs_heap cyclic_resolver) 20" "described 1 (rs_heap cyclic_resolver) 21"
    by (simp_all add: described_def cyclic_type cyclic_class_def getShapeDesc_def desc_part_def new_TSClass_def)
  then show "class_graph 1 {20, 21} cyclic_resolver"
    by (simp add: class_graph_def class_refs_def cyclic_resolver_def)
  show "open_classes cyclic_resolver = {}"
    using builtin_no_class
    by (auto simp: open_classes_def status_def cyclic_type cyclic_class_def new_TSClass_def split: ts_type.splits if_splits)
  have "cls_traverseStatus c \<noteq> PROCESSED" if "rs_type cyclic_resolver u = TSClass c" for u c
    using that builtin_no_class [of u c] by (auto simp: cyclic_type cyclic_class_def new_TSClass_def split: if_splits)
  then show "ids_ok 1000 cyclic_resolver"
    by (auto simp: ids_ok_def cyclic_resolver_def)
qed simp_all

section \<open>Descriptions that are not precise enough\<close>

text \<open>Two function types that differ at most in the type of their last parameter.\<close>

definition same_but_last :: "type_heap \<Rightarrow> type_id \<Rightarrow> type_id \<Rightarrow> bool" where
  "same_but_last h t u \<longleftrightarrow> (\<exists>f g. th_types h t = TSFunction f \<and> th_types h u = TSFunction g \<and>
     \<not> hasRest f \<and> \<not> hasRest g \<and> fn_funcKind f = fn_funcKind g \<and>
     length (fn_parameterTypes f) = length (fn_parameterTypes g) \<and>
     butlast (fn_parameterTypes f) = butlast (fn_parameterTypes g) \<and>
     fn_isOptionalParams f = fn_isOptionalParams g \<and> fn_returnType f = fn_returnType g)"

lemma getTypeString_same_but_last: "same_but_last h t u \<Longrightarrow> getTypeString n h t = getTypeString n h u"
proof (cases n)
  case (Suc k)
  assume "same_but_last h t u"
  then obtain f g where "th_types h t = TSFunction f" "th_types h u = TSFunction g" "\<not> hasRest f" "\<not> hasRest g"
    and eq: "length (fn_parameterTypes f) = length (fn_parameterTypes g)"
      "butlast (fn_parameterTypes f) = butlast (fn_parameterTypes g)"
      "fn_isOptionalParams f = fn_isOptionalParams g" "fn_returnType f = fn_returnType g"
    by (auto simp: same_but_last_def)
  moreover from eq(1) have "fn_parameterTypes f = [] \<longleftrightarrow> fn_parameterTypes g = []" by (metis length_0_conv)
  ultimately show ?thesis by (simp add: Suc Let_def)
qed simp

lemma fold_desc_map_cong:
  assumes "list_all2 (\<lambda>p q. fst p = fst q \<and> fst (snd p) = fst (snd q) \<and> fst (snd (snd p)) = fst (snd (snd q)) \<and>
    getTypeString n h (snd (snd (snd p))) = getTypeString n h (snd (snd (snd q)))) ps qs"
  shows "fold_r (desc_part n h) ps s = fold_r (desc_part n h) qs s"
  using assms
proof (induction arbitrary: s rule: list_all2_induct)
  case (Cons p ps q qs)
  then have "desc_part n h p s = desc_part n h q s" for s
    by (auto simp: desc_part_def split: prod.splits)
  then show ?case using Cons.IH by (simp add: bind_r_def split: sum.split)
qed simp


definition one_param_method :: "type_id \<Rightarrow> ts_type" where
  "one_param_method t = TSFunction
     \<lparr>fn_args = new_TSTypeWithArguments, fn_funcKind = FunctionKind.METHOD, fn_parameterTypes = [t],
      fn_isOptionalParams = [False], fn_returnType = 5, fn_restParamIdx = -1, fn_isMethod = True,
      fn_isDeclare = False, fn_isStatic = False, fn_isBinaryenImpl = False, fn_isExport = False,
      fn_belongedClass = None\<rparr>"

definition one_method_class :: "type_id \<Rightarrow> TSClass" where
  "one_method_class t = new_TSClass\<lparr>cls_methods := [\<lparr>cf_name = js_lit ''m'', cf_type = t, cf_optional = False\<rparr>]\<rparr>"

definition two_methods_heap :: type_heap where
  "two_methods_heap = new_type_heap\<lparr>th_types :=
     (th_types new_type_heap)(20 := one_param_method builtin_number, 21 := one_param_method builtin_string)\<rparr>"

text \<open>Both classes are described by \<open>m: ()=>void(m),\<close>.\<close>

lemma one_method_desc:
  "t = 20 \<or> t = 21 \<Longrightarrow>
   getShapeDesc 5 two_methods_heap (one_method_class t) = Inr (js_lit ''m: ()=>void(m),'')"
proof -
  assume t: "t = 20 \<or> t = 21"
  have ret: "getTypeString (Suc n) two_methods_heap 5 = toString n two_methods_heap 5" for n
    by (simp add: two_methods_heap_def new_type_heap_def builtin_objects_def)
  moreover have "toString (Suc n) two_methods_heap 5 = Inr (js_lit ''void'')" for n
    by (simp add: two_methods_heap_def new_type_heap_def builtin_objects_def)
  moreover have "getTypeString (Suc n) two_methods_heap t
      = bind_r (getTypeString n two_methods_heap 5) (\<lambda>r. Inr (js_lit ''()=>'' @ r))" for n
    using t by (auto simp: two_methods_heap_def one_param_method_def hasRest_def param_strings_def js_lit_def
        enumerate_eq_zip)
  ultimately have "getTypeString 5 two_methods_heap t = Inr (js_lit ''()=>void'')"
    by (simp add: eval_nat_numeral js_lit_def)
  then show ?thesis
    using t
    by (auto simp: getShapeDesc_def one_method_class_def new_TSClass_def desc_part_def func_kind_def
        two_methods_heap_def one_param_method_def js_lit_def)
qed


text \<open>
  The name of a context type is always the same, so that a scope with a context type in its map
  of types never gets a second one.
\<close>

lemma context_name_constant:
  assumes "th_types h t = TSContext p fs" and "toString n h t = Inr s"
  shows "s = js_lit ''ContextType''"
  using assms by (cases n) auto

text \<open>
  A recursive group is lost when a class inside a cycle also refers to itself: for \<open>A\<close> with a
  field of type \<open>B\<close> and \<open>B\<close> with fields of type \<open>A\<close> and \<open>B\<close>, the group of \<open>A\<close> stays empty and the
  second group holds \<open>B\<close> alone, because the inner self reference replaces \<open>loopEntry\<close>.
\<close>

definition nested_loop_resolver :: resolver where
  "nested_loop_resolver = cyclic_resolver\<lparr>rs_typeRefsMap := [(20, [21]), (21, [20, 21])]\<rparr>"

theorem nested_loop_loses_group:
  "\<exists>r'. typeIdAllocate 5 20 nested_loop_resolver = Inr r' \<and> rs_recGroupTypes r' = [[], [21]]"
  by (simp add: nested_loop_resolver_def cyclic_resolver_def cyclic_class_def new_TSClass_def
      status_def upd_class_def set_type_def start_group_def finish_visit_def join_group_def
      finish_class_def getShapeDesc_def desc_part_def eval_nat_numeral generateTypeId_def)

text \<open>A plain cycle of two classes forms one group.\<close>

lemma plain_loop_group:
  "\<exists>r'. typeIdAllocate 5 20 cyclic_resolver = Inr r' \<and> rs_recGroupTypes r' = [[21, 20]]"
  by (simp add: cyclic_resolver_def cyclic_class_def new_TSClass_def
      status_def upd_class_def set_type_def start_group_def finish_visit_def join_group_def
      finish_class_def getShapeDesc_def desc_part_def eval_nat_numeral generateTypeId_def)

text \<open>What was stored last for a generic type and a signature is found again.\<close>

lemma special_cache_find:
  assumes "case th_types h g of TSClass c \<Rightarrow> cls_name c @ signature = sig | _ \<Rightarrow> signature = sig"
    and "Option.bind (type_args_of h g) ta_genericOwner = None"
  shows "findTypeInSpecialiezedTypeCache h (updateSpecializedTypeCache g sig t cache) g signature = Some t"
  using assms by (auto simp: findTypeInSpecialiezedTypeCache_def updateSpecializedTypeCache_def split: ts_type.splits)

end
