(* ===== verification/Scopes.thy ===== *)
theory Scopes
  imports TsTypes
begin

text \<open>
  \<open>src/src/scope.ts\<close> without the scanner, and the data of \<open>src/src/variable.ts\<close>: the tree of scopes
  of a program with its variables, and the searches for names.

  \<^item> Scopes and variables are mutable and shared, so they live in \<open>fe_heap\<close> together with the
    types. The fields of all subclasses of \<open>Scope\<close> are the fields of one record; the class of an
    object is its \<open>kind\<close>.
  \<^item> The searches walk up the parents and, through imports, into other modules. Their first
    argument is the depth of the call stack as in \<open>TsTypes\<close>.
\<close>

section \<open>Data\<close>

type_synonym var_id = nat

datatype ScopeKind = Scope | GlobalScope | FunctionScope | BlockScope | ClassScope | NamespaceScope

datatype importSearchTypes = Variable | Type | Function | Namespace | Class | All

text \<open>The modifiers that the code looks at; a decorator carries the text of its expression.\<close>

datatype SyntaxKind =
    DeclareKeyword | AbstractKeyword | DefaultKeyword | ExportKeyword | StaticKeyword
  | ReadonlyKeyword | Decorator js_string | OtherModifier

datatype ModifierKind = Default | Const | Let | Var

datatype var_modifier = VarKind ModifierKind | VarSyntax SyntaxKind

text \<open>An expression is only distinguished by whether it is an identifier.\<close>

datatype fe_expr = IdentifierExpression js_string | OtherExpression nat

record Variable =
  v_name :: js_string
  v_type :: type_id
  v_modifiers :: "var_modifier list"
  v_index :: int
  v_isLocal :: bool
  v_init :: "fe_expr option"
  v_isClosure :: bool
  v_mangledName :: js_string
  v_scope :: "scope_id option"
  v_belongCtx :: "var_id option"
  v_closureIndex :: "nat option"
  v_initContext :: "var_id option"
  v_isOptional :: bool \<comment> \<open>of a parameter\<close>
  v_isDestructuring :: bool
  v_needReBinding :: bool

record scope =
  sc_kind :: ScopeKind
  sc_name :: js_string
  sc_children :: "scope_id list"
  sc_parent :: "scope_id option"
  sc_namedTypeMap :: "(js_string, type_id) js_map"
  sc_debugFilePath :: js_string
  sc_tempVarArray :: "var_id list"
  sc_variableArray :: "var_id list"
  sc_statementArray :: "nat list"
  sc_localIndex :: int
  sc_mangledName :: js_string
  sc_modifiers :: "SyntaxKind list"
  sc_genericOwner :: "scope_id option"
  sc_specializedScopes :: "(js_string, scope_id) js_map option"
  \<comment> \<open>closure environments\<close>
  sc_hasFreeVar :: bool
  sc_contextVariable :: "var_id option"
  \<comment> \<open>global scopes\<close>
  sc_startFuncName :: js_string
  sc_identifierModuleImportMap :: "(js_string, scope_id) js_map"
  sc_nameScopeModuleImportMap :: "(js_string, scope_id) js_map"
  sc_nameAliasImportMap :: "(js_string, js_string) js_map"
  sc_nameAliasExportMap :: "(js_string, js_string) js_map"
  sc_exportIdentifierList :: "fe_expr list"
  sc_defaultModuleImportMap :: "(js_string, scope_id) js_map"
  sc_defaultExpr :: "fe_expr option"
  sc_declareIdentifierList :: "js_string list"
  sc_importGlobalScopeList :: "scope_id list"
  \<comment> \<open>function scopes; the function type is also the start function of a global scope\<close>
  sc_parameterArray :: "var_id list"
  sc_functionType :: "type_id option"
  sc_className :: js_string
  sc_realParamCtxType :: "type_id option"
  sc_oriFuncName :: "js_string option"
  \<comment> \<open>block scopes\<close>
  sc_funcScope :: "scope_id option"
  \<comment> \<open>class scopes\<close>
  sc_classType :: "type_id option"

record fe_heap =
  fe_types :: type_heap
  fe_scopes :: "scope_id \<Rightarrow> scope"
  fe_nextScope :: scope_id
  fe_vars :: "var_id \<Rightarrow> Variable"
  fe_nextVar :: var_id

abbreviation fe_type :: "fe_heap \<Rightarrow> type_id \<Rightarrow> ts_type" where
  "fe_type h t \<equiv> th_types (fe_types h) t"

definition upd_scope :: "scope_id \<Rightarrow> (scope \<Rightarrow> scope) \<Rightarrow> fe_heap \<Rightarrow> fe_heap" where
  "upd_scope s f h = h\<lparr>fe_scopes := (fe_scopes h)(s := f (fe_scopes h s))\<rparr>"

definition upd_var :: "var_id \<Rightarrow> (Variable \<Rightarrow> Variable) \<Rightarrow> fe_heap \<Rightarrow> fe_heap" where
  "upd_var v f h = h\<lparr>fe_vars := (fe_vars h)(v := f (fe_vars h v))\<rparr>"

definition fe_new_type :: "ts_type \<Rightarrow> fe_heap \<Rightarrow> type_id \<times> fe_heap" where
  "fe_new_type t h = (let (i, th) = new_type t (fe_types h) in (i, h\<lparr>fe_types := th\<rparr>))"

definition fe_new_TSFunction :: "fe_heap \<Rightarrow> type_id \<times> fe_heap" where
  "fe_new_TSFunction h =
     (let (i, th) = new_TSFunction FunctionKind.DEFAULT (fe_types h) in (i, h\<lparr>fe_types := th\<rparr>))"

abbreviation (input) scope_kind :: "fe_heap \<Rightarrow> scope_id \<Rightarrow> ScopeKind" where
  "scope_kind h s \<equiv> sc_kind (fe_scopes h s)"

definition is_closure_env :: "fe_heap \<Rightarrow> scope_id \<Rightarrow> bool" where
  "is_closure_env h s \<longleftrightarrow>
     scope_kind h s = ScopeKind.FunctionScope \<or> scope_kind h s = ScopeKind.BlockScope"

section \<open>Variables\<close>

definition new_Variable :: "js_string \<Rightarrow> type_id \<Rightarrow> var_modifier list \<Rightarrow> Variable" where
  "new_Variable name t ms =
     \<lparr>v_name = name, v_type = t, v_modifiers = ms, v_index = -1, v_isLocal = True, v_init = None,
      v_isClosure = False, v_mangledName = [], v_scope = None, v_belongCtx = None,
      v_closureIndex = None, v_initContext = None, v_isOptional = False, v_isDestructuring = False,
      v_needReBinding = False\<rparr>"

definition new_Parameter ::
  "js_string \<Rightarrow> type_id \<Rightarrow> var_modifier list \<Rightarrow> int \<Rightarrow> bool \<Rightarrow> bool \<Rightarrow> Variable"
where
  "new_Parameter name t ms i optional destructuring =
     (new_Variable name t ms)\<lparr>v_index := i, v_isOptional := optional, v_isDestructuring := destructuring\<rparr>"

definition alloc_var :: "Variable \<Rightarrow> fe_heap \<Rightarrow> var_id \<times> fe_heap" where
  "alloc_var v h =
     (fe_nextVar h, h\<lparr>fe_vars := (fe_vars h)(fe_nextVar h := v), fe_nextVar := Suc (fe_nextVar h)\<rparr>)"

definition var_isConst :: "Variable \<Rightarrow> bool" where
  "var_isConst v \<longleftrightarrow> VarKind ModifierKind.Const \<in> set (v_modifiers v)"

definition var_isReadOnly :: "Variable \<Rightarrow> bool" where
  "var_isReadOnly v \<longleftrightarrow> VarSyntax ReadonlyKeyword \<in> set (v_modifiers v)"

definition var_isExport :: "Variable \<Rightarrow> bool" where
  "var_isExport v \<longleftrightarrow> VarSyntax ExportKeyword \<in> set (v_modifiers v)"

definition var_isDefault :: "Variable \<Rightarrow> bool" where
  "var_isDefault v \<longleftrightarrow> VarSyntax DefaultKeyword \<in> set (v_modifiers v)"

definition var_isFuncScopedVar :: "Variable \<Rightarrow> bool" where
  "var_isFuncScopedVar v \<longleftrightarrow> VarKind ModifierKind.Var \<in> set (v_modifiers v)"

section \<open>Scopes\<close>

text \<open>
  The loop of \<open>_getScopeByType\<close> and its relatives: from the scope upwards to the first one with
  a property. A chain of parents longer than the number of scopes is a cycle.
\<close>

fun up_to :: "nat \<Rightarrow> (scope \<Rightarrow> bool) \<Rightarrow> (scope_id \<Rightarrow> scope) \<Rightarrow> scope_id option \<Rightarrow> scope_id option result"
where
  "up_to n P scs None = Inr None"
| "up_to 0 P scs (Some s) = (if P (scs s) then Inr (Some s) else Inl JSDiverges)"
| "up_to (Suc n) P scs (Some s) =
     (if P (scs s) then Inr (Some s) else up_to n P scs (sc_parent (scs s)))"

definition getScopeByType :: "ScopeKind \<Rightarrow> fe_heap \<Rightarrow> scope_id \<Rightarrow> scope_id option result" where
  "getScopeByType k h s = up_to (fe_nextScope h) (\<lambda>c. sc_kind c = k) (fe_scopes h) (Some s)"

definition getNearestFunctionScope :: "fe_heap \<Rightarrow> scope_id \<Rightarrow> scope_id option result" where
  "getNearestFunctionScope = getScopeByType ScopeKind.FunctionScope"

definition getRootGloablScope :: "fe_heap \<Rightarrow> scope_id \<Rightarrow> scope_id option result" where
  "getRootGloablScope = getScopeByType ScopeKind.GlobalScope"

definition getNearestClosureEnvironment :: "fe_heap \<Rightarrow> scope_id \<Rightarrow> scope_id option result" where
  "getNearestClosureEnvironment h s =
     up_to (fe_nextScope h)
       (\<lambda>c. sc_kind c = ScopeKind.FunctionScope \<or> sc_kind c = ScopeKind.BlockScope) (fe_scopes h) (Some s)"

text \<open>The last function scope on the way up.\<close>

fun root_function :: "nat \<Rightarrow> (scope_id \<Rightarrow> scope) \<Rightarrow> scope_id option \<Rightarrow> scope_id option \<Rightarrow> scope_id option result"
where
  "root_function n scs found None = Inr found"
| "root_function 0 scs found (Some s) = Inl JSDiverges"
| "root_function (Suc n) scs found (Some s) =
     root_function n scs (if sc_kind (scs s) = ScopeKind.FunctionScope then Some s else found)
       (sc_parent (scs s))"

definition getRootFunctionScope :: "fe_heap \<Rightarrow> scope_id \<Rightarrow> scope_id option result" where
  "getRootFunctionScope h s = root_function (Suc (fe_nextScope h)) (fe_scopes h) None (Some s)"

definition addVariable :: "scope_id \<Rightarrow> var_id \<Rightarrow> fe_heap \<Rightarrow> fe_heap" where
  "addVariable s v h =
     (let h = upd_scope s (\<lambda>c. c\<lparr>sc_variableArray := sc_variableArray c @ [v]\<rparr>) h;
          h = upd_var v (v_scope_update (\<lambda>_. Some s)) h
      in if scope_kind h s = ScopeKind.GlobalScope \<or> scope_kind h s = ScopeKind.NamespaceScope
         then upd_var v (v_isLocal_update (\<lambda>_. False)) h else h)"

definition addParameter :: "scope_id \<Rightarrow> var_id \<Rightarrow> fe_heap \<Rightarrow> fe_heap" where
  "addParameter s v h =
     upd_var v (v_scope_update (\<lambda>_. Some s))
       (upd_scope s (\<lambda>c. c\<lparr>sc_parameterArray := sc_parameterArray c @ [v]\<rparr>) h)"

definition addModifier :: "scope_id \<Rightarrow> SyntaxKind \<Rightarrow> fe_heap \<Rightarrow> fe_heap" where
  "addModifier s m = upd_scope s (\<lambda>c. c\<lparr>sc_modifiers := sc_modifiers c @ [m]\<rparr>)"

definition addSpecializedScope :: "scope_id \<Rightarrow> js_string \<Rightarrow> scope_id \<Rightarrow> fe_heap \<Rightarrow> fe_heap" where
  "addSpecializedScope s sig t =
     upd_scope s (\<lambda>c. c\<lparr>sc_specializedScopes :=
       Some (map_set sig t (case sc_specializedScopes c of Some m \<Rightarrow> m | None \<Rightarrow> []))\<rparr>)"

text \<open>The code unit of \<open><\<close>.\<close>

abbreviation less_sign :: "16 word" where
  "less_sign \<equiv> 60"

definition addType :: "nat \<Rightarrow> scope_id \<Rightarrow> js_string \<Rightarrow> type_id \<Rightarrow> fe_heap \<Rightarrow> fe_heap result" where
  "addType n s name t h =
     (if map_has (sc_namedTypeMap (fe_scopes h s)) name then Inr h
      else
        (let h' = upd_scope s (\<lambda>c. c\<lparr>sc_namedTypeMap := map_set name t (sc_namedTypeMap c)\<rparr>) h
         in if less_sign \<in> set name then
              bind_r (isTypeGeneric n (fe_types h) t) (\<lambda>g.
                Inr (if g then upd_scope s (\<lambda>c. c\<lparr>sc_namedTypeMap :=
                       map_set (takeWhile (\<lambda>x. x \<noteq> less_sign) name) t (sc_namedTypeMap c)\<rparr>) h'
                     else h'))
            else Inr h'))"

subsection \<open>Constructors\<close>

definition new_scope :: "ScopeKind \<Rightarrow> scope_id option \<Rightarrow> scope" where
  "new_scope k parent =
     \<lparr>sc_kind = k, sc_name = [], sc_children = [], sc_parent = parent, sc_namedTypeMap = [],
      sc_debugFilePath = [], sc_tempVarArray = [], sc_variableArray = [], sc_statementArray = [],
      sc_localIndex = -1, sc_mangledName = [], sc_modifiers = [], sc_genericOwner = None,
      sc_specializedScopes = None, sc_hasFreeVar = False, sc_contextVariable = None,
      sc_startFuncName = [], sc_identifierModuleImportMap = [], sc_nameScopeModuleImportMap = [],
      sc_nameAliasImportMap = [], sc_nameAliasExportMap = [], sc_exportIdentifierList = [],
      sc_defaultModuleImportMap = [], sc_defaultExpr = None, sc_declareIdentifierList = [],
      sc_importGlobalScopeList = [], sc_parameterArray = [], sc_functionType = None,
      sc_className = [], sc_realParamCtxType = None, sc_oriFuncName = None, sc_funcScope = None,
      sc_classType = None\<rparr>"

text \<open>\<open>new Scope(parent)\<close>: the new scope becomes the last child of its parent.\<close>

definition alloc_scope :: "scope \<Rightarrow> fe_heap \<Rightarrow> scope_id \<times> fe_heap" where
  "alloc_scope c h =
     (let s = fe_nextScope h;
          h = h\<lparr>fe_scopes := (fe_scopes h)(s := c), fe_nextScope := Suc s\<rparr>
      in (s, case sc_parent c of
               Some p \<Rightarrow> upd_scope p (\<lambda>pc. pc\<lparr>sc_children := sc_children pc @ [s]\<rparr>) h
             | None \<Rightarrow> h))"

text \<open>
  \<open>new ClosureEnvironment(parent)\<close>: a function scope, and a block inside a function, gets a
  variable for its context.
\<close>

definition alloc_closure_env :: "scope \<Rightarrow> scope_id \<Rightarrow> fe_heap \<Rightarrow> (scope_id \<times> fe_heap) result" where
  "alloc_closure_env c parent h =
     (let (s, h) = alloc_scope c h
      in bind_r (getNearestFunctionScope h parent) (\<lambda>f.
           if sc_kind c = ScopeKind.FunctionScope \<or> f \<noteq> None then
             (let (t, h) = fe_new_type (TSContext None []) h;
                  (v, h) = alloc_var (new_Variable (js_lit ''@context'') t []) h;
                  h = addVariable s v h
              in Inr (s, upd_scope s (sc_contextVariable_update (\<lambda>_. Some v)) h))
           else Inr (s, h)))"

definition new_FunctionScope :: "scope_id \<Rightarrow> fe_heap \<Rightarrow> (scope_id \<times> fe_heap) result" where
  "new_FunctionScope parent h =
     bind_r (alloc_closure_env (new_scope ScopeKind.FunctionScope (Some parent)) parent h) (\<lambda>(s, h).
       let (ft, h) = fe_new_TSFunction h;
           (ct, h) = fe_new_type (TSContext None []) h
       in Inr (s, upd_scope s (\<lambda>c. c\<lparr>sc_functionType := Some ft, sc_realParamCtxType := Some ct,
                    sc_debugFilePath := sc_debugFilePath (fe_scopes h parent)\<rparr>) h))"

definition new_BlockScope ::
  "scope_id \<Rightarrow> js_string \<Rightarrow> scope_id option \<Rightarrow> fe_heap \<Rightarrow> (scope_id \<times> fe_heap) result"
where
  "new_BlockScope parent name func h =
     bind_r (alloc_closure_env (new_scope ScopeKind.BlockScope (Some parent)) parent h) (\<lambda>(s, h).
       Inr (s, upd_scope s (\<lambda>c. c\<lparr>sc_name := name, sc_funcScope := func,
                 sc_debugFilePath := sc_debugFilePath (fe_scopes h parent)\<rparr>) h))"

definition new_GlobalScope :: "fe_heap \<Rightarrow> scope_id \<times> fe_heap" where
  "new_GlobalScope h =
     (let (s, h) = alloc_scope (new_scope ScopeKind.GlobalScope None) h;
          (ft, h) = fe_new_TSFunction h
      in (s, upd_scope s (sc_functionType_update (\<lambda>_. Some ft)) h))"

definition new_ClassScope :: "scope_id \<Rightarrow> js_string \<Rightarrow> fe_heap \<Rightarrow> scope_id \<times> fe_heap" where
  "new_ClassScope parent name h =
     (let (s, h) = alloc_scope (new_scope ScopeKind.ClassScope (Some parent)) h;
          (t, h) = fe_new_type (TSClass new_TSClass) h
      in (s, upd_scope s (\<lambda>c. c\<lparr>sc_name := name, sc_classType := Some t,
                sc_debugFilePath := sc_debugFilePath (fe_scopes h parent)\<rparr>) h))"

definition new_NamespaceScope :: "scope_id \<Rightarrow> fe_heap \<Rightarrow> scope_id \<times> fe_heap" where
  "new_NamespaceScope parent h =
     (let (s, h) = alloc_scope (new_scope ScopeKind.NamespaceScope (Some parent)) h
      in (s, upd_scope s (sc_debugFilePath_update (\<lambda>_. sc_debugFilePath (fe_scopes h parent))) h))"

section \<open>Indices of variables\<close>

text \<open>\<open>BuiltinNames.envParamLen\<close>: the context and \<open>this\<close> come before the parameters.\<close>

definition envParamLen :: int where
  "envParamLen = 2"

definition resetLocalIndex :: "scope_id \<Rightarrow> fe_heap \<Rightarrow> fe_heap" where
  "resetLocalIndex s = upd_scope s (sc_localIndex_update (\<lambda>_. -1))"

text \<open>\<open>v.setVarIndex(this.localIndex++)\<close>.\<close>

definition index_var :: "scope_id \<Rightarrow> var_id \<Rightarrow> fe_heap \<Rightarrow> fe_heap" where
  "index_var this v h =
     (let i = sc_localIndex (fe_scopes h this)
      in upd_var v (v_index_update (\<lambda>_. i)) (upd_scope this (sc_localIndex_update (\<lambda>_. i + 1)) h))"

fun assignVariableIndex :: "nat \<Rightarrow> scope_id \<Rightarrow> scope_id \<Rightarrow> fe_heap \<Rightarrow> fe_heap result" where
  "assignVariableIndex 0 this s h = Inl JSRangeError"
| "assignVariableIndex (Suc n) this s h =
     fold_r (assignVariableIndex n this)
       (filter (\<lambda>c. scope_kind h c = ScopeKind.BlockScope) (sc_children (fe_scopes h s)))
       (if is_closure_env h s then fold (index_var this) (sc_variableArray (fe_scopes h s)) h else h)"

definition initVariableIndex :: "nat \<Rightarrow> scope_id \<Rightarrow> fe_heap \<Rightarrow> fe_heap result" where
  "initVariableIndex n s h =
     (let c = fe_scopes h s
      in if sc_localIndex c \<noteq> -1 then Inl (JSError ''Can't initialize variables multiple times'')
         else if sc_kind c = ScopeKind.FunctionScope then
           assignVariableIndex n s s
             (upd_scope s (sc_localIndex_update (\<lambda>_. int (length (sc_parameterArray c)) + envParamLen)) h)
         else if sc_kind c = ScopeKind.GlobalScope then
           assignVariableIndex n s s (upd_scope s (sc_localIndex_update (\<lambda>_. 0)) h)
         else Inr h)"

definition initParamIndex :: "scope_id \<Rightarrow> fe_heap \<Rightarrow> fe_heap" where
  "initParamIndex s h =
     (if scope_kind h s = ScopeKind.FunctionScope
      then fold (\<lambda>(i, p). upd_var p (v_index_update (\<lambda>_. int i + envParamLen)))
             (enumerate 0 (sc_parameterArray (fe_scopes h s))) h
      else h)"

definition addTempVar :: "scope_id \<Rightarrow> var_id \<Rightarrow> fe_heap \<Rightarrow> fe_heap result" where
  "addTempVar s v h =
     (if sc_localIndex (fe_scopes h s) = -1
      then Inl (JSError ''Can't add temp variable begore index assigned, add variable instead'')
      else Inr (upd_scope s (\<lambda>c. c\<lparr>sc_tempVarArray := sc_tempVarArray c @ [v]\<rparr>) h))"

definition getThisIndex :: "fe_heap \<Rightarrow> scope_id \<Rightarrow> int result" where
  "getThisIndex h s =
     (case find (\<lambda>v. v_name (fe_vars h v) = js_lit ''this'') (sc_variableArray (fe_scopes h s)) of
        Some v \<Rightarrow> Inr (v_index (fe_vars h v))
      | None \<Rightarrow> Inl JSTypeError)"

text \<open>\<open>traverseScopTree\<close>: the children are read after the method was applied to the scope.\<close>

fun traverseScopTree :: "nat \<Rightarrow> (scope_id \<Rightarrow> fe_heap \<Rightarrow> fe_heap result) \<Rightarrow> scope_id \<Rightarrow> fe_heap \<Rightarrow> fe_heap result"
where
  "traverseScopTree 0 f s h = Inl JSRangeError"
| "traverseScopTree (Suc n) f s h =
     bind_r (f s h) (\<lambda>h. fold_r (traverseScopTree n f) (sc_children (fe_scopes h s)) h)"

section \<open>Modifiers\<close>

definition has_modifier :: "SyntaxKind \<Rightarrow> scope \<Rightarrow> bool" where
  "has_modifier m c \<longleftrightarrow> m \<in> set (sc_modifiers c)"

fun isDeclare :: "nat \<Rightarrow> fe_heap \<Rightarrow> scope_id \<Rightarrow> bool result" where
  "isDeclare 0 h s = Inl JSRangeError"
| "isDeclare (Suc n) h s =
     (if has_modifier DeclareKeyword (fe_scopes h s) then Inr True
      else case sc_parent (fe_scopes h s) of Some p \<Rightarrow> isDeclare n h p | None \<Rightarrow> Inr False)"

text \<open>Without the modifier the parent is asked for \<open>isDeclare\<close>, not for \<open>isAbstract\<close>.\<close>

definition isAbstract :: "nat \<Rightarrow> fe_heap \<Rightarrow> scope_id \<Rightarrow> bool result" where
  "isAbstract n h s =
     (if has_modifier AbstractKeyword (fe_scopes h s) then Inr True
      else case sc_parent (fe_scopes h s) of Some p \<Rightarrow> isDeclare n h p | None \<Rightarrow> Inr False)"

definition isDefault :: "scope \<Rightarrow> bool" where
  "isDefault c = has_modifier DefaultKeyword c"

definition isStatic :: "scope \<Rightarrow> bool" where
  "isStatic c = has_modifier StaticKeyword c"

definition hasDecorator :: "js_string \<Rightarrow> scope \<Rightarrow> bool" where
  "hasDecorator name c = has_modifier (Decorator name) c"

definition isDecorator :: "scope \<Rightarrow> bool" where
  "isDecorator c = hasDecorator (js_lit ''binaryen'') c"

definition isExport :: "fe_heap \<Rightarrow> scope_id \<Rightarrow> bool result" where
  "isExport h s =
     (if has_modifier ExportKeyword (fe_scopes h s) then Inr True
      else bind_r (getRootGloablScope h s) (\<lambda>g.
        case g of
          Some r \<Rightarrow> Inr (IdentifierExpression (sc_name (fe_scopes h s)) \<in> set (sc_exportIdentifierList (fe_scopes h r)))
        | None \<Rightarrow> Inl JSTypeError))"

definition var_isDeclare :: "nat \<Rightarrow> fe_heap \<Rightarrow> var_id \<Rightarrow> bool result" where
  "var_isDeclare n h v =
     (if VarSyntax DeclareKeyword \<in> set (v_modifiers (fe_vars h v)) then Inr True
      else case v_scope (fe_vars h v) of Some s \<Rightarrow> isDeclare n h s | None \<Rightarrow> Inr False)"

text \<open>The name is replaced by the names of the namespaces on the way to the module.\<close>

fun addDeclareName :: "nat \<Rightarrow> js_string \<Rightarrow> scope_id option \<Rightarrow> fe_heap \<Rightarrow> fe_heap result" where
  "addDeclareName n name None h = Inr h"
| "addDeclareName 0 name (Some s) h = Inl JSDiverges"
| "addDeclareName (Suc n) name (Some s) h =
     (if scope_kind h s = ScopeKind.GlobalScope
      then Inr (upd_scope s (\<lambda>c. c\<lparr>sc_declareIdentifierList :=
             (if name \<in> set (sc_declareIdentifierList c) then sc_declareIdentifierList c
              else sc_declareIdentifierList c @ [name])\<rparr>) h)
      else addDeclareName n (if scope_kind h s = ScopeKind.NamespaceScope then sc_name (fe_scopes h s) else name)
             (sc_parent (fe_scopes h s)) h)"

section \<open>Imports and exports of a module\<close>

definition addImportIdentifier :: "scope_id \<Rightarrow> js_string \<Rightarrow> scope_id \<Rightarrow> fe_heap \<Rightarrow> fe_heap" where
  "addImportIdentifier s name m h =
     (if map_has (sc_identifierModuleImportMap (fe_scopes h s)) name then h
      else upd_scope s (\<lambda>c. c\<lparr>sc_identifierModuleImportMap := map_set name m (sc_identifierModuleImportMap c)\<rparr>) h)"

definition addImportDefaultName :: "scope_id \<Rightarrow> js_string \<Rightarrow> scope_id \<Rightarrow> fe_heap \<Rightarrow> fe_heap" where
  "addImportDefaultName s name m =
     upd_scope s (\<lambda>c. c\<lparr>sc_defaultModuleImportMap := map_set name m (sc_defaultModuleImportMap c)\<rparr>)"

definition addImportNameScope :: "scope_id \<Rightarrow> js_string \<Rightarrow> scope_id \<Rightarrow> fe_heap \<Rightarrow> fe_heap" where
  "addImportNameScope s name m =
     upd_scope s (\<lambda>c. c\<lparr>sc_nameScopeModuleImportMap := map_set name m (sc_nameScopeModuleImportMap c)\<rparr>)"

definition setImportNameAlias :: "scope_id \<Rightarrow> (js_string, js_string) js_map \<Rightarrow> fe_heap \<Rightarrow> fe_heap" where
  "setImportNameAlias s m =
     upd_scope s (\<lambda>c. c\<lparr>sc_nameAliasImportMap := fold (\<lambda>(k, v). map_set k v) m (sc_nameAliasImportMap c)\<rparr>)"

definition setExportNameAlias :: "scope_id \<Rightarrow> (js_string, js_string) js_map \<Rightarrow> fe_heap \<Rightarrow> fe_heap" where
  "setExportNameAlias s m =
     upd_scope s (\<lambda>c. c\<lparr>sc_nameAliasExportMap := fold (\<lambda>(k, v). map_set k v) m (sc_nameAliasExportMap c)\<rparr>)"

definition setExportIdentifierList :: "scope_id \<Rightarrow> fe_expr list \<Rightarrow> fe_heap \<Rightarrow> fe_heap" where
  "setExportIdentifierList s es =
     upd_scope s (\<lambda>c. c\<lparr>sc_exportIdentifierList := sc_exportIdentifierList c @ es\<rparr>)"

section \<open>Searching names\<close>

datatype symbol = SymVar var_id | SymScope scope_id | SymType type_id | SymExpr fe_expr

fun nestFindScopeItem ::
  "nat \<Rightarrow> fe_heap \<Rightarrow> (scope_id \<Rightarrow> 'a option result) \<Rightarrow> bool \<Rightarrow> scope_id \<Rightarrow> 'a option result"
where
  "nestFindScopeItem 0 h f nested s = Inl JSRangeError"
| "nestFindScopeItem (Suc n) h f nested s =
     bind_r (f s) (\<lambda>res.
       case (res, sc_parent (fe_scopes h s)) of
         (None, Some p) \<Rightarrow> if nested then nestFindScopeItem n h f nested p else Inr None
       | _ \<Rightarrow> Inr res)"

definition variable_in :: "fe_heap \<Rightarrow> js_string \<Rightarrow> scope_id \<Rightarrow> var_id option" where
  "variable_in h name s =
     (let c = fe_scopes h s; P = (\<lambda>v. v_name (fe_vars h v) = name)
      in case find P (sc_variableArray c) of
           Some v \<Rightarrow> Some v
         | None \<Rightarrow> if sc_kind c = ScopeKind.FunctionScope then find P (sc_parameterArray c) else None)"

definition findVariable :: "nat \<Rightarrow> fe_heap \<Rightarrow> scope_id \<Rightarrow> js_string \<Rightarrow> bool \<Rightarrow> var_id option result" where
  "findVariable n h s name nested = nestFindScopeItem n h (\<lambda>s. Inr (variable_in h name s)) nested s"

primrec find_r :: "('a \<Rightarrow> bool result) \<Rightarrow> 'a list \<Rightarrow> 'a option result" where
  "find_r P [] = Inr None"
| "find_r P (x # xs) = bind_r (P x) (\<lambda>b. if b then Inr (Some x) else find_r P xs)"

text \<open>A declared function is also found under its original name.\<close>

definition function_in :: "nat \<Rightarrow> fe_heap \<Rightarrow> js_string \<Rightarrow> scope_id \<Rightarrow> scope_id option result" where
  "function_in n h name s =
     find_r (\<lambda>c.
       if scope_kind h c \<noteq> ScopeKind.FunctionScope then Inr False
       else if sc_name (fe_scopes h c) = name then Inr True
       else bind_r (isDeclare n h c) (\<lambda>d. Inr (d \<and> sc_oriFuncName (fe_scopes h c) = Some name)))
     (sc_children (fe_scopes h s))"

definition findFunctionScope :: "nat \<Rightarrow> fe_heap \<Rightarrow> scope_id \<Rightarrow> js_string \<Rightarrow> bool \<Rightarrow> scope_id option result" where
  "findFunctionScope n h s name nested = nestFindScopeItem n h (function_in n h name) nested s"

definition child_of_kind :: "ScopeKind \<Rightarrow> fe_heap \<Rightarrow> js_string \<Rightarrow> scope_id \<Rightarrow> scope_id option" where
  "child_of_kind k h name s =
     find (\<lambda>c. scope_kind h c = k \<and> sc_name (fe_scopes h c) = name) (sc_children (fe_scopes h s))"

definition findClassScope :: "nat \<Rightarrow> fe_heap \<Rightarrow> scope_id \<Rightarrow> js_string \<Rightarrow> bool \<Rightarrow> scope_id option result" where
  "findClassScope n h s name nested =
     nestFindScopeItem n h (\<lambda>s. Inr (child_of_kind ScopeKind.ClassScope h name s)) nested s"

definition findNamespaceScope :: "nat \<Rightarrow> fe_heap \<Rightarrow> scope_id \<Rightarrow> js_string \<Rightarrow> bool \<Rightarrow> scope_id option result" where
  "findNamespaceScope n h s name nested =
     nestFindScopeItem n h (\<lambda>s. Inr (child_of_kind ScopeKind.NamespaceScope h name s)) nested s"

text \<open>\<open>x || y\<close> for a string that may be missing.\<close>

definition str_or :: "js_string option \<Rightarrow> js_string \<Rightarrow> js_string" where
  "str_or x y = (case x of Some s \<Rightarrow> if s \<noteq> [] then s else y | None \<Rightarrow> y)"

text \<open>\<open>x || y\<close> for a search result.\<close>

definition or_r :: "'a option result \<Rightarrow> 'a option result \<Rightarrow> 'a option result" where
  "or_r x y = bind_r x (\<lambda>a. if a \<noteq> None then Inr a else y)"

definition when_step :: "importSearchTypes \<Rightarrow> importSearchTypes \<Rightarrow> ('a \<Rightarrow> symbol) \<Rightarrow> 'a option result \<Rightarrow> symbol option result"
where
  "when_step searchType step mk x =
     (if searchType = All \<or> searchType = step then bind_r x (\<lambda>a. Inr (map_option mk a)) else Inr None)"

text \<open>The last step of a search in the imports: types that the imported modules define.\<close>

definition type_of_imports :: "fe_heap \<Rightarrow> scope_id \<Rightarrow> js_string \<Rightarrow> symbol option" where
  "type_of_imports h s name =
     (case find (\<lambda>m. map_has (sc_namedTypeMap (fe_scopes h m)) name) (sc_importGlobalScopeList (fe_scopes h s)) of
        Some m \<Rightarrow> map_option SymType (map_get (sc_namedTypeMap (fe_scopes h m)) name)
      | None \<Rightarrow> None)"

text \<open>
  The three searches call each other. \<open>F\<close> stands for \<open>findIdentifier\<close> on the scope of another
  module, which is the only call that leads to a further search; the depth \<open>n\<close> counts these calls
  as well as the steps to the parents.
\<close>

type_synonym module_search = "scope_id \<Rightarrow> js_string \<Rightarrow> importSearchTypes \<Rightarrow> symbol option result"

definition findInImportScope ::
  "module_search \<Rightarrow> fe_heap \<Rightarrow> scope_id \<Rightarrow> js_string \<Rightarrow> importSearchTypes \<Rightarrow> symbol option result"
where
  "findInImportScope F h s name searchType =
     (let c = fe_scopes h s
      in bind_r
        (case map_get (sc_defaultModuleImportMap c) name of
           Some m \<Rightarrow>
             (case sc_defaultExpr (fe_scopes h m) of
                Some (IdentifierExpression i) \<Rightarrow> F m i searchType
              | e \<Rightarrow> Inr (map_option SymExpr e))
         | None \<Rightarrow>
             if map_has (sc_identifierModuleImportMap c) name \<or> map_has (sc_nameAliasImportMap c) name then
               (let searchName = str_or (map_get (sc_nameAliasImportMap c) name) name
                in case map_get (sc_identifierModuleImportMap c) searchName of
                     Some m \<Rightarrow>
                       F m (str_or (map_get (sc_nameAliasExportMap (fe_scopes h m)) searchName) searchName)
                         searchType
                   | None \<Rightarrow> Inr None)
             else Inr (map_option SymScope (map_get (sc_nameScopeModuleImportMap c) name)))
        (\<lambda>res. Inr (if res = None \<and> searchType = importSearchTypes.Type
                    then type_of_imports h s name else res)))"

definition type_in :: "module_search \<Rightarrow> fe_heap \<Rightarrow> js_string \<Rightarrow> scope_id \<Rightarrow> symbol option result" where
  "type_in F h name s =
     (case map_get (sc_namedTypeMap (fe_scopes h s)) name of
        Some t \<Rightarrow> Inr (Some (SymType t))
      | None \<Rightarrow>
          if scope_kind h s = ScopeKind.GlobalScope
          then findInImportScope F h s name importSearchTypes.Type else Inr None)"

definition find_type ::
  "nat \<Rightarrow> module_search \<Rightarrow> fe_heap \<Rightarrow> scope_id \<Rightarrow> js_string \<Rightarrow> bool \<Rightarrow> symbol option result"
where
  "find_type n F h s name nested =
     (case map_get builtinTypes name of
        Some t \<Rightarrow> Inr (Some (SymType t))
      | None \<Rightarrow>
          (case map_get builtinWasmTypes name of
             Some t \<Rightarrow> Inr (Some (SymType t))
           | None \<Rightarrow> nestFindScopeItem n h (type_in F h name) nested s))"

text \<open>The steps of \<open>findIdentifier\<close> in one scope.\<close>

definition identifier_in ::
  "nat \<Rightarrow> module_search \<Rightarrow> fe_heap \<Rightarrow> js_string \<Rightarrow> importSearchTypes \<Rightarrow> scope_id \<Rightarrow> symbol option result"
where
  "identifier_in n F h oriName searchType s =
     or_r (when_step searchType importSearchTypes.Variable SymVar (Inr (variable_in h oriName s)))
    (or_r (when_step searchType importSearchTypes.Function SymScope (function_in n h oriName s))
    (or_r (when_step searchType importSearchTypes.Type id (find_type n F h s oriName False))
    (or_r (when_step searchType importSearchTypes.Namespace SymScope
             (Inr (child_of_kind ScopeKind.NamespaceScope h oriName s)))
    (or_r (when_step searchType importSearchTypes.Class SymScope
             (Inr (child_of_kind ScopeKind.ClassScope h oriName s)))
     (if scope_kind h s = ScopeKind.GlobalScope
      then findInImportScope F h s oriName searchType else Inr None)))))"

definition original_name :: "fe_heap \<Rightarrow> js_string \<Rightarrow> bool \<Rightarrow> scope_id \<Rightarrow> js_string result" where
  "original_name h name convertName s =
     (if convertName then
        bind_r (getRootGloablScope h s) (\<lambda>g.
          case g of
            Some r \<Rightarrow> Inr (str_or (map_get (sc_nameAliasExportMap (fe_scopes h r)) name) name)
          | None \<Rightarrow> Inl JSTypeError)
      else Inr name)"

fun findIdentifier ::
  "nat \<Rightarrow> fe_heap \<Rightarrow> scope_id \<Rightarrow> js_string \<Rightarrow> bool \<Rightarrow> importSearchTypes \<Rightarrow> bool \<Rightarrow> symbol option result"
where
  "findIdentifier 0 h s name nested searchType convertName = Inl JSRangeError"
| "findIdentifier (Suc n) h s name nested searchType convertName =
     nestFindScopeItem (Suc n) h (\<lambda>s.
       bind_r (original_name h name convertName s) (\<lambda>oriName.
         identifier_in (Suc n) (\<lambda>m i st. findIdentifier n h m i True st False) h oriName searchType s))
       nested s"

definition findType :: "nat \<Rightarrow> fe_heap \<Rightarrow> scope_id \<Rightarrow> js_string \<Rightarrow> bool \<Rightarrow> symbol option result" where
  "findType n h s name nested =
     find_type n (\<lambda>m i st. findIdentifier n h m i True st False) h s name nested"

section \<open>Specialisation\<close>

text \<open>
  \<open>specialize\<close> of the four classes that have it: the new scope takes over the fields below and
  starts with empty containers. The other fields keep their value.
\<close>

definition specialize :: "scope_id \<Rightarrow> scope_id \<Rightarrow> fe_heap \<Rightarrow> fe_heap" where
  "specialize this s h =
     (let c = fe_scopes h this;
          h = upd_scope s (\<lambda>d. d\<lparr>sc_kind := sc_kind c, sc_name := sc_name c, sc_children := [],
                sc_namedTypeMap := [], sc_debugFilePath := sc_debugFilePath c, sc_tempVarArray := [],
                sc_variableArray := [], sc_statementArray := [], sc_localIndex := sc_localIndex c,
                sc_mangledName := sc_mangledName c, sc_modifiers := sc_modifiers c\<rparr>) h
      in case sc_kind c of
           ScopeKind.FunctionScope \<Rightarrow>
             upd_scope s (\<lambda>d. d\<lparr>sc_hasFreeVar := sc_hasFreeVar c, sc_parameterArray := [],
               sc_functionType := sc_functionType c, sc_className := sc_className c,
               sc_realParamCtxType := sc_realParamCtxType c, sc_oriFuncName := sc_oriFuncName c\<rparr>) h
         | ScopeKind.BlockScope \<Rightarrow> upd_scope s (\<lambda>d. d\<lparr>sc_hasFreeVar := sc_hasFreeVar c\<rparr>) h
         | ScopeKind.ClassScope \<Rightarrow> upd_scope s (\<lambda>d. d\<lparr>sc_classType := sc_classType c\<rparr>) h
         | _ \<Rightarrow> h)"

end
