(* ===== verification/ScopeProofs.thy ===== *)
theory ScopeProofs
  imports Scopes
begin

text \<open>
  Properties of the scopes: the constructors keep the tree, the searches return the nearest match,
  and the local variables of a function are numbered without gaps.
\<close>

section \<open>The tree\<close>

text \<open>
  Scopes are numbered in the order of their creation, so that a parent has a smaller number
  than its children.
\<close>

definition node_ok :: "fe_heap \<Rightarrow> scope_id \<Rightarrow> bool" where
  "node_ok h s \<longleftrightarrow> (\<forall>p. sc_parent (fe_scopes h s) = Some p \<longrightarrow> p < s) \<and>
     distinct (sc_children (fe_scopes h s)) \<and>
     (\<forall>c \<in> set (sc_children (fe_scopes h s)). s < c \<and> c < fe_nextScope h \<and> sc_parent (fe_scopes h c) = Some s)"

definition scope_tree :: "fe_heap \<Rightarrow> bool" where
  "scope_tree h \<longleftrightarrow> (\<forall>s < fe_nextScope h. node_ok h s)"

lemma parent_less: "scope_tree h \<Longrightarrow> s < fe_nextScope h \<Longrightarrow> sc_parent (fe_scopes h s) = Some p \<Longrightarrow> p < s"
  unfolding scope_tree_def node_ok_def by blast

lemma child_of:
  "scope_tree h \<Longrightarrow> s < fe_nextScope h \<Longrightarrow> c \<in> set (sc_children (fe_scopes h s)) \<Longrightarrow>
   s < c \<and> c < fe_nextScope h \<and> sc_parent (fe_scopes h c) = Some s"
  unfolding scope_tree_def node_ok_def by blast

lemma upd_scope_simps [simp]:
  "fe_scopes (upd_scope s f h) = (fe_scopes h)(s := f (fe_scopes h s))"
  "fe_nextScope (upd_scope s f h) = fe_nextScope h" "fe_vars (upd_scope s f h) = fe_vars h"
  "fe_nextVar (upd_scope s f h) = fe_nextVar h" "fe_types (upd_scope s f h) = fe_types h"
  by (simp_all add: upd_scope_def)

lemma upd_var_simps [simp]:
  "fe_scopes (upd_var v f h) = fe_scopes h" "fe_nextScope (upd_var v f h) = fe_nextScope h"
  "fe_vars (upd_var v f h) = (fe_vars h)(v := f (fe_vars h v))"
  "fe_nextVar (upd_var v f h) = fe_nextVar h" "fe_types (upd_var v f h) = fe_types h"
  by (simp_all add: upd_var_def)

text \<open>Two heaps with the same tree.\<close>

definition same_tree :: "fe_heap \<Rightarrow> fe_heap \<Rightarrow> bool" where
  "same_tree h h' \<longleftrightarrow> fe_nextScope h' = fe_nextScope h \<and>
     (\<forall>s. sc_parent (fe_scopes h' s) = sc_parent (fe_scopes h s) \<and>
          sc_children (fe_scopes h' s) = sc_children (fe_scopes h s) \<and>
          sc_kind (fe_scopes h' s) = sc_kind (fe_scopes h s))"

lemma scope_tree_same: "scope_tree h \<Longrightarrow> same_tree h h' \<Longrightarrow> scope_tree h'"
  unfolding scope_tree_def node_ok_def same_tree_def by presburger

lemma same_tree_refl [simp]: "same_tree h h"
  by (simp add: same_tree_def)

lemma same_tree_trans: "same_tree h h' \<Longrightarrow> same_tree h' h'' \<Longrightarrow> same_tree h h''"
  by (simp add: same_tree_def)

lemma same_tree_upd_scope:
  "(\<And>c. sc_parent (f c) = sc_parent c \<and> sc_children (f c) = sc_children c \<and> sc_kind (f c) = sc_kind c) \<Longrightarrow>
   same_tree h (upd_scope s f h)"
  by (simp add: same_tree_def)

lemma same_tree_upd_var [simp]: "same_tree h (upd_var v f h)"
  by (simp add: same_tree_def)

lemma same_tree_addVariable [simp]: "same_tree h (addVariable s v h)"
  by (simp add: addVariable_def same_tree_def Let_def)

lemma same_tree_alloc_var [simp]: "same_tree h (snd (alloc_var v h))"
  by (simp add: alloc_var_def same_tree_def)

lemma same_tree_new_type [simp]: "same_tree h (snd (fe_new_type t h))" "same_tree h (snd (fe_new_TSFunction h))"
  by (simp_all add: fe_new_type_def fe_new_TSFunction_def same_tree_def case_prod_beta)

lemma alloc_scope_simps:
  "fst (alloc_scope c h) = fe_nextScope h"
  "fe_nextScope (snd (alloc_scope c h)) = Suc (fe_nextScope h)"
  by (simp_all add: alloc_scope_def Let_def split: option.split)

lemma scope_tree_alloc:
  assumes "scope_tree h" and "sc_children c = []" and "\<And>p. sc_parent c = Some p \<Longrightarrow> p < fe_nextScope h"
  shows "scope_tree (snd (alloc_scope c h))"
  unfolding scope_tree_def alloc_scope_simps
proof (intro allI impI)
  fix s
  let ?h = "snd (alloc_scope c h)" and ?n = "fe_nextScope h"
  assume "s < Suc ?n"
  have sc: "fe_scopes ?h x = (if x = ?n then c
      else if sc_parent c = Some x then (fe_scopes h x)\<lparr>sc_children := sc_children (fe_scopes h x) @ [?n]\<rparr>
      else fe_scopes h x)" for x
    using assms(3) [of x] by (auto simp: alloc_scope_def Let_def split: option.split)
  show "node_ok ?h s"
  proof (cases "s = ?n")
    case True
    with assms(2,3) show ?thesis by (simp add: node_ok_def sc)
  next
    case False
    with \<open>s < Suc ?n\<close> have s: "s < ?n" by simp
    with assms(1) have okh: "node_ok h s" by (simp add: scope_tree_def)
    have par: "sc_parent (fe_scopes ?h s) = sc_parent (fe_scopes h s)" using False by (simp add: sc)
    have old: "x \<noteq> ?n" "sc_parent (fe_scopes ?h x) = sc_parent (fe_scopes h x)"
      if "x \<in> set (sc_children (fe_scopes h s))" for x
      using okh that by (auto simp: node_ok_def sc)
    have ch: "sc_children (fe_scopes ?h s)
      = sc_children (fe_scopes h s) @ (if sc_parent c = Some s then [?n] else [])"
      using False by (simp add: sc)
    have new: "sc_parent (fe_scopes ?h ?n) = sc_parent c" by (simp add: sc)
    show ?thesis
      unfolding node_ok_def par ch alloc_scope_simps
      using okh s old new unfolding node_ok_def by (auto simp: less_SucI)
  qed
qed

text \<open>The searches to the parents return.\<close>

lemma up_to_returns:
  assumes "scope_tree h" and "s < n" and "s < fe_nextScope h"
  shows "\<exists>r. up_to n P (fe_scopes h) (Some s) = Inr r"
  using assms(2,3)
proof (induction n arbitrary: s)
  case (Suc n)
  show ?case
  proof (cases "sc_parent (fe_scopes h s)")
    case (Some p)
    with Suc.prems assms(1) have "p < s" using parent_less by blast
    with Suc.prems have "p < n" "p < fe_nextScope h" by simp_all
    from Suc.IH [OF this] Some show ?thesis by auto
  qed simp
qed simp

lemma getScopeByType_returns:
  "scope_tree h \<Longrightarrow> s < fe_nextScope h \<Longrightarrow> \<exists>r. getScopeByType k h s = Inr r"
  unfolding getScopeByType_def by (rule up_to_returns)

lemma closure_env_tree:
  assumes "scope_tree h" and "p < fe_nextScope h" and "sc_parent c = Some p" and "sc_children c = []"
  shows "\<exists>h'. alloc_closure_env c p h = Inr (fe_nextScope h, h') \<and> same_tree (snd (alloc_scope c h)) h'"
proof -
  let ?h = "snd (alloc_scope c h)"
  have tree: "scope_tree ?h" using assms by (intro scope_tree_alloc) auto
  then obtain f where "getNearestFunctionScope ?h p = Inr f"
    using getScopeByType_returns [of ?h p] assms(2) unfolding getNearestFunctionScope_def
    by (auto simp: alloc_scope_simps)
  then show ?thesis
    by (auto simp: alloc_closure_env_def case_prod_beta Let_def same_tree_def addVariable_def fe_new_type_def
        alloc_var_def new_type_def alloc_scope_simps)
qed

lemma new_scope_simps [simp]:
  "sc_children (new_scope k p) = []" "sc_parent (new_scope k p) = p" "sc_kind (new_scope k p) = k"
  by (simp_all add: new_scope_def)

lemma new_FunctionScope_tree:
  assumes "scope_tree h" and "p < fe_nextScope h"
  shows "\<exists>h'. new_FunctionScope p h = Inr (fe_nextScope h, h') \<and>
    same_tree (snd (alloc_scope (new_scope ScopeKind.FunctionScope (Some p)) h)) h'"
  using closure_env_tree [OF assms, of "new_scope ScopeKind.FunctionScope (Some p)"]
  by (auto simp: new_FunctionScope_def case_prod_beta Let_def same_tree_def fe_new_type_def fe_new_TSFunction_def)

lemma new_BlockScope_tree:
  assumes "scope_tree h" and "p < fe_nextScope h"
  shows "\<exists>h'. new_BlockScope p name f h = Inr (fe_nextScope h, h') \<and>
    same_tree (snd (alloc_scope (new_scope ScopeKind.BlockScope (Some p)) h)) h'"
  using closure_env_tree [OF assms, of "new_scope ScopeKind.BlockScope (Some p)"]
  by (auto simp: new_BlockScope_def same_tree_def)

lemma new_ClassScope_tree:
  "fst (new_ClassScope p name h) = fe_nextScope h"
  "same_tree (snd (alloc_scope (new_scope ScopeKind.ClassScope (Some p)) h)) (snd (new_ClassScope p name h))"
  by (simp_all add: new_ClassScope_def case_prod_beta Let_def same_tree_def fe_new_type_def alloc_scope_simps)

lemma new_NamespaceScope_tree:
  "fst (new_NamespaceScope p h) = fe_nextScope h"
  "same_tree (snd (alloc_scope (new_scope ScopeKind.NamespaceScope (Some p)) h)) (snd (new_NamespaceScope p h))"
  by (simp_all add: new_NamespaceScope_def case_prod_beta Let_def same_tree_def alloc_scope_simps)

lemma new_GlobalScope_tree:
  "fst (new_GlobalScope h) = fe_nextScope h"
  "same_tree (snd (alloc_scope (new_scope ScopeKind.GlobalScope None) h)) (snd (new_GlobalScope h))"
  by (simp_all add: new_GlobalScope_def case_prod_beta Let_def same_tree_def fe_new_TSFunction_def alloc_scope_simps)


section \<open>Searches\<close>

text \<open>The scopes from a scope to its root, and the first hit among them.\<close>

function ancestors :: "fe_heap \<Rightarrow> scope_id \<Rightarrow> scope_id list" where
  "ancestors h s =
     s # (case sc_parent (fe_scopes h s) of Some p \<Rightarrow> if p < s then ancestors h p else [] | None \<Rightarrow> [])"
  by pat_completeness auto
termination by (relation "measure snd") auto

declare ancestors.simps [simp del]

fun first_hit :: "('a \<Rightarrow> 'b option) \<Rightarrow> 'a list \<Rightarrow> 'b option" where
  "first_hit f [] = None"
| "first_hit f (x # xs) = (case f x of Some y \<Rightarrow> Some y | None \<Rightarrow> first_hit f xs)"

lemma nestFind_nearest:
  assumes "scope_tree h" and "s < n" and "s < fe_nextScope h"
    and "\<And>t. t \<in> set (ancestors h s) \<Longrightarrow> f t = Inr (g t)"
  shows "nestFindScopeItem n h f nested s = Inr (if nested then first_hit g (ancestors h s) else g s)"
  using assms(2-)
proof (induction n arbitrary: s)
  case (Suc n)
  have anc: "ancestors h s = s # (case sc_parent (fe_scopes h s) of Some p \<Rightarrow> ancestors h p | None \<Rightarrow> [])"
    using assms(1) Suc.prems(2)
    using parent_less by (subst ancestors.simps) (auto split: option.split)
  with Suc.prems(3) have fs: "f s = Inr (g s)" by simp
  show ?case
  proof (cases "sc_parent (fe_scopes h s)")
    case (Some p)
    with Suc.prems assms(1) have "p < s" using parent_less by blast
    with Suc.prems anc Some have "nestFindScopeItem n h f nested p = Inr (if nested then first_hit g (ancestors h p) else g p)"
      by (intro Suc.IH) auto
    with Some fs anc show ?thesis by (auto split: option.split)
  qed (use fs anc in \<open>simp split: option.split\<close>)
qed simp

text \<open>
  C25. The searches for variables, classes and namespaces return, and what they return is the
  match in the nearest enclosing scope; an inner declaration hides an outer one. Without
  nesting only the scope itself is searched.
\<close>

theorem find_nearest:
  assumes "scope_tree h" and "s < fe_nextScope h" and "s < n"
  shows "findVariable n h s name nested
      = Inr (if nested then first_hit (variable_in h name) (ancestors h s) else variable_in h name s) \<and>
    findClassScope n h s name nested
      = Inr (if nested then first_hit (child_of_kind ScopeKind.ClassScope h name) (ancestors h s)
             else child_of_kind ScopeKind.ClassScope h name s) \<and>
    findNamespaceScope n h s name nested
      = Inr (if nested then first_hit (child_of_kind ScopeKind.NamespaceScope h name) (ancestors h s)
             else child_of_kind ScopeKind.NamespaceScope h name s)"
  unfolding findVariable_def findClassScope_def findNamespaceScope_def
  by (intro conjI nestFind_nearest [OF assms(1,3,2)]) (rule refl)+

section \<open>Indices\<close>

text \<open>The variables of a function in the order in which they are numbered.\<close>

fun index_order :: "nat \<Rightarrow> fe_heap \<Rightarrow> scope_id \<Rightarrow> var_id list" where
  "index_order 0 h s = []"
| "index_order (Suc n) h s =
     (if is_closure_env h s then sc_variableArray (fe_scopes h s) else [])
     @ concat (map (index_order n h)
         (filter (\<lambda>c. scope_kind h c = ScopeKind.BlockScope) (sc_children (fe_scopes h s))))"

definition same_vars :: "fe_heap \<Rightarrow> fe_heap \<Rightarrow> bool" where
  "same_vars h h' \<longleftrightarrow> same_tree h h' \<and>
     (\<forall>s. sc_variableArray (fe_scopes h' s) = sc_variableArray (fe_scopes h s) \<and>
          sc_parameterArray (fe_scopes h' s) = sc_parameterArray (fe_scopes h s))"

lemma index_var_simps [simp]:
  "sc_localIndex (fe_scopes (index_var this v h) this) = sc_localIndex (fe_scopes h this) + 1"
  "v_index (fe_vars (index_var this v h) v) = sc_localIndex (fe_scopes h this)"
  "w \<noteq> v \<Longrightarrow> fe_vars (index_var this v h) w = fe_vars h w"
  by (simp_all add: index_var_def Let_def)

lemma same_vars_index: "same_vars h (index_var this v h)"
  by (simp add: same_vars_def same_tree_def index_var_def Let_def)

lemma same_vars_fold: "same_vars h (fold (index_var this) vs h)"
proof (induction vs arbitrary: h)
  case (Cons v vs)
  from same_vars_index [of h this v] Cons [of "index_var this v h"] show ?case
    by (simp add: same_vars_def same_tree_def)
qed (simp add: same_vars_def)

lemma index_order_same: "same_vars h h' \<Longrightarrow> index_order n h' s = index_order n h s"
proof (induction n arbitrary: s)
  case (Suc n)
  then have "index_order n h' = index_order n h" by blast
  with Suc.prems show ?case by (simp add: same_vars_def same_tree_def is_closure_env_def)
qed simp

lemma fold_concat: "fold f (concat (map g xs)) = fold (\<lambda>x. fold f (g x)) xs"
  by (induction xs) (simp_all add: fun_eq_iff)

text \<open>The recursion numbers exactly the variables of \<open>index_order\<close>.\<close>

lemma assignVariableIndex_eq:
  assumes "scope_tree h" and "s < fe_nextScope h" and "fe_nextScope h \<le> s + n"
  shows "assignVariableIndex n this s h = Inr (fold (index_var this) (index_order n h s) h)"
  using assms
proof (induction n arbitrary: s h)
  case (Suc n)
  let ?h = "if is_closure_env h s then fold (index_var this) (sc_variableArray (fe_scopes h s)) h else h"
  let ?cs = "filter (\<lambda>c. scope_kind h c = ScopeKind.BlockScope) (sc_children (fe_scopes h s))"
  have "same_vars h ?h" using same_vars_fold by (simp add: same_vars_def)
  have loop: "fold_r (assignVariableIndex n this) cs h' = Inr (fold (index_var this) (concat (map (index_order n h) cs)) h')"
    if "same_vars h h'" "set cs \<subseteq> set (sc_children (fe_scopes h s))" for cs h'
    using that
  proof (induction cs arbitrary: h')
    case (Cons c cs)
    from Cons.prems(2) child_of [OF Suc.prems(1,2), of c] have c: "s < c" "c < fe_nextScope h" by auto
    have "fe_nextScope h' = fe_nextScope h" "scope_tree h'"
      using Cons.prems(1) scope_tree_same Suc.prems(1) by (auto simp: same_vars_def same_tree_def)
    with c Suc.prems(3) have "assignVariableIndex n this c h' = Inr (fold (index_var this) (index_order n h' c) h')"
      by (intro Suc.IH) simp_all
    also have "index_order n h' c = index_order n h c" using Cons.prems(1) by (rule index_order_same)
    finally have "assignVariableIndex n this c h' = Inr (fold (index_var this) (index_order n h c) h')" .
    moreover have "same_vars h (fold (index_var this) (index_order n h c) h')"
      using Cons.prems(1) same_vars_fold [of h' this "index_order n h c"] by (simp add: same_vars_def same_tree_def)
    ultimately show ?case using Cons.IH Cons.prems(2) by simp
  qed simp
  have "assignVariableIndex (Suc n) this s h = fold_r (assignVariableIndex n this) ?cs ?h" by simp
  also have "\<dots> = Inr (fold (index_var this) (concat (map (index_order n h) ?cs)) ?h)"
    by (rule loop) (use \<open>same_vars h ?h\<close> in auto)
  finally show ?case by simp
qed simp

lemma fold_index_vars:
  assumes "distinct vs" and "sc_localIndex (fe_scopes h this) = k"
  shows "map (\<lambda>v. v_index (fe_vars (fold (index_var this) vs h) v)) vs = map (\<lambda>i. k + int i) [0..<length vs] \<and>
    sc_localIndex (fe_scopes (fold (index_var this) vs h) this) = k + int (length vs) \<and>
    (\<forall>w. w \<notin> set vs \<longrightarrow> fe_vars (fold (index_var this) vs h) w = fe_vars h w)"
  using assms
proof (induction vs arbitrary: h k)
  case (Cons v vs)
  let ?h = "index_var this v h"
  from Cons.IH [of ?h "k + 1"] Cons.prems
  have IH: "map (\<lambda>v. v_index (fe_vars (fold (index_var this) vs ?h) v)) vs = map (\<lambda>i. (k + 1) + int i) [0..<length vs]"
    "sc_localIndex (fe_scopes (fold (index_var this) vs ?h) this) = k + 1 + int (length vs)"
    "\<forall>w. w \<notin> set vs \<longrightarrow> fe_vars (fold (index_var this) vs ?h) w = fe_vars ?h w"
    by simp_all
  have "map (\<lambda>i. k + int i) [0..<length (v # vs)] = k # map (\<lambda>i. (k + 1) + int i) [0..<length vs]"
    by (simp add: upt_conv_Cons map_Suc_upt [symmetric] del: upt_Suc)
  with IH Cons.prems show ?case by auto
qed simp

lemma fold_param_index:
  assumes "distinct ps"
  shows "map (\<lambda>p. v_index (fe_vars (fold (\<lambda>(i, p). upd_var p (v_index_update (\<lambda>_. int i + e))) (enumerate k ps) h) p)) ps
      = map (\<lambda>i. e + int (k + i)) [0..<length ps] \<and>
    (\<forall>w. w \<notin> set ps \<longrightarrow>
      fe_vars (fold (\<lambda>(i, p). upd_var p (v_index_update (\<lambda>_. int i + e))) (enumerate k ps) h) w = fe_vars h w)"
  using assms
proof (induction ps arbitrary: h k)
  case (Cons p ps)
  let ?f = "\<lambda>(i, p). upd_var p (v_index_update (\<lambda>_. int i + e))"
  let ?h = "upd_var p (v_index_update (\<lambda>_. int k + e)) h"
  from Cons.IH [of "Suc k" ?h] Cons.prems
  have IH: "map (\<lambda>p. v_index (fe_vars (fold ?f (enumerate (Suc k) ps) ?h) p)) ps = map (\<lambda>i. e + int (Suc k + i)) [0..<length ps]"
    "\<forall>w. w \<notin> set ps \<longrightarrow> fe_vars (fold ?f (enumerate (Suc k) ps) ?h) w = fe_vars ?h w"
    by simp_all
  have "map (\<lambda>i. e + int (k + i)) [0..<length (p # ps)] = (e + int k) # map (\<lambda>i. e + int (Suc k + i)) [0..<length ps]"
    by (simp add: upt_conv_Cons map_Suc_upt [symmetric] del: upt_Suc)
  with IH Cons.prems show ?case by auto
qed simp

text \<open>
  C26. The locals of a function are numbered without gaps and without overlap: the parameters get
  the indices from 2 on, behind the context and \<open>this\<close>, and the variables of the function and of
  all blocks inside it, but not of nested functions, the indices that follow.
\<close>

theorem local_indices_consecutive:
  assumes "scope_tree h" and "f < fe_nextScope h" and "sc_kind (fe_scopes h f) = ScopeKind.FunctionScope"
    and "sc_localIndex (fe_scopes h f) = -1" and "fe_nextScope h \<le> f + n"
    and "distinct (sc_parameterArray (fe_scopes h f) @ index_order n h f)"
  shows "\<exists>h'. bind_r (initVariableIndex n f h) (\<lambda>h. Inr (initParamIndex f h)) = Inr h' \<and>
    map (\<lambda>v. v_index (fe_vars h' v)) (sc_parameterArray (fe_scopes h f) @ index_order n h f)
      = map (\<lambda>i. int i + 2) [0..<length (sc_parameterArray (fe_scopes h f) @ index_order n h f)]"
proof -
  let ?ps = "sc_parameterArray (fe_scopes h f)" and ?vs = "index_order n h f"
  define h1 where "h1 = upd_scope f (sc_localIndex_update (\<lambda>_. int (length ?ps) + 2)) h"
  have "same_vars h h1" by (simp add: h1_def same_vars_def same_tree_def)
  then have h1: "scope_tree h1" "fe_nextScope h1 = fe_nextScope h" "index_order n h1 f = ?vs"
    using assms(1) scope_tree_same index_order_same by (auto simp: same_vars_def same_tree_def)
  define h2 where "h2 = fold (index_var f) ?vs h1"
  have "assignVariableIndex n f f h1 = Inr h2"
    unfolding h2_def using assignVariableIndex_eq [of h1 f n f] h1 assms(2,5) by simp
  then have init: "initVariableIndex n f h = Inr h2"
    using assms(3,4) by (simp add: initVariableIndex_def envParamLen_def h1_def)
  have "same_vars h h2"
    using \<open>same_vars h h1\<close> same_vars_fold [of h1 f ?vs] unfolding h2_def by (simp add: same_vars_def same_tree_def)
  then have ps: "sc_parameterArray (fe_scopes h2 f) = ?ps" "sc_kind (fe_scopes h2 f) = ScopeKind.FunctionScope"
    using assms(3) by (simp_all add: same_vars_def same_tree_def)
  have dist: "distinct ?ps" "distinct ?vs" "set ?ps \<inter> set ?vs = {}" using assms(6) by simp_all
  have vs2: "map (\<lambda>v. v_index (fe_vars h2 v)) ?vs = map (\<lambda>i. int (length ?ps) + 2 + int i) [0..<length ?vs]"
    unfolding h2_def using fold_index_vars [OF dist(2), of h1 f] by (simp add: h1_def)
  define h3 where "h3 = initParamIndex f h2"
  have h3: "map (\<lambda>p. v_index (fe_vars h3 p)) ?ps = map (\<lambda>i. 2 + int i) [0..<length ?ps]"
    "\<forall>w. w \<notin> set ?ps \<longrightarrow> fe_vars h3 w = fe_vars h2 w"
    using fold_param_index [OF dist(1), of 2 0 h2] by (simp_all add: h3_def initParamIndex_def ps envParamLen_def)
  have "map (\<lambda>v. v_index (fe_vars h3 v)) ?vs = map (\<lambda>v. v_index (fe_vars h2 v)) ?vs"
    using h3(2) dist(3) by auto
  with vs2 have "map (\<lambda>v. v_index (fe_vars h3 v)) ?vs = map (\<lambda>i. int i + 2) (map (\<lambda>i. i + length ?ps) [0..<length ?vs])"
    by (simp add: algebra_simps)
  also have "\<dots> = map (\<lambda>i. int i + 2) [length ?ps..<length ?ps + length ?vs]"
    by (simp only: map_add_upt add.commute)
  finally have "map (\<lambda>v. v_index (fe_vars h3 v)) (?ps @ ?vs) = map (\<lambda>i. int i + 2) [0..<length (?ps @ ?vs)]"
    using h3(1) upt_add_eq_append [of 0 "length ?ps" "length ?vs"] by (simp add: add.commute)
  with init show ?thesis by (simp add: h3_def)
qed

section \<open>Sample\<close>

text \<open>A module with a function of one parameter, and a block in it with one variable.\<close>

definition sample_tree :: fe_heap where
  "sample_tree =
     \<lparr>fe_types = new_type_heap,
      fe_scopes = (\<lambda>s. if s = 0 then (new_scope ScopeKind.GlobalScope None)\<lparr>sc_children := [1]\<rparr>
                       else if s = 1 then (new_scope ScopeKind.FunctionScope (Some 0))
                         \<lparr>sc_name := [102], sc_children := [2], sc_parameterArray := [0], sc_variableArray := [1]\<rparr>
                       else (new_scope ScopeKind.BlockScope (Some 1))\<lparr>sc_variableArray := [2]\<rparr>),
      fe_nextScope = 3, fe_vars = (\<lambda>v. new_Variable [word_of_nat (97 + v)] 0 []), fe_nextVar = 3\<rparr>"

lemma sample_tree_ok: "scope_tree sample_tree"
  by (auto simp: scope_tree_def node_ok_def sample_tree_def numeral_3_eq_3 less_Suc_eq split: if_splits)


lemma sample_ancestors: "ancestors sample_tree 2 = [2, 1, 0]"
  by (simp add: ancestors.simps sample_tree_def)

text \<open>From the block, \<open>a\<close> is the parameter of the enclosing function.\<close>

theorem find_nearest_witness: "findVariable 3 sample_tree 2 [97] True = Inr (Some 0)"
proof -
  have "fe_nextScope sample_tree = 3" by (simp add: sample_tree_def)
  then have "findVariable 3 sample_tree 2 [97] True = Inr (first_hit (variable_in sample_tree [97]) (ancestors sample_tree 2))"
    using find_nearest [OF sample_tree_ok, of 2 3 "[97]" True] by simp
  moreover have "variable_in sample_tree [97] 2 = None" "variable_in sample_tree [97] 1 = Some 0"
    by (simp_all add: variable_in_def Let_def sample_tree_def new_Variable_def new_scope_def)
  ultimately show ?thesis by (simp add: sample_ancestors)
qed

theorem local_indices_consecutive_witness:
  "\<exists>h'. bind_r (initVariableIndex 3 1 sample_tree) (\<lambda>h. Inr (initParamIndex 1 h)) = Inr h' \<and>
    map (\<lambda>v. v_index (fe_vars h' v)) [0, 1, 2] = [2, 3, 4]"
proof -
  have order: "index_order 3 sample_tree 1 = [1, 2]"
    by (simp add: sample_tree_def numeral_3_eq_3 is_closure_env_def new_scope_def)
  have params: "sc_parameterArray (fe_scopes sample_tree 1) = [0]" by (simp add: sample_tree_def)
  have "\<exists>h'. bind_r (initVariableIndex 3 1 sample_tree) (\<lambda>h. Inr (initParamIndex 1 h)) = Inr h' \<and>
    map (\<lambda>v. v_index (fe_vars h' v)) (sc_parameterArray (fe_scopes sample_tree 1) @ index_order 3 sample_tree 1)
      = map (\<lambda>i. int i + 2) [0..<length (sc_parameterArray (fe_scopes sample_tree 1) @ index_order 3 sample_tree 1)]"
    by (rule local_indices_consecutive [OF sample_tree_ok])
      (simp_all only: order params, simp_all add: sample_tree_def new_scope_def)
  then show ?thesis unfolding order params by (simp add: upt_conv_Cons)
qed

end
