(* ===== verification/ClosureContext.thy ===== *)
theory ClosureContext
  imports ScopeProofs
begin

text \<open>
  The class \<open>CustomTypeResolver\<close> of \<open>src/src/type.ts\<close>, which lays out the contexts of closures,
  and \<open>mangling\<close> of \<open>src/src/utils.ts\<close>.

  A function or block has a variable for its context. The variables of the scope that closures
  capture get a slot in the type of this variable, behind the context of the enclosing scope.
\<close>

section \<open>The type of \<open>this\<close>\<close>

text \<open>The first variable named \<open>this\<close> of a method gets the type of the class.\<close>

definition parse_this_scope :: "scope_id \<Rightarrow> fe_heap \<Rightarrow> fe_heap" where
  "parse_this_scope s h =
     (let c = fe_scopes h s
      in case sc_parent c of
           Some p \<Rightarrow>
             (if sc_kind c = ScopeKind.FunctionScope \<and> scope_kind h p = ScopeKind.ClassScope \<and>
                 sc_className c \<noteq> [] \<and> \<not> isStatic c
              then (case (find (\<lambda>v. v_name (fe_vars h v) = js_lit ''this'') (sc_variableArray c),
                          sc_classType (fe_scopes h p)) of
                      (Some v, Some t) \<Rightarrow> upd_var v (v_type_update (\<lambda>_. t)) h
                    | _ \<Rightarrow> h)
              else h)
         | None \<Rightarrow> h)"

definition parseThis :: "nat \<Rightarrow> scope_id \<Rightarrow> fe_heap \<Rightarrow> fe_heap result" where
  "parseThis n = traverseScopTree n (\<lambda>s h. Inr (parse_this_scope s h))"

section \<open>Contexts\<close>

definition parseParamContextType :: "nat \<Rightarrow> scope_id \<Rightarrow> var_id option \<Rightarrow> fe_heap \<Rightarrow> fe_heap result" where
  "parseParamContextType n s parentVar h =
     (let (t, h) = fe_new_type (TSContext None []) h;
          (t, h) = (case parentVar of
                      Some v \<Rightarrow> fe_new_type (TSContext (Some (v_type (fe_vars h v))) []) h
                    | None \<Rightarrow> (t, h));
          h = upd_scope s (sc_realParamCtxType_update (\<lambda>_. Some t)) h
      in bind_r (toString n (fe_types h) t) (\<lambda>name. addType n s name t h))"

text \<open>One round of the loops over the parameters and variables: \<open>fs\<close> is \<open>varFreeVarTypeList\<close>.\<close>

definition add_free_var :: "var_id \<Rightarrow> var_id \<Rightarrow> type_id list \<times> fe_heap \<Rightarrow> type_id list \<times> fe_heap" where
  "add_free_var ctx v = (\<lambda>(fs, h).
     if v_isClosure (fe_vars h v)
     then (fs @ [v_type (fe_vars h v)],
           upd_var v (\<lambda>x. x\<lparr>v_belongCtx := Some ctx, v_closureIndex := Some (length fs)\<rparr>) h)
     else (fs, h))"

definition env_vars :: "fe_heap \<Rightarrow> scope_id \<Rightarrow> var_id list" where
  "env_vars h s =
     (if scope_kind h s = ScopeKind.FunctionScope then sc_parameterArray (fe_scopes h s) else [])
     @ sc_variableArray (fe_scopes h s)"

definition parseVarContextType ::
  "nat \<Rightarrow> scope_id \<Rightarrow> var_id \<Rightarrow> type_id \<Rightarrow> var_id option \<Rightarrow> fe_heap \<Rightarrow> fe_heap result"
where
  "parseVarContextType n s ctx parentType parentVar h =
     (let h = (case parentVar of Some v \<Rightarrow> upd_var ctx (v_initContext_update (\<lambda>_. Some v)) h | None \<Rightarrow> h);
          (fs, h) = fold (add_free_var ctx) (env_vars h s) ([], h);
          (t, h) = fe_new_type (TSContext (Some parentType) fs) h;
          h = upd_var ctx (v_type_update (\<lambda>_. t)) h
      in bind_r (toString n (fe_types h) t) (\<lambda>name. addType n s name t h))"

text \<open>The context variable of the enclosing scope, past classes and namespaces.\<close>

definition parent_context :: "fe_heap \<Rightarrow> scope_id \<Rightarrow> var_id option result" where
  "parent_context h s =
     bind_r (up_to (fe_nextScope h)
         (\<lambda>c. sc_kind c \<noteq> ScopeKind.ClassScope \<and> sc_kind c \<noteq> ScopeKind.NamespaceScope)
         (fe_scopes h) (sc_parent (fe_scopes h s))) (\<lambda>p.
       Inr (case p of
              Some q \<Rightarrow> if is_closure_env h q then sc_contextVariable (fe_scopes h q) else None
            | None \<Rightarrow> None))"

definition parse_context_scope :: "nat \<Rightarrow> scope_id \<Rightarrow> fe_heap \<Rightarrow> fe_heap result" where
  "parse_context_scope n s h =
     (if \<not> is_closure_env h s then Inr h
      else
        bind_r (parent_context h s) (\<lambda>parentVar.
          if scope_kind h s = ScopeKind.FunctionScope then
            bind_r (parseParamContextType n s parentVar h) (\<lambda>h.
              case (sc_realParamCtxType (fe_scopes h s), sc_contextVariable (fe_scopes h s)) of
                (Some rt, Some ctx) \<Rightarrow>
                  (let (v, h) = alloc_var (new_Parameter (js_lit ''@context'') rt [] 0 False False) h
                   in parseVarContextType n s ctx rt (Some v) h)
              | _ \<Rightarrow> Inl JSTypeError)
          else
            bind_r (case sc_parent (fe_scopes h s) of
                      Some p \<Rightarrow> getNearestFunctionScope h p | None \<Rightarrow> Inr None) (\<lambda>f.
              case f of
                None \<Rightarrow> Inr h
              | Some _ \<Rightarrow>
                  (case sc_contextVariable (fe_scopes h s) of
                     Some ctx \<Rightarrow>
                       (case parentVar of
                          Some v \<Rightarrow> parseVarContextType n s ctx (v_type (fe_vars h v)) parentVar h
                        | None \<Rightarrow>
                            (let (t, h) = fe_new_type (TSContext None []) h
                             in parseVarContextType n s ctx t None h))
                   | None \<Rightarrow> Inl JSTypeError))))"

definition parseContext :: "nat \<Rightarrow> scope_id \<Rightarrow> fe_heap \<Rightarrow> fe_heap result" where
  "parseContext n = traverseScopTree n (parse_context_scope n)"

text \<open>\<open>CustomTypeResolver.visit\<close>.\<close>

definition init_index_scope :: "nat \<Rightarrow> scope_id \<Rightarrow> fe_heap \<Rightarrow> fe_heap result" where
  "init_index_scope n s h =
     (if scope_kind h s = ScopeKind.FunctionScope \<or> scope_kind h s = ScopeKind.GlobalScope
      then bind_r (initVariableIndex n s h) (\<lambda>h. Inr (initParamIndex s h))
      else Inr h)"

definition resolve_module :: "nat \<Rightarrow> scope_id \<Rightarrow> fe_heap \<Rightarrow> fe_heap result" where
  "resolve_module n g h =
     bind_r (traverseScopTree n (init_index_scope n) g h) (\<lambda>h.
     bind_r (parseThis n g h) (parseContext n g))"

definition CustomTypeResolver_visit :: "nat \<Rightarrow> scope_id list \<Rightarrow> fe_heap \<Rightarrow> fe_heap result" where
  "CustomTypeResolver_visit n = fold_r (resolve_module n)"

section \<open>Mangled names\<close>

text \<open>
  \<open>convertWindowsPath\<close>; \<open>win32\<close> tells whether the platform is Windows. The code units 47 and 92 are
  the slash and the backslash.
\<close>

fun compress_slashes :: "js_string \<Rightarrow> js_string" where
  "compress_slashes (a # b # cs) =
     (if a = 47 \<and> b = 47 then compress_slashes (b # cs) else a # compress_slashes (b # cs))"
| "compress_slashes cs = cs"

definition convertWindowsPath :: "bool \<Rightarrow> js_string \<Rightarrow> js_string" where
  "convertWindowsPath win32 path =
     (if win32 then
        (let path = (if take 4 path = [92, 92, 63, 92] then drop 4 path else path);
             path = map (\<lambda>c. if c = 92 then 47 else c) path
         in compress_slashes path)
      else path)"

definition mangled_member :: "js_string \<Rightarrow> js_string list \<Rightarrow> js_string \<Rightarrow> js_string" where
  "mangled_member delimiter prefix name = js_join delimiter prefix @ js_lit ''|'' @ name"

definition set_class_mangled :: "js_string \<Rightarrow> type_id \<Rightarrow> fe_heap \<Rightarrow> fe_heap" where
  "set_class_mangled name t h =
     (case fe_type h t of
        TSClass c \<Rightarrow> h\<lparr>fe_types := set_type t (TSClass (c\<lparr>cls_mangledName := name\<rparr>)) (fe_types h)\<rparr>
      | _ \<Rightarrow> h)"

text \<open>The interfaces of a module keep a name that they have, those of a namespace do not.\<close>

definition mangle_interface ::
  "js_string \<Rightarrow> js_string list \<Rightarrow> bool \<Rightarrow> type_id \<Rightarrow> fe_heap \<Rightarrow> fe_heap"
where
  "mangle_interface delimiter prefix keep t h =
     (case fe_type h t of
        TSClass c \<Rightarrow>
          (if cls_isInterface c \<and> \<not> (keep \<and> cls_mangledName c \<noteq> [])
           then set_class_mangled (mangled_member delimiter prefix (cls_name c)) t h else h)
      | _ \<Rightarrow> h)"

definition mangle_var :: "js_string \<Rightarrow> js_string list \<Rightarrow> var_id \<Rightarrow> fe_heap \<Rightarrow> fe_heap" where
  "mangle_var delimiter prefix v h =
     upd_var v (\<lambda>x. x\<lparr>v_mangledName := mangled_member delimiter prefix (v_name x)\<rparr>) h"

definition mangle_members :: "js_string \<Rightarrow> js_string list \<Rightarrow> bool \<Rightarrow> scope_id \<Rightarrow> fe_heap \<Rightarrow> fe_heap" where
  "mangle_members delimiter prefix keep s h =
     fold (mangle_interface delimiter prefix keep) (map snd (sc_namedTypeMap (fe_scopes h s)))
       (fold (mangle_var delimiter prefix) (sc_variableArray (fe_scopes h s)) h)"

text \<open>The body of the loop up to the recursive call; \<open>prefix\<close> already ends with the name of the scope.\<close>

definition mangle_scope :: "bool \<Rightarrow> js_string \<Rightarrow> js_string list \<Rightarrow> scope_id \<Rightarrow> fe_heap \<Rightarrow> fe_heap" where
  "mangle_scope win32 delimiter prefix s h =
     (let c = fe_scopes h s;
          h = (case sc_kind c of
                 ScopeKind.GlobalScope \<Rightarrow>
                   mangle_members delimiter prefix True s
                     (upd_scope s (sc_startFuncName_update
                        (\<lambda>_. convertWindowsPath win32 (sc_name c) @ js_lit ''|start'')) h)
               | ScopeKind.NamespaceScope \<Rightarrow> mangle_members delimiter prefix False s h
               | ScopeKind.ClassScope \<Rightarrow>
                   (case sc_classType c of
                      Some t \<Rightarrow> set_class_mangled (js_join delimiter prefix) t h
                    | None \<Rightarrow> h)
               | _ \<Rightarrow> h)
      in upd_scope s (sc_mangledName_update (\<lambda>_. js_join delimiter prefix)) h)"

fun mangling ::
  "nat \<Rightarrow> bool \<Rightarrow> js_string \<Rightarrow> scope_id list \<Rightarrow> js_string list \<times> fe_heap \<Rightarrow> (js_string list \<times> fe_heap) result"
where
  "mangling 0 win32 delimiter ss st = Inl JSRangeError"
| "mangling (Suc n) win32 delimiter ss st =
     fold_r (\<lambda>s (prefix, h).
       (let c = fe_scopes h s;
            prefix = (if sc_kind c = ScopeKind.Scope then prefix
                      else prefix @ [convertWindowsPath win32 (sc_name c)]);
            h = mangle_scope win32 delimiter prefix s h
        in bind_r (mangling n win32 delimiter (sc_children (fe_scopes h s)) (prefix, h)) (\<lambda>(prefix, h).
             Inr (butlast prefix, h)))) ss st"

end
