(* ===== verification/ContextProofs.thy ===== *)
theory ContextProofs
  imports ClosureContext
begin

text \<open>
  Properties of the contexts of closures.
\<close>

section \<open>Slots of captured variables\<close>

text \<open>
  The context variable of a scope has a context type, in which every captured variable of the
  scope has its own slot, with its type.
\<close>

definition slots_ok :: "fe_heap \<Rightarrow> scope_id \<Rightarrow> bool" where
  "slots_ok h s \<longleftrightarrow> (\<exists>ctx p fs. sc_contextVariable (fe_scopes h s) = Some ctx \<and>
     fe_type h (v_type (fe_vars h ctx)) = TSContext p fs \<and>
     length fs = length (filter (\<lambda>v. v_isClosure (fe_vars h v)) (env_vars h s)) \<and>
     (\<forall>i < length fs. let v = filter (\<lambda>v. v_isClosure (fe_vars h v)) (env_vars h s) ! i in
        v_belongCtx (fe_vars h v) = Some ctx \<and> v_closureIndex (fe_vars h v) = Some i \<and>
        fs ! i = v_type (fe_vars h v)))"

definition slot_var :: "var_id \<Rightarrow> nat \<Rightarrow> Variable \<Rightarrow> Variable" where
  "slot_var ctx i x = x\<lparr>v_belongCtx := Some ctx, v_closureIndex := Some i\<rparr>"

lemma slot_var_simps [simp]:
  "v_type (slot_var ctx i x) = v_type x" "v_isClosure (slot_var ctx i x) = v_isClosure x"
  "v_scope (slot_var ctx i x) = v_scope x" "v_belongCtx (slot_var ctx i x) = Some ctx"
  "v_closureIndex (slot_var ctx i x) = Some i"
  by (simp_all add: slot_var_def)

abbreviation captured :: "fe_heap \<Rightarrow> var_id list \<Rightarrow> var_id list" where
  "captured h vs \<equiv> filter (\<lambda>v. v_isClosure (fe_vars h v)) vs"

lemma add_free_vars:
  assumes "distinct vs"
  shows "fold (add_free_var ctx) vs (fs, h) =
    (fs @ map (\<lambda>v. v_type (fe_vars h v)) (captured h vs),
     h\<lparr>fe_vars := (\<lambda>v. case find_index (\<lambda>w. w = v) (captured h vs) of
         Some i \<Rightarrow> slot_var ctx (length fs + i) (fe_vars h v) | None \<Rightarrow> fe_vars h v)\<rparr>)"
  using assms
proof (induction vs arbitrary: fs h)
  case (Cons v vs)
  show ?case
  proof (cases "v_isClosure (fe_vars h v)")
    case True
    let ?h = "upd_var v (slot_var ctx (length fs)) h" and ?fs = "fs @ [v_type (fe_vars h v)]"
    have step: "fold (add_free_var ctx) (v # vs) (fs, h) = fold (add_free_var ctx) vs (?fs, ?h)"
      using True by (simp add: add_free_var_def slot_var_def [abs_def])
    have vars: "fe_vars ?h w = (if w = v then slot_var ctx (length fs) (fe_vars h v) else fe_vars h w)" for w by simp
    then have cap: "captured ?h vs = captured h vs" by (intro filter_cong) auto
    have types: "map (\<lambda>v. v_type (fe_vars ?h v)) (captured h vs) = map (\<lambda>v. v_type (fe_vars h v)) (captured h vs)"
      by simp
    have "find_index (\<lambda>w. w = v) (captured h vs) = None" using Cons.prems by (auto simp: find_index_None_iff)
    then have upd: "(\<lambda>u. case find_index (\<lambda>w. w = u) (captured h vs) of
         Some i \<Rightarrow> slot_var ctx (length ?fs + i) (fe_vars ?h u) | None \<Rightarrow> fe_vars ?h u)
      = (\<lambda>u. case find_index (\<lambda>w. w = u) (captured h (v # vs)) of
         Some i \<Rightarrow> slot_var ctx (length fs + i) (fe_vars h u) | None \<Rightarrow> fe_vars h u)"
      using True by (auto simp: fun_eq_iff split: option.split)
    show ?thesis
      unfolding step using Cons.IH [of ?fs ?h] Cons.prems unfolding cap types upd
      using True by (simp add: upd_var_def)
  next
    case False
    then show ?thesis using Cons by (simp add: add_free_var_def)
  qed
qed simp

section \<open>Walks over the tree\<close>

fun preorder :: "nat \<Rightarrow> fe_heap \<Rightarrow> scope_id \<Rightarrow> scope_id list" where
  "preorder 0 h s = []"
| "preorder (Suc n) h s = s # concat (map (preorder n h) (sc_children (fe_scopes h s)))"

lemma preorder_same: "same_tree h h' \<Longrightarrow> preorder n h' s = preorder n h s"
proof (induction n arbitrary: s)
  case (Suc n)
  then have "preorder n h' = preorder n h" by blast
  with Suc.prems show ?case by (simp add: same_tree_def)
qed simp

text \<open>A method of \<open>traverseScopTree\<close> that does not change the tree.\<close>

locale tree_walk =
  fixes f :: "scope_id \<Rightarrow> fe_heap \<Rightarrow> fe_heap result"
  assumes keeps_tree: "f s h = Inr h' \<Longrightarrow> same_tree h h'"
begin

lemma fold_keeps_tree: "fold_r f xs h = Inr h' \<Longrightarrow> same_tree h h'"
  by (rule fold_r_invariant [of f xs h h' "same_tree h"]) (auto intro: same_tree_trans keeps_tree)

lemma traverse_fold:
  assumes "scope_tree h" and "s < fe_nextScope h" and "fe_nextScope h \<le> s + n"
  shows "traverseScopTree n f s h = fold_r f (preorder n h s) h"
  using assms
proof (induction n arbitrary: s h)
  case (Suc n)
  show ?case
  proof (cases "f s h")
    case (Inr h1)
    then have t1: "same_tree h h1" by (rule keeps_tree)
    have loop: "fold_r (traverseScopTree n f) cs h' = fold_r f (concat (map (preorder n h) cs)) h'"
      if "same_tree h h'" "set cs \<subseteq> set (sc_children (fe_scopes h s))" for cs h'
      using that
    proof (induction cs arbitrary: h')
      case (Cons c cs)
      from Cons.prems(2) child_of [OF Suc.prems(1,2), of c] have c: "s < c" "c < fe_nextScope h" by auto
      have "fe_nextScope h' = fe_nextScope h" "scope_tree h'"
        using Cons.prems(1) scope_tree_same Suc.prems(1) by (auto simp: same_tree_def)
      with c Suc.prems(3) have "traverseScopTree n f c h' = fold_r f (preorder n h' c) h'"
        by (intro Suc.IH) simp_all
      also have "preorder n h' c = preorder n h c" using Cons.prems(1) by (rule preorder_same)
      finally have eq: "traverseScopTree n f c h' = fold_r f (preorder n h c) h'" .
      show ?case
      proof (cases "fold_r f (preorder n h c) h'")
        case (Inr h2)
        then have "same_tree h h2" using fold_keeps_tree Cons.prems(1) same_tree_trans by blast
        with Cons.IH Cons.prems(2) show ?thesis by (simp add: eq Inr fold_r_append)
      qed (simp add: eq fold_r_append)
    qed simp
    have "sc_children (fe_scopes h1 s) = sc_children (fe_scopes h s)" using t1 by (simp add: same_tree_def)
    with loop [OF t1, of "sc_children (fe_scopes h s)"] show ?thesis by (simp add: Inr)
  qed simp
qed simp

end

lemma preorder_ge:
  "scope_tree h \<Longrightarrow> s < fe_nextScope h \<Longrightarrow> x \<in> set (preorder n h s) \<Longrightarrow> s \<le> x \<and> x < fe_nextScope h"
proof (induction n arbitrary: s)
  case (Suc n)
  show ?case
  proof (cases "x = s")
    case False
    with Suc.prems(3) obtain c where "c \<in> set (sc_children (fe_scopes h s))" "x \<in> set (preorder n h c)" by auto
    with child_of [OF Suc.prems(1,2)] Suc.IH [OF Suc.prems(1)] show ?thesis by fastforce
  qed (use Suc.prems in simp)
qed simp

section \<open>Contexts of a whole module\<close>

text \<open>
  Every variable and parameter belongs to the scope that lists it, once, and the context
  variable of a scope is one of its variables and not captured itself.
\<close>

definition vars_ok :: "fe_heap \<Rightarrow> scope_id \<Rightarrow> bool" where
  "vars_ok h s \<longleftrightarrow> distinct (env_vars h s) \<and>
     (\<forall>v \<in> set (env_vars h s). v < fe_nextVar h \<and> v_scope (fe_vars h v) = Some s) \<and>
     (\<forall>ctx. sc_contextVariable (fe_scopes h s) = Some ctx \<longrightarrow>
        ctx \<in> set (env_vars h s) \<and> \<not> v_isClosure (fe_vars h ctx))"

text \<open>What the layout of the context of \<open>s\<close> may change.\<close>

definition ctx_frame :: "scope_id \<Rightarrow> fe_heap \<Rightarrow> fe_heap \<Rightarrow> bool" where
  "ctx_frame s h h' \<longleftrightarrow> same_tree h h' \<and>
     (\<forall>u. env_vars h' u = env_vars h u \<and>
          sc_contextVariable (fe_scopes h' u) = sc_contextVariable (fe_scopes h u)) \<and>
     fe_nextVar h \<le> fe_nextVar h' \<and>
     (\<forall>v < fe_nextVar h. v_scope (fe_vars h' v) = v_scope (fe_vars h v) \<and>
        v_isClosure (fe_vars h' v) = v_isClosure (fe_vars h v) \<and>
        (v \<notin> set (env_vars h s) \<longrightarrow> fe_vars h' v = fe_vars h v)) \<and>
     th_next (fe_types h) \<le> th_next (fe_types h') \<and>
     (\<forall>t < th_next (fe_types h). fe_type h' t = fe_type h t)"

lemma ctx_frame_refl: "ctx_frame s h h"
  by (simp add: ctx_frame_def)

lemma ctx_frame_trans: "ctx_frame s h h' \<Longrightarrow> ctx_frame s h' h'' \<Longrightarrow> ctx_frame s h h''"
  unfolding ctx_frame_def by (auto intro: same_tree_trans)

text \<open>The declarations of two heaps: what is captured stays the same.\<close>

definition same_decls :: "fe_heap \<Rightarrow> fe_heap \<Rightarrow> bool" where
  "same_decls h h' \<longleftrightarrow> fe_nextVar h \<le> fe_nextVar h' \<and>
     (\<forall>u. env_vars h' u = env_vars h u \<and>
          sc_contextVariable (fe_scopes h' u) = sc_contextVariable (fe_scopes h u)) \<and>
     (\<forall>v < fe_nextVar h. v_isClosure (fe_vars h' v) = v_isClosure (fe_vars h v))"

lemma same_decls_frame: "same_decls h h' \<Longrightarrow> ctx_frame s h' h'' \<Longrightarrow> same_decls h h''"
  unfolding same_decls_def ctx_frame_def by auto

lemma vars_ok_frame: "vars_ok h u \<Longrightarrow> ctx_frame s h h' \<Longrightarrow> vars_ok h' u"
  unfolding vars_ok_def ctx_frame_def by (auto dest: less_le_trans)

definition placed :: "fe_heap \<Rightarrow> scope_id \<Rightarrow> bool" where
  "placed h s \<longleftrightarrow> slots_ok h s \<and>
     (\<forall>ctx. sc_contextVariable (fe_scopes h s) = Some ctx \<longrightarrow> v_type (fe_vars h ctx) < th_next (fe_types h))"

lemma placed_frame:
  assumes "placed h u" and "vars_ok h u" and "vars_ok h s" and "u \<noteq> s" and fr: "ctx_frame s h h'"
  shows "placed h' u"
proof -
  from assms(1) obtain ctx p fs where ctx: "sc_contextVariable (fe_scopes h u) = Some ctx"
    "fe_type h (v_type (fe_vars h ctx)) = TSContext p fs" "v_type (fe_vars h ctx) < th_next (fe_types h)"
    by (auto simp: placed_def slots_ok_def)
  have same: "fe_vars h' v = fe_vars h v" if "v \<in> set (env_vars h u)" for v
  proof -
    from that assms(2) have v: "v < fe_nextVar h" "v_scope (fe_vars h v) = Some u" by (simp_all add: vars_ok_def)
    with assms(3,4) have "v \<notin> set (env_vars h s)" by (auto simp: vars_ok_def)
    with v(1) fr show ?thesis by (simp add: ctx_frame_def)
  qed
  have env: "env_vars h' u = env_vars h u" "sc_contextVariable (fe_scopes h' u) = Some ctx"
    using fr ctx(1) by (simp_all add: ctx_frame_def)
  have "ctx \<in> set (env_vars h u)" using assms(2) ctx(1) by (simp add: vars_ok_def)
  with same have cv: "fe_vars h' ctx = fe_vars h ctx" by simp
  have cap: "captured h' (env_vars h' u) = captured h (env_vars h u)"
    unfolding env by (rule filter_cong) (simp_all add: same)
  have ty: "fe_type h' (v_type (fe_vars h' ctx)) = TSContext p fs"
    using fr ctx(2,3) by (simp add: cv ctx_frame_def)
  have "fe_vars h' (captured h (env_vars h u) ! i) = fe_vars h (captured h (env_vars h u) ! i)"
    if "i < length (captured h (env_vars h u))" for i
    using same nth_mem [OF that] by simp
  then have "slots_ok h' u"
    using assms(1) ctx(1,2) unfolding placed_def slots_ok_def cap env(2) option.inject
    by (intro exI [of _ ctx] exI [of _ p] exI [of _ fs]) (simp add: ty Let_def)
  moreover have "th_next (fe_types h) \<le> th_next (fe_types h')" using fr by (simp add: ctx_frame_def)
  ultimately show ?thesis using ctx(3) env(2) cv by (simp add: placed_def)
qed


lemma up_to_same:
  "same_tree h h' \<Longrightarrow> up_to n (\<lambda>c. Q (sc_kind c)) (fe_scopes h') x = up_to n (\<lambda>c. Q (sc_kind c)) (fe_scopes h) x"
proof (induction n arbitrary: x)
  case 0
  then show ?case by (cases x) (simp_all add: same_tree_def)
next
  case (Suc n)
  then show ?case by (cases x) (simp_all add: same_tree_def)
qed

lemma nearest_function_same: "same_tree h h' \<Longrightarrow> getNearestFunctionScope h' p = getNearestFunctionScope h p"
  unfolding getNearestFunctionScope_def getScopeByType_def
  using up_to_same [of h h' "fe_nextScope h" "\<lambda>k. k = ScopeKind.FunctionScope"] by (simp add: same_tree_def)

text \<open>The scopes for which a context is laid out: functions, and blocks inside functions.\<close>

definition lays_out :: "fe_heap \<Rightarrow> scope_id \<Rightarrow> bool" where
  "lays_out h s \<longleftrightarrow> scope_kind h s = ScopeKind.FunctionScope \<or>
     scope_kind h s = ScopeKind.BlockScope \<and>
     (\<exists>p f. sc_parent (fe_scopes h s) = Some p \<and> getNearestFunctionScope h p = Inr (Some f))"

lemma lays_out_same: "same_tree h h' \<Longrightarrow> lays_out h' s = lays_out h s"
  using nearest_function_same [of h h'] unfolding lays_out_def by (simp add: same_tree_def)

text \<open>The types whose names \<open>toString\<close> evaluates for the name of a type, and types of a bounded depth.\<close>

definition printed :: "ts_type \<Rightarrow> type_id list" where
  "printed t = (case t of
       TSContext p fs \<Rightarrow> (case p of Some q \<Rightarrow> [q] | None \<Rightarrow> []) @ fs
     | TSTypeParameter name wide i def \<Rightarrow> wide # (case def of Some d \<Rightarrow> [d] | None \<Rightarrow> [])
     | TSArray e \<Rightarrow> [e]
     | TSFunction f \<Rightarrow> fn_returnType f # fn_parameterTypes f
     | TSUnion ts \<Rightarrow> ts
     | TSTuple ts \<Rightarrow> ts
     | _ \<Rightarrow> [])"

fun depth_ok :: "type_heap \<Rightarrow> nat \<Rightarrow> type_id \<Rightarrow> bool" where
  "depth_ok T 0 t = False"
| "depth_ok T (Suc d) t \<longleftrightarrow> t < th_next T \<and> (\<forall>u \<in> set (printed (th_types T t)). depth_ok T d u)"

lemma depth_ok_less: "depth_ok T d t \<Longrightarrow> t < th_next T"
  by (cases d) simp_all

lemma depth_ok_mono: "depth_ok T d t \<Longrightarrow> d \<le> e \<Longrightarrow> depth_ok T e t"
proof (induction d arbitrary: e t)
  case (Suc d)
  then obtain f where "e = Suc f" "d \<le> f" by (cases e) auto
  with Suc show ?case by auto
qed simp

lemma depth_ok_extend:
  assumes "depth_ok T d t" and "th_next T \<le> th_next T'" and "\<And>u. u < th_next T \<Longrightarrow> th_types T' u = th_types T u"
  shows "depth_ok T' d t"
  using assms(1)
proof (induction d arbitrary: t)
  case (Suc d)
  then show ?case using assms(2,3) by auto
qed simp

lemma map_r_returns: "(\<And>x. x \<in> set xs \<Longrightarrow> \<exists>y. f x = Inr y) \<Longrightarrow> \<exists>ys. map_r f xs = Inr ys"
proof (induction xs)
  case (Cons x xs)
  obtain y where "f x = Inr y" using Cons.prems [of x] by auto
  moreover obtain ys where "map_r f xs = Inr ys" using Cons by force
  ultimately show ?case by simp
qed simp

lemma toString_returns: "depth_ok T d t \<Longrightarrow> \<exists>s. toString d T t = Inr s"
proof (induction d arbitrary: t)
  case (Suc d)
  have ret: "\<exists>s. toString d T u = Inr s" if "u \<in> set (printed (th_types T t))" for u
    using Suc that by simp
  have list: "\<exists>ss. map_r (toString d T) ts = Inr ss" if "set ts \<subseteq> set (printed (th_types T t))" for ts
    using that by (intro map_r_returns ret) blast
  show ?case
  proof (cases "th_types T t")
    case (TSContext p fs)
    then show ?thesis using list [of "(case p of Some q \<Rightarrow> [q] | None \<Rightarrow> []) @ fs"] by (auto simp: printed_def)
  next
    case (TSTypeParameter name wide i df)
    then obtain w where "toString d T wide = Inr w" using ret [of wide] by (auto simp: printed_def)
    moreover have "\<exists>s. toString d T u = Inr s" if "df = Some u" for u
      using ret [of u] that TSTypeParameter by (simp add: printed_def)
    ultimately show ?thesis using TSTypeParameter by (cases df) auto
  next
    case (TSArray e)
    then show ?thesis using ret [of e] by (auto simp: printed_def)
  next
    case (TSFunction f)
    moreover obtain r where "toString d T (fn_returnType f) = Inr r"
      using ret [of "fn_returnType f"] TSFunction by (auto simp: printed_def)
    moreover obtain ps where "map_r (toString d T) (fn_parameterTypes f) = Inr ps"
      using list [of "fn_parameterTypes f"] TSFunction by (auto simp: printed_def)
    ultimately show ?thesis by simp
  next
    case (TSUnion ts)
    then show ?thesis using list [of ts] by (auto simp: printed_def)
  next
    case (TSTuple ts)
    then show ?thesis using list [of ts] by (auto simp: printed_def)
  qed simp_all
qed simp


text \<open>What one step of the walk needs and keeps; \<open>d\<close> bounds the depth of the types of variables.\<close>

definition ctx_inv :: "nat \<Rightarrow> fe_heap \<Rightarrow> bool" where
  "ctx_inv d h \<longleftrightarrow> scope_tree h \<and>
     (\<forall>u < fe_nextScope h. vars_ok h u \<and> (lays_out h u \<longrightarrow> sc_contextVariable (fe_scopes h u) \<noteq> None)) \<and>
     (\<forall>v < fe_nextVar h. depth_ok (fe_types h) d (v_type (fe_vars h v)))"

lemma ctx_inv_frame:
  assumes "ctx_inv d h" and "ctx_frame s h h'"
    and "\<And>v. v < fe_nextVar h' \<Longrightarrow> depth_ok (fe_types h') e (v_type (fe_vars h' v))"
  shows "ctx_inv e h'"
proof -
  have same: "same_tree h h'" "fe_nextScope h' = fe_nextScope h"
    using assms(2) by (simp_all add: ctx_frame_def same_tree_def)
  have "vars_ok h' u \<and> (lays_out h' u \<longrightarrow> sc_contextVariable (fe_scopes h' u) \<noteq> None)"
    if "u < fe_nextScope h" for u
  proof -
    have "sc_contextVariable (fe_scopes h' u) = sc_contextVariable (fe_scopes h u)"
      using assms(2) by (simp add: ctx_frame_def)
    moreover have "vars_ok h u" "lays_out h u \<longrightarrow> sc_contextVariable (fe_scopes h u) \<noteq> None"
      using that assms(1) by (simp_all add: ctx_inv_def)
    ultimately show ?thesis using vars_ok_frame [OF _ assms(2)] lays_out_same [OF same(1)] by simp
  qed
  moreover have "scope_tree h'" using assms(1) scope_tree_same [OF _ same(1)] by (simp add: ctx_inv_def)
  ultimately show ?thesis using assms(3) same(2) by (simp add: ctx_inv_def)
qed

text \<open>The name of a context type is constant, so that \<open>addType\<close> takes it as it is.\<close>

lemma add_context_type:
  assumes "depth_ok (fe_types h) d t" and "d \<le> n" and "fe_type h t = TSContext p fs"
  shows "\<exists>m. bind_r (toString n (fe_types h) t) (\<lambda>name. addType n s name t h)
    = Inr (upd_scope s (sc_namedTypeMap_update (\<lambda>_. m)) h)"
proof -
  from depth_ok_mono [OF assms(1,2)] obtain nm where nm: "toString n (fe_types h) t = Inr nm"
    using toString_returns by blast
  with assms(3) have "nm = js_lit ''ContextType''"
    by (cases n) (auto simp: bind_r_def split: sum.splits)
  then have "less_sign \<notin> set nm" by (simp add: js_lit_def)
  moreover have "upd_scope s (sc_namedTypeMap_update (\<lambda>_. sc_namedTypeMap (fe_scopes h s))) h = h"
    by (simp add: upd_scope_def)
  ultimately show ?thesis
    using nm by (auto simp: addType_def upd_scope_def intro: exI [of _ "sc_namedTypeMap (fe_scopes h s)"])
qed

text \<open>The single changes.\<close>

lemma ctx_frame_upd_scope:
  assumes "\<And>c. sc_parent (f c) = sc_parent c \<and> sc_children (f c) = sc_children c \<and> sc_kind (f c) = sc_kind c \<and>
    sc_parameterArray (f c) = sc_parameterArray c \<and> sc_variableArray (f c) = sc_variableArray c \<and>
    sc_contextVariable (f c) = sc_contextVariable c"
  shows "ctx_frame s h (upd_scope u f h)"
proof -
  have "env_vars (upd_scope u f h) w = env_vars h w" for w using assms by (simp add: env_vars_def)
  then show ?thesis using assms by (simp add: ctx_frame_def same_tree_def)
qed

lemma ctx_frame_upd_var:
  assumes "v \<in> set (env_vars h s)" and "\<And>x. v_scope (f x) = v_scope x \<and> v_isClosure (f x) = v_isClosure x"
  shows "ctx_frame s h (upd_var v f h)"
proof -
  have "env_vars (upd_var v f h) w = env_vars h w" for w by (simp add: env_vars_def)
  then show ?thesis using assms by (simp add: ctx_frame_def)
qed

lemma ctx_frame_new_type: "ctx_frame s h (snd (fe_new_type t h))"
proof -
  have "env_vars (snd (fe_new_type t h)) w = env_vars h w" for w
    by (simp add: env_vars_def fe_new_type_def new_type_def)
  then show ?thesis by (simp add: ctx_frame_def) (simp add: fe_new_type_def new_type_def)
qed

lemma ctx_frame_alloc_var: "ctx_frame s h (snd (alloc_var v h))"
proof -
  have "env_vars (snd (alloc_var v h)) w = env_vars h w" for w by (simp add: env_vars_def alloc_var_def)
  then show ?thesis by (simp add: ctx_frame_def) (simp add: alloc_var_def)
qed

lemma ctx_frame_free_vars:
  assumes "set vs \<subseteq> set (env_vars h s)" and "distinct vs"
  shows "ctx_frame s h (snd (fold (add_free_var ctx) vs (fs, h)))"
proof -
  let ?h = "snd (fold (add_free_var ctx) vs (fs, h))"
  have vars: "fe_vars ?h v = (case find_index (\<lambda>w. w = v) (captured h vs) of
      Some i \<Rightarrow> slot_var ctx (length fs + i) (fe_vars h v) | None \<Rightarrow> fe_vars h v)" for v
    by (simp add: add_free_vars assms(2))
  have "fe_vars ?h v = fe_vars h v" if "v \<notin> set (env_vars h s)" for v
  proof -
    from that assms(1) have "find_index (\<lambda>w. w = v) (captured h vs) = None" by (auto simp: find_index_None_iff)
    then show ?thesis by (simp add: vars)
  qed
  moreover have "v_scope (fe_vars ?h v) = v_scope (fe_vars h v)" "v_isClosure (fe_vars ?h v) = v_isClosure (fe_vars h v)" for v
    by (simp_all add: vars split: option.split)
  moreover have "env_vars ?h w = env_vars h w" for w by (simp add: env_vars_def add_free_vars assms(2))
  ultimately show ?thesis by (simp add: ctx_frame_def) (simp add: add_free_vars assms(2) same_tree_def)
qed

text \<open>The loops over the parameters and variables give every captured variable its slot.\<close>

lemma free_var_slot:
  assumes "distinct vs" and "i < length (captured h vs)"
  shows "fe_vars (snd (fold (add_free_var ctx) vs ([], h))) (captured h vs ! i)
    = slot_var ctx i (fe_vars h (captured h vs ! i))"
proof -
  have "find_index (\<lambda>w. w = captured h vs ! i) (captured h vs) = Some i"
    using find_index_distinct [of "\<lambda>x. x" "captured h vs" i] assms by simp
  then show ?thesis by (simp add: add_free_vars assms(1))
qed

lemma var_context:
  assumes ok: "vars_ok h s" and ctx: "sc_contextVariable (fe_scopes h s) = Some ctx"
    and pt: "depth_ok (fe_types h) d pt"
    and ty: "\<And>v. v < fe_nextVar h \<Longrightarrow> depth_ok (fe_types h) d (v_type (fe_vars h v))" and n: "Suc d \<le> n"
  shows "\<exists>h'. parseVarContextType n s ctx pt pv h = Inr h' \<and> ctx_frame s h h' \<and> placed h' s \<and>
    (\<forall>v < fe_nextVar h'. depth_ok (fe_types h') (Suc d) (v_type (fe_vars h' v)))"
proof -
  have mem: "ctx \<in> set (env_vars h s)" and free: "\<not> v_isClosure (fe_vars h ctx)"
    using ok ctx by (simp_all add: vars_ok_def)
  define h0 where "h0 = (case pv of Some v \<Rightarrow> upd_var ctx (v_initContext_update (\<lambda>_. Some v)) h | None \<Rightarrow> h)"
  have fr0: "ctx_frame s h h0"
    unfolding h0_def using mem by (auto intro: ctx_frame_refl ctx_frame_upd_var split: option.split)
  have h0: "v_type (fe_vars h0 v) = v_type (fe_vars h v)" "v_isClosure (fe_vars h0 v) = v_isClosure (fe_vars h v)"
    "fe_types h0 = fe_types h" "fe_nextVar h0 = fe_nextVar h" "env_vars h0 s = env_vars h s" for v
    by (simp_all add: h0_def env_vars_def split: option.split)
  let ?vs = "env_vars h s"
  define r where "r = fold (add_free_var ctx) ?vs ([], h0)"
  have dist: "distinct ?vs" using ok by (simp add: vars_ok_def)
  define h1 where "h1 = snd r"
  have fr1: "ctx_frame s h0 h1" unfolding h1_def r_def by (rule ctx_frame_free_vars) (simp_all add: dist h0)
  have fs: "fst r = map (\<lambda>v. v_type (fe_vars h0 v)) (captured h0 ?vs)"
    and h1: "fe_types h1 = fe_types h" "fe_nextVar h1 = fe_nextVar h"
      "v_type (fe_vars h1 v) = v_type (fe_vars h v)" for v
    by (simp_all add: h1_def r_def add_free_vars dist h0 split: option.split)
  let ?t = "th_next (fe_types h)" and ?T = "TSContext (Some pt) (fst r)"
  define h2 where "h2 = snd (fe_new_type ?T h1)"
  have new: "fe_new_type ?T h1 = (?t, h2)" by (simp add: h2_def fe_new_type_def new_type_def h1)
  have h2: "fe_type h2 ?t = ?T" "th_next (fe_types h2) = Suc ?t" "fe_vars h2 = fe_vars h1"
      "fe_nextVar h2 = fe_nextVar h" "fe_type h2 u = (if u = ?t then ?T else fe_type h u)" for u
    by (simp_all add: h2_def fe_new_type_def new_type_def h1)
  define h3 where "h3 = upd_var ctx (v_type_update (\<lambda>_. ?t)) h2"
  have fr2: "ctx_frame s h0 h2" using ctx_frame_trans [OF fr1 ctx_frame_new_type] by (simp add: h2_def)
  then have "env_vars h2 s = env_vars h0 s" by (simp add: ctx_frame_def)
  then have "ctx_frame s h2 h3" unfolding h3_def using mem h0(5) by (intro ctx_frame_upd_var) simp_all
  then have fr3: "ctx_frame s h h3" using ctx_frame_trans fr0 fr2 by blast
  have ext: "depth_ok (fe_types h3) d u" if "depth_ok (fe_types h) d u" for u
    using that depth_ok_less [OF that] by (elim depth_ok_extend) (simp_all add: h3_def h2)
  have captured_type: "depth_ok (fe_types h) d (v_type (fe_vars h v))" if "v \<in> set (captured h0 ?vs)" for v
    using that ok by (intro ty) (auto simp: h0 vars_ok_def)
  have dt: "depth_ok (fe_types h3) (Suc d) ?t"
    using ext pt captured_type by (auto simp: h3_def h2 printed_def fs h0)
  have "fe_type h3 ?t = ?T" by (simp add: h3_def h2)
  from add_context_type [OF dt n this, of s] obtain m where
    add: "bind_r (toString n (fe_types h3) ?t) (\<lambda>name. addType n s name ?t h3)
      = Inr (upd_scope s (sc_namedTypeMap_update (\<lambda>_. m)) h3)" by auto
  define h4 where "h4 = upd_scope s (sc_namedTypeMap_update (\<lambda>_. m)) h3"
  have "ctx_frame s h3 h4" unfolding h4_def by (intro ctx_frame_upd_scope) simp
  then have fr: "ctx_frame s h h4" using ctx_frame_trans fr3 by blast
  have run: "parseVarContextType n s ctx pt pv h = Inr h4"
    using add new unfolding parseVarContextType_def h0_def [symmetric] h4_def h3_def
    by (simp add: Let_def case_prod_beta h0(5) r_def [symmetric] h1_def [symmetric])
  have ctx4: "v_type (fe_vars h4 ctx) = ?t" "fe_type h4 ?t = ?T" "th_next (fe_types h4) = Suc ?t"
    by (simp_all add: h4_def h3_def h2)
  have cv4: "sc_contextVariable (fe_scopes h4 s) = Some ctx" using fr ctx by (simp add: ctx_frame_def)
  have env4: "env_vars h4 s = ?vs" using fr by (simp add: ctx_frame_def h0)
  have "v_isClosure (fe_vars h4 v) = v_isClosure (fe_vars h0 v)" if "v \<in> set ?vs" for v
    using that fr ok by (simp add: ctx_frame_def vars_ok_def h0)
  then have cap: "captured h4 (env_vars h4 s) = captured h0 ?vs" unfolding env4 by (intro filter_cong) simp_all
  have slot: "fe_vars h4 (captured h0 ?vs ! i) = slot_var ctx i (fe_vars h0 (captured h0 ?vs ! i))"
    if "i < length (captured h0 ?vs)" for i
  proof -
    have "captured h0 ?vs ! i \<noteq> ctx" using nth_mem [OF that] free by (auto simp: h0)
    then show ?thesis using free_var_slot [OF dist that] by (simp add: h4_def h3_def h2 h1_def r_def)
  qed
  have "placed h4 s"
    unfolding placed_def slots_ok_def cap using ctx4 cv4 slot by (auto simp: fs Let_def)
  moreover have "depth_ok (fe_types h4) (Suc d) (v_type (fe_vars h4 v))" if "v < fe_nextVar h4" for v
  proof (cases "v = ctx")
    case False
    then have "v_type (fe_vars h4 v) = v_type (fe_vars h v)" by (simp add: h4_def h3_def h2 h1)
    moreover have "depth_ok (fe_types h3) d (v_type (fe_vars h v))"
      using that by (intro ext ty) (simp add: h4_def h3_def h2)
    ultimately show ?thesis using depth_ok_mono [of _ d _ "Suc d"] by (simp add: h4_def)
  qed (use dt ctx4(1) in \<open>simp add: h4_def\<close>)
  ultimately show ?thesis using run fr by blast
qed

lemma param_context:
  assumes ok: "vars_ok h s" and ty: "\<And>v. v < fe_nextVar h \<Longrightarrow> depth_ok (fe_types h) d (v_type (fe_vars h v))"
    and pv: "\<And>v. pv = Some v \<Longrightarrow> v < fe_nextVar h" and n: "Suc d \<le> n"
  shows "\<exists>h' t. parseParamContextType n s pv h = Inr h' \<and> ctx_frame s h h' \<and>
    fe_vars h' = fe_vars h \<and> fe_nextVar h' = fe_nextVar h \<and> sc_realParamCtxType (fe_scopes h' s) = Some t \<and>
    depth_ok (fe_types h') (Suc d) t"
proof -
  define h1 where "h1 = snd (fe_new_type (TSContext None []) h)"
  define ps where "ps = (case pv of Some v \<Rightarrow> Some (v_type (fe_vars h v)) | None \<Rightarrow> None)"
  define r where "r = (case pv of Some v \<Rightarrow> fe_new_type (TSContext (Some (v_type (fe_vars h1 v))) []) h1
                       | None \<Rightarrow> (th_next (fe_types h), h1))"
  let ?t = "fst r"
  have vars: "fe_vars (snd r) = fe_vars h" "fe_nextVar (snd r) = fe_nextVar h"
    by (simp_all add: r_def h1_def fe_new_type_def new_type_def split: option.split)
  have ctx: "fe_type (snd r) ?t = TSContext ps []" "?t < th_next (fe_types (snd r))"
    "th_next (fe_types h) \<le> th_next (fe_types (snd r))"
    by (simp_all add: r_def h1_def ps_def fe_new_type_def new_type_def split: option.split)
  have old: "fe_type (snd r) u = fe_type h u" if "u < th_next (fe_types h)" for u
    using that by (simp add: r_def h1_def fe_new_type_def new_type_def split: option.split)
  have "depth_ok (fe_types (snd r)) d q" if "ps = Some q" for q
    using that pv ty depth_ok_extend [OF _ ctx(3) old] by (auto simp: ps_def split: option.splits)
  with ctx have "depth_ok (fe_types (snd r)) (Suc d) ?t" by (auto simp: printed_def split: option.split)
  then have dt: "depth_ok (fe_types (upd_scope s (sc_realParamCtxType_update (\<lambda>_. Some ?t)) (snd r))) (Suc d) ?t" by simp
  from add_context_type [OF this n, of ps "[]" s] ctx(1) obtain m where
    add: "bind_r (toString n (fe_types (snd r)) ?t)
        (\<lambda>name. addType n s name ?t (upd_scope s (sc_realParamCtxType_update (\<lambda>_. Some ?t)) (snd r)))
      = Inr (upd_scope s (sc_namedTypeMap_update (\<lambda>_. m)) (upd_scope s (sc_realParamCtxType_update (\<lambda>_. Some ?t)) (snd r)))"
    by auto
  define h' where "h' = upd_scope s (sc_namedTypeMap_update (\<lambda>_. m)) (upd_scope s (sc_realParamCtxType_update (\<lambda>_. Some ?t)) (snd r))"
  have "ctx_frame s h h1" unfolding h1_def by (rule ctx_frame_new_type)
  moreover have "ctx_frame s h1 (snd r)"
    unfolding r_def by (auto simp: ctx_frame_refl ctx_frame_new_type split: option.split)
  moreover have "ctx_frame s (snd r) (upd_scope s (sc_realParamCtxType_update (\<lambda>_. Some ?t)) (snd r))"
    by (intro ctx_frame_upd_scope) simp
  moreover have "ctx_frame s (upd_scope s (sc_realParamCtxType_update (\<lambda>_. Some ?t)) (snd r)) h'"
    unfolding h'_def by (intro ctx_frame_upd_scope) simp
  ultimately have "ctx_frame s h h'" using ctx_frame_trans by blast
  moreover have "parseParamContextType n s pv h = Inr h'"
  proof -
    have "fe_new_type (TSContext None []) h = (th_next (fe_types h), h1)"
      by (simp add: h1_def fe_new_type_def new_type_def)
    then show ?thesis
      using add unfolding parseParamContextType_def h'_def [symmetric]
      by (cases pv) (simp_all add: Let_def case_prod_beta r_def)
  qed
  moreover have "sc_realParamCtxType (fe_scopes h' s) = Some ?t" "fe_vars h' = fe_vars h"
    "fe_nextVar h' = fe_nextVar h" "depth_ok (fe_types h') (Suc d) ?t"
    using dt vars by (simp_all add: h'_def)
  ultimately show ?thesis by blast
qed

lemma up_to_below:
  assumes "scope_tree h" and "s < fe_nextScope h" and "up_to n P (fe_scopes h) (Some s) = Inr (Some q)"
  shows "q \<le> s"
  using assms(2,3)
proof (induction n arbitrary: s)
  case (Suc n)
  show ?case
  proof (cases "P (fe_scopes h s)")
    case False
    with Suc.prems obtain p where p: "sc_parent (fe_scopes h s) = Some p" by (cases "sc_parent (fe_scopes h s)") auto
    with Suc.prems assms(1) have "p < s" using parent_less by blast
    moreover have "q \<le> p" using Suc.prems False p \<open>p < s\<close> by (intro Suc.IH) simp_all
    ultimately show ?thesis by simp
  qed (use Suc.prems in simp)
qed (simp split: if_splits)

lemma parent_context_returns:
  assumes "ctx_inv d h" and "s < fe_nextScope h"
  shows "\<exists>pv. parent_context h s = Inr pv \<and> (\<forall>v. pv = Some v \<longrightarrow> v < fe_nextVar h)"
proof (cases "sc_parent (fe_scopes h s)")
  case (Some p)
  have tree: "scope_tree h" using assms(1) by (simp add: ctx_inv_def)
  with Some assms(2) have p: "p < fe_nextScope h" using parent_less by fastforce
  from up_to_returns [OF tree p p] obtain q where
    q: "up_to (fe_nextScope h) (\<lambda>c. sc_kind c \<noteq> ScopeKind.ClassScope \<and> sc_kind c \<noteq> ScopeKind.NamespaceScope)
          (fe_scopes h) (Some p) = Inr q" by blast
  have "v < fe_nextVar h" if "q = Some c" "sc_contextVariable (fe_scopes h c) = Some v" for c v
  proof -
    from q that(1) up_to_below [OF tree p] have "c \<le> p" by simp
    with p assms(1) have "vars_ok h c" by (simp add: ctx_inv_def)
    with that(2) show ?thesis by (auto simp: vars_ok_def)
  qed
  with q Some show ?thesis by (auto simp: parent_context_def split: option.split)
qed (simp add: parent_context_def)

text \<open>One step of the walk succeeds and lays out the context of its scope.\<close>

lemma types_extend:
  assumes "ctx_frame s h h'" and "v < fe_nextVar h" and "depth_ok (fe_types h) d (v_type (fe_vars h v))"
  shows "depth_ok (fe_types h') (Suc d) (v_type (fe_vars h v))"
proof -
  have "depth_ok (fe_types h') d (v_type (fe_vars h v))"
    using assms(1) by (intro depth_ok_extend [OF assms(3)]) (simp_all add: ctx_frame_def)
  then show ?thesis by (rule depth_ok_mono) simp
qed

lemma function_step:
  assumes ok: "vars_ok h s" and ctx: "sc_contextVariable (fe_scopes h s) = Some ctx"
    and ty: "\<And>v. v < fe_nextVar h \<Longrightarrow> depth_ok (fe_types h) d (v_type (fe_vars h v))"
    and pc: "parent_context h s = Inr pv" and pv: "\<And>v. pv = Some v \<Longrightarrow> v < fe_nextVar h"
    and k: "scope_kind h s = ScopeKind.FunctionScope" and n: "Suc (Suc d) \<le> n"
  shows "\<exists>h'. parse_context_scope n s h = Inr h' \<and> ctx_frame s h h' \<and> placed h' s \<and>
    (\<forall>v < fe_nextVar h'. depth_ok (fe_types h') (Suc (Suc d)) (v_type (fe_vars h' v)))"
proof -
  from param_context [OF ok ty, of pv n] pv n obtain h1 rt where
    h1: "parseParamContextType n s pv h = Inr h1" "ctx_frame s h h1" "fe_vars h1 = fe_vars h"
      "fe_nextVar h1 = fe_nextVar h" "sc_realParamCtxType (fe_scopes h1 s) = Some rt"
      "depth_ok (fe_types h1) (Suc d) rt" by auto
  define r where "r = alloc_var (new_Parameter (js_lit ''@context'') rt [] 0 False False) h1"
  have fr: "ctx_frame s h (snd r)"
    using ctx_frame_trans [OF h1(2) ctx_frame_alloc_var] by (simp add: r_def)
  have types: "fe_types (snd r) = fe_types h1" by (simp add: r_def alloc_var_def)
  have ty2: "depth_ok (fe_types (snd r)) (Suc d) (v_type (fe_vars (snd r) v))" if "v < fe_nextVar (snd r)" for v
  proof (cases "v < fe_nextVar h")
    case True
    then have "fe_vars (snd r) v = fe_vars h v" by (simp add: r_def alloc_var_def h1)
    with types_extend [OF fr True ty [OF True]] show ?thesis by simp
  next
    case False
    with that have "v = fe_nextVar h" by (simp add: r_def alloc_var_def h1)
    with h1(6) show ?thesis by (simp add: r_def alloc_var_def h1 new_Parameter_def new_Variable_def)
  qed
  have "sc_contextVariable (fe_scopes (snd r) s) = Some ctx" using fr ctx by (simp add: ctx_frame_def)
  from var_context [OF vars_ok_frame [OF ok fr] this _ ty2, of rt n "Some (fst r)"] h1(6) n types obtain h2 where
    h2: "parseVarContextType n s ctx rt (Some (fst r)) (snd r) = Inr h2" "ctx_frame s (snd r) h2" "placed h2 s"
      "\<forall>v < fe_nextVar h2. depth_ok (fe_types h2) (Suc (Suc d)) (v_type (fe_vars h2 v))" by auto
  have "sc_contextVariable (fe_scopes h1 s) = Some ctx" using h1(2) ctx by (simp add: ctx_frame_def)
  then have "parse_context_scope n s h = Inr h2"
    using k pc h1(1,5) h2(1) by (simp add: parse_context_scope_def is_closure_env_def case_prod_beta r_def)
  with ctx_frame_trans [OF fr h2(2)] h2(3,4) show ?thesis by blast
qed

lemma block_step:
  assumes ok: "vars_ok h s" and ctx: "sc_contextVariable (fe_scopes h s) = Some ctx"
    and ty: "\<And>v. v < fe_nextVar h \<Longrightarrow> depth_ok (fe_types h) d (v_type (fe_vars h v))"
    and pc: "parent_context h s = Inr pv" and pv: "\<And>v. pv = Some v \<Longrightarrow> v < fe_nextVar h"
    and k: "scope_kind h s = ScopeKind.BlockScope" and n: "Suc (Suc d) \<le> n"
    and p: "sc_parent (fe_scopes h s) = Some p" "getNearestFunctionScope h p = Inr (Some f)"
  shows "\<exists>h'. parse_context_scope n s h = Inr h' \<and> ctx_frame s h h' \<and> placed h' s \<and>
    (\<forall>v < fe_nextVar h'. depth_ok (fe_types h') (Suc (Suc d)) (v_type (fe_vars h' v)))"
proof -
  define r where "r = (case pv of Some v \<Rightarrow> (v_type (fe_vars h v), h) | None \<Rightarrow> fe_new_type (TSContext None []) h)"
  have fr: "ctx_frame s h (snd r)"
    by (auto simp: r_def ctx_frame_refl ctx_frame_new_type split: option.split)
  have vars: "fe_vars (snd r) = fe_vars h" "fe_nextVar (snd r) = fe_nextVar h"
    by (simp_all add: r_def fe_new_type_def new_type_def split: option.split)
  have ty2: "depth_ok (fe_types (snd r)) (Suc d) (v_type (fe_vars (snd r) v))" if "v < fe_nextVar (snd r)" for v
    using that types_extend [OF fr _ ty] by (simp add: vars)
  have "depth_ok (fe_types (snd r)) (Suc d) (fst r)"
    using types_extend [OF fr _ ty] pv
    by (cases pv) (simp_all add: r_def fe_new_type_def new_type_def printed_def)
  moreover have "sc_contextVariable (fe_scopes (snd r) s) = Some ctx" using fr ctx by (simp add: ctx_frame_def)
  ultimately obtain h2 where
    h2: "parseVarContextType n s ctx (fst r) pv (snd r) = Inr h2" "ctx_frame s (snd r) h2" "placed h2 s"
      "\<forall>v < fe_nextVar h2. depth_ok (fe_types h2) (Suc (Suc d)) (v_type (fe_vars h2 v))"
    using var_context [OF vars_ok_frame [OF ok fr] _ _ ty2, of ctx "fst r" n pv] n by auto
  have "parse_context_scope n s h = Inr h2"
    using k pc p ctx h2(1)
    by (cases pv) (simp_all add: parse_context_scope_def is_closure_env_def case_prod_beta r_def)
  with ctx_frame_trans [OF fr h2(2)] h2(3,4) show ?thesis by blast
qed

lemma no_step:
  assumes "scope_tree h" and "s < fe_nextScope h" and "parent_context h s = Inr pv" and "\<not> lays_out h s"
  shows "parse_context_scope n s h = Inr h"
proof (cases "scope_kind h s = ScopeKind.BlockScope")
  case True
  have "(case sc_parent (fe_scopes h s) of Some p \<Rightarrow> getNearestFunctionScope h p | None \<Rightarrow> Inr None) = Inr None"
  proof (cases "sc_parent (fe_scopes h s)")
    case (Some p)
    with assms(1,2) have "p < fe_nextScope h" using parent_less by fastforce
    with assms(1) obtain f where "getNearestFunctionScope h p = Inr f"
      using getScopeByType_returns unfolding getNearestFunctionScope_def by blast
    with assms(4) True Some show ?thesis by (cases f) (auto simp: lays_out_def)
  qed simp
  with True assms(3) show ?thesis by (simp add: parse_context_scope_def is_closure_env_def)
qed (use assms(4) in \<open>simp add: parse_context_scope_def is_closure_env_def lays_out_def\<close>)

lemma context_step:
  assumes inv: "ctx_inv d h" and s: "s < fe_nextScope h" and n: "Suc (Suc d) \<le> n"
  shows "\<exists>h'. parse_context_scope n s h = Inr h' \<and> ctx_frame s h h' \<and> ctx_inv (Suc (Suc d)) h' \<and>
    (lays_out h s \<longrightarrow> placed h' s)"
proof -
  have ok: "vars_ok h s" and ty: "\<And>v. v < fe_nextVar h \<Longrightarrow> depth_ok (fe_types h) d (v_type (fe_vars h v))"
    and tree: "scope_tree h" and cv: "lays_out h s \<Longrightarrow> \<exists>ctx. sc_contextVariable (fe_scopes h s) = Some ctx"
    using inv s by (simp_all add: ctx_inv_def)
  from parent_context_returns [OF inv s] obtain pv where pc: "parent_context h s = Inr pv"
    and pv: "\<And>v. pv = Some v \<Longrightarrow> v < fe_nextVar h" by blast
  have fin: ?thesis if "\<exists>h'. parse_context_scope n s h = Inr h' \<and> ctx_frame s h h' \<and> placed h' s \<and>
    (\<forall>v < fe_nextVar h'. depth_ok (fe_types h') (Suc (Suc d)) (v_type (fe_vars h' v)))"
    using that ctx_inv_frame [OF inv] by blast
  show ?thesis
  proof (cases "lays_out h s")
    case True
    with cv obtain ctx where ctx: "sc_contextVariable (fe_scopes h s) = Some ctx" by blast
    from True consider "scope_kind h s = ScopeKind.FunctionScope"
      | p f where "scope_kind h s = ScopeKind.BlockScope" "sc_parent (fe_scopes h s) = Some p"
          "getNearestFunctionScope h p = Inr (Some f)"
      by (auto simp: lays_out_def)
    then show ?thesis
    proof cases
      case 1
      from function_step [OF ok ctx ty pc pv 1 n] show ?thesis by (rule fin)
    next
      case 2
      from block_step [OF ok ctx ty pc pv 2(1) n 2(2,3)] show ?thesis by (rule fin)
    qed
  next
    case False
    have "ctx_inv (Suc (Suc d)) h"
      by (rule ctx_inv_frame [OF inv ctx_frame_refl], rule depth_ok_mono [OF ty]) simp_all
    with no_step [OF tree s pc False] False ctx_frame_refl show ?thesis by blast
  qed
qed

lemma context_fold:
  assumes "ctx_inv d h" and "\<forall>s \<in> set xs. s < fe_nextScope h" and "d + 2 * length xs \<le> n"
  shows "\<exists>h'. fold_r (parse_context_scope n) xs h = Inr h' \<and> same_tree h h' \<and> same_decls h h' \<and> ctx_inv (d + 2 * length xs) h' \<and>
    (\<forall>s \<in> set xs. lays_out h s \<longrightarrow> placed h' s) \<and>
    (\<forall>s. s < fe_nextScope h \<longrightarrow> placed h s \<longrightarrow> s \<notin> set xs \<longrightarrow> placed h' s)"
  using assms
proof (induction xs arbitrary: d h rule: rev_induct)
  case (snoc x xs)
  from snoc.prems have "\<forall>s \<in> set xs. s < fe_nextScope h" "d + 2 * length xs \<le> n" by simp_all
  from snoc.IH [OF snoc.prems(1) this] obtain h1 where h1: "fold_r (parse_context_scope n) xs h = Inr h1" "same_tree h h1" "same_decls h h1"
    "ctx_inv (d + 2 * length xs) h1" "\<forall>s \<in> set xs. lays_out h s \<longrightarrow> placed h1 s"
    "\<forall>s. s < fe_nextScope h \<longrightarrow> placed h s \<longrightarrow> s \<notin> set xs \<longrightarrow> placed h1 s" by blast
  have next1: "fe_nextScope h1 = fe_nextScope h" using h1(2) by (simp add: same_tree_def)
  have x: "x < fe_nextScope h1" using snoc.prems(2) next1 by simp
  from context_step [OF h1(4) x, of n] snoc.prems(3) obtain h2 where
    h2: "parse_context_scope n x h1 = Inr h2" "ctx_frame x h1 h2" "ctx_inv (d + 2 * length (xs @ [x])) h2"
      "lays_out h1 x \<longrightarrow> placed h2 x" by auto
  have kept: "placed h2 s" if "placed h1 s" "s < fe_nextScope h" "s \<noteq> x" for s
    using that h1(4) x next1 by (intro placed_frame [OF that(1) _ _ that(3) h2(2)]) (simp_all add: ctx_inv_def)
  have "same_tree h h2" using h1(2) h2(2) same_tree_trans by (auto simp: ctx_frame_def)
  moreover have "lays_out h1 s = lays_out h s" for s using lays_out_same [OF h1(2)] .
  moreover have "placed h2 s" if "s \<in> set (xs @ [x])" "lays_out h s" for s
    using that kept [of s] h1(5) h2(4) calculation(2) snoc.prems(2) by (cases "s = x") simp_all
  moreover have "\<forall>s. s < fe_nextScope h \<longrightarrow> placed h s \<longrightarrow> s \<notin> set (xs @ [x]) \<longrightarrow> placed h2 s"
    using kept h1(6) by simp
  moreover have "same_decls h h2" using same_decls_frame [OF h1(3) h2(2)] .
  ultimately show ?case using h1(1) h2(1,3) by (simp add: fold_r_append)
qed (simp add: ctx_inv_def same_decls_def)

subsection \<open>The walks of the resolver\<close>

lemma addType_tree: "addType n s name t h = Inr h' \<Longrightarrow> same_tree h h'"
  by (auto simp: addType_def Let_def same_tree_def bind_r_def split: if_splits sum.splits)

lemma free_vars_tree: "same_tree h (snd (fold (add_free_var ctx) vs (fs, h)))"
proof (induction vs arbitrary: fs h)
  case (Cons v vs)
  have "same_tree h (snd (add_free_var ctx v (fs, h)))" by (simp add: add_free_var_def)
  moreover have "same_tree (snd (add_free_var ctx v (fs, h))) (snd (fold (add_free_var ctx) (v # vs) (fs, h)))"
    using Cons [of "snd (add_free_var ctx v (fs, h))" "fst (add_free_var ctx v (fs, h))"] by simp
  ultimately show ?case by (rule same_tree_trans)
qed simp

lemma context_type_tree:
  "bind_r (toString n (fe_types h) t) (\<lambda>name. addType n s name t h) = Inr h' \<Longrightarrow> same_tree h h'"
  by (auto simp: bind_r_def addType_tree split: sum.splits)

lemma parseVarContextType_tree:
  assumes "parseVarContextType n s ctx pt pv h = Inr h'"
  shows "same_tree h h'"
proof -
  define h0 where "h0 = (case pv of Some v \<Rightarrow> upd_var ctx (v_initContext_update (\<lambda>_. Some v)) h | None \<Rightarrow> h)"
  define r where "r = fold (add_free_var ctx) (env_vars h0 s) ([], h0)"
  define q where "q = fe_new_type (TSContext (Some pt) (fst r)) (snd r)"
  define h3 where "h3 = upd_var ctx (v_type_update (\<lambda>_. fst q)) (snd q)"
  have "same_tree h h0" by (simp add: h0_def split: option.split)
  moreover have "same_tree h0 (snd r)" unfolding r_def by (rule free_vars_tree)
  moreover have "same_tree (snd r) (snd q)" unfolding q_def by simp
  moreover have "same_tree (snd q) h3" by (simp add: h3_def)
  moreover have "same_tree h3 h'"
    using assms unfolding parseVarContextType_def h0_def [symmetric]
    by (intro context_type_tree) (simp add: Let_def case_prod_beta r_def [symmetric] q_def [symmetric] h3_def)
  ultimately show ?thesis using same_tree_trans by blast
qed

lemma parseParamContextType_tree: "parseParamContextType n s pv h = Inr h' \<Longrightarrow> same_tree h h'"
  unfolding parseParamContextType_def Let_def case_prod_beta
  by (drule context_type_tree [rotated -1, where n = n], cases pv) (simp_all add: same_tree_def fe_new_type_def new_type_def)

lemma parse_context_tree:
  assumes "parse_context_scope n s h = Inr h'"
  shows "same_tree h h'"
proof (cases "is_closure_env h s")
  case True
  with assms obtain pv where pv: "parent_context h s = Inr pv"
    by (auto simp: parse_context_scope_def bind_r_def split: sum.splits)
  show ?thesis
  proof (cases "scope_kind h s = ScopeKind.FunctionScope")
    case fn: True
    with assms True pv obtain h1 rt ctx where h1: "parseParamContextType n s pv h = Inr h1"
      and run: "parseVarContextType n s ctx rt (Some (fe_nextVar h1))
        (snd (alloc_var (new_Parameter (js_lit ''@context'') rt [] 0 False False) h1)) = Inr h'"
      by (auto simp: parse_context_scope_def bind_r_def alloc_var_def split: sum.splits option.splits)
    show ?thesis
      using same_tree_trans [OF same_tree_trans [OF parseParamContextType_tree [OF h1] same_tree_alloc_var]
          parseVarContextType_tree [OF run]] .
  next
    case block: False
    with assms True pv have "h' = h \<or> (\<exists>ctx t. parseVarContextType n s ctx t pv h = Inr h') \<or>
      (\<exists>ctx. parseVarContextType n s ctx (fst (fe_new_type (TSContext None []) h)) pv
         (snd (fe_new_type (TSContext None []) h)) = Inr h')"
      by (auto simp: parse_context_scope_def bind_r_def case_prod_beta split: sum.splits option.splits)
    then show ?thesis
      using parseVarContextType_tree same_tree_refl same_tree_trans [OF same_tree_new_type(1)] by blast
  qed
qed (use assms in \<open>simp add: parse_context_scope_def\<close>)

interpretation contexts: tree_walk "parse_context_scope n"
  by unfold_locales (rule parse_context_tree)

interpretation this_types: tree_walk "\<lambda>s h. Inr (parse_this_scope s h)"
  by unfold_locales (auto simp: parse_this_scope_def Let_def split: option.split)

text \<open>
  C27. The layout of contexts succeeds on a module whose types have a bounded depth, and afterwards
  the context variable of every function and of every block inside a function has a context type
  in which each captured parameter and variable of this scope has a slot of its own, with its
  type; the slots are numbered in the order of the declarations, parameters first. The scopes
  keep their variables, their context variable and what is captured.
\<close>

theorem contexts_laid_out:
  assumes "ctx_inv d h" and "g < fe_nextScope h" and "fe_nextScope h \<le> g + n"
    and "d + 2 * length (preorder n h g) \<le> n"
  shows "\<exists>h'. parseContext n g h = Inr h' \<and> same_decls h h' \<and>
    (\<forall>s \<in> set (preorder n h g). lays_out h s \<longrightarrow> slots_ok h' s)"
proof -
  have tree: "scope_tree h" using assms(1) by (simp add: ctx_inv_def)
  have below: "\<forall>s \<in> set (preorder n h g). s < fe_nextScope h" using preorder_ge [OF tree assms(2)] by blast
  have "parseContext n g h = fold_r (parse_context_scope n) (preorder n h g) h"
    unfolding parseContext_def by (rule contexts.traverse_fold [OF tree assms(2,3)])
  with context_fold [OF assms(1) below assms(4)] show ?thesis by (auto simp: placed_def)
qed

text \<open>A module with a function whose parameter is captured by a function inside it.\<close>

definition sample_closure :: fe_heap where
  "sample_closure =
     \<lparr>fe_types = \<lparr>th_types = (\<lambda>_. Primitive ''number''), th_next = 1\<rparr>,
      fe_scopes = (\<lambda>s. if s = 0 then (new_scope ScopeKind.GlobalScope None)\<lparr>sc_children := [1]\<rparr>
                       else if s = 1 then (new_scope ScopeKind.FunctionScope (Some 0))
                         \<lparr>sc_children := [2], sc_parameterArray := [0], sc_variableArray := [1],
                          sc_contextVariable := Some 1\<rparr>
                       else (new_scope ScopeKind.FunctionScope (Some 1))
                         \<lparr>sc_variableArray := [2], sc_contextVariable := Some 2\<rparr>),
      fe_nextScope = 3,
      fe_vars = (\<lambda>v. (new_Variable [word_of_nat (97 + v)] 0 [])
         \<lparr>v_scope := Some (if v = 2 then 2 else 1), v_isClosure := (v = 0)\<rparr>),
      fe_nextVar = 3\<rparr>"

lemma sample_closure_inv: "ctx_inv 1 sample_closure"
proof -
  have "scope_tree sample_closure"
    by (auto simp: scope_tree_def node_ok_def sample_closure_def numeral_3_eq_3 less_Suc_eq split: if_splits)
  moreover have "vars_ok sample_closure u \<and> (lays_out sample_closure u \<longrightarrow> sc_contextVariable (fe_scopes sample_closure u) \<noteq> None)"
    if "u < 3" for u
    using that by (auto simp: vars_ok_def env_vars_def lays_out_def sample_closure_def numeral_3_eq_3 less_Suc_eq new_scope_def)
  moreover have "depth_ok (fe_types sample_closure) 1 (v_type (fe_vars sample_closure v))" for v
    by (simp add: sample_closure_def new_Variable_def printed_def)
  ultimately show ?thesis by (simp add: ctx_inv_def sample_closure_def)
qed

theorem contexts_laid_out_witness:
  "\<exists>h' p. parseContext 7 0 sample_closure = Inr h' \<and> v_closureIndex (fe_vars h' 0) = Some 0 \<and>
    v_belongCtx (fe_vars h' 0) = Some 1 \<and>
    fe_type h' (v_type (fe_vars h' 1)) = TSContext p [v_type (fe_vars h' 0)]"
proof -
  have pre: "preorder 7 sample_closure 0 = [0, 1, 2]"
    by (simp add: sample_closure_def eval_nat_numeral)
  have "\<exists>h'. parseContext 7 0 sample_closure = Inr h' \<and> same_decls sample_closure h' \<and>
      (\<forall>s \<in> set (preorder 7 sample_closure 0). lays_out sample_closure s \<longrightarrow> slots_ok h' s)"
    by (rule contexts_laid_out [OF sample_closure_inv])
      (simp_all add: pre, simp_all add: sample_closure_def)
  then obtain h' where h': "parseContext 7 0 sample_closure = Inr h'" "same_decls sample_closure h'" "slots_ok h' 1"
    unfolding pre by (auto simp: lays_out_def sample_closure_def)
  have env: "env_vars h' 1 = [0, 1]" "sc_contextVariable (fe_scopes h' 1) = Some 1"
    "v_isClosure (fe_vars h' 0)" "\<not> v_isClosure (fe_vars h' 1)"
    using h'(2) by (simp_all add: same_decls_def sample_closure_def env_vars_def)
  then have "captured h' (env_vars h' 1) = [0]" by simp
  with h'(1,3) env(2) show ?thesis
    by (auto simp: slots_ok_def length_Suc_conv)
qed

end
