(* ===== verification/MangleProofs.thy ===== *)
theory MangleProofs
  imports ContextProofs
begin

text \<open>
  Properties of \<open>mangling\<close>: the mangled name of a scope is the path of names from its module.
\<close>

section \<open>Joins\<close>

lemma first_part: "a @ d # u = b @ d # v \<Longrightarrow> d \<notin> set a \<Longrightarrow> d \<notin> set b \<Longrightarrow> a = b \<and> u = v"
proof (induction a arbitrary: b)
  case Nil
  then show ?case by (cases b) auto
next
  case (Cons x a)
  then show ?case by (cases b) auto
qed

text \<open>A join with a separator that occurs in none of the parts can be taken apart again.\<close>

lemma js_join_inject:
  assumes "xs \<noteq> []" and "ys \<noteq> []" and "\<forall>x \<in> set xs \<union> set ys. d \<notin> set x"
    and "js_join [d] xs = js_join [d] ys"
  shows "xs = ys"
  using assms
proof (induction xs arbitrary: ys)
  case (Cons x xs)
  then obtain y zs where ys: "ys = y # zs" by (cases ys) auto
  show ?case
  proof (cases xs)
    case Nil
    with Cons.prems ys show ?thesis by (cases zs) auto
  next
    case (Cons x' xs')
    then have xs: "xs \<noteq> []" by simp
    have zs: "zs \<noteq> []" using Cons.prems ys Cons by (cases zs) auto
    have "js_join [d] (x # xs) = x @ d # js_join [d] xs" "js_join [d] ys = y @ d # js_join [d] zs"
      using ys zs xs by (cases xs; cases zs; simp)+
    with Cons.prems ys have "x = y" "js_join [d] xs = js_join [d] zs"
      using first_part [of x d "js_join [d] xs" y "js_join [d] zs"] by simp_all
    with Cons.IH [OF xs zs] Cons.prems ys show ?thesis by auto
  qed
qed simp

section \<open>Paths\<close>

definition scope_path :: "bool \<Rightarrow> fe_heap \<Rightarrow> scope_id \<Rightarrow> js_string list" where
  "scope_path win32 h s = map (\<lambda>t. convertWindowsPath win32 (sc_name (fe_scopes h t))) (rev (ancestors h s))"

text \<open>Two heaps with the same tree and the same names.\<close>

definition same_names :: "fe_heap \<Rightarrow> fe_heap \<Rightarrow> bool" where
  "same_names h h' \<longleftrightarrow> same_tree h h' \<and> (\<forall>s. sc_name (fe_scopes h' s) = sc_name (fe_scopes h s))"

lemma ancestors_same: "same_tree h h' \<Longrightarrow> ancestors h' s = ancestors h s"
proof (induction h s rule: ancestors.induct)
  case (1 h s)
  then show ?case
    by (subst (1 2) ancestors.simps) (auto simp: same_tree_def split: option.split)
qed

lemma scope_path_same: "same_names h h' \<Longrightarrow> scope_path w h' s = scope_path w h s"
  using ancestors_same [of h h' s] by (simp add: scope_path_def same_names_def)

lemma scope_path_root: "sc_parent (fe_scopes h s) = None \<Longrightarrow>
   scope_path w h s = [convertWindowsPath w (sc_name (fe_scopes h s))]"
  by (simp add: scope_path_def ancestors.simps [of h s])

lemma scope_path_child: "sc_parent (fe_scopes h s) = Some p \<Longrightarrow> p < s \<Longrightarrow>
   scope_path w h s = scope_path w h p @ [convertWindowsPath w (sc_name (fe_scopes h s))]"
  by (simp add: scope_path_def ancestors.simps [of h s])

section \<open>One scope\<close>

lemma mangle_vars_scopes: "fe_scopes (fold (mangle_var d p) vs h) = fe_scopes h \<and>
   fe_nextScope (fold (mangle_var d p) vs h) = fe_nextScope h"
  by (induction vs arbitrary: h) (simp_all add: mangle_var_def)

lemma mangle_interface_scopes: "fe_scopes (mangle_interface d p k t h) = fe_scopes h \<and>
   fe_nextScope (mangle_interface d p k t h) = fe_nextScope h"
  by (simp add: mangle_interface_def set_class_mangled_def split: ts_type.split)

lemma mangle_interfaces_scopes: "fe_scopes (fold (mangle_interface d p k) ts h) = fe_scopes h \<and>
   fe_nextScope (fold (mangle_interface d p k) ts h) = fe_nextScope h"
  by (induction ts arbitrary: h) (simp_all add: mangle_interface_scopes)

lemma mangle_members_scopes: "fe_scopes (mangle_members d p k s h) = fe_scopes h \<and>
   fe_nextScope (mangle_members d p k s h) = fe_nextScope h"
  by (simp add: mangle_members_def mangle_interfaces_scopes mangle_vars_scopes)

lemma set_class_mangled_scopes: "fe_scopes (set_class_mangled m t h) = fe_scopes h \<and>
   fe_nextScope (set_class_mangled m t h) = fe_nextScope h"
  by (simp add: set_class_mangled_def split: ts_type.split)

lemmas mangle_parts = mangle_members_scopes set_class_mangled_scopes

lemma mangle_scope_names: "same_names h (mangle_scope w d p s h)"
  by (simp add: mangle_scope_def Let_def same_names_def same_tree_def mangle_parts split: ScopeKind.split option.split)

lemma mangle_scope_name:
  "sc_mangledName (fe_scopes (mangle_scope w d p s h) t) =
     (if t = s then js_join d p else sc_mangledName (fe_scopes h t))"
  by (simp add: mangle_scope_def Let_def mangle_parts split: ScopeKind.split option.split)

section \<open>The whole walk\<close>

definition mangle_step :: "bool \<Rightarrow> js_string \<Rightarrow> scope_id \<Rightarrow> fe_heap \<Rightarrow> fe_heap result" where
  "mangle_step w d s h = Inr (mangle_scope w d (scope_path w h s) s h)"

interpretation mangled: tree_walk "mangle_step w d"
  by unfold_locales (use mangle_scope_names in \<open>auto simp: mangle_step_def same_names_def\<close>)

lemma same_names_trans: "same_names h h' \<Longrightarrow> same_names h' h'' \<Longrightarrow> same_names h h''"
  by (auto simp: same_names_def intro: same_tree_trans)

lemma mangle_steps:
  "\<exists>h'. fold_r (mangle_step w d) xs h = Inr h' \<and> same_names h h' \<and>
    (\<forall>s. sc_mangledName (fe_scopes h' s) =
       (if s \<in> set xs then js_join d (scope_path w h s) else sc_mangledName (fe_scopes h s)))"
proof (induction xs arbitrary: h)
  case (Cons x xs)
  let ?h = "mangle_scope w d (scope_path w h x) x h"
  have names: "same_names h ?h" by (rule mangle_scope_names)
  from Cons [of ?h] obtain h' where h': "fold_r (mangle_step w d) xs ?h = Inr h'" "same_names ?h h'"
    "\<forall>s. sc_mangledName (fe_scopes h' s) =
       (if s \<in> set xs then js_join d (scope_path w ?h s) else sc_mangledName (fe_scopes ?h s))" by blast
  have "sc_mangledName (fe_scopes h' s) =
       (if s \<in> set (x # xs) then js_join d (scope_path w h s) else sc_mangledName (fe_scopes h s))" for s
    using h'(3) by (simp add: scope_path_same [OF names] mangle_scope_name)
  moreover have "fold_r (mangle_step w d) (x # xs) h = Inr h'" using h'(1) by (simp add: mangle_step_def [of w d x])
  ultimately show ?case using same_names_trans [OF names h'(2)] by blast
qed (simp add: same_names_def)

text \<open>The recursion of \<open>mangling\<close> with its prefix is the walk in preorder.\<close>

lemma mangling_walk:
  assumes "scope_tree h" and "\<forall>s \<in> set ss. s < fe_nextScope h \<and> fe_nextScope h < s + n \<and>
      scope_path w h s = prefix @ [convertWindowsPath w (sc_name (fe_scopes h s))]"
    and "\<forall>s. sc_kind (fe_scopes h s) \<noteq> ScopeKind.Scope" and "0 < n"
  shows "mangling n w d ss (prefix, h) = bind_r (fold_r (mangle_step w d) (concat (map (preorder n h) ss)) h) (\<lambda>h'. Inr (prefix, h'))"
  using assms
proof (induction n arbitrary: ss prefix h)
  case (Suc n)
  show ?case
    using Suc.prems(1-3)
  proof (induction ss arbitrary: h)
    case (Cons s ss)
    let ?h = "mangle_scope w d (scope_path w h s) s h" and ?cs = "sc_children (fe_scopes h s)"
    have s: "s < fe_nextScope h" "fe_nextScope h < s + Suc n" 
      and path: "scope_path w h s = prefix @ [convertWindowsPath w (sc_name (fe_scopes h s))]"
      using Cons.prems(2) by simp_all
    have names: "same_names h ?h" by (rule mangle_scope_names)
    then have tree: "scope_tree ?h" and same: "sc_children (fe_scopes ?h s) = ?cs" "fe_nextScope ?h = fe_nextScope h"
      "\<forall>s. sc_kind (fe_scopes ?h s) \<noteq> ScopeKind.Scope"
      using scope_tree_same [OF Cons.prems(1)] Cons.prems(3) by (auto simp: same_names_def same_tree_def)
    have "c < fe_nextScope ?h \<and> fe_nextScope ?h < c + n \<and>
        scope_path w ?h c = scope_path w h s @ [convertWindowsPath w (sc_name (fe_scopes ?h c))]"
      if "c \<in> set ?cs" for c
    proof -
      from child_of [OF Cons.prems(1) s(1) that] have c: "s < c" "c < fe_nextScope h" "sc_parent (fe_scopes h c) = Some s"
        by simp_all
      have "sc_name (fe_scopes ?h c) = sc_name (fe_scopes h c)" using names by (simp add: same_names_def)
      then show ?thesis
        using c s(2) by (simp add: same scope_path_same [OF names] scope_path_child)
    qed
    then have IH: "mangling n w d ?cs (scope_path w h s, ?h)
        = bind_r (fold_r (mangle_step w d) (concat (map (preorder n ?h) ?cs)) ?h) (\<lambda>h'. Inr (scope_path w h s, h'))"
      using s by (intro Suc.IH tree same) auto
    have pre: "preorder n ?h = preorder n h" using preorder_same [of h ?h n] names by (auto simp: same_names_def)
    from mangle_steps [of w d "concat (map (preorder n h) ?cs)" ?h] obtain h2 where
      h2: "fold_r (mangle_step w d) (concat (map (preorder n h) ?cs)) ?h = Inr h2" "same_names ?h h2" by blast
    have names2: "same_names h h2" using same_names_trans [OF names h2(2)] .
    then have tree2: "scope_tree h2" "\<forall>s. sc_kind (fe_scopes h2 s) \<noteq> ScopeKind.Scope" "fe_nextScope h2 = fe_nextScope h"
      using scope_tree_same [OF Cons.prems(1)] Cons.prems(3) by (auto simp: same_names_def same_tree_def)
    have "mangling (Suc n) w d (s # ss) (prefix, h) = mangling (Suc n) w d ss (prefix, h2)"
      using IH h2(1) Cons.prems(3) same(1) path pre by (simp add: Let_def)
    also have "\<dots> = bind_r (fold_r (mangle_step w d) (concat (map (preorder (Suc n) h2) ss)) h2) (\<lambda>h'. Inr (prefix, h'))"
    proof (rule Cons.IH [OF tree2(1) _ tree2(2)])
      show "\<forall>s \<in> set ss. s < fe_nextScope h2 \<and> fe_nextScope h2 < s + Suc n \<and>
          scope_path w h2 s = prefix @ [convertWindowsPath w (sc_name (fe_scopes h2 s))]"
        using Cons.prems(2) names2 scope_path_same [OF names2] tree2(3) by (simp add: same_names_def)
    qed
    also have "preorder (Suc n) h2 = preorder (Suc n) h"
      using preorder_same [of h h2 "Suc n"] names2 by (auto simp: same_names_def simp del: preorder.simps)
    finally show ?case using h2(1) by (simp add: fold_r_append mangle_step_def [of w d s])
  qed simp
qed simp

text \<open>
  C28. Mangling the modules of a program succeeds and gives every scope the names of the scopes
  from its module to itself, joined by bars; if no name contains a bar, two scopes get the same
  mangled name exactly when their paths are the same.
\<close>

theorem mangled_name_is_path:
  assumes "scope_tree h" and "\<forall>s. sc_kind (fe_scopes h s) \<noteq> ScopeKind.Scope"
    and "\<forall>g \<in> set gs. g < fe_nextScope h \<and> sc_parent (fe_scopes h g) = None"
    and "fe_nextScope h < n" and "\<forall>s. bar \<notin> set (convertWindowsPath w (sc_name (fe_scopes h s)))"
  shows "\<exists>h'. mangling n w [bar] gs ([], h) = Inr ([], h') \<and>
    (\<forall>s \<in> set (concat (map (preorder n h) gs)).
       sc_mangledName (fe_scopes h' s) = js_join [bar] (scope_path w h s) \<and>
       (\<forall>t \<in> set (concat (map (preorder n h) gs)).
          sc_mangledName (fe_scopes h' s) = sc_mangledName (fe_scopes h' t) \<longleftrightarrow>
          scope_path w h s = scope_path w h t))"
proof -
  let ?ss = "concat (map (preorder n h) gs)"
  from mangle_steps [of w "[bar]" ?ss h] obtain h' where h': "fold_r (mangle_step w [bar]) ?ss h = Inr h'"
    "\<forall>s. sc_mangledName (fe_scopes h' s) =
       (if s \<in> set ?ss then js_join [bar] (scope_path w h s) else sc_mangledName (fe_scopes h s))" by blast
  have "mangling n w [bar] gs ([], h) = Inr ([], h')"
    using mangling_walk [of h gs n w "[]" "[bar]"] assms(1-4) h'(1) by (force simp: scope_path_root)
  moreover have "js_join [bar] (scope_path w h s) = js_join [bar] (scope_path w h t) \<longleftrightarrow>
      scope_path w h s = scope_path w h t" for s t
  proof -
    have "ancestors h u \<noteq> []" for u by (subst ancestors.simps) simp
    then show ?thesis
      using js_join_inject [of "scope_path w h s" "scope_path w h t" bar] assms(5) by (auto simp: scope_path_def)
  qed
  ultimately show ?thesis using h'(2) by auto
qed

lemma sample_ancestors_function: "ancestors sample_tree (Suc 0) = [1, 0]"
  by (simp add: ancestors.simps sample_tree_def)

theorem mangled_name_is_path_witness:
  "\<exists>h'. mangling 4 False [124] [0] ([], sample_tree) = Inr ([], h') \<and>
    sc_mangledName (fe_scopes h' 2) = [124, 102, 124] \<and>
    sc_mangledName (fe_scopes h' 1) \<noteq> sc_mangledName (fe_scopes h' 2)"
proof -
  have "preorder 4 sample_tree 0 = [0, 1, 2]" by (simp add: sample_tree_def eval_nat_numeral)
  then have pre: "set (concat (map (preorder 4 sample_tree) [0])) = {0, 1, 2}" by simp
  have path: "scope_path False sample_tree 2 = [[], [102], []]" "scope_path False sample_tree 1 = [[], [102]]"
    by (simp_all add: scope_path_def sample_ancestors sample_ancestors_function convertWindowsPath_def)
      (simp_all add: sample_tree_def new_scope_def)
  have "\<exists>h'. mangling 4 False [124] [0] ([], sample_tree) = Inr ([], h') \<and>
    (\<forall>s \<in> set (concat (map (preorder 4 sample_tree) [0])).
       sc_mangledName (fe_scopes h' s) = js_join [124] (scope_path False sample_tree s) \<and>
       (\<forall>t \<in> set (concat (map (preorder 4 sample_tree) [0])).
          sc_mangledName (fe_scopes h' s) = sc_mangledName (fe_scopes h' t) \<longleftrightarrow>
          scope_path False sample_tree s = scope_path False sample_tree t))"
    by (rule mangled_name_is_path [OF sample_tree_ok]) (simp_all add: sample_tree_def convertWindowsPath_def new_scope_def)
  then obtain h' where h': "mangling 4 False [124] [0] ([], sample_tree) = Inr ([], h')"
    "sc_mangledName (fe_scopes h' 2) = js_join [124] (scope_path False sample_tree 2)"
    "sc_mangledName (fe_scopes h' 1) = sc_mangledName (fe_scopes h' 2) \<longleftrightarrow>
      scope_path False sample_tree 1 = scope_path False sample_tree 2"
    unfolding pre by blast
  then show ?thesis by (intro exI [of _ h'] conjI) (simp_all only: path, simp_all)
qed

end
