(* ===== verification/Casts.thy ===== *)
theory Casts
  imports IRFunction
begin

text \<open>
  Conversions and operators of the semantic pass (\<open>src/src/semantics/expression_builder.ts\<close>): how
  a value is converted to a type, which of two operand types an operator works on, and when an
  assignment keeps the shape of the assigned object.

  A value is a tree; a value whose type is assigned to becomes a new tree. The field \<open>_shape\<close> of
  the values that do not hold it in the tree is given by the function \<open>own\<close>, the fuel of
  \<open>buildShape\<close> by \<open>n\<close>. The mark \<open>isSigned\<close> of a cast is not part of the tree: \<open>checkSigned\<close>
  gives it.
\<close>

section \<open>Kinds\<close>

definition isObjectType :: "ValueTypeKind \<Rightarrow> bool" where
  "isObjectType kind \<longleftrightarrow>
     kind = ValueTypeKind.OBJECT \<or> kind = ValueTypeKind.ARRAY \<or> kind = ValueTypeKind.SET \<or>
     kind = ValueTypeKind.MAP \<or> kind = ValueTypeKind.FUNCTION \<or> kind = ValueTypeKind.INTERSECTION"

definition isNullValueType :: "ValueTypeKind \<Rightarrow> bool" where
  "isNullValueType kind \<longleftrightarrow>
     kind = ValueTypeKind.NULL \<or> kind = ValueTypeKind.UNDEFINED \<or> kind = ValueTypeKind.NEVER"

definition isCompareOperator :: "BinaryOperator \<Rightarrow> bool" where
  "isCompareOperator kind \<longleftrightarrow> kind \<in>
     {LessThanEqualsToken, LessThanToken, GreaterThanEqualsToken, GreaterThanToken, EqualsEqualsToken,
      EqualsEqualsEqualsToken, ExclamationEqualsToken, ExclamationEqualsEqualsToken}"

text \<open>\<open>flattenOperator\<close>, on the binary operators: the operator of a compound assignment.\<close>

definition flattenOperator :: "BinaryOperator \<Rightarrow> BinaryOperator" where
  "flattenOperator opKind =
     (if opKind = PlusEqualsToken then PlusToken
      else if opKind = MinusEqualsToken then MinusToken
      else if opKind = AsteriskAsteriskEqualsToken then AsteriskAsteriskToken
      else if opKind = AsteriskEqualsToken then AsteriskToken
      else if opKind = SlashEqualsToken then SlashToken
      else if opKind = PercentEqualsToken then PercentToken
      else if opKind = AmpersandEqualsToken then AmpersandToken
      else if opKind = BarEqualsToken then BarToken
      else if opKind = CaretEqualsToken then CaretToken
      else if opKind = LessThanLessThanEqualsToken then LessThanLessThanToken
      else if opKind = GreaterThanGreaterThanGreaterThanEqualsToken then GreaterThanGreaterThanGreaterThanToken
      else if opKind = GreaterThanGreaterThanEqualsToken then GreaterThanGreaterThanToken
      else if opKind = BarBarEqualsToken then BarBarToken
      else if opKind = AmpersandAmpersandEqualsToken then AmpersandAmpersandToken
      else if opKind = QuestionQuestionEqualsToken then QuestionQuestionToken
      else opKind)"

section \<open>Numbers\<close>

text \<open>
  The value of a finite IEEE 754 double as a fraction with a positive denominator; \<open>None\<close> for the
  infinities and NaN.
\<close>

definition number_fraction :: "64 word \<Rightarrow> (int \<times> int) option" where
  "number_fraction w =
     (let e = uint (and (drop_bit 52 w) 0x7ff);
          f = uint (and w (mask 52));
          m = (if e = 0 then f else f + 2 ^ 52);
          x = (if e = 0 then -1074 else e - 1075);
          s = (if bit w 63 then - m else m)
      in if e = 0x7ff then None
         else Some (s * 2 ^ nat x, 2 ^ nat (- x)))"

text \<open>\<open>a <= value && value < b\<close> and \<open>value % 1 === 0\<close>; both are false for the infinities and NaN.\<close>

definition in_range :: "int \<Rightarrow> int \<Rightarrow> 64 word \<Rightarrow> bool" where
  "in_range a b w = (case number_fraction w of Some (n, d) \<Rightarrow> a * d \<le> n \<and> n < b * d | None \<Rightarrow> False)"

definition is_integral :: "64 word \<Rightarrow> bool" where
  "is_integral w = (case number_fraction w of Some (n, d) \<Rightarrow> n mod d = 0 | None \<Rightarrow> False)"

definition judgeIsInt :: "64 word \<Rightarrow> bool" where
  "judgeIsInt value \<longleftrightarrow> in_range (-2147483648) 2147483647 value \<and> is_integral value"

definition judgeIsF32 :: "64 word \<Rightarrow> bool" where
  "judgeIsF32 value = in_range (-8388607) 8388607 value"

text \<open>A literal of type number holds a number.\<close>

definition checkOverflow :: "literal \<Rightarrow> value_type \<Rightarrow> bool" where
  "checkOverflow x type =
     (if vt_kind type = ValueTypeKind.INT then (case x of LNumber w \<Rightarrow> judgeIsInt w | _ \<Rightarrow> False)
      else if vt_kind type = ValueTypeKind.WASM_F32 then (case x of LNumber w \<Rightarrow> judgeIsF32 w | _ \<Rightarrow> False)
      else True)"

section \<open>Parts of values and types\<close>

definition literal_of :: "semantics_value \<Rightarrow> literal option" where
  "literal_of v = (case v of LiteralValue t x \<Rightarrow> Some x | _ \<Rightarrow> None)"

definition is_SpreadValue :: "semantics_value \<Rightarrow> bool" where
  "is_SpreadValue v = (case v of SpreadValue t x \<Rightarrow> True | _ \<Rightarrow> False)"

definition is_BinaryExprValue :: "semantics_value \<Rightarrow> bool" where
  "is_BinaryExprValue v = (case v of BinaryExprValue t op l r \<Rightarrow> True | _ \<Rightarrow> False)"

text \<open>The field \<open>initValues\<close> of the literals of objects and arrays, and assigning it.\<close>

definition init_values :: "semantics_value \<Rightarrow> semantics_value option list option" where
  "init_values v = (case v of
       NewLiteralObjectValue ot vs \<Rightarrow> Some vs
     | NewLiteralArrayValue t vs \<Rightarrow> Some (map Some vs)
     | _ \<Rightarrow> None)"

definition set_init_values :: "semantics_value option list \<Rightarrow> semantics_value \<Rightarrow> semantics_value" where
  "set_init_values xs v = (case v of
       NewLiteralObjectValue ot vs \<Rightarrow> NewLiteralObjectValue ot xs
     | NewLiteralArrayValue t vs \<Rightarrow> NewLiteralArrayValue t (map the xs)
     | _ \<Rightarrow> v)"

definition own_shape :: "(semantics_value \<Rightarrow> shape_ref option) \<Rightarrow> semantics_value \<Rightarrow> shape_ref option" where
  "own_shape own v = (case v of CastValue k t x sh \<Rightarrow> sh | _ \<Rightarrow> own v)"

text \<open>\<open>(type as TypeParameterType).wideType\<close> and \<open>(type as EnumType).memberType\<close> after the test of the kind.\<close>

definition target_type :: "value_type \<Rightarrow> value_type" where
  "target_type type = (case type of
       TypeParameterType i n w ix d ow \<Rightarrow> w
     | EnumType i n mt ms \<Rightarrow> mt
     | _ \<Rightarrow> type)"

text \<open>\<open>(type as ArrayType).element\<close>.\<close>

definition element_of :: "value_type \<Rightarrow> value_type" where
  "element_of type = (case type of ArrayType i m f e ni ta sa \<Rightarrow> array_element f e ni ta sa | _ \<Rightarrow> type)"

text \<open>
  \<open>checkSigned\<close>: an unsigned shift in the operands makes the result of a conversion unsigned. The
  right operand is looked at only when the left one is no operator.
\<close>

primrec checkSigned :: "semantics_value \<Rightarrow> bool" where
  "checkSigned (BinaryExprValue t op l r) =
     (if op = GreaterThanGreaterThanGreaterThanToken then False
      else if is_BinaryExprValue l then checkSigned l
      else if is_BinaryExprValue r then checkSigned r
      else True)"

section \<open>Casts\<close>

subsection \<open>The branches without recursion\<close>

definition union_cast_kind :: "ValueTypeKind \<Rightarrow> SemanticsValueKind" where
  "union_cast_kind k =
     (if k = ValueTypeKind.ANY then SemanticsValueKind_UNION_CAST_ANY
      else if k = ValueTypeKind.BOOLEAN then SemanticsValueKind_UNION_CAST_VALUE
      else if isObjectType k then SemanticsValueKind_UNION_CAST_OBJECT
      else SemanticsValueKind_UNION_CAST_VALUE)"

definition is_string_kind :: "ValueTypeKind \<Rightarrow> bool" where
  "is_string_kind k \<longleftrightarrow> k = ValueTypeKind.RAW_STRING \<or> k = ValueTypeKind.STRING"

definition is_plain_number_kind :: "ValueTypeKind \<Rightarrow> bool" where
  "is_plain_number_kind k \<longleftrightarrow>
     k = ValueTypeKind.NUMBER \<or> k = ValueTypeKind.BOOLEAN \<or> k = ValueTypeKind.INT"

text \<open>The conditions under which an array is passed as it is; \<open>t\<close> and \<open>vt\<close> are the array types.\<close>

definition arrays_castable :: "value_type \<Rightarrow> value_type \<Rightarrow> bool" where
  "arrays_castable t vt \<longleftrightarrow>
     (let e = effectType (element_of t); ve = effectType (element_of vt);
          k = vt_kind e; vk = vt_kind ve
      in equals e ve \<or>
         k = ValueTypeKind.ANY \<and> vk = ValueTypeKind.ANY \<or>
         isObjectType k \<and> isObjectType vk \<or>
         is_string_kind k \<and> is_string_kind vk \<or>
         is_plain_number_kind k \<and> is_plain_number_kind vk)"

definition cast_string :: "value_type \<Rightarrow> ValueTypeKind \<Rightarrow> semantics_value \<Rightarrow> semantics_value" where
  "cast_string type vk v =
     (if isObjectType vk then ToStringValue SemanticsValueKind_OBJECT_TO_STRING v
      else if vk = ValueTypeKind.ANY then CastValue SemanticsValueKind_ANY_CAST_VALUE type v None
      else ToStringValue SemanticsValueKind_VALUE_TO_STRING v)"

text \<open>The second test asks for the kind of the target, not of the value.\<close>

definition boolean_cast_kind :: "ValueTypeKind \<Rightarrow> ValueTypeKind \<Rightarrow> SemanticsValueKind" where
  "boolean_cast_kind k vk =
     (if vk = ValueTypeKind.ANY then SemanticsValueKind_ANY_CAST_VALUE
      else if isObjectType k then SemanticsValueKind_OBJECT_CAST_VALUE
      else SemanticsValueKind_VALUE_CAST_VALUE)"

definition is_number_target :: "ValueTypeKind \<Rightarrow> bool" where
  "is_number_target k \<longleftrightarrow> k = ValueTypeKind.INT \<or> k = ValueTypeKind.NUMBER \<or>
     k = ValueTypeKind.WASM_I64 \<or> k = ValueTypeKind.WASM_F32"

definition is_number_source :: "ValueTypeKind \<Rightarrow> bool" where
  "is_number_source vk \<longleftrightarrow>
     vk = ValueTypeKind.NUMBER \<or> vk = ValueTypeKind.INT \<or> vk = ValueTypeKind.BOOLEAN \<or>
     vk = ValueTypeKind.STRING \<or> vk = ValueTypeKind.RAW_STRING \<or> vk = ValueTypeKind.ENUM \<or>
     vk = ValueTypeKind.WASM_I64 \<or> vk = ValueTypeKind.WASM_F32 \<or> isNullValueType vk"

definition cast_number :: "value_type \<Rightarrow> ValueTypeKind \<Rightarrow> semantics_value \<Rightarrow> semantics_value result" where
  "cast_number type vk v =
     (if is_number_source vk then
        Inr (case literal_of v of
               Some x \<Rightarrow>
                 (if vt_kind (sv_type v) = ValueTypeKind.NUMBER \<and> checkOverflow x type
                  then LiteralValue type x
                  else CastValue SemanticsValueKind_VALUE_CAST_VALUE type v None)
             | None \<Rightarrow> CastValue SemanticsValueKind_VALUE_CAST_VALUE type v None)
      else if vk = ValueTypeKind.ANY then Inr (CastValue SemanticsValueKind_ANY_CAST_VALUE type v None)
      else Inl (JSError ''cannot make cast value''))"

definition null_cast_kind :: "ValueTypeKind \<Rightarrow> SemanticsValueKind" where
  "null_cast_kind vk =
     (if vk = ValueTypeKind.ANY then SemanticsValueKind_ANY_CAST_VALUE
      else if isObjectType vk then SemanticsValueKind_OBJECT_CAST_VALUE
      else SemanticsValueKind_VALUE_CAST_VALUE)"

subsection \<open>Objects\<close>

type_synonym heap = "semantics_value rt_heap"

text \<open>\<open>GetShapeFromType\<close> of an object type, and the shape of a value.\<close>

definition type_this_shape :: "heap \<Rightarrow> value_type \<Rightarrow> shape_ref option" where
  "type_this_shape h t = Option.bind (meta_of t) (\<lambda>m. thisShape (metas h m))"

definition from_shape :: "(semantics_value \<Rightarrow> shape_ref option) \<Rightarrow> heap \<Rightarrow> semantics_value \<Rightarrow> shape_ref option" where
  "from_shape own h v =
     (case own_shape own v of
        Some s \<Rightarrow> Some s
      | None \<Rightarrow>
          (case type_this_shape h (effectType (sv_type v)) of
             Some s \<Rightarrow> Some s
           | None \<Rightarrow> Option.bind (meta_of (effectType (sv_type v))) (\<lambda>m. originShape (metas h m))))"

text \<open>\<open>from_obj_type.meta.members.find(...)\<close>: a hole of the array is \<open>undefined\<close>, which has no name.\<close>

fun find_named :: "js_string \<Rightarrow> 'v MemberDescription option list \<Rightarrow> 'v MemberDescription option result" where
  "find_named name [] = Inr None"
| "find_named name (None # ms) = Inl JSTypeError"
| "find_named name (Some m # ms) = (if m_name m = name then Inr (Some m) else find_named name ms)"

definition has_undefined :: "value_type \<Rightarrow> bool" where
  "has_undefined t = (case t of UnionType i ts w \<Rightarrow> Primitive_Undefined \<in> set ts | _ \<Rightarrow> False)"

text \<open>What the loop over the members of the target does with one of them: nothing, push a value, or cast it first.\<close>

datatype init_step = Skip | Push "semantics_value option" | CastTo value_type "semantics_value option"

definition init_step ::
  "semantics_value MemberDescription option list \<Rightarrow> semantics_value option list \<Rightarrow>
   semantics_value MemberDescription option \<Rightarrow> init_step result"
where
  "init_step froms inits to_slot =
     (case to_slot of
        None \<Rightarrow> Inl JSTypeError
      | Some to_member \<Rightarrow>
          bind_r (find_named (m_name to_member) froms) (\<lambda>found.
            case found of
              Some from_member \<Rightarrow>
                (let v = js_array_get inits (m_index from_member)
                 in if equals (valueType from_member) (valueType to_member) then Inr (Push v)
                    else Inr (CastTo (valueType to_member) v))
            | None \<Rightarrow>
                Inr (if has_undefined (valueType to_member)
                     then Push (Some (LiteralValue Primitive_Undefined LUndefined)) else Skip)))"

definition set_typeId :: "int \<Rightarrow> value_type \<Rightarrow> value_type" where
  "set_typeId i t = (case t of ObjectType j m f ni si ta sa \<Rightarrow> ObjectType i m f ni si ta sa | _ \<Rightarrow> t)"

text \<open>\<open>from_value instanceof NewLiteralObjectValue\<close> with fewer members than the target, and its parts.\<close>

definition literal_object :: "semantics_value \<Rightarrow> (object_ty \<times> semantics_value option list) option" where
  "literal_object v = (case v of NewLiteralObjectValue ot vs \<Rightarrow> Some (ot, vs) | _ \<Rightarrow> None)"

definition needs_reorder :: "heap \<Rightarrow> meta_ref \<Rightarrow> meta_ref \<Rightarrow> bool" where
  "needs_reorder h to_meta from_meta \<longleftrightarrow> length (members (metas h from_meta)) < length (members (metas h to_meta))"

text \<open>The shape of the result and the cast itself, after the literal was rearranged.\<close>

definition finish_object_cast ::
  "nat \<Rightarrow> value_type \<Rightarrow> meta_ref \<Rightarrow> shape_ref option \<Rightarrow> semantics_value \<Rightarrow> heap \<Rightarrow> (semantics_value \<times> heap) result"
where
  "finish_object_cast n type to_meta fs v h =
     (let to_shape = originShape (metas h to_meta)
      in case fs of
           Some s \<Rightarrow>
             (if isStaticShape (shapes h s) then
                bind_r (buildShape n to_meta s h) (\<lambda>(sh, h).
                  Inr (CastValue SemanticsValueKind_OBJECT_CAST_OBJECT type v (Some sh), h))
              else Inr (CastValue SemanticsValueKind_OBJECT_CAST_OBJECT type v to_shape, h))
         | None \<Rightarrow> Inr (CastValue SemanticsValueKind_OBJECT_CAST_OBJECT type v to_shape, h))"

lemma init_values_Some:
  "init_values v = Some xs \<Longrightarrow> (\<exists>ot. v = NewLiteralObjectValue ot xs) \<or> (\<exists>t ys. v = NewLiteralArrayValue t ys \<and> xs = map Some ys)"
  unfolding init_values_def by (cases v) simp_all

lemma literal_object_Some: "literal_object v = Some (ot, xs) \<longleftrightarrow> v = NewLiteralObjectValue ot xs"
  unfolding literal_object_def by (cases v) auto

lemma init_values_size:
  assumes "init_values v = Some xs" and "Some x \<in> set xs"
  shows "size x < size v"
  using init_values_Some [OF assms(1)]
proof (elim disjE exE conjE)
  fix ot assume "v = NewLiteralObjectValue ot xs"
  with size_opt_list_mem [OF assms(2)] show ?thesis by simp
next
  fix t ys assume "v = NewLiteralArrayValue t ys" "xs = map Some ys"
  with size_list_mem [of x ys] assms(2) show ?thesis by auto
qed

lemma init_step_mem: "init_step froms inits m = Inr (CastTo mt (Some y)) \<Longrightarrow> Some y \<in> set inits"
  by (auto simp: init_step_def bind_r_def js_array_get_def Let_def in_set_conv_nth
      split: option.splits sum.splits if_splits)

lemma cast_init_size:
  "literal_object v = Some (ot, xs) \<Longrightarrow> init_step froms xs m = Inr (CastTo mt (Some y)) \<Longrightarrow> size y < size v"
  by (auto simp: literal_object_Some dest!: init_step_mem size_opt_list_mem)

subsection \<open>The conversion\<close>

function newCastValue ::
  "nat \<Rightarrow> (semantics_value \<Rightarrow> shape_ref option) \<Rightarrow> value_type \<Rightarrow> semantics_value \<Rightarrow> heap \<Rightarrow>
   (semantics_value \<times> heap) result"
and wrapObjToAny ::
  "nat \<Rightarrow> (semantics_value \<Rightarrow> shape_ref option) \<Rightarrow> semantics_value \<Rightarrow> value_type \<Rightarrow> heap \<Rightarrow>
   (semantics_value \<times> heap) result"
where
  "newCastValue n own type v h =
     (if equals type (sv_type v) \<or> is_SpreadValue v then Inr (v, h)
      else
        let t = target_type type; vt = effectType (sv_type v); k = vt_kind t; vk = vt_kind vt
        in
        if vk = ValueTypeKind.UNION then Inr (CastValue (union_cast_kind k) t v None, h)
        else if vk = ValueTypeKind.GENERIC \<and> k = ValueTypeKind.GENERIC then Inr (v, h)
        else if equals t vt then Inr (v, h)
        else if k = ValueTypeKind.FUNCTION \<and> vk = ValueTypeKind.FUNCTION then Inr (v, h)
        else if k = ValueTypeKind.ARRAY \<and> vk = ValueTypeKind.ARRAY then
          (if arrays_castable t vt then Inr (v, h) else Inl (JSError ''cannot make cast value''))
        else if k = ValueTypeKind.RAW_STRING \<and> vk = ValueTypeKind.STRING \<or>
                k = ValueTypeKind.STRING \<and> vk = ValueTypeKind.RAW_STRING then Inr (v, h)
        else if k = ValueTypeKind.STRING \<or> k = ValueTypeKind.RAW_STRING then Inr (cast_string t vk v, h)
        else if k = ValueTypeKind.BOOLEAN then Inr (CastValue (boolean_cast_kind k vk) t v None, h)
        else if is_number_target k then bind_r (cast_number t vk v) (\<lambda>v. Inr (v, h))
        else if isNullValueType k then Inr (CastValue (null_cast_kind vk) t v None, h)
        else if k = ValueTypeKind.ANY then
          (if isObjectType vk then wrapObjToAny n own v t h
           else Inr (CastValue SemanticsValueKind_VALUE_CAST_ANY t v None, h))
        else if k = ValueTypeKind.UNION then
          Inr (CastValue (if isObjectType vk then SemanticsValueKind_OBJECT_CAST_UNION
                          else SemanticsValueKind_VALUE_CAST_UNION) t v None, h)
        else if k = ValueTypeKind.OBJECT \<and> vk = ValueTypeKind.OBJECT then
          (case (meta_of t, meta_of vt) of
             (Some to_meta, Some from_meta) \<Rightarrow>
               (let fs = from_shape own h v
                in case literal_object v of
                     Some (ot, inits) \<Rightarrow>
                       (if needs_reorder h to_meta from_meta then
                          bind_r
                            (fold_r (\<lambda>to_slot (acc, h').
                               bind_r (init_step (members (metas h from_meta)) inits to_slot) (\<lambda>step.
                                 case step of
                                   Skip \<Rightarrow> Inr (acc, h')
                                 | Push x \<Rightarrow> Inr (acc @ [x], h')
                                 | CastTo mt x \<Rightarrow>
                                     (case x of
                                        None \<Rightarrow> Inl JSTypeError
                                      | Some y \<Rightarrow>
                                          bind_r (newCastValue n own mt y h') (\<lambda>(z, h''). Inr (acc @ [Some z], h'')))))
                               (members (metas h to_meta)) ([], h))
                            (\<lambda>(inits', h').
                               finish_object_cast n t to_meta fs
                                 (NewLiteralObjectValue (ot\<lparr>ot_type := set_typeId (typeId t) (ot_type ot)\<rparr>) inits')
                                 (upd_meta from_meta (members_update (\<lambda>_. members (metas h' to_meta))) h'))
                        else finish_object_cast n t to_meta fs v h)
                   | None \<Rightarrow> finish_object_cast n t to_meta fs v h)
           | _ \<Rightarrow> Inl JSTypeError)
        else if isObjectType k \<and> vk = ValueTypeKind.ANY then
          Inr (CastValue SemanticsValueKind_ANY_CAST_OBJECT t v None, h)
        else if vk = ValueTypeKind.NULL \<and> k = ValueTypeKind.OBJECT \<or> k = ValueTypeKind.FUNCTION then Inr (v, h)
        else if k = ValueTypeKind.GENERIC \<and> vk \<noteq> ValueTypeKind.GENERIC then Inr (v, h)
        else Inl (JSError ''cannot make cast value''))"
| "wrapObjToAny n own v type h =
     (case init_values v of
        None \<Rightarrow> Inr (CastValue SemanticsValueKind_OBJECT_CAST_ANY type v None, h)
      | Some inits \<Rightarrow>
          bind_r
            (fold_r (\<lambda>e (acc, h').
               case e of
                 None \<Rightarrow> (if vt_kind type = ValueTypeKind.ANY then Inl JSTypeError else Inr (acc @ [None], h'))
               | Some x \<Rightarrow>
                   (if init_values x \<noteq> None then
                      bind_r (wrapObjToAny n own x type h') (\<lambda>(y, h''). Inr (acc @ [Some y], h''))
                    else if vt_kind type = ValueTypeKind.ANY then
                      bind_r (newCastValue n own type x h') (\<lambda>(y, h''). Inr (acc @ [Some y], h''))
                    else Inr (acc @ [Some x], h')))
               inits ([], h))
            (\<lambda>(inits', h').
               Inr (CastValue SemanticsValueKind_OBJECT_CAST_ANY type (set_init_values inits' v) None, h')))"
  by pat_completeness auto

termination
proof (relation "measure (\<lambda>x. case x of Inl (n, own, t, v, h) \<Rightarrow> 2 * size v + 1 | Inr (n, own, v, t, h) \<Rightarrow> 2 * size v)",
    goal_cases)
  case (4 n own v type h x2 x u acc h' x2a)
  then have "Some x2a \<in> set x2" by simp
  with 4(1) have "size x2a < size v" using init_values_size by blast
  then show ?case by simp
next
  case (5 n own v type h x2 x u acc h' x2a)
  then have "Some x2a \<in> set x2" by simp
  with 5(1) have "size x2a < size v" using init_values_size by blast
  then show ?case by simp
qed (auto dest: cast_init_size)

declare newCastValue.simps [simp del] wrapObjToAny.simps [simp del]

section \<open>Operand types\<close>

definition literal_number :: "semantics_value \<Rightarrow> 64 word option" where
  "literal_number v = (case literal_of v of Some (LNumber w) \<Rightarrow> Some w | _ \<Rightarrow> None)"

text \<open>\<open>typeUp\<close>: whether the second operand can be converted to the type of the first.\<close>

definition typeUp :: "semantics_value \<Rightarrow> semantics_value \<Rightarrow> bool" where
  "typeUp upValue downValue =
     (let up = vt_kind (sv_type upValue); down = vt_kind (sv_type downValue)
      in if down = ValueTypeKind.ANY then True
         else if up = ValueTypeKind.NUMBER \<and>
           (down = ValueTypeKind.WASM_F32 \<or> down = ValueTypeKind.WASM_I64 \<or> down = ValueTypeKind.INT \<or>
            down = ValueTypeKind.BOOLEAN) then True
         else if up = ValueTypeKind.INT \<and> down = ValueTypeKind.BOOLEAN then True
         else if up = ValueTypeKind.INT \<and> literal_number downValue \<noteq> None then
           judgeIsInt (the (literal_number downValue))
         else if up = ValueTypeKind.WASM_I64 \<and> (down = ValueTypeKind.BOOLEAN \<or> down = ValueTypeKind.INT) then True
         else if up = ValueTypeKind.WASM_I64 \<and> literal_number downValue \<noteq> None \<and>
           is_integral (the (literal_number downValue)) then True
         else if up = ValueTypeKind.WASM_F32 \<and>
           (down = ValueTypeKind.BOOLEAN \<or> down = ValueTypeKind.WASM_I64 \<or> down = ValueTypeKind.INT) then True
         else if is_string_kind up then True
         else if up = ValueTypeKind.OBJECT \<and> (down = ValueTypeKind.UNDEFINED \<or> down = ValueTypeKind.NULL) then True
         else False)"

text \<open>The flag \<open>isWASM\<close> of a type, which distinguishes for example \<open>WASM.I32\<close> from \<open>Primitive.Int\<close>, is the function \<open>wasm\<close>.\<close>

definition needTranslated :: "(value_type \<Rightarrow> bool) \<Rightarrow> semantics_value \<Rightarrow> semantics_value \<Rightarrow> bool" where
  "needTranslated wasm value1 value2 =
     (let type1 = effectType (sv_type value1); type2 = effectType (sv_type value2)
      in if vt_kind type1 = ValueTypeKind.ANY \<or> vt_kind type2 = ValueTypeKind.ANY then False
         else wasm type1 \<or> wasm type2)"

definition typeTranslate :: "semantics_value \<Rightarrow> semantics_value \<Rightarrow> value_type result" where
  "typeTranslate value1 value2 =
     (let type1 = effectType (sv_type value1); type2 = effectType (sv_type value2)
      in if equals type1 type2 then Inr type1
         else if typeUp value1 value2 then Inr type1
         else if typeUp value2 value1 then Inr type2
         else Inl (JSError ''against of''))"

text \<open>
  The conversion of the operands to their common type: the last branch of \<open>newBinaryExprValue\<close> for
  operators that are neither comparisons nor assignments, and the end of the one for comparisons.
\<close>

definition cast_unless_equal ::
  "nat \<Rightarrow> (semantics_value \<Rightarrow> shape_ref option) \<Rightarrow> value_type \<Rightarrow> semantics_value \<Rightarrow> heap \<Rightarrow> (semantics_value \<times> heap) result"
where
  "cast_unless_equal n own target v h =
     (if equals target (effectType (sv_type v)) then Inr (v, h) else newCastValue n own target v h)"

definition translate_operands ::
  "nat \<Rightarrow> (semantics_value \<Rightarrow> shape_ref option) \<Rightarrow> semantics_value \<Rightarrow> semantics_value \<Rightarrow> heap \<Rightarrow>
   (semantics_value \<times> semantics_value \<times> heap) result"
where
  "translate_operands n own left_value right_value h =
     bind_r (typeTranslate left_value right_value) (\<lambda>target.
     bind_r (cast_unless_equal n own target left_value h) (\<lambda>(l, h).
     bind_r (cast_unless_equal n own target right_value h) (\<lambda>(r, h).
       Inr (l, r, h))))"

definition enum_operand ::
  "nat \<Rightarrow> (semantics_value \<Rightarrow> shape_ref option) \<Rightarrow> semantics_value \<Rightarrow> heap \<Rightarrow> (semantics_value \<times> heap) result"
where
  "enum_operand n own v h =
     (case sv_type v of EnumType i nm mt ms \<Rightarrow> newCastValue n own mt v h | _ \<Rightarrow> Inr (v, h))"

text \<open>\<open>isPrimitive || isWASM\<close> for the types of the model, in which both flags go by the class.\<close>

definition is_primitive_or_wasm :: "value_type \<Rightarrow> bool" where
  "is_primitive_or_wasm t = (case t of
       SimpleType k i \<Rightarrow> k \<noteq> BEmpty
     | WASMArrayType a pk m nu \<Rightarrow> True
     | WASMStructType u pks ms nu b \<Rightarrow> True
     | _ \<Rightarrow> False)"

definition compare_operands ::
  "nat \<Rightarrow> (semantics_value \<Rightarrow> shape_ref option) \<Rightarrow> (value_type \<Rightarrow> bool) \<Rightarrow> semantics_value \<Rightarrow> semantics_value \<Rightarrow>
   heap \<Rightarrow> (semantics_value \<times> semantics_value \<times> heap) result"
where
  "compare_operands n own wasm left_value right_value h =
     bind_r (enum_operand n own left_value h) (\<lambda>(l, h).
     bind_r (enum_operand n own right_value h) (\<lambda>(r, h).
       if \<not> (is_primitive_or_wasm (sv_type l) \<and> is_primitive_or_wasm (sv_type r)) then
         bind_r (newCastValue n own Primitive_Any l h) (\<lambda>(l, h).
         bind_r (newCastValue n own Primitive_Any r h) (\<lambda>(r, h).
           Inr (l, r, h)))
       else if needTranslated wasm l r then translate_operands n own l r h
       else Inr (l, r, h)))"

text \<open>\<open>isMemberSetValue\<close> by the classes of the values, and \<open>updateSetValue\<close>.\<close>

definition updateSetValue :: "semantics_value \<Rightarrow> semantics_value \<Rightarrow> BinaryOperator \<Rightarrow> semantics_value" where
  "updateSetValue left right op = (case left of
       ElementSetValue k t ow ix x o' \<Rightarrow> ElementSetValue k t ow ix (Some right) (Some op)
     | DynamicSetValue ow nm t x o' \<Rightarrow> DynamicSetValue ow nm t (Some right) (Some op)
     | OffsetSetValue ow t ix x o' \<Rightarrow> OffsetSetValue ow t ix (Some right) (Some op)
     | OffsetSetterValue ow t ix off x o' \<Rightarrow> OffsetSetterValue ow t ix off (Some right) (Some op)
     | ShapeSetValue ow t ix x o' \<Rightarrow> ShapeSetValue ow t ix (Some right) (Some op)
     | DirectSetterValue ow t f a x o' \<Rightarrow> DirectSetterValue ow t f a (Some right) (Some op)
     | VTableSetValue ow t ix x o' \<Rightarrow> VTableSetValue ow t ix (Some right) (Some op)
     | _ \<Rightarrow> left)"

section \<open>Assigning shapes\<close>

definition is_ArrayType :: "value_type \<Rightarrow> bool" where
  "is_ArrayType t = (case t of ArrayType i m f e ni ta sa \<Rightarrow> True | _ \<Rightarrow> False)"

definition is_UnionType :: "value_type \<Rightarrow> bool" where
  "is_UnionType t = (case t of UnionType i ts w \<Rightarrow> True | _ \<Rightarrow> False)"

text \<open>\<open>instanceof ObjectType\<close>: arrays are objects.\<close>

definition is_ObjectType :: "value_type \<Rightarrow> bool" where
  "is_ObjectType t = (case t of ObjectType i m f ni si ta sa \<Rightarrow> True | ArrayType i m f e ni ta sa \<Rightarrow> True | _ \<Rightarrow> False)"

text \<open>
  One round of the loop over the members: \<open>Inr (Some b)\<close> ends the check with a result,
  \<open>Inr None\<close> goes on. The check of nested objects returns, whatever its result.
\<close>

fun shapeAssignCheck :: "nat \<Rightarrow> heap \<Rightarrow> value_type \<Rightarrow> value_type \<Rightarrow> bool result" where
  "shapeAssignCheck 0 h left right = Inl JSRangeError"
| "shapeAssignCheck (Suc n) h left right =
     (if equals left Primitive_Any then Inr False
      else if is_ArrayType left \<and> is_ArrayType right \<and> vt_kind (element_of left) \<noteq> ValueTypeKind.ANY \<and>
              vt_kind (element_of right) = ValueTypeKind.ANY then Inr False
      else if vt_kind left = ValueTypeKind.OBJECT \<and> vt_kind right = ValueTypeKind.OBJECT then
        (if equals left right then Inr True
         else case (meta_of left, meta_of right) of
           (Some lm, Some rm) \<Rightarrow>
             (if length (members (metas h lm)) \<le> length (members (metas h rm)) then
                bind_r (fold_r (\<lambda>slot answer.
                    case answer of
                      Some b \<Rightarrow> Inr (Some b)
                    | None \<Rightarrow>
                        (case slot of
                           None \<Rightarrow> Inl JSTypeError
                         | Some left_member \<Rightarrow>
                             (case findMember (m_name left_member) (metas h rm) of
                                None \<Rightarrow> Inr (Some False)
                              | Some right_member \<Rightarrow>
                                  (if isOptional left_member \<and> \<not> isOptional right_member then Inr (Some False)
                                   else if is_UnionType (valueType left_member) \<and> \<not> is_UnionType (valueType right_member)
                                   then Inr (Some False)
                                   else if is_ObjectType (valueType left_member) \<and> is_ObjectType (valueType right_member)
                                   then map_sum id Some (shapeAssignCheck n h (valueType left_member) (valueType right_member))
                                   else Inr None))))
                  (members (metas h lm)) None)
                (\<lambda>answer. Inr (case answer of Some b \<Rightarrow> b | None \<Rightarrow> True))
              else Inr False)
         | _ \<Rightarrow> Inl JSTypeError)
      else Inr True)"

end
