(* ===== verification/CastProofs.thy ===== *)
theory CastProofs
  imports Casts
begin

text \<open>
  Properties of the conversions: results do not change when they are converted again, the operands
  of an arithmetic operator get the wider of their types, literals keep their value.
\<close>

section \<open>Operators\<close>

text \<open>
  Compound assignments that are not recognised as assignments: the shifts and the nullish
  assignment. Their left operand is built as a value that is read.
\<close>

theorem compound_not_assignment:
  "{op. flattenOperator op \<noteq> op \<and> \<not> isEqualOperator op}
   = {LessThanLessThanEqualsToken, GreaterThanGreaterThanEqualsToken,
      GreaterThanGreaterThanGreaterThanEqualsToken, QuestionQuestionEqualsToken}"
proof -
  have "flattenOperator op \<noteq> op \<and> \<not> isEqualOperator op \<longleftrightarrow>
      op \<in> {LessThanLessThanEqualsToken, GreaterThanGreaterThanEqualsToken,
        GreaterThanGreaterThanGreaterThanEqualsToken, QuestionQuestionEqualsToken}" for op
    by (cases op) (simp_all add: flattenOperator_def isEqualOperator_def)
  then show ?thesis by blast
qed

section \<open>Literals\<close>

lemma fraction_pos: "number_fraction w = Some (n, d) \<Longrightarrow> 0 < d"
  by (auto simp: number_fraction_def Let_def split: if_splits)

lemma judgeIsInt_exact:
  assumes "judgeIsInt w"
  shows "\<exists>k d. number_fraction w = Some (k * d, d) \<and> -2147483648 \<le> k \<and> k < 2147483647"
proof -
  from assms obtain n d where nd: "number_fraction w = Some (n, d)"
    and b: "-2147483648 * d \<le> n" "n < 2147483647 * d" "n mod d = 0"
    by (auto simp: judgeIsInt_def in_range_def is_integral_def split: option.splits)
  have d: "0 < d" using fraction_pos [OF nd] .
  obtain k where k: "n = k * d" using b(3) by (auto simp: dvd_eq_mod_eq_0 [symmetric] dvd_def mult.commute)
  from b(1) k have "-2147483648 * d \<le> k * d" by simp
  with d have "-2147483648 \<le> k" using mult_le_cancel_right_pos by blast
  moreover from b(2) k d have "k < 2147483647" by simp
  ultimately show ?thesis using nd k by blast
qed

section \<open>Casts\<close>

lemma literal_of_Some: "literal_of v = Some x \<longleftrightarrow> (\<exists>t. v = LiteralValue t x)"
  unfolding literal_of_def by (cases v) auto

lemma finish_object_cast_type: "finish_object_cast n t m fs v h = Inr (v', h') \<Longrightarrow> sv_type v' = t"
  by (auto simp: finish_object_cast_def Let_def bind_r_def split: option.splits if_splits sum.splits)

lemma wrapObjToAny_type: "wrapObjToAny n own v t h = Inr (v', h') \<Longrightarrow> sv_type v' = t"
  by (subst (asm) wrapObjToAny.simps) (auto simp: bind_r_def split: option.splits sum.splits prod.splits)

lemma cast_number_type: "cast_number t vk v = Inr v' \<Longrightarrow> sv_type v' = t"
  by (auto simp: cast_number_def split: if_splits option.splits)

text \<open>A conversion returns the value as it is, a string, or a value of the target type.\<close>

lemma cast_result:
  assumes "newCastValue n own type v h = Inr (v', h')"
  shows "v' = v \<and> h' = h \<or> sv_type v' = target_type type \<or>
    sv_type v' = Primitive_String \<and> is_string_kind (vt_kind (target_type type))"
  using assms
  by (subst (asm) newCastValue.simps)
    (auto simp: Let_def bind_r_def cast_string_def is_string_kind_def
      dest: finish_object_cast_type wrapObjToAny_type cast_number_type split: if_splits option.splits sum.splits prod.splits)

lemma cast_same: "equals t (sv_type v) \<Longrightarrow> newCastValue n own t v h = Inr (v, h)"
  by (simp add: newCastValue.simps)

text \<open>
  C32. A converted value is of its type: converting it to the same type again returns it as it is,
  and does not change the descriptions and shapes. The target is no type parameter and no
  enumeration, which stand for another type.
\<close>

theorem cast_idempotent:
  assumes "newCastValue n own t v h = Inr (v', h')" and "target_type t = t"
    and "vt_kind t = ValueTypeKind.STRING \<Longrightarrow> t = Primitive_String"
  shows "newCastValue n own t v' h' = Inr (v', h')"
  using cast_result [OF assms(1)]
proof (elim disjE conjE)
  assume "sv_type v' = Primitive_String" "is_string_kind (vt_kind (target_type t))"
  then show ?thesis
    using assms(2,3) equals_reflexive
    by (cases "vt_kind t = ValueTypeKind.STRING")
      (auto simp: newCastValue.simps is_string_kind_def Primitive_String_def)
qed (use assms equals_reflexive in \<open>auto intro: cast_same\<close>)

section \<open>Conversions to \<open>any\<close>\<close>

text \<open>
  How a value is converted to \<open>any\<close>: the values in the literals of objects and arrays are converted
  one by one, at every depth; spread elements are left to the literal.
\<close>

inductive any_converted :: "value_type \<Rightarrow> semantics_value \<Rightarrow> semantics_value \<Rightarrow> bool" for t where
  plain: "init_values v = None \<Longrightarrow> vt_kind (effectType (sv_type v')) = ValueTypeKind.ANY \<or> is_SpreadValue v' \<Longrightarrow>
    any_converted t v v'"
| literal: "init_values v = Some (map Some xs) \<Longrightarrow> list_all2 (any_converted t) xs ys \<Longrightarrow>
    any_converted t v (CastValue SemanticsValueKind_OBJECT_CAST_ANY t (set_init_values (map Some ys) v) None)"

text \<open>Literals without holes, at every depth.\<close>

inductive no_holes :: "semantics_value \<Rightarrow> bool" where
  "init_values v = None \<Longrightarrow> no_holes v"
| "init_values v = Some (map Some xs) \<Longrightarrow> list_all no_holes xs \<Longrightarrow> no_holes v"

lemma any_target: "vt_kind t = ValueTypeKind.ANY \<Longrightarrow> target_type t = t"
  by (cases t) (simp_all add: target_type_def)

lemma any_effect: "vt_kind t = ValueTypeKind.ANY \<Longrightarrow> effectType t = t"
  by (cases t) simp_all

lemma cast_any_plain:
  assumes t: "vt_kind t = ValueTypeKind.ANY" and v: "init_values v = None"
  shows "\<exists>v'. newCastValue n own t v h = Inr (v', h) \<and>
    (vt_kind (effectType (sv_type v')) = ValueTypeKind.ANY \<or> is_SpreadValue v')"
proof -
  have same: "vt_kind (effectType u) = ValueTypeKind.ANY" if "equals t u \<or> equals t (effectType u)" for u
    using that equals_same_kind t any_effect by metis
  have cast: "vt_kind (effectType (sv_type (CastValue k t v sh))) = ValueTypeKind.ANY" for k sh
    using t any_effect by simp
  have wrap: "wrapObjToAny n own v t h = Inr (CastValue SemanticsValueKind_OBJECT_CAST_ANY t v None, h)"
    by (simp add: wrapObjToAny.simps v)
  have kinds: "\<not> is_number_target ValueTypeKind.ANY" "\<not> isNullValueType ValueTypeKind.ANY"
    by (simp_all add: is_number_target_def isNullValueType_def)
  consider "equals t (sv_type v) \<or> is_SpreadValue v" | "equals t (effectType (sv_type v))"
    | "\<not> (equals t (sv_type v) \<or> is_SpreadValue v)" "\<not> equals t (effectType (sv_type v))" by blast
  then show ?thesis
  proof cases
    case 1
    then show ?thesis using same by (auto simp: newCastValue.simps)
  next
    case 2
    with t same [of "sv_type v"] show ?thesis
      by (auto simp: newCastValue.simps any_target)
  next
    case 3
    then show ?thesis
      using t cast kinds wrap by (simp add: newCastValue.simps any_target Let_def)
  qed
qed

lemma fold_elements:
  assumes "\<And>x acc. x \<in> set xs \<Longrightarrow> \<exists>y. f (Some x) (acc, h) = Inr (acc @ [Some y], h) \<and> R x y"
  shows "\<exists>ys. fold_r f (map Some xs) (acc, h) = Inr (acc @ map Some ys, h) \<and> list_all2 R xs ys"
  using assms
proof (induction xs arbitrary: acc)
  case (Cons x xs)
  obtain y where y: "f (Some x) (acc, h) = Inr (acc @ [Some y], h)" "R x y" using Cons.prems [of x acc] by auto
  have "\<exists>ys. fold_r f (map Some xs) (acc @ [Some y], h) = Inr ((acc @ [Some y]) @ map Some ys, h) \<and> list_all2 R xs ys"
    using Cons.prems by (intro Cons.IH) simp
  then obtain ys where "fold_r f (map Some xs) (acc @ [Some y], h) = Inr ((acc @ [Some y]) @ map Some ys, h)"
    "list_all2 R xs ys" by blast
  with y show ?case by (intro exI [of _ "y # ys"]) simp
qed simp

lemma wrap_any:
  assumes t: "vt_kind t = ValueTypeKind.ANY"
  shows "no_holes v \<Longrightarrow> \<exists>v'. wrapObjToAny n own v t h = Inr (v', h) \<and> (init_values v \<noteq> None \<longrightarrow> any_converted t v v')"
proof (induction rule: no_holes.induct)
  case (1 v)
  then show ?case by (simp add: wrapObjToAny.simps)
next
  case (2 v xs)
  let ?f = "\<lambda>e (acc, h').
               case e of
                 None \<Rightarrow> (if vt_kind t = ValueTypeKind.ANY then Inl JSTypeError else Inr (acc @ [None], h'))
               | Some x \<Rightarrow>
                   (if init_values x \<noteq> None then
                      bind_r (wrapObjToAny n own x t h') (\<lambda>(y, h''). Inr (acc @ [Some y], h''))
                    else if vt_kind t = ValueTypeKind.ANY then
                      bind_r (newCastValue n own t x h') (\<lambda>(y, h''). Inr (acc @ [Some y], h''))
                    else Inr (acc @ [Some x], h'))"
  have step: "\<exists>y. ?f (Some x) (acc, h) = Inr (acc @ [Some y], h) \<and> any_converted t x y" if "x \<in> set xs" for x acc
  proof (cases "init_values x")
    case None
    with cast_any_plain [OF t, of x n own h] t obtain y where
      "newCastValue n own t x h = Inr (y, h)" "any_converted t x y" by (auto intro: plain)
    with None t show ?thesis by simp
  next
    case (Some inits)
    from 2(2) that Some obtain y where "wrapObjToAny n own x t h = Inr (y, h)" "any_converted t x y"
      by (auto simp: list_all_iff)
    with Some show ?thesis by simp
  qed
  from fold_elements [of xs ?f h "any_converted t" "[]", OF step] obtain ys where
    ys: "fold_r ?f (map Some xs) ([], h) = Inr (map Some ys, h)" "list_all2 (any_converted t) xs ys" by auto
  then have "wrapObjToAny n own v t h
      = Inr (CastValue SemanticsValueKind_OBJECT_CAST_ANY t (set_init_values (map Some ys) v) None, h)"
    by (simp add: wrapObjToAny.simps 2(1))
  with literal [OF 2(1) ys(2)] show ?case by blast
qed

text \<open>
  C31. Converting the literal of an object or array to \<open>any\<close> succeeds when no literal in it has a
  hole, and converts the values inside it at every depth; descriptions and shapes stay as they are.
\<close>

theorem literal_to_any:
  assumes "vt_kind t = ValueTypeKind.ANY" and "init_values v \<noteq> None" and "no_holes v"
    and "isObjectType (vt_kind (effectType (sv_type v)))"
  shows "\<exists>v'. newCastValue n own t v h = Inr (v', h) \<and> any_converted t v v'"
proof -
  have "\<not> is_SpreadValue v"
    using assms(2) init_values_Some [of v] by (auto simp: is_SpreadValue_def)
  moreover have "\<not> equals t (sv_type v)"
  proof
    assume "equals t (sv_type v)"
    then have "vt_kind (sv_type v) = ValueTypeKind.ANY" using equals_same_kind assms(1) by metis
    with assms(4) show False by (simp add: any_effect isObjectType_def)
  qed
  moreover have "\<not> equals t (effectType (sv_type v))"
    using equals_same_kind [of t "effectType (sv_type v)"] assms(1,4) by (auto simp: isObjectType_def)
  moreover have "vt_kind (effectType (sv_type v)) \<noteq> ValueTypeKind.UNION" using assms(4) by (auto simp: isObjectType_def)
  moreover have "\<not> is_number_target ValueTypeKind.ANY" "\<not> isNullValueType ValueTypeKind.ANY"
    by (simp_all add: is_number_target_def isNullValueType_def)
  ultimately have "newCastValue n own t v h = wrapObjToAny n own v t h"
    using assms(1,4) by (simp add: newCastValue.simps any_target Let_def)
  with wrap_any [OF assms(1,3)] assms(2) show ?thesis by force
qed

section \<open>Arithmetic\<close>

text \<open>The numeric types, and their order.\<close>

definition arith_types :: "value_type list" where
  "arith_types = [Primitive_Boolean, Primitive_Int, WASM_I64, WASM_F32, Primitive_Number]"

definition arith_rank :: "value_type \<Rightarrow> nat" where
  "arith_rank t = length (takeWhile (\<lambda>u. u \<noteq> t) arith_types)"

lemmas arith_defs = Primitive_Boolean_def Primitive_Int_def WASM_I64_def WASM_F32_def Primitive_Number_def

lemma arith_type_cases:
  assumes "t \<in> set arith_types"
  obtains "t = Primitive_Boolean" | "t = Primitive_Int" | "t = WASM_I64" | "t = WASM_F32" | "t = Primitive_Number"
  using assms by (auto simp: arith_types_def)

lemma arith_kinds [simp]:
  "vt_kind Primitive_Boolean = ValueTypeKind.BOOLEAN" "vt_kind Primitive_Int = ValueTypeKind.INT"
  "vt_kind WASM_I64 = ValueTypeKind.WASM_I64" "vt_kind WASM_F32 = ValueTypeKind.WASM_F32"
  "vt_kind Primitive_Number = ValueTypeKind.NUMBER"
  by (simp_all add: arith_defs)

lemma arith_members [simp]:
  "Primitive_Boolean \<in> set arith_types" "Primitive_Int \<in> set arith_types" "WASM_I64 \<in> set arith_types"
  "WASM_F32 \<in> set arith_types" "Primitive_Number \<in> set arith_types"
  by (simp_all add: arith_types_def)

lemma arith_effect: "t \<in> set arith_types \<Longrightarrow> effectType t = t \<and> target_type t = t"
  by (erule arith_type_cases) (simp_all add: arith_defs target_type_def)

lemma arith_equals: "t \<in> set arith_types \<Longrightarrow> u \<in> set arith_types \<Longrightarrow> equals t u \<longleftrightarrow> t = u"
  by (elim arith_type_cases) (simp_all add: arith_defs equals.simps)

lemma arith_cast:
  assumes "t \<in> set arith_types" and "sv_type v \<in> set arith_types" and "t \<noteq> sv_type v" and "t \<noteq> Primitive_Boolean"
    and "\<not> is_SpreadValue v"
  shows "\<exists>v'. newCastValue n own t v h = Inr (v', h) \<and> sv_type v' = t"
proof -
  have src: "is_number_source (vt_kind (sv_type v))" "vt_kind (sv_type v) \<notin> {ValueTypeKind.UNION, ValueTypeKind.ANY}"
    using assms(2) by (auto elim!: arith_type_cases simp: is_number_source_def)
  have tgt: "is_number_target (vt_kind t)" "vt_kind t \<notin> {ValueTypeKind.GENERIC, ValueTypeKind.FUNCTION,
      ValueTypeKind.ARRAY, ValueTypeKind.STRING, ValueTypeKind.RAW_STRING, ValueTypeKind.BOOLEAN}"
    using assms(1,4) by (auto elim!: arith_type_cases simp: is_number_target_def)
  obtain v' where v': "cast_number t (vt_kind (sv_type v)) v = Inr v'"
    using src(1) by (simp add: cast_number_def)
  have "newCastValue n own t v h = Inr (v', h)"
    using assms src tgt v' arith_equals [OF assms(1,2)] arith_effect [OF assms(1)] arith_effect [OF assms(2)]
    by (subst newCastValue.simps) (simp add: Let_def)
  with cast_number_type [OF v'] show ?thesis by blast
qed

lemma arith_ranks:
  "arith_rank Primitive_Boolean = 0" "arith_rank Primitive_Int = 1" "arith_rank WASM_I64 = 2"
  "arith_rank WASM_F32 = 3" "arith_rank Primitive_Number = 4"
  by (simp_all add: arith_rank_def arith_types_def arith_defs)

lemma arith_distinct:
  "Primitive_Boolean \<noteq> Primitive_Int" "Primitive_Boolean \<noteq> WASM_I64" "Primitive_Boolean \<noteq> WASM_F32"
  "Primitive_Boolean \<noteq> Primitive_Number" "Primitive_Int \<noteq> WASM_I64" "Primitive_Int \<noteq> WASM_F32"
  "Primitive_Int \<noteq> Primitive_Number" "WASM_I64 \<noteq> WASM_F32" "WASM_I64 \<noteq> Primitive_Number" "WASM_F32 \<noteq> Primitive_Number"
  by (simp_all add: arith_defs)

lemma arith_rank_zero: "u \<in> set arith_types \<Longrightarrow> arith_rank u = 0 \<Longrightarrow> u = Primitive_Boolean"
  by (elim arith_type_cases) (simp_all add: arith_ranks)

text \<open>Without number literals the common type is the higher one of the two.\<close>

lemma arith_translate:
  assumes "sv_type l \<in> set arith_types" and "sv_type r \<in> set arith_types"
    and "literal_number l = None" and "literal_number r = None"
  shows "typeTranslate l r = Inr (if arith_rank (sv_type r) \<le> arith_rank (sv_type l) then sv_type l else sv_type r)"
proof -
  have eff: "effectType t = t" if "t \<in> set arith_types" for t using arith_effect that by blast
  show ?thesis
    using assms(1,2)
    by (elim arith_type_cases)
      (simp_all add: typeTranslate_def typeUp_def Let_def eff arith_equals arith_ranks arith_distinct
        arith_distinct [symmetric] assms(3,4) is_string_kind_def)
qed

text \<open>
  C30. The operands of an arithmetic operator that are no number literals and whose types are numeric
  are converted to the wider of their types, in the order boolean, int, i64, f32, number: the
  conversion succeeds and both operands have this type afterwards.
\<close>

theorem operands_widened:
  assumes "sv_type l \<in> set arith_types" and "sv_type r \<in> set arith_types"
    and "literal_number l = None" and "literal_number r = None"
    and "\<not> is_SpreadValue l" and "\<not> is_SpreadValue r"
  shows "\<exists>l' r'. translate_operands n own l r h = Inr (l', r', h) \<and>
    sv_type l' = (if arith_rank (sv_type r) \<le> arith_rank (sv_type l) then sv_type l else sv_type r) \<and>
    sv_type r' = sv_type l'"
proof -
  let ?t = "if arith_rank (sv_type r) \<le> arith_rank (sv_type l) then sv_type l else sv_type r"
  have t: "?t \<in> set arith_types" using assms(1,2) by simp
  have cast: "\<exists>v'. cast_unless_equal n own ?t v h = Inr (v', h) \<and> sv_type v' = ?t"
    if "v = l \<or> v = r" for v
  proof (cases "sv_type v = ?t")
    case True
    with that assms(1,2) show ?thesis using arith_effect equals_reflexive by (auto simp: cast_unless_equal_def)
  next
    case False
    have v: "sv_type v \<in> set arith_types" "\<not> is_SpreadValue v" using that assms by auto
    have "arith_rank (sv_type v) \<le> arith_rank ?t" using that by auto
    then have "?t \<noteq> Primitive_Boolean" using False arith_rank_zero [OF v(1)] by (metis arith_ranks(1) le_zero_eq)
    then show ?thesis
      using arith_cast [OF t v(1) _ _ v(2)] False arith_equals [OF t v(1)] arith_effect [OF v(1)]
      by (auto simp: cast_unless_equal_def)
  qed
  from cast [of l] cast [of r] obtain l' r' where
    "cast_unless_equal n own ?t l h = Inr (l', h)" "sv_type l' = ?t"
    "cast_unless_equal n own ?t r h = Inr (r', h)" "sv_type r' = ?t" by blast
  then show ?thesis
    using arith_translate [OF assms(1-4)] by (simp add: translate_operands_def)
qed

section \<open>Number literals as integers\<close>

text \<open>
  A number literal that is converted to int either becomes an int literal, and then its value is
  an integer between \<open>-2147483648\<close> and \<open>2147483646\<close>, or it is converted at run time.
\<close>

theorem int_literal_exact:
  assumes "vt_kind t = ValueTypeKind.INT" and "vt_kind tv = ValueTypeKind.NUMBER"
  shows "newCastValue n own t (LiteralValue tv (LNumber w)) h
      = Inr (if judgeIsInt w then LiteralValue t (LNumber w)
             else CastValue SemanticsValueKind_VALUE_CAST_VALUE t (LiteralValue tv (LNumber w)) None, h) \<and>
    (judgeIsInt w \<longrightarrow>
      (\<exists>k d. number_fraction w = Some (k * d, d) \<and> 0 < d \<and> -2147483648 \<le> k \<and> k \<le> 2147483646))"
proof
  have simple: "target_type t = t" using assms(1) by (cases t) (simp_all add: target_type_def)
  have simple': "effectType tv = tv" using assms(2) by (cases tv) simp_all
  have "\<not> equals t tv" using equals_same_kind [of t tv] assms by auto
  moreover have "is_number_target (vt_kind t)" "is_number_source (vt_kind tv)"
    using assms by (simp_all add: is_number_target_def is_number_source_def)
  ultimately show "newCastValue n own t (LiteralValue tv (LNumber w)) h
      = Inr (if judgeIsInt w then LiteralValue t (LNumber w)
             else CastValue SemanticsValueKind_VALUE_CAST_VALUE t (LiteralValue tv (LNumber w)) None, h)"
    using assms simple simple'
    by (subst newCastValue.simps)
      (simp add: Let_def is_SpreadValue_def cast_number_def literal_of_def checkOverflow_def)
  show "judgeIsInt w \<longrightarrow>
      (\<exists>k d. number_fraction w = Some (k * d, d) \<and> 0 < d \<and> -2147483648 \<le> k \<and> k \<le> 2147483646)"
  proof
    assume "judgeIsInt w"
    then obtain k d where k: "number_fraction w = Some (k * d, d)" "-2147483648 \<le> k" "k < 2147483647"
      using judgeIsInt_exact by blast
    then have "k \<le> 2147483646" by simp
    with k fraction_pos [OF k(1)] show "\<exists>k d. number_fraction w = Some (k * d, d) \<and> 0 < d \<and> -2147483648 \<le> k \<and> k \<le> 2147483646"
      by blast
  qed
qed

section \<open>Gaps\<close>

text \<open>An object that is converted to boolean is converted like a primitive value.\<close>

theorem object_to_boolean:
  assumes "vt_kind (effectType (sv_type v)) = ValueTypeKind.OBJECT" and "\<not> is_SpreadValue v"
  shows "newCastValue n own Primitive_Boolean v h
    = Inr (CastValue SemanticsValueKind_VALUE_CAST_VALUE Primitive_Boolean v None, h)"
proof -
  have no: "\<not> equals Primitive_Boolean u" if "vt_kind u \<noteq> ValueTypeKind.BOOLEAN" for u
    using equals_same_kind [of Primitive_Boolean u] that by auto
  have "vt_kind (sv_type v) \<noteq> ValueTypeKind.BOOLEAN" using assms(1) by (cases "sv_type v") auto
  with no assms show ?thesis
    by (subst newCastValue.simps)
      (simp add: Let_def arith_effect boolean_cast_kind_def isObjectType_def)
qed

text \<open>
  The check that decides whether an assignment takes over the shape of the assigned object stops
  at the first member that is an object: when this member has the same type on both sides, the
  answer is yes, whatever the members behind it are.
\<close>

theorem shape_check_stops_at_object:
  assumes "vt_kind left = ValueTypeKind.OBJECT" and "vt_kind right = ValueTypeKind.OBJECT"
    and "meta_of left = Some lm" and "meta_of right = Some rm" and "\<not> equals left right"
    and "members (metas h lm) = Some m # ms" and "findMember (m_name m) (metas h rm) = Some m'"
    and "length (members (metas h lm)) \<le> length (members (metas h rm))" and "\<not> isOptional m"
    and "vt_kind (valueType m) = ValueTypeKind.OBJECT" and "equals (valueType m) (valueType m')"
  shows "shapeAssignCheck (Suc (Suc n)) h left right = Inr True"
proof -
  have kind: "vt_kind (valueType m') = ValueTypeKind.OBJECT" using equals_same_kind [OF assms(11)] assms(10) by simp
  have object: "is_ObjectType u \<and> \<not> is_UnionType u \<and> \<not> is_ArrayType u" "\<not> equals u Primitive_Any"
    if "vt_kind u = ValueTypeKind.OBJECT" for u
  proof -
    have "base_kind_of b \<noteq> ValueTypeKind.OBJECT" for b by (cases b) simp_all
    with that show "is_ObjectType u \<and> \<not> is_UnionType u \<and> \<not> is_ArrayType u"
      by (cases u) (simp_all add: is_ObjectType_def is_UnionType_def is_ArrayType_def)
    show "\<not> equals u Primitive_Any"
      using equals_same_kind [of u Primitive_Any] that by (auto simp: Primitive_Any_def)
  qed
  have inner: "shapeAssignCheck (Suc n) h (valueType m) (valueType m') = Inr True"
    using object [OF assms(10)] assms(10,11) kind by simp
  have rest: "fold_r (\<lambda>slot answer. case answer of Some b \<Rightarrow> Inr (Some b) | None \<Rightarrow> F slot) ms (Some True) = Inr (Some True)" for F
    by (induction ms) simp_all
  show ?thesis
    using object [OF assms(1)] object [OF assms(10)] object [OF kind] assms(1-9) inner
    by (subst shapeAssignCheck.simps) (simp add: rest del: shapeAssignCheck.simps)
qed

text \<open>A class with a field of its own type and one more, and an interface with a field of its own type.\<close>

definition linked :: "meta_ref \<Rightarrow> value_type" where
  "linked m = ObjectType (int m + 2000) m ObjectTypeFlag.OBJECT None None None None"

definition linked_member :: "js_string \<Rightarrow> nat \<Rightarrow> value_type \<Rightarrow> semantics_value MemberDescription" where
  "linked_member name i t = new_MemberDescription name FIELD i False t None True False None"

definition linked_heap :: heap where
  "linked_heap =
     \<lparr>metas = (\<lambda>m. (new_ObjectDescription [] ObjectDescriptionType.INTERFACE None)
        \<lparr>members := (if m = 0 then [Some (linked_member [110] 0 (linked 0))]
                     else [Some (linked_member [110] 0 (linked 1)), Some (linked_member [121] 1 Primitive_Number)])\<rparr>),
      shapes = (\<lambda>_. \<lparr>s_members = None, s_meta = 0, s_generic = None\<rparr>),
      accs = (\<lambda>_. \<lparr>acc_method = None, acc_getter = None, acc_setter = None\<rparr>),
      next_shape = 0, next_acc = 0\<rparr>"

lemma linked_simps [simp]:
  "m_name (linked_member name i t) = name" "valueType (linked_member name i t) = t"
  "\<not> isOptional (linked_member name i t)"
  "vt_kind (linked m) = ValueTypeKind.OBJECT" "meta_of (linked m) = Some m" "is_ObjectType (linked m)"
  "\<not> is_UnionType (linked m)" "\<not> is_ArrayType (linked m)" "\<not> equals (linked m) Primitive_Any"
  by (simp_all add: linked_member_def new_MemberDescription_def linked_def is_ObjectType_def is_UnionType_def
      is_ArrayType_def Primitive_Any_def equals.simps)

text \<open>
  The check does not return for two different recursive types: whatever the depth of the call stack
  is, it overflows.
\<close>

theorem shape_check_overflows: "shapeAssignCheck n linked_heap (linked 0) (linked 1) = Inl JSRangeError"
proof (induction n)
  case (Suc n)
  have neq: "\<not> equals (linked 0) (linked 1)" by (simp add: linked_def equals.simps)
  have ms: "members (metas linked_heap 0) = [Some (linked_member [110] 0 (linked 0))]"
    "length (members (metas linked_heap 1)) = 2"
    by (simp_all add: linked_heap_def)
  have find: "findMember [110] (metas linked_heap 1) = Some (linked_member [110] 0 (linked 1))"
    by (simp add: findMember_def linked_heap_def)
  show ?case
    unfolding shapeAssignCheck.simps(2) by (simp add: neq ms find Suc del: One_nat_def)
qed simp

section \<open>Samples\<close>

abbreviation no_shape :: "semantics_value \<Rightarrow> shape_ref option" where
  "no_shape \<equiv> \<lambda>_. None"

theorem cast_idempotent_witness:
  "newCastValue 1 no_shape Primitive_String
     (ToStringValue SemanticsValueKind_VALUE_TO_STRING (LiteralValue Primitive_Number (LNumber 0))) linked_heap
   = Inr (ToStringValue SemanticsValueKind_VALUE_TO_STRING (LiteralValue Primitive_Number (LNumber 0)), linked_heap)"
  by (rule cast_idempotent [where v = "LiteralValue Primitive_Number (LNumber 0)" and h = linked_heap])
    (simp_all add: newCastValue.simps equals.simps Primitive_String_def Primitive_Number_def is_SpreadValue_def
      target_type_def cast_string_def isObjectType_def)

theorem literal_to_any_witness:
  "\<exists>v'. newCastValue 1 no_shape Primitive_Any
      (NewLiteralObjectValue \<lparr>ot_id = 0, ot_type = linked 0, ot_instance = None, ot_super = None\<rparr>
         [Some (LiteralValue Primitive_Number (LNumber 0))]) linked_heap = Inr (v', linked_heap) \<and>
    any_converted Primitive_Any
      (NewLiteralObjectValue \<lparr>ot_id = 0, ot_type = linked 0, ot_instance = None, ot_super = None\<rparr>
         [Some (LiteralValue Primitive_Number (LNumber 0))]) v'"
proof (rule literal_to_any)
  have "no_holes (LiteralValue Primitive_Number (LNumber 0))" by (rule no_holes.intros(1)) (simp add: init_values_def)
  then show "no_holes (NewLiteralObjectValue \<lparr>ot_id = 0, ot_type = linked 0, ot_instance = None, ot_super = None\<rparr>
         [Some (LiteralValue Primitive_Number (LNumber 0))])"
    by (intro no_holes.intros(2) [where xs = "[LiteralValue Primitive_Number (LNumber 0)]"]) (simp_all add: init_values_def)
qed (simp_all add: init_values_def Primitive_Any_def linked_def isObjectType_def)

theorem operands_widened_witness:
  "\<exists>l' r'. translate_operands 1 no_shape (LiteralValue Primitive_Boolean (LBoolean True))
      (VarValue SemanticsValueKind_LOCAL_VAR Primitive_Number RefOther) linked_heap = Inr (l', r', linked_heap) \<and>
    sv_type l' = Primitive_Number \<and> sv_type r' = Primitive_Number"
  using operands_widened [of "LiteralValue Primitive_Boolean (LBoolean True)"
      "VarValue SemanticsValueKind_LOCAL_VAR Primitive_Number RefOther" 1 no_shape linked_heap]
  by (auto simp: literal_number_def literal_of_def is_SpreadValue_def arith_ranks)

text \<open>The number 3.\<close>

theorem int_literal_exact_witness:
  "newCastValue 1 no_shape Primitive_Int (LiteralValue Primitive_Number (LNumber 0x4008000000000000)) linked_heap
   = Inr (LiteralValue Primitive_Int (LNumber 0x4008000000000000), linked_heap)"
proof -
  have "judgeIsInt 0x4008000000000000"
    by (simp add: judgeIsInt_def in_range_def is_integral_def number_fraction_def Let_def mask_eq_exp_minus_1)
  with int_literal_exact [of Primitive_Int Primitive_Number 1 no_shape "0x4008000000000000" linked_heap]
  show ?thesis by simp
qed

text \<open>The right side lacks the second member of the left side.\<close>

definition partial_heap :: heap where
  "partial_heap = linked_heap\<lparr>metas := (\<lambda>m. (new_ObjectDescription [] ObjectDescriptionType.INTERFACE None)
     \<lparr>members := [Some (linked_member [97] 0 (linked 2)), Some (linked_member [98 + word_of_nat m] 1 Primitive_Number)]\<rparr>)\<rparr>"

theorem shape_check_stops_at_object_witness:
  "findMember [98] (metas partial_heap 0) \<noteq> None \<and> findMember [98] (metas partial_heap 1) = None \<and>
   shapeAssignCheck 2 partial_heap (linked 0) (linked 1) = Inr True"
proof -
  have "shapeAssignCheck (Suc (Suc 0)) partial_heap (linked 0) (linked 1) = Inr True"
    by (rule shape_check_stops_at_object [where m = "linked_member [97] 0 (linked 2)" and m' = "linked_member [97] 0 (linked 2)"])
      (simp_all add: partial_heap_def findMember_def equals_reflexive, simp add: linked_def equals.simps)
  then show ?thesis by (simp add: partial_heap_def findMember_def numeral_2_eq_2 del: shapeAssignCheck.simps)
qed

end
