(* ===== verification/BuilderContext.thy ===== *)
theory BuilderContext
  imports SemValue Scopes
begin

text \<open>
  The state of the semantic pass (\<open>src/src/semantics/builder_context.ts\<close>): the stack of
  environments that mirrors the scopes being built, the lookup of symbols through it, and the
  capture of variables by closures.

  Declarations and functions are shared and mutable: they are kept in the state under their
  numbers. Building an expression, the target of an aliased export, is the argument \<open>build\<close>; the
  table of the types of the module is the argument \<open>type_of\<close>.
\<close>

section \<open>State\<close>

type_synonym decl_ref = nat
type_synonym func_ref = nat

text \<open>
  A \<open>VarValue\<close>; \<open>vv_ref\<close> is its declaration, \<open>None\<close> when it refers to anything else: a function, an
  object type or a namespace, which \<open>vv_node\<close> holds; \<open>vv_shape\<close> is then its field \<open>_shape\<close>.
\<close>

datatype (plugins only: size) var_node = NoNode | FuncNode func_ref | ObjNode object_ty | ScopeNode scope_id

record VarValue =
  vv_kind :: SemanticsValueKind
  vv_type :: value_type
  vv_ref :: "decl_ref option"
  vv_index :: "int + js_string"
  vv_node :: var_node
  vv_shape :: "shape_ref option"

text \<open>
  A value as an object: the tree, the private field \<open>_shape\<close>, for a variable of the symbol tables the
  \<open>VarValue\<close> itself, and for a call its field \<open>funcType\<close>.
\<close>

record built =
  b_value :: semantics_value
  b_shape :: "shape_ref option"
  b_var :: "VarValue option"
  b_func :: "value_type option"

datatype (plugins only: size) symbol_value =
    VarVal VarValue
  | ValueVal built
  | TypeVal value_type
  | DeclVal decl_ref
  | NodeVal func_ref

record BuildEnv =
  be_scope :: scope_id
  be_symbols :: "(symbol, symbol_value) js_map"
  be_namedSymbols :: "(js_string, symbol_value) js_map option"
  be_function :: "func_ref option"
  be_closures :: "(symbol, VarValue) js_map option"

datatype ValueReferenceKind = LEFT | RIGHT

text \<open>The fields of a \<open>VarDeclareNode\<close> that refer to values and to other declarations.\<close>

record decl_info =
  di_initValue :: "semantics_value option"
  di_closureIndex :: "nat option"
  di_belongCtx :: "decl_ref option"
  di_initCtx :: "decl_ref option"
  di_needReBinding :: bool

text \<open>The fields of a \<open>FunctionDeclareNode\<close> besides its head, its variables and its captured variables.\<close>

record func_info =
  fi_ownKind :: int
  fi_body :: "semantics_node list"
  fi_parameters :: "decl_ref list option"
  fi_parentCtx :: "decl_ref option"
  fi_thisClass :: "value_type option"
  fi_flattenValue :: "semantics_value option"

text \<open>
  The context, with the mutable objects that it leads to: the functions and global variables of the
  module in their order, declarations, functions, descriptions and shapes. \<open>bc_varShape\<close> is the shape that was assigned to the \<open>VarValue\<close> of a declaration.
\<close>

record BuildContext =
  globalSymbols :: "(symbol, symbol_value) js_map"
  stackEnv :: "BuildEnv list"
  valueReferenceStack :: "ValueReferenceKind list"
  typeIdx :: int
  namedTypes :: "(js_string, value_type) js_map"
  namedGlobalValues :: "(js_string, VarValue) js_map"
  bc_decls :: "decl_ref \<Rightarrow> VarDeclareNode"
  bc_curCtx :: "decl_ref \<Rightarrow> decl_ref option"
  bc_nextDecl :: decl_ref
  bc_varList :: "func_ref \<Rightarrow> decl_ref list option"
  bc_closureVars :: "func_ref \<Rightarrow> decl_ref list option"
  bc_funcs :: "func_ref \<Rightarrow> func_head"
  bc_info :: "decl_ref \<Rightarrow> decl_info"
  bc_varShape :: "decl_ref \<Rightarrow> shape_ref option"
  bc_heap :: "semantics_value rt_heap"
  bc_finfo :: "func_ref \<Rightarrow> func_info"
  bc_nextFunc :: func_ref
  bc_functions :: "func_ref list"
  bc_globalVars :: "decl_ref list"

section \<open>Simple operations\<close>

definition addGlobalValue :: "js_string \<Rightarrow> VarValue \<Rightarrow> BuildContext \<Rightarrow> BuildContext" where
  "addGlobalValue name v c = c\<lparr>namedGlobalValues := map_set name v (namedGlobalValues c)\<rparr>"

text \<open>\<open>addFunctionValue\<close> and \<open>addClassValue\<close> have the same body: the index of the value is its name.\<close>

definition addFunctionValue :: "VarValue \<Rightarrow> BuildContext \<Rightarrow> BuildContext" where
  "addFunctionValue v c = (case vv_index v of Inr name \<Rightarrow> addGlobalValue name v c | Inl i \<Rightarrow> addGlobalValue (js_int i) v c)"

definition getGlobalValue :: "js_string \<Rightarrow> BuildContext \<Rightarrow> VarValue option" where
  "getGlobalValue name c = map_get (namedGlobalValues c) name"

definition nextTypeId :: "BuildContext \<Rightarrow> int \<times> BuildContext" where
  "nextTypeId c = (typeIdx c, c\<lparr>typeIdx := typeIdx c + 1\<rparr>)"

definition currentReference :: "BuildContext \<Rightarrow> ValueReferenceKind" where
  "currentReference c = (if valueReferenceStack c = [] then RIGHT else last (valueReferenceStack c))"

definition pushReference :: "ValueReferenceKind \<Rightarrow> BuildContext \<Rightarrow> BuildContext" where
  "pushReference k c = c\<lparr>valueReferenceStack := valueReferenceStack c @ [k]\<rparr>"

definition popReference :: "BuildContext \<Rightarrow> BuildContext" where
  "popReference c = c\<lparr>valueReferenceStack := butlast (valueReferenceStack c)\<rparr>"

definition setNamedValueType :: "js_string \<Rightarrow> value_type \<Rightarrow> BuildContext \<Rightarrow> BuildContext" where
  "setNamedValueType name vt c = c\<lparr>namedTypes := map_set name vt (namedTypes c)\<rparr>"

definition getNamedValueType :: "js_string \<Rightarrow> BuildContext \<Rightarrow> value_type option" where
  "getNamedValueType name c = map_get (namedTypes c) name"

text \<open>
  \<open>runAllTasks\<close>: the tasks run in the order in which they were added; \<open>run\<close> executes one and returns
  the tasks that it adds. The first argument bounds the number of tasks.
\<close>

fun runAllTasks :: "nat \<Rightarrow> ('t \<Rightarrow> 's \<Rightarrow> ('t list \<times> 's) result) \<Rightarrow> 't list \<Rightarrow> 's \<Rightarrow> 's result" where
  "runAllTasks n run [] s = Inr s"
| "runAllTasks 0 run (t # ts) s = Inl JSDiverges"
| "runAllTasks (Suc n) run (t # ts) s = bind_r (run t s) (\<lambda>(new, s). runAllTasks n run (ts @ new) s)"

section \<open>Environments\<close>

text \<open>The name of a variable or scope; an empty name is falsy and is not entered.\<close>

definition symbol_name :: "fe_heap \<Rightarrow> symbol \<Rightarrow> js_string option" where
  "symbol_name h k = (case k of
       SymVar v \<Rightarrow> Some (v_name (fe_vars h v))
     | SymScope s \<Rightarrow> Some (sc_name (fe_scopes h s))
     | _ \<Rightarrow> None)"

definition updateNamedSymbol :: "fe_heap \<Rightarrow> BuildEnv \<Rightarrow> BuildEnv" where
  "updateNamedSymbol h env =
     (let named = (case be_namedSymbols env of Some m \<Rightarrow> m | None \<Rightarrow> [])
      in env\<lparr>be_namedSymbols := Some (fold (\<lambda>(k, v) m.
           case symbol_name h k of
             Some nm \<Rightarrow> if nm = [] then m else map_set nm v m
           | None \<Rightarrow> m) (be_symbols env) named)\<rparr>)"

definition push_env ::
  "fe_heap \<Rightarrow> scope_id \<Rightarrow> (symbol, symbol_value) js_map option \<Rightarrow> func_ref option \<Rightarrow> BuildContext \<Rightarrow> BuildContext"
where
  "push_env h s symbols func c =
     (let env = \<lparr>be_scope = s, be_symbols = (case symbols of Some m \<Rightarrow> m | None \<Rightarrow> []),
                 be_namedSymbols = None, be_function = func, be_closures = None\<rparr>
      in c\<lparr>stackEnv := stackEnv c @ [updateNamedSymbol h env]\<rparr>)"

definition pop_env :: "BuildContext \<Rightarrow> BuildContext" where
  "pop_env c = c\<lparr>stackEnv := butlast (stackEnv c)\<rparr>"

definition add_symbols :: "(symbol, symbol_value) js_map \<Rightarrow> BuildEnv \<Rightarrow> BuildEnv" where
  "add_symbols symbols env = env\<lparr>be_symbols := fold (\<lambda>(k, v). map_set k v) symbols (be_symbols env)\<rparr>"

text \<open>The innermost environment of the scope gets the symbols.\<close>

fun update_last :: "(BuildEnv \<Rightarrow> bool) \<Rightarrow> (BuildEnv \<Rightarrow> BuildEnv) \<Rightarrow> BuildEnv list \<Rightarrow> BuildEnv list" where
  "update_last P f [] = []"
| "update_last P f (e # es) =
     (if \<exists>x \<in> set es. P x then e # update_last P f es else if P e then f e # es else e # es)"

definition updateNamedSymbolByScope ::
  "fe_heap \<Rightarrow> scope_id \<Rightarrow> (symbol, symbol_value) js_map \<Rightarrow> BuildContext \<Rightarrow> BuildContext"
where
  "updateNamedSymbolByScope h s symbols c =
     c\<lparr>stackEnv := update_last (\<lambda>e. be_scope e = s) (\<lambda>e. updateNamedSymbol h (add_symbols symbols e)) (stackEnv c)\<rparr>"

text \<open>\<open>getOwnerFunctionEnv\<close> returns the position of the environment; \<open>i\<close> is a position of the stack.\<close>

fun getOwnerFunctionEnv :: "BuildEnv list \<Rightarrow> nat \<Rightarrow> nat option" where
  "getOwnerFunctionEnv es i =
     (if length es \<le> i then None
      else if be_function (es ! i) \<noteq> None then Some i
      else (case i of 0 \<Rightarrow> None | Suc j \<Rightarrow> getOwnerFunctionEnv es j))"

declare getOwnerFunctionEnv.simps [simp del]

definition owner_function :: "BuildEnv list \<Rightarrow> nat \<Rightarrow> func_ref option" where
  "owner_function es i = Option.bind (getOwnerFunctionEnv es i) (\<lambda>j. be_function (es ! j))"

definition currentFunction :: "BuildContext \<Rightarrow> func_ref option" where
  "currentFunction c = (if stackEnv c = [] then None else owner_function (stackEnv c) (length (stackEnv c) - 1))"

definition getScopeNamespace :: "fe_heap \<Rightarrow> BuildContext \<Rightarrow> js_string" where
  "getScopeNamespace h c =
     js_join (js_lit ''|'') (map (\<lambda>e. sc_name (fe_scopes h (be_scope e)))
       (filter (\<lambda>e. scope_kind h (be_scope e) = ScopeKind.GlobalScope \<or>
                    scope_kind h (be_scope e) = ScopeKind.NamespaceScope) (stackEnv c)))"

section \<open>Closures\<close>

definition setUsed :: "decl_ref \<Rightarrow> BuildContext \<Rightarrow> BuildContext" where
  "setUsed d c = c\<lparr>bc_decls := (bc_decls c)(d := setUsedByClosureFunction (bc_decls c d))\<rparr>"

text \<open>
  \<open>var_decl.copy()\<close>, with the assignment of \<open>curCtx\<close> that follows; the copy of the value takes over its
  shape.
\<close>

definition copy_decl :: "decl_ref \<Rightarrow> decl_ref option \<Rightarrow> BuildContext \<Rightarrow> decl_ref \<times> BuildContext" where
  "copy_decl d ctx c =
     (let r = bc_nextDecl c
      in (r, c\<lparr>bc_decls := (bc_decls c)(r := (bc_decls c d)\<lparr>vd_id := r\<rparr>),
               bc_curCtx := (bc_curCtx c)(r := ctx), bc_nextDecl := Suc r,
               bc_info := (bc_info c)(r := bc_info c d), bc_varShape := (bc_varShape c)(r := bc_varShape c d)\<rparr>))"

definition pushClosureVar :: "func_ref \<Rightarrow> decl_ref \<Rightarrow> BuildContext \<Rightarrow> BuildContext" where
  "pushClosureVar f d c =
     c\<lparr>bc_closureVars := (bc_closureVars c)(f :=
         Some ((case bc_closureVars c f of Some vs \<Rightarrow> vs | None \<Rightarrow> []) @ [d]))\<rparr>"

definition set_closure :: "nat \<Rightarrow> symbol \<Rightarrow> VarValue \<Rightarrow> BuildContext \<Rightarrow> BuildContext" where
  "set_closure j name v c =
     c\<lparr>stackEnv := (stackEnv c)[j := (stackEnv c ! j)\<lparr>be_closures :=
         Some (map_set name v (case be_closures (stackEnv c ! j) of Some m \<Rightarrow> m | None \<Rightarrow> []))\<rparr>]\<rparr>"

text \<open>One round of the loop over the environments above the one in which the variable was found.\<close>

definition capture_in ::
  "fe_heap \<Rightarrow> symbol \<Rightarrow> VarValue \<Rightarrow> decl_ref \<Rightarrow> scope_id option \<Rightarrow> nat \<Rightarrow> VarValue \<times> BuildContext \<Rightarrow>
   (VarValue \<times> BuildContext) result"
where
  "capture_in h name value d root j = (\<lambda>(newValue, c).
     case be_function (stackEnv c ! j) of
       None \<Rightarrow> Inr (newValue, c)
     | Some f \<Rightarrow>
         bind_r (getRootFunctionScope h (be_scope (stackEnv c ! j))) (\<lambda>r.
           if r \<noteq> root then Inr (newValue, c)
           else case bc_varList c f of
             None \<Rightarrow> Inl JSTypeError
           | Some vs \<Rightarrow>
               (let (d', c) = copy_decl d (js_first vs) c;
                    c = setUsed d' c;
                    v = value\<lparr>vv_ref := Some d'\<rparr>
                in Inr (v, set_closure j name v (pushClosureVar f d' c)))))"

definition buildClosure ::
  "fe_heap \<Rightarrow> symbol \<Rightarrow> nat \<Rightarrow> VarValue \<Rightarrow> scope_id \<Rightarrow> BuildContext \<Rightarrow> (VarValue \<times> BuildContext) result"
where
  "buildClosure h name env_idx value ownScope c =
     (if vv_kind value = SemanticsValueKind_GLOBAL_VAR \<or> vv_kind value = SemanticsValueKind_GLOBAL_CONST
      then Inr (value, c)
      else case vv_ref value of
        None \<Rightarrow> Inr (value, c)
      | Some d \<Rightarrow>
          (let c = setUsed d c
           in bind_r (getRootFunctionScope h ownScope) (\<lambda>root.
                fold_r (capture_in h name value d root) [Suc env_idx..<length (stackEnv c)] (value, c))))"

section \<open>Looking up symbols\<close>

definition env_symbol :: "symbol \<Rightarrow> BuildEnv \<Rightarrow> symbol_value option" where
  "env_symbol name e =
     (case map_get (be_symbols e) name of
        Some v \<Rightarrow> Some v
      | None \<Rightarrow> (case be_closures e of Some m \<Rightarrow> map_option VarVal (map_get m name) | None \<Rightarrow> None))"

text \<open>The loop over the environments below \<open>i\<close>, from the top of the stack; \<open>None\<close> when nothing is found.\<close>

fun find_in_stack ::
  "fe_heap \<Rightarrow> symbol \<Rightarrow> func_ref option \<Rightarrow> nat \<Rightarrow> BuildContext \<Rightarrow> (symbol_value option \<times> BuildContext) result"
where
  "find_in_stack h name cur 0 c = Inr (None, c)"
| "find_in_stack h name cur (Suc i) c =
     (case env_symbol name (stackEnv c ! i) of
        None \<Rightarrow> find_in_stack h name cur i c
      | Some found \<Rightarrow>
          (case (found, getOwnerFunctionEnv (stackEnv c) i) of
             (VarVal v, Some j) \<Rightarrow>
               (if cur \<noteq> None \<and> cur \<noteq> be_function (stackEnv c ! j)
                then bind_r (buildClosure h name i v (be_scope (stackEnv c ! j)) c) (\<lambda>(v', c').
                       Inr (Some (VarVal v'), c'))
                else Inr (Some found, c))
           | _ \<Rightarrow> Inr (Some found, c)))"

definition findSymbolKey ::
  "fe_heap \<Rightarrow> (fe_expr \<Rightarrow> BuildContext \<Rightarrow> (built \<times> BuildContext) result) \<Rightarrow>
   (type_id \<Rightarrow> value_type option) \<Rightarrow> symbol \<Rightarrow> BuildContext \<Rightarrow> (symbol_value option \<times> BuildContext) result"
where
  "findSymbolKey h build type_of name c =
     (case name of
        SymExpr e \<Rightarrow> bind_r (build e c) (\<lambda>(v, c). Inr (Some (ValueVal v), c))
      | _ \<Rightarrow>
          bind_r (find_in_stack h name (currentFunction c) (length (stackEnv c)) c) (\<lambda>(found, c).
            case found of
              Some v \<Rightarrow> Inr (Some v, c)
            | None \<Rightarrow>
                (case map_get (globalSymbols c) name of
                   Some v \<Rightarrow> Inr (Some v, c)
                 | None \<Rightarrow>
                     (case name of
                        SymType t \<Rightarrow> Inr (map_option TypeVal (type_of t), c)
                      | _ \<Rightarrow> Inr (None, c)))))"

text \<open>\<open>findSymbol\<close>: the scopes are searched from the scope of the top environment.\<close>

definition findSymbol ::
  "nat \<Rightarrow> fe_heap \<Rightarrow> (fe_expr \<Rightarrow> BuildContext \<Rightarrow> (built \<times> BuildContext) result) \<Rightarrow>
   (type_id \<Rightarrow> value_type option) \<Rightarrow> js_string \<Rightarrow> importSearchTypes \<Rightarrow> BuildContext \<Rightarrow>
   (symbol_value option \<times> BuildContext) result"
where
  "findSymbol n h build type_of ident search c =
     (if stackEnv c = [] then Inl JSTypeError
      else bind_r (findIdentifier n h (be_scope (last (stackEnv c))) ident True search False) (\<lambda>key.
        case key of
          None \<Rightarrow> Inr (None, c)
        | Some k \<Rightarrow> findSymbolKey h build type_of k c))"

definition findValueTypeByKey ::
  "fe_heap \<Rightarrow> (fe_expr \<Rightarrow> BuildContext \<Rightarrow> (built \<times> BuildContext) result) \<Rightarrow>
   (type_id \<Rightarrow> value_type option) \<Rightarrow> symbol \<Rightarrow> BuildContext \<Rightarrow> (value_type option \<times> BuildContext) result"
where
  "findValueTypeByKey h build type_of name c =
     bind_r (findSymbolKey h build type_of name c) (\<lambda>(found, c).
       Inr (case found of
              None \<Rightarrow> None
            | Some (TypeVal t) \<Rightarrow> Some t
            | Some (DeclVal d) \<Rightarrow> Some (vd_type (bc_decls c d))
            | Some (ValueVal v) \<Rightarrow> Some (sv_type (b_value v))
            | Some (VarVal v) \<Rightarrow> Some (vv_type v)
            | Some (NodeVal f) \<Rightarrow> None, c))"

definition findValueType ::
  "fe_heap \<Rightarrow> (fe_expr \<Rightarrow> BuildContext \<Rightarrow> (built \<times> BuildContext) result) \<Rightarrow>
   (type_id \<Rightarrow> value_type option) \<Rightarrow> type_id \<Rightarrow> BuildContext \<Rightarrow> (value_type option \<times> BuildContext) result"
where
  "findValueType h build type_of t c =
     (case fe_type h t of
        TSClass cl \<Rightarrow>
          Inr (map_get (namedTypes c) (if cls_mangledName cl = [] then cls_name cl else cls_mangledName cl), c)
      | _ \<Rightarrow> findValueTypeByKey h build type_of (SymType t) c)"

subsection \<open>The values that initialise a closure\<close>

text \<open>
  One round of the loop over the environments: the captured variables among the symbols, found by
  their declaration or by their name, and the captured copies. An entry that is set later replaces
  one that was set before.
\<close>

definition symbol_init :: "BuildContext \<Rightarrow> decl_ref list \<Rightarrow> symbol \<times> symbol_value \<Rightarrow> VarValue option list \<Rightarrow> VarValue option list"
where
  "symbol_init c closure_decl = (\<lambda>(k, v) inits.
     case v of
       VarVal x \<Rightarrow>
         (case vv_ref x of
            Some d \<Rightarrow>
              (if isUsedInClosureFunction (bc_decls c d) then
                 (let idx = find_var (bc_decls c d) (map (bc_decls c) closure_decl) 0
                  in if idx \<ge> 0 then inits[nat idx := Some x] else inits)
               else inits)
          | None \<Rightarrow> inits)
     | _ \<Rightarrow> inits)"

definition closure_init :: "BuildContext \<Rightarrow> decl_ref list \<Rightarrow> symbol \<times> VarValue \<Rightarrow> VarValue option list \<Rightarrow> VarValue option list"
where
  "closure_init c closure_decl = (\<lambda>(k, x) inits.
     case vv_ref x of
       Some d \<Rightarrow>
         (if isUsedInClosureFunction (bc_decls c d) then
            (case find_index (\<lambda>e. e = d) closure_decl of
               Some i \<Rightarrow> inits[i := Some x]
             | None \<Rightarrow> inits)
          else inits)
     | None \<Rightarrow> inits)"

definition env_init :: "BuildContext \<Rightarrow> decl_ref list \<Rightarrow> BuildEnv \<Rightarrow> VarValue option list \<Rightarrow> VarValue option list" where
  "env_init c closure_decl env inits =
     (let inits = fold (symbol_init c closure_decl) (be_symbols env) inits
      in case be_closures env of
           Some m \<Rightarrow> fold (closure_init c closure_decl) m inits
         | None \<Rightarrow> inits)"

definition buildClosureInitList :: "func_ref \<Rightarrow> BuildContext \<Rightarrow> VarValue option list option" where
  "buildClosureInitList f c =
     (case bc_closureVars c f of
        None \<Rightarrow> None
      | Some closure_decl \<Rightarrow>
          Some (fold (env_init c closure_decl) (rev (stackEnv c)) (replicate (length closure_decl) None)))"

end
