(* ===== verification/CaptureProofs.thy ===== *)
theory CaptureProofs
  imports BuilderContext
begin

text \<open>
  Properties of the capture of variables: a captured variable is recorded in every function between
  its declaration and its use, and a second use finds the recorded copy.
\<close>

section \<open>Tasks\<close>

text \<open>Tasks that add no tasks run in the order of the queue.\<close>

lemma runAllTasks_fold:
  assumes "\<And>t s. t \<in> set ts \<Longrightarrow> run t s = map_sum id (Pair []) (f t s)" and "length ts \<le> n"
  shows "runAllTasks n run ts s = fold_r f ts s"
  using assms
proof (induction n run ts s rule: runAllTasks.induct)
  case (3 n run t ts s)
  from "3.prems"(1) [of t s] have "run t s = map_sum id (Pair []) (f t s)" by (simp add: id_def)
  moreover have "runAllTasks n run (ts @ []) u = fold_r f (ts @ []) u" if "f t s = Inr u" for u
    using "3.prems" that calculation by (intro "3.IH") (simp_all add: id_def)
  ultimately show ?case by (cases "f t s") simp_all
qed simp_all

section \<open>Frames\<close>

definition frame :: "BuildContext \<Rightarrow> BuildContext \<Rightarrow> bool" where
  "frame c c' \<longleftrightarrow> length (stackEnv c') = length (stackEnv c) \<and>
     (\<forall>k < length (stackEnv c). be_scope (stackEnv c' ! k) = be_scope (stackEnv c ! k) \<and>
        be_symbols (stackEnv c' ! k) = be_symbols (stackEnv c ! k) \<and>
        be_function (stackEnv c' ! k) = be_function (stackEnv c ! k)) \<and>
     bc_varList c' = bc_varList c \<and> globalSymbols c' = globalSymbols c \<and> bc_nextDecl c \<le> bc_nextDecl c' \<and>
     (\<forall>x < bc_nextDecl c. bc_decls c' x = bc_decls c x \<and> bc_curCtx c' x = bc_curCtx c x)"

lemma frame_refl: "frame c c"
  by (simp add: frame_def)

lemma frame_trans: "frame c c' \<Longrightarrow> frame c' c'' \<Longrightarrow> frame c c''"
  by (auto simp: frame_def)

text \<open>
  The environment \<open>k\<close> of the function \<open>g\<close> has captured the variable \<open>name\<close>: a marked copy of its
  declaration \<open>d\<close> is the last captured variable of \<open>g\<close>, and the environment maps the name to it.
\<close>

definition captured_at ::
  "symbol \<Rightarrow> VarValue \<Rightarrow> decl_ref \<Rightarrow> BuildContext \<Rightarrow> BuildContext \<Rightarrow> nat \<Rightarrow> func_ref \<Rightarrow> decl_ref \<Rightarrow> bool"
where
  "captured_at name v d c c' k g d' \<longleftrightarrow>
     bc_closureVars c' g = Some ((case bc_closureVars c g of Some vs \<Rightarrow> vs | None \<Rightarrow> []) @ [d']) \<and>
     (\<exists>m. be_closures (stackEnv c' ! k) = Some m \<and> map_get m name = Some (v\<lparr>vv_ref := Some d'\<rparr>)) \<and>
     bc_nextDecl c \<le> d' \<and> d' < bc_nextDecl c' \<and>
     bc_decls c' d' = setUsedByClosureFunction ((bc_decls c d)\<lparr>vd_id := d'\<rparr>) \<and>
     bc_curCtx c' d' = (case bc_varList c g of Some vs \<Rightarrow> js_first vs | None \<Rightarrow> None)"

text \<open>One function.\<close>

lemma capture_in_function:
  assumes "j < length (stackEnv c)" and "be_function (stackEnv c ! j) = Some g"
    and "getRootFunctionScope h (be_scope (stackEnv c ! j)) = Inr root" and "bc_varList c g = Some vs"
    and "d < bc_nextDecl c"
  shows "\<exists>c'. capture_in h name v d root j (w, c) = Inr (v\<lparr>vv_ref := Some (bc_nextDecl c)\<rparr>, c') \<and>
    frame c c' \<and> captured_at name v d c c' j g (bc_nextDecl c) \<and>
    (\<forall>f. f \<noteq> g \<longrightarrow> bc_closureVars c' f = bc_closureVars c f) \<and>
    (\<forall>k. k \<noteq> j \<longrightarrow> stackEnv c' ! k = stackEnv c ! k)"
  using assms
  by (auto simp: capture_in_def copy_decl_def setUsed_def set_closure_def pushClosureVar_def Let_def
      frame_def captured_at_def nth_list_update)

lemma captured_frame:
  assumes "captured_at name v d c c1 k g d'" and "frame c c1" and "frame c1 c2" and "k < length (stackEnv c)"
    and "bc_closureVars c2 g = bc_closureVars c1 g" and "stackEnv c2 ! k = stackEnv c1 ! k"
  shows "captured_at name v d c c2 k g d'"
  using assms unfolding captured_at_def frame_def by auto

text \<open>
  What holds after the environments \<open>js\<close> were visited: every function among them has captured the
  variable, everything else is as before, and the value is the one of the last function.
\<close>

definition capture_post ::
  "symbol \<Rightarrow> VarValue \<Rightarrow> decl_ref \<Rightarrow> BuildContext \<Rightarrow> nat list \<Rightarrow> VarValue \<Rightarrow> BuildContext \<Rightarrow> bool"
where
  "capture_post name v d c js w c' \<longleftrightarrow> frame c c' \<and>
    (\<forall>j \<in> set js. \<forall>g. be_function (stackEnv c ! j) = Some g \<longrightarrow> (\<exists>d'. captured_at name v d c c' j g d')) \<and>
    (\<forall>g. (\<forall>j \<in> set js. be_function (stackEnv c ! j) \<noteq> Some g) \<longrightarrow> bc_closureVars c' g = bc_closureVars c g) \<and>
    (\<forall>k. k \<notin> set js \<or> be_function (stackEnv c ! k) = None \<longrightarrow> stackEnv c' ! k = stackEnv c ! k) \<and>
    (\<forall>xs j ys g. js = xs @ j # ys \<longrightarrow> be_function (stackEnv c ! j) = Some g \<longrightarrow>
       (\<forall>k \<in> set ys. be_function (stackEnv c ! k) = None) \<longrightarrow>
       (\<exists>d'. captured_at name v d c c' j g d' \<and> w = v\<lparr>vv_ref := Some d'\<rparr>))"

lemma capture_post_skip:
  assumes post: "capture_post name v d c js w c1" and none: "be_function (stackEnv c ! x) = None"
  shows "capture_post name v d c (js @ [x]) w c1"
proof -
  have "\<exists>d'. captured_at name v d c c1 j g d' \<and> w = v\<lparr>vv_ref := Some d'\<rparr>"
    if "js @ [x] = xs @ j # ys" "be_function (stackEnv c ! j) = Some g" "\<forall>k \<in> set ys. be_function (stackEnv c ! k) = None"
    for xs j ys g
  proof (cases ys rule: rev_cases)
    case Nil
    with that none show ?thesis by simp
  next
    case (snoc ys' y)
    with that(1) have "js = xs @ j # ys'" by simp
    moreover have "\<forall>k \<in> set ys'. be_function (stackEnv c ! k) = None" using that(3) snoc by simp
    ultimately show ?thesis using post that(2) unfolding capture_post_def by blast
  qed
  then show ?thesis using post none unfolding capture_post_def by auto
qed

lemma capture_post_function:
  assumes post: "capture_post name v d c js w c1" and g: "be_function (stackEnv c ! x) = Some g"
    and step: "frame c1 c2" "captured_at name v d c1 c2 x g d'"
      "\<forall>f. f \<noteq> g \<longrightarrow> bc_closureVars c2 f = bc_closureVars c1 f" "\<forall>k. k \<noteq> x \<longrightarrow> stackEnv c2 ! k = stackEnv c1 ! k"
    and new: "\<forall>j \<in> set js. j < length (stackEnv c) \<and> j \<noteq> x \<and> be_function (stackEnv c ! j) \<noteq> Some g"
    and d: "d < bc_nextDecl c"
  shows "capture_post name v d c (js @ [x]) (v\<lparr>vv_ref := Some d'\<rparr>) c2"
proof -
  have fr: "frame c c1" and others: "\<forall>f. (\<forall>j \<in> set js. be_function (stackEnv c ! j) \<noteq> Some f) \<longrightarrow> bc_closureVars c1 f = bc_closureVars c f"
    and envs: "\<forall>k. k \<notin> set js \<or> be_function (stackEnv c ! k) = None \<longrightarrow> stackEnv c1 ! k = stackEnv c ! k"
    using post by (simp_all add: capture_post_def)
  have "bc_closureVars c1 g = bc_closureVars c g" using others new by blast
  then have capx: "captured_at name v d c c2 x g d'"
    using step(2) fr d by (auto simp: captured_at_def frame_def)
  have caps: "\<exists>e. captured_at name v d c c2 j f e" if "j \<in> set (js @ [x])" "be_function (stackEnv c ! j) = Some f" for j f
  proof (cases "j = x")
    case True
    with that(2) g capx show ?thesis by auto
  next
    case False
    with that(1) have j: "j \<in> set js" by simp
    with post that(2) obtain e where "captured_at name v d c c1 j f e" unfolding capture_post_def by blast
    moreover have "f \<noteq> g" "j < length (stackEnv c)" using new j that(2) by auto
    ultimately show ?thesis using captured_frame [OF _ fr step(1)] step(3,4) False by blast
  qed
  have last_value: "\<exists>e. captured_at name v d c c2 j f e \<and> v\<lparr>vv_ref := Some d'\<rparr> = v\<lparr>vv_ref := Some e\<rparr>"
    if "js @ [x] = xs @ j # ys" "be_function (stackEnv c ! j) = Some f" "\<forall>k \<in> set ys. be_function (stackEnv c ! k) = None"
    for xs j ys f
    using that g capx by (cases ys rule: rev_cases) auto
  have envs2: "stackEnv c2 ! k = stackEnv c ! k" if "k \<notin> set (js @ [x]) \<or> be_function (stackEnv c ! k) = None" for k
    using that envs step(4) g by (cases "k = x") auto
  have others2: "bc_closureVars c2 f = bc_closureVars c f" if "\<forall>j \<in> set (js @ [x]). be_function (stackEnv c ! j) \<noteq> Some f" for f
    using that others step(3) g by auto
  show ?thesis
    unfolding capture_post_def using frame_trans [OF fr step(1)] caps last_value envs2 others2 by blast
qed

lemma capture_fold:
  assumes "\<forall>j \<in> set js. j < length (stackEnv c) \<and>
      (\<forall>g. be_function (stackEnv c ! j) = Some g \<longrightarrow>
         getRootFunctionScope h (be_scope (stackEnv c ! j)) = Inr root \<and> bc_varList c g \<noteq> None)"
    and "distinct js"
    and "\<forall>i \<in> set js. \<forall>j \<in> set js. \<forall>g. be_function (stackEnv c ! i) = Some g \<longrightarrow> be_function (stackEnv c ! j) = Some g \<longrightarrow> i = j"
    and "d < bc_nextDecl c"
  shows "\<exists>w c'. fold_r (capture_in h name v d root) js (v, c) = Inr (w, c') \<and> capture_post name v d c js w c'"
  using assms
proof (induction js rule: rev_induct)
  case Nil
  show ?case by (simp add: capture_post_def frame_refl)
next
  case (snoc x js)
  from snoc obtain w c1 where
    run: "fold_r (capture_in h name v d root) js (v, c) = Inr (w, c1)" and post: "capture_post name v d c js w c1"
    by (metis UnCI distinct_append set_append)
  have x: "x < length (stackEnv c)" "x \<notin> set js" using snoc.prems(1,2) by simp_all
  then have x1: "x < length (stackEnv c1)" "stackEnv c1 ! x = stackEnv c ! x"
    using post by (simp_all add: capture_post_def frame_def)
  show ?case
  proof (cases "be_function (stackEnv c ! x)")
    case None
    then have "capture_in h name v d root x (w, c1) = Inr (w, c1)" by (simp add: capture_in_def x1)
    with run capture_post_skip [OF post None] show ?thesis by (simp add: fold_r_append)
  next
    case (Some g)
    with snoc.prems(1) post obtain vs where vs: "bc_varList c1 g = Some vs"
      "getRootFunctionScope h (be_scope (stackEnv c1 ! x)) = Inr root"
      using x1 by (auto simp: capture_post_def frame_def)
    have d1: "d < bc_nextDecl c1" using snoc.prems(4) post by (simp add: capture_post_def frame_def)
    have new: "\<forall>j \<in> set js. j < length (stackEnv c) \<and> j \<noteq> x \<and> be_function (stackEnv c ! j) \<noteq> Some g"
      using snoc.prems(1,3) Some x(2) by auto
    from capture_in_function [OF x1(1) _ vs(2,1) d1, of name v w] Some x1(2) obtain c2 where
      "capture_in h name v d root x (w, c1) = Inr (v\<lparr>vv_ref := Some (bc_nextDecl c1)\<rparr>, c2)" "frame c1 c2"
      "captured_at name v d c1 c2 x g (bc_nextDecl c1)" "\<forall>f. f \<noteq> g \<longrightarrow> bc_closureVars c2 f = bc_closureVars c1 f"
      "\<forall>k. k \<noteq> x \<longrightarrow> stackEnv c2 ! k = stackEnv c1 ! k" by auto
    with run capture_post_function [OF post Some _ _ _ _ new snoc.prems(4)] show ?thesis
      by (auto simp: fold_r_append)
  qed
qed

section \<open>The lookup\<close>

lemma owner_env_iff:
  "getOwnerFunctionEnv es i = Some t \<longleftrightarrow>
     i < length es \<and> t \<le> i \<and> be_function (es ! t) \<noteq> None \<and> (\<forall>k. t < k \<and> k \<le> i \<longrightarrow> be_function (es ! k) = None)"
proof (induction i)
  case 0
  then show ?case by (subst getOwnerFunctionEnv.simps) (cases t; auto)
next
  case (Suc i)
  show ?case
  proof (cases "Suc i < length es \<and> be_function (es ! Suc i) = None")
    case True
    then have "getOwnerFunctionEnv es (Suc i) = getOwnerFunctionEnv es i" by (subst getOwnerFunctionEnv.simps) simp
    with Suc True show ?thesis by (auto simp: le_Suc_eq)
  next
    case False
    then show ?thesis by (subst getOwnerFunctionEnv.simps) (auto simp: le_Suc_eq)
  qed
qed

lemma find_in_stack_skip:
  "i < m \<Longrightarrow> \<forall>k. i < k \<and> k < m \<longrightarrow> env_symbol name (stackEnv c ! k) = None \<Longrightarrow>
   find_in_stack h name cur m c = find_in_stack h name cur (Suc i) c"
proof (induction m)
  case (Suc m)
  show ?case
  proof (cases "i = m")
    case False
    with Suc.prems have "i < m" "env_symbol name (stackEnv c ! m) = None" by auto
    with Suc show ?thesis by simp
  qed simp
qed simp

text \<open>The owner of the top of the stack lies above the variable when it is another function.\<close>

lemma current_above:
  assumes "currentFunction c = Some f" and "getOwnerFunctionEnv (stackEnv c) i = Some j"
    and "be_function (stackEnv c ! j) \<noteq> Some f"
  shows "\<exists>t. i < t \<and> t < length (stackEnv c) \<and> be_function (stackEnv c ! t) = Some f \<and>
    (\<forall>k. t < k \<and> k < length (stackEnv c) \<longrightarrow> be_function (stackEnv c ! k) = None)"
proof -
  have ne: "stackEnv c \<noteq> []" using assms(1) by (auto simp: currentFunction_def)
  then obtain t where t: "getOwnerFunctionEnv (stackEnv c) (length (stackEnv c) - 1) = Some t"
    "be_function (stackEnv c ! t) = Some f"
    using assms(1) by (auto simp: currentFunction_def owner_function_def bind_eq_Some_conv)
  then have t': "t < length (stackEnv c)" "\<forall>k. t < k \<and> k < length (stackEnv c) \<longrightarrow> be_function (stackEnv c ! k) = None"
    by (auto simp: owner_env_iff)
  have "i < t"
  proof (rule ccontr)
    assume "\<not> i < t"
    moreover have "i < length (stackEnv c)" using assms(2) by (simp add: owner_env_iff)
    ultimately have "getOwnerFunctionEnv (stackEnv c) i = Some t" using t' t(2) by (auto simp: owner_env_iff)
    with assms(2,3) t(2) show False by simp
  qed
  with t t' show ?thesis by blast
qed

text \<open>A variable that the environment of the current function holds is returned as it is.\<close>

lemma found_in_current:
  assumes "t < length (stackEnv c)" and "be_function (stackEnv c ! t) = Some f"
    and above: "\<forall>k. t < k \<and> k < length (stackEnv c) \<longrightarrow>
      be_function (stackEnv c ! k) = None \<and> env_symbol (SymVar x) (stackEnv c ! k) = None"
    and "env_symbol (SymVar x) (stackEnv c ! t) = Some (VarVal w)"
  shows "findSymbolKey h build type_of (SymVar x) c = Inr (Some (VarVal w), c)"
proof -
  have owner: "getOwnerFunctionEnv (stackEnv c) t = Some t" "getOwnerFunctionEnv (stackEnv c) (length (stackEnv c) - 1) = Some t"
    using assms(1-3) by (auto simp: owner_env_iff)
  then have "currentFunction c = Some f"
    using assms(1,2) by (auto simp: currentFunction_def owner_function_def)
  then show ?thesis
    using find_in_stack_skip [of t "length (stackEnv c)" "SymVar x" c h "Some f"] assms owner(1)
    by (simp add: findSymbolKey_def)
qed

text \<open>
  C29. Looking up a variable of an enclosing function captures it in every function between its
  declaration and its use: a copy of the declaration, marked as captured, becomes the last
  captured variable of the function and is found under the name. The declaration itself is marked
  as well, and a second lookup returns the same copy and changes nothing.
\<close>

theorem capture_recorded:
  assumes found: "i < length (stackEnv c)" "env_symbol (SymVar x) (stackEnv c ! i) = Some (VarVal v)"
      "\<forall>k. i < k \<and> k < length (stackEnv c) \<longrightarrow> env_symbol (SymVar x) (stackEnv c ! k) = None"
    and owner: "getOwnerFunctionEnv (stackEnv c) i = Some j"
    and cur: "currentFunction c = Some f" "be_function (stackEnv c ! j) \<noteq> Some f"
    and var: "vv_kind v \<noteq> SemanticsValueKind_GLOBAL_VAR" "vv_kind v \<noteq> SemanticsValueKind_GLOBAL_CONST"
      "vv_ref v = Some d" "d < bc_nextDecl c"
    and root: "getRootFunctionScope h (be_scope (stackEnv c ! j)) = Inr root"
      "\<forall>k g. i < k \<and> k < length (stackEnv c) \<and> be_function (stackEnv c ! k) = Some g \<longrightarrow>
         getRootFunctionScope h (be_scope (stackEnv c ! k)) = Inr root \<and> bc_varList c g \<noteq> None"
    and once: "\<forall>k l g. i < k \<and> k < length (stackEnv c) \<and> i < l \<and> l < length (stackEnv c) \<and>
      be_function (stackEnv c ! k) = Some g \<and> be_function (stackEnv c ! l) = Some g \<longrightarrow> k = l"
  shows "\<exists>w c'. findSymbolKey h build type_of (SymVar x) c = Inr (Some (VarVal w), c') \<and>
    bc_decls c' d = setUsedByClosureFunction (bc_decls c d) \<and>
    (\<forall>k g. i < k \<and> k < length (stackEnv c) \<and> be_function (stackEnv c ! k) = Some g \<longrightarrow>
       (\<exists>d'. captured_at (SymVar x) v d (setUsed d c) c' k g d')) \<and>
    findSymbolKey h build type_of (SymVar x) c' = Inr (Some (VarVal w), c')"
proof -
  let ?n = "length (stackEnv c)" and ?c = "setUsed d c"
  have same: "stackEnv ?c = stackEnv c" "bc_nextDecl ?c = bc_nextDecl c" "bc_varList ?c = bc_varList c"
    by (simp_all add: setUsed_def)
  have "\<exists>w c'. fold_r (capture_in h (SymVar x) v d root) [Suc i..<?n] (v, ?c) = Inr (w, c') \<and>
    capture_post (SymVar x) v d ?c [Suc i..<?n] w c'"
  proof (rule capture_fold)
    show "\<forall>k \<in> set [Suc i..<?n]. k < length (stackEnv ?c) \<and> (\<forall>g. be_function (stackEnv ?c ! k) = Some g \<longrightarrow>
        getRootFunctionScope h (be_scope (stackEnv ?c ! k)) = Inr root \<and> bc_varList ?c g \<noteq> None)"
      using root(2) unfolding same by (metis atLeastLessThan_iff less_eq_Suc_le set_upt)
    show "\<forall>k \<in> set [Suc i..<?n]. \<forall>l \<in> set [Suc i..<?n]. \<forall>g. be_function (stackEnv ?c ! k) = Some g \<longrightarrow>
        be_function (stackEnv ?c ! l) = Some g \<longrightarrow> k = l"
      using once unfolding same by (metis atLeastLessThan_iff less_eq_Suc_le set_upt)
  qed (simp_all add: same var(4))
  then obtain w c' where run: "fold_r (capture_in h (SymVar x) v d root) [Suc i..<?n] (v, ?c) = Inr (w, c')"
    and post: "capture_post (SymVar x) v d ?c [Suc i..<?n] w c'" by blast
  have closure: "buildClosure h (SymVar x) i v (be_scope (stackEnv c ! j)) c = Inr (w, c')"
    using var root(1) run by (simp add: buildClosure_def same)
  have first: "findSymbolKey h build type_of (SymVar x) c = Inr (Some (VarVal w), c')"
    using find_in_stack_skip [OF found(1,3), of h "Some f"] found(2) owner cur closure
    by (simp add: findSymbolKey_def)
  from current_above [OF cur(1) owner cur(2)] obtain t where t: "i < t" "t < ?n" "be_function (stackEnv c ! t) = Some f"
    "\<forall>k. t < k \<and> k < ?n \<longrightarrow> be_function (stackEnv c ! k) = None" by blast
  have fr: "frame ?c c'" and envs: "\<forall>k. be_function (stackEnv c ! k) = None \<longrightarrow> stackEnv c' ! k = stackEnv c ! k"
    using post by (simp_all add: capture_post_def same)
  have len: "length (stackEnv c') = ?n" and fns: "\<forall>k < ?n. be_function (stackEnv c' ! k) = be_function (stackEnv c ! k)"
    using fr by (simp_all add: frame_def same)
  have "[Suc i..<?n] = [Suc i..<t] @ t # [Suc t..<?n]"
    using t(1,2) upt_add_eq_append [of "Suc i" t "?n - t"] by (simp add: upt_conv_Cons)
  then obtain d' where d': "captured_at (SymVar x) v d ?c c' t f d'" "w = v\<lparr>vv_ref := Some d'\<rparr>"
    using post t(3,4) unfolding capture_post_def same by (metis atLeastLessThan_iff less_eq_Suc_le set_upt)
  have "map_get (be_symbols (stackEnv c' ! t)) (SymVar x) = None"
    using found(3) t(1,2) fr by (auto simp: env_symbol_def frame_def same split: option.splits)
  with d' have here: "env_symbol (SymVar x) (stackEnv c' ! t) = Some (VarVal w)"
    by (auto simp: env_symbol_def captured_at_def)
  have "findSymbolKey h build type_of (SymVar x) c' = Inr (Some (VarVal w), c')"
    using here t fns len envs found(3) by (intro found_in_current [of t]) auto
  moreover have "bc_decls c' d = setUsedByClosureFunction (bc_decls c d)"
    using fr var(4) by (simp add: frame_def same) (simp add: setUsed_def)
  ultimately show ?thesis
    using first post by (auto simp: capture_post_def same)
qed

section \<open>The values of a closure\<close>

text \<open>
  The values that initialise the captured variables of a function are found by name, and an
  outer environment replaces what an inner one has set: when a variable in an inner block hides a
  captured variable of the same name in the enclosing function, the closure gets the hidden one.
\<close>

theorem hidden_variable_captured:
  assumes "stackEnv c = [outer, inner]"
    and "be_symbols outer = [(SymVar xo, VarVal vo)]" "be_closures outer = None" "vv_ref vo = Some ro"
    and "be_symbols inner = [(SymVar xi, VarVal vi)]" "be_closures inner = None" "vv_ref vi = Some ri"
    and "isUsedInClosureFunction (bc_decls c ro)" "isUsedInClosureFunction (bc_decls c ri)"
    and "bc_closureVars c f = Some [d]" "vd_name (bc_decls c d) = nm"
    and "vd_name (bc_decls c ro) = nm" "vd_name (bc_decls c ri) = nm"
  shows "buildClosureInitList f c = Some [Some vo]"
  using assms by (simp add: buildClosureInitList_def env_init_def symbol_init_def same_var_def Let_def)

section \<open>Samples\<close>

text \<open>A module with a function and a function inside it.\<close>

definition nested_functions :: fe_heap where
  "nested_functions =
     \<lparr>fe_types = new_type_heap,
      fe_scopes = (\<lambda>s. if s = 0 then (new_scope ScopeKind.GlobalScope None)\<lparr>sc_children := [1]\<rparr>
                       else if s = 1 then (new_scope ScopeKind.FunctionScope (Some 0))\<lparr>sc_children := [2]\<rparr>
                       else new_scope ScopeKind.FunctionScope (Some 1)),
      fe_nextScope = 3, fe_vars = (\<lambda>v. new_Variable [120] 0 []), fe_nextVar = 2\<rparr>"

definition sample_decl :: "nat \<Rightarrow> VarDeclareNode" where
  "sample_decl d = \<lparr>vd_id = d, storageType = SemanticsValueKind_LOCAL_VAR, vd_type = Primitive_Number,
     vd_name = [120], vd_index = 0, vd_flags = 0\<rparr>"

definition sample_value :: "decl_ref \<Rightarrow> VarValue" where
  "sample_value d = \<lparr>vv_kind = SemanticsValueKind_LOCAL_VAR, vv_type = Primitive_Number, vv_ref = Some d, vv_index = Inl 0, vv_node = NoNode, vv_shape = None\<rparr>"

definition sample_env :: "scope_id \<Rightarrow> (symbol, symbol_value) js_map \<Rightarrow> func_ref option \<Rightarrow> BuildEnv" where
  "sample_env s m f = \<lparr>be_scope = s, be_symbols = m, be_namedSymbols = None, be_function = f, be_closures = None\<rparr>"

definition sample_context :: "BuildEnv list \<Rightarrow> BuildContext" where
  "sample_context es =
     \<lparr>globalSymbols = [], stackEnv = es, valueReferenceStack = [], typeIdx = 0, namedTypes = [], namedGlobalValues = [],
      bc_decls = sample_decl, bc_curCtx = (\<lambda>_. None), bc_nextDecl = 2, bc_varList = (\<lambda>_. Some [1]),
      bc_closureVars = (\<lambda>_. None), bc_funcs = (\<lambda>f. \<lparr>fh_id = f, fh_name = [], fh_funcType = Primitive_Void, fh_returnType = Primitive_Void\<rparr>),
      bc_info = (\<lambda>_. \<lparr>di_initValue = None, di_closureIndex = None, di_belongCtx = None, di_initCtx = None, di_needReBinding = False\<rparr>),
      bc_varShape = (\<lambda>_. None),
      bc_heap = \<lparr>metas = (\<lambda>_. UnknownObjectDescription), shapes = (\<lambda>_. \<lparr>s_members = None, s_meta = 0, s_generic = None\<rparr>),
        accs = (\<lambda>_. \<lparr>acc_method = None, acc_getter = None, acc_setter = None\<rparr>), next_shape = 0, next_acc = 0\<rparr>,
      bc_finfo = (\<lambda>_. \<lparr>fi_ownKind = 4, fi_body = [], fi_parameters = None, fi_parentCtx = None, fi_thisClass = None,
        fi_flattenValue = None\<rparr>),
      bc_nextFunc = 2, bc_functions = [], bc_globalVars = []\<rparr>"

abbreviation no_build :: "fe_expr \<Rightarrow> BuildContext \<Rightarrow> (built \<times> BuildContext) result" where
  "no_build \<equiv> \<lambda>_ _. Inl JSTypeError"

theorem capture_recorded_witness:
  "\<exists>w c'. findSymbolKey nested_functions no_build (\<lambda>_. None) (SymVar 0)
      (sample_context [sample_env 1 [(SymVar 0, VarVal (sample_value 0))] (Some 0), sample_env 2 [] (Some 1)])
      = Inr (Some (VarVal w), c') \<and>
    findSymbolKey nested_functions no_build (\<lambda>_. None) (SymVar 0) c' = Inr (Some (VarVal w), c') \<and>
    isUsedInClosureFunction (bc_decls c' 0) \<and> bc_closureVars c' 1 \<noteq> None"
proof -
  let ?c = "sample_context [sample_env 1 [(SymVar 0, VarVal (sample_value 0))] (Some 0), sample_env 2 [] (Some 1)]"
  have roots: "getRootFunctionScope nested_functions (Suc 0) = Inr (Some (Suc 0))"
    "getRootFunctionScope nested_functions 2 = Inr (Some (Suc 0))"
    by (simp_all add: getRootFunctionScope_def nested_functions_def new_scope_def numeral_3_eq_3)
  have less: "k < 2 \<and> 0 < k \<longleftrightarrow> k = Suc 0" for k :: nat by auto
  have "\<exists>w c'. findSymbolKey nested_functions no_build (\<lambda>_. None) (SymVar 0) ?c = Inr (Some (VarVal w), c') \<and>
    bc_decls c' 0 = setUsedByClosureFunction (bc_decls ?c 0) \<and>
    (\<forall>k g. 0 < k \<and> k < length (stackEnv ?c) \<and> be_function (stackEnv ?c ! k) = Some g \<longrightarrow>
       (\<exists>d'. captured_at (SymVar 0) (sample_value 0) 0 (setUsed 0 ?c) c' k g d')) \<and>
    findSymbolKey nested_functions no_build (\<lambda>_. None) (SymVar 0) c' = Inr (Some (VarVal w), c')"
    by (rule capture_recorded [where j = 0 and f = 1 and root = "Some 1"])
      (auto simp: sample_context_def sample_env_def sample_value_def env_symbol_def roots getOwnerFunctionEnv.simps
        currentFunction_def owner_function_def less_Suc_eq)
  then obtain w c' where "findSymbolKey nested_functions no_build (\<lambda>_. None) (SymVar 0) ?c = Inr (Some (VarVal w), c')"
    "bc_decls c' 0 = setUsedByClosureFunction (bc_decls ?c 0)"
    "\<forall>k g. 0 < k \<and> k < length (stackEnv ?c) \<and> be_function (stackEnv ?c ! k) = Some g \<longrightarrow>
       (\<exists>d'. captured_at (SymVar 0) (sample_value 0) 0 (setUsed 0 ?c) c' k g d')"
    "findSymbolKey nested_functions no_build (\<lambda>_. None) (SymVar 0) c' = Inr (Some (VarVal w), c')" by blast
  moreover have "bc_closureVars c' 1 \<noteq> None"
    using calculation(3) [rule_format, of 1 1] by (auto simp: sample_context_def sample_env_def captured_at_def)
  moreover have "isUsedInClosureFunction (setUsedByClosureFunction (bc_decls ?c 0))"
    by (simp add: sample_context_def sample_decl_def setUsedByClosureFunction_def isUsedInClosureFunction_def
        clear_closure_bits_def js_and_def js_or_def to_int32_def)
  ultimately show ?thesis by auto
qed

theorem hidden_variable_captured_witness:
  "buildClosureInitList 5
     ((sample_context [sample_env 1 [(SymVar 0, VarVal (sample_value 0))] (Some 0), sample_env 3 [(SymVar 1, VarVal (sample_value 1))] None])
       \<lparr>bc_decls := (\<lambda>d. (sample_decl d)\<lparr>vd_flags := 1\<rparr>), bc_closureVars := (\<lambda>_. Some [2])\<rparr>)
   = Some [Some (sample_value 0)]"
  by (rule hidden_variable_captured [where xo = 0 and ro = 0 and xi = 1 and vi = "sample_value 1" and ri = 1 and d = 2
        and nm = "[120]" and outer = "sample_env 1 [(SymVar 0, VarVal (sample_value 0))] (Some 0)"
        and inner = "sample_env 3 [(SymVar 1, VarVal (sample_value 1))] None"])
    (simp_all add: sample_context_def sample_env_def sample_value_def sample_decl_def isUsedInClosureFunction_def js_and_def
      to_int32_def)

end
