(* ===== verification/ObjectLayout.thy ===== *)
theory ObjectLayout
  imports TsTypes Casts BuilderContext
begin

text \<open>
  The layout of objects in \<open>src/src/semantics/type_creator.ts\<close>: the member tables of the
  description of a class or interface, filled from the fields and methods of its type, the shapes
  of a description, and the wide type of a union.

  Creating the value type of a member (\<open>createType\<close>), building the initial value of a static field
  (\<open>buildExpression\<close> and \<open>newCastValue\<close>) and looking up a function of the module
  (\<open>getGlobalFunction\<close>) are the fields of the record \<open>pass\<close>: the layout is described for any of them.
\<close>

section \<open>Wide types\<close>

text \<open>
  \<open>createTypeScores\<close>: the class of a kind and its level in the class, the digits of the number in the
  source.
\<close>

definition type_scores :: "ValueTypeKind \<Rightarrow> (nat \<times> nat) option" where
  "type_scores k =
     (if k = ValueTypeKind.NUMBER then Some (1, 6)
      else if k = ValueTypeKind.INT then Some (1, 5)
      else if k = ValueTypeKind.BOOLEAN then Some (1, 4)
      else if k = ValueTypeKind.STRING then Some (2, 5)
      else if k = ValueTypeKind.RAW_STRING then Some (2, 4)
      else None)"

text \<open>The inner loop: unions, type parameters and enumerations stand for another type.\<close>

primrec plain_type :: "value_type \<Rightarrow> value_type" where
  "plain_type (SimpleType b i) = SimpleType b i"
| "plain_type (ClosureContextType p vs) = ClosureContextType p vs"
| "plain_type (WASMArrayType a p m n) = WASMArrayType a p m n"
| "plain_type (WASMStructType t p m n b) = WASMStructType t p m n b"
| "plain_type (SetType i e m ta sa) = SetType i e m ta sa"
| "plain_type (MapType i k v m ta sa) = MapType i k v m ta sa"
| "plain_type (ObjectType i m f ni si ta sa) = ObjectType i m f ni si ta sa"
| "plain_type (ArrayType i m f e ni ta sa) = ArrayType i m f e ni ta sa"
| "plain_type (UnionType i ts w) = plain_type w"
| "plain_type (FunctionType i r as os rp ep ta sa) = FunctionType i r as os rp ep ta sa"
| "plain_type (TypeParameterType i n w ix d ow) = plain_type w"
| "plain_type (EnumType i n mt ms) = plain_type mt"
| "plain_type (TupleType i ts) = TupleType i ts"

definition is_empty_kind :: "ValueTypeKind \<Rightarrow> bool" where
  "is_empty_kind k \<longleftrightarrow> k = ValueTypeKind.VOID \<or> k = ValueTypeKind.NULL \<or> k = ValueTypeKind.UNDEFINED \<or>
     k = ValueTypeKind.NEVER \<or> k = ValueTypeKind.GENERIC"

text \<open>
  The state of the loop is whether an object type was met, and the wide type so far. The first
  component of the result is true when the loop is left.
\<close>

definition wide_step :: "value_type \<Rightarrow> bool \<times> value_type option \<Rightarrow> bool \<times> bool \<times> value_type option" where
  "wide_step ty = (\<lambda>(objs, wide).
     let t = plain_type ty; k = vt_kind t
     in if k = ValueTypeKind.NAMESPACE then (True, objs, Some Primitive_Any)
        else
          let objs = (objs \<or> isObjectType k)
          in case wide of
               None \<Rightarrow> (False, objs, Some t)
             | Some w \<Rightarrow>
                 if equals w t then (False, objs, Some w)
                 else if vt_kind w = ValueTypeKind.FUNCTION then (True, objs, Some Primitive_Any)
                 else if isObjectType k \<and> isObjectType (vt_kind w) then (False, objs, Some w)
                 else if is_empty_kind k then (False, objs, Some w)
                 else case (type_scores k, type_scores (vt_kind w)) of
                        (Some (c, l), Some (c', l')) \<Rightarrow>
                          if c = c' then (False, objs, Some (if l' < l then t else w))
                          else (True, objs, Some Primitive_Any)
                      | _ \<Rightarrow> (True, objs, Some Primitive_Any))"

fun wide_loop :: "value_type list \<Rightarrow> bool \<times> value_type option \<Rightarrow> bool \<times> value_type option" where
  "wide_loop [] s = s"
| "wide_loop (ty # ts) s = (case wide_step ty s of (left, s') \<Rightarrow> if left then s' else wide_loop ts s')"

definition collectWideTypes :: "value_type list \<Rightarrow> value_type list" where
  "collectWideTypes types =
     (case wide_loop types (False, None) of
        (objs, None) \<Rightarrow> [Primitive_Any]
      | (objs, Some w) \<Rightarrow>
          if vt_kind w = ValueTypeKind.ANY then [Primitive_Any]
          else if \<not> objs then [w]
          else [Primitive_Any])"

text \<open>\<open>createUnionInterfaceType\<close>, which is called for more than one wide type, is the argument \<open>mk_union\<close>.\<close>

definition CreateWideTypeFromTypes ::
  "(int \<Rightarrow> value_type list \<Rightarrow> BuildContext \<Rightarrow> value_type \<times> BuildContext) \<Rightarrow> value_type list \<Rightarrow> BuildContext \<Rightarrow>
   value_type \<times> BuildContext"
where
  "CreateWideTypeFromTypes mk_union types c =
     (let wide_types = collectWideTypes types
      in if 1 < length wide_types then (let (i, c) = nextTypeId c in mk_union i wide_types c)
         else (hd wide_types, c))"

definition createUnionType ::
  "(int \<Rightarrow> value_type list \<Rightarrow> BuildContext \<Rightarrow> value_type \<times> BuildContext) \<Rightarrow> value_type list \<Rightarrow> BuildContext \<Rightarrow>
   value_type \<times> BuildContext"
where
  "createUnionType mk_union element_types c =
     (let (wide_type, c) = CreateWideTypeFromTypes mk_union element_types c;
          (i, c) = nextTypeId c
      in (UnionType i element_types wide_type, c))"

lemma collectWideTypes_one: "\<exists>w. collectWideTypes types = [w]"
  by (simp add: collectWideTypes_def split: prod.splits option.splits)

text \<open>The interface type for several wide types is never built.\<close>

lemma wide_type_is_first: "CreateWideTypeFromTypes mk_union types c = (hd (collectWideTypes types), c)"
proof -
  obtain w where "collectWideTypes types = [w]" using collectWideTypes_one by blast
  then show ?thesis by (simp add: CreateWideTypeFromTypes_def)
qed

section \<open>Counting members\<close>

text \<open>\<open>m.type.funcKind\<close>; the type of a method is a function type.\<close>

definition method_kind :: "type_heap \<Rightarrow> TsClassFunc \<Rightarrow> FunctionKind" where
  "method_kind th m = (case func_kind th (cf_type m) of Some k \<Rightarrow> k | None \<Rightarrow> FunctionKind.DEFAULT)"

definition is_accessor_kind :: "FunctionKind \<Rightarrow> bool" where
  "is_accessor_kind k \<longleftrightarrow> k = FunctionKind.GETTER \<or> k = FunctionKind.SETTER"

text \<open>One round of the loop over the methods: static count, instance count, names of accessors.\<close>

definition count_method ::
  "type_heap \<Rightarrow> bool \<Rightarrow> TsClassFunc \<Rightarrow> nat \<times> nat \<times> js_string set \<Rightarrow> nat \<times> nat \<times> js_string set"
where
  "count_method th is_interface m = (\<lambda>(st, ins, names).
     let k = method_kind th m
     in if k = FunctionKind.CONSTRUCTOR then (if is_interface then (st, Suc ins, names) else (Suc st, ins, names))
        else if k = FunctionKind.STATIC then (Suc st, ins, names)
        else if is_accessor_kind k then
          (if cf_name m \<notin> names then (st, Suc ins, insert (cf_name m) names) else (st, ins, names))
        else (st, Suc ins, names))"

definition getClassMemberCount :: "type_heap \<Rightarrow> TSClass \<Rightarrow> nat \<times> nat" where
  "getClassMemberCount th c =
     (let st = length (cls_staticFields c); ins = length (cls_fields c);
          st = (if \<not> cls_isInterface c \<and> cls_ctor c \<noteq> None then Suc st else st);
          (st, ins, names) = fold (count_method th (cls_isInterface c)) (cls_methods c) (st, ins, {})
      in (st, ins))"

definition getAccessorType :: "value_type \<Rightarrow> bool \<Rightarrow> value_type" where
  "getAccessorType vt is_setter = (case vt of
       FunctionType i r args os rp ep ta sa \<Rightarrow>
         (let type = (if is_setter then (if args = [] then None else Some (last args)) else Some r)
          in case type of
               None \<Rightarrow> Primitive_Any
             | Some t \<Rightarrow>
                 if vt_kind t = ValueTypeKind.UNDEFINED \<or> vt_kind t = ValueTypeKind.NULL \<or>
                    vt_kind t = ValueTypeKind.VOID then Primitive_Any
                 else t)
     | _ \<Rightarrow> vt)"

section \<open>Filling the tables\<close>

record 'v pass =
  p_create :: "type_id \<Rightarrow> 'v rt_heap \<Rightarrow> (value_type \<times> 'v rt_heap) result"
  p_static :: "type_id \<Rightarrow> nat \<Rightarrow> value_type \<Rightarrow> 'v rt_heap \<Rightarrow> ('v option \<times> 'v rt_heap) result"
  p_global :: "js_string \<Rightarrow> 'v option"

text \<open>The counters of \<open>updateMemberDescriptions\<close>.\<close>

record cursor =
  inst_idx :: nat
  class_idx :: nat
  inst_offset :: nat
  clazz_offset :: nat

definition class_of :: "type_heap \<Rightarrow> type_id \<Rightarrow> TSClass option" where
  "class_of th t = (case th_types th t of TSClass c \<Rightarrow> Some c | _ \<Rightarrow> None)"

abbreviation CONSTRUCTOR_name :: js_string where
  "CONSTRUCTOR_name \<equiv> js_lit ''constructor''"

definition member_at :: "meta_ref \<Rightarrow> nat \<Rightarrow> 'v rt_heap \<Rightarrow> 'v MemberDescription" where
  "member_at a slot h = the (members (metas h a) ! slot)"

definition set_member :: "meta_ref \<Rightarrow> nat \<Rightarrow> 'v MemberDescription \<Rightarrow> 'v rt_heap \<Rightarrow> 'v rt_heap" where
  "set_member a slot m h = upd_meta a (members_update (\<lambda>ms. ms[slot := Some m])) h"

text \<open>The object \<open>{ method: ... }\<close>.\<close>

definition new_method_ref :: "'v option \<Rightarrow> 'v rt_heap \<Rightarrow> acc_ref \<times> 'v rt_heap" where
  "new_method_ref f h =
     (next_acc h, h\<lparr>accs := (accs h)(next_acc h := \<lparr>acc_method = f, acc_getter = None, acc_setter = None\<rparr>),
                    next_acc := Suc (next_acc h)\<rparr>)"

definition add_field :: "'v pass \<Rightarrow> meta_ref \<Rightarrow> TsClassField \<Rightarrow> nat \<times> 'v rt_heap \<Rightarrow> (nat \<times> 'v rt_heap) result" where
  "add_field p inst f = (\<lambda>(idx, h).
     bind_r (p_create p (fld_type f) h) (\<lambda>(vt, h).
     bind_r (updateMember (fld_name f) idx MemberType.FIELD (fld_optional f) vt True None False None inst h) (\<lambda>(slot, h).
       let m = member_at inst slot h
       in Inr (if m_index m = idx then Suc idx else idx, set_member inst slot (set_offset (int (m_index m)) m) h))))"

definition add_static_field ::
  "'v pass \<Rightarrow> type_id \<Rightarrow> meta_ref \<Rightarrow> TsClassField \<Rightarrow> nat \<times> 'v rt_heap \<Rightarrow> (nat \<times> 'v rt_heap) result"
where
  "add_static_field p t clazz f = (\<lambda>(idx, h).
     bind_r (p_create p (fld_type f) h) (\<lambda>(vt, h).
     bind_r (p_static p t idx vt h) (\<lambda>(init, h).
     bind_r (updateMember (fld_name f) idx MemberType.FIELD (fld_optional f) vt True None True init clazz h) (\<lambda>(slot, h).
       let m = member_at clazz slot h
       in Inr (Suc idx, set_member clazz slot (set_offset (int (m_index m)) m) h)))))"

text \<open>
  The constructor, in the field \<open>ctor\<close> of both descriptions and in the table of the class. The index
  of \<open>ctor\<close>, -1 in the source, is not read; it is 0 here.
\<close>

definition add_ctor ::
  "'v pass \<Rightarrow> TSClass \<Rightarrow> type_id \<Rightarrow> meta_ref \<Rightarrow> nat \<times> nat \<times> 'v rt_heap \<Rightarrow> (nat \<times> nat \<times> 'v rt_heap) result"
where
  "add_ctor p c ctor clazz = (\<lambda>(idx, off, h).
     bind_r (p_create p ctor h) (\<lambda>(vt, h).
       let f = p_global p (cls_mangledName c @ js_lit ''|constructor'');
           (r, h) = new_method_ref f h;
           m = (new_MemberDescription CONSTRUCTOR_name MemberType.CONSTRUCTOR 0 False vt (Some r) True False None)
                 \<lparr>isDeclaredCtor := cls_hasDeclareCtor c\<rparr>;
           h = upd_meta clazz (od_ctor_update (\<lambda>_. Some m)) h;
           h = (case get_instance clazz h of Some i \<Rightarrow> upd_meta i (od_ctor_update (\<lambda>_. Some m)) h | None \<Rightarrow> h);
           (r, h) = new_method_ref f h
       in bind_r (updateMember CONSTRUCTOR_name idx MemberType.CONSTRUCTOR False vt True (Some r) False None clazz h)
            (\<lambda>(slot, h). Inr (Suc idx, Suc off, set_member clazz slot (set_offset (int off) (member_at clazz slot h)) h))))"

text \<open>
  The search for the function of an inherited accessor through the base classes. The first
  argument bounds the length of the chain.
\<close>

fun inherited_accessor :: "nat \<Rightarrow> 'v pass \<Rightarrow> type_heap \<Rightarrow> js_string \<Rightarrow> TSClass \<Rightarrow> 'v option result" where
  "inherited_accessor 0 p th name c = Inl JSDiverges"
| "inherited_accessor (Suc n) p th name c =
     (case cls_base c of
        None \<Rightarrow> Inr None
      | Some b \<Rightarrow>
          (case class_of th b of
             None \<Rightarrow> Inl JSTypeError
           | Some bc \<Rightarrow>
               (case p_global p (cls_mangledName bc @ js_lit ''|'' @ name) of
                  Some f \<Rightarrow> Inr (Some f)
                | None \<Rightarrow> inherited_accessor n p th name bc)))"

definition accessor_name :: "bool \<Rightarrow> js_string \<Rightarrow> js_string" where
  "accessor_name is_setter name = (if is_setter then js_lit ''set_'' else js_lit ''get_'') @ name"

text \<open>The slot of the accessor: an existing member of the name, or a new one.\<close>

definition accessor_slot ::
  "TSClass \<Rightarrow> TsClassFunc \<Rightarrow> bool \<Rightarrow> value_type \<Rightarrow> meta_ref \<Rightarrow> cursor \<Rightarrow> 'v rt_heap \<Rightarrow> (nat \<times> cursor \<times> 'v rt_heap) result"
where
  "accessor_slot c m is_setter field_type inst cur h =
     (case find_member_slot (cf_name m) (members (metas h inst)) of
        None \<Rightarrow>
          bind_r (updateMember (cf_name m) (inst_idx cur) MemberType.ACCESSOR (cf_optional m) field_type
              (accessor_name is_setter (cf_name m) \<in> set (cls_overrideOrOwnMethods c)) None False None inst h) (\<lambda>(slot, h).
            Inr (slot, if m_index (member_at inst slot h) = inst_idx cur then cur\<lparr>inst_idx := Suc (inst_idx cur)\<rparr> else cur, h))
      | Some slot \<Rightarrow>
          (let a = member_at inst slot h
           in Inr (slot, cur,
                if vt_kind (valueType a) = ValueTypeKind.ANY \<and> vt_kind field_type \<noteq> ValueTypeKind.ANY
                then set_member inst slot (a\<lparr>valueType := field_type\<rparr>) h else h)))"

text \<open>The functions of the accessor: its own, or the inherited one when it has none.\<close>

definition accessor_function ::
  "nat \<Rightarrow> 'v pass \<Rightarrow> type_heap \<Rightarrow> TSClass \<Rightarrow> js_string \<Rightarrow> bool \<Rightarrow> 'v MemberDescription \<Rightarrow> 'v rt_heap \<Rightarrow>
   ('v MemberDescription \<times> 'v rt_heap) result"
where
  "accessor_function n p th c name is_setter a h =
     (case (if cls_isInterface c then None else p_global p (cls_mangledName c @ js_lit ''|'' @ name)) of
        Some f \<Rightarrow> Inr (setAccessorFunction f is_setter a h)
      | None \<Rightarrow>
          if cls_isInterface c then Inr (a, h)
          else bind_r (inherited_accessor n p th name c) (\<lambda>found.
            case found of
              None \<Rightarrow> Inr (a, h)
            | Some f \<Rightarrow>
                if is_setter \<and> get_setter a h = None \<or> \<not> is_setter \<and> get_getter a h = None
                then Inr (setAccessorFunction f is_setter a h) else Inr (a, h)))"

definition add_accessor ::
  "nat \<Rightarrow> 'v pass \<Rightarrow> type_heap \<Rightarrow> TSClass \<Rightarrow> meta_ref \<Rightarrow> bool \<Rightarrow> TsClassFunc \<Rightarrow> value_type \<Rightarrow> cursor \<times> 'v rt_heap \<Rightarrow>
   (cursor \<times> 'v rt_heap) result"
where
  "add_accessor n p th c inst is_instance m vt = (\<lambda>(cur, h).
     let is_setter = (method_kind th m = FunctionKind.SETTER);
         field_type = getAccessorType vt is_setter
     in bind_r (accessor_slot c m is_setter field_type inst cur h) (\<lambda>(slot, cur, h).
          let a = member_at inst slot h;
              a = (if is_setter then set_setterType (Some field_type) a else set_getterType (Some field_type) a)
          in bind_r (accessor_function n p th c (accessor_name is_setter (cf_name m)) is_setter a h) (\<lambda>(a, h).
               if is_instance then Inr (cur, set_member inst slot a h)
               else
                 Inr (cur\<lparr>inst_offset := Suc (inst_offset cur)\<rparr>,
                      set_member inst slot
                        (if is_setter then set_setterOffset (int (inst_offset cur)) a
                         else set_getterOffset (int (inst_offset cur)) a) h))))"

definition add_static_method ::
  "'v pass \<Rightarrow> TSClass \<Rightarrow> meta_ref \<Rightarrow> TsClassFunc \<Rightarrow> value_type \<Rightarrow> cursor \<times> 'v rt_heap \<Rightarrow> (cursor \<times> 'v rt_heap) result"
where
  "add_static_method p c clazz m vt = (\<lambda>(cur, h).
     let (r, h) = new_method_ref (p_global p (cls_mangledName c @ js_lit ''|@'' @ cf_name m)) h
     in bind_r (updateMember (cf_name m) (class_idx cur) MemberType.METHOD (cf_optional m) vt
            (cf_name m \<in> set (cls_overrideOrOwnMethods c)) (Some r) True None clazz h) (\<lambda>(slot, h).
          let a = member_at clazz slot h
          in Inr (cur\<lparr>class_idx := Suc (class_idx cur)\<rparr>, set_member clazz slot (set_offset (int (m_index a)) a) h)))"

definition add_method ::
  "'v pass \<Rightarrow> TSClass \<Rightarrow> meta_ref \<Rightarrow> bool \<Rightarrow> TsClassFunc \<Rightarrow> value_type \<Rightarrow> cursor \<times> 'v rt_heap \<Rightarrow> (cursor \<times> 'v rt_heap) result"
where
  "add_method p c inst is_instance m vt = (\<lambda>(cur, h).
     let (acc, h) = (if cls_isInterface c then (None, h)
                     else (let (r, h) = new_method_ref (p_global p (cls_mangledName c @ js_lit ''|'' @ cf_name m)) h
                           in (Some r, h)))
     in bind_r (updateMember (cf_name m) (inst_idx cur) MemberType.METHOD (cf_optional m) vt
            (cf_name m \<in> set (cls_overrideOrOwnMethods c)) acc False None inst h) (\<lambda>(slot, h).
          let a = member_at inst slot h;
              (cur', a') = (if is_instance then (cur, a)
                            else (cur\<lparr>inst_offset := Suc (inst_offset cur)\<rparr>, set_offset (int (inst_offset cur)) a))
          in Inr (if m_index a = inst_idx cur then cur'\<lparr>inst_idx := Suc (inst_idx cur)\<rparr> else cur',
                  set_member inst slot a' h)))"

text \<open>A method of kind constructor, which belongs to interfaces.\<close>

definition add_construct_signature ::
  "'v pass \<Rightarrow> TSClass \<Rightarrow> meta_ref \<Rightarrow> meta_ref option \<Rightarrow> bool \<Rightarrow> TsClassFunc \<Rightarrow> value_type \<Rightarrow> cursor \<times> 'v rt_heap \<Rightarrow>
   (cursor \<times> 'v rt_heap) result"
where
  "add_construct_signature p c inst clazz is_base m vt = (\<lambda>(cur, h).
     if cls_isInterface c \<or> \<not> is_base \<and> clazz \<noteq> None then
       let a = (if cls_isInterface c then inst else the clazz);
           idx = (if cls_isInterface c then inst_idx cur else class_idx cur);
           off = (if cls_isInterface c then inst_offset cur else clazz_offset cur);
           (r, h) = new_method_ref (p_global p (cls_mangledName c @ js_lit ''|constructor'')) h
       in bind_r (updateMember CONSTRUCTOR_name idx MemberType.METHOD (cf_optional m) vt True (Some r) False None a h) (\<lambda>(slot, h).
            Inr (if cls_isInterface c then cur\<lparr>inst_idx := Suc idx, inst_offset := Suc off\<rparr>
                 else cur\<lparr>class_idx := Suc idx, clazz_offset := Suc off\<rparr>,
                 set_member a slot (set_offset (int off) (member_at a slot h)) h))
     else Inr (cur, h))"

definition add_member_func ::
  "nat \<Rightarrow> 'v pass \<Rightarrow> type_heap \<Rightarrow> TSClass \<Rightarrow> meta_ref \<Rightarrow> meta_ref option \<Rightarrow> bool \<Rightarrow> TsClassFunc \<Rightarrow> cursor \<times> 'v rt_heap \<Rightarrow>
   (cursor \<times> 'v rt_heap) result"
where
  "add_member_func n p th c inst clazz is_base m = (\<lambda>(cur, h).
     bind_r (p_create p (cf_type m) h) (\<lambda>(vt, h).
       let k = method_kind th m
       in if k = FunctionKind.CONSTRUCTOR then add_construct_signature p c inst clazz is_base m vt (cur, h)
          else if k = FunctionKind.STATIC then
            (case clazz of Some cl \<Rightarrow> add_static_method p c cl m vt (cur, h) | None \<Rightarrow> Inr (cur, h))
          else if is_accessor_kind k then add_accessor n p th c inst (clazz \<noteq> None) m vt (cur, h)
          else add_method p c inst (clazz \<noteq> None) m vt (cur, h)))"

text \<open>The part for the description of the class: static fields and the constructor.\<close>

definition add_statics ::
  "'v pass \<Rightarrow> type_id \<Rightarrow> TSClass \<Rightarrow> meta_ref option \<Rightarrow> bool \<Rightarrow> nat \<Rightarrow> 'v rt_heap \<Rightarrow> (nat \<times> nat \<times> 'v rt_heap) result"
where
  "add_statics p t c clazz is_base off h =
     (case clazz of
        None \<Rightarrow> Inr (0, off, h)
      | Some cl \<Rightarrow>
          bind_r (fold_r (add_static_field p t cl) (cls_staticFields c) (0, upd_meta cl (inited_update (\<lambda>_. True)) h)) (\<lambda>(idx, h).
            if is_base then Inr (idx, off, h)
            else case cls_ctor c of Some ctor \<Rightarrow> add_ctor p c ctor cl (idx, off, h) | None \<Rightarrow> Inr (idx, off, h)))"

definition field_count :: "meta_ref option \<Rightarrow> 'v rt_heap \<Rightarrow> nat" where
  "field_count a h = (case a of Some b \<Rightarrow> fieldCount (metas h b) | None \<Rightarrow> 0)"

definition empty_table :: "nat \<Rightarrow> meta_ref \<Rightarrow> 'v rt_heap \<Rightarrow> 'v rt_heap" where
  "empty_table n a h = upd_meta a (members_update (\<lambda>_. replicate n None)) h"

text \<open>What follows the recursive call for the base class, which leaves \<open>idx\<close> members before the own ones.\<close>

definition fill_tables ::
  "nat \<Rightarrow> 'v pass \<Rightarrow> type_heap \<Rightarrow> type_id \<Rightarrow> TSClass \<Rightarrow> meta_ref \<Rightarrow> meta_ref option \<Rightarrow> bool \<Rightarrow> nat \<Rightarrow> 'v rt_heap \<Rightarrow> 'v rt_heap result"
where
  "fill_tables n p th t c inst clazz is_base idx h =
     (let off = field_count (od_base (metas h inst)) h;
          clazz_off = field_count (Option.bind clazz (\<lambda>cl. od_base (metas h cl))) h;
          (static_count, inst_count) = getClassMemberCount th c;
          h = empty_table inst_count inst h;
          h = (case clazz of Some cl \<Rightarrow> empty_table static_count cl h | None \<Rightarrow> h)
      in bind_r (fold_r (add_field p inst) (cls_fields c) (idx, h)) (\<lambda>(idx, h).
         bind_r (add_statics p t c clazz is_base clazz_off h) (\<lambda>(cidx, clazz_off, h).
         bind_r (fold_r (add_member_func n p th c inst clazz is_base) (cls_methods c)
                   (\<lparr>inst_idx = idx, class_idx = cidx, inst_offset = off, clazz_offset = clazz_off\<rparr>, h)) (\<lambda>(cur, h).
           let h = upd_meta inst (fieldCount_update (\<lambda>_. inst_offset cur)) h;
               h = (case clazz of Some cl \<Rightarrow> upd_meta cl (fieldCount_update (\<lambda>_. clazz_offset cur)) h | None \<Rightarrow> h)
           in Inr (upd_meta inst (inited_update (\<lambda>_. True)) h)))))"

text \<open>\<open>updateMemberDescriptions\<close>; the first argument is the depth of the calls for base classes.\<close>

fun updateMemberDescriptions ::
  "nat \<Rightarrow> 'v pass \<Rightarrow> type_heap \<Rightarrow> type_id \<Rightarrow> meta_ref \<Rightarrow> meta_ref option \<Rightarrow> bool \<Rightarrow> 'v rt_heap \<Rightarrow> 'v rt_heap result"
where
  "updateMemberDescriptions 0 p th t inst clazz is_base h = Inl JSRangeError"
| "updateMemberDescriptions (Suc n) p th t inst clazz is_base h =
     (if inited (metas h inst) then Inr h
      else case class_of th t of
        None \<Rightarrow> Inl JSTypeError
      | Some c \<Rightarrow>
          bind_r
            (case cls_base c of
               None \<Rightarrow> Inr (0, h)
             | Some b \<Rightarrow>
                 (case od_base (metas h inst) of
                    None \<Rightarrow> Inl JSTypeError
                  | Some base \<Rightarrow>
                      bind_r (updateMemberDescriptions n p th b base (Option.bind clazz (\<lambda>cl. od_base (metas h cl))) True h) (\<lambda>h.
                        Inr (length (members (metas h base)), h))))
            (\<lambda>(idx, h). fill_tables n p th t c inst clazz is_base idx h))"

section \<open>Shapes of a description\<close>

definition CreateShapeMember :: "'v MemberDescription \<Rightarrow> 'v ShapeMember option" where
  "CreateShapeMember m = (case m_type m of
       MemberType.FIELD \<Rightarrow> Some (ShapeField (Some (get_offset m)))
     | MemberType.ACCESSOR \<Rightarrow>
         Some (ShapeAccessor ShapeMemberStorage.OFFSET (Some (Off (get_getterOffset m))) (Some (Off (get_setterOffset m))))
     | MemberType.METHOD \<Rightarrow> Some (ShapeMethod ShapeMemberStorage.OFFSET (Some (Off (get_offset m))))
     | _ \<Rightarrow> None)"

definition CreateShapeMemberValue :: "'v MemberDescription \<Rightarrow> 'v rt_heap \<Rightarrow> 'v ShapeMember option" where
  "CreateShapeMemberValue m h = (case m_type m of
       MemberType.ACCESSOR \<Rightarrow>
         Some (ShapeAccessor ShapeMemberStorage.VALUE (map_option Val (get_getter m h)) (map_option Val (get_setter m h)))
     | MemberType.METHOD \<Rightarrow> Some (ShapeMethod ShapeMemberStorage.VALUE (map_option Val (get_method m h)))
     | _ \<Rightarrow> None)"

text \<open>The loop over the members; a hole of the table is \<open>undefined\<close>.\<close>

definition shape_member :: "bool \<Rightarrow> 'v rt_heap \<Rightarrow> 'v MemberDescription option \<Rightarrow> 'v ShapeMember option result" where
  "shape_member by_value h slot = (case slot of
       None \<Rightarrow> Inl JSTypeError
     | Some m \<Rightarrow> Inr
         (if by_value then
            (if m_type m = MemberType.FIELD then Some (ShapeField (Some (get_offset m)))
             else if methodOrAccessor m \<noteq> None then CreateShapeMemberValue m h else None)
          else CreateShapeMember m))"

definition new_shape :: "meta_ref \<Rightarrow> 'v ShapeMember option list \<Rightarrow> 'v rt_heap \<Rightarrow> shape_ref \<times> 'v rt_heap" where
  "new_shape a ms h =
     (next_shape h,
      h\<lparr>shapes := (shapes h)(next_shape h := \<lparr>s_members = Some ms, s_meta = a, s_generic = None\<rparr>),
        next_shape := Suc (next_shape h)\<rparr>)"

text \<open>The members that stay in the shape for objects of derived classes; \<open>members[i].kind\<close> fails for a hole.\<close>

definition this_member :: "'v ShapeMember option \<Rightarrow> 'v ShapeMember option result" where
  "this_member s = (case s of
       None \<Rightarrow> Inl JSTypeError
     | Some x \<Rightarrow> Inr (if sm_kind x = MemberType.FIELD then Some x else None))"

definition set_originShape :: "meta_ref \<Rightarrow> shape_ref \<Rightarrow> 'v rt_heap \<Rightarrow> 'v rt_heap" where
  "set_originShape a s h = upd_meta a (originShape_update (\<lambda>_. Some s)) h"

definition set_thisShape :: "meta_ref \<Rightarrow> shape_ref \<Rightarrow> 'v rt_heap \<Rightarrow> 'v rt_heap" where
  "set_thisShape a s h = upd_meta a (thisShape_update (\<lambda>_. Some s)) h"

definition createObjectDescriptionShapes :: "meta_ref \<Rightarrow> 'v rt_heap \<Rightarrow> 'v rt_heap result" where
  "createObjectDescriptionShapes a h =
     (let od = metas h a;
          by_value = (od_type od = OBJECT_INSTANCE \<or> od_type od = OBJECT_LITERAL)
      in if originShape od \<noteq> None then Inr h
         else
           bind_r (map_r (shape_member by_value h) (members od)) (\<lambda>ms.
             let (s, h) = new_shape a ms h;
                 h = set_originShape a s h
             in if od_type od = OBJECT_INSTANCE \<and> 0 < drived od then
                  bind_r (map_r this_member ms) (\<lambda>ts.
                    let (s', h) = new_shape a ts h in Inr (set_thisShape a s' h))
                else if od_type od = ObjectDescriptionType.INTERFACE then
                  (let (s', h) = new_shape a (replicate (length ms) None) h in Inr (set_thisShape a s' h))
                else Inr (set_thisShape a s h)))"

end
