(* ===== verification/LayoutProofs.thy ===== *)
theory LayoutProofs
  imports ObjectLayout
begin

text \<open>
  Properties of the layout of objects: the table of a derived class or interface starts with the
  table of its base and has no holes, and the shape of a class tells the place of every field.
\<close>

section \<open>Tables\<close>

text \<open>
  A table under construction for the names \<open>target\<close>: the members with names in \<open>D\<close> are at their
  positions, which are their indices, the other slots are free. The fields \<open>fs\<close> have their index
  as offset.
\<close>

definition member_ok :: "js_string set \<Rightarrow> nat \<Rightarrow> js_string \<Rightarrow> 'v MemberDescription \<Rightarrow> bool" where
  "member_ok fs i x m \<longleftrightarrow> m_name m = x \<and> m_index m = i \<and>
     (x \<in> fs \<longrightarrow> m_type m = MemberType.FIELD \<and> get_offset m = signed_take_bit 29 (int i))"

definition placed :: "js_string list \<Rightarrow> js_string set \<Rightarrow> js_string set \<Rightarrow> 'v MemberDescription option list \<Rightarrow> bool" where
  "placed target D fs ms \<longleftrightarrow> length ms = length target \<and>
     (\<forall>i < length target. if target ! i \<in> D then \<exists>m. ms ! i = Some m \<and> member_ok fs i (target ! i) m else ms ! i = None)"

lemma placed_empty: "placed target {} fs (replicate (length target) None)"
  by (simp add: placed_def)

lemma placed_there:
  "placed target D fs ms \<Longrightarrow> i < length target \<Longrightarrow> target ! i \<in> D \<Longrightarrow> \<exists>m. ms ! i = Some m \<and> member_ok fs i (target ! i) m"
  by (auto simp: placed_def)

lemma placed_length: "placed target D fs ms \<Longrightarrow> length ms = length target"
  by (simp add: placed_def)

lemma placed_put:
  assumes "placed target D fs ms" and "distinct target" and "i < length target" and "member_ok fs i (target ! i) m"
  shows "placed target (insert (target ! i) D) fs (ms[i := Some m])"
  using assms by (auto simp: placed_def nth_list_update nth_eq_iff_index_eq)

lemma placed_find:
  assumes "placed target D fs ms" and "distinct target" and "i < length target"
  shows "find_member_slot (target ! i) ms = (if target ! i \<in> D then Some i else None)"
proof (cases "find_member_slot (target ! i) ms")
  case None
  have "target ! i \<notin> D"
  proof
    assume "target ! i \<in> D"
    with placed_there [OF assms(1,3)] assms(3) placed_length [OF assms(1)]
    obtain m where "ms ! i = Some m" "m_name m = target ! i" "i < length ms" by (auto simp: member_ok_def)
    with None show False unfolding find_member_slot_None_iff by (metis nth_mem)
  qed
  with None show ?thesis by simp
next
  case (Some k)
  then have k: "k < length ms" "\<exists>m. ms ! k = Some m \<and> m_name m = target ! i" by (auto dest: find_member_slot_Some)
  with assms(1) have "target ! k \<in> D" "target ! k = target ! i"
    by (auto simp: placed_def member_ok_def split: if_splits)
  with k assms Some show ?thesis by (auto simp: placed_def nth_eq_iff_index_eq)
qed

lemma find_member_slot_cong:
  "map (map_option m_name) ms = map (map_option m_name) ms' \<Longrightarrow> find_member_slot x ms = find_member_slot x ms'"
proof (induction ms arbitrary: ms')
  case (Cons y ms)
  then obtain z zs where zs: "ms' = z # zs" "map_option m_name y = map_option m_name z"
    "map (map_option m_name) ms = map (map_option m_name) zs" by (cases ms') auto
  then have "(\<exists>m. y = Some m \<and> m_name m = x) \<longleftrightarrow> (\<exists>m. z = Some m \<and> m_name m = x)" by (cases y; cases z) auto
  with Cons.IH [OF zs(3)] show ?case unfolding zs(1) by (simp only: find_member_slot.simps)
qed simp

section \<open>Adding a member\<close>

text \<open>What the base table says about the names of a table: the names \<open>bn\<close> stand there at their positions.\<close>

definition inherits :: "js_string list \<Rightarrow> js_string list \<Rightarrow> 'v MemberDescription option list \<Rightarrow> bool" where
  "inherits bn target ms \<longleftrightarrow> (\<forall>x \<in> set target - {CONSTRUCTOR_name}.
     (x \<in> set bn \<longrightarrow> find_member_slot x ms \<noteq> None) \<and>
     (\<forall>k. find_member_slot x ms = Some k \<longrightarrow> k < length bn \<and> bn ! k = x \<and> m_index (the (ms ! k)) = k))"

definition base_part :: "meta_ref option \<Rightarrow> js_string list \<Rightarrow> js_string list \<Rightarrow> 'v rt_heap \<Rightarrow> bool" where
  "base_part base bn target h \<longleftrightarrow> (case base of None \<Rightarrow> bn = [] | Some b \<Rightarrow> inherits bn target (members (metas h b)))"

definition filling ::
  "meta_ref \<Rightarrow> meta_ref option \<Rightarrow> js_string list \<Rightarrow> js_string set \<Rightarrow> js_string list \<Rightarrow> js_string set \<Rightarrow> 'v rt_heap \<Rightarrow> bool"
where
  "filling a base bn fs target D h \<longleftrightarrow> od_base (metas h a) = base \<and> base \<noteq> Some a \<and>
     base_part base bn target h \<and> placed target D fs (members (metas h a))"

definition kept_tables :: "meta_ref set \<Rightarrow> 'v rt_heap \<Rightarrow> 'v rt_heap \<Rightarrow> bool" where
  "kept_tables A h h' \<longleftrightarrow> (\<forall>a \<in> A. members (metas h' a) = members (metas h a) \<and> od_base (metas h' a) = od_base (metas h a))"

lemma kept_tables_refl [simp]: "kept_tables A h h"
  by (simp add: kept_tables_def)

lemma kept_tables_trans: "kept_tables A h h' \<Longrightarrow> kept_tables A h' h'' \<Longrightarrow> kept_tables A h h''"
  by (simp add: kept_tables_def)

lemma filling_cong:
  "kept_tables (insert a (set_option base)) h h' \<Longrightarrow> filling a base bn fs target D h \<Longrightarrow> filling a base bn fs target D h'"
  unfolding filling_def kept_tables_def by (cases base) (simp_all add: base_part_def)

lemma inherits_override:
  assumes "inherits bn target ms" and "ms ! k = Some sm" and "k < length ms"
    and "m_name sm' = m_name sm" and "m_index sm' = m_index sm"
  shows "inherits bn target (ms[k := Some sm'])"
proof -
  have "find_member_slot x (ms[k := Some sm']) = find_member_slot x ms" for x
    using assms(2-4) by (intro find_member_slot_cong) (auto simp: list_eq_iff_nth_eq nth_list_update)
  moreover have "m_index (the (ms[k := Some sm'] ! j)) = m_index (the (ms ! j))" for j
    using assms(2,3,5) by (cases "j = k") simp_all
  ultimately show ?thesis using assms(1) by (simp only: inherits_def)
qed

lemma inherits_slot:
  assumes "inherits bn target ms" and "x \<in> set target" and "x \<noteq> CONSTRUCTOR_name"
  shows "x \<in> set bn \<Longrightarrow> \<exists>k sm. find_member_slot x ms = Some k \<and> k < length bn \<and> bn ! k = x \<and>
      k < length ms \<and> ms ! k = Some sm \<and> m_index sm = k"
    and "x \<notin> set bn \<Longrightarrow> find_member_slot x ms = None"
proof -
  assume "x \<in> set bn"
  with assms obtain k where k: "find_member_slot x ms = Some k" "k < length bn" "bn ! k = x" "m_index (the (ms ! k)) = k"
    unfolding inherits_def by blast
  with find_member_slot_Some [OF k(1)] show "\<exists>k sm. find_member_slot x ms = Some k \<and> k < length bn \<and> bn ! k = x \<and>
      k < length ms \<and> ms ! k = Some sm \<and> m_index sm = k" by auto
next
  assume "x \<notin> set bn"
  moreover have "k < length bn \<and> bn ! k = x" if "find_member_slot x ms = Some k" for k
    using assms that unfolding inherits_def by blast
  ultimately show "find_member_slot x ms = None" by (cases "find_member_slot x ms") auto
qed

text \<open>The names of a table: those of the base and behind them the new ones, in order.\<close>

abbreviation extend :: "js_string list \<Rightarrow> js_string list \<Rightarrow> js_string list" where
  "extend bn names \<equiv> bn @ filter (\<lambda>y. y \<notin> set bn) names"

lemma extend_position:
  assumes "names = ds @ x # rest" and "distinct names" and "distinct bn"
  shows "\<exists>p < length (extend bn names). extend bn names ! p = x \<and>
    (if x \<in> set bn then p < length bn else p = length (extend bn ds))"
proof (cases "x \<in> set bn")
  case True
  then obtain p where "p < length bn" "bn ! p = x" by (auto simp: in_set_conv_nth)
  with True show ?thesis by (intro exI [of _ p]) (auto simp: nth_append)
next
  case False
  with assms show ?thesis by (intro exI [of _ "length (extend bn ds)"]) (simp add: nth_append)
qed

lemma distinct_extend: "distinct names \<Longrightarrow> distinct bn \<Longrightarrow> distinct (extend bn names)"
  by auto

lemma place_member:
  assumes fill: "filling a base bn fs (extend bn names) (set ds) h"
    and names: "names = ds @ x # rest" "distinct names" "distinct bn"
    and ctor: "x = CONSTRUCTOR_name \<Longrightarrow> x \<notin> set bn"
  shows "\<exists>p h' acc'. updateMember x (length (extend bn ds)) ty opt vt own acc st init a h = Inr (p, h') \<and>
    p < length (extend bn names) \<and> extend bn names ! p = x \<and> (p = length (extend bn ds) \<longleftrightarrow> x \<notin> set bn) \<and>
    member_at a p h' = new_MemberDescription x ty p opt vt acc' own st init \<and>
    (\<forall>m. member_ok fs p x m \<longrightarrow> filling a base bn fs (extend bn names) (set (ds @ [x])) (set_member a p m h')) \<and>
    kept_tables (- insert a (set_option base)) h h' \<and> (\<forall>c. inited (metas h' c) = inited (metas h c))"
proof -
  let ?T = "extend bn names" and ?i = "length (extend bn ds)"
  have dist: "distinct ?T" using names(2,3) by (rule distinct_extend)
  obtain p where p: "p < length ?T" "?T ! p = x" "if x \<in> set bn then p < length bn else p = ?i"
    using extend_position [OF names] by blast
  have x: "x \<in> set ?T" "x \<notin> set ds" using names by auto
  have free: "members (metas h a) ! p = None" "length (members (metas h a)) = length ?T"
    using fill p x(2) by (auto simp: filling_def placed_def)
  have at: "od_base (metas h a) = base" "base \<noteq> Some a" using fill by (auto simp: filling_def)
  show ?thesis
  proof (cases "x \<in> set bn")
    case True
    then obtain b where b: "base = Some b" using fill by (cases base) (auto simp: filling_def base_part_def)
    have nc: "x \<noteq> CONSTRUCTOR_name" using ctor True by blast
    have inh: "inherits bn ?T (members (metas h b))" using fill b by (simp add: filling_def base_part_def)
    obtain k sm where k: "find_member_slot x (members (metas h b)) = Some k" "k < length bn" "bn ! k = x"
      "k < length (members (metas h b))" "members (metas h b) ! k = Some sm" "m_index sm = k"
      using inherits_slot(1) [OF inh x(1) nc True] by blast
    have "?T ! k = x" "k < length ?T" using k(2,3) by (simp_all add: nth_append)
    with p(1,2) nth_eq_iff_index_eq [OF dist] have kp: "k = p" by blast
    let ?m = "new_MemberDescription x ty p opt vt (if own then acc else methodOrAccessor sm) own st init"
    let ?h1 = "upd_meta b (members_update (\<lambda>ms. ms[p := Some (setOverrid sm)])) h"
    let ?h' = "upd_meta a (members_update (\<lambda>ms. js_array_set ms p ?m)) ?h1"
    have upd: "updateMember x ?i ty opt vt own acc st init a h = Inr (p, ?h')"
      using updateMember_override [of h a b x k sm] at(1) b nc k kp by simp
    have ab: "a \<noteq> b" using at(2) b by auto
    have base: "base_part base bn ?T (set_member a p m ?h')" for m
      using inherits_override [OF inh k(5,4), of "setOverrid sm"] ab b kp
      by (simp add: base_part_def set_member_def setOverrid_def)
    have "filling a base bn fs ?T (set (ds @ [x])) (set_member a p m ?h')" if "member_ok fs p x m" for m
      using placed_put [of ?T "set ds" fs "members (metas h a)" p m] fill dist p that base [of m] ab b free(2)
      by (auto simp: filling_def set_member_def js_array_set_def)
    moreover have "p \<noteq> ?i" using p(3) True by simp
    ultimately show ?thesis
      using upd p True ab b free(2)
      by (intro exI [of _ p] exI [of _ ?h'] exI [of _ "if own then acc else methodOrAccessor sm"])
        (auto simp: member_at_def kept_tables_def js_array_set_def)
  next
    case False
    let ?m = "new_MemberDescription x ty p opt vt acc own st init"
    let ?h' = "upd_meta a (members_update (\<lambda>ms. js_array_set ms p ?m)) h"
    have pi: "p = ?i" using p(3) False by simp
    have "findFreeSlot ?i (metas h a) = Inr p"
      using free p(1) pi by (simp add: findFreeSlot_def Let_def free_slot_loop.simps)
    moreover have "find_member_slot x (members (metas h b)) = None" if "base = Some b" "x \<noteq> CONSTRUCTOR_name" for b
      using fill that x(1) False by (intro inherits_slot(2) [of bn ?T]) (auto simp: filling_def base_part_def)
    then have "od_base (metas h a) = None \<or> (\<exists>b. od_base (metas h a) = Some b \<and>
        (x = CONSTRUCTOR_name \<or> findMember x (metas h b) = None))"
      unfolding at(1) by (cases base; cases "x = CONSTRUCTOR_name") (auto simp: findMember_def)
    ultimately have upd: "updateMember x ?i ty opt vt own acc st init a h = Inr (p, ?h')"
      using pi by (simp add: updateMember_fresh)
    have "base_part base bn ?T (set_member a p m ?h')" for m
      using fill at by (cases base) (auto simp: filling_def base_part_def set_member_def)
    then have "filling a base bn fs ?T (set (ds @ [x])) (set_member a p m ?h')" if "member_ok fs p x m" for m
      using placed_put [of ?T "set ds" fs "members (metas h a)" p m] fill dist p that free(2)
      by (auto simp: filling_def set_member_def js_array_set_def)
    then show ?thesis
      using upd p False pi free(2)
      by (intro exI [of _ p] exI [of _ ?h'] exI [of _ acc])
        (auto simp: member_at_def kept_tables_def js_array_set_def)
  qed
qed

section \<open>The steps\<close>

text \<open>Creating types and initial values succeeds and leaves the tables of the descriptions \<open>A\<close> alone.\<close>

definition pass_ok :: "meta_ref set \<Rightarrow> 'v pass \<Rightarrow> bool" where
  "pass_ok A p \<longleftrightarrow>
     (\<forall>t h. \<exists>vt h'. p_create p t h = Inr (vt, h') \<and> kept_tables A h h') \<and>
     (\<forall>t i vt h. \<exists>v h'. p_static p t i vt h = Inr (v, h') \<and> kept_tables A h h')"

lemma pass_create: "pass_ok A p \<Longrightarrow> \<exists>vt h'. p_create p t h = Inr (vt, h') \<and> kept_tables A h h'"
  by (simp add: pass_ok_def)

lemma pass_static: "pass_ok A p \<Longrightarrow> \<exists>v h'. p_static p t i vt h = Inr (v, h') \<and> kept_tables A h h'"
  by (simp add: pass_ok_def)

lemma kept_tables_mono: "kept_tables A h h' \<Longrightarrow> B \<subseteq> A \<Longrightarrow> kept_tables B h h'"
  by (auto simp: kept_tables_def)

lemma set_member_tables: "kept_tables (- {a}) h (set_member a p m h)"
  by (simp add: kept_tables_def set_member_def)

lemma set_member_twice: "set_member a p m (set_member a p m' h) = set_member a p m h"
  by (simp add: set_member_def comp_def)

lemma new_method_ref_metas [simp]: "new_method_ref f h = (r, h') \<Longrightarrow> metas h' = metas h"
  by (auto simp: new_method_ref_def)

lemma new_MemberDescription_fields [simp]:
  "m_name (new_MemberDescription x ty i opt vt acc own st init) = x"
  "m_index (new_MemberDescription x ty i opt vt acc own st init) = i"
  "m_type (new_MemberDescription x ty i opt vt acc own st init) = ty"
  "m_name (set_offset o' m) = m_name m" "m_index (set_offset o' m) = m_index m" "m_type (set_offset o' m) = m_type m"
  by (simp_all add: new_MemberDescription_def set_offset_def)

lemma filling_metas: "metas h' = metas h \<Longrightarrow> filling a base bn fs T D h' = filling a base bn fs T D h"
  by (cases base) (simp_all add: filling_def base_part_def)

text \<open>\<open>updateMember\<close> followed by a change of the member that keeps its name and index.\<close>

lemma add_step:
  assumes ok: "kept_tables A h0 h" and A: "insert a (set_option base) \<subseteq> A"
    and fill: "filling a base bn fs (extend bn names) (set ds) h0"
    and names: "names = ds @ x # rest" "distinct names" "distinct bn"
    and ctor: "x = CONSTRUCTOR_name \<Longrightarrow> x \<notin> set bn"
  shows "\<exists>p h' acc'. updateMember x (length (extend bn ds)) ty opt vt own acc st init a h = Inr (p, h') \<and>
    (p = length (extend bn ds) \<longleftrightarrow> x \<notin> set bn) \<and>
    member_at a p h' = new_MemberDescription x ty p opt vt acc' own st init \<and>
    (\<forall>m. member_ok fs p x m \<longrightarrow> filling a base bn fs (extend bn names) (set (ds @ [x])) (set_member a p m h') \<and>
       kept_tables (A - insert a (set_option base)) h0 (set_member a p m h'))"
proof -
  have "filling a base bn fs (extend bn names) (set ds) h"
    using filling_cong [OF kept_tables_mono [OF ok A] fill] .
  from place_member [OF this names ctor, of ty opt vt own acc st init]
  obtain p h' acc' where st: "updateMember x (length (extend bn ds)) ty opt vt own acc st init a h = Inr (p, h')"
    "p = length (extend bn ds) \<longleftrightarrow> x \<notin> set bn"
    "member_at a p h' = new_MemberDescription x ty p opt vt acc' own st init"
    "\<forall>m. member_ok fs p x m \<longrightarrow> filling a base bn fs (extend bn names) (set (ds @ [x])) (set_member a p m h')"
    "kept_tables (- insert a (set_option base)) h h'" by blast
  moreover have "kept_tables (A - insert a (set_option base)) h0 (set_member a p m h')" for m
  proof (rule kept_tables_trans [OF kept_tables_trans])
    show "kept_tables (A - insert a (set_option base)) h0 h" using ok by (rule kept_tables_mono) blast
    show "kept_tables (A - insert a (set_option base)) h h'" using st(5) by (rule kept_tables_mono) blast
    show "kept_tables (A - insert a (set_option base)) h' (set_member a p m h')"
      using set_member_tables by (rule kept_tables_mono) blast
  qed
  ultimately show ?thesis by blast
qed

lemma extend_snoc: "length (extend bn (ds @ [x])) = (if x \<in> set bn then length (extend bn ds) else Suc (length (extend bn ds)))"
  by simp

lemma add_field_step:
  assumes "pass_ok A p" and A: "insert a (set_option base) \<subseteq> A"
    and fill: "filling a base bn fs (extend bn names) (set ds) h"
    and names: "names = ds @ fld_name f # rest" "distinct names" "distinct bn" "CONSTRUCTOR_name \<notin> set names"
  shows "\<exists>h'. add_field p a f (length (extend bn ds), h) = Inr (length (extend bn (ds @ [fld_name f])), h') \<and>
    filling a base bn fs (extend bn names) (set (ds @ [fld_name f])) h' \<and>
    kept_tables (A - insert a (set_option base)) h h'"
proof -
  let ?x = "fld_name f" and ?i = "length (extend bn ds)"
  obtain vt h0 where c: "p_create p (fld_type f) h = Inr (vt, h0)" "kept_tables A h h0"
    using pass_create [OF assms(1)] by blast
  have nc: "?x = CONSTRUCTOR_name \<Longrightarrow> ?x \<notin> set bn" using names(1,4) by auto
  from add_step [OF c(2) A fill names(1-3) nc, of MemberType.FIELD "fld_optional f" vt True None False None]
  obtain q h' acc' where u: "updateMember ?x ?i MemberType.FIELD (fld_optional f) vt True None False None a h0 = Inr (q, h')"
    "q = ?i \<longleftrightarrow> ?x \<notin> set bn"
    "member_at a q h' = new_MemberDescription ?x MemberType.FIELD q (fld_optional f) vt acc' True False None"
    "\<forall>m. member_ok fs q ?x m \<longrightarrow> filling a base bn fs (extend bn names) (set (ds @ [?x])) (set_member a q m h') \<and>
       kept_tables (A - insert a (set_option base)) h (set_member a q m h')" by blast
  let ?m = "set_offset (int q) (member_at a q h')"
  have "member_ok fs q ?x ?m" by (simp add: member_ok_def u(3) get_set_offset)
  with u(4) have "filling a base bn fs (extend bn names) (set (ds @ [?x])) (set_member a q ?m h')"
    "kept_tables (A - insert a (set_option base)) h (set_member a q ?m h')" by blast+
  moreover have "add_field p a f (?i, h) = Inr (length (extend bn (ds @ [?x])), set_member a q ?m h')"
    using c(1) u(1,2,3) by (simp only: add_field_def extend_snoc) (auto simp: Let_def)
  ultimately show ?thesis by blast
qed

text \<open>The table of the class, whose names occur in no base table.\<close>

lemma add_static_field_step:
  assumes "pass_ok A p" and A: "insert a (set_option base) \<subseteq> A"
    and fill: "filling a base [] {} names (set ds) h"
    and names: "names = ds @ fld_name f # rest" "distinct names"
  shows "\<exists>h'. add_static_field p t a f (length ds, h) = Inr (Suc (length ds), h') \<and>
    filling a base [] {} names (set (ds @ [fld_name f])) h' \<and> kept_tables (A - insert a (set_option base)) h h'"
proof -
  obtain vt h1 where c: "p_create p (fld_type f) h = Inr (vt, h1)" "kept_tables A h h1"
    using pass_create [OF assms(1)] by blast
  obtain v h0 where s: "p_static p t (length ds) vt h1 = Inr (v, h0)" "kept_tables A h1 h0"
    using pass_static [OF assms(1)] by blast
  from add_step [OF kept_tables_trans [OF c(2) s(2)] A, of "[]" "{}" names ds "fld_name f" rest MemberType.FIELD
      "fld_optional f" vt True None True v] fill names
  obtain q h' acc' where u: "updateMember (fld_name f) (length ds) MemberType.FIELD (fld_optional f) vt True None True v a h0 = Inr (q, h')"
    "member_at a q h' = new_MemberDescription (fld_name f) MemberType.FIELD q (fld_optional f) vt acc' True True v"
    "\<forall>m. member_ok {} q (fld_name f) m \<longrightarrow> filling a base [] {} names (set (ds @ [fld_name f])) (set_member a q m h') \<and>
       kept_tables (A - insert a (set_option base)) h (set_member a q m h')" by auto
  have "member_ok {} q (fld_name f) (set_offset (int q) (member_at a q h'))" by (simp add: member_ok_def u(2))
  with u c(1) s(1) show ?thesis by (auto simp: add_static_field_def Let_def)
qed

lemma kept_tables_metas: "metas h' = metas h \<Longrightarrow> kept_tables A h h'"
  by (simp add: kept_tables_def)

lemma add_ctor_step:
  assumes "pass_ok A p" and A: "insert a (set_option base) \<subseteq> A"
    and fill: "filling a base [] {} names (set ds) h"
    and names: "names = ds @ CONSTRUCTOR_name # rest" "distinct names"
  shows "\<exists>h'. add_ctor p c ctor a (length ds, off, h) = Inr (Suc (length ds), Suc off, h') \<and>
    filling a base [] {} names (set (ds @ [CONSTRUCTOR_name])) h' \<and> kept_tables (A - insert a (set_option base)) h h'"
proof -
  obtain vt h1 where c: "p_create p ctor h = Inr (vt, h1)" "kept_tables A h h1"
    using pass_create [OF assms(1)] by blast
  let ?f = "p_global p (cls_mangledName c @ js_lit ''|constructor'')"
  obtain r h2 where r: "new_method_ref ?f h1 = (r, h2)" by (cases "new_method_ref ?f h1")
  let ?m = "(new_MemberDescription CONSTRUCTOR_name MemberType.CONSTRUCTOR 0 False vt (Some r) True False None)
    \<lparr>isDeclaredCtor := cls_hasDeclareCtor c\<rparr>"
  let ?h3 = "upd_meta a (od_ctor_update (\<lambda>_. Some ?m)) h2"
  let ?h4 = "case get_instance a ?h3 of Some i \<Rightarrow> upd_meta i (od_ctor_update (\<lambda>_. Some ?m)) ?h3 | None \<Rightarrow> ?h3"
  obtain r' h5 where r': "new_method_ref ?f ?h4 = (r', h5)" by (cases "new_method_ref ?f ?h4")
  have "kept_tables A h1 h5"
    using new_method_ref_metas [OF r] new_method_ref_metas [OF r']
    by (auto simp: kept_tables_def split: option.splits)
  from add_step [OF kept_tables_trans [OF c(2) this] A, of "[]" "{}" names ds CONSTRUCTOR_name rest MemberType.CONSTRUCTOR
      False vt True "Some r'" False None] fill names
  obtain q h' acc' where u: "updateMember CONSTRUCTOR_name (length ds) MemberType.CONSTRUCTOR False vt True (Some r') False None a h5 = Inr (q, h')"
    "member_at a q h' = new_MemberDescription CONSTRUCTOR_name MemberType.CONSTRUCTOR q False vt acc' True False None"
    "\<forall>m. member_ok {} q CONSTRUCTOR_name m \<longrightarrow> filling a base [] {} names (set (ds @ [CONSTRUCTOR_name])) (set_member a q m h') \<and>
       kept_tables (A - insert a (set_option base)) h (set_member a q m h')" by auto
  have "member_ok {} q CONSTRUCTOR_name (set_offset (int off) (member_at a q h'))" by (simp add: member_ok_def u(2))
  with u c(1) r r' show ?thesis by (auto simp: add_ctor_def Let_def)
qed

lemma add_static_method_step:
  assumes A: "insert a (set_option base) \<subseteq> A" and fill: "filling a base [] {} names (set ds) h"
    and names: "names = ds @ cf_name m # rest" "distinct names" and cur: "class_idx cur = length ds"
  shows "\<exists>h'. add_static_method p c a m vt (cur, h) = Inr (cur\<lparr>class_idx := Suc (length ds)\<rparr>, h') \<and>
    filling a base [] {} names (set (ds @ [cf_name m])) h' \<and> kept_tables (A - insert a (set_option base)) h h'"
proof -
  let ?f = "p_global p (cls_mangledName c @ js_lit ''|@'' @ cf_name m)" and ?own = "cf_name m \<in> set (cls_overrideOrOwnMethods c)"
  obtain r h0 where r: "new_method_ref ?f h = (r, h0)" by (cases "new_method_ref ?f h")
  from add_step [OF kept_tables_metas [OF new_method_ref_metas [OF r]] A, of "[]" "{}" names ds "cf_name m" rest MemberType.METHOD
      "cf_optional m" vt ?own "Some r" True None] fill names
  obtain q h' acc' where u: "updateMember (cf_name m) (length ds) MemberType.METHOD (cf_optional m) vt ?own (Some r) True None a h0 = Inr (q, h')"
    "member_at a q h' = new_MemberDescription (cf_name m) MemberType.METHOD q (cf_optional m) vt acc' ?own True None"
    "\<forall>m'. member_ok {} q (cf_name m) m' \<longrightarrow> filling a base [] {} names (set (ds @ [cf_name m])) (set_member a q m' h') \<and>
       kept_tables (A - insert a (set_option base)) h (set_member a q m' h')" by auto
  have "member_ok {} q (cf_name m) (set_offset (int q) (member_at a q h'))" by (simp add: member_ok_def u(2))
  with u r cur show ?thesis by (auto simp: add_static_method_def Let_def)
qed

lemma add_method_step:
  assumes A: "insert a (set_option base) \<subseteq> A" and fill: "filling a base bn fs (extend bn names) (set ds) h"
    and names: "names = ds @ cf_name m # rest" "distinct names" "distinct bn" "CONSTRUCTOR_name \<notin> set names"
    and no_field: "cf_name m \<notin> fs" and cur: "inst_idx cur = length (extend bn ds)"
  shows "\<exists>cur' h'. add_method p c a is_instance m vt (cur, h) = Inr (cur', h') \<and>
    inst_idx cur' = length (extend bn (ds @ [cf_name m])) \<and> class_idx cur' = class_idx cur \<and>
    filling a base bn fs (extend bn names) (set (ds @ [cf_name m])) h' \<and> kept_tables (A - insert a (set_option base)) h h'"
proof -
  let ?x = "cf_name m" and ?i = "length (extend bn ds)" and ?own = "cf_name m \<in> set (cls_overrideOrOwnMethods c)"
  let ?f = "p_global p (cls_mangledName c @ js_lit ''|'' @ ?x)"
  let ?acc = "if cls_isInterface c then (None, h) else (let (r, h) = new_method_ref ?f h in (Some r, h))"
  obtain acc h0 where r: "?acc = (acc, h0)" by (cases ?acc)
  then have "metas h0 = metas h" by (cases "new_method_ref ?f h") (auto split: if_splits)
  then have same: "kept_tables A h h0" by (rule kept_tables_metas)
  have nc: "?x = CONSTRUCTOR_name \<Longrightarrow> ?x \<notin> set bn" using names(1,4) by auto
  from add_step [OF same A fill names(1-3) nc, of MemberType.METHOD "cf_optional m" vt ?own acc False None]
  obtain q h' acc' where u: "updateMember ?x ?i MemberType.METHOD (cf_optional m) vt ?own acc False None a h0 = Inr (q, h')"
    "q = ?i \<longleftrightarrow> ?x \<notin> set bn"
    "member_at a q h' = new_MemberDescription ?x MemberType.METHOD q (cf_optional m) vt acc' ?own False None"
    "\<forall>m. member_ok fs q ?x m \<longrightarrow> filling a base bn fs (extend bn names) (set (ds @ [?x])) (set_member a q m h') \<and>
       kept_tables (A - insert a (set_option base)) h (set_member a q m h')" by blast
  let ?m = "if is_instance then member_at a q h' else set_offset (int (inst_offset cur)) (member_at a q h')"
  have "member_ok fs q ?x ?m" using no_field by (simp add: member_ok_def u(3))
  with u(4) have ok: "filling a base bn fs (extend bn names) (set (ds @ [?x])) (set_member a q ?m h')"
    "kept_tables (A - insert a (set_option base)) h (set_member a q ?m h')" by blast+
  have "\<exists>cur'. add_method p c a is_instance m vt (cur, h) = Inr (cur', set_member a q ?m h') \<and>
      inst_idx cur' = length (extend bn (ds @ [?x])) \<and> class_idx cur' = class_idx cur"
    unfolding add_method_def extend_snoc using r u(1,2,3) cur by (auto simp: Let_def)
  with ok show ?thesis by blast
qed

subsection \<open>Accessors\<close>

lemma filling_put:
  assumes "filling a base bn fs T D h" and "distinct T" and "q < length T" and "member_ok fs q (T ! q) m"
  shows "filling a base bn fs T (insert (T ! q) D) (set_member a q m h)"
proof -
  have "base_part base bn T (set_member a q m h)"
    using assms(1) by (cases base) (auto simp: filling_def base_part_def set_member_def)
  with placed_put [OF _ assms(2,3,4)] assms(1) show ?thesis
    by (simp add: filling_def set_member_def)
qed

text \<open>What an accessor keeps of its member.\<close>

definition same_place :: "'v MemberDescription \<Rightarrow> 'v MemberDescription \<Rightarrow> bool" where
  "same_place m m' \<longleftrightarrow> m_name m' = m_name m \<and> m_index m' = m_index m"

lemma same_place_setters [simp]:
  "same_place m (set_setterType t m') = same_place m m'" "same_place m (set_getterType t m') = same_place m m'"
  "same_place m (set_setterOffset o' m') = same_place m m'" "same_place m (set_getterOffset o' m') = same_place m m'"
  "same_place m m"
  by (simp_all add: same_place_def set_setterType_def set_getterType_def set_setterOffset_def set_getterOffset_def set_offset_def)

lemma setAccessorFunction_place:
  "setAccessorFunction f is_setter m h = (m', h') \<Longrightarrow> same_place m m' \<and> metas h' = metas h"
  by (auto simp: setAccessorFunction_def same_place_def split: option.splits if_splits)

lemma accessor_function_place:
  assumes "\<exists>r. inherited_accessor n p th name c = Inr r"
  shows "\<exists>m' h'. accessor_function n p th c name is_setter m h = Inr (m', h') \<and> same_place m m' \<and> metas h' = metas h"
proof -
  have put: "\<exists>m' h'. Inr (setAccessorFunction f is_setter m h) = (Inr (m', h') :: _ result) \<and> same_place m m' \<and> metas h' = metas h" for f
    using setAccessorFunction_place [of f is_setter m h] by (cases "setAccessorFunction f is_setter m h") auto
  from assms obtain r where "inherited_accessor n p th name c = Inr r" by blast
  with put show ?thesis
    by (cases "p_global p (cls_mangledName c @ js_lit ''|'' @ name)"; cases r) (auto simp: accessor_function_def)
qed

lemma add_accessor_from_slot:
  assumes slot: "accessor_slot c m (method_kind th m = FunctionKind.SETTER)
      (getAccessorType vt (method_kind th m = FunctionKind.SETTER)) a cur h = Inr (q, cur1, h1)"
    and inh: "\<forall>name. \<exists>r. inherited_accessor n p th name c = Inr r"
  shows "\<exists>cur' m' h2. add_accessor n p th c a is_instance m vt (cur, h) = Inr (cur', set_member a q m' h2) \<and>
    metas h2 = metas h1 \<and> same_place (member_at a q h1) m' \<and> inst_idx cur' = inst_idx cur1 \<and> class_idx cur' = class_idx cur1"
proof -
  let ?s = "method_kind th m = FunctionKind.SETTER"
  let ?a = "if ?s then set_setterType (Some (getAccessorType vt ?s)) (member_at a q h1)
    else set_getterType (Some (getAccessorType vt ?s)) (member_at a q h1)"
  obtain m' h2 where f: "accessor_function n p th c (accessor_name ?s (cf_name m)) ?s ?a h1 = Inr (m', h2)"
    "same_place ?a m'" "metas h2 = metas h1"
    using accessor_function_place [OF inh [rule_format], where is_setter = ?s and m = ?a and h = h1] by blast
  have m': "same_place (member_at a q h1) m'"
    using f(2) by (auto simp: same_place_def set_setterType_def set_getterType_def split: if_splits)
  let ?m = "if is_instance then m' else if ?s then set_setterOffset (int (inst_offset cur1)) m'
    else set_getterOffset (int (inst_offset cur1)) m'"
  have "same_place (member_at a q h1) ?m" using m' by simp
  moreover have "\<exists>cur'. add_accessor n p th c a is_instance m vt (cur, h) = Inr (cur', set_member a q ?m h2) \<and>
      inst_idx cur' = inst_idx cur1 \<and> class_idx cur' = class_idx cur1"
    using f(1) slot by (auto simp: add_accessor_def Let_def)
  ultimately show ?thesis using f(3) by blast
qed

lemma add_accessor_new:
  assumes A: "insert a (set_option base) \<subseteq> A" and fill: "filling a base bn fs (extend bn names) (set ds) h"
    and names: "names = ds @ cf_name m # rest" "distinct names" "distinct bn" "CONSTRUCTOR_name \<notin> set names"
    and no_field: "cf_name m \<notin> fs" and cur: "inst_idx cur = length (extend bn ds)"
    and inh: "\<forall>name. \<exists>r. inherited_accessor n p th name c = Inr r"
  shows "\<exists>cur' h'. add_accessor n p th c a is_instance m vt (cur, h) = Inr (cur', h') \<and>
    inst_idx cur' = length (extend bn (ds @ [cf_name m])) \<and> class_idx cur' = class_idx cur \<and>
    filling a base bn fs (extend bn names) (set (ds @ [cf_name m])) h' \<and> kept_tables (A - insert a (set_option base)) h h'"
proof -
  let ?x = "cf_name m" and ?i = "length (extend bn ds)" and ?s = "method_kind th m = FunctionKind.SETTER"
  let ?own = "accessor_name ?s ?x \<in> set (cls_overrideOrOwnMethods c)" and ?ft = "getAccessorType vt ?s"
  let ?cur = "if ?x \<in> set bn then cur else cur\<lparr>inst_idx := Suc ?i\<rparr>"
  have nc: "?x = CONSTRUCTOR_name \<Longrightarrow> ?x \<notin> set bn" using names(1,4) by auto
  from add_step [OF kept_tables_refl A fill names(1-3) nc, of MemberType.ACCESSOR "cf_optional m" ?ft ?own None False None]
  obtain q h1 acc' where u: "updateMember ?x ?i MemberType.ACCESSOR (cf_optional m) ?ft ?own None False None a h = Inr (q, h1)"
    "q = ?i \<longleftrightarrow> ?x \<notin> set bn"
    "member_at a q h1 = new_MemberDescription ?x MemberType.ACCESSOR q (cf_optional m) ?ft acc' ?own False None"
    "\<forall>m. member_ok fs q ?x m \<longrightarrow> filling a base bn fs (extend bn names) (set (ds @ [?x])) (set_member a q m h1) \<and>
       kept_tables (A - insert a (set_option base)) h (set_member a q m h1)" by blast
  obtain k where k: "k < length (extend bn names)" "extend bn names ! k = ?x"
    using extend_position [OF names(1-3)] by blast
  have pl: "placed (extend bn names) (set ds) fs (members (metas h a))" using fill unfolding filling_def by blast
  have "?x \<notin> set ds" using names(1,2) by auto
  then have "find_member_slot ?x (members (metas h a)) = None"
    using placed_find [OF pl distinct_extend [OF names(2,3)] k(1)] unfolding k(2) by simp
  then have slot: "accessor_slot c m ?s ?ft a cur h = Inr (q, ?cur, h1)"
    using u(1,2,3) cur by (simp add: accessor_slot_def)
  obtain cur' m' h2 where r:
    "add_accessor n p th c a is_instance m vt (cur, h) = Inr (cur', set_member a q m' h2)" "metas h2 = metas h1"
    "same_place (member_at a q h1) m'" "inst_idx cur' = inst_idx ?cur" "class_idx cur' = class_idx ?cur"
    using add_accessor_from_slot [OF slot inh, of is_instance] by (elim exE conjE) (rule that)
  have cur: "inst_idx ?cur = length (extend bn (ds @ [?x]))" "class_idx ?cur = class_idx cur"
    using cur unfolding extend_snoc by simp_all
  have "member_ok fs q ?x m'" using r(3) u(3) no_field by (simp add: member_ok_def same_place_def)
  with u(4) have "filling a base bn fs (extend bn names) (set (ds @ [?x])) (set_member a q m' h1)"
    "kept_tables (A - insert a (set_option base)) h (set_member a q m' h1)" by blast+
  moreover have eq: "metas (set_member a q m' h2) = metas (set_member a q m' h1)" using r(2) by (simp add: set_member_def)
  ultimately have "filling a base bn fs (extend bn names) (set (ds @ [?x])) (set_member a q m' h2)"
    "kept_tables (A - insert a (set_option base)) h (set_member a q m' h2)"
    unfolding filling_metas [OF eq] kept_tables_def eq by blast+
  with r cur show ?thesis by auto
qed

lemma add_accessor_again:
  assumes fill: "filling a base bn fs T D h" and T: "distinct T" "cf_name m \<in> set T" "cf_name m \<in> D"
    and no_field: "cf_name m \<notin> fs"
    and inh: "\<forall>name. \<exists>r. inherited_accessor n p th name c = Inr r"
  shows "\<exists>cur' h'. add_accessor n p th c a is_instance m vt (cur, h) = Inr (cur', h') \<and>
    inst_idx cur' = inst_idx cur \<and> class_idx cur' = class_idx cur \<and>
    filling a base bn fs T D h' \<and> kept_tables (- {a}) h h'"
proof -
  let ?x = "cf_name m" and ?s = "method_kind th m = FunctionKind.SETTER"
  obtain q where q: "q < length T" "T ! q = ?x" using T(2) by (auto simp: in_set_conv_nth)
  have pl: "placed T D fs (members (metas h a))" using fill by (simp add: filling_def)
  obtain m0 where m0: "members (metas h a) ! q = Some m0" "m_name m0 = ?x" "m_index m0 = q"
    using placed_there [OF pl q(1)] T(3) q(2) by (auto simp: member_ok_def)
  have find: "find_member_slot ?x (members (metas h a)) = Some q"
    using placed_find [OF pl T(1) q(1)] T(3) q(2) by simp
  let ?h1 = "if vt_kind (valueType m0) = ValueTypeKind.ANY \<and> vt_kind (getAccessorType vt ?s) \<noteq> ValueTypeKind.ANY
    then set_member a q (m0\<lparr>valueType := getAccessorType vt ?s\<rparr>) h else h"
  have slot: "accessor_slot c m ?s (getAccessorType vt ?s) a cur h = Inr (q, cur, ?h1)"
    using find m0(1) by (simp add: accessor_slot_def member_at_def Let_def)
  obtain cur' m' h2 where r:
    "add_accessor n p th c a is_instance m vt (cur, h) = Inr (cur', set_member a q m' h2)" "metas h2 = metas ?h1"
    "same_place (member_at a q ?h1) m'" "inst_idx cur' = inst_idx cur" "class_idx cur' = class_idx cur"
    using add_accessor_from_slot [OF slot inh, of is_instance] by (elim exE conjE) (rule that)
  have "q < length (members (metas h a))" using placed_length [OF pl] q(1) by simp
  then have "same_place m0 m'" using r(3) m0(1)
    by (auto simp: member_at_def set_member_def same_place_def split: if_splits)
  then have "member_ok fs q (T ! q) m'" using m0 q(2) no_field by (simp add: member_ok_def same_place_def)
  from filling_put [OF fill T(1) q(1) this] have "filling a base bn fs T D (set_member a q m' h)"
    using T(3) q(2) by (simp add: insert_absorb)
  moreover have eq: "metas (set_member a q m' h2) = metas (set_member a q m' h)"
    using r(2) by (auto simp: set_member_def comp_def)
  moreover have "kept_tables (- {a}) h (set_member a q m' h)" by (rule set_member_tables)
  ultimately have "filling a base bn fs T D (set_member a q m' h2)" "kept_tables (- {a}) h (set_member a q m' h2)"
    unfolding filling_metas [OF eq] kept_tables_def eq by blast+
  with r show ?thesis by blast
qed

section \<open>The names of a class\<close>

fun uniq :: "'a list \<Rightarrow> 'a list" where
  "uniq [] = []"
| "uniq (x # xs) = x # filter (\<lambda>y. y \<noteq> x) (uniq xs)"

lemma set_uniq [simp]: "set (uniq xs) = set xs"
  by (induction xs) auto

lemma distinct_uniq [simp]: "distinct (uniq xs)"
  by (induction xs) auto

lemma uniq_append: "uniq (xs @ ys) = uniq xs @ filter (\<lambda>y. y \<notin> set xs) (uniq ys)"
  by (induction xs) (auto simp: conj_commute intro: filter_cong)

lemma uniq_id: "distinct xs \<Longrightarrow> uniq xs = xs"
  by (induction xs) (auto simp: filter_id_conv)

lemma uniq_snoc: "uniq (xs @ [x]) = (if x \<in> set xs then uniq xs else uniq xs @ [x])"
  by (simp add: uniq_append)

lemma uniq_split: "x \<notin> set xs \<Longrightarrow> \<exists>rest. uniq (xs @ x # ys) = uniq xs @ x # rest"
  by (simp add: uniq_append)

definition inst_method :: "type_heap \<Rightarrow> TsClassFunc \<Rightarrow> bool" where
  "inst_method th m \<longleftrightarrow> method_kind th m \<noteq> FunctionKind.CONSTRUCTOR \<and> method_kind th m \<noteq> FunctionKind.STATIC"

abbreviation field_names :: "TSClass \<Rightarrow> js_string list" where
  "field_names c \<equiv> map fld_name (cls_fields c)"

text \<open>The instance members in the order of their declaration; getter and setter of a name are one member.\<close>

definition method_names :: "type_heap \<Rightarrow> TsClassFunc list \<Rightarrow> js_string list" where
  "method_names th ms = map cf_name (filter (inst_method th) ms)"

definition inst_names :: "type_heap \<Rightarrow> TSClass \<Rightarrow> js_string list" where
  "inst_names th c = uniq (field_names c @ method_names th (cls_methods c))"

definition static_method_names :: "type_heap \<Rightarrow> TsClassFunc list \<Rightarrow> js_string list" where
  "static_method_names th ms = map cf_name (filter (\<lambda>m. method_kind th m = FunctionKind.STATIC) ms)"

definition ctor_names :: "TSClass \<Rightarrow> js_string list" where
  "ctor_names c = (case cls_ctor c of None \<Rightarrow> [] | Some t \<Rightarrow> [CONSTRUCTOR_name])"

definition static_names :: "type_heap \<Rightarrow> TSClass \<Rightarrow> js_string list" where
  "static_names th c = map fld_name (cls_staticFields c) @ ctor_names c @ static_method_names th (cls_methods c)"

text \<open>
  A class as the front end builds it: names occur once, but for a getter and a setter of the same
  name, and constructors are no methods.
\<close>

definition class_ok :: "type_heap \<Rightarrow> TSClass \<Rightarrow> bool" where
  "class_ok th c \<longleftrightarrow> (\<forall>m \<in> set (cls_methods c). method_kind th m \<noteq> FunctionKind.CONSTRUCTOR) \<and>
     distinct (field_names c) \<and> set (field_names c) \<inter> set (method_names th (cls_methods c)) = {} \<and>
     (\<forall>ms m ms'. cls_methods c = ms @ m # ms' \<and> inst_method th m \<and> \<not> is_accessor_kind (method_kind th m) \<longrightarrow>
        cf_name m \<notin> set (method_names th (ms @ ms'))) \<and>
     CONSTRUCTOR_name \<notin> set (inst_names th c) \<and> distinct (static_names th c)"

lemma method_names_append: "method_names th (xs @ ys) = method_names th xs @ method_names th ys"
  by (simp add: method_names_def)

lemma static_method_names_append: "static_method_names th (xs @ ys) = static_method_names th xs @ static_method_names th ys"
  by (simp add: static_method_names_def)

subsection \<open>Counting\<close>

text \<open>The loop over the methods counts the names.\<close>

definition accessor_names :: "type_heap \<Rightarrow> TsClassFunc list \<Rightarrow> js_string set" where
  "accessor_names th ms = cf_name ` {m \<in> set ms. is_accessor_kind (method_kind th m)}"

lemma count_method_apply:
  "count_method th i m (st, ins, N) =
     (if method_kind th m = FunctionKind.CONSTRUCTOR then (if i then (st, Suc ins, N) else (Suc st, ins, N))
      else if method_kind th m = FunctionKind.STATIC then (Suc st, ins, N)
      else if is_accessor_kind (method_kind th m) then
        (if cf_name m \<notin> N then (st, Suc ins, insert (cf_name m) N) else (st, ins, N))
      else (st, Suc ins, N))"
  by (simp add: count_method_def Let_def)

lemma count_methods:
  assumes "\<forall>m \<in> set ms. method_kind th m \<noteq> FunctionKind.CONSTRUCTOR"
    and "\<forall>xs m ys. ms = xs @ m # ys \<and> inst_method th m \<and> \<not> is_accessor_kind (method_kind th m) \<longrightarrow>
      cf_name m \<notin> set (method_names th (xs @ ys))"
  shows "fold (count_method th i) ms (s, k, {})
    = (s + length (static_method_names th ms), k + length (uniq (method_names th ms)), accessor_names th ms)"
  using assms
proof (induction ms rule: rev_induct)
  case (snoc m ms)
  have IH: "fold (count_method th i) ms (s, k, {})
      = (s + length (static_method_names th ms), k + length (uniq (method_names th ms)), accessor_names th ms)"
  proof (rule snoc.IH)
    show "\<forall>xs n ys. ms = xs @ n # ys \<and> inst_method th n \<and> \<not> is_accessor_kind (method_kind th n) \<longrightarrow>
        cf_name n \<notin> set (method_names th (xs @ ys))"
      using snoc.prems(2) [rule_format, of _ _ "_ @ [m]"] by (auto simp: method_names_append)
  qed (use snoc.prems(1) in simp)
  have plain: "cf_name m \<notin> set (method_names th ms)" if "inst_method th m" "\<not> is_accessor_kind (method_kind th m)"
    using snoc.prems(2) [rule_format, of ms m "[]"] that by simp
  have acc: "cf_name m \<in> set (method_names th ms) \<longleftrightarrow> cf_name m \<in> accessor_names th ms"
    if a: "is_accessor_kind (method_kind th m)"
  proof
    assume "cf_name m \<in> set (method_names th ms)"
    then obtain n where n: "n \<in> set ms" "inst_method th n" "cf_name n = cf_name m"
      by (auto simp: method_names_def)
    have "is_accessor_kind (method_kind th n)"
    proof (rule ccontr)
      assume "\<not> is_accessor_kind (method_kind th n)"
      moreover from n(1) obtain xs ys where "ms = xs @ n # ys" by (auto simp: in_set_conv_decomp)
      ultimately show False
        using snoc.prems(2) [rule_format, of xs n "ys @ [m]"] n(2,3) a
        by (auto simp: method_names_def inst_method_def is_accessor_kind_def)
    qed
    with n show "cf_name m \<in> accessor_names th ms" by (auto simp: accessor_names_def image_iff intro!: exI [of _ n])
  next
    assume "cf_name m \<in> accessor_names th ms"
    then show "cf_name m \<in> set (method_names th ms)"
      by (force simp: accessor_names_def method_names_def inst_method_def is_accessor_kind_def)
  qed
  have names: "method_names th (ms @ [m]) = method_names th ms @ (if inst_method th m then [cf_name m] else [])"
    "static_method_names th (ms @ [m]) = static_method_names th ms @ (if method_kind th m = FunctionKind.STATIC then [cf_name m] else [])"
    "accessor_names th (ms @ [m])
      = (if is_accessor_kind (method_kind th m) then insert (cf_name m) (accessor_names th ms) else accessor_names th ms)"
    by (auto simp: method_names_def static_method_names_def accessor_names_def)
  have "method_kind th m \<noteq> FunctionKind.CONSTRUCTOR" using snoc.prems(1) by simp
  moreover have "fold (count_method th i) (ms @ [m]) (s, k, {})
      = count_method th i m (s + length (static_method_names th ms), k + length (uniq (method_names th ms)), accessor_names th ms)"
    using IH by simp
  ultimately show ?case
    using plain acc
    by (cases "method_kind th m = FunctionKind.STATIC"; cases "is_accessor_kind (method_kind th m)")
      (simp_all add: count_method_apply names uniq_snoc inst_method_def is_accessor_kind_def insert_absorb del: fold_append fold_simps)
qed (simp add: method_names_def static_method_names_def accessor_names_def)

lemma member_count:
  assumes "class_ok th c"
  shows "snd (getClassMemberCount th c) = length (inst_names th c)"
    and "\<not> cls_isInterface c \<Longrightarrow> fst (getClassMemberCount th c) = length (static_names th c)"
proof -
  have "uniq (field_names c @ method_names th (cls_methods c)) = field_names c @ uniq (method_names th (cls_methods c))"
    using assms(1) by (auto simp: uniq_append uniq_id filter_id_conv class_ok_def)
  moreover have "fold (count_method th i) (cls_methods c) (s, k, {})
      = (s + length (static_method_names th (cls_methods c)), k + length (uniq (method_names th (cls_methods c))),
         accessor_names th (cls_methods c))" for i s k
    using assms(1) by (intro count_methods) (auto simp: class_ok_def)
  ultimately show "snd (getClassMemberCount th c) = length (inst_names th c)"
    "\<not> cls_isInterface c \<Longrightarrow> fst (getClassMemberCount th c) = length (static_names th c)"
    by (auto simp: getClassMemberCount_def Let_def inst_names_def static_names_def ctor_names_def split: option.splits)
qed

section \<open>The loops\<close>

lemma inst_names_fields:
  assumes "class_ok th c" and "cls_fields c = ds @ f # fs"
  shows "\<exists>rest. inst_names th c = map fld_name ds @ fld_name f # rest"
proof -
  have "uniq (field_names c) = field_names c" using assms(1) by (intro uniq_id) (simp add: class_ok_def)
  then have "inst_names th c = field_names c @ filter (\<lambda>y. y \<notin> set (field_names c)) (uniq (method_names th (cls_methods c)))"
    by (simp add: inst_names_def uniq_append)
  then show ?thesis using assms(2) by simp
qed

lemma add_fields:
  assumes ok: "class_ok th c" "pass_ok A p" "insert inst (set_option base) \<subseteq> A" "distinct bn"
    and fill: "filling inst base bn (set (field_names c)) (extend bn (inst_names th c)) {} h"
  shows "\<exists>h'. fold_r (add_field p inst) (cls_fields c) (length bn, h) = Inr (length (extend bn (field_names c)), h') \<and>
    filling inst base bn (set (field_names c)) (extend bn (inst_names th c)) (set (field_names c)) h' \<and>
    kept_tables (A - insert inst (set_option base)) h h'"
proof -
  let ?I = "\<lambda>ds (i, h'). i = length (extend bn (map fld_name ds)) \<and>
    filling inst base bn (set (field_names c)) (extend bn (inst_names th c)) (set (map fld_name ds)) h' \<and>
    kept_tables (A - insert inst (set_option base)) h h'"
  have "\<exists>s'. fold_r (add_field p inst) (cls_fields c) (length bn, h) = Inr s' \<and> ?I (cls_fields c) s'"
  proof (rule fold_r_prefix [where I = ?I])
    fix ds f rest s assume split: "cls_fields c = ds @ f # rest" and I: "?I ds s"
    obtain i h' where s: "s = (i, h')" by (cases s)
    obtain rest' where r: "inst_names th c = map fld_name ds @ fld_name f # rest'" using inst_names_fields [OF ok(1) split] by blast
    have "distinct (inst_names th c)" "CONSTRUCTOR_name \<notin> set (inst_names th c)"
      using ok(1) by (simp add: inst_names_def, simp add: class_ok_def)
    from add_field_step [OF ok(2,3) _ r this(1) ok(4) this(2), of "set (field_names c)" h'] I s
    obtain h'' where "add_field p inst f s = Inr (length (extend bn (map fld_name ds @ [fld_name f])), h'')"
      "filling inst base bn (set (field_names c)) (extend bn (inst_names th c)) (set (map fld_name ds @ [fld_name f])) h''"
      "kept_tables (A - insert inst (set_option base)) h' h''" by auto
    moreover have "kept_tables (A - insert inst (set_option base)) h h''"
      using I s calculation(3) kept_tables_trans by auto
    ultimately show "\<exists>s'. add_field p inst f s = Inr s' \<and> ?I (ds @ [f]) s'" by simp
  qed (use fill in simp)
  then show ?thesis by auto
qed

lemma add_statics_ok:
  assumes ok: "class_ok th c" "pass_ok A p" "insert cl (set_option cbase) \<subseteq> A" and own: "\<not> is_base"
    and fill: "filling cl cbase [] {} (static_names th c) {} h"
  shows "\<exists>idx off' h'. add_statics p t c (Some cl) is_base off h = Inr (idx, off', h') \<and>
    idx = length (map fld_name (cls_staticFields c) @ ctor_names c) \<and>
    filling cl cbase [] {} (static_names th c) (set (map fld_name (cls_staticFields c) @ ctor_names c)) h' \<and>
    kept_tables (A - insert cl (set_option cbase)) h h'"
proof -
  let ?h = "upd_meta cl (inited_update (\<lambda>_. True)) h" and ?S = "static_names th c" and ?B = "A - insert cl (set_option cbase)"
  have dist: "distinct ?S" using ok(1) by (simp add: class_ok_def)
  have start: "filling cl cbase [] {} ?S {} ?h" "kept_tables ?B h ?h"
    using fill by (cases cbase) (auto simp: filling_def base_part_def kept_tables_def)
  let ?I = "\<lambda>ds (i, h'). i = length ds \<and> filling cl cbase [] {} ?S (set (map fld_name ds)) h' \<and> kept_tables ?B h h'"
  have "\<exists>s'. fold_r (add_static_field p t cl) (cls_staticFields c) (0, ?h) = Inr s' \<and> ?I (cls_staticFields c) s'"
  proof (rule fold_r_prefix [where I = ?I])
    fix ds f rest s assume split: "cls_staticFields c = ds @ f # rest" and I: "?I ds s"
    obtain i h' where s: "s = (i, h')" by (cases s)
    have r: "?S = map fld_name ds @ fld_name f # (map fld_name rest @ ctor_names c @ static_method_names th (cls_methods c))"
      by (simp add: static_names_def split)
    from add_static_field_step [OF ok(2,3) _ r dist, of h' t] I s
    obtain h'' where "add_static_field p t cl f s = Inr (Suc (length ds), h'')"
      "filling cl cbase [] {} ?S (set (map fld_name ds @ [fld_name f])) h''" "kept_tables ?B h' h''" by auto
    moreover have "kept_tables ?B h h''" using I s calculation(3) kept_tables_trans by auto
    ultimately show "\<exists>s'. add_static_field p t cl f s = Inr s' \<and> ?I (ds @ [f]) s'" by simp
  next
    show "?I [] (0, ?h)" using start by (simp only: prod.case list.size list.map list.set simp_thms)
  qed
  then obtain h1 where h1: "fold_r (add_static_field p t cl) (cls_staticFields c) (0, ?h) = Inr (length (cls_staticFields c), h1)"
    "filling cl cbase [] {} ?S (set (map fld_name (cls_staticFields c))) h1" "kept_tables ?B h h1" by auto
  show ?thesis
  proof (cases "cls_ctor c")
    case None
    with h1 own show ?thesis by (auto simp: add_statics_def ctor_names_def)
  next
    case (Some ctor)
    have r: "?S = map fld_name (cls_staticFields c) @ CONSTRUCTOR_name # static_method_names th (cls_methods c)"
      using Some by (simp add: static_names_def ctor_names_def)
    from add_ctor_step [OF ok(2,3) h1(2) r dist, of c ctor off]
    obtain h2 where h2: "add_ctor p c ctor cl (length (cls_staticFields c), off, h1) = Inr (Suc (length (cls_staticFields c)), Suc off, h2)"
      "filling cl cbase [] {} ?S (set (map fld_name (cls_staticFields c) @ [CONSTRUCTOR_name])) h2" "kept_tables ?B h1 h2" by auto
    moreover have "kept_tables ?B h h2" using h1(3) h2(3) kept_tables_trans by blast
    ultimately show ?thesis using h1(1) own Some by (auto simp: add_statics_def ctor_names_def)
  qed
qed

text \<open>The loop over the methods: the state after the methods \<open>ds\<close>.\<close>

definition methods_inv ::
  "type_heap \<Rightarrow> TSClass \<Rightarrow> meta_ref \<Rightarrow> meta_ref option \<Rightarrow> js_string list \<Rightarrow> meta_ref option \<Rightarrow> meta_ref option \<Rightarrow>
   TsClassFunc list \<Rightarrow> cursor \<times> 'v rt_heap \<Rightarrow> bool"
where
  "methods_inv th c inst base bn clazz cbase ds = (\<lambda>(cur, h).
     inst_idx cur = length (extend bn (uniq (field_names c @ method_names th ds))) \<and>
     filling inst base bn (set (field_names c)) (extend bn (inst_names th c)) (set (field_names c @ method_names th ds)) h \<and>
     (\<forall>cl. clazz = Some cl \<longrightarrow>
        class_idx cur = length (map fld_name (cls_staticFields c) @ ctor_names c @ static_method_names th ds) \<and>
        filling cl cbase [] {} (static_names th c)
          (set (map fld_name (cls_staticFields c) @ ctor_names c @ static_method_names th ds)) h))"

text \<open>The descriptions of the instance and of the class with their bases are different objects.\<close>

definition apart :: "meta_ref \<Rightarrow> meta_ref option \<Rightarrow> meta_ref option \<Rightarrow> meta_ref option \<Rightarrow> bool" where
  "apart inst base clazz cbase \<longleftrightarrow>
     insert inst (set_option base) \<inter> (set_option clazz \<union> set_option cbase) = {}"

abbreviation tables_of :: "meta_ref \<Rightarrow> meta_ref option \<Rightarrow> meta_ref option \<Rightarrow> meta_ref option \<Rightarrow> meta_ref set" where
  "tables_of inst base clazz cbase \<equiv> insert inst (set_option base) \<union> (set_option clazz \<union> set_option cbase)"

lemma methods_inv_same:
  assumes "methods_inv th c inst base bn clazz cbase ds (cur, h)" and "kept_tables (tables_of inst base clazz cbase) h h'"
  shows "methods_inv th c inst base bn clazz cbase ds (cur, h')"
proof -
  have "kept_tables (insert inst (set_option base)) h h'" using assms(2) by (rule kept_tables_mono) blast
  moreover have "kept_tables (insert cl (set_option cbase)) h h'" if "clazz = Some cl" for cl
    using assms(2) that by (intro kept_tables_mono [OF assms(2)]) auto
  ultimately show ?thesis
    using assms(1) filling_cong unfolding methods_inv_def by fast
qed

lemma static_method_split:
  assumes "cls_methods c = ds @ m # rest" and "method_kind th m = FunctionKind.STATIC"
  shows "static_names th c = (map fld_name (cls_staticFields c) @ ctor_names c @ static_method_names th ds) @
    cf_name m # static_method_names th rest"
  using assms by (simp add: static_names_def static_method_names_def)

lemma inst_method_split:
  assumes "cls_methods c = ds @ m # rest" and "inst_method th m" and "cf_name m \<notin> set (field_names c @ method_names th ds)"
  shows "\<exists>rest'. inst_names th c = uniq (field_names c @ method_names th ds) @ cf_name m # rest'"
  using uniq_split [OF assms(3), of "method_names th rest"] assms(1,2)
  by (simp add: inst_names_def method_names_def)

lemma not_static_inst:
  "method_kind th m \<noteq> FunctionKind.CONSTRUCTOR \<Longrightarrow> method_kind th m \<noteq> FunctionKind.STATIC \<Longrightarrow> inst_method th m"
  by (simp add: inst_method_def)

lemma method_names_snoc:
  "method_names th (ds @ [m]) = method_names th ds @ (if inst_method th m then [cf_name m] else [])"
  "static_method_names th (ds @ [m]) = static_method_names th ds @ (if method_kind th m = FunctionKind.STATIC then [cf_name m] else [])"
  by (simp_all add: method_names_def static_method_names_def)

text \<open>A step on the instance table leaves the class table alone.\<close>

lemma methods_inv_inst:
  assumes "methods_inv th c inst base bn clazz cbase ds (cur, h)" and m: "inst_method th m"
    and "inst_idx cur' = length (extend bn (uniq (field_names c @ method_names th (ds @ [m]))))" "class_idx cur' = class_idx cur"
    and "filling inst base bn (set (field_names c)) (extend bn (inst_names th c)) (set (field_names c @ method_names th (ds @ [m]))) h'"
    and "kept_tables (set_option clazz \<union> set_option cbase) h h'"
  shows "methods_inv th c inst base bn clazz cbase (ds @ [m]) (cur', h')"
proof -
  have "static_method_names th (ds @ [m]) = static_method_names th ds"
    using m by (simp add: method_names_snoc inst_method_def)
  moreover have "kept_tables (insert cl (set_option cbase)) h h'" if "clazz = Some cl" for cl
    using that by (intro kept_tables_mono [OF assms(6)]) auto
  ultimately show ?thesis
    using assms(1,3,4,5) filling_cong unfolding methods_inv_def prod.case by metis
qed

lemma static_step:
  assumes ok: "class_ok th c" and split: "cls_methods c = ds @ m # rest" and k: "method_kind th m = FunctionKind.STATIC"
    and ap: "apart inst base clazz cbase" and I: "methods_inv th c inst base bn clazz cbase ds (cur, h)" and cl: "clazz = Some cl"
  shows "\<exists>cur' h'. add_static_method p c cl m vt (cur, h) = Inr (cur', h') \<and>
    methods_inv th c inst base bn clazz cbase (ds @ [m]) (cur', h')"
proof -
  let ?ds = "map fld_name (cls_staticFields c) @ ctor_names c @ static_method_names th ds"
  let ?A = "tables_of inst base clazz cbase"
  have st: "class_idx cur = length ?ds" "filling cl cbase [] {} (static_names th c) (set ?ds) h"
    using I cl by (simp_all add: methods_inv_def)
  have A: "insert cl (set_option cbase) \<subseteq> ?A" using cl by auto
  have dist: "distinct (static_names th c)" using ok by (simp add: class_ok_def)
  from add_static_method_step [OF A st(2) static_method_split [OF split k] dist st(1), of p c vt]
  obtain h' where h': "add_static_method p c cl m vt (cur, h) = Inr (cur\<lparr>class_idx := Suc (length ?ds)\<rparr>, h')"
    "filling cl cbase [] {} (static_names th c) (set (?ds @ [cf_name m])) h'" "kept_tables (?A - insert cl (set_option cbase)) h h'"
    by (elim exE conjE) (rule that)
  have "kept_tables (insert inst (set_option base)) h h'"
    using ap cl by (intro kept_tables_mono [OF h'(3)]) (auto simp: apart_def)
  then have "filling inst base bn (set (field_names c)) (extend bn (inst_names th c)) (set (field_names c @ method_names th ds)) h'"
    by (rule filling_cong) (use I in \<open>simp add: methods_inv_def\<close>)
  moreover have "\<not> inst_method th m" using k by (simp add: inst_method_def)
  ultimately have "methods_inv th c inst base bn clazz cbase (ds @ [m]) (cur\<lparr>class_idx := Suc (length ?ds)\<rparr>, h')"
    using I cl k h'(2) by (simp add: methods_inv_def method_names_snoc)
  with h'(1) show ?thesis by blast
qed

lemma inst_step:
  assumes ok: "class_ok th c" "distinct bn" and split: "cls_methods c = ds @ m # rest" and m: "inst_method th m"
    and ap: "apart inst base clazz cbase" and I: "methods_inv th c inst base bn clazz cbase ds (cur, h)"
    and inh: "\<forall>name. \<exists>r. inherited_accessor n p th name c = Inr r"
  shows "\<exists>cur' h'. (if is_accessor_kind (method_kind th m) then add_accessor n p th c inst (clazz \<noteq> None) m vt (cur, h)
      else add_method p c inst (clazz \<noteq> None) m vt (cur, h)) = Inr (cur', h') \<and>
    methods_inv th c inst base bn clazz cbase (ds @ [m]) (cur', h')"
proof -
  let ?xs = "field_names c @ method_names th ds" and ?T = "extend bn (inst_names th c)" and ?fs = "set (field_names c)"
  let ?A = "tables_of inst base clazz cbase" and ?B = "set_option clazz \<union> set_option cbase"
  have A: "insert inst (set_option base) \<subseteq> ?A" by blast
  have fill: "filling inst base bn ?fs ?T (set (uniq ?xs)) h" "inst_idx cur = length (extend bn (uniq ?xs))"
    using I by (simp_all add: methods_inv_def)
  have dist: "distinct (inst_names th c)" "CONSTRUCTOR_name \<notin> set (inst_names th c)"
    using ok(1) by (simp add: inst_names_def, simp add: class_ok_def)
  have nf: "cf_name m \<notin> ?fs" using ok(1) split m by (auto simp: class_ok_def method_names_def)
  have xs: "set (uniq (?xs @ [cf_name m])) = set (field_names c @ method_names th (ds @ [m]))"
    "uniq (field_names c @ method_names th (ds @ [m])) = uniq (?xs @ [cf_name m])"
    using m by (simp_all add: method_names_snoc)
  have keep: "kept_tables ?B h h'" if "kept_tables (?A - insert inst (set_option base)) h h'" for h'
    using ap by (intro kept_tables_mono [OF that]) (auto simp: apart_def)
  show ?thesis
  proof (cases "cf_name m \<in> set ?xs")
    case False
    then obtain rest' where r: "inst_names th c = uniq ?xs @ cf_name m # rest'" using inst_method_split [OF split m] by blast
    have snoc: "uniq (?xs @ [cf_name m]) = uniq ?xs @ [cf_name m]" using uniq_snoc [of ?xs "cf_name m"] False by (simp only: if_False)
    have "\<exists>cur' h'. (if is_accessor_kind (method_kind th m) then add_accessor n p th c inst (clazz \<noteq> None) m vt (cur, h)
        else add_method p c inst (clazz \<noteq> None) m vt (cur, h)) = Inr (cur', h') \<and>
      inst_idx cur' = length (extend bn (uniq ?xs @ [cf_name m])) \<and> class_idx cur' = class_idx cur \<and>
      filling inst base bn ?fs ?T (set (uniq ?xs @ [cf_name m])) h' \<and> kept_tables (?A - insert inst (set_option base)) h h'"
      using add_accessor_new [OF A fill(1) r dist(1) ok(2) dist(2) nf fill(2) inh]
        add_method_step [OF A fill(1) r dist(1) ok(2) dist(2) nf fill(2)]
      by (cases "is_accessor_kind (method_kind th m)") (simp_all only: if_True if_False)
    then obtain cur' h' where r: "(if is_accessor_kind (method_kind th m) then add_accessor n p th c inst (clazz \<noteq> None) m vt (cur, h)
        else add_method p c inst (clazz \<noteq> None) m vt (cur, h)) = Inr (cur', h')"
      "inst_idx cur' = length (extend bn (uniq ?xs @ [cf_name m]))" "class_idx cur' = class_idx cur"
      "filling inst base bn ?fs ?T (set (uniq ?xs @ [cf_name m])) h'" "kept_tables (?A - insert inst (set_option base)) h h'"
      by (elim exE conjE) (rule that)
    have "methods_inv th c inst base bn clazz cbase (ds @ [m]) (cur', h')"
      by (rule methods_inv_inst [OF I m _ r(3) _ keep [OF r(5)]]) (use r(2,4) snoc xs in simp_all)
    with r(1) show ?thesis by blast
  next
    case True
    then have acc: "is_accessor_kind (method_kind th m)"
      using ok(1) split m nf by (auto simp: class_ok_def method_names_append)
    have snoc: "uniq (?xs @ [cf_name m]) = uniq ?xs" using uniq_snoc [of ?xs "cf_name m"] True by (simp only: if_True)
    have T: "distinct ?T" "cf_name m \<in> set ?T" "cf_name m \<in> set (uniq ?xs)"
      using distinct_extend [OF dist(1) ok(2)] True split m
      by (auto simp: inst_names_def method_names_append)
    obtain cur' h' where r: "add_accessor n p th c inst (clazz \<noteq> None) m vt (cur, h) = Inr (cur', h')"
      "inst_idx cur' = inst_idx cur" "class_idx cur' = class_idx cur"
      "filling inst base bn ?fs ?T (set (uniq ?xs)) h'" "kept_tables (- {inst}) h h'"
      using add_accessor_again [OF fill(1) T nf inh, where is_instance = "clazz \<noteq> None" and vt = vt and cur = cur]
      by (elim exE conjE) (rule that)
    have B: "kept_tables ?B h h'" using ap by (intro kept_tables_mono [OF r(5)]) (auto simp: apart_def)
    have "methods_inv th c inst base bn clazz cbase (ds @ [m]) (cur', h')"
      by (rule methods_inv_inst [OF I m _ r(3) _ B]) (use r(2,4) fill(2) snoc xs in simp_all)
    with r(1) acc show ?thesis by auto
  qed
qed

lemma add_member_funcs:
  fixes p :: "'v pass"
  assumes ok: "class_ok th c" "distinct bn" "pass_ok (tables_of inst base clazz cbase) p"
    and ap: "apart inst base clazz cbase" and I: "methods_inv th c inst base bn clazz cbase [] s"
    and inh: "\<forall>name. \<exists>r. inherited_accessor n p th name c = Inr r"
  shows "\<exists>s'. fold_r (add_member_func n p th c inst clazz is_base) (cls_methods c) s = Inr s' \<and>
    methods_inv th c inst base bn clazz cbase (cls_methods c) s'"
proof (rule fold_r_prefix [where I = "methods_inv th c inst base bn clazz cbase"])
  fix ds m rest and s :: "cursor \<times> 'v rt_heap"
  assume split: "cls_methods c = ds @ m # rest" and I: "methods_inv th c inst base bn clazz cbase ds s"
  obtain cur h where s: "s = (cur, h)" by (cases s)
  obtain vt h0 where c: "p_create p (cf_type m) h = Inr (vt, h0)" "kept_tables (tables_of inst base clazz cbase) h h0"
    using pass_create [OF ok(3)] by blast
  have I0: "methods_inv th c inst base bn clazz cbase ds (cur, h0)" using methods_inv_same [OF _ c(2)] I s by blast
  have nc: "method_kind th m \<noteq> FunctionKind.CONSTRUCTOR" using ok(1) split by (simp add: class_ok_def)
  show "\<exists>s'. add_member_func n p th c inst clazz is_base m s = Inr s' \<and> methods_inv th c inst base bn clazz cbase (ds @ [m]) s'"
  proof (cases "method_kind th m = FunctionKind.STATIC")
    case False
    have eq: "add_member_func n p th c inst clazz is_base m s
        = (if is_accessor_kind (method_kind th m) then add_accessor n p th c inst (clazz \<noteq> None) m vt (cur, h0)
           else add_method p c inst (clazz \<noteq> None) m vt (cur, h0))"
      using c(1) s nc False by (simp add: add_member_func_def Let_def)
    from inst_step [OF ok(1,2) split not_static_inst [OF nc False] ap I0 inh, of vt] show ?thesis unfolding eq by blast
  next
    case True
    show ?thesis
    proof (cases clazz)
      case None
      have "methods_inv th c inst base bn clazz cbase (ds @ [m]) (cur, h0)"
        using I0 None True by (simp add: methods_inv_def method_names_snoc inst_method_def)
      with c(1) s True None show ?thesis by (auto simp: add_member_func_def Let_def)
    next
      case (Some cl)
      have eq: "add_member_func n p th c inst clazz is_base m s = add_static_method p c cl m vt (cur, h0)"
        using c(1) s True Some by (simp add: add_member_func_def Let_def)
      from static_step [OF ok(1) split True ap I0 Some, of p vt] show ?thesis unfolding eq by blast
    qed
  qed
qed (rule I)

section \<open>The layout of a class\<close>

lemma length_extend:
  assumes "distinct bn" and "distinct names" and "set bn \<subseteq> set names"
  shows "length (extend bn names) = length names"
proof -
  have "set (extend bn names) = set names" using assms(3) by auto
  then show ?thesis using distinct_card [OF distinct_extend [OF assms(2,1)]] distinct_card [OF assms(2)] by metis
qed

lemma placed_inherits:
  assumes "placed bn (set bn) fs ms" and "distinct bn"
  shows "inherits bn target ms"
proof -
  have "k < length bn \<and> bn ! k = x \<and> m_index (the (ms ! k)) = k" if "find_member_slot x ms = Some k" for x k
    using find_member_slot_Some [OF that] placed_there [OF assms(1), of k] placed_length [OF assms(1)]
    by (auto simp: member_ok_def)
  moreover have "find_member_slot x ms \<noteq> None" if "x \<in> set bn" for x
    using that placed_find [OF assms] by (auto simp: in_set_conv_nth)
  ultimately show ?thesis by (auto simp: inherits_def)
qed

definition complete :: "js_string list \<Rightarrow> js_string set \<Rightarrow> 'v MemberDescription option list \<Rightarrow> bool" where
  "complete names fs ms \<longleftrightarrow> placed names (set names) fs ms"

text \<open>
  Before a class is laid out: its base, when there is one, has the complete table \<open>bn\<close> and its
  members are members of the class; the static members are new.
\<close>

definition ready ::
  "type_heap \<Rightarrow> TSClass \<Rightarrow> meta_ref \<Rightarrow> js_string list \<Rightarrow> meta_ref option \<Rightarrow> 'v rt_heap \<Rightarrow> bool"
where
  "ready th c inst bn clazz h \<longleftrightarrow> \<not> inited (metas h inst) \<and> distinct bn \<and> set bn \<subseteq> set (inst_names th c) \<and>
     (cls_base c = None \<longleftrightarrow> od_base (metas h inst) = None) \<and> (cls_base c = None \<longrightarrow> bn = []) \<and>
     od_base (metas h inst) \<noteq> Some inst \<and>
     (\<forall>b. od_base (metas h inst) = Some b \<longrightarrow> inited (metas h b) \<and> complete bn {} (members (metas h b))) \<and>
     (\<forall>cl. clazz = Some cl \<longrightarrow> \<not> cls_isInterface c \<and> od_base (metas h cl) \<noteq> Some cl \<and>
        (\<forall>cb x. od_base (metas h cl) = Some cb \<and> x \<in> set (static_names th c) \<and> x \<noteq> CONSTRUCTOR_name \<longrightarrow>
           find_member_slot x (members (metas h cb)) = None))"

abbreviation class_base :: "meta_ref option \<Rightarrow> 'v rt_heap \<Rightarrow> meta_ref option" where
  "class_base clazz h \<equiv> Option.bind clazz (\<lambda>cl. od_base (metas h cl))"

definition cleared :: "type_heap \<Rightarrow> TSClass \<Rightarrow> meta_ref \<Rightarrow> meta_ref option \<Rightarrow> 'v rt_heap \<Rightarrow> 'v rt_heap" where
  "cleared th c inst clazz h =
     (let h = empty_table (snd (getClassMemberCount th c)) inst h
      in case clazz of Some cl \<Rightarrow> empty_table (fst (getClassMemberCount th c)) cl h | None \<Rightarrow> h)"

lemma cleared_filling:
  assumes ok: "class_ok th c" and rd: "ready th c inst bn clazz h"
    and ap: "apart inst (od_base (metas h inst)) clazz (class_base clazz h)"
  shows "filling inst (od_base (metas h inst)) bn (set (field_names c)) (extend bn (inst_names th c)) {} (cleared th c inst clazz h)"
    and "clazz = Some cl \<Longrightarrow> filling cl (class_base clazz h) [] {} (static_names th c) {} (cleared th c inst clazz h)"
proof -
  let ?h = "cleared th c inst clazz h"
  have len: "length (extend bn (inst_names th c)) = snd (getClassMemberCount th c)"
    using length_extend [of bn "inst_names th c"] rd member_count(1) [OF ok] by (simp add: ready_def inst_names_def)
  have other: "metas ?h a = metas h a" if "a \<noteq> inst" "clazz \<noteq> Some a" for a
    using that by (auto simp: cleared_def empty_table_def Let_def split: option.splits)
  have inst: "members (metas ?h inst) = replicate (snd (getClassMemberCount th c)) None" "od_base (metas ?h inst) = od_base (metas h inst)"
    using ap by (auto simp: cleared_def empty_table_def Let_def apart_def split: option.splits)
  have "base_part (od_base (metas h inst)) bn (extend bn (inst_names th c)) ?h"
  proof (cases "od_base (metas h inst)")
    case None
    then show ?thesis using rd by (simp add: ready_def base_part_def)
  next
    case (Some b)
    then have "metas ?h b = metas h b" using rd ap by (intro other) (auto simp: ready_def apart_def)
    moreover have "inherits bn (extend bn (inst_names th c)) (members (metas h b))"
      using rd Some by (intro placed_inherits [where fs = "{}"]) (auto simp: ready_def complete_def)
    ultimately show ?thesis using Some by (simp add: base_part_def)
  qed
  with inst len rd show "filling inst (od_base (metas h inst)) bn (set (field_names c)) (extend bn (inst_names th c)) {} ?h"
    using placed_empty [of "extend bn (inst_names th c)" "set (field_names c)"] by (simp add: filling_def ready_def)
  assume cl: "clazz = Some cl"
  have members: "members (metas ?h cl) = replicate (length (static_names th c)) None" "od_base (metas ?h cl) = od_base (metas h cl)"
    using cl rd member_count(2) [OF ok] ap by (auto simp: cleared_def empty_table_def Let_def ready_def apart_def)
  have "base_part (od_base (metas h cl)) [] (static_names th c) ?h"
  proof (cases "od_base (metas h cl)")
    case (Some cb)
    then have "metas ?h cb = metas h cb" using rd ap cl by (intro other) (auto simp: ready_def apart_def)
    then show ?thesis using rd cl Some by (auto simp: base_part_def inherits_def ready_def)
  qed (simp add: base_part_def)
  with members rd cl show "filling cl (class_base clazz h) [] {} (static_names th c) {} ?h"
    using placed_empty [of "static_names th c" "{}"] by (simp add: filling_def ready_def)
qed

text \<open>The tables before the loop over the methods.\<close>

lemma before_methods:
  assumes ok: "class_ok th c" "pass_ok (tables_of inst base clazz cbase) p" "distinct bn"
    and ap: "apart inst base clazz cbase" and own: "clazz \<noteq> None \<longrightarrow> \<not> is_base"
    and fill: "filling inst base bn (set (field_names c)) (extend bn (inst_names th c)) {} h"
      "\<forall>cl. clazz = Some cl \<longrightarrow> filling cl cbase [] {} (static_names th c) {} h"
  shows "\<exists>idx h1 cidx off' h2. fold_r (add_field p inst) (cls_fields c) (length bn, h) = Inr (idx, h1) \<and>
    add_statics p t c clazz is_base off h1 = Inr (cidx, off', h2) \<and>
    (\<forall>io. methods_inv th c inst base bn clazz cbase [] (\<lparr>inst_idx = idx, class_idx = cidx, inst_offset = io, clazz_offset = off'\<rparr>, h2))"
proof -
  let ?A = "tables_of inst base clazz cbase" and ?T = "extend bn (inst_names th c)" and ?fs = "set (field_names c)"
  have A: "insert inst (set_option base) \<subseteq> ?A" by blast
  obtain h1 where h1: "fold_r (add_field p inst) (cls_fields c) (length bn, h) = Inr (length (extend bn (field_names c)), h1)"
    "filling inst base bn ?fs ?T ?fs h1" "kept_tables (?A - insert inst (set_option base)) h h1"
    using add_fields [OF ok(1,2) A ok(3) fill(1)] by (elim exE conjE) (rule that)
  have uniq: "uniq (field_names c) = field_names c" using ok(1) by (intro uniq_id) (simp add: class_ok_def)
  have "\<exists>cidx off' h2. add_statics p t c clazz is_base off h1 = Inr (cidx, off', h2) \<and>
    (\<forall>io. methods_inv th c inst base bn clazz cbase []
       (\<lparr>inst_idx = length (extend bn (field_names c)), class_idx = cidx, inst_offset = io, clazz_offset = off'\<rparr>, h2))"
  proof (cases clazz)
    case None
    then show ?thesis using h1(2) uniq by (simp add: add_statics_def methods_inv_def method_names_def)
  next
    case (Some cl)
    have C: "insert cl (set_option cbase) \<subseteq> ?A" using Some by auto
    have "kept_tables (insert cl (set_option cbase)) h h1"
      using ap Some by (intro kept_tables_mono [OF h1(3)]) (auto simp: apart_def)
    from filling_cong [OF this fill(2) [rule_format, OF Some]] have "filling cl cbase [] {} (static_names th c) {} h1" .
    from add_statics_ok [OF ok(1,2) C _ this, of is_base t off] own Some
    obtain cidx off' h2 where h2: "add_statics p t c clazz is_base off h1 = Inr (cidx, off', h2)"
      "cidx = length (map fld_name (cls_staticFields c) @ ctor_names c)"
      "filling cl cbase [] {} (static_names th c) (set (map fld_name (cls_staticFields c) @ ctor_names c)) h2"
      "kept_tables (?A - insert cl (set_option cbase)) h1 h2" by auto
    have "kept_tables (insert inst (set_option base)) h1 h2"
      using ap Some by (intro kept_tables_mono [OF h2(4)]) (auto simp: apart_def)
    from filling_cong [OF this h1(2)] have "filling inst base bn ?fs ?T ?fs h2" .
    with h2(1,2,3) uniq Some show ?thesis by (auto simp: methods_inv_def method_names_def static_method_names_def)
  qed
  with h1(1) show ?thesis by blast
qed

lemma fill_tables_ok:
  fixes p :: "'v pass"
  assumes ok: "class_ok th c" "pass_ok (tables_of inst base clazz cbase) p" and rd: "ready th c inst bn clazz h"
    and base: "od_base (metas h inst) = base" "class_base clazz h = cbase"
    and ap: "apart inst base clazz cbase" and own: "clazz \<noteq> None \<longrightarrow> \<not> is_base"
    and inh: "\<forall>name. \<exists>r. inherited_accessor n p th name c = Inr r"
  shows "\<exists>h'. fill_tables n p th t c inst clazz is_base (length bn) h = Inr h' \<and> inited (metas h' inst) \<and>
    complete (extend bn (inst_names th c)) (set (field_names c)) (members (metas h' inst)) \<and>
    (\<forall>cl. clazz = Some cl \<longrightarrow> complete (static_names th c) {} (members (metas h' cl)))"
proof -
  let ?h = "cleared th c inst clazz h" and ?T = "extend bn (inst_names th c)" and ?fs = "set (field_names c)"
  have bn: "distinct bn" "set bn \<subseteq> set (inst_names th c)" using rd by (simp_all add: ready_def)
  have start: "filling inst base bn ?fs ?T {} ?h" "\<forall>cl. clazz = Some cl \<longrightarrow> filling cl cbase [] {} (static_names th c) {} ?h"
    using cleared_filling [OF ok(1) rd] ap unfolding base by blast+
  obtain idx h1 cidx off' h2 where r: "fold_r (add_field p inst) (cls_fields c) (length bn, ?h) = Inr (idx, h1)"
    "add_statics p t c clazz is_base (field_count cbase h) h1 = Inr (cidx, off', h2)"
    "\<forall>io. methods_inv th c inst base bn clazz cbase [] (\<lparr>inst_idx = idx, class_idx = cidx, inst_offset = io, clazz_offset = off'\<rparr>, h2)"
    using before_methods [OF ok bn(1) ap own start, where t = t and off = "field_count cbase h"]
    by (elim exE conjE) (rule that)
  from add_member_funcs [OF ok(1) bn(1) ok(2) ap r(3) [rule_format, of "field_count base h"] inh, of is_base]
  obtain cur h3 where f: "fold_r (add_member_func n p th c inst clazz is_base) (cls_methods c)
      (\<lparr>inst_idx = idx, class_idx = cidx, inst_offset = field_count base h, clazz_offset = off'\<rparr>, h2) = Inr (cur, h3)"
    "methods_inv th c inst base bn clazz cbase (cls_methods c) (cur, h3)" by auto
  let ?h4 = "upd_meta inst (fieldCount_update (\<lambda>_. inst_offset cur)) h3"
  let ?h5 = "case clazz of Some cl \<Rightarrow> upd_meta cl (fieldCount_update (\<lambda>_. clazz_offset cur)) ?h4 | None \<Rightarrow> ?h4"
  let ?h6 = "upd_meta inst (inited_update (\<lambda>_. True)) ?h5"
  obtain sc ic where count: "getClassMemberCount th c = (sc, ic)" by (cases "getClassMemberCount th c")
  then have "(case clazz of None \<Rightarrow> empty_table ic inst h | Some cl \<Rightarrow> empty_table sc cl (empty_table ic inst h)) = ?h"
    by (cases clazz) (simp_all add: cleared_def Let_def)
  then have run: "fill_tables n p th t c inst clazz is_base (length bn) h = Inr ?h6"
    using r(1,2) f(1) base count by (simp add: fill_tables_def Let_def)
  have same: "members (metas ?h6 a) = members (metas h3 a)" for a by (cases clazz) simp_all
  show ?thesis
  proof (intro exI conjI allI impI)
    show "fill_tables n p th t c inst clazz is_base (length bn) h = Inr ?h6" by (rule run)
    show "inited (metas ?h6 inst)" by simp
    have "set ?T = set (field_names c @ method_names th (cls_methods c))" using bn(2) by (auto simp: inst_names_def)
    then show "complete ?T ?fs (members (metas ?h6 inst))"
      unfolding same using f(2) by (simp add: complete_def methods_inv_def filling_def)
    show "complete (static_names th c) {} (members (metas ?h6 cl))" if "clazz = Some cl" for cl
      unfolding same using f(2) that unfolding methods_inv_def prod.case complete_def filling_def static_names_def by blast
  qed
qed

text \<open>
  C33. The layout of a class or interface succeeds. Its table begins with the members of the
  base at the same places; the new members follow, so that there are no holes and every member is
  found at its index; a field has its index as offset. The table of the class object holds the
  static fields, the constructor and the static methods, in this order.
\<close>

theorem layout_extends_base:
  assumes "class_of th t = Some c" and "class_ok th c" and "ready th c inst bn clazz h"
    and "od_base (metas h inst) = base" and "class_base clazz h = cbase" and "apart inst base clazz cbase"
    and "pass_ok (tables_of inst base clazz cbase) p" and "clazz \<noteq> None \<longrightarrow> \<not> is_base"
    and inh: "\<forall>name. \<exists>r. inherited_accessor n p th name c = Inr r"
  shows "\<exists>h'. updateMemberDescriptions (Suc n) p th t inst clazz is_base h = Inr h' \<and> inited (metas h' inst) \<and>
    complete (bn @ filter (\<lambda>x. x \<notin> set bn) (inst_names th c)) (set (field_names c)) (members (metas h' inst)) \<and>
    (\<forall>cl. clazz = Some cl \<longrightarrow> complete (static_names th c) {} (members (metas h' cl)))"
proof -
  obtain k where n: "n = Suc k" using inh by (cases n) auto
  have "updateMemberDescriptions (Suc n) p th t inst clazz is_base h = fill_tables n p th t c inst clazz is_base (length bn) h"
  proof (cases base)
    case None
    with assms(1,3,4) show ?thesis by (simp add: ready_def)
  next
    case (Some b)
    with assms(3,4) have "inited (metas h b)" "length (members (metas h b)) = length bn" "cls_base c \<noteq> None"
      by (auto simp: ready_def complete_def placed_def)
    with assms(1,3,4) Some n show ?thesis by (auto simp: ready_def)
  qed
  with fill_tables_ok [OF assms(2,7,3,4,5,6,8) inh] show ?thesis by auto
qed

section \<open>A sample\<close>

text \<open>Creating types yields \<open>any\<close>; there are no initial values and no functions.\<close>

definition plain_pass :: "nat pass" where
  "plain_pass = \<lparr>p_create = (\<lambda>t h. Inr (Primitive_Any, h)), p_static = (\<lambda>t i vt h. Inr (None, h)), p_global = (\<lambda>_. None)\<rparr>"

definition sample_field :: "js_string \<Rightarrow> TsClassField" where
  "sample_field n = \<lparr>fld_name = n, fld_type = 0, fld_readonly = False, fld_visibility = None, fld_static = False, fld_optional = False\<rparr>"

definition sample_func :: "js_string \<Rightarrow> type_id \<Rightarrow> TsClassFunc" where
  "sample_func n t = \<lparr>cf_name = n, cf_type = t, cf_optional = False\<rparr>"

definition sample_method_type :: "FunctionKind \<Rightarrow> ts_type" where
  "sample_method_type k = TSFunction
     \<lparr>fn_args = new_TSTypeWithArguments, fn_funcKind = k, fn_parameterTypes = [], fn_isOptionalParams = [], fn_returnType = 0,
      fn_restParamIdx = -1, fn_isMethod = True, fn_isDeclare = False, fn_isStatic = False, fn_isBinaryenImpl = False,
      fn_isExport = False, fn_belongedClass = None\<rparr>"

text \<open>The classes 20 and 21 and the types 30 to 33 of methods of each kind.\<close>

definition sample_types :: "TSClass \<Rightarrow> TSClass \<Rightarrow> type_heap" where
  "sample_types b d =
     \<lparr>th_types = (\<lambda>t. if t = 20 then TSClass b else if t = 21 then TSClass d
        else if t = 30 then sample_method_type FunctionKind.GETTER else if t = 31 then sample_method_type FunctionKind.SETTER
        else if t = 32 then sample_method_type FunctionKind.METHOD else if t = 33 then sample_method_type FunctionKind.STATIC
        else ts_type.Type),
      th_next = 40\<rparr>"

definition sample_base :: TSClass where
  "sample_base = new_TSClass\<lparr>cls_fields := [sample_field [120]]\<rparr>"

definition sample_derived :: TSClass where
  "sample_derived = new_TSClass\<lparr>cls_fields := [sample_field [120], sample_field [121]],
     cls_staticFields := [sample_field [115]],
     cls_methods := [sample_func [122] 30, sample_func [122] 31, sample_func [102] 32],
     cls_base := Some 20, cls_ctor := Some 32\<rparr>"

text \<open>Description 0 of the base is laid out; 1 is the instance and 2 the class of the derived class.\<close>

definition sample_layout_heap :: "nat rt_heap" where
  "sample_layout_heap =
     \<lparr>metas = (\<lambda>a.
        if a = 0 then (new_ObjectDescription [66] OBJECT_INSTANCE None)
          \<lparr>members := [Some (new_MemberDescription [120] MemberType.FIELD 0 False Primitive_Any None True False None)], inited := True\<rparr>
        else if a = 1 then (new_ObjectDescription [68] OBJECT_INSTANCE None)\<lparr>od_base := Some 0\<rparr>
        else new_ObjectDescription [64, 68] OBJECT_CLASS None),
      shapes = (\<lambda>_. \<lparr>s_members = None, s_meta = 0, s_generic = None\<rparr>),
      accs = (\<lambda>_. \<lparr>acc_method = None, acc_getter = None, acc_setter = None\<rparr>), next_shape = 0, next_acc = 0\<rparr>"

lemma sample_fields [simp]:
  "cls_fields sample_derived = [sample_field [120], sample_field [121]]" "cls_staticFields sample_derived = [sample_field [115]]"
  "cls_methods sample_derived = [sample_func [122] 30, sample_func [122] 31, sample_func [102] 32]"
  "cls_base sample_derived = Some 20" "cls_ctor sample_derived = Some 32" "\<not> cls_isInterface sample_derived"
  "cls_base sample_base = None" "fld_name (sample_field n) = n" "cf_name (sample_func n t) = n" "cf_type (sample_func n t) = t"
  by (simp_all add: sample_derived_def sample_base_def new_TSClass_def sample_field_def sample_func_def)

lemma sample_kinds [simp]:
  "method_kind (sample_types b d) (sample_func n 30) = FunctionKind.GETTER"
  "method_kind (sample_types b d) (sample_func n 31) = FunctionKind.SETTER"
  "method_kind (sample_types b d) (sample_func n 32) = FunctionKind.METHOD"
  "method_kind (sample_types b d) (sample_func n 33) = FunctionKind.STATIC"
  by (simp_all add: method_kind_def func_kind_def sample_types_def sample_method_type_def)

lemma sample_names:
  "inst_names (sample_types b d) sample_derived = [[120], [121], [122], [102]]"
  "static_names (sample_types b d) sample_derived = [[115], CONSTRUCTOR_name]"
  by (simp_all add: inst_names_def static_names_def method_names_def static_method_names_def ctor_names_def inst_method_def)

lemma sample_class_ok: "class_ok (sample_types b d) sample_derived"
proof -
  have "CONSTRUCTOR_name \<notin> {[120], [121], [122], [102], [115]}" by (simp add: js_lit_def)
  moreover have "cf_name m \<notin> set (method_names (sample_types b d) (ms @ ms'))"
    if "cls_methods sample_derived = ms @ m # ms'" "\<not> is_accessor_kind (method_kind (sample_types b d) m)" for ms m ms'
    using that by (auto simp: Cons_eq_append_conv is_accessor_kind_def method_names_def)
  ultimately show ?thesis
    by (auto simp: class_ok_def sample_names method_names_def inst_method_def)
qed

theorem layout_extends_base_witness:
  "\<exists>h'. updateMemberDescriptions 3 plain_pass (sample_types sample_base sample_derived) 21 1 (Some 2) False sample_layout_heap = Inr h' \<and>
    complete [[120], [121], [122], [102]] {[120], [121]} (members (metas h' 1)) \<and>
    complete [[115], CONSTRUCTOR_name] {} (members (metas h' 2))"
proof -
  let ?th = "sample_types sample_base sample_derived"
  have "\<exists>h'. updateMemberDescriptions (Suc 2) plain_pass ?th 21 1 (Some 2) False sample_layout_heap = Inr h' \<and> inited (metas h' 1) \<and>
    complete ([[120]] @ filter (\<lambda>x. x \<notin> set [[120]]) (inst_names ?th sample_derived)) (set (field_names sample_derived)) (members (metas h' 1)) \<and>
    (\<forall>cl. Some 2 = Some cl \<longrightarrow> complete (static_names ?th sample_derived) {} (members (metas h' cl)))"
  proof (rule layout_extends_base [where base = "Some 0" and cbase = None])
    show "class_of ?th 21 = Some sample_derived" by (simp add: class_of_def sample_types_def)
    show "class_ok ?th sample_derived" by (rule sample_class_ok)
    show "ready ?th sample_derived 1 [[120]] (Some 2) sample_layout_heap"
      by (auto simp: ready_def sample_names sample_layout_heap_def new_ObjectDescription_def
          complete_def placed_def member_ok_def)
    show "pass_ok (tables_of 1 (Some 0) (Some 2) None) plain_pass" by (simp add: pass_ok_def plain_pass_def)
    show "\<forall>name. \<exists>r. inherited_accessor 2 plain_pass ?th name sample_derived = Inr r"
      by (simp add: numeral_2_eq_2 plain_pass_def class_of_def sample_types_def)
  qed (simp_all add: sample_layout_heap_def new_ObjectDescription_def apart_def)
  moreover have "[[120]] @ filter (\<lambda>x. x \<notin> set [[120]]) (inst_names ?th sample_derived) = [[120], [121], [122], [102]]"
    "set (field_names sample_derived) = {[120], [121]}" "Suc 2 = (3 :: nat)" by (simp_all add: sample_names)
  ultimately show ?thesis unfolding sample_names(2) by metis
qed

end
