(* ===== verification/ShapeProofs.thy ===== *)
theory ShapeProofs
  imports LayoutProofs
begin

text \<open>
  Properties of the wide type of a union and of the shapes of a description.
\<close>

section \<open>Wide types\<close>

definition level :: "nat \<Rightarrow> value_type \<Rightarrow> nat \<Rightarrow> bool" where
  "level cl t l \<longleftrightarrow> type_scores (vt_kind (plain_type t)) = Some (cl, l)"

lemma scored_kind:
  "type_scores k = Some s \<Longrightarrow> k \<noteq> ValueTypeKind.NAMESPACE \<and> k \<noteq> ValueTypeKind.FUNCTION \<and> k \<noteq> ValueTypeKind.ANY \<and>
     \<not> isObjectType k \<and> \<not> is_empty_kind k"
  by (auto simp: type_scores_def isObjectType_def is_empty_kind_def split: if_splits)

lemma wide_loop_level:
  assumes "\<forall>t \<in> set types. \<exists>l. level cl t l" and "type_scores (vt_kind w) = Some (cl, l)"
  shows "\<exists>w' l'. wide_loop types (False, Some w) = (False, Some w') \<and> w' \<in> insert w (plain_type ` set types) \<and>
    type_scores (vt_kind w') = Some (cl, l') \<and> l \<le> l' \<and> (\<forall>t \<in> set types. \<forall>k. level cl t k \<longrightarrow> k \<le> l')"
  using assms
proof (induction types arbitrary: w l)
  case (Cons t types)
  let ?t = "plain_type t"
  obtain k where k: "type_scores (vt_kind ?t) = Some (cl, k)" using Cons.prems(1) by (auto simp: level_def)
  note kinds = scored_kind [OF k] scored_kind [OF Cons.prems(2)]
  let ?w = "if l < k \<and> \<not> equals w ?t then ?t else w" and ?l = "max l k"
  have eq: "k = l" if "equals w ?t" using equals_same_kind [OF that] k Cons.prems(2) by simp
  have step: "wide_step t (False, Some w) = (False, False, Some ?w)"
    using kinds k Cons.prems(2) by (simp add: wide_step_def Let_def)
  have w: "type_scores (vt_kind ?w) = Some (cl, ?l)"
    using k Cons.prems(2) eq by (auto simp: max_def)
  from Cons.IH [OF _ w] Cons.prems(1) obtain w' l' where r:
    "wide_loop types (False, Some ?w) = (False, Some w')" "w' \<in> insert ?w (plain_type ` set types)"
    "type_scores (vt_kind w') = Some (cl, l')" "?l \<le> l'" "\<forall>t \<in> set types. \<forall>k. level cl t k \<longrightarrow> k \<le> l'" by auto
  have "w' \<in> insert w (plain_type ` set (t # types))" using r(2) by (auto split: if_splits)
  moreover have "\<forall>u \<in> set (t # types). \<forall>k. level cl u k \<longrightarrow> k \<le> l'" using r(4,5) k by (auto simp: level_def)
  ultimately show ?case using r(1,3,4) step by (intro exI [of _ w'] exI [of _ l']) simp
qed simp

text \<open>
  C34. The wide type of types of one class (numbers or strings) is the highest of them: it is one of the
  types, and none of the others has a higher level. Creating the union does not need an interface
  type.
\<close>

theorem wide_type_is_highest:
  assumes "types \<noteq> []" and "\<forall>t \<in> set types. \<exists>l. level cl t l"
  shows "\<exists>w l. CreateWideTypeFromTypes mk_union types c = (w, c) \<and> w \<in> plain_type ` set types \<and>
    type_scores (vt_kind w) = Some (cl, l) \<and> (\<forall>t \<in> set types. \<forall>k. level cl t k \<longrightarrow> k \<le> l)"
proof -
  obtain t ts where types: "types = t # ts" using assms(1) by (cases types) auto
  then obtain k where k: "type_scores (vt_kind (plain_type t)) = Some (cl, k)" using assms(2) by (auto simp: level_def)
  have first: "wide_step t (False, None) = (False, False, Some (plain_type t))"
    using scored_kind [OF k] by (simp add: wide_step_def Let_def)
  from wide_loop_level [OF _ k, of ts] assms(2) types obtain w l where w:
    "wide_loop ts (False, Some (plain_type t)) = (False, Some w)" "w \<in> plain_type ` set types"
    "type_scores (vt_kind w) = Some (cl, l)" "k \<le> l" "\<forall>t \<in> set ts. \<forall>k. level cl t k \<longrightarrow> k \<le> l" by auto
  have "collectWideTypes types = [w]"
    using w(1) first scored_kind [OF w(3)] types by (simp add: collectWideTypes_def)
  moreover have "\<forall>u \<in> set types. \<forall>k. level cl u k \<longrightarrow> k \<le> l" using w(4,5) k types by (auto simp: level_def)
  ultimately show ?thesis using w(2,3) by (auto simp: wide_type_is_first)
qed

theorem wide_type_is_highest_witness:
  "\<forall>c. CreateWideTypeFromTypes (\<lambda>i ts c. (Primitive_Void, c)) [Primitive_Int, Primitive_Boolean, Primitive_Number] c
   = (Primitive_Number, c)"
proof
  fix c
  have lev: "level 1 Primitive_Int 5" "level 1 Primitive_Boolean 4" "level 1 Primitive_Number 6"
    by (simp_all add: level_def type_scores_def Primitive_Int_def Primitive_Boolean_def Primitive_Number_def)
  have "\<exists>w l. CreateWideTypeFromTypes (\<lambda>i ts c. (Primitive_Void, c)) [Primitive_Int, Primitive_Boolean, Primitive_Number] c = (w, c) \<and>
      w \<in> plain_type ` set [Primitive_Int, Primitive_Boolean, Primitive_Number] \<and> type_scores (vt_kind w) = Some (1, l) \<and>
      (\<forall>t \<in> set [Primitive_Int, Primitive_Boolean, Primitive_Number]. \<forall>k. level 1 t k \<longrightarrow> k \<le> l)"
    by (rule wide_type_is_highest) (use lev in auto)
  then show "CreateWideTypeFromTypes (\<lambda>i ts c. (Primitive_Void, c)) [Primitive_Int, Primitive_Boolean, Primitive_Number] c
   = (Primitive_Number, c)"
    using lev by (auto simp: Primitive_Int_def Primitive_Boolean_def Primitive_Number_def type_scores_def)
qed

text \<open>
  The order of the types matters: behind a number \<open>undefined\<close> is passed over, in front of it the
  wide type is \<open>any\<close>.
\<close>

theorem wide_type_depends_on_order:
  "collectWideTypes [Primitive_Number, Primitive_Undefined] = [Primitive_Number]"
  "collectWideTypes [Primitive_Undefined, Primitive_Number] = [Primitive_Any]"
proof -
  have "\<not> equals Primitive_Undefined Primitive_Number"
    using equals_same_kind by (force simp: Primitive_Number_def Primitive_Undefined_def)
  then show "collectWideTypes [Primitive_Number, Primitive_Undefined] = [Primitive_Number]"
    "collectWideTypes [Primitive_Undefined, Primitive_Number] = [Primitive_Any]"
    by (simp_all add: collectWideTypes_def wide_step_def Let_def isObjectType_def is_empty_kind_def type_scores_def
        Primitive_Number_def Primitive_Undefined_def Primitive_Any_def)
qed

section \<open>Shapes\<close>

lemma map_r_all: "\<forall>x \<in> set xs. f x = Inr (g x) \<Longrightarrow> map_r f xs = Inr (map g xs)"
  by (induction xs) auto

definition shape_of :: "'v rt_heap \<Rightarrow> 'v MemberDescription \<Rightarrow> 'v ShapeMember option" where
  "shape_of h m = (if m_type m = MemberType.FIELD then Some (ShapeField (Some (get_offset m)))
     else if methodOrAccessor m \<noteq> None then CreateShapeMemberValue m h else None)"

text \<open>The shapes of a complete table.\<close>

lemma created_shapes:
  assumes "complete names fs (members (metas h a))" and "originShape (metas h a) = None"
    and "od_type (metas h a) = OBJECT_INSTANCE \<or> od_type (metas h a) = OBJECT_LITERAL" and "drived (metas h a) = 0"
  shows "\<exists>h' s. createObjectDescriptionShapes a h = Inr h' \<and> originShape (metas h' a) = Some s \<and> thisShape (metas h' a) = Some s \<and>
    members (metas h' a) = members (metas h a) \<and> s_meta (shapes h' s) = a \<and>
    (\<forall>i < length names. names ! i \<in> fs \<longrightarrow> getMember i (shapes h' s) = Some (ShapeField (Some (signed_take_bit 29 (int i)))))"
proof -
  let ?ms = "members (metas h a)" and ?g = "\<lambda>x. shape_of h (the x)"
  have len: "length ?ms = length names" and mem: "\<And>i. i < length names \<Longrightarrow> \<exists>m. ?ms ! i = Some m \<and> member_ok fs i (names ! i) m"
    using assms(1) by (auto simp: complete_def placed_def)
  have "shape_member True h x = Inr (?g x)" if x: "x \<in> set ?ms" for x
  proof -
    from x obtain i where "i < length names" "?ms ! i = x" using len by (auto simp: in_set_conv_nth)
    with mem obtain m where "x = Some m" by blast
    then show ?thesis by (simp add: shape_member_def shape_of_def)
  qed
  then have run: "map_r (shape_member True h) ?ms = Inr (map ?g ?ms)" by (intro map_r_all) simp
  obtain s h1 where s: "new_shape a (map ?g ?ms) h = (s, h1)" by (cases "new_shape a (map ?g ?ms) h")
  let ?h = "set_thisShape a s (set_originShape a s h1)"
  have "createObjectDescriptionShapes a h = Inr ?h"
    using assms(2,3,4) run s by (auto simp: createObjectDescriptionShapes_def Let_def)
  moreover have "originShape (metas ?h a) = Some s" "thisShape (metas ?h a) = Some s"
    "members (metas ?h a) = ?ms" "s_members (shapes ?h s) = Some (map ?g ?ms)" "s_meta (shapes ?h s) = a"
    using s by (auto simp: set_thisShape_def set_originShape_def new_shape_def)
  moreover have "getMember i (shapes ?h s) = Some (ShapeField (Some (signed_take_bit 29 (int i))))"
    if "i < length names" "names ! i \<in> fs" for i
    using mem [OF that(1)] that len calculation(5) by (auto simp: getMember_def js_array_get_def shape_of_def member_ok_def)
  ultimately show ?thesis by blast
qed

text \<open>
  The shape of the description of a class without derived classes, made from a complete table:
  it exists, it is the shape of \<open>this\<close> as well, and at the index of every field it holds the
  offset of the field, which is this index.
\<close>

theorem shape_tells_fields:
  assumes "complete names fs (members (metas h a))" and "originShape (metas h a) = None"
    and "od_type (metas h a) = OBJECT_INSTANCE \<or> od_type (metas h a) = OBJECT_LITERAL" and "drived (metas h a) = 0"
  shows "\<exists>h' s. createObjectDescriptionShapes a h = Inr h' \<and> originShape (metas h' a) = Some s \<and> thisShape (metas h' a) = Some s \<and>
    members (metas h' a) = members (metas h a) \<and>
    (\<forall>i < length names. names ! i \<in> fs \<longrightarrow> getMember i (shapes h' s) = Some (ShapeField (Some (signed_take_bit 29 (int i)))))"
  using created_shapes [OF assms] by blast

theorem shape_tells_fields_witness:
  "\<exists>h' s. createObjectDescriptionShapes 0 sample_layout_heap = Inr h' \<and> originShape (metas h' 0) = Some s \<and>
     getMember 0 (shapes h' s) = Some (ShapeField (Some 0))"
proof -
  have "\<exists>h' s. createObjectDescriptionShapes 0 sample_layout_heap = Inr h' \<and> originShape (metas h' 0) = Some s \<and>
      thisShape (metas h' 0) = Some s \<and> members (metas h' 0) = members (metas sample_layout_heap 0) \<and>
      (\<forall>i < length [[120 :: 16 word]]. [[120 :: 16 word]] ! i \<in> {[120]} \<longrightarrow>
        getMember i (shapes h' s) = Some (ShapeField (Some (signed_take_bit 29 (int i)))))"
    by (rule shape_tells_fields)
      (simp_all add: sample_layout_heap_def new_ObjectDescription_def complete_def placed_def member_ok_def
        get_offset_def new_MemberDescription_def js_shr_def to_int32_def)
  then show ?thesis by auto
qed

end
