(* ===== verification/Expressions.thy ===== *)
theory Expressions
  imports ObjectLayout
begin

text \<open>
  Expressions of the front end (\<open>src/src/expression.ts\<close>) and the part of
  \<open>src/src/semantics/expression_builder.ts\<close> that does not recurse into them: access to members
  through shapes, binary operators and assignments, and the values of symbols.

  The state is the \<open>BuildContext\<close>. A value is \<open>built\<close>: its tree together with what the object holds
  besides, its shape first of all. Source locations and the counters of accesses are left out.
\<close>

section \<open>Expressions\<close>

datatype UnaryOperator = PlusPlusToken | MinusMinusToken | MinusUnaryToken | OtherUnaryToken

text \<open>
  The classes of expressions; \<open>exprType\<close> is a field of each. The second argument of a number tells
  whether its syntax node is the index of an element access, the first one of \<open>super\<close> the property
  that is accessed when its syntax node is in a property access. The parent of a property access is
  represented by the arguments of the call when it is a call. \<open>OtherExpr\<close> stands for the kinds without a
  case of their own.
\<close>

datatype (plugins only: size) expression = Expression (exprType: type_id) (x_node: expr_node)
and expr_node =
    NullKeywordExpr
  | UndefinedKeywordExpr
  | NumberLiteralExpr "64 word" bool
  | StringLiteralExpr js_string
  | ObjectLiteralExpr "js_string list" "expression list"
  | ArrayLiteralExpr "expression list"
  | FalseLiteralExpr
  | TrueLiteralExpr
  | IdentifierExpr js_string
  | BinaryExpr BinaryOperator expression expression
  | EnumerateKeysExpr expression
  | CommaExpr "expression list"
  | UnaryExpr bool UnaryOperator expression
  | ConditionalExpr expression expression expression
  | CallExpr expression "expression list" "type_id list option"
  | SuperExpr "js_string option" "expression list option"
  | ThisExpr
  | PropertyAccessExpr expression js_string type_id "expression list option"
  | NewExpr expression "expression list option" "expression option" "type_id list option"
  | ParenthesizedExpr expression
  | ElementAccessExpr expression expression
  | AsExpr expression
  | FunctionExpr scope_id
  | TypeOfExpr expression
  | SpreadExpr expression
  | TemplateExpr expression "(expression \<times> expression) list"
  | OtherExpr

section \<open>Computations over the context\<close>

type_synonym 'a build = "BuildContext \<Rightarrow> ('a \<times> BuildContext) result"

definition ret :: "'a \<Rightarrow> 'a build" where
  "ret x = (\<lambda>c. Inr (x, c))"

definition throw :: "js_error \<Rightarrow> 'a build" where
  "throw e = (\<lambda>c. Inl e)"

definition bind_b :: "'a build \<Rightarrow> ('a \<Rightarrow> 'b build) \<Rightarrow> 'b build" where
  "bind_b m f = (\<lambda>c. bind_r (m c) (\<lambda>(x, c'). f x c'))"

definition modify :: "(BuildContext \<Rightarrow> BuildContext) \<Rightarrow> unit build" where
  "modify f = (\<lambda>c. Inr ((), f c))"

definition from_context :: "(BuildContext \<Rightarrow> 'a) \<Rightarrow> 'a build" where
  "from_context f = (\<lambda>c. Inr (f c, c))"

definition of_result :: "'a result \<Rightarrow> 'a build" where
  "of_result r = (\<lambda>c. bind_r r (\<lambda>x. Inr (x, c)))"

definition on_heap :: "(BuildContext \<Rightarrow> heap \<Rightarrow> ('a \<times> heap) result) \<Rightarrow> 'a build" where
  "on_heap f = (\<lambda>c. bind_r (f c (bc_heap c)) (\<lambda>(x, h). Inr (x, c\<lparr>bc_heap := h\<rparr>)))"

primrec each :: "('a \<Rightarrow> 'b build) \<Rightarrow> 'a list \<Rightarrow> 'b list build" where
  "each f [] = ret []"
| "each f (x # xs) = bind_b (f x) (\<lambda>y. bind_b (each f xs) (\<lambda>ys. ret (y # ys)))"

definition each_opt :: "('a \<Rightarrow> 'b build) \<Rightarrow> 'a option \<Rightarrow> 'b option build" where
  "each_opt f x = (case x of None \<Rightarrow> ret None | Some y \<Rightarrow> bind_b (f y) (\<lambda>z. ret (Some z)))"

text \<open>\<open>pushReference\<close> and \<open>popReference\<close> around a computation.\<close>

definition with_reference :: "ValueReferenceKind \<Rightarrow> 'a build \<Rightarrow> 'a build" where
  "with_reference k m =
     bind_b (modify (pushReference k)) (\<lambda>_. bind_b m (\<lambda>x. bind_b (modify popReference) (\<lambda>_. ret x)))"

section \<open>The surroundings\<close>

text \<open>
  What the expressions are built in: the heap of the front end with the bound \<open>x_fuel\<close> for searches
  through it, the expressions behind aliased exports, the fields of type objects that the datatype of
  types does not hold (\<open>isWASM\<close>, \<open>genericOwner\<close>, \<open>_class_or_instance\<close>, the identity of an object type), the
  tables of types of the module, and the functions of \<open>type_creator.ts\<close> that create types.
\<close>

record xenv =
  x_fe :: fe_heap
  x_fuel :: nat
  x_exprs :: "nat \<Rightarrow> expression"
  x_wasm :: "value_type \<Rightarrow> bool"
  x_genericOwner :: "value_type \<Rightarrow> value_type option"
  x_other :: "value_type \<Rightarrow> value_type option"
  x_objectTy :: "value_type \<Rightarrow> object_ty"
  x_typeOf :: "type_id \<Rightarrow> value_type option"
  x_builtinType :: "js_string \<Rightarrow> value_type option"
  x_predefined :: "PredefinedTypeId \<Rightarrow> value_type"
  x_typeOfMeta :: "meta_ref \<Rightarrow> value_type option"
  x_stringShape :: "shape_ref option"
  x_createType :: "type_id \<Rightarrow> value_type build"
  x_createArrayType :: "value_type \<Rightarrow> value_type build"
  x_createObjectType :: "type_id \<Rightarrow> value_type build"
  x_specialize :: "value_type \<Rightarrow> value_type option list \<Rightarrow> value_type"
  x_unionInterface :: "int \<Rightarrow> value_type list \<Rightarrow> BuildContext \<Rightarrow> value_type \<times> BuildContext"

fun object_flag :: "value_type \<Rightarrow> ObjectTypeFlag option" where
  "object_flag (ObjectType i m f ni si ta sa) = Some f"
| "object_flag (ArrayType i m f e ni ta sa) = Some f"
| "object_flag _ = None"

definition instanceType :: "xenv \<Rightarrow> value_type \<Rightarrow> value_type option" where
  "instanceType x t = (if isClassObject t then x_other x t else Some t)"

definition classType :: "xenv \<Rightarrow> value_type \<Rightarrow> value_type option" where
  "classType x t =
     (case object_flag t of
        Some ObjectTypeFlag.CLASS \<Rightarrow> Some t
      | Some ObjectTypeFlag.OBJECT \<Rightarrow> x_other x t
      | Some ObjectTypeFlag.LITERAL \<Rightarrow> instanceType x t
      | _ \<Rightarrow> None)"

section \<open>Values and their shapes\<close>

definition shape_from_type :: "xenv \<Rightarrow> heap \<Rightarrow> value_type \<Rightarrow> shape_ref option" where
  "shape_from_type x h t =
     (if vt_kind t = ValueTypeKind.OBJECT \<or> vt_kind t = ValueTypeKind.ARRAY \<or>
         vt_kind t = ValueTypeKind.MAP \<or> vt_kind t = ValueTypeKind.SET then type_this_shape h t
      else if vt_kind t = ValueTypeKind.RAW_STRING \<or> vt_kind t = ValueTypeKind.STRING then x_stringShape x
      else None)"

definition instance_shape :: "xenv \<Rightarrow> heap \<Rightarrow> (semantics_value ObjectDescription \<Rightarrow> shape_ref option) \<Rightarrow> value_type \<Rightarrow> shape_ref option" where
  "instance_shape x h sel t = Option.bind (instanceType x t) (\<lambda>i. Option.bind (meta_of i) (\<lambda>m. sel (metas h m)))"

text \<open>
  The shape that the constructor of a value sets, for a variable the shape that was assigned to its
  declaration. The constructor of \<open>VarValue\<close> sets the shape that the type has anyway.
\<close>

definition ctor_shape :: "xenv \<Rightarrow> BuildContext \<Rightarrow> semantics_value \<Rightarrow> shape_ref option" where
  "ctor_shape x c v =
     (let h = bc_heap c
      in case v of
           ThisValue t \<Rightarrow> instance_shape x h thisShape t
         | SuperValue t u ps \<Rightarrow> instance_shape x h originShape t
         | VarValue k t r \<Rightarrow> (case r of RefVar d \<Rightarrow> bc_varShape c (vd_id d) | _ \<Rightarrow> None)
         | CastValue k t w sh \<Rightarrow> sh
         | NewLiteralObjectValue ot vs \<Rightarrow> Option.bind (meta_of (ot_type ot)) (\<lambda>m. originShape (metas h m))
         | NewLiteralArrayValue t vs \<Rightarrow> if is_ArrayType t then instance_shape x h originShape t else None
         | NewConstructorObjectValue ot ps ta \<Rightarrow>
             if vt_kind (effectType (ot_type ot)) = ValueTypeKind.OBJECT then instance_shape x h originShape (effectType (ot_type ot)) else None
         | NewArrayLenValue t l \<Rightarrow> if is_ArrayType t then Option.bind (meta_of t) (\<lambda>m. originShape (metas h m)) else None
         | NewFromClassObjectValue t cl ps ta \<Rightarrow>
             if vt_kind t = ValueTypeKind.OBJECT then instance_shape x h thisShape t
             else if vt_kind (effectType t) = ValueTypeKind.OBJECT then instance_shape x h originShape (effectType t)
             else None
         | _ \<Rightarrow> None)"

text \<open>A binary expression has the shape of its left operand.\<close>

fun value_shape :: "xenv \<Rightarrow> BuildContext \<Rightarrow> semantics_value \<Rightarrow> shape_ref option" where
  "value_shape x c (BinaryExprValue t op l r) =
     (case value_shape x c l of Some s \<Rightarrow> Some s | None \<Rightarrow> shape_from_type x (bc_heap c) (effectType (sv_type l)))"
| "value_shape x c v = ctor_shape x c v"

definition new_value :: "xenv \<Rightarrow> semantics_value \<Rightarrow> built build" where
  "new_value x v = from_context (\<lambda>c. \<lparr>b_value = v, b_shape = ctor_shape x c v, b_var = None, b_func = None\<rparr>)"

definition plain :: "semantics_value \<Rightarrow> built" where
  "plain v = \<lparr>b_value = v, b_shape = None, b_var = None, b_func = None\<rparr>"

abbreviation built_type :: "built \<Rightarrow> value_type" where
  "built_type b \<equiv> sv_type (b_value b)"

abbreviation effect_type :: "built \<Rightarrow> value_type" where
  "effect_type b \<equiv> effectType (sv_type (b_value b))"

text \<open>The field \<open>_shape\<close>: the \<open>VarValue\<close> of a declaration is shared, its shape is in the context.\<close>

definition field_shape :: "BuildContext \<Rightarrow> built \<Rightarrow> shape_ref option" where
  "field_shape c b =
     (case Option.bind (b_var b) vv_ref of Some d \<Rightarrow> bc_varShape c d | None \<Rightarrow> b_shape b)"

definition get_shape :: "xenv \<Rightarrow> BuildContext \<Rightarrow> built \<Rightarrow> shape_ref option" where
  "get_shape x c b =
     (case field_shape c b of Some s \<Rightarrow> Some s | None \<Rightarrow> shape_from_type x (bc_heap c) (effect_type b))"

definition set_shape :: "shape_ref option \<Rightarrow> built \<Rightarrow> built build" where
  "set_shape s b = (\<lambda>c.
     case Option.bind (b_var b) vv_ref of
       Some d \<Rightarrow> Inr (b, c\<lparr>bc_varShape := (bc_varShape c)(d := s)\<rparr>)
     | None \<Rightarrow> Inr (b\<lparr>b_shape := s\<rparr>, c))"

text \<open>The value of a variable; the declaration is taken as it is at this moment, its number stays.\<close>

definition var_value :: "BuildContext \<Rightarrow> VarValue \<Rightarrow> semantics_value" where
  "var_value c v = VarValue (vv_kind v) (vv_type v)
     (case vv_ref v of
        Some d \<Rightarrow> RefVar (bc_decls c d)
      | None \<Rightarrow> (case vv_node v of FuncNode f \<Rightarrow> RefFunction (bc_funcs c f) | ObjNode ot \<Rightarrow> RefObject ot | _ \<Rightarrow> RefOther))"

definition built_var :: "VarValue \<Rightarrow> built build" where
  "built_var v = from_context (\<lambda>c. \<lparr>b_value = var_value c v, b_shape = vv_shape v, b_var = Some v, b_func = None\<rparr>)"

definition is_const_kind :: "SemanticsValueKind \<Rightarrow> bool" where
  "is_const_kind k \<longleftrightarrow> k = SemanticsValueKind_LOCAL_CONST \<or> k = SemanticsValueKind_GLOBAL_CONST \<or> k = SemanticsValueKind_CLOSURE_CONST"

text \<open>\<open>VarValue.copy\<close>: the copy keeps the shape of this moment.\<close>

definition copy_var :: "xenv \<Rightarrow> built \<Rightarrow> built build" where
  "copy_var x b = from_context (\<lambda>c. b\<lparr>b_shape := get_shape x c b, b_var := None\<rparr>)"

text \<open>Assigning the field \<open>type\<close>. The variables of the symbol tables are shared, so their entries change as well.\<close>

definition set_sv_type :: "value_type \<Rightarrow> semantics_value \<Rightarrow> semantics_value" where
  "set_sv_type t v = (case v of
       ThisValue _ \<Rightarrow> ThisValue t
     | SuperValue _ u ps \<Rightarrow> SuperValue t u ps
     | LiteralValue _ l \<Rightarrow> LiteralValue t l
     | VarValue k _ r \<Rightarrow> VarValue k t r
     | BinaryExprValue _ op l r \<Rightarrow> BinaryExprValue t op l r
     | PrefixUnaryExprValue _ y f \<Rightarrow> PrefixUnaryExprValue t y f
     | PostUnaryExprValue _ y f \<Rightarrow> PostUnaryExprValue t y f
     | ConditionExprValue _ cnd a b \<Rightarrow> ConditionExprValue t cnd a b
     | CommaExprValue _ ys \<Rightarrow> CommaExprValue t ys
     | FunctionCallValue _ f ps ta \<Rightarrow> FunctionCallValue t f ps ta
     | EnumerateKeysGetValue _ y \<Rightarrow> EnumerateKeysGetValue t y
     | ClosureCallValue _ f ps \<Rightarrow> ClosureCallValue t f ps
     | AnyCallValue _ f ps \<Rightarrow> AnyCallValue t f ps
     | ElementGetValue k _ ow ix \<Rightarrow> ElementGetValue k t ow ix
     | ElementSetValue k _ ow ix y op \<Rightarrow> ElementSetValue k t ow ix y op
     | CastValue k _ y sh \<Rightarrow> CastValue k t y sh
     | DynamicGetValue ow n mc _ \<Rightarrow> DynamicGetValue ow n mc t
     | DynamicSetValue ow n _ y op \<Rightarrow> DynamicSetValue ow n t y op
     | ShapeGetValue ow _ i \<Rightarrow> ShapeGetValue ow t i
     | ShapeSetValue ow _ i y op \<Rightarrow> ShapeSetValue ow t i y op
     | ShapeCallValue ow _ i ps \<Rightarrow> ShapeCallValue ow t i ps
     | OffsetGetValue ow _ i \<Rightarrow> OffsetGetValue ow t i
     | OffsetSetValue ow _ i y op \<Rightarrow> OffsetSetValue ow t i y op
     | OffsetGetterValue ow _ i \<Rightarrow> OffsetGetterValue ow t i
     | OffsetSetterValue ow _ i g y op \<Rightarrow> OffsetSetterValue ow t i g y op
     | OffsetCallValue ow ft _ i ps ta \<Rightarrow> OffsetCallValue ow ft t i ps ta
     | VTableGetValue ow _ i \<Rightarrow> VTableGetValue ow t i
     | VTableSetValue ow _ i y op \<Rightarrow> VTableSetValue ow t i y op
     | VTableCallValue ow _ i ps \<Rightarrow> VTableCallValue ow t i ps
     | DirectGetterValue ow _ g \<Rightarrow> DirectGetterValue ow t g
     | DirectCallValue ow _ m ps ta \<Rightarrow> DirectCallValue ow t m ps ta
     | DirectSetterValue ow _ s g y op \<Rightarrow> DirectSetterValue ow t s g y op
     | DirectGetValue ow _ i \<Rightarrow> DirectGetValue ow t i
     | NewLiteralObjectValue ot vs \<Rightarrow> NewLiteralObjectValue (ot\<lparr>ot_type := t\<rparr>) vs
     | NewLiteralArrayValue _ vs \<Rightarrow> NewLiteralArrayValue t vs
     | NewConstructorObjectValue ot ps ta \<Rightarrow> NewConstructorObjectValue (ot\<lparr>ot_type := t\<rparr>) ps ta
     | NewArrayValue _ ps \<Rightarrow> NewArrayValue t ps
     | NewArrayLenValue _ l \<Rightarrow> NewArrayLenValue t l
     | NewFromClassObjectValue _ cl ps ta \<Rightarrow> NewFromClassObjectValue t cl ps ta
     | SpreadValue _ y \<Rightarrow> SpreadValue t y
     | _ \<Rightarrow> v)"

definition retype_value :: "decl_ref \<Rightarrow> value_type \<Rightarrow> symbol_value \<Rightarrow> symbol_value" where
  "retype_value d t s = (case s of VarVal v \<Rightarrow> VarVal (if vv_ref v = Some d then v\<lparr>vv_type := t\<rparr> else v) | _ \<Rightarrow> s)"

definition retype_env :: "decl_ref \<Rightarrow> value_type \<Rightarrow> BuildEnv \<Rightarrow> BuildEnv" where
  "retype_env d t e =
     e\<lparr>be_symbols := map (\<lambda>(k, s). (k, retype_value d t s)) (be_symbols e),
       be_namedSymbols := map_option (map (\<lambda>(k, s). (k, retype_value d t s))) (be_namedSymbols e),
       be_closures := map_option (map (\<lambda>(k, v). (k, if vv_ref v = Some d then v\<lparr>vv_type := t\<rparr> else v))) (be_closures e)\<rparr>"

definition retype_var :: "decl_ref \<Rightarrow> value_type \<Rightarrow> BuildContext \<Rightarrow> BuildContext" where
  "retype_var d t c =
     c\<lparr>stackEnv := map (retype_env d t) (stackEnv c),
       globalSymbols := map (\<lambda>(k, s). (k, retype_value d t s)) (globalSymbols c)\<rparr>"

definition set_type :: "value_type \<Rightarrow> built \<Rightarrow> built build" where
  "set_type t b = (\<lambda>c.
     Inr (b\<lparr>b_value := set_sv_type t (b_value b), b_var := map_option (vv_type_update (\<lambda>_. t)) (b_var b)\<rparr>,
          case Option.bind (b_var b) vv_ref of Some d \<Rightarrow> retype_var d t c | None \<Rightarrow> c))"

text \<open>\<open>newCastValue\<close>; a conversion that returns the value itself keeps the object.\<close>

definition own_field :: "xenv \<Rightarrow> BuildContext \<Rightarrow> built list \<Rightarrow> semantics_value \<Rightarrow> shape_ref option" where
  "own_field x c bs v = (case find (\<lambda>b. b_value b = v) bs of Some b \<Rightarrow> field_shape c b | None \<Rightarrow> value_shape x c v)"

definition rebuilt :: "built \<Rightarrow> semantics_value \<Rightarrow> built" where
  "rebuilt b v = (if v = b_value b then b else (plain v)\<lparr>b_shape := own_shape (\<lambda>_. None) v\<rparr>)"

definition cast_to :: "xenv \<Rightarrow> value_type \<Rightarrow> built \<Rightarrow> built build" where
  "cast_to x t b =
     bind_b (on_heap (\<lambda>c. newCastValue (x_fuel x) (own_field x c [b]) t (b_value b))) (\<lambda>v. ret (rebuilt b v))"

end
