(* ===== verification/MemberAccess.thy ===== *)
theory MemberAccess
  imports Expressions
begin

text \<open>
  Access to the members of a value and binary operators (\<open>src/src/semantics/expression_builder.ts\<close>),
  once the operands are built.
\<close>

section \<open>Access by shape\<close>

definition return_type :: "value_type \<Rightarrow> value_type" where
  "return_type t = (case t of FunctionType i r as os rp ep ta sa \<Rightarrow> r | _ \<Rightarrow> t)"

definition call_value :: "value_type \<Rightarrow> semantics_value \<Rightarrow> built" where
  "call_value ft v = (plain v)\<lparr>b_func := Some ft\<rparr>"

definition createDynamicAccess :: "semantics_value \<Rightarrow> js_string \<Rightarrow> bool \<Rightarrow> bool \<Rightarrow> semantics_value" where
  "createDynamicAccess own name is_write is_method_call =
     (if name = js_lit ''toString'' then ToStringValue SemanticsValueKind_VALUE_TO_STRING own
      else if is_write then DynamicSetValue own name Primitive_Any None None
      else
        let k = vt_kind (sv_type own)
        in DynamicGetValue own name is_method_call
             (if (k = ValueTypeKind.WASM_ARRAY \<or> k = ValueTypeKind.WASM_STRUCT \<or> k = ValueTypeKind.TUPLE) \<and>
                 name = js_lit ''length'' then Primitive_Number else Primitive_Any))"

definition createShapeAccess :: "semantics_value \<Rightarrow> semantics_value MemberDescription \<Rightarrow> bool \<Rightarrow> bool \<Rightarrow> built" where
  "createShapeAccess own member is_write is_method_call =
     (let i = int (m_index member); t = valueType member
      in if is_write then plain (ShapeSetValue own t i None None)
         else if m_type member = MemberType.METHOD \<and> is_method_call then
           call_value t (ShapeCallValue own (return_type t) i None)
         else plain (ShapeGetValue own t i))"

definition createVTableAccess :: "semantics_value \<Rightarrow> semantics_value MemberDescription \<Rightarrow> bool \<Rightarrow> bool \<Rightarrow> built" where
  "createVTableAccess own member is_write is_method_call =
     (let i = int (m_index member); t = valueType member
      in if is_write then plain (VTableSetValue own t i None None)
         else if m_type member = MemberType.METHOD \<and> is_method_call then
           call_value t (VTableCallValue own (return_type t) i None)
         else plain (VTableGetValue own t i))"

text \<open>
  \<open>member.getterType!\<close> and the like: a field that is undefined makes a value without a type, which
  fails where the type is read first.
\<close>

definition required :: "'a option \<Rightarrow> 'a result" where
  "required v = (case v of Some w \<Rightarrow> Inr w | None \<Rightarrow> Inl JSTypeError)"

text \<open>\<open>!accessor.getter\<close>: an offset is a number, and 0 is falsy.\<close>

definition falsy_ref :: "'v code_ref option \<Rightarrow> bool" where
  "falsy_ref r = (case r of None \<Rightarrow> True | Some (Off n) \<Rightarrow> n = 0 | Some (Val v) \<Rightarrow> False)"

text \<open>\<open>getter.ref.thisClassType.instanceType\<close>.\<close>

definition getter_class :: "xenv \<Rightarrow> BuildContext \<Rightarrow> semantics_value \<Rightarrow> value_type result" where
  "getter_class x c getter = (case value_ref getter of
       RefFunction f \<Rightarrow> required (Option.bind (fi_thisClass (bc_finfo c (fh_id f))) (instanceType x))
     | _ \<Rightarrow> Inl JSTypeError)"

text \<open>The getter of a class: one that was inherited where the class defines the setter only yields \<open>undefined\<close>.\<close>

definition direct_getter ::
  "xenv \<Rightarrow> BuildContext \<Rightarrow> meta_ref \<Rightarrow> semantics_value \<Rightarrow> semantics_value MemberDescription \<Rightarrow> semantics_value \<Rightarrow> semantics_value result"
where
  "direct_getter x c owner_meta own member getter =
     bind_r (getter_class x c getter) (\<lambda>getter_type.
       let access = bind_r (required (m_getterType member)) (\<lambda>t. Inr (DirectGetterValue own t getter))
       in if isOwn member then
            bind_r (required (x_typeOfMeta x owner_meta)) (\<lambda>owner_type.
              if \<not> equals owner_type getter_type then Inr (LiteralValue Primitive_Undefined LUndefined) else access)
          else access)"

definition createDirectGet ::
  "xenv \<Rightarrow> BuildContext \<Rightarrow> meta_ref \<Rightarrow> semantics_value \<Rightarrow> semantics_value ShapeMember \<Rightarrow> semantics_value MemberDescription \<Rightarrow> bool \<Rightarrow> built result"
where
  "createDirectGet x c owner_meta own smem member is_method_call =
     (let t = valueType member
      in case smem of
           ShapeField off \<Rightarrow> bind_r (required off) (\<lambda>n. Inr (plain (OffsetGetValue own t n)))
         | ShapeAccessor st getter setter \<Rightarrow>
             if falsy_ref getter then Inr (plain (LiteralValue Primitive_Undefined LUndefined))
             else if st = ShapeMemberStorage.OFFSET then
               bind_r (required (m_getterType member)) (\<lambda>gt.
               bind_r (required (sa_getterOffset st getter)) (\<lambda>n.
                 Inr (plain (OffsetGetterValue own gt n))))
             else
               bind_r (required (sa_getterValue st getter)) (\<lambda>g.
               bind_r (direct_getter x c owner_meta own member g) (\<lambda>v. Inr (plain v)))
         | ShapeMethod st func \<Rightarrow>
             if st = ShapeMemberStorage.OFFSET then
               bind_r (required (methodOffset st func)) (\<lambda>n.
                 Inr (if is_method_call then call_value t (OffsetCallValue own t (return_type t) n None None)
                      else plain (OffsetGetValue own t n)))
             else if is_method_call then
               bind_r (required (methodValue st func)) (\<lambda>f.
                 Inr (call_value t (DirectCallValue own (return_type t) f None None)))
             else Inr (plain (DirectGetValue own t (int (m_index member)))))"

definition createDirectSet ::
  "semantics_value \<Rightarrow> semantics_value ShapeMember \<Rightarrow> semantics_value MemberDescription \<Rightarrow> bool \<Rightarrow> built result"
where
  "createDirectSet own smem member isThisShape =
     (case smem of
        ShapeField off \<Rightarrow> bind_r (required off) (\<lambda>n. Inr (plain (OffsetSetValue own (valueType member) n None None)))
      | ShapeAccessor st getter setter \<Rightarrow>
          if falsy_ref setter then
            Inr (if isThisShape then createVTableAccess own member True True else createShapeAccess own member True True)
          else
            bind_r (required (m_setterType member)) (\<lambda>t.
              if st = ShapeMemberStorage.OFFSET then
                bind_r (required (sa_setterOffset st setter)) (\<lambda>n.
                  Inr (plain (OffsetSetterValue own t n (sa_getterOffset st getter) None None)))
              else
                bind_r (required (sa_setterValue st setter)) (\<lambda>s.
                  Inr (plain (DirectSetterValue own t s (sa_getterValue st getter) None None))))
      | ShapeMethod st func \<Rightarrow> Inl (JSError ''wrong access''))"

definition createDirectAccess ::
  "xenv \<Rightarrow> BuildContext \<Rightarrow> meta_ref \<Rightarrow> semantics_value \<Rightarrow> semantics_value ShapeMember \<Rightarrow> semantics_value MemberDescription \<Rightarrow> bool \<Rightarrow> bool \<Rightarrow> bool \<Rightarrow>
   built result"
where
  "createDirectAccess x c owner_meta own smem member is_write isThisShape is_method_call =
     (if is_write then createDirectSet own smem member isThisShape
      else createDirectGet x c owner_meta own smem member is_method_call)"

text \<open>The constructors whose members are always accessed at run time.\<close>

definition fallbackConstructors :: "js_string list" where
  "fallbackConstructors = map js_lit [''Map'', ''Set'', ''Promise'', ''Date'', ''Error'']"

text \<open>The access without a shape; an object type tells the type of the member.\<close>

definition dynamic_access :: "heap \<Rightarrow> semantics_value \<Rightarrow> js_string \<Rightarrow> bool \<Rightarrow> bool \<Rightarrow> semantics_value" where
  "dynamic_access h own name is_write is_call =
     (let v = createDynamicAccess own name is_write is_call
      in case (if is_ObjectType (sv_type own) then meta_of (sv_type own) else None) of
           Some m \<Rightarrow> (case findMember name (metas h m) of Some mem \<Rightarrow> set_sv_type (valueType mem) v | None \<Rightarrow> v)
         | None \<Rightarrow> v)"

text \<open>The member of the type is taken when its kind of value differs from that of the shape.\<close>

definition typed_member ::
  "heap \<Rightarrow> value_type \<Rightarrow> js_string \<Rightarrow> semantics_value MemberDescription \<Rightarrow> semantics_value MemberDescription"
where
  "typed_member h t name member =
     (case (if is_ObjectType t then meta_of t else None) of
        Some m \<Rightarrow>
          (case findMember name (metas h m) of
             Some mem \<Rightarrow> if vt_kind (valueType mem) \<noteq> vt_kind (valueType member) then mem else member
           | None \<Rightarrow> member)
      | None \<Rightarrow> member)"

text \<open>
  The access to the member \<open>name\<close> of a value that is neither an enumeration nor a namespace. \<open>own_name\<close> is
  the name of the owner when it is an identifier. The assignment \<open>own.type.kind = ANY\<close> for the fallback
  constructors, which changes the type object for everyone, is left out.
\<close>

definition access_shape :: "xenv \<Rightarrow> built \<Rightarrow> js_string \<Rightarrow> js_string \<Rightarrow> bool \<Rightarrow> bool \<Rightarrow> BuildContext \<Rightarrow> built result" where
  "access_shape x own own_name name is_write is_call c =
     (let h = bc_heap c; v = b_value own
      in case get_shape x c own of
           None \<Rightarrow> Inr (plain (dynamic_access h v name is_write is_call))
         | Some s \<Rightarrow>
             if vt_kind (built_type own) = ValueTypeKind.ANY then Inr (plain (dynamic_access h v name is_write is_call))
             else
               let meta = s_meta (shapes h s); this_shape = isObjectInstance (metas h meta)
               in case findMember name (metas h meta) of
                    None \<Rightarrow> Inr (plain (createDynamicAccess v name is_write is_call))
                  | Some member \<Rightarrow>
                      if own_name \<in> set fallbackConstructors then Inr (plain (createDynamicAccess v name is_write is_call))
                      else
                        (case getMember (m_index member) (shapes h s) of
                           Some sm \<Rightarrow>
                             if isEmpty sm then
                               Inr (if this_shape then createVTableAccess v member is_write is_call
                                    else createShapeAccess v member is_write is_call)
                             else
                               createDirectAccess x c meta v sm (typed_member h (effect_type own) name member)
                                 is_write this_shape is_call
                         | None \<Rightarrow>
                             Inr (if this_shape then createVTableAccess v member is_write is_call
                                  else createShapeAccess v member is_write is_call)))"

text \<open>
  The second half of \<open>buildPropertyAccessExpression\<close>: a variable as the owner is copied first.
\<close>

definition access_member :: "xenv \<Rightarrow> built \<Rightarrow> js_string \<Rightarrow> js_string \<Rightarrow> bool \<Rightarrow> built build" where
  "access_member x own own_name name is_call =
     bind_b (from_context currentReference) (\<lambda>reference.
     bind_b (if is_VarValue_sv (b_value own) \<and> (case b_value own of VarValue k t r \<Rightarrow> \<not> is_const_kind k | _ \<Rightarrow> False)
             then copy_var x own else ret own) (\<lambda>own.
       (\<lambda>c. bind_r (access_shape x own own_name name (reference = ValueReferenceKind.LEFT) is_call c) (\<lambda>b. Inr (b, c)))))"

section \<open>Binary operators\<close>

definition isMemberSetValue :: "semantics_value \<Rightarrow> bool" where
  "isMemberSetValue v = (case v of
       DynamicSetValue ow n t y op \<Rightarrow> True
     | OffsetSetValue ow t i y op \<Rightarrow> True
     | OffsetSetterValue ow t i g y op \<Rightarrow> True
     | ShapeSetValue ow t i y op \<Rightarrow> True
     | DirectSetterValue ow t s g y op \<Rightarrow> True
     | VTableSetValue ow t i y op \<Rightarrow> True
     | ElementSetValue k t ow ix y op \<Rightarrow>
         k \<in> {SemanticsValueKind_STRING_INDEX_SET, SemanticsValueKind_ARRAY_INDEX_SET, SemanticsValueKind_OBJECT_INDEX_SET,
              SemanticsValueKind_OBJECT_KEY_SET, SemanticsValueKind_WASMARRAY_INDEX_SET, SemanticsValueKind_WASMSTRUCT_INDEX_SET}
     | _ \<Rightarrow> False)"

definition is_NewArrayLenValue :: "semantics_value \<Rightarrow> bool" where
  "is_NewArrayLenValue v = (case v of NewArrayLenValue t l \<Rightarrow> True | _ \<Rightarrow> False)"

definition is_WASMArrayType :: "value_type \<Rightarrow> bool" where
  "is_WASMArrayType t = (case t of WASMArrayType a p m n \<Rightarrow> True | _ \<Rightarrow> False)"

text \<open>The shape of the right operand goes to the left one of an assignment.\<close>

definition assign_shape :: "xenv \<Rightarrow> BinaryOperator \<Rightarrow> built \<Rightarrow> built \<Rightarrow> built build" where
  "assign_shape x op l r =
     (if isEqualOperator op then
        (\<lambda>c. bind_r (shapeAssignCheck (x_fuel x) (bc_heap c) (effect_type l) (effect_type r)) (\<lambda>ok.
               if ok then set_shape (get_shape x c r) l c else Inr (l, c)))
      else ret l)"

text \<open>
  The empty arrays among the values of an object literal get the types of the members that they are
  assigned to: one round of the loop over the values.
\<close>

definition retype_init ::
  "meta_ref \<Rightarrow> meta_ref \<Rightarrow> nat \<Rightarrow> semantics_value option list \<times> heap \<Rightarrow> (semantics_value option list \<times> heap) result"
where
  "retype_init l_meta r_meta i = (\<lambda>(vs, h).
     case js_array_get vs i of
       Some (NewArrayLenValue t len) \<Rightarrow>
         (case js_array_get (members (metas h r_meta)) i of
            None \<Rightarrow> Inl JSTypeError
          | Some r_member \<Rightarrow>
              (case findMember (m_name r_member) (metas h l_meta) of
                 Some l_member \<Rightarrow>
                   Inr (if vt_kind (valueType l_member) = ValueTypeKind.ARRAY
                        then (vs[i := Some (NewArrayLenValue (valueType l_member) len)],
                              upd_meta r_meta (members_update (\<lambda>ms. ms[i := Some (r_member\<lparr>valueType := valueType l_member\<rparr>)])) h)
                        else (vs, h))
               | None \<Rightarrow> Inr (vs, h)))
     | _ \<Rightarrow> Inr (vs, h))"

definition retype_inits :: "built \<Rightarrow> built \<Rightarrow> built build" where
  "retype_inits l r =
     (case (b_value r, meta_of (effect_type l)) of
        (NewLiteralObjectValue ot vs, Some l_meta) \<Rightarrow>
          (case (is_ObjectType (effect_type l), meta_of (ot_type ot)) of
             (True, Some r_meta) \<Rightarrow>
               bind_b (on_heap (\<lambda>c h. fold_r (retype_init l_meta r_meta) [0..<length vs] (vs, h))) (\<lambda>vs.
                 ret (r\<lparr>b_value := NewLiteralObjectValue ot vs\<rparr>))
           | _ \<Rightarrow> ret r)
      | _ \<Rightarrow> ret r)"

text \<open>
  The conversion of the operands. The first component of the result is true when the assignment is a
  store into a member, which is returned at once.
\<close>

definition specialized_by :: "xenv \<Rightarrow> value_type \<Rightarrow> value_type \<Rightarrow> bool" where
  "specialized_by x t u \<longleftrightarrow>
     (case x_genericOwner x t of Some g \<Rightarrow> x_genericOwner x u = None \<and> equals g u | None \<Rightarrow> False)"

definition on_operands ::
  "(heap \<Rightarrow> (semantics_value \<times> semantics_value \<times> heap) result) \<Rightarrow> built \<Rightarrow> built \<Rightarrow> (bool \<times> built \<times> built) build"
where
  "on_operands f l r = (\<lambda>c.
     bind_r (f (bc_heap c)) (\<lambda>(lv, rv, h). Inr ((False, rebuilt l lv, rebuilt r rv), c\<lparr>bc_heap := h\<rparr>)))"

definition assign_operands :: "xenv \<Rightarrow> built \<Rightarrow> built \<Rightarrow> (bool \<times> built \<times> built) build" where
  "assign_operands x l r =
     bind_b (retype_inits l r) (\<lambda>r.
       if is_NewArrayLenValue (b_value r) \<and> vt_kind (built_type l) = ValueTypeKind.ARRAY then
         bind_b (set_type (built_type l) r) (\<lambda>r. ret (False, l, r))
       else if is_WASMArrayType (effect_type l) \<and> is_ArrayType (built_type r) then ret (False, l, r)
       else bind_b (cast_to x (effect_type l) r) (\<lambda>r. ret (isMemberSetValue (b_value l), l, r)))"

definition convert_operands :: "xenv \<Rightarrow> BinaryOperator \<Rightarrow> built \<Rightarrow> built \<Rightarrow> (bool \<times> built \<times> built) build" where
  "convert_operands x op l r =
     (let is_equal = isEqualOperator op; store = (is_equal \<and> isMemberSetValue (b_value l))
      in if isCompareOperator op then
           (\<lambda>c. on_operands (compare_operands (x_fuel x) (own_field x c [l, r]) (x_wasm x) (b_value l) (b_value r)) l r c)
         else if specialized_by x (built_type l) (built_type r) then
           bind_b (set_type (built_type l) r) (\<lambda>r. ret (store, l, r))
         else if \<not> equals (effect_type l) (effect_type r) then
           (if is_equal then assign_operands x l r
            else if op \<noteq> InstanceOfKeyword then
              (\<lambda>c. on_operands (translate_operands (x_fuel x) (own_field x c [l, r]) (b_value l) (b_value r)) l r c)
            else ret (False, l, r))
         else ret (store, l, r))"

definition newBinaryExprValue ::
  "xenv \<Rightarrow> value_type option \<Rightarrow> BinaryOperator \<Rightarrow> built \<Rightarrow> built \<Rightarrow> built build"
where
  "newBinaryExprValue x type op l r =
     bind_b (assign_shape x op l r) (\<lambda>l.
     bind_b (convert_operands x op l r) (\<lambda>(store, l, r).
       if store then ret (l\<lparr>b_value := updateSetValue (b_value l) (b_value r) op\<rparr>)
       else
         let t = (if isCompareOperator op \<or> op = InstanceOfKeyword then Primitive_Boolean
                  else case type of Some t \<Rightarrow> t | None \<Rightarrow> effect_type l)
         in from_context (\<lambda>c. (plain (BinaryExprValue t op (b_value l) (b_value r)))\<lparr>b_shape := get_shape x c l\<rparr>)))"

section \<open>Symbols\<close>

definition SymbolValueToSemanticsValue :: "xenv \<Rightarrow> symbol_value \<Rightarrow> built option build" where
  "SymbolValueToSemanticsValue x value = (case value of
       VarVal v \<Rightarrow> bind_b (built_var v) (\<lambda>b. ret (Some b))
     | ValueVal b \<Rightarrow> ret (Some b)
     | NodeVal f \<Rightarrow>
         from_context (\<lambda>c. Some (plain (VarValue SemanticsValueKind_GLOBAL_CONST (fh_funcType (bc_funcs c f)) (RefFunction (bc_funcs c f)))))
     | DeclVal d \<Rightarrow>
         from_context (\<lambda>c. Some (plain (VarValue (storageType (bc_decls c d)) (vd_type (bc_decls c d)) (RefVar (bc_decls c d)))))
     | TypeVal t \<Rightarrow>
         if vt_kind t = ValueTypeKind.ENUM then
           ret (Some (plain (VarValue SemanticsValueKind_GLOBAL_CONST t RefOther)))
         else if is_ObjectType t then
           (case classType x t of
              Some ct \<Rightarrow> ret (Some (plain (VarValue SemanticsValueKind_GLOBAL_CONST ct (RefObject (x_objectTy x ct)))))
            | None \<Rightarrow> throw (JSError ''Cannot load as an identifier''))
         else ret None)"

text \<open>The scope of a namespace is found in the \<open>VarValue\<close>.\<close>

definition namespace_scope :: "built \<Rightarrow> scope_id option" where
  "namespace_scope b = (case map_option vv_node (b_var b) of Some (ScopeNode s) \<Rightarrow> Some s | _ \<Rightarrow> None)"

definition namespace_symbol :: "xenv \<Rightarrow> scope_id \<Rightarrow> js_string \<Rightarrow> symbol option result" where
  "namespace_symbol x s member =
     (let h = x_fe x; n = x_fuel x
      in bind_r (findIdentifier n h s member True importSearchTypes.All True) (\<lambda>found.
           if found = None \<and> scope_kind h s = ScopeKind.GlobalScope then
             (case map_get (sc_nameAliasExportMap (fe_scopes h s)) member of
                Some target \<Rightarrow> if target = [] then Inr None else findIdentifier n h s target True importSearchTypes.All False
              | None \<Rightarrow> Inr None)
           else Inr found))"

definition getValueFromNamespace :: "xenv \<Rightarrow> built \<Rightarrow> js_string \<Rightarrow> built build" where
  "getValueFromNamespace x ns member =
     (case namespace_scope ns of
        None \<Rightarrow> throw JSTypeError
      | Some s \<Rightarrow>
          bind_b (of_result (namespace_symbol x s member)) (\<lambda>found.
            case found of
              None \<Rightarrow> throw (JSError ''cannot find in namespace'')
            | Some name \<Rightarrow>
                bind_b (from_context (\<lambda>c. map_get (globalSymbols c) name)) (\<lambda>value.
                  case value of
                    None \<Rightarrow> throw (JSError ''undefined in namespace'')
                  | Some v \<Rightarrow>
                      bind_b (SymbolValueToSemanticsValue x v) (\<lambda>result.
                        case result of Some b \<Rightarrow> ret b | None \<Rightarrow> throw (JSError ''cannot create value'')))))"

end
