(* ===== verification/TypeArguments.thy ===== *)
theory TypeArguments
  imports MemberAccess
begin

text \<open>
  Parts of \<open>src/src/semantics/expression_builder.ts\<close> and \<open>src/src/utils.ts\<close> that the builders of
  expressions use: the guess of type arguments from the types of arguments, the names of specialised
  methods, escapes in names, and the conversion of numbers to integers.
\<close>

section \<open>Guessing type arguments\<close>

text \<open>\<open>updateTypeMap\<close>: the first guess for a type parameter stays.\<close>

definition updateTypeMap :: "value_type list \<Rightarrow> value_type \<Rightarrow> value_type \<Rightarrow> value_type option list \<Rightarrow> value_type option list" where
  "updateTypeMap params typeType vt typeArgs =
     (case find_index (\<lambda>p. p = typeType) params of
        Some i \<Rightarrow> if typeArgs ! i = None then typeArgs[i := Some vt] else typeArgs
      | None \<Rightarrow> typeArgs)"

definition is_context_kind :: "value_type \<Rightarrow> bool" where
  "is_context_kind t \<longleftrightarrow> vt_kind t = ValueTypeKind.CLOSURECONTEXT \<or> vt_kind t = ValueTypeKind.EMPTY"

text \<open>The two indices of \<open>guessFunctionType\<close>: the parameters of the template and of the value, without the contexts.\<close>

fun param_pairs :: "value_type list \<Rightarrow> value_type list \<Rightarrow> (value_type \<times> value_type) list" where
  "param_pairs (t # ts) (a # as) =
     (if is_context_kind a then param_pairs (t # ts) as
      else if is_context_kind t then param_pairs ts (a # as)
      else (t, a) # param_pairs ts as)"
| "param_pairs ts as = []"

lemma param_pairs_mem: "(t, a) \<in> set (param_pairs ts as) \<Longrightarrow> t \<in> set ts \<and> a \<in> set as"
  by (induction ts as rule: param_pairs.induct) (auto split: if_splits)

definition object_pairs :: "xenv \<Rightarrow> value_type \<Rightarrow> value_type \<Rightarrow> (value_type \<times> value_type) list" where
  "object_pairs x templateType vt =
     (case (typeArguments templateType, specialTypeArguments vt) of
        (Some ts, Some ss) \<Rightarrow> if x_genericOwner x vt = Some templateType then zip ts ss else []
      | _ \<Rightarrow> [])"

text \<open>The types that are compared after the tests of the kinds.\<close>

definition guess_pairs :: "xenv \<Rightarrow> value_type \<Rightarrow> value_type \<Rightarrow> (value_type \<times> value_type) list" where
  "guess_pairs x templateType vt =
     (case (templateType, vt) of
        (FunctionType i r as os rp ep ta sa, FunctionType i' r' as' os' rp' ep' ta' sa') \<Rightarrow>
          param_pairs as as' @ [(r, r')]
      | _ \<Rightarrow>
          if vt_kind vt = ValueTypeKind.OBJECT \<or> vt_kind vt = ValueTypeKind.ARRAY
          then object_pairs x templateType vt else [])"

lemma typeArguments_size: "typeArguments t = Some ts \<Longrightarrow> u \<in> set ts \<Longrightarrow> size u < size t"
  by (drule size_list_mem) (auto simp: typeArguments_def split: value_type.splits)

lemma object_pairs_size: "(t, a) \<in> set (object_pairs x tmpl v) \<Longrightarrow> size t < size tmpl"
  by (auto simp: object_pairs_def split: option.splits if_splits
      dest: set_zip_leftD intro!: typeArguments_size [OF sym])

lemma guess_pairs_size:
  assumes "(t, a) \<in> set (guess_pairs x tmpl v)"
  shows "size t < size tmpl"
proof -
  consider "(t, a) \<in> set (object_pairs x tmpl v)"
    | i r as os rp ep ta sa as' where "tmpl = FunctionType i r as os rp ep ta sa" "(t, a) \<in> set (param_pairs as as') \<or> t = r"
    using assms unfolding guess_pairs_def by (cases tmpl; cases v) (auto split: if_splits)
  then show ?thesis
  proof cases
    case 2
    then have "t \<in> set as \<or> t = r" using param_pairs_mem by blast
    then have "size t \<le> size_list size as \<or> t = r" using size_list_mem by blast
    with 2(1) show ?thesis by auto
  qed (rule object_pairs_size)
qed

function guessType ::
  "xenv \<Rightarrow> value_type list \<Rightarrow> value_type \<Rightarrow> value_type \<Rightarrow> value_type option list \<Rightarrow> value_type option list result"
where
  "guessType x params templateType vt typeArgs =
     (if vt_kind templateType = ValueTypeKind.TYPE_PARAMETER then Inr (updateTypeMap params templateType vt typeArgs)
      else case templateType of
        UnionType i ts w \<Rightarrow>
          Inr (fold (\<lambda>t a. if vt_kind t = ValueTypeKind.TYPE_PARAMETER then updateTypeMap params t vt a else a) ts typeArgs)
      | _ \<Rightarrow>
          if vt_kind vt \<noteq> vt_kind templateType then Inl (JSError ''Cannot guess the value type'')
          else fold_r (\<lambda>(t, v). guessType x params t v) (guess_pairs x templateType vt) typeArgs)"
  by pat_completeness auto
termination
  by (relation "measure (\<lambda>(x, ps, t, v, a). size t)") (auto dest: guess_pairs_size)

declare guessType.simps [simp del]

text \<open>\<open>buildTypeArguments\<close>: an object type is entered twice, as its instance type and as itself.\<close>

definition buildTypeArguments :: "xenv \<Rightarrow> (type_id \<Rightarrow> value_type option build) \<Rightarrow> type_id list \<Rightarrow> value_type list build" where
  "buildTypeArguments x type_at types =
     bind_b (each (\<lambda>t. bind_b (type_at t) (\<lambda>found.
         case found of
           None \<Rightarrow> throw (JSError ''buildTypeArguments failed'')
         | Some vt \<Rightarrow>
             if is_ObjectType vt then bind_b (of_result (required (instanceType x vt))) (\<lambda>i. ret [i, vt])
             else ret [vt])) types)
       (\<lambda>tss. ret (concat tss))"

definition updateValueTypeByTypeArguments :: "xenv \<Rightarrow> value_type \<Rightarrow> value_type option list \<Rightarrow> value_type" where
  "updateValueTypeByTypeArguments x t args = (if typeArguments t \<noteq> None then x_specialize x t args else t)"

text \<open>The loop of \<open>specializeFuncTypeArgumentsByArgs\<close> over the indices of the parameters and the types of the arguments.\<close>

fun guess_args ::
  "xenv \<Rightarrow> (type_id \<Rightarrow> value_type option build) \<Rightarrow> value_type list \<Rightarrow> value_type \<Rightarrow> nat list \<Rightarrow> type_id list \<Rightarrow>
   value_type option list \<Rightarrow> value_type option list build"
where
  "guess_args x type_at params func_type (i # is) (a # as) guess =
     bind_b (of_result (bind_r (getParamType (int i) func_type) required)) (\<lambda>temp_type.
       if is_context_kind temp_type then guess_args x type_at params func_type is (a # as) guess
       else
         bind_b (type_at a) (\<lambda>found.
         bind_b (of_result (required found)) (\<lambda>arg_type.
           if is_context_kind arg_type then guess_args x type_at params func_type (i # is) as guess
           else
             bind_b (of_result (guessType x params temp_type arg_type guess)) (\<lambda>guess.
               guess_args x type_at params func_type is as guess))))"
| "guess_args x type_at params func_type is as guess = ret guess"

definition specializeFuncTypeArgumentsByArgs ::
  "xenv \<Rightarrow> (type_id \<Rightarrow> value_type option build) \<Rightarrow> value_type \<Rightarrow> type_id list \<Rightarrow> type_id \<Rightarrow> value_type option list build"
where
  "specializeFuncTypeArgumentsByArgs x type_at func_type args ret_type =
     (case (typeArguments func_type, func_type) of
        (Some params, FunctionType i r as os rp ep ta sa) \<Rightarrow>
          bind_b (guess_args x type_at params func_type [0..<length as] args (replicate (length params) None)) (\<lambda>guess.
          bind_b (type_at ret_type) (\<lambda>found.
          bind_b (of_result (required found)) (\<lambda>t.
            of_result (guessType x params r t guess))))
      | _ \<Rightarrow> throw JSTypeError)"

section \<open>Names of specialised methods\<close>

text \<open>\<open>ValueTypeKind[v.kind].toLowerCase()\<close>.\<close>

primrec kind_name :: "ValueTypeKind \<Rightarrow> string" where
  "kind_name ValueTypeKind.PRIMITVE_BEGIN = ''primitve_begin''"
| "kind_name ValueTypeKind.VOID = ''void''"
| "kind_name ValueTypeKind.UNDEFINED = ''undefined''"
| "kind_name ValueTypeKind.NULL = ''null''"
| "kind_name ValueTypeKind.NEVER = ''never''"
| "kind_name ValueTypeKind.INT = ''int''"
| "kind_name ValueTypeKind.NUMBER = ''number''"
| "kind_name ValueTypeKind.BOOLEAN = ''boolean''"
| "kind_name ValueTypeKind.RAW_STRING = ''raw_string''"
| "kind_name ValueTypeKind.STRING = ''string''"
| "kind_name ValueTypeKind.ANY = ''any''"
| "kind_name ValueTypeKind.GENERIC = ''generic''"
| "kind_name ValueTypeKind.PRIMITVE_END = ''primitve_end''"
| "kind_name ValueTypeKind.ARRAY = ''array''"
| "kind_name ValueTypeKind.SET = ''set''"
| "kind_name ValueTypeKind.MAP = ''map''"
| "kind_name ValueTypeKind.OBJECT = ''object''"
| "kind_name ValueTypeKind.INTERFACE = ''interface''"
| "kind_name ValueTypeKind.FUNCTION = ''function''"
| "kind_name ValueTypeKind.UNION = ''union''"
| "kind_name ValueTypeKind.INTERSECTION = ''intersection''"
| "kind_name ValueTypeKind.NAMESPACE = ''namespace''"
| "kind_name ValueTypeKind.CLOSURECONTEXT = ''closurecontext''"
| "kind_name ValueTypeKind.EMPTY = ''empty''"
| "kind_name ValueTypeKind.TYPE_PARAMETER = ''type_parameter''"
| "kind_name ValueTypeKind.ENUM = ''enum''"
| "kind_name ValueTypeKind.TUPLE = ''tuple''"
| "kind_name ValueTypeKind.WASM_I64 = ''wasm_i64''"
| "kind_name ValueTypeKind.WASM_F32 = ''wasm_f32''"
| "kind_name ValueTypeKind.WASM_ARRAY = ''wasm_array''"
| "kind_name ValueTypeKind.WASM_STRUCT = ''wasm_struct''"

text \<open>
  The loop that derives the name of the specialised method from the types of the parameters and of
  the arguments: the signature is appended in every round in which there is a type argument.
\<close>

fun method_name :: "value_type list \<Rightarrow> value_type list \<Rightarrow> value_type list \<Rightarrow> js_string \<Rightarrow> js_string result" where
  "method_name [] args typeArgs name = Inr name"
| "method_name (p # ps) args typeArgs name =
     bind_r
       (if vt_kind p = ValueTypeKind.TYPE_PARAMETER then
          (case args of
             [] \<Rightarrow> Inl JSTypeError
           | a # _ \<Rightarrow> Inr (if vt_kind a \<noteq> ValueTypeKind.TYPE_PARAMETER then typeArgs @ [a] else typeArgs))
        else if vt_kind p = ValueTypeKind.ARRAY then
          (case args of
             [] \<Rightarrow> Inl JSTypeError
           | a # _ \<Rightarrow>
               if is_ArrayType a then
                 Inr (if vt_kind (element_of a) \<noteq> ValueTypeKind.TYPE_PARAMETER then typeArgs @ [element_of a] else typeArgs)
               else Inl JSTypeError)
        else Inr typeArgs)
       (\<lambda>typeArgs.
          method_name ps (tl args) typeArgs
            (if typeArgs = [] then name
             else name @ js_lit ''<'' @ js_join (js_lit '','') (map (\<lambda>t. js_lit (kind_name (vt_kind t))) typeArgs) @ js_lit ''>''))"

section \<open>Escapes\<close>

text \<open>\<open>decimalizationInternal\<close> for hexadecimal digits; \<open>None\<close> is the number NaN of a character that is no digit after 9.\<close>

definition hex_digit :: "16 word \<Rightarrow> nat \<Rightarrow> nat option" where
  "hex_digit ch num =
     (let code = unat ch
      in if 65 \<le> code \<and> code \<le> 70 then Some (10 + code - 65)
         else if 97 \<le> code \<and> code \<le> 102 then Some (10 + code - 97)
         else if 48 \<le> code \<and> code \<le> 57 then Some (code - 48)
         else if code = 58 \<or> code = 59 then None
         else Some num)"

fun decimalizationInternal :: "js_string \<Rightarrow> nat \<Rightarrow> nat \<Rightarrow> nat option" where
  "decimalizationInternal [] value num = Some value"
| "decimalizationInternal (ch # s) value num =
     (case hex_digit ch num of
        Some num' \<Rightarrow> decimalizationInternal s (value * 16 + num') num'
      | None \<Rightarrow> None)"

text \<open>\<open>String.fromCharCode(parseFloat(code))\<close>; NaN becomes the character 0.\<close>

definition hex_char :: "js_string \<Rightarrow> 16 word" where
  "hex_char s = (case decimalizationInternal s 0 0 of Some n \<Rightarrow> word_of_nat n | None \<Rightarrow> 0)"

definition quotes :: "js_string" where
  "quotes = map word_of_nat [34, 39, 92]"

definition escape_table :: "(16 word \<times> 16 word) list" where
  "escape_table = [(110, 10), (114, 13), (116, 9), (98, 8), (102, 12)]"

text \<open>The loop of \<open>processEscape\<close>: \<open>at_start\<close> holds in the first round, the rest of the string is the list.\<close>

function escape_loop :: "bool \<Rightarrow> js_string \<Rightarrow> js_string" where
  "escape_loop at_start [] = []"
| "escape_loop at_start [ch] = (if ch \<in> set quotes then [] else [ch])"
| "escape_loop at_start (ch # d # s) =
     (if ch = 92 then
        (if d \<in> set quotes then d # escape_loop False s
         else case map_of escape_table d of
           Some e \<Rightarrow> e # escape_loop False s
         | None \<Rightarrow>
             if d = 120 then hex_char (take 2 s) # escape_loop False (drop 2 s)
             else escape_loop False s)
      else if ch \<in> set quotes \<and> at_start then escape_loop False (d # s)
      else ch # escape_loop False (d # s))"
  by pat_completeness auto
termination by (relation "measure (length \<circ> snd)") auto

definition processEscape :: "js_string \<Rightarrow> js_string" where
  "processEscape str = escape_loop True str"

section \<open>Integers\<close>

fun bit_length :: "nat \<Rightarrow> nat" where
  "bit_length n = (if n = 0 then 0 else Suc (bit_length (n div 2)))"

declare bit_length.simps [simp del]

text \<open>The IEEE 754 double of an integer of at most 53 bits.\<close>

definition double_of_int :: "int \<Rightarrow> 64 word" where
  "double_of_int i =
     (if i = 0 then 0
      else
        let a = nat \<bar>i\<bar>; e = bit_length a - 1
        in word_of_nat ((if i < 0 then 2 ^ 63 else 0) + (e + 1023) * 2 ^ 52 + (a - 2 ^ e) * 2 ^ (52 - e)))"

text \<open>\<open>n | 0\<close>.\<close>

definition toInt :: "64 word \<Rightarrow> 64 word" where
  "toInt n = (case number_fraction n of
       Some (p, q) \<Rightarrow> double_of_int (to_int32 (if p < 0 then - (- p div q) else p div q))
     | None \<Rightarrow> 0)"

end
