(* ===== verification/ExpressionBuilder.thy ===== *)
theory ExpressionBuilder
  imports TypeArguments
begin

text \<open>
  The builders of \<open>src/src/semantics/expression_builder.ts\<close>, one definition for each class of
  expression. Their argument \<open>rec\<close> is \<open>buildExpression\<close> itself; the function that ties the knot is at
  the end.
\<close>

type_synonym builder = "expression \<Rightarrow> built build"

text \<open>The expression behind an aliased export, which a lookup of symbols builds.\<close>

definition build_export :: "xenv \<Rightarrow> builder \<Rightarrow> fe_expr \<Rightarrow> built build" where
  "build_export x rec e = (case e of
       IdentifierExpression name \<Rightarrow> rec (Expression 0 (IdentifierExpr name))
     | OtherExpression n \<Rightarrow> rec (x_exprs x n))"

definition find_symbol :: "xenv \<Rightarrow> builder \<Rightarrow> js_string \<Rightarrow> importSearchTypes \<Rightarrow> symbol_value option build" where
  "find_symbol x rec name search = findSymbol (x_fuel x) (x_fe x) (build_export x rec) (x_typeOf x) name search"

definition find_key :: "xenv \<Rightarrow> builder \<Rightarrow> symbol \<Rightarrow> symbol_value option build" where
  "find_key x rec key = findSymbolKey (x_fe x) (build_export x rec) (x_typeOf x) key"

definition type_by_key :: "xenv \<Rightarrow> builder \<Rightarrow> type_id \<Rightarrow> value_type option build" where
  "type_by_key x rec t = findValueTypeByKey (x_fe x) (build_export x rec) (x_typeOf x) (SymType t)"

definition value_type_of :: "xenv \<Rightarrow> builder \<Rightarrow> type_id \<Rightarrow> value_type option build" where
  "value_type_of x rec t = findValueType (x_fe x) (build_export x rec) (x_typeOf x) t"

abbreviation require :: "'a option \<Rightarrow> 'a build" where
  "require v \<equiv> of_result (required v)"

abbreviation right :: "'a build \<Rightarrow> 'a build" where
  "right m \<equiv> with_reference ValueReferenceKind.RIGHT m"

definition js_set :: "'a list \<Rightarrow> 'a list" where
  "js_set xs = rev (remdups (rev xs))"

definition wide_type :: "xenv \<Rightarrow> value_type list \<Rightarrow> value_type build" where
  "wide_type x types = (\<lambda>c. Inr (CreateWideTypeFromTypes (x_unionInterface x) (js_set types) c))"

section \<open>Identifiers and literals\<close>

text \<open>\<open>if (!ret) ret = ...\<close>.\<close>

definition or_else :: "'a option build \<Rightarrow> 'a option build \<Rightarrow> 'a option build" where
  "or_else m m' = bind_b m (\<lambda>r. case r of Some v \<Rightarrow> ret (Some v) | None \<Rightarrow> m')"

definition nan_bits :: "64 word" where
  "nan_bits = 0x7FF8000000000000"

definition infinity_bits :: "64 word" where
  "infinity_bits = 0x7FF0000000000000"

definition buildIdentiferExpression :: "xenv \<Rightarrow> builder \<Rightarrow> js_string \<Rightarrow> built build" where
  "buildIdentiferExpression x rec name =
     (if name = js_lit ''undefined'' then ret (plain (LiteralValue Primitive_Undefined LUndefined))
      else if name = js_lit ''NaN'' then ret (plain (LiteralValue Primitive_Number (LNumber nan_bits)))
      else if name = js_lit ''Infinity'' then ret (plain (LiteralValue Primitive_Number (LNumber infinity_bits)))
      else
        bind_b
          (or_else (find_symbol x rec name importSearchTypes.Variable)
          (or_else (find_symbol x rec name importSearchTypes.Function)
          (or_else (find_symbol x rec name importSearchTypes.Class)
          (or_else (case x_builtinType x name of
                      Some t \<Rightarrow> ret (Some (TypeVal t))
                    | None \<Rightarrow> find_symbol x rec name importSearchTypes.Type)
            (find_symbol x rec name importSearchTypes.Namespace))))) (\<lambda>found.
        bind_b (case found of Some v \<Rightarrow> SymbolValueToSemanticsValue x v | None \<Rightarrow> ret None) (\<lambda>result.
          case result of Some b \<Rightarrow> ret b | None \<Rightarrow> throw (JSError ''Cannot find the idenentifier''))))"

definition string_literal :: "string \<Rightarrow> built" where
  "string_literal s = plain (LiteralValue Primitive_String (LString (js_lit s)))"

definition buildTypeOfExpression :: "xenv \<Rightarrow> builder \<Rightarrow> expression \<Rightarrow> built build" where
  "buildTypeOfExpression x rec e =
     (let k = ts_kind (fe_type (x_fe x) (exprType e))
      in if k = TypeKind.STRING then ret (string_literal ''string'')
         else if k = TypeKind.NUMBER then ret (string_literal ''number'')
         else if k = TypeKind.BOOLEAN then ret (string_literal ''boolean'')
         else if k = TypeKind.UNDEFINED then ret (string_literal ''undefined'')
         else if k = TypeKind.FUNCTION then ret (string_literal ''function'')
         else if k = TypeKind.ARRAY \<or> k = TypeKind.ENUM \<or> k = TypeKind.INTERFACE \<or> k = TypeKind.CLASS \<or> k = TypeKind.NULL
         then ret (string_literal ''object'')
         else if k = TypeKind.UNION \<or> k = TypeKind.ANY then bind_b (rec e) (\<lambda>b. ret (plain (TypeofValue (b_value b))))
         else throw (JSError ''unimpl typeof''))"

definition buildTemplateExpression :: "xenv \<Rightarrow> builder \<Rightarrow> expression \<Rightarrow> (expression \<times> expression) list \<Rightarrow> built build" where
  "buildTemplateExpression x rec head spans =
     bind_b (rec head) (\<lambda>h.
     bind_b (each (\<lambda>(e, literal).
         bind_b (rec e) (\<lambda>b.
         bind_b (cast_to x Primitive_String b) (\<lambda>b.
         bind_b (rec literal) (\<lambda>l. ret [b_value b, b_value l])))) spans) (\<lambda>follows.
       ret (plain (TemplateExprValue (b_value h) (concat follows)))))"

definition findObjectLiteralType :: "xenv \<Rightarrow> builder \<Rightarrow> type_id \<Rightarrow> value_type build" where
  "findObjectLiteralType x rec t =
     bind_b (value_type_of x rec t) (\<lambda>found. case found of Some vt \<Rightarrow> ret vt | None \<Rightarrow> x_createObjectType x t)"

text \<open>One round of the loop over the fields of an object literal.\<close>

definition init_field ::
  "xenv \<Rightarrow> builder \<Rightarrow> meta_ref \<Rightarrow> js_string \<times> expression \<Rightarrow> semantics_value option list \<Rightarrow> semantics_value option list build"
where
  "init_field x rec meta = (\<lambda>(name, e) vs.
     bind_b (from_context (\<lambda>c. findMember (processEscape name) (metas (bc_heap c) meta))) (\<lambda>member.
       case member of
         Some m \<Rightarrow> bind_b (right (rec e)) (\<lambda>b. ret (js_array_set vs (m_index m) (b_value b)))
       | None \<Rightarrow> throw (JSError ''Cannot init'')))"

primrec fold_b :: "('a \<Rightarrow> 's \<Rightarrow> 's build) \<Rightarrow> 'a list \<Rightarrow> 's \<Rightarrow> 's build" where
  "fold_b f [] s = ret s"
| "fold_b f (y # ys) s = bind_b (f y s) (\<lambda>s. fold_b f ys s)"

definition buildObjectLiteralExpression ::
  "xenv \<Rightarrow> builder \<Rightarrow> type_id \<Rightarrow> js_string list \<Rightarrow> expression list \<Rightarrow> built build"
where
  "buildObjectLiteralExpression x rec t names vals =
     bind_b (findObjectLiteralType x rec t) (\<lambda>object_type.
     bind_b (require (meta_of object_type)) (\<lambda>meta.
     bind_b (from_context (\<lambda>c. replicate (length (members (metas (bc_heap c) meta))) None)) (\<lambda>vs.
     bind_b (fold_b (init_field x rec meta) (zip names vals) vs) (\<lambda>vs.
       new_value x (NewLiteralObjectValue (x_objectTy x object_type) vs)))))"

subsection \<open>Arrays\<close>

text \<open>The type that is expected for the element \<open>i\<close>: of a tuple or structure, or of the whole array.\<close>

definition element_type_at :: "xenv \<Rightarrow> type_id \<Rightarrow> value_type option \<Rightarrow> nat \<Rightarrow> value_type option build" where
  "element_type_at x t element i =
     (case fe_type (x_fe x) t of
        TSTuple es \<Rightarrow> bind_b (require (js_index es (int i))) (\<lambda>e. bind_b (x_createType x e) (\<lambda>vt. ret (Some vt)))
      | WasmStructType tup p m n b \<Rightarrow>
          (case fe_type (x_fe x) tup of
             TSTuple es \<Rightarrow> bind_b (require (js_index es (int i))) (\<lambda>e. bind_b (x_createType x e) (\<lambda>vt. ret (Some vt)))
           | _ \<Rightarrow> throw JSTypeError)
      | _ \<Rightarrow> ret element)"

definition array_element_value :: "xenv \<Rightarrow> builder \<Rightarrow> type_id \<Rightarrow> value_type option \<Rightarrow> nat \<times> expression \<Rightarrow> built build" where
  "array_element_value x rec t element = (\<lambda>(i, e).
     right (bind_b (rec e) (\<lambda>b.
            bind_b (element_type_at x t element i) (\<lambda>et. case et of Some u \<Rightarrow> cast_to x u b | None \<Rightarrow> ret b))))"

text \<open>The type that an element adds to the types of the array: of a spread array the type of its elements.\<close>

definition init_array_type :: "semantics_value \<Rightarrow> value_type" where
  "init_array_type v = (case v of
       SpreadValue t target \<Rightarrow>
         if vt_kind (sv_type target) = ValueTypeKind.ARRAY then element_of (sv_type target)
         else if vt_kind (sv_type target) = ValueTypeKind.ANY then sv_type target
         else t
     | _ \<Rightarrow> sv_type v)"

definition is_tuple_literal :: "ts_type \<Rightarrow> bool" where
  "is_tuple_literal t = (case t of TSTuple es \<Rightarrow> True | WasmStructType tup p m n b \<Rightarrow> True | _ \<Rightarrow> False)"

definition is_WasmArrayType :: "ts_type \<Rightarrow> bool" where
  "is_WasmArrayType t = (case t of WasmArrayType a p m n \<Rightarrow> True | _ \<Rightarrow> False)"

definition is_unknown_array :: "fe_heap \<Rightarrow> ts_type \<Rightarrow> bool" where
  "is_unknown_array h t = (case t of TSArray e \<Rightarrow> ts_kind (fe_type h e) = TypeKind.UNKNOWN | _ \<Rightarrow> False)"

definition expected_element :: "xenv \<Rightarrow> type_id \<Rightarrow> value_type option \<Rightarrow> value_type option build" where
  "expected_element x t literal_type =
     (case fe_type (x_fe x) t of
        WasmArrayType a p m n \<Rightarrow>
          (case fe_type (x_fe x) a of
             TSArray e \<Rightarrow> bind_b (x_createType x e) (\<lambda>vt. ret (Some vt))
           | _ \<Rightarrow> throw JSTypeError)
      | _ \<Rightarrow> ret (case literal_type of Some vt \<Rightarrow> if is_ArrayType vt then Some (element_of vt) else None | None \<Rightarrow> None))"

text \<open>The end of the function for arrays proper: the elements are converted to the type of the elements.\<close>

definition finish_array :: "xenv \<Rightarrow> type_id \<Rightarrow> value_type \<Rightarrow> built list \<Rightarrow> built build" where
  "finish_array x t array_type inits =
     (let elem = element_of array_type
      in bind_b (each (\<lambda>b. if equals elem (built_type b) then ret b else cast_to x elem b) inits) (\<lambda>bs.
         bind_b (case bs of
                   [] \<Rightarrow> ret array_type
                 | b # _ \<Rightarrow>
                     if vt_kind elem = ValueTypeKind.TYPE_PARAMETER \<and> \<not> equals (built_type b) elem
                     then x_createArrayType x (built_type b) else ret array_type) (\<lambda>array_type.
         bind_b (if is_WasmArrayType (fe_type (x_fe x) t) then x_createType x t else ret array_type) (\<lambda>literal_type.
           new_value x (NewLiteralArrayValue literal_type (map b_value bs))))))"

definition buildArrayLiteralExpression :: "xenv \<Rightarrow> builder \<Rightarrow> type_id \<Rightarrow> expression list \<Rightarrow> built build" where
  "buildArrayLiteralExpression x rec t es =
     (if es = [] \<and> is_unknown_array (x_fe x) (fe_type (x_fe x) t) then
        new_value x (NewArrayLenValue (x_predefined x PredefinedTypeId_ARRAY_ANY) (LiteralValue Primitive_Int (LNumber 0)))
      else
        bind_b (value_type_of x rec t) (\<lambda>found.
        bind_b (expected_element x t found) (\<lambda>element.
        bind_b (each (array_element_value x rec t element) (enumerate 0 es)) (\<lambda>inits.
        bind_b (case found of
                  Some vt \<Rightarrow> if vt_kind vt = ValueTypeKind.ARRAY then ret vt
                             else bind_b (wide_type x (map (init_array_type \<circ> b_value) inits)) (x_createArrayType x)
                | None \<Rightarrow> bind_b (wide_type x (map (init_array_type \<circ> b_value) inits)) (x_createArrayType x)) (\<lambda>array_type.
          if is_tuple_literal (fe_type (x_fe x) t) then
            bind_b (x_createType x t) (\<lambda>vt. new_value x (NewLiteralArrayValue vt (map b_value inits)))
          else finish_array x t array_type inits)))))"

section \<open>Operators\<close>

text \<open>The type of an array of literals is replaced by the type of the property that it is assigned to.\<close>

definition literal_operand :: "fe_heap \<Rightarrow> expression \<Rightarrow> expression \<Rightarrow> expression" where
  "literal_operand h l r =
     (case (x_node r, fe_type h (exprType r), x_node l) of
        (ArrayLiteralExpr es, TSArray elem, PropertyAccessExpr own name t args) \<Rightarrow>
          (case fe_type h elem of
             TSClass c \<Rightarrow> if cls_isLiteral c then Expression t (ArrayLiteralExpr es) else r
           | _ \<Rightarrow> r)
      | _ \<Rightarrow> r)"

definition is_array_length :: "fe_heap \<Rightarrow> expression \<Rightarrow> bool" where
  "is_array_length h e = (case x_node e of
       PropertyAccessExpr own name t args \<Rightarrow> ts_kind (fe_type h (exprType own)) = TypeKind.ARRAY \<and> name = js_lit ''length''
     | _ \<Rightarrow> False)"

text \<open>The right operand; for a compound assignment it is the value of the operation.\<close>

definition build_right_operand :: "xenv \<Rightarrow> builder \<Rightarrow> BinaryOperator \<Rightarrow> expression \<Rightarrow> expression \<Rightarrow> built build" where
  "build_right_operand x rec op leftOperand rightOperand =
     right (bind_b (rec rightOperand) (\<lambda>r.
       if flattenOperator op = op then ret r
       else bind_b (rec leftOperand) (\<lambda>l. newBinaryExprValue x None (flattenOperator op) l r)))"

definition buildBinaryExpression :: "xenv \<Rightarrow> builder \<Rightarrow> BinaryOperator \<Rightarrow> expression \<Rightarrow> expression \<Rightarrow> built build" where
  "buildBinaryExpression x rec op leftOperand rightOperand =
     (let is_equal = isEqualOperator op;
          reference = (if is_equal then ValueReferenceKind.LEFT else ValueReferenceKind.RIGHT);
          is_length = (is_equal \<and> is_array_length (x_fe x) leftOperand)
      in bind_b (with_reference reference (rec leftOperand)) (\<lambda>l.
         bind_b (build_right_operand x rec op leftOperand (literal_operand (x_fe x) leftOperand rightOperand)) (\<lambda>r.
         bind_b (if is_length then set_type Primitive_Int l else ret l) (\<lambda>l.
         bind_b (if is_length then set_type Primitive_Int r else ret r) (\<lambda>r.
           newBinaryExprValue x None (if flattenOperator op = op then op else EqualsToken) l r)))))"

definition buildCommaExpression :: "xenv \<Rightarrow> builder \<Rightarrow> type_id \<Rightarrow> expression list \<Rightarrow> built build" where
  "buildCommaExpression x rec t es =
     bind_b (each (\<lambda>e. right (rec e)) es) (\<lambda>bs.
     bind_b (value_type_of x rec t) (\<lambda>found.
     bind_b (require found) (\<lambda>vt. ret (plain (CommaExprValue vt (map b_value bs))))))"

definition buildConditionalExpression :: "xenv \<Rightarrow> builder \<Rightarrow> expression \<Rightarrow> expression \<Rightarrow> expression \<Rightarrow> built build" where
  "buildConditionalExpression x rec cond whenTrue whenFalse =
     bind_b (right (bind_b (rec cond) (cast_to x Primitive_Boolean))) (\<lambda>c.
     bind_b (right (rec whenTrue)) (\<lambda>t.
     bind_b (right (rec whenFalse)) (\<lambda>f.
     bind_b (if equals (built_type t) (built_type f) then ret (built_type t)
             else (\<lambda>ctx. Inr (createUnionType (x_unionInterface x) (js_set [built_type t, built_type f]) ctx))) (\<lambda>rt.
       ret (plain (ConditionExprValue rt (b_value c) (b_value t) (b_value f)))))))"

definition double_one :: "64 word" where
  "double_one = double_of_int 1"

definition buildUnaryExpression :: "xenv \<Rightarrow> builder \<Rightarrow> bool \<Rightarrow> UnaryOperator \<Rightarrow> expression \<Rightarrow> built build" where
  "buildUnaryExpression x rec is_prefix op operand =
     bind_b (right (rec operand)) (\<lambda>v.
     bind_b (case op of
               PlusPlusToken \<Rightarrow>
                 bind_b (buildBinaryExpression x rec PlusEqualsToken operand (Expression 0 (NumberLiteralExpr double_one False))) (\<lambda>b. ret (Some b))
             | MinusMinusToken \<Rightarrow>
                 bind_b (buildBinaryExpression x rec MinusEqualsToken operand (Expression 0 (NumberLiteralExpr double_one False))) (\<lambda>b. ret (Some b))
             | MinusUnaryToken \<Rightarrow>
                 bind_b (buildBinaryExpression x rec MinusToken (Expression 0 (NumberLiteralExpr 0 False)) operand) (\<lambda>b. ret (Some b))
             | OtherUnaryToken \<Rightarrow> ret None) (\<lambda>flat.
       let t = built_type v; f = map_option b_value flat
       in ret (plain (if is_prefix then PrefixUnaryExprValue t (b_value v) f else PostUnaryExprValue t (b_value v) f))))"

section \<open>Members and elements\<close>

text \<open>The name of the method for a call of a generic method.\<close>

definition specialized_name ::
  "xenv \<Rightarrow> builder \<Rightarrow> built \<Rightarrow> js_string \<Rightarrow> type_id \<Rightarrow> expression list option \<Rightarrow> js_string build"
where
  "specialized_name x rec own name t args =
     (case args of
        None \<Rightarrow> ret name
      | Some es \<Rightarrow>
          if is_ObjectType (effect_type own) \<and> x_genericOwner x (effect_type own) = None then
            bind_b (of_result (isTypeGeneric (x_fuel x) (fe_types (x_fe x)) t)) (\<lambda>generic.
              if generic \<and> es \<noteq> [] then
                bind_b (x_createType x t) (\<lambda>func_type.
                bind_b (each rec es) (\<lambda>bs.
                  case func_type of
                    FunctionType i r as os rp ep ta sa \<Rightarrow> of_result (method_name as (map built_type bs) [] name)
                  | _ \<Rightarrow> throw JSTypeError))
              else ret name)
          else ret name)"

definition enum_member :: "js_string \<Rightarrow> (js_string, int + js_string) js_map \<Rightarrow> built result" where
  "enum_member name ms = (case map_get ms name of
       None \<Rightarrow> Inl (JSError ''Unkonw enum member'')
     | Some (Inr s) \<Rightarrow> Inr (plain (LiteralValue Primitive_String (LString s)))
     | Some (Inl n) \<Rightarrow> Inr (plain (LiteralValue Primitive_Int (LNumber (double_of_int n)))))"

definition identifier_name :: "expression \<Rightarrow> js_string" where
  "identifier_name e = (case x_node e of IdentifierExpr n \<Rightarrow> n | _ \<Rightarrow> [])"

definition buildPropertyAccessExpression ::
  "xenv \<Rightarrow> builder \<Rightarrow> expression \<Rightarrow> js_string \<Rightarrow> type_id \<Rightarrow> expression list option \<Rightarrow> built build"
where
  "buildPropertyAccessExpression x rec e name t args =
     bind_b (right (rec e)) (\<lambda>own.
       if b_value own = NopValue then throw (JSError ''buildPropertyAccessExpression: Got NopValue'')
       else
         bind_b (specialized_name x rec own name t args) (\<lambda>name.
           case effect_type own of
             EnumType i n mt ms \<Rightarrow> of_result (enum_member name ms)
           | _ \<Rightarrow>
               if vt_kind (effect_type own) = ValueTypeKind.NAMESPACE then getValueFromNamespace x own name
               else access_member x own (identifier_name e) name (args \<noteq> None)))"

definition literal_index :: "semantics_value \<Rightarrow> nat option" where
  "literal_index v = (case literal_of v of
       Some (LNumber w) \<Rightarrow>
         (case number_fraction w of Some (p, q) \<Rightarrow> if 0 \<le> p \<and> p mod q = 0 then Some (nat (p div q)) else None | None \<Rightarrow> None)
     | _ \<Rightarrow> None)"

text \<open>\<open>elements[index]\<close> of a tuple for a literal index; \<open>any\<close> when the index is no literal.\<close>

definition tuple_element :: "value_type \<Rightarrow> semantics_value \<Rightarrow> value_type result" where
  "tuple_element t arg =
     (if literal_of arg = None then Inr Primitive_Any
      else case (tuple_elements t, literal_index arg) of
        (Some es, Some i) \<Rightarrow> if i < length es then Inr (es ! i) else Inl JSTypeError
      | _ \<Rightarrow> Inl JSTypeError)"

text \<open>The kind of the access by a number and the type of the element.\<close>

definition index_access :: "value_type \<Rightarrow> semantics_value \<Rightarrow> bool \<Rightarrow> (SemanticsValueKind \<times> value_type) result" where
  "index_access t arg is_set =
     (let pick = (\<lambda>s g. if is_set then s else g)
      in case t of
           ArrayType i m f e ni ta sa \<Rightarrow>
             Inr (pick SemanticsValueKind_ARRAY_INDEX_SET SemanticsValueKind_ARRAY_INDEX_GET, element_of t)
         | ObjectType i m f ni si ta sa \<Rightarrow>
             Inr (case ni of
                    Some et \<Rightarrow> (pick SemanticsValueKind_OBJECT_INDEX_SET SemanticsValueKind_OBJECT_INDEX_GET, et)
                  | None \<Rightarrow> (pick SemanticsValueKind_OBJECT_KEY_SET SemanticsValueKind_OBJECT_KEY_GET, Primitive_Any))
         | TupleType i es \<Rightarrow>
             bind_r (tuple_element t arg) (\<lambda>et. Inr (pick SemanticsValueKind_TUPLE_INDEX_SET SemanticsValueKind_TUPLE_INDEX_GET, et))
         | WASMArrayType a p m n \<Rightarrow>
             Inr (pick SemanticsValueKind_WASMARRAY_INDEX_SET SemanticsValueKind_WASMARRAY_INDEX_GET, element_of a)
         | WASMStructType u p m n b \<Rightarrow>
             bind_r (tuple_element u arg) (\<lambda>et. Inr (pick SemanticsValueKind_WASMSTRUCT_INDEX_SET SemanticsValueKind_WASMSTRUCT_INDEX_GET, et))
         | _ \<Rightarrow>
             if is_string_kind (vt_kind t) then
               Inr (pick SemanticsValueKind_STRING_INDEX_SET SemanticsValueKind_STRING_INDEX_GET, Primitive_String)
             else Inr (pick SemanticsValueKind_OBJECT_KEY_SET SemanticsValueKind_OBJECT_KEY_GET, Primitive_Any))"

definition key_type :: "xenv \<Rightarrow> type_id \<Rightarrow> value_type \<Rightarrow> value_type build" where
  "key_type x et t = (case t of
       ObjectType i m f ni si ta sa \<Rightarrow> (case si of Some st \<Rightarrow> ret st | None \<Rightarrow> x_createType x et)
     | _ \<Rightarrow> ret Primitive_Any)"

definition buildElementAccessExpression :: "xenv \<Rightarrow> builder \<Rightarrow> type_id \<Rightarrow> expression \<Rightarrow> expression \<Rightarrow> built build" where
  "buildElementAccessExpression x rec et accessExpr argExpr =
     bind_b (right (bind_b (rec accessExpr) (\<lambda>own. bind_b (rec argExpr) (\<lambda>arg. ret (own, arg))))) (\<lambda>(own, arg).
     bind_b (from_context currentReference) (\<lambda>reference.
       let is_set = (reference = ValueReferenceKind.LEFT); t = effect_type own;
           is_index = (vt_kind (built_type arg) = ValueTypeKind.NUMBER \<or> vt_kind (built_type arg) = ValueTypeKind.INT)
       in bind_b (if is_index then of_result (index_access t (b_value arg) is_set)
                  else bind_b (key_type x et t) (\<lambda>vt.
                    ret (if is_set then SemanticsValueKind_OBJECT_KEY_SET else SemanticsValueKind_OBJECT_KEY_GET, vt))) (\<lambda>(k, vt).
            case t of
              EnumType i n mt ms \<Rightarrow>
                bind_b (cast_to x mt arg) (\<lambda>arg.
                  ret (plain (ElementGetValue SemanticsValueKind_ENUM_KEY_GET Primitive_String (b_value own) (b_value arg))))
            | _ \<Rightarrow>
                ret (plain (if is_set then ElementSetValue k vt (b_value own) (b_value arg) None None
                            else ElementGetValue k vt (b_value own) (b_value arg))))))"

definition buildAsExpression :: "xenv \<Rightarrow> builder \<Rightarrow> type_id \<Rightarrow> expression \<Rightarrow> built build" where
  "buildAsExpression x rec t e =
     bind_b (right (rec e)) (\<lambda>b.
       case x_typeOf x t of
         Some vt \<Rightarrow> cast_to x vt b
       | None \<Rightarrow> throw (JSError ''Unknow Type for AsExpression''))"

definition buildEnumerateKeysExpr :: "xenv \<Rightarrow> builder \<Rightarrow> type_id \<Rightarrow> expression \<Rightarrow> built build" where
  "buildEnumerateKeysExpr x rec t e =
     bind_b (type_by_key x rec t) (\<lambda>found.
     bind_b (right (rec e)) (\<lambda>b.
     bind_b (require found) (\<lambda>vt. ret (plain (EnumerateKeysGetValue vt (b_value b))))))"

section \<open>Calls\<close>

text \<open>The parameters, converted to the types of the function; \<open>any\<close> without a function type.\<close>

definition buildParameters :: "xenv \<Rightarrow> builder \<Rightarrow> value_type option \<Rightarrow> expression list \<Rightarrow> semantics_value list build" where
  "buildParameters x rec func_type args =
     each (\<lambda>(i, e).
       bind_b (case func_type of
                 Some ft \<Rightarrow> of_result (getParamType (int i) ft)
               | None \<Rightarrow> ret None) (\<lambda>pt.
       bind_b (right (bind_b (rec e) (cast_to x (case pt of Some t \<Rightarrow> t | None \<Rightarrow> Primitive_Any)))) (\<lambda>b.
         ret (b_value b)))) (enumerate 0 args)"

definition getClassContructorType :: "heap \<Rightarrow> value_type \<Rightarrow> semantics_value result" where
  "getClassContructorType h t =
     (if \<not> isClassObject t then Inl (JSError ''ObjectType is not a class'')
      else bind_r (required (meta_of t)) (\<lambda>meta.
        case findConstructor (metas h meta) of
          None \<Rightarrow> Inl (JSError ''ObjectType is not a constructor'')
        | Some ctr \<Rightarrow>
            if m_type ctr \<noteq> MemberType.METHOD \<and> m_type ctr \<noteq> MemberType.CONSTRUCTOR
            then Inl (JSError ''ObjectType is not a constructor'')
            else
              bind_r (required (originShape (metas h meta))) (\<lambda>s.
                case getMember (m_index ctr) (shapes h s) of
                  Some (ShapeMethod st f) \<Rightarrow> required (as_Value f)
                | Some _ \<Rightarrow> Inl JSTypeError
                | None \<Rightarrow> Inl (JSError ''ObjectType constructor must exist''))))"

definition isMemberCallValue :: "semantics_value \<Rightarrow> bool" where
  "isMemberCallValue v = (case v of
       DynamicCallValue ow n ps \<Rightarrow> True
     | ShapeCallValue ow t i ps \<Rightarrow> True
     | VTableCallValue ow t i ps \<Rightarrow> True
     | OffsetCallValue ow ft t i ps ta \<Rightarrow> True
     | DirectCallValue ow t m ps ta \<Rightarrow> True
     | _ \<Rightarrow> False)"

definition is_property_access :: "expression \<Rightarrow> bool" where
  "is_property_access e = (case x_node e of
       PropertyAccessExpr own name t args \<Rightarrow> True
     | EnumerateKeysExpr y \<Rightarrow> True
     | _ \<Rightarrow> False)"

text \<open>The call of a value of a function type, without its parameters.\<close>

definition function_call :: "expression \<Rightarrow> built \<Rightarrow> built" where
  "function_call callee func =
     (let v = b_value func; t = sv_type v;
          closure_call = call_value t (ClosureCallValue (return_type t) v None)
      in case v of
           VarValue k vt r \<Rightarrow>
             (case r of
                RefFunction f \<Rightarrow> call_value t (FunctionCallValue (return_type t) v None None)
              | RefVar d \<Rightarrow> closure_call
              | _ \<Rightarrow> func)
         | OffsetGetValue ow vt i \<Rightarrow> closure_call
         | _ \<Rightarrow> if is_property_access callee then func else closure_call)"

definition call_target :: "xenv \<Rightarrow> expression \<Rightarrow> built \<Rightarrow> built build" where
  "call_target x callee func = (case b_value func of
       DynamicGetValue ow n mc t \<Rightarrow>
         if vt_kind t \<noteq> ValueTypeKind.FUNCTION \<and> vt_kind t \<noteq> ValueTypeKind.ANY
         then throw (JSError ''Property Access Result is not a function'')
         else ret (call_value (x_predefined x PredefinedTypeId_FUNC_ANY_ARRAY_ANY_DEFAULT) (DynamicCallValue ow n None))
     | SuperValue t u ps \<Rightarrow>
         bind_b (\<lambda>c. bind_r (getClassContructorType (bc_heap c) t) (\<lambda>v. Inr (v, c))) (\<lambda>ctr.
           ret (call_value (sv_type ctr) (ConstructorCallValue (b_value func) ctr None)))
     | v \<Rightarrow>
         if vt_kind (sv_type v) = ValueTypeKind.FUNCTION then ret (function_call callee func)
         else if isMemberCallValue v then ret func
         else throw (JSError ''unkown type for function call''))"

definition set_parameters :: "semantics_value list \<Rightarrow> semantics_value \<Rightarrow> semantics_value" where
  "set_parameters ps v = (case v of
       FunctionCallValue t f _ ta \<Rightarrow> FunctionCallValue t f (Some ps) ta
     | ClosureCallValue t f _ \<Rightarrow> ClosureCallValue t f (Some ps)
     | ConstructorCallValue s ctr _ \<Rightarrow> ConstructorCallValue s ctr (Some ps)
     | DynamicCallValue ow n _ \<Rightarrow> DynamicCallValue ow n (Some ps)
     | ShapeCallValue ow t i _ \<Rightarrow> ShapeCallValue ow t i (Some ps)
     | VTableCallValue ow t i _ \<Rightarrow> VTableCallValue ow t i (Some ps)
     | OffsetCallValue ow ft t i _ ta \<Rightarrow> OffsetCallValue ow ft t i (Some ps) ta
     | DirectCallValue ow t m _ ta \<Rightarrow> DirectCallValue ow t m (Some ps) ta
     | _ \<Rightarrow> v)"

text \<open>The type of the function after its type arguments were inserted.\<close>

definition specialized_func ::
  "xenv \<Rightarrow> builder \<Rightarrow> type_id \<Rightarrow> expression list \<Rightarrow> type_id list option \<Rightarrow> value_type \<Rightarrow> value_type build"
where
  "specialized_func x rec t args tas func_type =
     (case tas of
        Some ts \<Rightarrow>
          bind_b (buildTypeArguments x (type_by_key x rec) ts) (\<lambda>special.
            ret (updateValueTypeByTypeArguments x func_type (map Some special)))
      | None \<Rightarrow>
          if typeArguments func_type \<noteq> None then
            bind_b (specializeFuncTypeArgumentsByArgs x (type_by_key x rec) func_type (map exprType args) t) (\<lambda>guess.
              ret (updateValueTypeByTypeArguments x func_type guess))
          else ret func_type)"

text \<open>The parameters and the type of the call. \<open>popReference\<close> is called without a \<open>pushReference\<close> before it.\<close>

definition finish_call ::
  "xenv \<Rightarrow> builder \<Rightarrow> type_id \<Rightarrow> expression list \<Rightarrow> type_id list option \<Rightarrow> built \<Rightarrow> built build"
where
  "finish_call x rec t args tas func =
     bind_b (require (b_func func)) (\<lambda>func_type.
     bind_b (specialized_func x rec t args tas func_type) (\<lambda>func_type.
     bind_b (if args = [] then ret (b_value func)
             else bind_b (buildParameters x rec (Some func_type) args) (\<lambda>ps. ret (set_parameters ps (b_value func)))) (\<lambda>v.
     bind_b (modify popReference) (\<lambda>_.
       from_context (\<lambda>c.
         \<lparr>b_value = set_sv_type (return_type func_type) v, b_shape = shape_from_type x (bc_heap c) (return_type func_type),
          b_var = None, b_func = Some func_type\<rparr>)))))"

definition is_any_function :: "semantics_value \<Rightarrow> bool" where
  "is_any_function v \<longleftrightarrow> is_VarValue_sv v \<and> (vt_kind (sv_type v) = ValueTypeKind.ANY \<or> vt_kind (sv_type v) = ValueTypeKind.UNION)"

definition is_ToStringValue :: "semantics_value \<Rightarrow> bool" where
  "is_ToStringValue v = (case v of ToStringValue k y \<Rightarrow> True | _ \<Rightarrow> False)"

definition buildCallExpression ::
  "xenv \<Rightarrow> builder \<Rightarrow> type_id \<Rightarrow> expression \<Rightarrow> expression list \<Rightarrow> type_id list option \<Rightarrow> built build"
where
  "buildCallExpression x rec t callee args tas =
     bind_b (right (rec callee)) (\<lambda>func.
       if is_ToStringValue (b_value func) then ret func
       else if is_any_function (b_value func) then
         bind_b (if args = [] then ret None
                 else bind_b (buildParameters x rec None args) (\<lambda>ps. ret (Some ps))) (\<lambda>ps.
           ret (plain (AnyCallValue Primitive_Any (b_value func) ps)))
       else bind_b (call_target x callee func) (finish_call x rec t args tas))"

section \<open>New objects\<close>

definition buildNewClass ::
  "xenv \<Rightarrow> builder \<Rightarrow> value_type \<Rightarrow> expression list option \<Rightarrow> value_type list option \<Rightarrow> built build"
where
  "buildNewClass x rec object_type args typeArgs =
     (if \<not> isClassObject object_type then throw (JSError ''should be a class'')
      else
        bind_b (case args of
            None \<Rightarrow> ret []
          | Some [] \<Rightarrow> ret []
          | Some es \<Rightarrow>
              bind_b (require (meta_of object_type)) (\<lambda>meta.
              bind_b (from_context (\<lambda>c. findConstructor (metas (bc_heap c) meta))) (\<lambda>ctr.
                case ctr of
                  None \<Rightarrow> throw (JSError ''cannot found constructor'')
                | Some m \<Rightarrow>
                    buildParameters x rec
                      (if vt_kind (valueType m) = ValueTypeKind.FUNCTION then Some (valueType m) else None) es))) (\<lambda>ps.
        bind_b (require (instanceType x object_type)) (\<lambda>inst.
          new_value x (NewConstructorObjectValue (x_objectTy x inst) ps typeArgs))))"

definition array_param :: "xenv \<Rightarrow> builder \<Rightarrow> value_type \<Rightarrow> expression \<Rightarrow> built build" where
  "array_param x rec elem e =
     bind_b (right (rec e)) (\<lambda>b. if built_type b \<noteq> elem then cast_to x elem b else ret b)"

definition buildNewArrayParameters :: "xenv \<Rightarrow> builder \<Rightarrow> value_type \<Rightarrow> expression list option \<Rightarrow> built build" where
  "buildNewArrayParameters x rec arr_type params =
     (let es = (case params of Some es \<Rightarrow> es | None \<Rightarrow> []);
          elem = (case arr_type of WASMArrayType a p m n \<Rightarrow> element_of a | _ \<Rightarrow> element_of arr_type)
      in bind_b (each (array_param x rec elem) es) (\<lambda>bs.
           let vs = map b_value bs
           in if is_ArrayType arr_type then
                bind_b (if x_genericOwner x arr_type = None \<and> es \<noteq> []
                        then bind_b (wide_type x (map sv_type vs)) (x_createArrayType x) else ret arr_type) (\<lambda>arr.
                bind_b (require (instanceType x
                    (if x_genericOwner x arr = None then x_predefined x PredefinedTypeId_ARRAY_ANY else arr))) (\<lambda>inst.
                  new_value x (NewArrayValue inst vs)))
              else new_value x (NewArrayValue arr_type vs)))"

definition buildNewInterface ::
  "xenv \<Rightarrow> builder \<Rightarrow> semantics_value \<Rightarrow> value_type \<Rightarrow> expression list option \<Rightarrow> value_type list option \<Rightarrow> built build"
where
  "buildNewInterface x rec class_value object_type args typeArgs =
     bind_b (require (meta_of object_type)) (\<lambda>meta.
     bind_b (from_context (\<lambda>c. findConstructor (metas (bc_heap c) meta))) (\<lambda>ctr.
       case ctr of
         None \<Rightarrow> throw (JSError ''does not have constructor'')
       | Some m \<Rightarrow>
           (case valueType m of
              FunctionType i r as os rp ep ta sa \<Rightarrow>
                if vt_kind r \<noteq> ValueTypeKind.OBJECT \<and> vt_kind r \<noteq> ValueTypeKind.TYPE_PARAMETER
                then throw (JSError ''should return an object'')
                else
                  bind_b (buildParameters x rec (Some (valueType m)) (case args of Some es \<Rightarrow> es | None \<Rightarrow> [])) (\<lambda>ps.
                    new_value x (NewFromClassObjectValue r class_value ps typeArgs))
            | _ \<Rightarrow> throw (JSError ''should return an object type''))))"

text \<open>The object type of a \<open>new\<close> with type arguments, and the value of the class.\<close>

definition specialized_class ::
  "xenv \<Rightarrow> type_id \<Rightarrow> value_type list option \<Rightarrow> semantics_value \<Rightarrow> value_type \<Rightarrow> (semantics_value \<times> value_type) build"
where
  "specialized_class x t typeArgs class_value object_type =
     (case typeArgs of
        None \<Rightarrow> ret (class_value, object_type)
      | Some args \<Rightarrow>
          if vt_kind object_type = ValueTypeKind.ARRAY then
            ret (class_value, updateValueTypeByTypeArguments x object_type (map Some args))
          else
            (case x_typeOf x t of
               Some e \<Rightarrow>
                 (case x_genericOwner x e of
                    Some g \<Rightarrow>
                      if equals g object_type then
                        (\<lambda>c. bind_r (required (meta_of e)) (\<lambda>m.
                             bind_r (required (getGlobalValue (od_name (metas (bc_heap c) m)) c)) (\<lambda>v.
                               Inr ((var_value c v, e), c))))
                      else ret (class_value, object_type)
                  | None \<Rightarrow> ret (class_value, object_type))
             | None \<Rightarrow> ret (class_value, object_type)))"

definition buildNewExpression2 ::
  "xenv \<Rightarrow> builder \<Rightarrow> type_id \<Rightarrow> expression \<Rightarrow> expression list option \<Rightarrow> expression option \<Rightarrow> type_id list option \<Rightarrow> built build"
where
  "buildNewExpression2 x rec t newExpr args lenExpr tas =
     bind_b (right (rec newExpr)) (\<lambda>b.
       if \<not> is_ObjectType (effect_type b) then throw (JSError ''is not a class or class interface'')
       else
         bind_b (each_opt (buildTypeArguments x (type_by_key x rec)) tas) (\<lambda>typeArgs.
         bind_b (specialized_class x t typeArgs (b_value b)
                  (case instanceType x (effect_type b) of Some i \<Rightarrow> i | None \<Rightarrow> effect_type b)) (\<lambda>(class_value, object_type).
         bind_b (if is_WasmArrayType (fe_type (x_fe x) t) then x_createType x t else ret object_type) (\<lambda>obj_type.
           case classType x object_type of
             Some ct \<Rightarrow>
               if vt_kind ct = ValueTypeKind.ARRAY then
                 (case lenExpr of
                    Some le \<Rightarrow> bind_b (rec le) (\<lambda>l. new_value x (NewArrayLenValue obj_type (b_value l)))
                  | None \<Rightarrow> buildNewArrayParameters x rec obj_type args)
               else if isClassObject ct then buildNewClass x rec ct args typeArgs
               else throw (JSError ''is not a class or class interface'')
           | None \<Rightarrow>
               if object_flag object_type = Some ObjectTypeFlag.OBJECT
               then buildNewInterface x rec class_value object_type args typeArgs
               else throw (JSError ''is not a class or class interface'')))))"

section \<open>This and super\<close>

text \<open>The class of the nearest class scope around the scope of the top environment.\<close>

definition getCurrentClassType :: "xenv \<Rightarrow> type_id option build" where
  "getCurrentClassType x = (\<lambda>c.
     if stackEnv c = [] then Inl JSTypeError
     else
       bind_r (up_to (x_fuel x) (\<lambda>s. sc_kind s = ScopeKind.ClassScope) (fe_scopes (x_fe x)) (Some (be_scope (last (stackEnv c))))) (\<lambda>s.
         Inr (Option.bind s (\<lambda>s. sc_classType (fe_scopes (x_fe x) s)), c)))"

definition buildThisValue2 :: "xenv \<Rightarrow> builder \<Rightarrow> built build" where
  "buildThisValue2 x rec =
     bind_b (getCurrentClassType x) (\<lambda>t.
       case t of
         None \<Rightarrow> throw (JSError ''cannot find the this type'')
       | Some t \<Rightarrow>
           bind_b (value_type_of x rec t) (\<lambda>found.
           bind_b (require found) (\<lambda>vt. new_value x (ThisValue vt))))"

text \<open>The last method of the name decides whether the property is static.\<close>

definition is_static_member :: "type_heap \<Rightarrow> TSClass \<Rightarrow> js_string \<Rightarrow> bool" where
  "is_static_member th cls name =
     fold (\<lambda>m st. if cf_name m = name then (case th_types th (cf_type m) of TSFunction f \<Rightarrow> fn_isStatic f | _ \<Rightarrow> False) else st)
       (cls_methods cls) False"

definition super_property :: "xenv \<Rightarrow> builder \<Rightarrow> type_id \<Rightarrow> value_type \<Rightarrow> TSClass \<Rightarrow> js_string \<Rightarrow> built build" where
  "super_property x rec super_class super_type cls name =
     (if \<not> is_static_member (fe_types (x_fe x)) cls name then new_value x (SuperValue super_type SUPER_LITERAL None)
      else
        bind_b (find_key x rec (SymType super_class)) (\<lambda>found.
          case found of
            Some (VarVal v) \<Rightarrow> built_var v
          | Some (ValueVal b) \<Rightarrow> ret b
          | Some _ \<Rightarrow> throw JSTypeError
          | None \<Rightarrow> ret (plain UnimplementValue)))"

definition super_call :: "xenv \<Rightarrow> builder \<Rightarrow> value_type \<Rightarrow> expression list option \<Rightarrow> built build" where
  "super_call x rec super_type args =
     bind_b (case args of
         None \<Rightarrow> ret []
       | Some [] \<Rightarrow> ret []
       | Some es \<Rightarrow>
           bind_b (require (meta_of super_type)) (\<lambda>meta.
           bind_b (from_context (\<lambda>c. od_ctor (metas (bc_heap c) meta))) (\<lambda>ctor.
           bind_b (require ctor) (\<lambda>m. buildParameters x rec (Some (valueType m)) es)))) (\<lambda>ps.
       new_value x (SuperValue super_type SUPER_CALL (Some ps)))"

definition buildSuperValue :: "xenv \<Rightarrow> builder \<Rightarrow> js_string option \<Rightarrow> expression list option \<Rightarrow> built build" where
  "buildSuperValue x rec property args =
     bind_b (getCurrentClassType x) (\<lambda>t.
       case Option.bind t (class_of (fe_types (x_fe x))) of
         None \<Rightarrow> throw (JSError ''cannot find the current class type for super'')
       | Some cls \<Rightarrow>
           (case cls_base cls of
              None \<Rightarrow> throw (JSError ''has no super type'')
            | Some base \<Rightarrow>
                bind_b (value_type_of x rec base) (\<lambda>found.
                bind_b (require found) (\<lambda>super_type.
                  case property of
                    Some name \<Rightarrow>
                      (case class_of (fe_types (x_fe x)) base of
                         Some bcls \<Rightarrow> super_property x rec base super_type bcls name
                       | None \<Rightarrow> throw JSTypeError)
                  | None \<Rightarrow> super_call x rec super_type args))))"

section \<open>Functions\<close>

text \<open>The function of a function scope: its node, or a value of a function type that refers to the node.\<close>

definition function_node :: "symbol_value option \<Rightarrow> func_ref option" where
  "function_node s = (case s of
       Some (NodeVal f) \<Rightarrow> Some f
     | Some (VarVal v) \<Rightarrow>
         if vt_kind (vv_type v) = ValueTypeKind.FUNCTION
         then (case (vv_ref v, vv_node v) of (None, FuncNode f) \<Rightarrow> Some f | _ \<Rightarrow> None) else None
     | _ \<Rightarrow> None)"

text \<open>A hole of the list of captured values, which the readers of the list skip, is a \<open>NopValue\<close>.\<close>

definition buildFunctionExpression :: "scope_id \<Rightarrow> built build" where
  "buildFunctionExpression s = (\<lambda>c.
     case function_node (map_get (globalSymbols c) (SymScope s)) of
       None \<Rightarrow> Inl (JSError ''Cannot found the function'')
     | Some f \<Rightarrow>
         Inr (plain (NewClosureFunction (bc_funcs c f)
                (map_option (map (\<lambda>v. case v of Some w \<Rightarrow> var_value c w | None \<Rightarrow> NopValue)) (buildClosureInitList f c))), c))"

section \<open>Expressions\<close>

text \<open>One call of \<open>buildExpression\<close>. The handler of exceptions logs and throws again.\<close>

definition build_node :: "xenv \<Rightarrow> builder \<Rightarrow> expression \<Rightarrow> built build" where
  "build_node x rec e = (case x_node e of
       PropertyAccessExpr own name t args \<Rightarrow> buildPropertyAccessExpression x rec own name t args
     | EnumerateKeysExpr obj \<Rightarrow> buildEnumerateKeysExpr x rec (exprType e) obj
     | IdentifierExpr name \<Rightarrow> buildIdentiferExpression x rec name
     | NullKeywordExpr \<Rightarrow> ret (plain (LiteralValue Primitive_Null LNull))
     | UndefinedKeywordExpr \<Rightarrow> ret (plain (LiteralValue Primitive_Undefined LUndefined))
     | NumberLiteralExpr n is_int \<Rightarrow>
         ret (plain (if is_int then LiteralValue Primitive_Int (LNumber (toInt n)) else LiteralValue Primitive_Number (LNumber n)))
     | StringLiteralExpr s \<Rightarrow> ret (plain (LiteralValue Primitive_RawString (LString s)))
     | TrueLiteralExpr \<Rightarrow> ret (plain (LiteralValue Primitive_Boolean (LBoolean True)))
     | FalseLiteralExpr \<Rightarrow> ret (plain (LiteralValue Primitive_Boolean (LBoolean False)))
     | ObjectLiteralExpr names vals \<Rightarrow> buildObjectLiteralExpression x rec (exprType e) names vals
     | ArrayLiteralExpr es \<Rightarrow> buildArrayLiteralExpression x rec (exprType e) es
     | BinaryExpr op l r \<Rightarrow> buildBinaryExpression x rec op l r
     | CommaExpr es \<Rightarrow> buildCommaExpression x rec (exprType e) es
     | ConditionalExpr cnd t f \<Rightarrow> buildConditionalExpression x rec cnd t f
     | CallExpr callee args tas \<Rightarrow> buildCallExpression x rec (exprType e) callee args tas
     | SuperExpr property args \<Rightarrow> buildSuperValue x rec property args
     | ThisExpr \<Rightarrow> buildThisValue2 x rec
     | NewExpr ne args len tas \<Rightarrow> buildNewExpression2 x rec (exprType e) ne args len tas
     | ElementAccessExpr own arg \<Rightarrow> buildElementAccessExpression x rec (exprType e) own arg
     | AsExpr y \<Rightarrow> buildAsExpression x rec (exprType e) y
     | FunctionExpr s \<Rightarrow> buildFunctionExpression s
     | ParenthesizedExpr y \<Rightarrow> rec y
     | UnaryExpr is_prefix op y \<Rightarrow> buildUnaryExpression x rec is_prefix op y
     | TypeOfExpr y \<Rightarrow> buildTypeOfExpression x rec y
     | SpreadExpr y \<Rightarrow> bind_b (rec y) (\<lambda>b. ret (plain (SpreadValue (built_type b) (b_value b))))
     | TemplateExpr head spans \<Rightarrow> buildTemplateExpression x rec head spans
     | OtherExpr \<Rightarrow> ret (plain UnimplementValue))"

text \<open>\<open>buildExpression\<close>; the first argument is the depth of the JavaScript call stack.\<close>

primrec buildExpression :: "nat \<Rightarrow> xenv \<Rightarrow> builder" where
  "buildExpression 0 x = (\<lambda>e. throw JSRangeError)"
| "buildExpression (Suc n) x = (\<lambda>e. build_node x (buildExpression n x) e)"

end
