(* ===== verification/Statements.thy ===== *)
theory Statements
  imports ExpressionBuilder
begin

text \<open>
  Statements of the front end (\<open>src/src/statement.ts\<close>) and
  \<open>src/src/semantics/statement_builder.ts\<close>. As for expressions, a builder takes the functions that it
  calls back as arguments: \<open>expr\<close> is \<open>buildExpression\<close>, \<open>stmt\<close> is \<open>buildStatement\<close>, and \<open>generate\<close> is
  \<open>generateChildrenFunctionScope\<close>. The knot is tied in \<open>ModuleBuilder\<close>.
\<close>

section \<open>Statements\<close>

text \<open>
  The classes of statements; the scope of a statement that has one comes first. The first argument of
  \<open>BaseLoopStatement\<close> tells a \<open>while\<close> from a \<open>do\<close> loop. A block is its scope, which holds the statements,
  and so the blocks of \<open>try\<close>, \<open>catch\<close> and \<open>finally\<close> are scopes.
\<close>

datatype (plugins only: size) statement =
    ModDeclStatement scope_id
  | IfStatement expression statement "statement option"
  | BlockStatement scope_id
  | ReturnStatement "expression option"
  | BaseLoopStatement bool js_string js_string "js_string option" expression statement
  | ForStatement scope_id js_string js_string "js_string option" "expression option" statement
      "statement option" "expression option"
  | ExpressionStatement expression
  | EmptyStatement
  | CaseClause scope_id expression "statement list"
  | DefaultClause scope_id "statement list"
  | CaseBlock js_string js_string "statement list"
  | SwitchStatement expression statement
  | BreakStatement js_string
  | ContinueStatement js_string
  | FunctionDeclarationStatement scope_id "var_id option"
  | VariableStatement "var_id list"
  | ImportDeclaration
  | ThrowStatement expression
  | CatchClauseStatement scope_id "expression option"
  | TryStatement js_string scope_id "statement option" "scope_id option"

text \<open>The surroundings of statements: those of expressions, and the statements that scopes refer to.\<close>

record senv =
  se_x :: xenv
  se_stmts :: "nat \<Rightarrow> statement"

abbreviation se_fe :: "senv \<Rightarrow> fe_heap" where
  "se_fe e \<equiv> x_fe (se_x e)"

definition scope_statements :: "senv \<Rightarrow> scope_id \<Rightarrow> statement list" where
  "scope_statements e s = map (se_stmts e) (sc_statementArray (fe_scopes (se_fe e) s))"

text \<open>The result of \<open>buildStatement\<close>, a node or a value.\<close>

type_synonym stmt_builder = "statement \<Rightarrow> (semantics_node + built) build"

section \<open>Declarations\<close>

text \<open>\<open>new VarDeclareNode(...)\<close>; \<open>curCtx\<close> starts as \<open>belongCtx\<close>.\<close>

definition new_VarDeclareNode ::
  "SemanticsValueKind \<Rightarrow> value_type \<Rightarrow> js_string \<Rightarrow> int \<Rightarrow> int \<Rightarrow> decl_info \<Rightarrow> decl_ref build"
where
  "new_VarDeclareNode storage t name index flags info = (\<lambda>c.
     let d = bc_nextDecl c
     in Inr (d, c\<lparr>bc_decls := (bc_decls c)(d := \<lparr>vd_id = d, storageType = storage, vd_type = t, vd_name = name,
                                                vd_index = index, vd_flags = flags\<rparr>),
                 bc_curCtx := (bc_curCtx c)(d := di_belongCtx info), bc_nextDecl := Suc d,
                 bc_info := (bc_info c)(d := info), bc_varShape := (bc_varShape c)(d := None)\<rparr>))"

text \<open>\<open>new VarValue(node.storageType, node.type, node, node.index)\<close>.\<close>

definition decl_value :: "BuildContext \<Rightarrow> decl_ref \<Rightarrow> VarValue" where
  "decl_value c d =
     \<lparr>vv_kind = storageType (bc_decls c d), vv_type = vd_type (bc_decls c d), vv_ref = Some d,
      vv_index = Inl (vd_index (bc_decls c d)), vv_node = NoNode, vv_shape = None\<rparr>"

definition storage_of :: "bool \<Rightarrow> Variable \<Rightarrow> SemanticsValueKind" where
  "storage_of as_global v =
     (if \<not> var_isConst v \<and> \<not> var_isReadOnly v then
        (if as_global then SemanticsValueKind_GLOBAL_VAR else SemanticsValueKind_LOCAL_VAR)
      else (if as_global then SemanticsValueKind_GLOBAL_CONST else SemanticsValueKind_LOCAL_CONST))"

text \<open>\<open>createFromVariable\<close> makes new declarations for the contexts of the variable every time.\<close>

primrec createFromVariable :: "nat \<Rightarrow> xenv \<Rightarrow> bool \<Rightarrow> var_id \<Rightarrow> decl_ref build" where
  "createFromVariable 0 x as_global v = throw JSRangeError"
| "createFromVariable (Suc n) x as_global v =
     (let var = fe_vars (x_fe x) v
      in bind_b (x_createType x (v_type var)) (\<lambda>t.
         bind_b (each_opt (createFromVariable n x False) (v_belongCtx var)) (\<lambda>belongCtx.
         bind_b (each_opt (createFromVariable n x False) (v_initContext var)) (\<lambda>initCtx.
           new_VarDeclareNode (storage_of as_global var) t (v_name var) (v_index var) 0
             \<lparr>di_initValue = None, di_closureIndex = v_closureIndex var, di_belongCtx = belongCtx,
              di_initCtx = initCtx, di_needReBinding = v_needReBinding var\<rparr>))))"

definition namespace_value :: "xenv \<Rightarrow> scope_id \<Rightarrow> js_string \<Rightarrow> VarValue" where
  "namespace_value x s name =
     \<lparr>vv_kind = SemanticsValueKind_GLOBAL_CONST, vv_type = Primitive_Namespace, vv_ref = None,
      vv_index = Inr name, vv_node = ScopeNode s, vv_shape = None\<rparr>"

definition namespace_symbols :: "xenv \<Rightarrow> scope_id \<Rightarrow> (symbol \<times> symbol_value) list" where
  "namespace_symbols x s =
     map (\<lambda>s'. (SymScope s', VarVal (namespace_value x s' (sc_name (fe_scopes (x_fe x) s')))))
       (filter (\<lambda>s'. scope_kind (x_fe x) s' = ScopeKind.NamespaceScope) (sc_children (fe_scopes (x_fe x) s)))"

definition local_symbol :: "xenv \<Rightarrow> var_id \<Rightarrow> (decl_ref \<times> symbol \<times> symbol_value) build" where
  "local_symbol x v =
     bind_b (createFromVariable (x_fuel x) x False v) (\<lambda>d. from_context (\<lambda>c. (d, SymVar v, VarVal (decl_value c d))))"

text \<open>The declarations and the symbols of a scope, each \<open>undefined\<close> when there is none.\<close>

definition createLocalSymbols ::
  "xenv \<Rightarrow> scope_id \<Rightarrow> (decl_ref list option \<times> (symbol, symbol_value) js_map option) build"
where
  "createLocalSymbols x s =
     bind_b (each (local_symbol x) (sc_variableArray (fe_scopes (x_fe x) s))) (\<lambda>ls.
       let entries = map snd ls @ namespace_symbols x s
       in ret (if ls = [] then None else Some (map fst ls),
               if entries = [] then None else Some (fold (\<lambda>(k, v). map_set k v) entries [])))"

text \<open>The declarations of a list, as they are when the node that holds them is made.\<close>

definition decl_nodes :: "decl_ref list option \<Rightarrow> VarDeclareNode list option build" where
  "decl_nodes ds = from_context (\<lambda>c. map_option (map (bc_decls c)) ds)"

section \<open>Sequences of statements\<close>

text \<open>
  The nodes so far and the position of the basic block that is open, if one is: consecutive values
  share a basic block.
\<close>

type_synonym node_seq = "semantics_node list \<times> nat option"

definition pushSemanticsValue :: "semantics_value \<Rightarrow> semantics_node \<Rightarrow> semantics_node" where
  "pushSemanticsValue v n = (case n of BasicBlockNode vs \<Rightarrow> BasicBlockNode (vs @ [v]) | _ \<Rightarrow> n)"

definition push_result :: "semantics_node + built \<Rightarrow> node_seq \<Rightarrow> node_seq" where
  "push_result r = (\<lambda>(nodes, open_block).
     case r of
       Inl n \<Rightarrow> (nodes @ [n], None)
     | Inr b \<Rightarrow>
         (case open_block of
            None \<Rightarrow> (nodes @ [BasicBlockNode [b_value b]], Some (length nodes))
          | Some i \<Rightarrow> (nodes[i := pushSemanticsValue (b_value b) (nodes ! i)], Some i)))"

definition build_sequence :: "stmt_builder \<Rightarrow> statement list \<Rightarrow> semantics_node list build" where
  "build_sequence stmt sts =
     bind_b (fold_b (\<lambda>st s. bind_b (stmt st) (\<lambda>r. ret (push_result r s))) sts ([], None)) (\<lambda>(nodes, open_block). ret nodes)"

definition buildStatementsWithScope ::
  "senv \<Rightarrow> (scope_id \<Rightarrow> unit build) \<Rightarrow> stmt_builder \<Rightarrow> scope_id \<Rightarrow> statement list \<Rightarrow> (semantics_node list \<times> decl_ref list option) build"
where
  "buildStatementsWithScope e generate stmt s sts =
     bind_b (modify (push_env (se_fe e) s None None)) (\<lambda>_.
     bind_b (createLocalSymbols (se_x e) s) (\<lambda>(varList, symbols).
     bind_b (case symbols of Some m \<Rightarrow> modify (updateNamedSymbolByScope (se_fe e) s m) | None \<Rightarrow> ret ()) (\<lambda>_.
     bind_b (generate s) (\<lambda>_.
     bind_b (build_sequence stmt sts) (\<lambda>nodes.
     bind_b (modify pop_env) (\<lambda>_. ret (nodes, varList)))))))"

definition block_with_scope ::
  "senv \<Rightarrow> (scope_id \<Rightarrow> unit build) \<Rightarrow> stmt_builder \<Rightarrow> scope_id \<Rightarrow> statement list \<Rightarrow> semantics_node build"
where
  "block_with_scope e generate stmt s sts =
     bind_b (buildStatementsWithScope e generate stmt s sts) (\<lambda>(nodes, varList).
     bind_b (decl_nodes varList) (\<lambda>vars. ret (BlockNode nodes vars)))"

definition buildBlock :: "senv \<Rightarrow> (scope_id \<Rightarrow> unit build) \<Rightarrow> stmt_builder \<Rightarrow> scope_id \<Rightarrow> semantics_node build" where
  "buildBlock e generate stmt s = block_with_scope e generate stmt s (scope_statements e s)"

definition buildCaseClauseStatements ::
  "senv \<Rightarrow> (scope_id \<Rightarrow> unit build) \<Rightarrow> stmt_builder \<Rightarrow> scope_id \<Rightarrow> statement list \<Rightarrow> semantics_node build"
where
  "buildCaseClauseStatements e generate stmt s sts = block_with_scope e generate stmt s sts"

section \<open>Single statements\<close>

definition set_initValue :: "decl_ref \<Rightarrow> semantics_value \<Rightarrow> unit build" where
  "set_initValue d v = modify (\<lambda>c. c\<lparr>bc_info := (bc_info c)(d := (bc_info c d)\<lparr>di_initValue := Some v\<rparr>)\<rparr>)"

text \<open>The variable that an initialiser is assigned to; its declaration keeps the initial value.\<close>

definition variable_target :: "symbol_value option \<Rightarrow> semantics_value \<Rightarrow> built build" where
  "variable_target found init = (case found of
       None \<Rightarrow> throw (JSError ''var is not decleared'')
     | Some (DeclVal d) \<Rightarrow>
         bind_b (set_initValue d init) (\<lambda>_. bind_b (from_context (\<lambda>c. decl_value c d)) built_var)
     | Some (VarVal v) \<Rightarrow>
         bind_b (case vv_ref v of Some d \<Rightarrow> set_initValue d init | None \<Rightarrow> ret ()) (\<lambda>_. built_var v)
     | Some (ValueVal b) \<Rightarrow>
         (case b_value b of
            VarValue k t r \<Rightarrow> bind_b (case r of RefVar d \<Rightarrow> set_initValue (vd_id d) init | _ \<Rightarrow> ret ()) (\<lambda>_. ret b)
          | _ \<Rightarrow> throw (JSError ''unexcept type''))
     | Some _ \<Rightarrow> throw (JSError ''unexcept type''))"

definition init_variable :: "senv \<Rightarrow> builder \<Rightarrow> var_id \<Rightarrow> semantics_value list build" where
  "init_variable e expr v =
     (let var = fe_vars (se_fe e) v
      in case v_init var of
           None \<Rightarrow> ret []
         | Some init \<Rightarrow>
             bind_b (build_export (se_x e) expr init) (\<lambda>init_value.
             bind_b (find_symbol (se_x e) expr (v_name var) importSearchTypes.All) (\<lambda>found.
             bind_b (variable_target found (b_value init_value)) (\<lambda>target.
             bind_b (newBinaryExprValue (se_x e) (Some (built_type target)) EqualsToken target init_value) (\<lambda>assignment.
               ret [b_value assignment])))))"

definition buildVariableStatement :: "senv \<Rightarrow> builder \<Rightarrow> var_id list \<Rightarrow> semantics_node build" where
  "buildVariableStatement e expr vs =
     bind_b (each (init_variable e expr) vs) (\<lambda>assignments. ret (BasicBlockNode (concat assignments)))"

definition buildStatementAsNode :: "stmt_builder \<Rightarrow> statement \<Rightarrow> semantics_node build" where
  "buildStatementAsNode stmt st =
     bind_b (stmt st) (\<lambda>r. ret (case r of Inl n \<Rightarrow> n | Inr b \<Rightarrow> BasicBlockNode [b_value b]))"

definition buildIfStatement :: "senv \<Rightarrow> builder \<Rightarrow> stmt_builder \<Rightarrow> expression \<Rightarrow> statement \<Rightarrow> statement option \<Rightarrow> semantics_node build" where
  "buildIfStatement e expr stmt cond ifTrue ifFalse =
     bind_b (right (expr cond)) (\<lambda>condition.
     bind_b (cast_to (se_x e) Primitive_Boolean condition) (\<lambda>condition.
     bind_b (buildStatementAsNode stmt ifTrue) (\<lambda>t.
     bind_b (each_opt (buildStatementAsNode stmt) ifFalse) (\<lambda>f.
       ret (IfNode (b_value condition) t f)))))"

definition return_value :: "senv \<Rightarrow> built \<Rightarrow> built build" where
  "return_value e v = (\<lambda>c.
     case currentFunction c of
       None \<Rightarrow> Inr (v, c)
     | Some f \<Rightarrow>
         let ret_type = return_type (fh_funcType (bc_funcs c f))
         in if vt_kind ret_type \<noteq> ValueTypeKind.VOID \<and> \<not> equals ret_type (built_type v)
            then cast_to (se_x e) ret_type v c else Inr (v, c))"

definition buildReturnStatement :: "senv \<Rightarrow> builder \<Rightarrow> expression option \<Rightarrow> semantics_node build" where
  "buildReturnStatement e expr ex =
     bind_b (right (each_opt expr ex)) (\<lambda>v.
     bind_b (each_opt (return_value e) v) (\<lambda>v.
       ret (ReturnNode (map_option b_value v))))"

definition buildBaseLoopStatement ::
  "senv \<Rightarrow> builder \<Rightarrow> stmt_builder \<Rightarrow> bool \<Rightarrow> js_string \<Rightarrow> js_string \<Rightarrow> js_string option \<Rightarrow> expression \<Rightarrow> statement \<Rightarrow> semantics_node build"
where
  "buildBaseLoopStatement e expr stmt is_while label blockLabel continueLabel cond body =
     bind_b (right (expr cond)) (\<lambda>condition.
     bind_b (cast_to (se_x e) Primitive_Boolean condition) (\<lambda>condition.
     bind_b (buildStatementAsNode stmt body) (\<lambda>b.
       ret (WhileNode is_while label blockLabel continueLabel (b_value condition) (Some b)))))"

text \<open>
  The contexts that are bound again after each round of a loop; \<open>includes\<close> compares declarations by
  identity.
\<close>

definition rebinding_values :: "BuildContext \<Rightarrow> decl_ref list \<Rightarrow> semantics_value list" where
  "rebinding_values c ds =
     map (\<lambda>d. ReBindingValue (bc_decls c d))
       (fold (\<lambda>d handled.
          case di_belongCtx (bc_info c d) of
            Some ctx \<Rightarrow> if di_needReBinding (bc_info c d) \<and> ctx \<notin> set handled then handled @ [ctx] else handled
          | None \<Rightarrow> handled) ds [])"

definition buildForStatement ::
  "senv \<Rightarrow> builder \<Rightarrow> stmt_builder \<Rightarrow> scope_id \<Rightarrow> js_string \<Rightarrow> js_string \<Rightarrow> js_string option \<Rightarrow>
   expression option \<Rightarrow> statement \<Rightarrow> statement option \<Rightarrow> expression option \<Rightarrow> semantics_node build"
where
  "buildForStatement e expr stmt s label blockLabel continueLabel cond body initializer incrementor =
     bind_b (createLocalSymbols (se_x e) s) (\<lambda>(varList, symbols).
     bind_b (modify (push_env (se_fe e) s symbols None)) (\<lambda>_.
     bind_b (each_opt (buildStatementAsNode stmt) initializer) (\<lambda>initialize.
     bind_b (right (bind_b (each_opt expr cond) (\<lambda>condition.
                    bind_b (each_opt expr incrementor) (\<lambda>next. ret (condition, next))))) (\<lambda>(condition, next).
     bind_b (buildStatementAsNode stmt body) (\<lambda>body.
     bind_b (from_context (\<lambda>c. case varList of
               Some ds \<Rightarrow> [body, BasicBlockNode (rebinding_values c ds)]
             | None \<Rightarrow> [body])) (\<lambda>reBindedStmts.
     bind_b (modify pop_env) (\<lambda>_.
     bind_b (decl_nodes varList) (\<lambda>vars.
       ret (ForNode label blockLabel continueLabel vars initialize (map_option b_value condition)
              (map_option b_value next) (Some (BlockNode reBindedStmts None)))))))))))"

text \<open>One clause of a switch; the state holds the clauses so far and the default clause, the last of which stays.\<close>

definition build_clause ::
  "senv \<Rightarrow> builder \<Rightarrow> (scope_id \<Rightarrow> unit build) \<Rightarrow> stmt_builder \<Rightarrow> statement \<Rightarrow>
   semantics_node list \<times> semantics_node option \<Rightarrow> (semantics_node list \<times> semantics_node option) build"
where
  "build_clause e expr generate stmt clause = (\<lambda>(case_nodes, default_node).
     case clause of
       DefaultClause s sts \<Rightarrow>
         bind_b (buildCaseClauseStatements e generate stmt s sts) (\<lambda>b.
           ret (case_nodes, Some (DefaultClauseNode (Some b))))
     | CaseClause s ex sts \<Rightarrow>
         bind_b (right (expr ex)) (\<lambda>v.
         bind_b (buildCaseClauseStatements e generate stmt s sts) (\<lambda>b.
           ret (case_nodes @ [CaseClauseNode (b_value v) (Some b)], default_node)))
     | _ \<Rightarrow> throw JSTypeError)"

definition buildSwitchStatement ::
  "senv \<Rightarrow> builder \<Rightarrow> (scope_id \<Rightarrow> unit build) \<Rightarrow> stmt_builder \<Rightarrow> expression \<Rightarrow> statement \<Rightarrow> semantics_node build"
where
  "buildSwitchStatement e expr generate stmt cond caseBlock =
     bind_b (right (expr cond)) (\<lambda>condition.
       case caseBlock of
         CaseBlock switchLabel breakLabel causes \<Rightarrow>
           bind_b (fold_b (build_clause e expr generate stmt) causes ([], None)) (\<lambda>(case_nodes, default_node).
             ret (SwitchNode switchLabel breakLabel (b_value condition) case_nodes default_node))
       | _ \<Rightarrow> throw JSTypeError)"

definition buildThrowStatement :: "builder \<Rightarrow> expression \<Rightarrow> semantics_node build" where
  "buildThrowStatement expr ex = bind_b (expr ex) (\<lambda>v. ret (ThrowNode (b_value v)))"

definition buildCatchClauseStatement ::
  "senv \<Rightarrow> builder \<Rightarrow> (scope_id \<Rightarrow> unit build) \<Rightarrow> stmt_builder \<Rightarrow> statement \<Rightarrow> semantics_node build"
where
  "buildCatchClauseStatement e expr generate stmt clause = (case clause of
       CatchClauseStatement s catchVar \<Rightarrow>
         bind_b (buildBlock e generate stmt s) (\<lambda>b.
         bind_b (each_opt expr catchVar) (\<lambda>v. ret (CatchClauseNode b (map_option b_value v))))
     | _ \<Rightarrow> throw JSTypeError)"

definition buildTryStatement ::
  "senv \<Rightarrow> builder \<Rightarrow> (scope_id \<Rightarrow> unit build) \<Rightarrow> stmt_builder \<Rightarrow> js_string \<Rightarrow> scope_id \<Rightarrow> statement option \<Rightarrow> scope_id option \<Rightarrow>
   semantics_node build"
where
  "buildTryStatement e expr generate stmt label tryBlock catchClause finallyBlock =
     bind_b (buildBlock e generate stmt tryBlock) (\<lambda>t.
     bind_b (each_opt (buildCatchClauseStatement e expr generate stmt) catchClause) (\<lambda>c.
     bind_b (each_opt (buildBlock e generate stmt) finallyBlock) (\<lambda>f.
       ret (TryNode label t c f))))"

text \<open>A function declared inside a function: the closure is assigned to a variable of the scope.\<close>

definition buildFunctionDeclaration :: "senv \<Rightarrow> builder \<Rightarrow> scope_id \<Rightarrow> var_id option \<Rightarrow> (semantics_node + built) build" where
  "buildFunctionDeclaration e expr s tmpVar = (\<lambda>c.
     if currentFunction c = None then Inr (Inl EmptyNode, c)
     else
       bind_b (case tmpVar of Some v \<Rightarrow> find_key (se_x e) expr (SymVar v) | None \<Rightarrow> ret None) (\<lambda>found.
       bind_b (case found of
           None \<Rightarrow> throw (JSError ''Cannot found the function scope var'')
         | Some (VarVal v) \<Rightarrow> built_var v
         | Some (ValueVal b) \<Rightarrow> ret b
         | Some _ \<Rightarrow> throw JSTypeError) (\<lambda>var_value.
       bind_b (buildFunctionExpression s) (\<lambda>new_closure.
       bind_b (newBinaryExprValue (se_x e) (Some (built_type var_value)) EqualsToken var_value new_closure) (\<lambda>b.
         ret (Inr b))))) c)"

section \<open>Statements\<close>

abbreviation as_node :: "semantics_node build \<Rightarrow> (semantics_node + built) build" where
  "as_node m \<equiv> bind_b m (\<lambda>n. ret (Inl n))"

text \<open>
  One call of \<open>buildStatement\<close>. The kinds without a case, and those which their statement handles
  itself, give an empty node. The handler of exceptions logs and throws again.
\<close>

definition build_statement :: "senv \<Rightarrow> builder \<Rightarrow> (scope_id \<Rightarrow> unit build) \<Rightarrow> stmt_builder \<Rightarrow> stmt_builder" where
  "build_statement e expr generate stmt st = (case st of
       BlockStatement s \<Rightarrow> as_node (buildBlock e generate stmt s)
     | IfStatement cond t f \<Rightarrow> as_node (buildIfStatement e expr stmt cond t f)
     | ReturnStatement ex \<Rightarrow> as_node (buildReturnStatement e expr ex)
     | BaseLoopStatement w l bl cl cond body \<Rightarrow> as_node (buildBaseLoopStatement e expr stmt w l bl cl cond body)
     | ForStatement s l bl cl cond body initializer incr \<Rightarrow>
         as_node (buildForStatement e expr stmt s l bl cl cond body initializer incr)
     | ExpressionStatement ex \<Rightarrow> bind_b (expr ex) (\<lambda>b. ret (Inr b))
     | SwitchStatement cond cb \<Rightarrow> as_node (buildSwitchStatement e expr generate stmt cond cb)
     | BreakStatement l \<Rightarrow> ret (Inl (BreakNode l))
     | ContinueStatement l \<Rightarrow> ret (Inl (ContinueNode l))
     | VariableStatement vs \<Rightarrow> as_node (buildVariableStatement e expr vs)
     | FunctionDeclarationStatement s tmpVar \<Rightarrow> buildFunctionDeclaration e expr s tmpVar
     | ThrowStatement ex \<Rightarrow> as_node (buildThrowStatement expr ex)
     | TryStatement l s cc fb \<Rightarrow> as_node (buildTryStatement e expr generate stmt l s cc fb)
     | _ \<Rightarrow> ret (Inl EmptyNode))"

end
