(* ===== verification/ModuleBuilder.thy ===== *)
theory ModuleBuilder
  imports Statements Flatten
begin

text \<open>
  \<open>src/src/semantics/index.ts\<close>: the functions and the global objects of a module. The traversal of the
  scopes and the builders of statements call each other; they are the fields of the record \<open>gen\<close>, and
  \<open>generate\<close> ties the knot, its first argument being the depth of the JavaScript call stack.

  Left out are comments of functions, paths for debugging and the flags of the entry scope.
\<close>

section \<open>Functions\<close>

definition getFunctionOwnKind :: "nat \<Rightarrow> fe_heap \<Rightarrow> scope_id \<Rightarrow> int result" where
  "getFunctionOwnKind n h s =
     bind_r (isDeclare n h s) (\<lambda>declared.
     bind_r (isExport h s) (\<lambda>exported.
       let c = fe_scopes h s;
           k = (if declared then 8 else 0);
           k = js_or k (if sc_className c \<noteq> [] then 2 else 4);
           k = (if isStatic c then js_or k 1 else k);
           k = (if isDecorator c then js_or k 16 else k)
       in Inr (if exported then js_or k 32 else k)))"

text \<open>The class of a method: the type of the value that the symbol table has for the class scope.\<close>

definition getMethodClassType :: "xenv \<Rightarrow> scope_id \<Rightarrow> BuildContext \<Rightarrow> value_type option result" where
  "getMethodClassType x s c =
     (case sc_parent (fe_scopes (x_fe x) s) of
        None \<Rightarrow> Inr None
      | Some p \<Rightarrow>
          if scope_kind (x_fe x) p \<noteq> ScopeKind.ClassScope then Inr None
          else
            (case map_get (globalSymbols c) (SymScope p) of
               Some (VarVal v) \<Rightarrow> if is_ObjectType (vv_type v) then Inr (Some (vv_type v)) else Inl (JSError ''must be object'')
             | Some (ValueVal b) \<Rightarrow> if is_ObjectType (built_type b) then Inr (Some (built_type b)) else Inl (JSError ''must be object'')
             | _ \<Rightarrow> Inr None))"

text \<open>The name of a static method: the last part of the mangled name gets the prefix \<open>@\<close>.\<close>

definition static_name :: "js_string \<Rightarrow> js_string" where
  "static_name name =
     rev (dropWhile (\<lambda>c. c \<noteq> 124) (rev name)) @ js_lit ''@'' @ rev (takeWhile (\<lambda>c. c \<noteq> 124) (rev name))"

definition new_FunctionDeclareNode ::
  "js_string \<Rightarrow> int \<Rightarrow> value_type \<Rightarrow> decl_ref list option \<Rightarrow> decl_ref option \<Rightarrow> value_type option \<Rightarrow> func_ref build"
where
  "new_FunctionDeclareNode name kind func_type params parentCtx thisClass = (\<lambda>c.
     let f = bc_nextFunc c
     in Inr (f, c\<lparr>bc_funcs := (bc_funcs c)(f := \<lparr>fh_id = f, fh_name = name, fh_funcType = func_type, fh_returnType = return_type func_type\<rparr>),
                 bc_finfo := (bc_finfo c)(f := \<lparr>fi_ownKind = kind, fi_body = [], fi_parameters = params, fi_parentCtx = parentCtx,
                                               fi_thisClass = thisClass, fi_flattenValue = None\<rparr>),
                 bc_varList := (bc_varList c)(f := None), bc_closureVars := (bc_closureVars c)(f := None), bc_nextFunc := Suc f\<rparr>))"

definition add_function :: "func_ref \<Rightarrow> BuildContext \<Rightarrow> BuildContext" where
  "add_function f c = (if f \<in> set (bc_functions c) then c else c\<lparr>bc_functions := bc_functions c @ [f]\<rparr>)"

text \<open>\<open>ParameterNodeFlag.OPTIONAL\<close>, the first member of an enumeration.\<close>

definition ParameterNodeFlag_OPTIONAL :: int where
  "ParameterNodeFlag_OPTIONAL = 0"

definition function_parameter :: "xenv \<Rightarrow> builder \<Rightarrow> value_type \<Rightarrow> nat \<times> var_id \<Rightarrow> decl_ref build" where
  "function_parameter x expr func_type = (\<lambda>(i, v).
     let p = fe_vars (x_fe x) v;
         ts = (case func_type of FunctionType k r as os rp ep ta sa \<Rightarrow> as | _ \<Rightarrow> []);
         t = (if i < length ts then ts ! i else Primitive_Any)
     in bind_b (each_opt (build_export x expr) (v_init p)) (\<lambda>init.
        bind_b (each_opt (createFromVariable (x_fuel x) x False) (v_belongCtx p)) (\<lambda>belongCtx.
        bind_b (each_opt (createFromVariable (x_fuel x) x False) (v_initContext p)) (\<lambda>initCtx.
          new_VarDeclareNode SemanticsValueKind_PARAM_VAR t (v_name p) (v_index p)
            (if v_isOptional p then ParameterNodeFlag_OPTIONAL else 0)
            \<lparr>di_initValue = map_option b_value init, di_closureIndex = v_closureIndex p, di_belongCtx = belongCtx,
             di_initCtx = initCtx, di_needReBinding = False\<rparr>))))"

text \<open>The context of the closure environment around the function: its first variable.\<close>

definition parent_closure_context :: "xenv \<Rightarrow> scope_id \<Rightarrow> decl_ref option build" where
  "parent_closure_context x s =
     (case sc_parent (fe_scopes (x_fe x) s) of
        None \<Rightarrow> ret None
      | Some p \<Rightarrow>
          bind_b (of_result (getNearestClosureEnvironment (x_fe x) p)) (\<lambda>env.
          each_opt (\<lambda>env.
            bind_b (require (js_first (sc_variableArray (fe_scopes (x_fe x) env)))) (createFromVariable (x_fuel x) x False)) env))"

definition createFunctionDeclareNode :: "xenv \<Rightarrow> builder \<Rightarrow> scope_id \<Rightarrow> func_ref build" where
  "createFunctionDeclareNode x expr s =
     (let sc = fe_scopes (x_fe x) s
      in bind_b (require (sc_functionType sc)) (\<lambda>ft.
         let is_static = (case fe_type (x_fe x) ft of TSFunction f \<Rightarrow> fn_isStatic f | _ \<Rightarrow> False);
             name = (if sc_className sc \<noteq> [] \<and> is_static then static_name (sc_mangledName sc) else sc_mangledName sc)
         in bind_b (x_createType x ft) (\<lambda>func_type.
            bind_b (\<lambda>c. bind_r (getMethodClassType x s c) (\<lambda>t. Inr (t, c))) (\<lambda>this_type.
            bind_b (each (function_parameter x expr func_type) (enumerate 0 (sc_parameterArray sc))) (\<lambda>params.
            bind_b (parent_closure_context x s) (\<lambda>parentCtx.
            bind_b (of_result (getFunctionOwnKind (x_fuel x) (x_fe x) s)) (\<lambda>kind.
              new_FunctionDeclareNode name kind func_type (Some params) parentCtx this_type)))))))"

text \<open>The object that \<open>flattenFunction\<close> gets.\<close>

definition function_object :: "xenv \<Rightarrow> BuildContext \<Rightarrow> func_ref \<Rightarrow> FunctionDeclareNode" where
  "function_object x c f =
     (let hd = bc_funcs c f; i = bc_finfo c f
      in \<lparr>fh_id = fh_id hd, fh_name = fh_name hd, fh_funcType = fh_funcType hd, fh_returnType = fh_returnType hd,
          ownKind = fi_ownKind i, fd_body = BlockNode (fi_body i) None,
          parameters = map_option (map (bc_decls c)) (fi_parameters i), varList = map_option (map (bc_decls c)) (bc_varList c f),
          closureVars = map_option (map (bc_decls c)) (bc_closureVars c f),
          thisClassType = map_option (x_objectTy x) (fi_thisClass i), flattenValue = fi_flattenValue i\<rparr>)"

definition upd_finfo :: "func_ref \<Rightarrow> (func_info \<Rightarrow> func_info) \<Rightarrow> BuildContext \<Rightarrow> BuildContext" where
  "upd_finfo f g c = c\<lparr>bc_finfo := (bc_finfo c)(f := g (bc_finfo c f))\<rparr>"

definition flatten_built :: "xenv \<Rightarrow> func_ref \<Rightarrow> unit build" where
  "flatten_built x f = (\<lambda>c.
     bind_r (flattenFunction (function_object x c f)) (\<lambda>fd.
       Inr ((), upd_finfo f (fi_flattenValue_update (\<lambda>_. flattenValue fd)) c)))"

section \<open>The traversal of scopes\<close>

record gen =
  g_stmt :: stmt_builder
  g_function :: "scope_id \<Rightarrow> unit build"
  g_scope :: "scope_id \<Rightarrow> unit build"
  g_namespace :: "scope_id \<Rightarrow> semantics_node list build"

text \<open>
  \<open>buildStatements\<close>: the statements of a namespace are put where the namespace is declared; the basic
  block that was open before stays open.
\<close>

definition push_nodes :: "semantics_node list \<Rightarrow> node_seq \<Rightarrow> node_seq" where
  "push_nodes ns = (\<lambda>(nodes, open_block). (nodes @ ns, open_block))"

definition build_in_order :: "gen \<Rightarrow> statement \<Rightarrow> node_seq \<Rightarrow> node_seq build" where
  "build_in_order g st s = (case st of
       ModDeclStatement ns \<Rightarrow> bind_b (g_namespace g ns) (\<lambda>nodes. ret (push_nodes nodes s))
     | _ \<Rightarrow> bind_b (g_stmt g st) (\<lambda>r. ret (push_result r s)))"

definition buildStatements :: "gen \<Rightarrow> statement list \<Rightarrow> semantics_node list build" where
  "buildStatements g sts = bind_b (fold_b (build_in_order g) sts ([], None)) (\<lambda>(nodes, open_block). ret nodes)"

definition foreachScopeChildren :: "senv \<Rightarrow> gen \<Rightarrow> scope_id \<Rightarrow> unit build" where
  "foreachScopeChildren e g s = bind_b (each (g_scope g) (sc_children (fe_scopes (se_fe e) s))) (\<lambda>_. ret ())"

definition generateClassScopeNodes :: "senv \<Rightarrow> gen \<Rightarrow> scope_id \<Rightarrow> unit build" where
  "generateClassScopeNodes e g s = foreachScopeChildren e g s"

definition generateChildrenFunctionScope :: "senv \<Rightarrow> gen \<Rightarrow> scope_id \<Rightarrow> unit build" where
  "generateChildrenFunctionScope e g s =
     bind_b (each (\<lambda>c.
       if scope_kind (se_fe e) c = ScopeKind.FunctionScope then g_function g c
       else if scope_kind (se_fe e) c = ScopeKind.ClassScope then generateClassScopeNodes e g c
       else ret ()) (sc_children (fe_scopes (se_fe e) s))) (\<lambda>_. ret ())"

text \<open>The function of the scope, which is created when the symbol table has none.\<close>

definition scope_function :: "senv \<Rightarrow> builder \<Rightarrow> scope_id \<Rightarrow> func_ref build" where
  "scope_function e expr s =
     bind_b (from_context (\<lambda>c. function_node (map_get (globalSymbols c) (SymScope s)))) (\<lambda>found.
       case found of
         Some f \<Rightarrow> ret f
       | None \<Rightarrow> bind_b (createFunctionDeclareNode (se_x e) expr s) (\<lambda>f. bind_b (modify (add_function f)) (\<lambda>_. ret f)))"

text \<open>The symbols of the parameters: the parameters of the scope go with those of the node.\<close>

definition parameter_symbols :: "BuildContext \<Rightarrow> var_id list \<Rightarrow> decl_ref list option \<Rightarrow> (symbol, symbol_value) js_map result" where
  "parameter_symbols c vs ds = (case ds of
       None \<Rightarrow> Inr []
     | Some [] \<Rightarrow> Inr []
     | Some ds \<Rightarrow>
         if length ds < length vs then Inl JSTypeError
         else Inr (fold (\<lambda>(v, d). map_set (SymVar v) (VarVal (decl_value c d))) (zip vs ds) []))"

definition set_varList :: "func_ref \<Rightarrow> decl_ref list option \<Rightarrow> BuildContext \<Rightarrow> BuildContext" where
  "set_varList f vs c = c\<lparr>bc_varList := (bc_varList c)(f := vs)\<rparr>"

definition generate_body :: "senv \<Rightarrow> gen \<Rightarrow> scope_id \<Rightarrow> func_ref \<Rightarrow> unit build" where
  "generate_body e g s f =
     bind_b (\<lambda>c. bind_r (parameter_symbols c (sc_parameterArray (fe_scopes (se_fe e) s)) (fi_parameters (bc_finfo c f))) (\<lambda>m.
               Inr ((), push_env (se_fe e) s (Some m) (Some f) c))) (\<lambda>_.
     bind_b (createLocalSymbols (se_x e) s) (\<lambda>(local_varlist, local_symbols).
     bind_b (modify (set_varList f local_varlist)) (\<lambda>_.
     bind_b (case local_symbols of Some m \<Rightarrow> modify (updateNamedSymbolByScope (se_fe e) s m) | None \<Rightarrow> ret ()) (\<lambda>_.
     bind_b (generateChildrenFunctionScope e g s) (\<lambda>_.
     bind_b (buildStatements g (scope_statements e s)) (\<lambda>statements.
     bind_b (modify (upd_finfo f (fi_body_update (\<lambda>_. statements)))) (\<lambda>_.
     bind_b (modify pop_env) (\<lambda>_. flatten_built (se_x e) f))))))))"

definition generateFunctionScopeNodes :: "senv \<Rightarrow> builder \<Rightarrow> gen \<Rightarrow> scope_id \<Rightarrow> unit build" where
  "generateFunctionScopeNodes e expr g s =
     bind_b (scope_function e expr s) (\<lambda>f.
     bind_b (from_context (\<lambda>c. js_and (fi_ownKind (bc_finfo c f)) 8 \<noteq> 0)) (\<lambda>declared.
       if declared then ret () else generate_body e g s f))"

definition generateNamespaceScopeNodes :: "senv \<Rightarrow> gen \<Rightarrow> scope_id \<Rightarrow> semantics_node list build" where
  "generateNamespaceScopeNodes e g s =
     bind_b (modify (push_env (se_fe e) s None None)) (\<lambda>_.
     bind_b (buildStatements g (scope_statements e s)) (\<lambda>nodes.
     bind_b (modify pop_env) (\<lambda>_. ret nodes)))"

definition generateScopeNodes :: "senv \<Rightarrow> gen \<Rightarrow> scope_id \<Rightarrow> unit build" where
  "generateScopeNodes e g s =
     (let k = scope_kind (se_fe e) s
      in if k = ScopeKind.FunctionScope then g_function g s
         else if k = ScopeKind.ClassScope then generateClassScopeNodes e g s
         else if k = ScopeKind.BlockScope then ret ()
         else foreachScopeChildren e g s)"

primrec generate :: "nat \<Rightarrow> senv \<Rightarrow> gen" where
  "generate 0 e =
     \<lparr>g_stmt = (\<lambda>_. throw JSRangeError), g_function = (\<lambda>_. throw JSRangeError), g_scope = (\<lambda>_. throw JSRangeError),
      g_namespace = (\<lambda>_. throw JSRangeError)\<rparr>"
| "generate (Suc n) e =
     (let g = generate n e; expr = buildExpression n (se_x e)
      in \<lparr>g_stmt = build_statement e expr (generateChildrenFunctionScope e g) (g_stmt g),
          g_function = generateFunctionScopeNodes e expr g, g_scope = generateScopeNodes e g,
          g_namespace = generateNamespaceScopeNodes e g\<rparr>)"

definition buildStatement :: "nat \<Rightarrow> senv \<Rightarrow> stmt_builder" where
  "buildStatement n e = g_stmt (generate n e)"

section \<open>Global objects\<close>

text \<open>\<open>processTypes\<close> for one scope and the scopes in it; \<open>x_createType\<close> stands for \<open>createType\<close>.\<close>

primrec process_types :: "nat \<Rightarrow> xenv \<Rightarrow> scope_id \<Rightarrow> unit build" where
  "process_types 0 x s = throw JSRangeError"
| "process_types (Suc n) x s =
     bind_b (modify (push_env (x_fe x) s None None)) (\<lambda>_.
     bind_b (each (\<lambda>(name, t). x_createType x t) (sc_namedTypeMap (fe_scopes (x_fe x) s))) (\<lambda>_.
     bind_b (modify pop_env) (\<lambda>_.
     bind_b (each (process_types n x) (sc_children (fe_scopes (x_fe x) s))) (\<lambda>_. ret ()))))"

definition processTypes :: "nat \<Rightarrow> xenv \<Rightarrow> scope_id list \<Rightarrow> unit build" where
  "processTypes n x globals = bind_b (each (process_types n x) globals) (\<lambda>_. ret ())"

definition set_global :: "symbol \<Rightarrow> VarValue \<Rightarrow> BuildContext \<Rightarrow> BuildContext" where
  "set_global k v c = c\<lparr>globalSymbols := map_set k (VarVal v) (globalSymbols c)\<rparr>"

definition global_function :: "xenv \<Rightarrow> builder \<Rightarrow> scope_id \<Rightarrow> unit build" where
  "global_function x expr s =
     bind_b (createFunctionDeclareNode x expr s) (\<lambda>f.
       modify (\<lambda>c.
         let hd = bc_funcs c f;
             v = \<lparr>vv_kind = SemanticsValueKind_GLOBAL_CONST, vv_type = fh_funcType hd, vv_ref = None,
                  vv_index = Inr (fh_name hd), vv_node = FuncNode f, vv_shape = None\<rparr>
         in add_function f (addFunctionValue v (set_global (SymScope s) v c))))"

definition global_class :: "xenv \<Rightarrow> scope_id \<Rightarrow> unit build" where
  "global_class x s =
     bind_b (require (sc_classType (fe_scopes (x_fe x) s))) (\<lambda>ct.
     bind_b (x_createType x ct) (\<lambda>t.
     bind_b (require (classType x t)) (\<lambda>class_type.
     bind_b (require (meta_of t)) (\<lambda>meta.
     bind_b (require (meta_of class_type)) (\<lambda>class_meta.
       modify (\<lambda>c.
         let v = \<lparr>vv_kind = SemanticsValueKind_GLOBAL_CONST, vv_type = class_type, vv_ref = None,
                  vv_index = Inr (od_name (metas (bc_heap c) meta)), vv_node = ObjNode (x_objectTy x class_type),
                  vv_shape = originShape (metas (bc_heap c) class_meta)\<rparr>
         in addFunctionValue v (set_global (SymType ct) v (set_global (SymScope s) v c))))))))"

definition global_variable :: "xenv \<Rightarrow> var_id \<Rightarrow> unit build" where
  "global_variable x v =
     (let var = fe_vars (x_fe x) v;
          t = (case x_typeOf x (v_type var) of Some vt \<Rightarrow> vt | None \<Rightarrow> Primitive_Any)
      in if v_isLocal var then ret ()
         else
           bind_b (from_context (\<lambda>c. int (length (bc_globalVars c)))) (\<lambda>index.
           bind_b (new_VarDeclareNode (storage_of True var) t (v_mangledName var) index 0
                     \<lparr>di_initValue = None, di_closureIndex = None, di_belongCtx = None, di_initCtx = None, di_needReBinding = False\<rparr>) (\<lambda>d.
             modify (\<lambda>c.
               let value = \<lparr>vv_kind = storage_of True var, vv_type = t, vv_ref = Some d, vv_index = Inr (v_mangledName var),
                            vv_node = NoNode, vv_shape = None\<rparr>
               in addGlobalValue (v_mangledName var) value
                    (set_global (SymVar v) value (c\<lparr>bc_globalVars := bc_globalVars c @ [d]\<rparr>))))))"

definition global_scope :: "xenv \<Rightarrow> scope_id \<Rightarrow> unit build" where
  "global_scope x s =
     bind_b (modify (set_global (SymScope s) (namespace_value x s (sc_mangledName (fe_scopes (x_fe x) s))))) (\<lambda>_.
     bind_b (each (global_variable x) (sc_variableArray (fe_scopes (x_fe x) s))) (\<lambda>_. ret ()))"

definition global_object :: "xenv \<Rightarrow> builder \<Rightarrow> scope_id \<Rightarrow> unit build" where
  "global_object x expr s =
     (let k = scope_kind (x_fe x) s
      in if k = ScopeKind.FunctionScope then global_function x expr s
         else if k = ScopeKind.ClassScope then global_class x s
         else if k = ScopeKind.GlobalScope \<or> k = ScopeKind.NamespaceScope then global_scope x s
         else ret ())"

text \<open>
  \<open>processGlobalObjs\<close>: the environment of a scope is popped by a task that runs later. The result is
  the number of the tasks.
\<close>

primrec processGlobalObjs :: "nat \<Rightarrow> xenv \<Rightarrow> scope_id \<Rightarrow> nat build" where
  "processGlobalObjs 0 x s = throw JSRangeError"
| "processGlobalObjs (Suc n) x s =
     bind_b (modify (push_env (x_fe x) s None None)) (\<lambda>_.
     bind_b (global_object x (buildExpression n x) s) (\<lambda>_.
     bind_b (each (processGlobalObjs n x) (sc_children (fe_scopes (x_fe x) s))) (\<lambda>tasks.
       ret (Suc (sum_list tasks)))))"

definition pop_task :: "unit \<Rightarrow> BuildContext \<Rightarrow> (unit list \<times> BuildContext) result" where
  "pop_task t c = Inr ([], pop_env c)"

definition processScopesGlobalObjs :: "nat \<Rightarrow> xenv \<Rightarrow> scope_id list \<Rightarrow> nat build" where
  "processScopesGlobalObjs n x ss = bind_b (each (processGlobalObjs n x) ss) (\<lambda>tasks. ret (sum_list tasks))"

definition init_global :: "xenv \<Rightarrow> builder \<Rightarrow> var_id \<Rightarrow> unit build" where
  "init_global x expr v =
     (let var = fe_vars (x_fe x) v
      in case (v_isLocal var, v_init var) of
           (False, Some init) \<Rightarrow>
             bind_b (from_context (\<lambda>c. map_get (globalSymbols c) (SymVar v))) (\<lambda>found.
             bind_b (build_export x expr init) (\<lambda>b.
               case found of
                 Some (VarVal value) \<Rightarrow>
                   (case vv_ref value of
                      Some d \<Rightarrow>
                        bind_b (set_initValue d (b_value b)) (\<lambda>_. (\<lambda>c.
                          bind_r (shapeAssignCheck (x_fuel x) (bc_heap c) (effectType (vv_type value)) (effect_type b)) (\<lambda>ok.
                            Inr ((), if ok then c\<lparr>bc_varShape := (bc_varShape c)(d := get_shape x c b)\<rparr> else c))))
                    | None \<Rightarrow> ret ())
               | _ \<Rightarrow> throw JSTypeError))
         | _ \<Rightarrow> ret ())"

definition InitGlobalObj :: "xenv \<Rightarrow> builder \<Rightarrow> scope_id \<Rightarrow> unit build" where
  "InitGlobalObj x expr g = bind_b (each (init_global x expr) (sc_variableArray (fe_scopes (x_fe x) g))) (\<lambda>_. ret ())"

text \<open>The start function of a module. Nothing has been entered in \<open>startStmts\<close> before.\<close>

definition processGlobalStatements :: "senv \<Rightarrow> gen \<Rightarrow> scope_id \<Rightarrow> unit build" where
  "processGlobalStatements e g s =
     bind_b (buildStatements g (scope_statements e s)) (\<lambda>statements.
     bind_b (new_FunctionDeclareNode (sc_startFuncName (fe_scopes (se_fe e) s)) 64
               (x_predefined (se_x e) PredefinedTypeId_FUNC_VOID_VOID_NONE) None None None) (\<lambda>f.
     bind_b (modify (upd_finfo f (fi_body_update (\<lambda>_. statements)))) (\<lambda>_.
     bind_b (flatten_built (se_x e) f) (\<lambda>_. modify (add_function f)))))"

end
