(* ===== verification/ModuleExports.thy ===== *)
theory ModuleExports
  imports ModuleBuilder
begin

text \<open>
  The imports and exports of modules and the order of the passes over them
  (\<open>src/src/semantics/index.ts\<close>).
\<close>

section \<open>Items\<close>

text \<open>What is imported or exported: an item, or the members of a namespace.\<close>

datatype extern_target =
    ItemTarget ExternTypeKind extern_type
  | NamespaceTarget scope_id
  | NoTarget

definition is_LiteralObject :: "value_type \<Rightarrow> bool" where
  "is_LiteralObject t \<longleftrightarrow> object_flag t = Some ObjectTypeFlag.LITERAL"

definition object_target :: "xenv \<Rightarrow> object_ty \<Rightarrow> extern_target" where
  "object_target x ot =
     (let t = ot_type ot; e = ExtClass (ot_id ot) (ot_instance ot)
      in if vt_kind t = ValueTypeKind.ARRAY then NoTarget
         else if classType x t \<noteq> None then ItemTarget ExternTypeKind.CLASS e
         else if is_LiteralObject t then ItemTarget ExternTypeKind.VAR e
         else NoTarget)"

definition type_target :: "xenv \<Rightarrow> value_type \<Rightarrow> extern_target" where
  "type_target x t = (case t of
       EnumType i n mt ms \<Rightarrow> ItemTarget ExternTypeKind.ENUM (ExtEnum (nat i))
     | _ \<Rightarrow> if is_ObjectType t then object_target x (x_objectTy x t) else NoTarget)"

definition is_global_kind :: "SemanticsValueKind \<Rightarrow> bool" where
  "is_global_kind k \<longleftrightarrow> k = SemanticsValueKind_GLOBAL_VAR \<or> k = SemanticsValueKind_GLOBAL_CONST"

definition var_target :: "xenv \<Rightarrow> VarValue \<Rightarrow> extern_target result" where
  "var_target x v =
     (if \<not> is_global_kind (vv_kind v) then Inl (JSError ''Only Global value can be import export'')
      else Inr (case (vv_ref v, vv_node v) of
             (Some d, _) \<Rightarrow> ItemTarget ExternTypeKind.VAR (ExtVar d)
           | (None, FuncNode f) \<Rightarrow> ItemTarget ExternTypeKind.FUNCTION (ExtFunction f)
           | (None, ObjNode ot) \<Rightarrow> object_target x ot
           | (None, ScopeNode s) \<Rightarrow> if scope_kind (x_fe x) s = ScopeKind.NamespaceScope then NamespaceTarget s else NoTarget
           | (None, NoNode) \<Rightarrow> NoTarget))"

text \<open>A \<open>VarValue\<close> that was made for an expression; its reference is part of the value.\<close>

definition value_target :: "xenv \<Rightarrow> semantics_value \<Rightarrow> extern_target result" where
  "value_target x v = (case v of
       VarValue k t r \<Rightarrow>
         if \<not> is_global_kind k then Inl (JSError ''Only Global value can be import export'')
         else Inr (case r of
                RefVar d \<Rightarrow> ItemTarget ExternTypeKind.VAR (ExtVar (vd_id d))
              | RefFunction f \<Rightarrow> ItemTarget ExternTypeKind.FUNCTION (ExtFunction (fh_id f))
              | RefObject ot \<Rightarrow> object_target x ot
              | RefOther \<Rightarrow> (case t of EnumType i n mt ms \<Rightarrow> type_target x t | _ \<Rightarrow> NoTarget)
              | RefUndefined \<Rightarrow> NoTarget)
     | _ \<Rightarrow> Inr NoTarget)"

definition extern_target_of :: "xenv \<Rightarrow> symbol_value \<Rightarrow> extern_target result" where
  "extern_target_of x value = (case value of
       VarVal v \<Rightarrow> var_target x v
     | ValueVal b \<Rightarrow> (case b_var b of Some v \<Rightarrow> var_target x v | None \<Rightarrow> value_target x (b_value b))
     | TypeVal t \<Rightarrow> Inr (type_target x t)
     | DeclVal d \<Rightarrow> Inr (ItemTarget ExternTypeKind.VAR (ExtVar d))
     | NodeVal f \<Rightarrow> Inr (ItemTarget ExternTypeKind.FUNCTION (ExtFunction f)))"

definition addItem :: "ExternTypeKind \<Rightarrow> js_string \<Rightarrow> extern_type \<Rightarrow> ExternModule \<Rightarrow> ExternModule" where
  "addItem k name t m = m\<lparr>em_items := em_items m @ [\<lparr>it_kind = k, it_name = name, it_type = t\<rparr>]\<rparr>"

section \<open>Namespaces\<close>

text \<open>The two functions for namespaces differ in the modifier that they ask for.\<close>

definition var_selected :: "xenv \<Rightarrow> bool \<Rightarrow> var_id \<Rightarrow> bool result" where
  "var_selected x is_import v =
     (if is_import then var_isDeclare (x_fuel x) (x_fe x) v else Inr (var_isExport (fe_vars (x_fe x) v)))"

definition scope_selected :: "xenv \<Rightarrow> bool \<Rightarrow> scope_id \<Rightarrow> bool result" where
  "scope_selected x is_import s = (if is_import then isDeclare (x_fuel x) (x_fe x) s else isExport (x_fe x) s)"

type_synonym item_adder = "js_string \<Rightarrow> symbol_value \<Rightarrow> ExternModule \<Rightarrow> ExternModule build"

definition add_symbol :: "xenv \<Rightarrow> builder \<Rightarrow> item_adder \<Rightarrow> symbol \<Rightarrow> js_string \<Rightarrow> ExternModule \<Rightarrow> ExternModule build" where
  "add_symbol x expr add key name m =
     bind_b (find_key x expr key) (\<lambda>found. case found of Some v \<Rightarrow> add name v m | None \<Rightarrow> ret m)"

definition add_var :: "xenv \<Rightarrow> builder \<Rightarrow> item_adder \<Rightarrow> bool \<Rightarrow> bool \<Rightarrow> js_string \<Rightarrow> var_id \<Rightarrow> ExternModule \<Rightarrow> ExternModule build" where
  "add_var x expr add is_import whole name v m =
     bind_b (if whole then ret True else of_result (var_selected x is_import v)) (\<lambda>selected.
       if selected then add_symbol x expr add (SymVar v) (name @ js_lit ''|'' @ v_name (fe_vars (x_fe x) v)) m else ret m)"

definition add_child ::
  "xenv \<Rightarrow> builder \<Rightarrow> item_adder \<Rightarrow> (js_string \<Rightarrow> scope_id \<Rightarrow> ExternModule \<Rightarrow> ExternModule build) \<Rightarrow> bool \<Rightarrow> bool \<Rightarrow> js_string \<Rightarrow>
   scope_id \<Rightarrow> ExternModule \<Rightarrow> ExternModule build"
where
  "add_child x expr add add_namespace is_import whole name s m =
     bind_b (if whole then ret True else of_result (scope_selected x is_import s)) (\<lambda>selected.
       let k = scope_kind (x_fe x) s; item = name @ js_lit ''|'' @ sc_name (fe_scopes (x_fe x) s)
       in if \<not> selected then ret m
          else if k = ScopeKind.FunctionScope \<or> k = ScopeKind.ClassScope then add_symbol x expr add (SymScope s) item m
          else if k = ScopeKind.NamespaceScope then add_namespace item s m
          else ret m)"

text \<open>
  \<open>addImportNamespaceItems\<close> and \<open>addExportNamespaceItems\<close>, and \<open>addExternItem\<close>, which call each other.
  The first argument is the depth of the call stack.
\<close>

fun addNamespaceItems :: "nat \<Rightarrow> xenv \<Rightarrow> builder \<Rightarrow> bool \<Rightarrow> js_string \<Rightarrow> scope_id \<Rightarrow> ExternModule \<Rightarrow> ExternModule build"
and addExternItem :: "nat \<Rightarrow> xenv \<Rightarrow> builder \<Rightarrow> bool \<Rightarrow> js_string \<Rightarrow> symbol_value \<Rightarrow> ExternModule \<Rightarrow> ExternModule build"
where
  "addNamespaceItems 0 x expr is_import name ns m = throw JSRangeError"
| "addNamespaceItems (Suc n) x expr is_import name ns m =
     bind_b (of_result (scope_selected x is_import ns)) (\<lambda>whole.
     bind_b (fold_b (add_var x expr (addExternItem n x expr is_import) is_import whole name)
               (sc_variableArray (fe_scopes (x_fe x) ns)) m) (\<lambda>m.
       fold_b (add_child x expr (addExternItem n x expr is_import) (addNamespaceItems n x expr is_import) is_import whole name)
         (sc_children (fe_scopes (x_fe x) ns)) m))"
| "addExternItem 0 x expr is_import name value m = throw JSRangeError"
| "addExternItem (Suc n) x expr is_import name value m =
     bind_b (of_result (extern_target_of x value)) (\<lambda>target.
       case target of
         ItemTarget k t \<Rightarrow> ret (addItem k name t m)
       | NamespaceTarget s \<Rightarrow> addNamespaceItems n x expr is_import name s m
       | NoTarget \<Rightarrow> ret m)"

section \<open>Modules\<close>

text \<open>
  An exported expression that is no identifier gets the number of its kind as its name; the numbers are
  those of the TypeScript compiler, the argument \<open>kind_number\<close>.
\<close>

definition export_item :: "nat \<Rightarrow> xenv \<Rightarrow> builder \<Rightarrow> (nat \<Rightarrow> js_string) \<Rightarrow> fe_expr \<Rightarrow> ExternModule \<Rightarrow> ExternModule build" where
  "export_item n x expr kind_number ex m = (case ex of
       IdentifierExpression name \<Rightarrow>
         bind_b (find_symbol x expr name importSearchTypes.All) (\<lambda>found.
           case found of
             None \<Rightarrow> throw (JSError ''Cannot find the export'')
           | Some v \<Rightarrow> addExternItem n x expr False name v m)
     | OtherExpression i \<Rightarrow>
         bind_b (expr (x_exprs x i)) (\<lambda>b. addExternItem n x expr False (kind_number i) (ValueVal b) m))"

definition import_item :: "nat \<Rightarrow> xenv \<Rightarrow> builder \<Rightarrow> js_string \<Rightarrow> ExternModule \<Rightarrow> ExternModule build" where
  "import_item n x expr name m =
     bind_b (find_symbol x expr name importSearchTypes.All) (\<lambda>found.
       case found of
         None \<Rightarrow> throw (JSError ''Cannot find the import'')
       | Some v \<Rightarrow> addExternItem n x expr True name v m)"

definition module_items :: "('a \<Rightarrow> ExternModule \<Rightarrow> ExternModule build) \<Rightarrow> js_string \<Rightarrow> 'a list \<Rightarrow> ExternModule list build" where
  "module_items add name ids =
     (if ids = [] then ret []
      else bind_b (fold_b add ids \<lparr>em_name = name, em_items = []\<rparr>) (\<lambda>m. ret [m]))"

text \<open>The exports and imports of a module; its name is the name of the global scope.\<close>

definition module_externs ::
  "nat \<Rightarrow> xenv \<Rightarrow> builder \<Rightarrow> (nat \<Rightarrow> js_string) \<Rightarrow> scope_id \<Rightarrow> (ExternModule list \<times> ExternModule list) build"
where
  "module_externs n x expr kind_number g =
     (let sc = fe_scopes (x_fe x) g
      in bind_b (modify (push_env (x_fe x) g None None)) (\<lambda>_.
         bind_b (module_items (export_item n x expr kind_number) (sc_name sc) (sc_exportIdentifierList sc)) (\<lambda>exports.
         bind_b (module_items (import_item n x expr) (sc_name sc) (sc_declareIdentifierList sc)) (\<lambda>imports.
         bind_b (modify pop_env) (\<lambda>_. ret (exports, imports))))))"

definition processModuleExterns ::
  "nat \<Rightarrow> xenv \<Rightarrow> (nat \<Rightarrow> js_string) \<Rightarrow> scope_id list \<Rightarrow> (ExternModule list \<times> ExternModule list) build"
where
  "processModuleExterns n x kind_number globals =
     bind_b (each (module_externs n x (buildExpression n x) kind_number) globals) (\<lambda>rs.
       ret (concat (map fst rs), concat (map snd rs)))"

text \<open>One round of the last loop of \<open>processGlobals\<close>.\<close>

definition processGlobal :: "nat \<Rightarrow> senv \<Rightarrow> scope_id \<Rightarrow> unit build" where
  "processGlobal n e s =
     (let g = generate n e
      in bind_b (modify (push_env (se_fe e) s None None)) (\<lambda>_.
         bind_b (InitGlobalObj (se_x e) (buildExpression n (se_x e)) s) (\<lambda>_.
         bind_b (generateScopeNodes e g s) (\<lambda>_.
         bind_b (processGlobalStatements e g s) (\<lambda>_.
           modify pop_env)))))"

text \<open>
  \<open>processGlobals\<close>. The tasks that pop the environments run after all of them were pushed; \<open>describe\<close> is
  \<open>processObjectDescriptions\<close>, the creation of the shapes.
\<close>

definition processGlobals ::
  "nat \<Rightarrow> senv \<Rightarrow> unit build \<Rightarrow> (nat \<Rightarrow> js_string) \<Rightarrow> scope_id list \<Rightarrow> (ExternModule list \<times> ExternModule list) build"
where
  "processGlobals n e describe kind_number globals =
     bind_b (processTypes n (se_x e) globals) (\<lambda>_.
     bind_b (processScopesGlobalObjs n (se_x e) globals) (\<lambda>tasks.
     bind_b (\<lambda>c. bind_r (runAllTasks tasks pop_task (replicate tasks ()) c) (\<lambda>c. Inr ((), c))) (\<lambda>_.
     bind_b describe (\<lambda>_.
     bind_b (processModuleExterns n (se_x e) kind_number globals) (\<lambda>externs.
     bind_b (each (processGlobal n e) globals) (\<lambda>_. ret externs))))))"

text \<open>The groups of recursive classes without those that have an interface, and the arrays for them.\<close>

definition removeRecWhichHasInfc :: "type_heap \<Rightarrow> type_id list list \<Rightarrow> type_id list list" where
  "removeRecWhichHasInfc th groups =
     filter (\<lambda>g. \<not> list_ex (\<lambda>t. case th_types th t of TSClass c \<Rightarrow> cls_isInterface c | _ \<Rightarrow> False) g) groups"

definition setRecArraySize :: "type_id list list \<Rightarrow> 'a option list list \<Rightarrow> 'a option list list" where
  "setRecArraySize recClass recObjectType =
     (if recClass = [] then recObjectType else map (\<lambda>g. replicate (length g) None) recClass)"

end
