(* ===== verification/BuildRelation.thy ===== *)
theory BuildRelation
  imports ModuleExports
begin

text \<open>
  Relations between computations of the semantic pass. \<open>tracks E R m m'\<close> says that \<open>m'\<close> does what \<open>m\<close>
  does, unless \<open>m\<close> fails with an error of \<open>E\<close>, and that the context changes by \<open>R\<close>. The locale
  \<open>context_relation\<close> lists what a relation \<open>R\<close> has to allow so that the builders of expressions other
  than calls track themselves when the functions that they call back do; \<open>call_relation\<close> covers calls,
  and \<open>scope_relation\<close> extends it to statements and functions. With \<open>m' = m\<close> and no errors this is an invariant of the context; with \<open>R\<close> true and the
  exhausted call stack as error it says that a deeper stack changes nothing.
\<close>

definition tracks :: "(js_error \<Rightarrow> bool) \<Rightarrow> (BuildContext \<Rightarrow> BuildContext \<Rightarrow> bool) \<Rightarrow> 'a build \<Rightarrow> 'a build \<Rightarrow> bool" where
  "tracks E R m m' \<longleftrightarrow>
     (\<forall>c. case m c of Inl err \<Rightarrow> E err \<or> m' c = Inl err | Inr (y, c') \<Rightarrow> m' c = Inr (y, c') \<and> R c c')"

lemma tracksI:
  assumes "\<And>c err. m c = Inl err \<Longrightarrow> E err \<or> m' c = Inl err"
    and "\<And>c y c'. m c = Inr (y, c') \<Longrightarrow> m' c = Inr (y, c') \<and> R c c'"
  shows "tracks E R m m'"
  using assms unfolding tracks_def by (auto split: sum.split)

lemma tracks_Inr: "tracks E R m m' \<Longrightarrow> m c = Inr (y, c') \<Longrightarrow> m' c = Inr (y, c') \<and> R c c'"
  unfolding tracks_def by (drule spec [of _ c]) simp

lemma tracks_Inl: "tracks E R m m' \<Longrightarrow> m c = Inl err \<Longrightarrow> E err \<or> m' c = Inl err"
  unfolding tracks_def by (drule spec [of _ c]) simp

text \<open>A computation that only has to be compared with itself.\<close>

lemma tracks_self: "(\<And>c y c'. m c = Inr (y, c') \<Longrightarrow> R c c') \<Longrightarrow> tracks E R m m"
  by (rule tracksI) auto

definition keeps :: "(BuildContext \<Rightarrow> BuildContext \<Rightarrow> bool) \<Rightarrow> 'a build \<Rightarrow> bool" where
  "keeps R m \<longleftrightarrow> (\<forall>c y c'. m c = Inr (y, c') \<longrightarrow> R c c')"

lemma keeps_tracks: "keeps R m \<Longrightarrow> tracks E R m m"
  by (rule tracks_self) (simp add: keeps_def)

lemma tracks_keeps: "tracks E R m m \<Longrightarrow> keeps R m"
  by (auto simp: keeps_def dest: tracks_Inr)

text \<open>What the functions of \<open>type_creator.ts\<close>, which are part of the surroundings, have to respect.\<close>

definition env_keeps :: "(BuildContext \<Rightarrow> BuildContext \<Rightarrow> bool) \<Rightarrow> xenv \<Rightarrow> bool" where
  "env_keeps R x \<longleftrightarrow>
     (\<forall>t. keeps R (x_createType x t)) \<and> (\<forall>t. keeps R (x_createArrayType x t)) \<and> (\<forall>t. keeps R (x_createObjectType x t))"

locale context_relation =
  fixes E :: "js_error \<Rightarrow> bool"
    and R :: "BuildContext \<Rightarrow> BuildContext \<Rightarrow> bool"
  assumes R_refl: "R c c"
    and R_trans: "R c c' \<Longrightarrow> R c' c'' \<Longrightarrow> R c c''"
    and R_heap: "R c (c\<lparr>bc_heap := rh\<rparr>)"
    and R_refs: "R (pushReference k c) c' \<Longrightarrow> R c (popReference c')"
    and R_shape: "R c (c\<lparr>bc_varShape := s\<rparr>)"
    and R_typeIdx: "R c (c\<lparr>typeIdx := i\<rparr>)"
    and R_retype: "R c (retype_var d t c)"
    and R_lookup: "find_in_stack h name cur j c = Inr (v, c') \<Longrightarrow> R c c'"
begin

abbreviation ok :: "'a build \<Rightarrow> 'a build \<Rightarrow> bool" where
  "ok \<equiv> tracks E R"

lemma ok_ret: "ok (ret y) (ret y)"
  by (rule tracks_self) (simp add: ret_def R_refl)

lemma ok_throw: "ok (throw err) (throw err)"
  by (rule tracks_self) (simp add: throw_def)

lemma ok_exhausted: "E JSRangeError \<Longrightarrow> ok (throw JSRangeError) m"
  by (rule tracksI) (simp_all add: throw_def)

lemma ok_from_context: "ok (from_context f) (from_context f)"
  by (rule tracks_self) (simp add: from_context_def R_refl)

lemma ok_of_result: "ok (of_result r) (of_result r)"
  by (rule tracks_self) (auto simp: of_result_def R_refl)

lemma ok_on_heap: "ok (on_heap f) (on_heap f)"
  by (rule tracks_self) (auto simp: on_heap_def R_heap)

lemma ok_modify: "(\<And>c. R c (f c)) \<Longrightarrow> ok (modify f) (modify f)"
  by (rule tracks_self) (auto simp: modify_def)

lemma ok_bind:
  assumes m: "ok m m'" and f: "\<And>y. ok (f y) (f' y)"
  shows "ok (bind_b m f) (bind_b m' f')"
proof (rule tracksI)
  fix c err assume "bind_b m f c = Inl err"
  then consider "m c = Inl err" | y c1 where "m c = Inr (y, c1)" "f y c1 = Inl err"
    by (auto simp: bind_b_def bind_r_def split: sum.splits)
  then show "E err \<or> bind_b m' f' c = Inl err"
  proof cases
    case 1
    then have "E err \<or> m' c = Inl err" by (rule tracks_Inl [OF m])
    then show ?thesis by (auto simp: bind_b_def)
  next
    case 2
    then have "m' c = Inr (y, c1)" "E err \<or> f' y c1 = Inl err"
      using tracks_Inr [OF m] tracks_Inl [OF f] by simp_all
    then show ?thesis by (auto simp: bind_b_def)
  qed
next
  fix c z c' assume "bind_b m f c = Inr (z, c')"
  then obtain y c1 where "m c = Inr (y, c1)" "f y c1 = Inr (z, c')" by (auto simp: bind_b_def)
  then have "m' c = Inr (y, c1) \<and> R c c1" "f' y c1 = Inr (z, c') \<and> R c1 c'"
    using tracks_Inr [OF m] tracks_Inr [OF f] by simp_all
  then show "bind_b m' f' c = Inr (z, c') \<and> R c c'"
    by (auto simp: bind_b_def intro: R_trans)
qed

lemma ok_if: "ok m m' \<Longrightarrow> ok n n' \<Longrightarrow> ok (if b then m else n) (if b then m' else n')"
  by simp

lemma ok_prod: "(\<And>a b. ok (f a b) (f' a b)) \<Longrightarrow> ok (case_prod f p) (case_prod f' p)"
  by (cases p) simp

lemma ok_option: "ok m m' \<Longrightarrow> (\<And>a. ok (f a) (f' a)) \<Longrightarrow> ok (case_option m f p) (case_option m' f' p)"
  by (cases p) simp_all

lemma ok_list: "ok m m' \<Longrightarrow> (\<And>a as. ok (f a as) (f' a as)) \<Longrightarrow> ok (case_list m f p) (case_list m' f' p)"
  by (cases p) simp_all

lemma ok_sum: "(\<And>a. ok (f a) (f' a)) \<Longrightarrow> (\<And>b. ok (g b) (g' b)) \<Longrightarrow> ok (case_sum f g p) (case_sum f' g' p)"
  by (cases p) simp_all

lemma ok_each: "(\<And>y. ok (f y) (f' y)) \<Longrightarrow> ok (each f ys) (each f' ys)"
  by (induction ys) (auto intro!: ok_bind ok_ret)

lemma ok_each_opt: "(\<And>y. ok (f y) (f' y)) \<Longrightarrow> ok (each_opt f y) (each_opt f' y)"
  by (auto simp: each_opt_def split: option.split intro!: ok_bind ok_ret)

lemma ok_fold: "(\<And>y s. ok (f y s) (f' y s)) \<Longrightarrow> ok (fold_b f ys s) (fold_b f' ys s)"
  by (induction ys arbitrary: s) (auto intro!: ok_bind ok_ret)

lemma ok_or_else: "ok m m' \<Longrightarrow> ok n n' \<Longrightarrow> ok (or_else m n) (or_else m' n')"
  by (auto simp: or_else_def intro!: ok_bind ok_ret split: option.split)

lemma ok_reference:
  assumes m: "ok m m'"
  shows "ok (with_reference k m) (with_reference k m')"
proof (rule tracksI)
  fix c err assume "with_reference k m c = Inl err"
  then have "m (pushReference k c) = Inl err"
    by (auto simp: with_reference_def bind_b_def modify_def ret_def bind_r_def split: sum.splits)
  then have "E err \<or> m' (pushReference k c) = Inl err" by (rule tracks_Inl [OF m])
  then show "E err \<or> with_reference k m' c = Inl err"
    by (auto simp: with_reference_def bind_b_def modify_def)
next
  fix c y c' assume "with_reference k m c = Inr (y, c')"
  then obtain c1 where "m (pushReference k c) = Inr (y, c1)" "c' = popReference c1"
    by (auto simp: with_reference_def bind_b_def modify_def ret_def)
  then have "m' (pushReference k c) = Inr (y, c1) \<and> R (pushReference k c) c1" "c' = popReference c1"
    using tracks_Inr [OF m] by simp_all
  then show "with_reference k m' c = Inr (y, c') \<and> R c c'"
    by (auto simp: with_reference_def bind_b_def modify_def ret_def intro: R_refs)
qed

lemmas ok_rules =
  ok_ret ok_throw ok_from_context ok_of_result ok_on_heap ok_bind ok_if ok_prod ok_option ok_list ok_sum
  ok_each ok_each_opt ok_fold ok_or_else ok_reference

section \<open>Parts without recursion\<close>

lemma ok_new_value: "ok (new_value x v) (new_value x v)"
  unfolding new_value_def by (rule ok_from_context)

lemma ok_set_shape: "ok (set_shape s b) (set_shape s b)"
  by (rule tracks_self) (auto simp: set_shape_def R_refl R_shape split: option.splits)

lemma ok_built_var: "ok (built_var v) (built_var v)"
  unfolding built_var_def by (rule ok_from_context)

lemma ok_copy_var: "ok (copy_var x b) (copy_var x b)"
  unfolding copy_var_def by (rule ok_from_context)

lemma ok_set_type: "ok (set_type t b) (set_type t b)"
  by (rule tracks_self) (auto simp: set_type_def R_refl R_retype split: option.splits)

lemma ok_cast_to: "ok (cast_to x t b) (cast_to x t b)"
  unfolding cast_to_def by (intro ok_bind ok_on_heap ok_ret)

lemma ok_access_member: "ok (access_member x own own_name name is_call) (access_member x own own_name name is_call)"
  unfolding access_member_def
  by (intro ok_bind ok_if ok_copy_var ok_ret ok_from_context tracks_self)
    (auto simp: R_refl Let_def split: option.splits if_splits)

lemma ok_assign_shape: "ok (assign_shape x op l r) (assign_shape x op l r)"
  unfolding assign_shape_def
  by (intro ok_if ok_ret tracks_self) (auto split: if_splits simp: R_refl dest: tracks_Inr [OF ok_set_shape])

lemma ok_on_operands: "ok (\<lambda>c. on_operands (f c) l r c) (\<lambda>c. on_operands (f c) l r c)"
  by (rule tracks_self) (auto simp: on_operands_def R_heap)

lemma ok_retype_inits: "ok (retype_inits l r) (retype_inits l r)"
  unfolding retype_inits_def
  by (auto split: semantics_value.split option.split bool.split intro!: ok_bind ok_on_heap ok_ret)

lemma ok_assign_operands: "ok (assign_operands x l r) (assign_operands x l r)"
  unfolding assign_operands_def by (intro ok_rules ok_retype_inits ok_set_type ok_cast_to)

lemma ok_convert_operands: "ok (convert_operands x op l r) (convert_operands x op l r)"
  unfolding convert_operands_def Let_def by (intro ok_rules ok_on_operands ok_set_type ok_assign_operands)

lemma ok_newBinaryExprValue: "ok (newBinaryExprValue x t op l r) (newBinaryExprValue x t op l r)"
  unfolding newBinaryExprValue_def Let_def by (intro ok_rules ok_assign_shape ok_convert_operands)

lemma ok_SymbolValueToSemanticsValue: "ok (SymbolValueToSemanticsValue x v) (SymbolValueToSemanticsValue x v)"
  unfolding SymbolValueToSemanticsValue_def
  by (auto split: symbol_value.split option.split intro!: ok_rules ok_built_var)

lemma ok_getValueFromNamespace: "ok (getValueFromNamespace x ns m) (getValueFromNamespace x ns m)"
  unfolding getValueFromNamespace_def by (intro ok_rules ok_SymbolValueToSemanticsValue)

lemma ok_wide_type: "ok (wide_type x ts) (wide_type x ts)"
  by (rule tracks_self) (simp add: wide_type_def wide_type_is_first R_refl)

lemma ok_union_type: "ok (\<lambda>c. Inr (createUnionType u ts c)) (\<lambda>c. Inr (createUnionType u ts c))"
  by (rule tracks_self) (auto simp: createUnionType_def wide_type_is_first nextTypeId_def R_typeIdx)

lemmas ok_parts =
  ok_new_value ok_set_shape ok_built_var ok_copy_var ok_set_type ok_cast_to ok_access_member ok_newBinaryExprValue
  ok_SymbolValueToSemanticsValue ok_getValueFromNamespace ok_wide_type ok_union_type

end

text \<open>A call of a function pops a reference besides.\<close>

locale call_relation = context_relation +
  assumes R_pop: "R c (popReference c)"

end
