(* ===== verification/ExpressionRelation.thy ===== *)
theory ExpressionRelation
  imports BuildRelation
begin

text \<open>
  The builders of expressions in the locales \<open>context_relation\<close> and \<open>call_relation\<close>: each tracks itself when
  \<open>buildExpression\<close> does.
\<close>

context context_relation
begin

lemma ok_types:
  assumes "env_keeps R x"
  shows "ok (x_createType x t) (x_createType x t)" "ok (x_createArrayType x vt) (x_createArrayType x vt)"
    "ok (x_createObjectType x t) (x_createObjectType x t)"
  using assms by (simp_all add: env_keeps_def keeps_tracks)

text \<open>Steps over the elements of a list only.\<close>

lemma ok_each_of: "(\<And>y. y \<in> set ys \<Longrightarrow> ok (f y) (f' y)) \<Longrightarrow> ok (each f ys) (each f' ys)"
  by (induction ys) (auto intro!: ok_bind ok_ret)

lemma ok_prod_of: "(\<And>a b. p = (a, b) \<Longrightarrow> ok (f a b) (f' a b)) \<Longrightarrow> ok (case_prod f p) (case_prod f' p)"
  by (cases p) simp

text \<open>Case distinctions over types and symbols.\<close>

lemma ok_enum_type:
  assumes "\<And>i n mt ms. ok (f i n mt ms) (f' i n mt ms)" "ok q q'"
  shows "ok (case t of EnumType i n mt ms \<Rightarrow> f i n mt ms | _ \<Rightarrow> q) (case t of EnumType i n mt ms \<Rightarrow> f' i n mt ms | _ \<Rightarrow> q')"
  using assms by (cases t) simp_all

lemma ok_function_type:
  assumes "\<And>i r as os rp ep ta sa. ok (f i r as os rp ep ta sa) (f' i r as os rp ep ta sa)" "ok q q'"
  shows "ok (case t of FunctionType i r as os rp ep ta sa \<Rightarrow> f i r as os rp ep ta sa | _ \<Rightarrow> q)
     (case t of FunctionType i r as os rp ep ta sa \<Rightarrow> f' i r as os rp ep ta sa | _ \<Rightarrow> q')"
  using assms by (cases t) simp_all

lemma ok_symbol_value:
  assumes "\<And>v. ok (f v) (f' v)" "\<And>b. ok (g b) (g' b)" "ok q q'"
  shows "ok (case s of VarVal v \<Rightarrow> f v | ValueVal b \<Rightarrow> g b | _ \<Rightarrow> q) (case s of VarVal v \<Rightarrow> f' v | ValueVal b \<Rightarrow> g' b | _ \<Rightarrow> q')"
  using assms by (cases s) simp_all

lemmas ok_cases = ok_enum_type ok_function_type ok_symbol_value

section \<open>Lookups\<close>

lemma ok_build_export: "(\<And>e. ok (rec e) (rec' e)) \<Longrightarrow> ok (build_export x rec ex) (build_export x rec' ex)"
  by (simp add: build_export_def split: fe_expr.split)

lemma ok_findSymbolKey:
  assumes "\<And>ex. ok (b ex) (b' ex)"
  shows "ok (findSymbolKey h b ty key) (findSymbolKey h b' ty key)"
proof (cases "\<exists>ex. key = SymExpr ex")
  case True
  then obtain ex where "key = SymExpr ex" by blast
  then have "findSymbolKey h d ty key = bind_b (d ex) (\<lambda>v. ret (Some (ValueVal v)))" for d
    by (rule_tac ext) (simp add: findSymbolKey_def bind_b_def ret_def)
  then show ?thesis using assms by (simp add: ok_bind ok_ret)
next
  case False
  then have "findSymbolKey h b ty key = findSymbolKey h b' ty key"
    by (rule_tac ext) (auto simp: findSymbolKey_def split: symbol.split)
  moreover have "R c c'" if "findSymbolKey h b' ty key c = Inr (v, c')" for c v c'
    using False that by (cases key) (auto simp: findSymbolKey_def split: option.splits dest: R_lookup)
  ultimately show ?thesis using tracks_self [of "findSymbolKey h b' ty key"] by simp
qed

lemma ok_find_key: "(\<And>e. ok (rec e) (rec' e)) \<Longrightarrow> ok (find_key x rec key) (find_key x rec' key)"
  unfolding find_key_def by (intro ok_findSymbolKey ok_build_export)

lemma ok_findSymbol:
  assumes "\<And>ex. ok (b ex) (b' ex)"
  shows "ok (findSymbol n h b ty ident search) (findSymbol n h b' ty ident search)"
proof -
  have "findSymbol n h d ty ident search =
      bind_b (\<lambda>c. if stackEnv c = [] then Inl JSTypeError
                  else bind_r (findIdentifier n h (be_scope (last (stackEnv c))) ident True search False) (\<lambda>k. Inr (k, c)))
        (\<lambda>k. case k of None \<Rightarrow> ret None | Some k \<Rightarrow> findSymbolKey h d ty k)" for d
    by (rule ext) (auto simp: findSymbol_def bind_b_def bind_r_def ret_def split: sum.split option.split)
  then show ?thesis
    by (simp only:) (intro ok_bind ok_option ok_ret ok_findSymbolKey assms tracks_self; auto simp: R_refl split: if_splits)
qed

lemma ok_find_symbol: "(\<And>e. ok (rec e) (rec' e)) \<Longrightarrow> ok (find_symbol x rec name search) (find_symbol x rec' name search)"
  unfolding find_symbol_def by (intro ok_findSymbol ok_build_export)

lemma ok_findValueTypeByKey:
  assumes "\<And>ex. ok (b ex) (b' ex)"
  shows "ok (findValueTypeByKey h b ty key) (findValueTypeByKey h b' ty key)"
proof -
  have "findValueTypeByKey h d ty key = bind_b (findSymbolKey h d ty key) (\<lambda>found. from_context (\<lambda>c.
      case found of
              None \<Rightarrow> None
            | Some (TypeVal t) \<Rightarrow> Some t
            | Some (DeclVal d) \<Rightarrow> Some (vd_type (bc_decls c d))
            | Some (ValueVal v) \<Rightarrow> Some (sv_type (b_value v))
            | Some (VarVal v) \<Rightarrow> Some (vv_type v)
            | Some (NodeVal f) \<Rightarrow> None))" for d
    by (rule ext) (simp add: findValueTypeByKey_def bind_b_def from_context_def)
  then show ?thesis by (simp only:) (intro ok_bind ok_from_context ok_findSymbolKey assms)
qed

lemma ok_type_by_key: "(\<And>e. ok (rec e) (rec' e)) \<Longrightarrow> ok (type_by_key x rec t) (type_by_key x rec' t)"
  unfolding type_by_key_def by (intro ok_findValueTypeByKey ok_build_export)

lemma ok_value_type_of:
  assumes "\<And>e. ok (rec e) (rec' e)"
  shows "ok (value_type_of x rec t) (value_type_of x rec' t)"
proof (cases "\<exists>cl. fe_type (x_fe x) t = TSClass cl")
  case True
  then have "value_type_of x rec t = value_type_of x rec' t"
    by (rule_tac ext) (auto simp: value_type_of_def findValueType_def)
  moreover have "R c c'" if "value_type_of x rec' t c = Inr (v, c')" for c v c'
    using True that by (auto simp: value_type_of_def findValueType_def R_refl)
  ultimately show ?thesis using tracks_self [of "value_type_of x rec' t"] by simp
next
  case False
  then have "value_type_of x d t = findValueTypeByKey (x_fe x) (build_export x d) (x_typeOf x) (SymType t)" for d
    by (rule_tac ext) (auto simp: value_type_of_def findValueType_def split: ts_type.split)
  then show ?thesis using assms by (simp only:) (intro ok_findValueTypeByKey ok_build_export)
qed

lemmas ok_lookups = ok_build_export ok_find_key ok_find_symbol ok_type_by_key ok_value_type_of

section \<open>Identifiers, literals and operators\<close>

lemma ok_identifier:
  "(\<And>e. ok (rec e) (rec' e)) \<Longrightarrow> ok (buildIdentiferExpression x rec name) (buildIdentiferExpression x rec' name)"
  unfolding buildIdentiferExpression_def by (intro ok_rules ok_lookups ok_parts)

lemma ok_typeof: "(\<And>e. ok (rec e) (rec' e)) \<Longrightarrow> ok (buildTypeOfExpression x rec e) (buildTypeOfExpression x rec' e)"
  unfolding buildTypeOfExpression_def Let_def by (intro ok_rules)

lemma ok_template:
  "(\<And>e. ok (rec e) (rec' e)) \<Longrightarrow> ok (buildTemplateExpression x rec t0 spans) (buildTemplateExpression x rec' t0 spans)"
  unfolding buildTemplateExpression_def by (intro ok_rules ok_parts)

lemma ok_init_field:
  assumes "\<And>e. ok (rec e) (rec' e)"
  shows "ok (init_field x rec meta p vs) (init_field x rec' meta p vs)"
  by (cases p) (simp only: init_field_def prod.case, intro ok_rules assms)

lemma ok_object_literal:
  assumes "env_keeps R x" "\<And>e. ok (rec e) (rec' e)"
  shows "ok (buildObjectLiteralExpression x rec t names vals) (buildObjectLiteralExpression x rec' t names vals)"
  unfolding buildObjectLiteralExpression_def findObjectLiteralType_def
  by (intro ok_init_field ok_rules ok_parts ok_lookups ok_types assms)

lemma ok_array_element:
  assumes "env_keeps R x" "\<And>e. ok (rec e) (rec' e)"
  shows "ok (array_element_value x rec t element p) (array_element_value x rec' t element p)"
proof -
  have "ok (element_type_at x t element i) (element_type_at x t element i)" for i
    unfolding element_type_at_def by (auto split: ts_type.split intro!: ok_rules ok_types assms)
  then show ?thesis unfolding array_element_value_def by (intro ok_rules ok_parts assms)
qed

lemma ok_array_literal:
  assumes "env_keeps R x" "\<And>e. ok (rec e) (rec' e)"
  shows "ok (buildArrayLiteralExpression x rec t es) (buildArrayLiteralExpression x rec' t es)"
proof -
  have "ok (expected_element x t lt) (expected_element x t lt)" for lt
    unfolding expected_element_def by (auto split: ts_type.split intro!: ok_rules ok_types assms)
  moreover have "ok (finish_array x t arr bs) (finish_array x t arr bs)" for arr bs
    unfolding finish_array_def Let_def by (intro ok_rules ok_parts ok_types assms)
  ultimately show ?thesis
    unfolding buildArrayLiteralExpression_def by (intro ok_rules ok_parts ok_lookups ok_types ok_array_element assms)
qed

lemma ok_binary:
  assumes "\<And>e. ok (rec e) (rec' e)"
  shows "ok (buildBinaryExpression x rec op l r) (buildBinaryExpression x rec' op l r)"
  unfolding buildBinaryExpression_def build_right_operand_def Let_def by (intro ok_rules ok_parts assms)

lemma ok_comma:
  "(\<And>e. ok (rec e) (rec' e)) \<Longrightarrow> ok (buildCommaExpression x rec t es) (buildCommaExpression x rec' t es)"
  unfolding buildCommaExpression_def by (intro ok_rules ok_lookups)

lemma ok_conditional:
  "(\<And>e. ok (rec e) (rec' e)) \<Longrightarrow> ok (buildConditionalExpression x rec cnd t f) (buildConditionalExpression x rec' cnd t f)"
  unfolding buildConditionalExpression_def by (intro ok_rules ok_parts)

lemma ok_unary:
  assumes "\<And>e. ok (rec e) (rec' e)"
  shows "ok (buildUnaryExpression x rec is_prefix op e) (buildUnaryExpression x rec' is_prefix op e)"
  unfolding buildUnaryExpression_def Let_def
  by (intro ok_bind ok_reference assms; cases op) (auto intro!: ok_bind ok_binary assms ok_ret)

section \<open>Members, elements and calls\<close>

lemma ok_specialized_name:
  assumes "env_keeps R x" "\<And>e. ok (rec e) (rec' e)"
  shows "ok (specialized_name x rec own name t args) (specialized_name x rec' own name t args)"
  unfolding specialized_name_def by (intro ok_function_type ok_rules ok_types assms)

lemma ok_property:
  assumes "env_keeps R x" "\<And>e. ok (rec e) (rec' e)"
  shows "ok (buildPropertyAccessExpression x rec e name t args) (buildPropertyAccessExpression x rec' e name t args)"
  unfolding buildPropertyAccessExpression_def by (intro ok_enum_type ok_rules ok_parts ok_specialized_name assms)

lemma ok_element:
  assumes "env_keeps R x" "\<And>e. ok (rec e) (rec' e)"
  shows "ok (buildElementAccessExpression x rec et a b) (buildElementAccessExpression x rec' et a b)"
proof -
  have "ok (key_type x et vt) (key_type x et vt)" for vt
    unfolding key_type_def by (cases vt) (auto intro!: ok_rules ok_types assms)
  then show ?thesis
    unfolding buildElementAccessExpression_def Let_def by (intro ok_enum_type ok_rules ok_parts assms)
qed

lemma ok_as: "(\<And>e. ok (rec e) (rec' e)) \<Longrightarrow> ok (buildAsExpression x rec t e) (buildAsExpression x rec' t e)"
  unfolding buildAsExpression_def by (intro ok_rules ok_parts)

lemma ok_enumerate:
  "(\<And>e. ok (rec e) (rec' e)) \<Longrightarrow> ok (buildEnumerateKeysExpr x rec t e) (buildEnumerateKeysExpr x rec' t e)"
  unfolding buildEnumerateKeysExpr_def by (intro ok_rules ok_lookups)

lemma ok_parameters_of:
  assumes "\<And>e. e \<in> set args \<Longrightarrow> ok (rec e) (rec' e)"
  shows "ok (buildParameters x rec ft args) (buildParameters x rec' ft args)"
  unfolding buildParameters_def
  by (intro ok_each_of ok_prod_of ok_rules ok_parts assms) (auto dest: in_set_zipE simp: enumerate_eq_zip set_zip)

lemma ok_parameters:
  "(\<And>e. ok (rec e) (rec' e)) \<Longrightarrow> ok (buildParameters x rec ft args) (buildParameters x rec' ft args)"
  by (rule ok_parameters_of)

lemma ok_type_arguments:
  "(\<And>t. ok (f t) (f' t)) \<Longrightarrow> ok (buildTypeArguments x f ts) (buildTypeArguments x f' ts)"
  unfolding buildTypeArguments_def by (intro ok_rules)

lemma ok_cond: "(b \<Longrightarrow> ok m m') \<Longrightarrow> (\<not> b \<Longrightarrow> ok n n') \<Longrightarrow> ok (if b then m else n) (if b then m' else n')"
  by simp

lemma ok_guess_args:
  assumes "\<And>t. ok (f t) (f' t)"
  shows "ok (guess_args x f ps ft is as guess) (guess_args x f' ps ft is as guess)"
  using assms
proof (induction x f ps ft "is" as guess rule: guess_args.induct)
  case (1 x f ps ft i "is" a as guess)
  note f = 1(4) and IH = 1(1) [OF _ f] 1(2) [OF _ _ f] 1(3) [OF _ _ f]
  show ?case by (simp only: guess_args.simps) (intro ok_bind ok_cond ok_of_result f IH; assumption)
qed (simp_all add: ok_ret)

lemma ok_specialized_func:
  assumes "\<And>e. ok (rec e) (rec' e)"
  shows "ok (specialized_func x rec t args tas ft) (specialized_func x rec' t args tas ft)"
proof -
  have "ok (specializeFuncTypeArgumentsByArgs x (type_by_key x rec) ft as t) (specializeFuncTypeArgumentsByArgs x (type_by_key x rec') ft as t)" for as
    unfolding specializeFuncTypeArgumentsByArgs_def
    by (cases ft; cases "typeArguments ft") (auto intro!: ok_rules ok_guess_args ok_type_by_key assms)
  then show ?thesis
    unfolding specialized_func_def by (intro ok_rules ok_type_arguments ok_type_by_key assms)
qed

lemma ok_call_target: "ok (call_target x callee func) (call_target x callee func)"
proof -
  have "ok (\<lambda>c. bind_r (getClassContructorType (bc_heap c) t) (\<lambda>v. Inr (v, c))) (\<lambda>c. bind_r (getClassContructorType (bc_heap c) t) (\<lambda>v. Inr (v, c)))" for t
    by (rule tracks_self) (auto simp: R_refl)
  then show ?thesis
    unfolding call_target_def by (cases "b_value func") (auto intro!: ok_rules)
qed

section \<open>Objects, this, super and functions\<close>

lemma ok_new_class:
  assumes "\<And>e. ok (rec e) (rec' e)"
  shows "ok (buildNewClass x rec ot args ta) (buildNewClass x rec' ot args ta)"
  unfolding buildNewClass_def by (intro ok_rules ok_parameters ok_parts assms)

lemma ok_new_array:
  assumes "env_keeps R x" "\<And>e. ok (rec e) (rec' e)"
  shows "ok (buildNewArrayParameters x rec arr params) (buildNewArrayParameters x rec' arr params)"
  unfolding buildNewArrayParameters_def array_param_def Let_def by (intro ok_rules ok_parts ok_types assms)

lemma ok_new_interface:
  assumes "\<And>e. ok (rec e) (rec' e)"
  shows "ok (buildNewInterface x rec cv ot args ta) (buildNewInterface x rec' cv ot args ta)"
  unfolding buildNewInterface_def by (intro ok_function_type ok_rules ok_parameters ok_parts assms)

lemma ok_specialized_class: "ok (specialized_class x t ta cv ot) (specialized_class x t ta cv ot)"
  unfolding specialized_class_def by (intro ok_rules tracks_self) (auto simp: R_refl)

lemma ok_new:
  assumes "env_keeps R x" "\<And>e. ok (rec e) (rec' e)"
  shows "ok (buildNewExpression2 x rec t ne args len tas) (buildNewExpression2 x rec' t ne args len tas)"
  unfolding buildNewExpression2_def
  by (intro ok_rules ok_parts ok_types ok_type_arguments ok_type_by_key ok_specialized_class ok_new_class ok_new_array
      ok_new_interface assms)

lemma ok_current_class: "ok (getCurrentClassType x) (getCurrentClassType x)"
  unfolding getCurrentClassType_def by (rule tracks_self) (auto simp: R_refl split: if_splits)

lemma ok_this: "(\<And>e. ok (rec e) (rec' e)) \<Longrightarrow> ok (buildThisValue2 x rec) (buildThisValue2 x rec')"
  unfolding buildThisValue2_def by (intro ok_rules ok_current_class ok_lookups ok_parts)

lemma ok_super_property:
  assumes "\<And>e. ok (rec e) (rec' e)"
  shows "ok (super_property x rec sc st cls name) (super_property x rec' sc st cls name)"
  unfolding super_property_def by (intro ok_symbol_value ok_rules ok_parts ok_find_key assms)

lemma ok_super:
  assumes "\<And>e. ok (rec e) (rec' e)"
  shows "ok (buildSuperValue x rec property args) (buildSuperValue x rec' property args)"
  unfolding buildSuperValue_def super_call_def
  by (intro ok_rules ok_current_class ok_lookups ok_super_property ok_parameters ok_parts assms)

lemma ok_function: "ok (buildFunctionExpression s) (buildFunctionExpression s)"
  unfolding buildFunctionExpression_def by (rule tracks_self) (auto simp: R_refl split: option.splits)

end

section \<open>All expressions\<close>

context call_relation
begin

lemma ok_finish_call:
  assumes "\<And>e. ok (rec e) (rec' e)"
  shows "ok (finish_call x rec t args tas func) (finish_call x rec' t args tas func)"
  unfolding finish_call_def by (intro ok_rules ok_specialized_func ok_parameters ok_modify R_pop assms)

lemma ok_call:
  assumes "\<And>e. ok (rec e) (rec' e)"
  shows "ok (buildCallExpression x rec t callee args tas) (buildCallExpression x rec' t callee args tas)"
  unfolding buildCallExpression_def by (intro ok_rules ok_parameters ok_finish_call ok_call_target assms)

lemmas ok_builders =
  ok_identifier ok_typeof ok_template ok_object_literal ok_array_literal ok_binary ok_comma ok_conditional ok_unary
  ok_property ok_element ok_as ok_enumerate ok_call ok_new ok_this ok_super ok_function

lemma ok_build_node:
  assumes "env_keeps R x" "\<And>e. ok (rec e) (rec' e)"
  shows "ok (build_node x rec e) (build_node x rec' e)"
  unfolding build_node_def
  by (cases "x_node e") (simp_all only: expr_node.case, (intro ok_builders ok_rules assms)+)

text \<open>With a deeper call stack, if an exhausted stack is among the errors.\<close>

lemma ok_buildExpression:
  assumes "env_keeps R x" and "k = 0 \<or> E JSRangeError"
  shows "ok (buildExpression n x e) (buildExpression (n + k) x e)"
proof (induction n arbitrary: e)
  case 0
  from assms(2) show ?case by (auto simp: ok_throw ok_exhausted)
next
  case (Suc n)
  then show ?case by (simp add: ok_build_node assms(1))
qed

end

end
