(* ===== verification/StatementRelation.thy ===== *)
theory StatementRelation
  imports ExpressionRelation
begin

text \<open>
  Statements, functions and the traversal of scopes: what a relation has to allow besides, and that the
  whole generator tracks itself. An environment that is pushed is popped by the tail of the same
  computation; \<open>popping\<close> is the relation for such a tail.
\<close>

definition popping :: "(BuildContext \<Rightarrow> BuildContext \<Rightarrow> bool) \<Rightarrow> BuildContext \<Rightarrow> BuildContext \<Rightarrow> bool" where
  "popping R c c' \<longleftrightarrow> (\<exists>c1. R c c1 \<and> R (pop_env c1) c')"

locale scope_relation = call_relation +
  assumes R_push: "R (push_env h s m f c) c' \<Longrightarrow> R c (pop_env c')"
    and R_symbols: "R c (updateNamedSymbolByScope h s sy c)"
    and R_decl: "new_VarDeclareNode k t name i fl info c = Inr (d, c') \<Longrightarrow> R c c'"
    and R_info: "R c (c\<lparr>bc_info := infos\<rparr>)"
    and R_function: "new_FunctionDeclareNode name i ft ps pc tc c = Inr (fr, c') \<Longrightarrow> R c c'"
    and R_finfo: "R c (c\<lparr>bc_finfo := fi\<rparr>)"
    and R_varList: "R c (c\<lparr>bc_varList := vl\<rparr>)"
    and R_functions: "R c (add_function fr c)"
begin

abbreviation okp :: "'a build \<Rightarrow> 'a build \<Rightarrow> bool" where
  "okp \<equiv> tracks E (popping R)"

lemma okp_pop: "(\<And>u. ok (k u) (k' u)) \<Longrightarrow> okp (bind_b (modify pop_env) k) (bind_b (modify pop_env) k')"
  by (rule tracksI) (auto simp: bind_b_def modify_def popping_def intro: R_refl dest: tracks_Inl tracks_Inr)

lemma okp_bind:
  assumes m: "ok m m'" and f: "\<And>y. okp (f y) (f' y)"
  shows "okp (bind_b m f) (bind_b m' f')"
proof (rule tracksI)
  fix c err assume "bind_b m f c = Inl err"
  then consider "m c = Inl err" | y c1 where "m c = Inr (y, c1)" "f y c1 = Inl err"
    by (auto simp: bind_b_def bind_r_def split: sum.splits)
  then show "E err \<or> bind_b m' f' c = Inl err"
  proof cases
    case 1
    then have "E err \<or> m' c = Inl err" by (rule tracks_Inl [OF m])
    then show ?thesis by (auto simp: bind_b_def)
  next
    case 2
    then have "m' c = Inr (y, c1)" "E err \<or> f' y c1 = Inl err"
      using tracks_Inr [OF m] tracks_Inl [OF f] by simp_all
    then show ?thesis by (auto simp: bind_b_def)
  qed
next
  fix c z c' assume "bind_b m f c = Inr (z, c')"
  then obtain y c1 where "m c = Inr (y, c1)" "f y c1 = Inr (z, c')" by (auto simp: bind_b_def)
  then have "m' c = Inr (y, c1) \<and> R c c1" "f' y c1 = Inr (z, c') \<and> popping R c1 c'"
    using tracks_Inr [OF m] tracks_Inr [OF f] by simp_all
  then show "bind_b m' f' c = Inr (z, c') \<and> popping R c c'"
    by (auto simp: bind_b_def popping_def intro: R_trans)
qed

lemma okp_prod: "(\<And>a b. okp (f a b) (f' a b)) \<Longrightarrow> okp (case_prod f p) (case_prod f' p)"
  by (cases p) simp

lemma ok_pushed:
  assumes m: "okp m m'" and p: "\<And>c y c'. p c = Inr (y, c') \<Longrightarrow> \<exists>h s sy f. c' = push_env h s sy f c"
  shows "ok (bind_b p (\<lambda>_. m)) (bind_b p (\<lambda>_. m'))"
proof (rule tracksI)
  fix c err assume "bind_b p (\<lambda>_. m) c = Inl err"
  then show "E err \<or> bind_b p (\<lambda>_. m') c = Inl err"
    by (auto simp: bind_b_def bind_r_def split: sum.splits dest: tracks_Inl [OF m])
next
  fix c z c' assume "bind_b p (\<lambda>_. m) c = Inr (z, c')"
  then obtain y c1 where "p c = Inr (y, c1)" "m c1 = Inr (z, c')" by (auto simp: bind_b_def)
  moreover from this obtain h s sy f where "c1 = push_env h s sy f c" using p by blast
  ultimately show "bind_b p (\<lambda>_. m') c = Inr (z, c') \<and> R c c'"
    using tracks_Inr [OF m] R_push R_trans by (fastforce simp: bind_b_def popping_def)
qed

lemma ok_push: "okp m m' \<Longrightarrow> ok (bind_b (modify (push_env h s sy f)) (\<lambda>_. m)) (bind_b (modify (push_env h s sy f)) (\<lambda>_. m'))"
  by (erule ok_pushed) (auto simp: modify_def)

lemmas okp_rules = okp_pop okp_bind okp_prod

section \<open>Declarations\<close>

lemma ok_new_decl: "ok (new_VarDeclareNode k t name i fl info) (new_VarDeclareNode k t name i fl info)"
  by (rule tracks_self) (rule R_decl)

lemma ok_createFromVariable:
  assumes "env_keeps R x"
  shows "ok (createFromVariable n x g v) (createFromVariable n x g v)"
  by (induction n arbitrary: g v) (auto simp: Let_def intro!: ok_rules ok_types assms ok_new_decl)

lemma ok_local_symbols:
  assumes "env_keeps R x"
  shows "ok (createLocalSymbols x s) (createLocalSymbols x s)"
  unfolding createLocalSymbols_def local_symbol_def Let_def by (intro ok_rules ok_createFromVariable assms)

lemma ok_decl_nodes: "ok (decl_nodes ds) (decl_nodes ds)"
  unfolding decl_nodes_def by (rule ok_from_context)

lemma ok_set_initValue: "ok (set_initValue d v) (set_initValue d v)"
  unfolding set_initValue_def by (rule ok_modify) (rule R_info)

lemma ok_enter_symbols:
  "ok (case sy of Some m \<Rightarrow> modify (updateNamedSymbolByScope h s m) | None \<Rightarrow> ret ())
     (case sy of Some m \<Rightarrow> modify (updateNamedSymbolByScope h s m) | None \<Rightarrow> ret ())"
  by (intro ok_rules ok_modify R_symbols)

section \<open>Statements\<close>

lemma ok_sequence:
  "(\<And>st. ok (stmt st) (stmt' st)) \<Longrightarrow> ok (build_sequence stmt sts) (build_sequence stmt' sts)"
  unfolding build_sequence_def by (intro ok_rules)

lemma ok_with_scope:
  assumes "env_keeps R (se_x e)" "\<And>s. ok (gen s) (gen' s)" "\<And>st. ok (stmt st) (stmt' st)"
  shows "ok (block_with_scope e gen stmt s sts) (block_with_scope e gen' stmt' s sts)"
  unfolding block_with_scope_def buildStatementsWithScope_def
  by (intro ok_bind ok_prod ok_decl_nodes ok_push okp_rules ok_local_symbols ok_enter_symbols ok_sequence ok_ret assms)

lemma ok_variable_target: "ok (variable_target found v) (variable_target found v)"
  unfolding variable_target_def
  by (auto split: option.split symbol_value.split semantics_value.split var_ref.split
      intro!: ok_rules ok_set_initValue ok_built_var)

lemma ok_variable_statement:
  assumes "\<And>e. ok (rec e) (rec' e)"
  shows "ok (buildVariableStatement e rec vs) (buildVariableStatement e rec' vs)"
  unfolding buildVariableStatement_def init_variable_def Let_def
  by (intro ok_rules ok_lookups ok_variable_target ok_parts assms)

lemma ok_as_node: "(\<And>st. ok (stmt st) (stmt' st)) \<Longrightarrow> ok (buildStatementAsNode stmt st) (buildStatementAsNode stmt' st)"
  unfolding buildStatementAsNode_def by (intro ok_rules)

lemma ok_if_statement:
  assumes "\<And>e. ok (rec e) (rec' e)" "\<And>st. ok (stmt st) (stmt' st)"
  shows "ok (buildIfStatement e rec stmt cnd t f) (buildIfStatement e rec' stmt' cnd t f)"
  unfolding buildIfStatement_def by (intro ok_rules ok_parts ok_as_node assms)

lemma ok_return_statement:
  assumes "\<And>e. ok (rec e) (rec' e)"
  shows "ok (buildReturnStatement e rec ex) (buildReturnStatement e rec' ex)"
proof -
  have "ok (return_value e v) (return_value e v)" for v
    unfolding return_value_def
    by (rule tracks_self) (auto simp: R_refl Let_def split: option.splits if_splits dest: tracks_Inr [OF ok_cast_to])
  then show ?thesis unfolding buildReturnStatement_def by (intro ok_rules assms)
qed

lemma ok_loop_statement:
  assumes "\<And>e. ok (rec e) (rec' e)" "\<And>st. ok (stmt st) (stmt' st)"
  shows "ok (buildBaseLoopStatement e rec stmt w l bl cl cnd b) (buildBaseLoopStatement e rec' stmt' w l bl cl cnd b)"
  unfolding buildBaseLoopStatement_def by (intro ok_rules ok_parts ok_as_node assms)

lemma ok_for_statement:
  assumes "env_keeps R (se_x e)" "\<And>e. ok (rec e) (rec' e)" "\<And>st. ok (stmt st) (stmt' st)"
  shows "ok (buildForStatement e rec stmt s l bl cl cnd b i inc) (buildForStatement e rec' stmt' s l bl cl cnd b i inc)"
  unfolding buildForStatement_def
  by (intro ok_bind ok_prod ok_local_symbols ok_push okp_rules ok_each_opt ok_as_node ok_reference ok_ret ok_from_context
      ok_decl_nodes assms)

lemma ok_switch_statement:
  assumes "env_keeps R (se_x e)" "\<And>e. ok (rec e) (rec' e)" "\<And>s. ok (gen s) (gen' s)" "\<And>st. ok (stmt st) (stmt' st)"
  shows "ok (buildSwitchStatement e rec gen stmt cnd cb) (buildSwitchStatement e rec' gen' stmt' cnd cb)"
proof -
  have "ok (build_clause e rec gen stmt cl p) (build_clause e rec' gen' stmt' cl p)" for cl p
    unfolding build_clause_def buildCaseClauseStatements_def
    by (cases p; cases cl) (auto intro!: ok_rules ok_with_scope assms)
  then show ?thesis
    unfolding buildSwitchStatement_def by (cases cb) (auto intro!: ok_rules assms)
qed

lemma ok_try_statement:
  assumes "env_keeps R (se_x e)" "\<And>e. ok (rec e) (rec' e)" "\<And>s. ok (gen s) (gen' s)" "\<And>st. ok (stmt st) (stmt' st)"
  shows "ok (buildTryStatement e rec gen stmt l s cc fb) (buildTryStatement e rec' gen' stmt' l s cc fb)"
proof -
  have "ok (buildCatchClauseStatement e rec gen stmt cl) (buildCatchClauseStatement e rec' gen' stmt' cl)" for cl
    unfolding buildCatchClauseStatement_def buildBlock_def by (cases cl) (auto intro!: ok_rules ok_with_scope assms)
  then show ?thesis
    unfolding buildTryStatement_def buildBlock_def by (intro ok_rules ok_with_scope assms)
qed

lemma ok_function_declaration:
  assumes "\<And>e. ok (rec e) (rec' e)"
  shows "ok (buildFunctionDeclaration e rec s v) (buildFunctionDeclaration e rec' s v)"
proof -
  let ?build = "\<lambda>rec. bind_b (case v of Some v \<Rightarrow> find_key (se_x e) rec (SymVar v) | None \<Rightarrow> ret None) (\<lambda>found.
       bind_b (case found of
           None \<Rightarrow> throw (JSError ''Cannot found the function scope var'')
         | Some (VarVal v) \<Rightarrow> built_var v
         | Some (ValueVal b) \<Rightarrow> ret b
         | Some _ \<Rightarrow> throw JSTypeError) (\<lambda>var_value.
       bind_b (buildFunctionExpression s) (\<lambda>new_closure.
       bind_b (newBinaryExprValue (se_x e) (Some (built_type var_value)) EqualsToken var_value new_closure) (\<lambda>b.
         ret (Inr b)))))"
  have m: "ok (?build rec) (?build rec')"
    by (intro ok_symbol_value ok_rules ok_find_key ok_parts ok_function assms)
  show ?thesis unfolding buildFunctionDeclaration_def
    by (rule tracksI) (auto simp: R_refl split: if_splits dest: tracks_Inl [OF m] tracks_Inr [OF m])
qed

lemma ok_build_statement:
  assumes "env_keeps R (se_x e)" "\<And>e. ok (rec e) (rec' e)" "\<And>s. ok (gen s) (gen' s)" "\<And>st. ok (stmt st) (stmt' st)"
  shows "ok (build_statement e rec gen stmt st) (build_statement e rec' gen' stmt' st)"
  unfolding build_statement_def buildThrowStatement_def buildBlock_def
  by (cases st) (simp_all only: statement.case,
    (intro ok_rules ok_with_scope ok_if_statement ok_return_statement ok_loop_statement ok_for_statement ok_switch_statement
      ok_variable_statement ok_function_declaration ok_try_statement assms)+)

section \<open>Functions and scopes\<close>

lemma ok_create_function:
  assumes "env_keeps R x" "\<And>e. ok (rec e) (rec' e)"
  shows "ok (createFunctionDeclareNode x rec s) (createFunctionDeclareNode x rec' s)"
proof -
  have "ok (function_parameter x rec ft p) (function_parameter x rec' ft p)" for ft p
    unfolding function_parameter_def Let_def
    by (intro ok_rules ok_lookups ok_createFromVariable ok_new_decl assms)
  moreover have "ok (parent_closure_context x s) (parent_closure_context x s)"
    unfolding parent_closure_context_def by (intro ok_rules ok_createFromVariable assms)
  moreover have "ok (\<lambda>c. bind_r (getMethodClassType x s c) (\<lambda>t. Inr (t, c))) (\<lambda>c. bind_r (getMethodClassType x s c) (\<lambda>t. Inr (t, c)))"
    by (rule tracks_self) (auto simp: R_refl)
  moreover have "ok (new_FunctionDeclareNode name i ft ps pc tc) (new_FunctionDeclareNode name i ft ps pc tc)" for name i ft ps pc tc
    by (rule tracks_self) (rule R_function)
  ultimately show ?thesis
    unfolding createFunctionDeclareNode_def Let_def by (intro ok_rules ok_types assms)
qed

lemma ok_upd_finfo: "ok (modify (upd_finfo f g)) (modify (upd_finfo f g))"
  by (rule ok_modify) (simp add: upd_finfo_def R_finfo)

lemma ok_add_function: "ok (modify (add_function f)) (modify (add_function f))"
  by (rule ok_modify) (rule R_functions)

lemma ok_flatten_built: "ok (flatten_built x f) (flatten_built x f)"
  by (rule tracks_self) (auto simp: flatten_built_def upd_finfo_def R_finfo)

definition gen_ok :: "gen \<Rightarrow> gen \<Rightarrow> bool" where
  "gen_ok g g' \<longleftrightarrow> (\<forall>st. ok (g_stmt g st) (g_stmt g' st)) \<and> (\<forall>s. ok (g_function g s) (g_function g' s)) \<and>
     (\<forall>s. ok (g_scope g s) (g_scope g' s)) \<and> (\<forall>s. ok (g_namespace g s) (g_namespace g' s))"

lemma gen_okI:
  assumes "\<And>st. ok (g_stmt g st) (g_stmt g' st)" "\<And>s. ok (g_function g s) (g_function g' s)"
    "\<And>s. ok (g_scope g s) (g_scope g' s)" "\<And>s. ok (g_namespace g s) (g_namespace g' s)"
  shows "gen_ok g g'"
  using assms by (simp add: gen_ok_def)

lemma gen_okD:
  assumes "gen_ok g g'"
  shows "ok (g_stmt g st) (g_stmt g' st)" "ok (g_function g s) (g_function g' s)" "ok (g_scope g s) (g_scope g' s)"
    "ok (g_namespace g s) (g_namespace g' s)"
  using assms by (simp_all add: gen_ok_def)

lemma ok_children:
  assumes "gen_ok g g'"
  shows "ok (generateChildrenFunctionScope e g s) (generateChildrenFunctionScope e g' s)"
    and "ok (foreachScopeChildren e g s) (foreachScopeChildren e g' s)"
  unfolding generateChildrenFunctionScope_def generateClassScopeNodes_def foreachScopeChildren_def
  by (intro ok_rules gen_okD [OF assms])+

lemma ok_buildStatements:
  assumes "gen_ok g g'"
  shows "ok (buildStatements g sts) (buildStatements g' sts)"
proof -
  have "ok (build_in_order g st p) (build_in_order g' st p)" for st p
    unfolding build_in_order_def by (cases st) (simp_all add: ok_bind ok_ret gen_okD [OF assms])
  then show ?thesis unfolding buildStatements_def by (intro ok_rules)
qed

lemma ok_generate_body:
  assumes "env_keeps R (se_x e)" "gen_ok g g'"
  shows "ok (generate_body e g s f) (generate_body e g' s f)"
  unfolding generate_body_def set_varList_def
  by (rule ok_pushed, intro okp_rules ok_local_symbols ok_modify R_varList ok_enter_symbols ok_children ok_buildStatements
      ok_upd_finfo ok_flatten_built assms) auto

lemma ok_function_scope:
  assumes "env_keeps R (se_x e)" "\<And>e. ok (rec e) (rec' e)" "gen_ok g g'"
  shows "ok (generateFunctionScopeNodes e rec g s) (generateFunctionScopeNodes e rec' g' s)"
  unfolding generateFunctionScopeNodes_def scope_function_def
  by (intro ok_rules ok_create_function ok_add_function ok_generate_body assms)

lemma ok_namespace_scope:
  assumes "gen_ok g g'"
  shows "ok (generateNamespaceScopeNodes e g s) (generateNamespaceScopeNodes e g' s)"
  unfolding generateNamespaceScopeNodes_def by (intro ok_push okp_rules ok_buildStatements ok_ret assms)

lemma ok_scope_nodes:
  assumes "gen_ok g g'"
  shows "ok (generateScopeNodes e g s) (generateScopeNodes e g' s)"
  unfolding generateScopeNodes_def generateClassScopeNodes_def Let_def
  by (intro ok_rules ok_children gen_okD [OF assms] assms)

lemma ok_generate:
  assumes "env_keeps R (se_x e)" and "k = 0 \<or> E JSRangeError"
  shows "gen_ok (generate n e) (generate (n + k) e)"
proof (induction n)
  case 0
  from assms(2) show ?case by (auto simp: ok_throw ok_exhausted gen_ok_def)
next
  case (Suc n)
  then show ?case
    by (intro gen_okI) (simp_all add: Let_def ok_build_statement ok_buildExpression ok_children ok_function_scope ok_scope_nodes
        ok_namespace_scope gen_okD assms)
qed

end

end
