(* ===== verification/ModuleRelation.thy ===== *)
theory ModuleRelation
  imports StatementRelation
begin

text \<open>The passes over the global scopes of a program, and its imports and exports.\<close>

locale module_relation = scope_relation +
  assumes R_globals: "R c (c\<lparr>globalSymbols := gs\<rparr>)"
    and R_named: "R c (c\<lparr>namedGlobalValues := nv\<rparr>)"
    and R_globalVars: "R c (c\<lparr>bc_globalVars := gv\<rparr>)"
begin

lemma R_set_global: "R c (set_global k v c)"
  by (simp add: set_global_def R_globals)

lemma R_addGlobalValue: "R c (addGlobalValue name v c)"
  by (simp add: addGlobalValue_def R_named)

lemma R_addFunctionValue: "R c (addFunctionValue v c)"
  by (simp add: addFunctionValue_def R_addGlobalValue split: sum.split)

lemma ok_global_function:
  assumes "env_keeps R x" "\<And>e. ok (rec e) (rec' e)"
  shows "ok (global_function x rec s) (global_function x rec' s)"
  unfolding global_function_def
  by (intro ok_bind ok_create_function ok_modify assms)
    (auto simp: Let_def intro: R_trans [OF R_set_global R_trans [OF R_addFunctionValue R_functions]])

lemma ok_global_class:
  assumes "env_keeps R x"
  shows "ok (global_class x s) (global_class x s)"
  unfolding global_class_def
  by (intro ok_rules ok_types ok_modify assms)
    (auto simp: Let_def intro: R_trans [OF R_set_global R_trans [OF R_set_global R_addFunctionValue]])

lemma ok_global_variable: "ok (global_variable x v) (global_variable x v)"
  unfolding global_variable_def Let_def
  by (intro ok_rules ok_new_decl ok_modify)
    (auto intro: R_trans [OF R_globalVars R_trans [OF R_set_global R_addGlobalValue]])

lemma ok_global_object:
  assumes "env_keeps R x" "\<And>e. ok (rec e) (rec' e)"
  shows "ok (global_object x rec s) (global_object x rec' s)"
  unfolding global_object_def global_scope_def Let_def
  by (intro ok_rules ok_global_function ok_global_class ok_global_variable ok_modify R_set_global assms)

lemma ok_init_global:
  assumes "\<And>e. ok (rec e) (rec' e)"
  shows "ok (init_global x rec v) (init_global x rec' v)"
proof -
  have "ok (\<lambda>c. bind_r (shapeAssignCheck n (bc_heap c) t u) (\<lambda>ok. Inr ((), if ok then c\<lparr>bc_varShape := f c\<rparr> else c)))
          (\<lambda>c. bind_r (shapeAssignCheck n (bc_heap c) t u) (\<lambda>ok. Inr ((), if ok then c\<lparr>bc_varShape := f c\<rparr> else c)))" for n t u f
    by (rule tracks_self) (auto simp: R_refl R_shape)
  then show ?thesis
    unfolding init_global_def Let_def
    by (auto split: bool.split option.split symbol_value.split intro!: ok_bind ok_from_context ok_build_export assms ok_ret ok_throw
        ok_set_initValue)
qed

lemma ok_processGlobalStatements:
  assumes "gen_ok g g'"
  shows "ok (processGlobalStatements e g s) (processGlobalStatements e g' s)"
proof -
  have "ok (new_FunctionDeclareNode name i ft ps pc tc) (new_FunctionDeclareNode name i ft ps pc tc)" for name i ft ps pc tc
    by (rule tracks_self) (rule R_function)
  then show ?thesis
    unfolding processGlobalStatements_def
    by (intro ok_rules ok_buildStatements ok_upd_finfo ok_flatten_built ok_add_function assms)
qed

lemma ok_process_types:
  assumes "env_keeps R x" and "k = 0 \<or> E JSRangeError"
  shows "ok (process_types n x s) (process_types (n + k) x s)"
proof (induction n arbitrary: s)
  case 0
  from assms(2) show ?case by (auto simp: ok_throw ok_exhausted)
next
  case (Suc n)
  show ?case
    by (simp only: process_types.simps add_Suc) (intro ok_push okp_rules ok_rules ok_types Suc assms)
qed

section \<open>Imports and exports\<close>

lemma ok_add_symbol:
  assumes "\<And>e. ok (rec e) (rec' e)" "\<And>name v m. ok (add name v m) (add' name v m)"
  shows "ok (add_symbol x rec add key name m) (add_symbol x rec' add' key name m)"
  unfolding add_symbol_def by (intro ok_rules ok_find_key assms)

lemma ok_add_items:
  assumes "k = 0 \<or> E JSRangeError" "\<And>e. ok (rec e) (rec' e)"
  shows "ok (addNamespaceItems n x rec imp name ns m) (addNamespaceItems (n + k) x rec' imp name ns m) \<and>
    ok (addExternItem n x rec imp name v m) (addExternItem (n + k) x rec' imp name v m)"
proof (induction n arbitrary: name ns m v)
  case 0
  from assms(1) show ?case by (auto simp: ok_throw ok_exhausted)
next
  case (Suc n)
  have item: "ok (addExternItem n x rec imp name v m) (addExternItem (n + k) x rec' imp name v m)"
    and space: "ok (addNamespaceItems n x rec imp name ns m) (addNamespaceItems (n + k) x rec' imp name ns m)" for name v m ns
    using Suc by blast+
  have "ok (addNamespaceItems (Suc n) x rec imp name ns m) (addNamespaceItems (Suc n + k) x rec' imp name ns m)"
    unfolding add_Suc addNamespaceItems.simps add_var_def add_child_def Let_def
    by (intro ok_rules ok_add_symbol item space assms)
  moreover have "ok (addExternItem (Suc n) x rec imp name v m) (addExternItem (Suc n + k) x rec' imp name v m)"
    unfolding add_Suc addExternItem.simps
    by (intro ok_bind ok_of_result) (auto split: extern_target.split intro!: ok_ret space)
  ultimately show ?case by blast
qed

lemma ok_module_externs:
  assumes "k = 0 \<or> E JSRangeError" "\<And>e. ok (rec e) (rec' e)"
  shows "ok (module_externs n x rec kn g) (module_externs (n + k) x rec' kn g)"
proof -
  have item: "ok (addExternItem n x rec imp name v m) (addExternItem (n + k) x rec' imp name v m)" for imp name v m
    by (rule ok_add_items [OF assms(1), THEN conjunct2]) (rule assms(2))
  have "ok (export_item n x rec kn ex m) (export_item (n + k) x rec' kn ex m)" for ex m
    unfolding export_item_def by (cases ex) (auto intro!: ok_rules ok_find_symbol item assms)
  moreover have "ok (import_item n x rec name m) (import_item (n + k) x rec' name m)" for name m
    unfolding import_item_def by (intro ok_rules ok_find_symbol item assms)
  ultimately show ?thesis
    unfolding module_externs_def module_items_def Let_def by (intro ok_push okp_rules ok_rules)
qed

lemma ok_processModuleExterns:
  assumes "env_keeps R x" "k = 0 \<or> E JSRangeError"
  shows "ok (processModuleExterns n x kn gs) (processModuleExterns (n + k) x kn gs)"
  unfolding processModuleExterns_def by (intro ok_rules ok_module_externs ok_buildExpression assms)

lemma ok_processGlobal:
  assumes "env_keeps R (se_x e)" "k = 0 \<or> E JSRangeError"
  shows "ok (processGlobal n e s) (processGlobal (n + k) e s)"
proof -
  have pop: "okp (modify pop_env) (modify pop_env)"
    by (rule tracks_self) (auto simp: modify_def popping_def intro: R_refl)
  show ?thesis
    unfolding processGlobal_def InitGlobalObj_def Let_def
    by (intro ok_push okp_bind ok_rules ok_init_global ok_buildExpression ok_scope_nodes ok_processGlobalStatements ok_generate pop assms)
qed

end

end
