(* ===== verification/BuildProofs.thy ===== *)
theory BuildProofs
  imports ModuleRelation CaptureProofs "HOL-Library.Sublist"
begin

text \<open>
  The semantic pass as a whole: instances of \<open>module_relation\<close> for the stack of environments, the stack of
  references, the objects that were made before, and the depth of the call stack.
\<close>

section \<open>The stack of environments\<close>

definition env_skeleton :: "BuildContext \<Rightarrow> (scope_id \<times> func_ref option) list" where
  "env_skeleton c = map (\<lambda>e. (be_scope e, be_function e)) (stackEnv c)"

definition same_envs :: "BuildContext \<Rightarrow> BuildContext \<Rightarrow> bool" where
  "same_envs c c' \<longleftrightarrow> env_skeleton c' = env_skeleton c"

lemma skeleton_push: "env_skeleton (push_env h s m f c) = env_skeleton c @ [(s, f)]"
  by (simp add: env_skeleton_def push_env_def updateNamedSymbol_def Let_def)

lemma skeleton_pop: "env_skeleton (pop_env c) = butlast (env_skeleton c)"
  by (simp add: env_skeleton_def pop_env_def map_butlast)

lemma skeleton_update_last:
  "(\<And>e. be_scope (f e) = be_scope e \<and> be_function (f e) = be_function e) \<Longrightarrow>
   map (\<lambda>e. (be_scope e, be_function e)) (update_last P f es) = map (\<lambda>e. (be_scope e, be_function e)) es"
  by (induction es) auto

lemma skeleton_set_closure: "env_skeleton (set_closure j name v c) = env_skeleton c"
  by (cases "j < length (stackEnv c)")
    (simp_all add: env_skeleton_def set_closure_def map_update list_update_same_conv list_update_beyond)

lemma find_in_stack_cases:
  assumes "find_in_stack h name cur i c = Inr (v, c')" and "\<And>c. P c c"
    and "\<And>k w s w' c'. buildClosure h name k w s c = Inr (w', c') \<Longrightarrow> P c c'"
  shows "P c c'"
  using assms(1)
  by (induction i) (auto split: option.splits symbol_value.splits if_splits intro: assms(2,3))

text \<open>A capture, step by step.\<close>

lemma buildClosure_induct:
  assumes "buildClosure h name i v s c = Inr (w, c')"
    and "\<And>c. P c c" "\<And>c c' c''. P c c' \<Longrightarrow> P c' c'' \<Longrightarrow> P c c''"
    and "\<And>d c. P c (setUsed d c)"
    and "\<And>d ctx r c c'. copy_decl d ctx c = (r, c') \<Longrightarrow> P c (setUsed r c')"
    and "\<And>f d c. P c (pushClosureVar f d c)" "\<And>j name v c. P c (set_closure j name v c)"
  shows "P c c'"
proof -
  have step: "P c c'" if "capture_in h name v d root j (y, c) = Inr (w, c')" for d root j y w c c'
    using that assms(2) assms(3) [OF assms(5) assms(3) [OF assms(6,7)]]
    by (auto simp: capture_in_def Let_def split: option.splits if_splits prod.splits)
  have walk: "P c c'" if "fold_r (capture_in h name v d root) js (y, c) = Inr (w, c')" for d root js y w c c'
    using that by (induction js arbitrary: y c) (auto simp: assms(2) split: prod.splits dest!: step intro: assms(3))
  consider "c' = c" | d root js where "fold_r (capture_in h name v d root) js (v, setUsed d c) = Inr (w, c')"
    using assms(1) by (auto simp: buildClosure_def Let_def split: if_splits option.splits)
  then show ?thesis
  proof cases
    case 2
    show ?thesis by (rule assms(3) [OF assms(4) walk [OF 2]])
  qed (simp add: assms(2))
qed

lemma same_envs_lookup:
  assumes "find_in_stack h name cur i c = Inr (v, c')"
  shows "same_envs c c'"
proof (rule find_in_stack_cases [OF assms])
  fix k w s w' c' assume "buildClosure h name k w s c = Inr (w', c')"
  then show "same_envs c c'"
    by (rule buildClosure_induct)
      (simp_all add: same_envs_def skeleton_set_closure,
       auto simp: env_skeleton_def setUsed_def copy_decl_def pushClosureVar_def Let_def)
qed (simp add: same_envs_def)

interpretation envs: module_relation "\<lambda>_. False" same_envs
proof
  show "same_envs c c'" if "find_in_stack h name cur j c = Inr (v, c')" for h name cur j c v c'
    using that by (rule same_envs_lookup)
  show "same_envs c (pop_env c')" if "same_envs (push_env h s m f c) c'" for h s m f c c'
    using that by (simp add: same_envs_def skeleton_push skeleton_pop)
  show "same_envs c (updateNamedSymbolByScope h s sy c)" for c h s sy
    by (simp add: same_envs_def env_skeleton_def updateNamedSymbolByScope_def skeleton_update_last updateNamedSymbol_def
        add_symbols_def Let_def)
qed (auto simp: same_envs_def env_skeleton_def pushReference_def popReference_def retype_var_def retype_env_def
    new_VarDeclareNode_def new_FunctionDeclareNode_def add_function_def Let_def)

text \<open>
  C35. Building a statement, whatever it contains, leaves the stack of environments with the scopes and
  functions that it had, provided that the creation of types does.
\<close>

theorem scopes_restored:
  assumes "env_keeps same_envs (se_x e)" and "buildStatement n e st c = Inr (r, c')"
  shows "env_skeleton c' = env_skeleton c"
proof -
  have "envs.gen_ok (generate n e) (generate n e)" using envs.ok_generate [OF assms(1), of 0 n] by simp
  then have "tracks (\<lambda>_. False) same_envs (buildStatement n e st) (buildStatement n e st)"
    unfolding buildStatement_def by (rule envs.gen_okD)
  from tracks_Inr [OF this assms(2)] show ?thesis by (simp add: same_envs_def)
qed

text \<open>The passes over the global scopes: \<open>processGlobalObjs\<close> leaves one environment for each task that it adds.\<close>

lemma each_pushes:
  assumes "\<And>y c k c'. f y c = Inr (k, c') \<Longrightarrow> \<exists>ex. env_skeleton c' = env_skeleton c @ ex \<and> length ex = k"
    and "each f ys c = Inr (ks, c')"
  shows "\<exists>ex. env_skeleton c' = env_skeleton c @ ex \<and> length ex = sum_list ks"
  using assms(2)
proof (induction ys arbitrary: c ks)
  case Nil
  then show ?case by (simp add: ret_def)
next
  case (Cons y ys)
  then obtain k c1 js where "f y c = Inr (k, c1)" "each f ys c1 = Inr (js, c')" "ks = k # js"
    by (auto simp: bind_b_def ret_def)
  with Cons.IH [of c1 js] assms(1) [of y c k c1] show ?case by fastforce
qed

lemma processGlobalObjs_pushes:
  assumes "env_keeps same_envs x" and "processGlobalObjs n x s c = Inr (k, c')"
  shows "\<exists>ex. env_skeleton c' = env_skeleton c @ ex \<and> length ex = k"
  using assms(2)
proof (induction n arbitrary: s c k c')
  case 0
  then show ?case by (simp add: throw_def)
next
  case (Suc n)
  have rec: "tracks (\<lambda>_. False) same_envs (buildExpression n x e) (buildExpression n x e)" for e
    using envs.ok_buildExpression [OF assms(1), of 0 n] by simp
  from Suc.prems obtain u c1 ks where
    "global_object x (buildExpression n x) s (push_env (x_fe x) s None None c) = Inr (u, c1)"
    "each (processGlobalObjs n x) (sc_children (fe_scopes (x_fe x) s)) c1 = Inr (ks, c')" "k = Suc (sum_list ks)"
    by (auto simp: bind_b_def modify_def ret_def)
  moreover from this have "env_skeleton c1 = env_skeleton c @ [(s, None)]"
    using tracks_Inr [OF envs.ok_global_object [OF assms(1) rec]] by (auto simp: same_envs_def skeleton_push)
  ultimately show ?case using each_pushes [OF Suc.IH] by fastforce
qed

lemma pop_tasks: "runAllTasks k pop_task (replicate k ()) c = Inr ((pop_env ^^ k) c)"
proof -
  have "fold_r (\<lambda>t c. Inr (pop_env c)) (replicate k ()) c = Inr ((pop_env ^^ k) c)"
    by (induction k arbitrary: c) (simp_all add: funpow_swap1)
  then show ?thesis
    using runAllTasks_fold [of "replicate k ()" pop_task "\<lambda>t c. Inr (pop_env c)" k c] by (simp add: pop_task_def)
qed

lemma skeleton_pops: "env_skeleton ((pop_env ^^ k) c) = take (length (env_skeleton c) - k) (env_skeleton c)"
proof (induction k)
  case (Suc k)
  then show ?case by (simp add: skeleton_pop butlast_take min_def)
qed simp

lemma globals_popped:
  assumes "env_keeps same_envs x"
  shows "keeps same_envs (bind_b (processScopesGlobalObjs n x ss) (\<lambda>tasks.
     bind_b (\<lambda>c. bind_r (runAllTasks tasks pop_task (replicate tasks ()) c) (\<lambda>c. Inr ((), c))) (\<lambda>_. ret ())))"
  unfolding keeps_def
proof (intro allI impI)
  fix c y c'
  assume "bind_b (processScopesGlobalObjs n x ss) (\<lambda>tasks.
     bind_b (\<lambda>c. bind_r (runAllTasks tasks pop_task (replicate tasks ()) c) (\<lambda>c. Inr ((), c))) (\<lambda>_. ret ())) c = Inr (y, c')"
  then obtain ks c1 where "each (processGlobalObjs n x) ss c = Inr (ks, c1)" "c' = (pop_env ^^ sum_list ks) c1"
    by (auto simp: bind_b_def processScopesGlobalObjs_def ret_def pop_tasks)
  moreover have "\<exists>ex. env_skeleton c1 = env_skeleton c @ ex \<and> length ex = sum_list ks"
    by (rule each_pushes [OF _ calculation(1)]) (rule processGlobalObjs_pushes [OF assms])
  ultimately show "same_envs c c'" by (auto simp: same_envs_def skeleton_pops)
qed

lemma processGlobals_assoc:
  "processGlobals n e describe kn gs =
     bind_b (processTypes n (se_x e) gs) (\<lambda>_.
     bind_b (bind_b (processScopesGlobalObjs n (se_x e) gs) (\<lambda>tasks.
       bind_b (\<lambda>c. bind_r (runAllTasks tasks pop_task (replicate tasks ()) c) (\<lambda>c. Inr ((), c))) (\<lambda>_. ret ()))) (\<lambda>_.
     bind_b describe (\<lambda>_.
     bind_b (processModuleExterns n (se_x e) kn gs) (\<lambda>externs.
     bind_b (each (processGlobal n e) gs) (\<lambda>_. ret externs)))))"
  by (rule ext) (auto simp: processGlobals_def bind_b_def bind_r_def ret_def split: sum.split)


section \<open>The stack of references\<close>

definition drops_refs :: "BuildContext \<Rightarrow> BuildContext \<Rightarrow> bool" where
  "drops_refs c c' \<longleftrightarrow> prefix (valueReferenceStack c') (valueReferenceStack c)"

lemma drops_refs_lookup:
  assumes "find_in_stack h name cur i c = Inr (v, c')"
  shows "drops_refs c c'"
proof (rule find_in_stack_cases [OF assms])
  fix k w s w' c' assume "buildClosure h name k w s c = Inr (w', c')"
  then show "drops_refs c c'"
    by (rule buildClosure_induct)
      (auto simp: drops_refs_def setUsed_def copy_decl_def pushClosureVar_def set_closure_def Let_def)
qed (simp add: drops_refs_def)

lemma prefix_butlast_snoc: "prefix xs (ys @ [y]) \<Longrightarrow> prefix (butlast xs) ys"
  by (auto simp: prefix_snoc) (metis prefix_order.trans prefixeq_butlast)

interpretation refs: module_relation "\<lambda>_. False" drops_refs
proof
  show "drops_refs c c'" if "find_in_stack h name cur j c = Inr (v, c')" for h name cur j c v c'
    using that by (rule drops_refs_lookup)
  show "drops_refs c (popReference c')" if "drops_refs (pushReference k c) c'" for k c c'
    using that by (simp add: drops_refs_def pushReference_def popReference_def prefix_butlast_snoc)
  show "drops_refs c (popReference c)" for c
    by (simp add: drops_refs_def popReference_def prefixeq_butlast)
qed (auto simp: drops_refs_def retype_var_def new_VarDeclareNode_def new_FunctionDeclareNode_def add_function_def
    push_env_def pop_env_def updateNamedSymbolByScope_def Let_def)

section \<open>The depth of the call stack\<close>

interpretation depth: module_relation "\<lambda>err. err = JSRangeError" "\<lambda>_ _. True"
  by unfold_locales simp_all

lemma any_env: "env_keeps (\<lambda>_ _. True) x"
  by (simp add: env_keeps_def keeps_def)


text \<open>Building an expression with a deeper stack likewise.\<close>

lemma expression_depth_irrelevant:
  "buildExpression n x e c = Inl JSRangeError \<or> buildExpression (n + k) x e c = buildExpression n x e c"
proof -
  have "tracks (\<lambda>err. err = JSRangeError) (\<lambda>_ _. True) (buildExpression n x e) (buildExpression (n + k) x e)"
    by (rule depth.ok_buildExpression) (simp_all add: any_env)
  then show ?thesis
    by (cases "buildExpression n x e c") (auto dest: tracks_Inl tracks_Inr)
qed

section \<open>Objects that were made before\<close>

text \<open>
  What a computation keeps of the declarations and functions that exist: declarations keep all but their
  flags, functions their head; functions are added to the module at the end and only once.
\<close>

definition decl_key :: "VarDeclareNode \<Rightarrow> nat \<times> SemanticsValueKind \<times> value_type \<times> js_string \<times> int" where
  "decl_key d = (vd_id d, storageType d, vd_type d, vd_name d, vd_index d)"

definition stable :: "BuildContext \<Rightarrow> BuildContext \<Rightarrow> bool" where
  "stable c c' \<longleftrightarrow> bc_nextDecl c \<le> bc_nextDecl c' \<and> bc_nextFunc c \<le> bc_nextFunc c' \<and>
     (\<forall>d < bc_nextDecl c. decl_key (bc_decls c' d) = decl_key (bc_decls c d)) \<and>
     (\<forall>f < bc_nextFunc c. bc_funcs c' f = bc_funcs c f) \<and>
     prefix (bc_functions c) (bc_functions c') \<and> (distinct (bc_functions c) \<longrightarrow> distinct (bc_functions c'))"

lemma decl_key_used [simp]: "decl_key (setUsedByClosureFunction d) = decl_key d"
  by (simp add: decl_key_def setUsedByClosureFunction_def)

lemma stable_lookup:
  assumes "find_in_stack h name cur i c = Inr (v, c')"
  shows "stable c c'"
proof (rule find_in_stack_cases [OF assms])
  fix k w s w' c' assume "buildClosure h name k w s c = Inr (w', c')"
  then show "stable c c'"
  proof (rule buildClosure_induct)
    show "stable c c''" if "stable c c'" "stable c' c''" for c c' c''
      using that by (auto simp: stable_def)
  qed (auto simp: stable_def setUsed_def copy_decl_def pushClosureVar_def set_closure_def Let_def)
qed (simp add: stable_def)

interpretation objects: module_relation "\<lambda>_. False" stable
proof
  show "stable c c''" if "stable c c'" "stable c' c''" for c c' c''
    using that by (auto simp: stable_def)
  show "stable c c'" if "find_in_stack h name cur j c = Inr (v, c')" for h name cur j c v c'
    using that by (rule stable_lookup)
qed (auto simp: stable_def pushReference_def popReference_def retype_var_def new_VarDeclareNode_def new_FunctionDeclareNode_def
    add_function_def push_env_def pop_env_def updateNamedSymbolByScope_def Let_def)


section \<open>A sample\<close>

text \<open>Surroundings in which the creation of types yields \<open>any\<close>; the scopes are those of the nested functions, one of which has a statement.\<close>

definition sample_fe :: fe_heap where
  "sample_fe = nested_functions\<lparr>fe_scopes := (fe_scopes nested_functions)(2 := (fe_scopes nested_functions 2)\<lparr>sc_statementArray := [0]\<rparr>)\<rparr>"

definition sample_xenv :: xenv where
  "sample_xenv =
     \<lparr>x_fe = sample_fe, x_fuel = 5, x_exprs = (\<lambda>_. Expression 0 TrueLiteralExpr), x_wasm = (\<lambda>_. False),
      x_genericOwner = (\<lambda>_. None), x_other = (\<lambda>_. None),
      x_objectTy = (\<lambda>t. \<lparr>ot_id = 0, ot_type = t, ot_instance = None, ot_super = None\<rparr>), x_typeOf = (\<lambda>_. None),
      x_builtinType = (\<lambda>_. None), x_predefined = (\<lambda>_. Primitive_Any), x_typeOfMeta = (\<lambda>_. None), x_stringShape = None,
      x_createType = (\<lambda>_. ret Primitive_Any), x_createArrayType = (\<lambda>_. ret Primitive_Any),
      x_createObjectType = (\<lambda>_. ret Primitive_Any), x_specialize = (\<lambda>t _. t), x_unionInterface = (\<lambda>_ _ c. (Primitive_Any, c))\<rparr>"

definition sample_senv :: senv where
  "sample_senv = \<lparr>se_x = sample_xenv, se_stmts = (\<lambda>_. ReturnStatement (Some (Expression 0 TrueLiteralExpr)))\<rparr>"

lemma sample_env_keeps: "(\<And>c. R c c) \<Longrightarrow> env_keeps R sample_xenv"
  by (simp add: env_keeps_def keeps_def sample_xenv_def ret_def)

lemma sample_scopes [simp]:
  "x_fe sample_xenv = sample_fe" "se_x sample_senv = sample_xenv"
  "sc_statementArray (fe_scopes sample_fe 2) = [0]" "sc_children (fe_scopes sample_fe 2) = []"
  "sc_variableArray (fe_scopes sample_fe 2) = []"
  by (simp_all add: sample_xenv_def sample_senv_def sample_fe_def nested_functions_def new_scope_def)

lemma sample_block:
  "\<exists>b c'. buildStatement (Suc (Suc (Suc 0))) sample_senv (BlockStatement 2) (sample_context []) = Inr (Inl (BlockNode [ReturnNode (Some b)] None), c')"
  by (simp add: buildStatement_def Let_def build_statement_def buildBlock_def block_with_scope_def
      buildStatementsWithScope_def scope_statements_def createLocalSymbols_def namespace_symbols_def generateChildrenFunctionScope_def
      build_sequence_def buildReturnStatement_def build_node_def each_opt_def with_reference_def push_result_def decl_nodes_def
      return_value_def bind_b_def modify_def ret_def from_context_def currentFunction_def owner_function_def
      getOwnerFunctionEnv.simps push_env_def updateNamedSymbol_def sample_context_def pushReference_def popReference_def
      sample_senv_def)

theorem scopes_restored_witness:
  "\<exists>r c'. buildStatement (Suc (Suc (Suc 0))) sample_senv (BlockStatement 2) (sample_context []) = Inr (r, c') \<and>
     env_skeleton c' = env_skeleton (sample_context [])"
proof -
  have "env_keeps same_envs (se_x sample_senv)" by (simp add: sample_env_keeps same_envs_def)
  with sample_block scopes_restored show ?thesis by blast
qed


text \<open>A program of one empty module.\<close>

definition empty_module :: senv where
  "empty_module = sample_senv\<lparr>se_x := sample_xenv\<lparr>x_fe := sample_fe\<lparr>fe_scopes := (\<lambda>_. new_scope ScopeKind.GlobalScope None)\<rparr>\<rparr>\<rparr>"

lemma empty_module_fields [simp]:
  "fe_scopes (x_fe (se_x empty_module)) s = new_scope ScopeKind.GlobalScope None"
  "x_createType (se_x empty_module) t = ret Primitive_Any"
  by (simp_all add: empty_module_def sample_xenv_def)

lemma empty_module_env: "(\<And>c. R c c) \<Longrightarrow> env_keeps R (se_x empty_module)"
  by (simp add: env_keeps_def keeps_def empty_module_def sample_xenv_def ret_def)

lemma empty_flatten: "fd_body f = BlockNode [] None \<Longrightarrow> \<exists>v. flattenFunction f = Inr v"
  by (simp add: flattenFunction_def Let_def new_BlockValue_def new_FlattenContext_def flat_BLOCK_def flat_seq_def upd_block_def
      fl_push_def new_flat_block_def)

lemma empty_flatten_built: "fi_body (bc_finfo c f) = [] \<Longrightarrow> \<exists>c'. flatten_built x f c = Inr ((), c')"
  using empty_flatten [of "function_object x c f"] by (auto simp: flatten_built_def function_object_def Let_def)

lemma empty_global: "\<exists>c'. processGlobal n empty_module 0 c = Inr ((), c')"
proof -
  have "\<exists>c'. processGlobalStatements empty_module g 0 c = Inr ((), c')" for g c
  proof -
    obtain f c1 where "new_FunctionDeclareNode [] 64 (x_predefined (se_x empty_module) PredefinedTypeId_FUNC_VOID_VOID_NONE) None None None c = Inr (f, c1)"
      by (simp add: new_FunctionDeclareNode_def Let_def)
    moreover obtain c2 where "flatten_built (se_x empty_module) f (upd_finfo f (fi_body_update (\<lambda>_. [])) c1) = Inr ((), c2)"
      using empty_flatten_built [of "upd_finfo f (fi_body_update (\<lambda>_. [])) c1" f] by (auto simp: upd_finfo_def)
    ultimately show ?thesis
      by (simp add: processGlobalStatements_def buildStatements_def scope_statements_def bind_b_def modify_def ret_def new_scope_def)
  qed
  then show ?thesis
    by (simp add: processGlobal_def InitGlobalObj_def generateScopeNodes_def foreachScopeChildren_def Let_def bind_b_def modify_def
        ret_def new_scope_def bind_r_Inr_iff)
qed


end
