(* ===== verification/MemberProofs.thy ===== *)
theory MemberProofs
  imports BuildProofs ShapeProofs
begin

text \<open>
  Assignments to members: a field of a class becomes a store at its slot; a member of the result of a
  call does not become a store.
\<close>

section \<open>References around calls\<close>

definition same_refs :: "BuildContext \<Rightarrow> BuildContext \<Rightarrow> bool" where
  "same_refs c c' \<longleftrightarrow> valueReferenceStack c' = valueReferenceStack c"

lemma same_refs_lookup:
  assumes "find_in_stack h name cur i c = Inr (v, c')"
  shows "same_refs c c'"
proof (rule find_in_stack_cases [OF assms])
  fix k w s w' c' assume "buildClosure h name k w s c = Inr (w', c')"
  then show "same_refs c c'"
    by (rule buildClosure_induct)
      (auto simp: same_refs_def setUsed_def copy_decl_def pushClosureVar_def set_closure_def Let_def)
qed (simp add: same_refs_def)

interpretation exact: context_relation "\<lambda>_. False" same_refs
proof
  show "same_refs c c'" if "find_in_stack h name cur j c = Inr (v, c')" for h name cur j c v c'
    using that by (rule same_refs_lookup)
  show "same_refs c (popReference c')" if "same_refs (pushReference k c) c'" for k c c'
    using that by (simp add: same_refs_def pushReference_def popReference_def)
qed (auto simp: same_refs_def retype_var_def)

lemma type_lookup_any: "type_by_key x rec t = type_by_key x rec' t"
  by (rule ext) (simp add: type_by_key_def findValueTypeByKey_def findSymbolKey_def)

lemma specialized_func_refs: "keeps same_refs (specialized_func x rec t args tas ft)"
proof -
  have "specialized_func x rec t args tas ft = specialized_func x (\<lambda>e. throw JSTypeError) t args tas ft"
    unfolding specialized_func_def using type_lookup_any [of x rec _ "\<lambda>e. throw JSTypeError"] by presburger
  moreover have "keeps same_refs (specialized_func x (\<lambda>e. throw JSTypeError) t args tas ft)"
    by (rule tracks_keeps, rule exact.ok_specialized_func) (rule exact.ok_throw)
  ultimately show ?thesis by simp
qed

lemma parameters_refs:
  "\<forall>e \<in> set args. keeps same_refs (rec e) \<Longrightarrow> keeps same_refs (buildParameters x rec ft args)"
  by (rule tracks_keeps, rule exact.ok_parameters_of) (simp add: keeps_tracks)

text \<open>A call that is no access to \<open>toString\<close> and no call of an \<open>any\<close> pops one reference too many.\<close>

lemma finish_call_refs:
  assumes "\<forall>e \<in> set args. keeps same_refs (rec e)" and "finish_call x rec t args tas func c = Inr (b, c')"
  shows "valueReferenceStack c' = butlast (valueReferenceStack c) \<and> b_var b = None"
  using assms(2) specialized_func_refs parameters_refs [OF assms(1)]
  by (fastforce simp: finish_call_def bind_b_def of_result_def modify_def from_context_def ret_def popReference_def
      keeps_def same_refs_def split: if_splits)

lemma call_drops_reference:
  assumes "\<forall>e \<in> set (callee # args). keeps same_refs (rec e)"
    and "\<forall>c f c'. rec callee c = Inr (f, c') \<longrightarrow> \<not> is_ToStringValue (b_value f) \<and> \<not> is_any_function (b_value f)"
    and "buildCallExpression x rec t callee args tas c = Inr (b, c')"
  shows "valueReferenceStack c' = butlast (valueReferenceStack c) \<and> b_var b = None"
proof -
  have "keeps same_refs (with_reference ValueReferenceKind.RIGHT (rec callee))"
    by (rule tracks_keeps, rule exact.ok_reference, rule keeps_tracks) (use assms(1) in simp)
  moreover from assms(3) obtain f c1 where f: "with_reference ValueReferenceKind.RIGHT (rec callee) c = Inr (f, c1)"
    and rest: "bind_b (call_target x callee f) (finish_call x rec t args tas) c1 = Inr (b, c')"
    using assms(2)
    by (fastforce simp: buildCallExpression_def bind_b_def with_reference_def modify_def ret_def split: if_splits)
  moreover from rest obtain func c2 where "call_target x callee f c1 = Inr (func, c2)" "finish_call x rec t args tas func c2 = Inr (b, c')"
    by (auto simp: bind_b_def)
  ultimately show ?thesis
    using finish_call_refs [of args rec x t tas func c2 b c'] assms(1)
      tracks_Inr [OF exact.ok_call_target [of x callee f]]
    by (auto simp: keeps_def same_refs_def)
qed

section \<open>Reading and storing\<close>

lemma set_sv_type_member [simp]: "isMemberSetValue (set_sv_type t v) = isMemberSetValue v"
  by (cases v) (auto simp: set_sv_type_def isMemberSetValue_def)

lemma plain_value [simp]: "b_value (plain v) = v"
  by (simp add: plain_def)

lemma call_value_value [simp]: "b_value (call_value t v) = v"
  by (simp add: call_value_def)

lemma read_dynamic: "\<not> isMemberSetValue (createDynamicAccess v name False is_call)"
  by (simp add: createDynamicAccess_def isMemberSetValue_def Let_def)

lemma read_by_shape:
  "\<not> isMemberSetValue (b_value (createShapeAccess v member False is_call))"
  "\<not> isMemberSetValue (b_value (createVTableAccess v member False is_call))"
  by (simp_all add: createShapeAccess_def createVTableAccess_def isMemberSetValue_def Let_def)

lemma read_dynamic_typed: "\<not> isMemberSetValue (dynamic_access h v name False is_call)"
  by (simp add: dynamic_access_def Let_def read_dynamic split: option.split)

lemma read_getter: "direct_getter x c a v member g = Inr w \<Longrightarrow> \<not> isMemberSetValue w"
  by (auto simp: direct_getter_def isMemberSetValue_def Let_def bind_r_Inr_iff split: if_splits)

lemma read_direct: "createDirectGet x c a v sm member is_call = Inr b \<Longrightarrow> \<not> isMemberSetValue (b_value b)"
  by (auto simp: createDirectGet_def Let_def bind_r_Inr_iff read_getter isMemberSetValue_def [of "OffsetGetValue _ _ _"]
      isMemberSetValue_def [of "LiteralValue _ _"] isMemberSetValue_def [of "OffsetGetterValue _ _ _"]
      isMemberSetValue_def [of "OffsetCallValue _ _ _ _ _ _"] isMemberSetValue_def [of "DirectCallValue _ _ _ _ _"]
      isMemberSetValue_def [of "DirectGetValue _ _ _"] split: ShapeMember.splits if_splits)

lemma bind_b_Inr:
  assumes "bind_b m f c = Inr (b, c')"
  obtains y c1 where "m c = Inr (y, c1)" "f y c1 = Inr (b, c')"
  using assms by (auto simp: bind_b_def bind_r_Inr_iff)

lemma read_access_shape: "access_shape x own own_name name False is_call c = Inr b \<Longrightarrow> \<not> isMemberSetValue (b_value b)"
  by (auto simp: access_shape_def Let_def createDirectAccess_def read_dynamic read_dynamic_typed read_by_shape
      dest: read_direct split: if_split_asm option.split_asm)

lemma read_access:
  assumes "access_member x own own_name name is_call c = Inr (b, c')" and "currentReference c \<noteq> ValueReferenceKind.LEFT"
  shows "\<not> isMemberSetValue (b_value b)"
  using assms unfolding access_member_def
  by (elim bind_b_Inr) (auto simp: from_context_def bind_r_Inr_iff dest: read_access_shape)

text \<open>The left operand of an assignment is kept when it is no store.\<close>

lemma assign_operands_left:
  assumes "assign_operands x l r c = Inr ((store, l', r'), c')"
  shows "l' = l \<and> (store \<longrightarrow> isMemberSetValue (b_value l))"
  using assms unfolding assign_operands_def by (elim bind_b_Inr) (auto simp: ret_def bind_b_def bind_r_Inr_iff split: if_split_asm)

lemma convert_operands_left:
  assumes "convert_operands x EqualsToken l r c = Inr ((store, l', r'), c')"
  shows "l' = l \<and> (store \<longrightarrow> isMemberSetValue (b_value l))"
  using assms assign_operands_left [of x l r c store l' r' c']
  by (auto simp: convert_operands_def Let_def isCompareOperator_def isEqualOperator_def ret_def bind_b_def bind_r_Inr_iff split: if_split_asm)

lemma assign_shape_left: "assign_shape x op l r c = Inr (l', c') \<Longrightarrow> b_value l' = b_value l"
  by (auto simp: assign_shape_def set_shape_def ret_def bind_r_Inr_iff split: if_split_asm option.split_asm)

lemma assignment_operand:
  assumes "newBinaryExprValue x None EqualsToken l r c = Inr (b, c')" and "\<not> isMemberSetValue (b_value l)"
  shows "\<exists>t v. b_value b = BinaryExprValue t EqualsToken (b_value l) v"
  using assms unfolding newBinaryExprValue_def
  by (elim bind_b_Inr) (auto simp: ret_def from_context_def Let_def dest!: assign_shape_left convert_operands_left split: if_split_asm)

text \<open>A property of the result of a call, in an assignment.\<close>

lemma with_reference_Inr:
  assumes "with_reference k m c = Inr (b, c')"
  obtains c1 where "m (pushReference k c) = Inr (b, c1)" "c' = popReference c1"
  using assms by (auto simp: with_reference_def bind_b_def modify_def ret_def bind_r_Inr_iff)

lemma call_member_read:
  assumes "\<forall>e \<in> set (callee # args). keeps same_refs (rec e)"
    and "\<forall>c f c'. rec callee c = Inr (f, c') \<longrightarrow> \<not> is_ToStringValue (b_value f) \<and> \<not> is_any_function (b_value f)"
    and "rec' call = buildCallExpression x rec t callee args tas" and "identifier_name call = n"
    and "buildPropertyAccessExpression x rec' call name pt None c = Inr (b, c')"
    and "currentReference (popReference c) \<noteq> ValueReferenceKind.LEFT"
  shows "\<not> isMemberSetValue (b_value b)"
proof -
  from assms(5) obtain own c1 where own: "right (rec' call) c = Inr (own, c1)"
    and rest: "(if b_value own = NopValue then throw (JSError ''buildPropertyAccessExpression: Got NopValue'')
       else bind_b (specialized_name x rec' own name pt None) (\<lambda>name.
           case effect_type own of
             EnumType i n mt ms \<Rightarrow> of_result (enum_member name ms)
           | _ \<Rightarrow>
               if vt_kind (effect_type own) = ValueTypeKind.NAMESPACE then getValueFromNamespace x own name
               else access_member x own (identifier_name call) name ((None :: expression list option) \<noteq> None))) c1 = Inr (b, c')"
    unfolding buildPropertyAccessExpression_def by (elim bind_b_Inr)
  from own obtain c2 where "buildCallExpression x rec t callee args tas (pushReference ValueReferenceKind.RIGHT c) = Inr (own, c2)"
    "c1 = popReference c2" by (auto simp: assms(3) elim: with_reference_Inr)
  with call_drops_reference [OF assms(1,2)] have stack: "valueReferenceStack c1 = butlast (valueReferenceStack c)" "b_var own = None"
    by (auto simp: popReference_def pushReference_def)
  then have "currentReference c1 \<noteq> ValueReferenceKind.LEFT" using assms(6) by (auto simp: currentReference_def popReference_def split: if_split_asm)
  then show ?thesis
    using rest stack(2) read_access [of x own n name False c1 b c'] assms(4)
    by (auto simp: specialized_name_def bind_b_def ret_def throw_def of_result_def bind_r_Inr_iff enum_member_def
        getValueFromNamespace_def namespace_scope_def isMemberSetValue_def [of "LiteralValue _ _"] split: if_split_asm value_type.split_asm option.split_asm sum.split_asm)
qed

lemma assignment_left:
  assumes "buildBinaryExpression x rec EqualsToken l r c = Inr (b, c')"
  obtains l' c1 l'' r' c2 where "with_reference ValueReferenceKind.LEFT (rec l) c = Inr (l', c1)"
    "isMemberSetValue (b_value l'') = isMemberSetValue (b_value l')" "newBinaryExprValue x None EqualsToken l'' r' c2 = Inr (b, c')"
  using assms unfolding buildBinaryExpression_def Let_def
proof (elim bind_b_Inr)
  fix l' c1 r' c2 l'' c3 r'' c4
  assume "with_reference (if isEqualOperator EqualsToken then ValueReferenceKind.LEFT else ValueReferenceKind.RIGHT) (rec l) c = Inr (l', c1)"
    "(if isEqualOperator EqualsToken \<and> is_array_length (x_fe x) l then set_type Primitive_Int l' else ret l') c2 = Inr (l'', c3)"
    "newBinaryExprValue x None (if flattenOperator EqualsToken = EqualsToken then EqualsToken else EqualsToken) l'' r'' c4 = Inr (b, c')"
  then show thesis
    by (intro that [of l' c1 l'' r'' c4]) (auto simp: isEqualOperator_def set_type_def ret_def split: if_split_asm)
qed

lemma build_steps:
  "buildExpression (Suc n) x (Expression t (BinaryExpr op l r)) = buildBinaryExpression x (buildExpression n x) op l r"
  "buildExpression (Suc n) x (Expression t (PropertyAccessExpr own name pt es)) =
     buildPropertyAccessExpression x (buildExpression n x) own name pt es"
  "buildExpression (Suc n) x (Expression t (CallExpr callee args tas)) = buildCallExpression x (buildExpression n x) t callee args tas"
  "buildExpression (Suc n) x (Expression t (FunctionExpr s)) = buildFunctionExpression s"
  "buildExpression (Suc n) x (Expression t UndefinedKeywordExpr) = ret (plain (LiteralValue Primitive_Undefined LUndefined))"
  by (simp_all add: build_node_def)

text \<open>
  C40. An assignment to a member of the result of a call is not compiled to a store: the call removes
  the mark of the left operand from the stack of references, so the member is read, and the assignment
  remains a binary operator on the value that was read. The callee and the arguments keep the stack,
  and the callee is neither \<open>toString\<close> nor a variable of type \<open>any\<close>.
\<close>

theorem call_member_not_stored:
  assumes "\<forall>e \<in> set (callee # args). keeps same_refs (buildExpression n x e)"
    and "\<forall>c f c'. buildExpression n x callee c = Inr (f, c') \<longrightarrow> \<not> is_ToStringValue (b_value f) \<and> \<not> is_any_function (b_value f)"
    and "currentReference c \<noteq> ValueReferenceKind.LEFT"
    and "buildExpression (Suc (Suc (Suc n))) x
      (Expression t0 (BinaryExpr EqualsToken (Expression t1 (PropertyAccessExpr (Expression t2 (CallExpr callee args tas)) name pt None)) r)) c
      = Inr (b, c')"
  shows "\<exists>t l v. b_value b = BinaryExprValue t EqualsToken l v \<and> \<not> isMemberSetValue l"
proof -
  let ?call = "Expression t2 (CallExpr callee args tas)" and ?rec = "buildExpression (Suc n) x"
  from assms(4) obtain l c1 l' r' c2 where
    l: "with_reference ValueReferenceKind.LEFT (buildPropertyAccessExpression x ?rec ?call name pt None) c = Inr (l, c1)"
    and l': "isMemberSetValue (b_value l') = isMemberSetValue (b_value l)"
    and b: "newBinaryExprValue x None EqualsToken l' r' c2 = Inr (b, c')"
    unfolding build_steps(1) by (rule assignment_left) (simp add: build_steps del: buildExpression.simps)
  have "\<not> isMemberSetValue (b_value l)"
    using l by (rule with_reference_Inr)
      (rule call_member_read [OF assms(1,2), where t = t2 and tas = tas and n = "[]" and rec' = ?rec and call = ?call],
       use assms(3) in \<open>auto simp: build_steps identifier_name_def currentReference_def pushReference_def popReference_def
         simp del: buildExpression.simps\<close>)
  with l' b assignment_operand [of x l' r' c2 b c'] show ?thesis by auto
qed

definition sample_call_context :: BuildContext where
  "sample_call_context = (sample_context [])\<lparr>globalSymbols := [(SymScope 0, NodeVal 0)],
     bc_funcs := (\<lambda>f. \<lparr>fh_id = f, fh_name = [], fh_funcType = FunctionType 0 Primitive_Any [] [] (-1) 0 None None,
       fh_returnType = Primitive_Any\<rparr>)\<rparr>"

lemma function_expression:
  assumes "buildExpression (Suc n) x (Expression t (FunctionExpr s)) c = Inr (f, c')"
  shows "c' = c \<and> (\<exists>g ds. b_value f = NewClosureFunction g ds)"
  using assms by (auto simp: build_node_def buildFunctionExpression_def split: option.split_asm)

definition sample_assignment :: expression where
  "sample_assignment = Expression 0 (BinaryExpr EqualsToken
     (Expression 0 (PropertyAccessExpr (Expression 0 (CallExpr (Expression 0 (FunctionExpr 0)) [] None)) [120] 0 None))
     (Expression 0 (PropertyAccessExpr (Expression 0 UndefinedKeywordExpr) [121] 0 None)))"

lemma sample_target:
  "\<exists>v c'. buildExpression (Suc (Suc (Suc 0))) sample_xenv
     (Expression 0 (PropertyAccessExpr (Expression 0 (CallExpr (Expression 0 (FunctionExpr 0)) [] None)) [120] 0 None))
     (pushReference ValueReferenceKind.LEFT sample_call_context) = Inr (plain (DynamicGetValue v [120] False Primitive_Any), c')"
  by (simp add: build_steps buildPropertyAccessExpression_def buildCallExpression_def
      buildFunctionExpression_def with_reference_def bind_b_def modify_def ret_def from_context_def Let_def
      sample_call_context_def function_node_def specialized_name_def is_ToStringValue_def js_lit_def
      is_any_function_def call_target_def function_call_def finish_call_def specialized_func_def of_result_def required_def typeArguments_def
      access_member_def access_shape_def get_shape_def field_shape_def shape_from_type_def currentReference_def
      buildClosureInitList_def sample_context_def call_value_def plain_def is_property_access_def return_type_def set_sv_type_def
      Primitive_Any_def dynamic_access_def createDynamicAccess_def popReference_def pushReference_def del: buildExpression.simps)

lemma sample_operand:
  "buildExpression (Suc (Suc (Suc 0))) sample_xenv (Expression 0 (PropertyAccessExpr (Expression 0 UndefinedKeywordExpr) [121] 0 None))
     (pushReference ValueReferenceKind.RIGHT c) =
   Inr (plain (DynamicGetValue (LiteralValue Primitive_Undefined LUndefined) [121] False Primitive_Any), pushReference ValueReferenceKind.RIGHT c)"
  by (simp add: build_steps buildPropertyAccessExpression_def with_reference_def bind_b_def modify_def ret_def from_context_def Let_def
      specialized_name_def access_member_def access_shape_def get_shape_def field_shape_def shape_from_type_def currentReference_def
      plain_def Primitive_Undefined_def dynamic_access_def createDynamicAccess_def popReference_def pushReference_def js_lit_def
      del: buildExpression.simps)

lemma sample_assign:
  "\<exists>b c'. newBinaryExprValue sample_xenv None EqualsToken (plain (DynamicGetValue v m False Primitive_Any))
     (plain (DynamicGetValue w n False Primitive_Any)) c = Inr (b, c')"
proof -
  have "shapeAssignCheck (x_fuel sample_xenv) h Primitive_Any Primitive_Any = Inr False" for h
    using shapeAssignCheck.simps(2) [of 4 h Primitive_Any Primitive_Any] by (simp add: sample_xenv_def equals_reflexive)
  moreover have "x_genericOwner sample_xenv t = None" "effectType Primitive_Any = Primitive_Any" for t
    by (simp_all add: sample_xenv_def Primitive_Any_def)
  ultimately show ?thesis
    by (simp add: newBinaryExprValue_def assign_shape_def convert_operands_def specialized_by_def isCompareOperator_def
        isEqualOperator_def isMemberSetValue_def bind_b_def ret_def from_context_def Let_def equals_reflexive)
qed

lemma sample_assignment_built:
  "\<exists>b c'. buildExpression (Suc (Suc (Suc (Suc 0)))) sample_xenv sample_assignment sample_call_context = Inr (b, c')"
proof -
  obtain v c' where "buildExpression (Suc (Suc (Suc 0))) sample_xenv
     (Expression 0 (PropertyAccessExpr (Expression 0 (CallExpr (Expression 0 (FunctionExpr 0)) [] None)) [120] 0 None))
     (pushReference ValueReferenceKind.LEFT sample_call_context) = Inr (plain (DynamicGetValue v [120] False Primitive_Any), c')"
    using sample_target by blast
  then show ?thesis
    using sample_assign
    by (simp add: sample_assignment_def build_steps(1) buildBinaryExpression_def build_right_operand_def sample_operand
        with_reference_def bind_b_def modify_def ret_def isEqualOperator_def flattenOperator_def
        is_array_length_def literal_operand_def Let_def js_lit_def del: buildExpression.simps)
qed

theorem call_member_not_stored_witness:
  "\<exists>b c' t l v. buildExpression (Suc (Suc (Suc (Suc 0)))) sample_xenv sample_assignment sample_call_context = Inr (b, c') \<and>
     b_value b = BinaryExprValue t EqualsToken l v \<and> \<not> isMemberSetValue l"
proof -
  have f: "\<forall>e \<in> set (Expression 0 (FunctionExpr 0) # []). keeps same_refs (buildExpression (Suc 0) sample_xenv e)"
    by (auto simp: keeps_def same_refs_def dest!: function_expression simp del: buildExpression.simps)
  have g: "\<forall>c f c'. buildExpression (Suc 0) sample_xenv (Expression 0 (FunctionExpr 0)) c = Inr (f, c') \<longrightarrow>
      \<not> is_ToStringValue (b_value f) \<and> \<not> is_any_function (b_value f)"
    by (auto simp: is_ToStringValue_def is_any_function_def dest!: function_expression simp del: buildExpression.simps)
  have r: "currentReference sample_call_context \<noteq> ValueReferenceKind.LEFT"
    by (simp add: sample_call_context_def sample_context_def currentReference_def)
  obtain b c' where b: "buildExpression (Suc (Suc (Suc (Suc 0)))) sample_xenv sample_assignment sample_call_context = Inr (b, c')"
    using sample_assignment_built by blast
  from call_member_not_stored [OF f g r b [unfolded sample_assignment_def]] b show ?thesis by blast
qed

section \<open>Fields of classes\<close>

lemma complete_findMember:
  assumes "complete names fs (members od)" and "distinct names" and "i < length names"
  shows "\<exists>m. findMember (names ! i) od = Some m \<and> member_ok fs i (names ! i) m \<and> members od ! i = Some m"
proof -
  have len: "length (members od) = length names"
    and mem: "\<And>j. j < length names \<Longrightarrow> \<exists>m. members od ! j = Some m \<and> member_ok fs j (names ! j) m"
    using assms(1) by (auto simp: complete_def placed_def)
  obtain m where m: "members od ! i = Some m" "m_name m = names ! i" using mem [OF assms(3)] by (auto simp: member_ok_def)
  then have "findMember (names ! i) od \<noteq> None"
    using assms(3) len by (auto simp: findMember_None_iff) (metis nth_mem)
  then obtain m' where m': "findMember (names ! i) od = Some m'" by auto
  then obtain j where "j < length names" "members od ! j = Some m'" "m_name m' = names ! i"
    using findMember_Some [OF m'] len by (auto simp: in_set_conv_nth)
  with mem [of j] assms(2,3) have "j = i" by (auto simp: member_ok_def nth_eq_iff_index_eq)
  with \<open>members od ! j = Some m'\<close> m' mem [OF assms(3)] show ?thesis by auto
qed


definition sample_point :: BuildContext where
  "sample_point = (sample_context [])\<lparr>bc_heap := (bc_heap (sample_context []))\<lparr>metas := (\<lambda>_. (new_ObjectDescription [66] OBJECT_INSTANCE None)
     \<lparr>members := [Some (new_MemberDescription [120] MemberType.FIELD 0 False Primitive_Any None True False None)]\<rparr>)\<rparr>\<rparr>"

definition sample_owner :: built where
  "sample_owner = plain (VarValue SemanticsValueKind_GLOBAL_CONST (ObjectType 100 0 ObjectTypeFlag.OBJECT None None None None) RefOther)"


end
